(* ===== verification/Prelude.thy ===== *)
theory Prelude
  imports
    Complex_Main
    "HOL-Library.Word"
    "HOL-Library.Char_ord"
    "HOL-Library.List_Lexorder"
    "HOL-Library.Sublist"
    "HOL-Library.Log_Nat"
begin

text \<open>
  What every theory of the development shares: Go errors as values and the result type of
  fallible code, byte strings, big-endian and base64 encodings of the Go standard library,
  IEEE rounding as far as the fee formulas use it, and ordered association lists, which model
  Go maps that are iterated, TON dictionaries and the key-value database.
\<close>

named_theorems res_simps \<open>unfolding rules of the result type\<close>
named_theorems omap_laws \<open>lookup laws of ordered association lists\<close>

section \<open>Errors and results\<close>

text \<open>
  A Go error is a sentinel value, a formatted message, or a message wrapping another error
  (\<open>%w\<close>). A panic is an error value of its own: it propagates unwrapped through every caller.
\<close>

datatype gerror =
    DbErrNotFound | DbErrAlreadyExists | ErrChannelBusy
  | PayErrNotFound | ErrNewerConditionalStateIsKnown | ErrMissingBalanceInfo
  | ErrAlreadyCommitted | ErrVerificationNotPassed
  | ErrTooNew | ErrTooOld | ErrNoData | ErrUnavailable | ErrNoSuchKeyInDict | LevelErrNotFound
  | ErrNotWhitelisted | ErrNotActive | ErrDenied | ErrNotPossible | ErrChannelIsBusy | ErrActionAlreadyExists
  | ErrNotEnoughTonBalance | ErrNotEnoughBalance
  | ErrNothingToCommit | ErrNoResolveExists | ErrCannotCloseOutgoingVirtual | ErrNotIncomingDerivative
  | ErrStillPending | ErrDerivativeResolverMetaMissing
  | Errorf string
  | Wrapf string gerror
  | Panic string

type_synonym 'a res = "gerror + 'a"

text \<open>\<open>errors.Is\<close>: follow the wrap chain.\<close>

fun errors_is :: "gerror \<Rightarrow> gerror \<Rightarrow> bool" where
  "errors_is (Wrapf m e) t = (Wrapf m e = t \<or> errors_is e t)"
| "errors_is e t = (e = t)"

definition wrapf :: "string \<Rightarrow> gerror \<Rightarrow> gerror" where
  "wrapf m e = (case e of Panic p \<Rightarrow> Panic p | _ \<Rightarrow> Wrapf m e)"

fun is_panic :: "gerror \<Rightarrow> bool" where
  "is_panic (Panic _) = True"
| "is_panic _ = False"

definition rbind :: "'a res \<Rightarrow> ('a \<Rightarrow> 'b res) \<Rightarrow> 'b res" where
  "rbind m f = (case m of Inl e \<Rightarrow> Inl e | Inr x \<Rightarrow> f x)"

definition rwrap :: "string \<Rightarrow> 'a res \<Rightarrow> 'a res" where
  "rwrap msg m = (case m of Inl e \<Rightarrow> Inl (wrapf msg e) | Inr x \<Rightarrow> Inr x)"

lemma rbind_simps [simp, res_simps]:
  "rbind (Inr x) f = f x"
  "rbind (Inl e) f = Inl e"
  by (simp_all add: rbind_def)

lemma rwrap_simps [simp, res_simps]:
  "rwrap m (Inr x) = Inr x"
  "rwrap m (Inl e) = Inl (wrapf m e)"
  by (simp_all add: rwrap_def)

lemma rbind_Inr [simp]: "rbind m f = Inr y \<longleftrightarrow> (\<exists>x. m = Inr x \<and> f x = Inr y)"
  by (cases m) auto

lemma rwrap_Inr [simp]: "rwrap s m = Inr y \<longleftrightarrow> m = Inr y"
  by (cases m) auto

lemma rbind_Inl_iff: "rbind m f = Inl e \<longleftrightarrow> m = Inl e \<or> (\<exists>x. m = Inr x \<and> f x = Inl e)"
  by (cases m) auto

lemma rbind_assoc: "rbind (rbind m f) g = rbind m (\<lambda>x. rbind (f x) g)"
  by (cases m) auto

lemma rbind_cong [fundef_cong]:
  "m = n \<Longrightarrow> (\<And>x. n = Inr x \<Longrightarrow> f x = g x) \<Longrightarrow> rbind m f = rbind n g"
  by (cases n) auto

text \<open>A loop whose body may fail: the fold stops at the first error.\<close>

fun rfold :: "('a \<Rightarrow> 's \<Rightarrow> 's res) \<Rightarrow> 'a list \<Rightarrow> 's \<Rightarrow> 's res" where
  "rfold f [] s = Inr s"
| "rfold f (x # xs) s = rbind (f x s) (rfold f xs)"

lemma rfold_append: "rfold f (xs @ ys) s = rbind (rfold f xs s) (rfold f ys)"
  by (induction xs arbitrary: s) (auto simp: rbind_assoc intro: rbind_cong)

lemma rfold_inv:
  assumes "rfold f xs s = Inr t" and "P s"
    and "\<And>x u v. x \<in> set xs \<Longrightarrow> P u \<Longrightarrow> f x u = Inr v \<Longrightarrow> P v"
  shows "P t"
  using assms by (induction xs arbitrary: s) auto

lemma rfold_total:
  assumes "P s" and "\<And>x u. x \<in> set xs \<Longrightarrow> P u \<Longrightarrow> \<exists>v. f x u = Inr v \<and> P v"
  shows "\<exists>t. rfold f xs s = Inr t \<and> P t"
  using assms
proof (induction xs arbitrary: s)
  case Nil
  then show ?case by simp
next
  case (Cons x xs)
  from Cons.prems obtain v where "f x s = Inr v" "P v"
    by (meson list.set_intros(1))
  with Cons.IH [of v] Cons.prems(2) show ?case by auto
qed

text \<open>A loop that appends one result per element and stops at the first error.\<close>

fun rmap :: "('a \<Rightarrow> 'b res) \<Rightarrow> 'a list \<Rightarrow> 'b list res" where
  "rmap f [] = Inr []"
| "rmap f (x # xs) = rbind (f x) (\<lambda>y. rbind (rmap f xs) (\<lambda>ys. Inr (y # ys)))"

lemma rmap_Inr: "rmap f xs = Inr ys \<longleftrightarrow> list_all2 (\<lambda>x y. f x = Inr y) xs ys"
  by (induction xs arbitrary: ys) (auto simp: list_all2_Cons1)

text \<open>The first success of a search over a list.\<close>

fun first_some :: "('a \<Rightarrow> 'b option) \<Rightarrow> 'a list \<Rightarrow> 'b option" where
  "first_some f [] = None"
| "first_some f (x # xs) = (case f x of Some y \<Rightarrow> Some y | None \<Rightarrow> first_some f xs)"

lemma first_some_None: "first_some f xs = None \<longleftrightarrow> (\<forall>x \<in> set xs. f x = None)"
  by (induction xs) (auto split: option.splits)

lemma first_some_Some: "first_some f xs = Some y \<Longrightarrow> \<exists>x \<in> set xs. f x = Some y"
  by (induction xs) (auto split: option.splits)

section \<open>Byte strings\<close>

text \<open>Go byte slices and strings are byte sequences; a HOL \<open>char\<close> is a byte.\<close>

type_synonym bytes = string

definition zeros :: "nat \<Rightarrow> bytes" where
  "zeros n = replicate n (char_of (0::nat))"

lemma length_zeros [simp]: "length (zeros n) = n"
  by (simp add: zeros_def)

text \<open>\<open>binary.BigEndian.PutUint..\<close> into \<open>n\<close> bytes, and reading it back.\<close>

primrec be_put :: "nat \<Rightarrow> nat \<Rightarrow> bytes" where
  "be_put 0 v = []"
| "be_put (Suc n) v = be_put n (v div 256) @ [char_of (v mod 256)]"

definition be_get :: "bytes \<Rightarrow> nat" where
  "be_get bs = foldl (\<lambda>a c. a * 256 + of_char c) 0 bs"

lemma length_be_put [simp]: "length (be_put n v) = n"
  by (induction n arbitrary: v) auto

lemma be_get_snoc [simp]: "be_get (bs @ [c]) = be_get bs * 256 + of_char c"
  by (simp add: be_get_def)

lemma be_get_Nil [simp]: "be_get [] = 0"
  by (simp add: be_get_def)

lemma of_char_char_of_mod [simp]: "of_char (char_of (v mod 256) :: char) = (v mod 256 :: nat)"
  by (simp add: of_char_of)

lemma be_get_put: "v < 256 ^ n \<Longrightarrow> be_get (be_put n v) = v"
proof (induction n arbitrary: v)
  case 0
  then show ?case by simp
next
  case (Suc n)
  then have "v div 256 < 256 ^ n"
    by (simp add: less_mult_imp_div_less mult.commute)
  with Suc.IH show ?case by simp
qed

lemma be_put_inj: "v < 256 ^ n \<Longrightarrow> w < 256 ^ n \<Longrightarrow> be_put n v = be_put n w \<Longrightarrow> v = w"
  by (metis be_get_put)

text \<open>
  Big-endian keys sort like the numbers they encode: this is what makes the byte order of the
  database the processing order of tasks and states.
\<close>

lemma lexord_append_same_length:
  fixes xs ys :: "'a::linorder list"
  assumes "length xs = length ys"
  shows "xs @ us < ys @ vs \<longleftrightarrow> xs < ys \<or> xs = ys \<and> us < vs"
  using assms by (induction xs ys rule: list_induct2) auto

lemma div_mod_less_iff:
  "(v::nat) < w \<longleftrightarrow> v div 256 < w div 256 \<or> v div 256 = w div 256 \<and> v mod 256 < w mod 256"
proof -
  have "v = 256 * (v div 256) + v mod 256" "w = 256 * (w div 256) + w mod 256"
    and "v mod 256 < 256" "w mod 256 < 256"
    by simp_all
  then show ?thesis by linarith
qed

lemma be_put_less_iff:
  "v < 256 ^ n \<Longrightarrow> w < 256 ^ n \<Longrightarrow> be_put n v < be_put n w \<longleftrightarrow> v < w"
proof (induction n arbitrary: v w)
  case 0
  then show ?case by simp
next
  case (Suc n)
  have lt: "v div 256 < 256 ^ n" "w div 256 < 256 ^ n"
    using Suc.prems by (simp_all add: less_mult_imp_div_less mult.commute)
  have last: "[char_of (v mod 256) :: char] < [char_of (w mod 256)] \<longleftrightarrow> v mod 256 < w mod 256"
    by (simp add: less_char_def)
  have "be_put (Suc n) v < be_put (Suc n) w \<longleftrightarrow>
      v div 256 < w div 256 \<or> v div 256 = w div 256 \<and> v mod 256 < w mod 256"
    using lexord_append_same_length [of "be_put n (v div 256)" "be_put n (w div 256)"] last
      Suc.IH [OF lt] be_put_inj [OF lt] by auto
  also have "\<dots> \<longleftrightarrow> v < w"
    by (rule div_mod_less_iff [symmetric])
  finally show ?case .
qed

section \<open>Hexadecimal and base64 text\<close>

text \<open>\<open>hex.EncodeToString\<close> and \<open>hex.DecodeString\<close> (\<open>None\<close>: the decoder reports an error).\<close>

definition hex_digit :: "nat \<Rightarrow> char" where
  "hex_digit n = char_of (if n < 10 then 48 + n else 87 + n)"

fun hex_encode :: "bytes \<Rightarrow> string" where
  "hex_encode [] = []"
| "hex_encode (b # bs) =
     hex_digit (of_char b div 16) # hex_digit (of_char b mod 16) # hex_encode bs"

definition hex_value :: "char \<Rightarrow> nat option" where
  "hex_value c = (let n = (of_char c :: nat) in
     if 48 \<le> n \<and> n \<le> 57 then Some (n - 48)
     else if 97 \<le> n \<and> n \<le> 102 then Some (n - 87)
     else if 65 \<le> n \<and> n \<le> 70 then Some (n - 55)
     else None)"

fun hex_decode :: "string \<Rightarrow> bytes option" where
  "hex_decode [] = Some []"
| "hex_decode [c] = None"
| "hex_decode (a # b # cs) =
     (case (hex_value a, hex_value b, hex_decode cs) of
        (Some x, Some y, Some bs) \<Rightarrow> Some (char_of (16 * x + y) # bs)
      | _ \<Rightarrow> None)"

lemma hex_value_digit: "n < 16 \<Longrightarrow> hex_value (hex_digit n) = Some n"
  by (auto simp: hex_value_def hex_digit_def Let_def of_char_of)

lemma hex_decode_encode [simp]: "hex_decode (hex_encode bs) = Some bs"
proof (induction bs)
  case Nil
  then show ?case by simp
next
  case (Cons b bs)
  have "of_char b < (256::nat)"
    by simp
  then have "of_char b div 16 < (16::nat)" "of_char b mod 16 < (16::nat)"
    by (simp_all add: div_less_iff_less_mult)
  with Cons.IH show ?case
    by (simp add: hex_value_digit char_of_char)
qed

lemma hex_encode_inj [simp]: "hex_encode a = hex_encode b \<longleftrightarrow> a = b"
  by (metis hex_decode_encode option.inject)

text \<open>\<open>base64.StdEncoding.EncodeToString\<close>: three bytes as four sextets, \<open>=\<close> as padding.\<close>

definition b64_digit :: "nat \<Rightarrow> char" where
  "b64_digit n = char_of (if n < 26 then 65 + n else if n < 52 then 71 + n
     else if n < 62 then n - 4 else if n = 62 then 43 else 47)"

fun b64_encode :: "bytes \<Rightarrow> string" where
  "b64_encode [] = []"
| "b64_encode [a] = (let x = of_char a in
     [b64_digit (x div 4), b64_digit (x mod 4 * 16), CHR ''='', CHR ''=''])"
| "b64_encode [a, b] = (let x = of_char a; y = of_char b in
     [b64_digit (x div 4), b64_digit (x mod 4 * 16 + y div 16), b64_digit (y mod 16 * 4), CHR ''=''])"
| "b64_encode (a # b # c # bs) = (let x = of_char a; y = of_char b; z = of_char c in
     b64_digit (x div 4) # b64_digit (x mod 4 * 16 + y div 16) #
     b64_digit (y mod 16 * 4 + z div 64) # b64_digit (z mod 64) # b64_encode bs)"

definition b64_code :: "nat \<Rightarrow> nat" where
  "b64_code n = (if n < 26 then 65 + n else if n < 52 then 71 + n
     else if n < 62 then n - 4 else if n = 62 then 43 else 47)"

lemma of_char_b64_digit: "n < 64 \<Longrightarrow> of_char (b64_digit n) = b64_code n"
  by (auto simp: b64_digit_def b64_code_def of_char_of)

lemma b64_code_inj: "m < 64 \<Longrightarrow> n < 64 \<Longrightarrow> b64_code m = b64_code n \<Longrightarrow> m = n"
  by (auto simp: b64_code_def split: if_splits)

lemma b64_code_not_pad: "n < 64 \<Longrightarrow> b64_code n \<noteq> 61"
  by (auto simp: b64_code_def)

lemma b64_digit_inj: "m < 64 \<Longrightarrow> n < 64 \<Longrightarrow> b64_digit m = b64_digit n \<longleftrightarrow> m = n"
  by (metis of_char_b64_digit b64_code_inj)

lemma b64_digit_not_pad: "n < 64 \<Longrightarrow> b64_digit n \<noteq> CHR ''=''"
  using of_char_b64_digit [of n] b64_code_not_pad [of n] by auto

lemma sextets_inj:
  assumes "x < 256" "y < 256" "z < 256" "x' < 256" "y' < 256" "z' < (256::nat)"
    and "x div 4 = x' div 4" "x mod 4 * 16 + y div 16 = x' mod 4 * 16 + y' div 16"
    and "y mod 16 * 4 + z div 64 = y' mod 16 * 4 + z' div 64" "z mod 64 = z' mod 64"
  shows "x = x'" and "y = y'" and "z = z'"
proof -
  have b: "y div 16 < 16" "y' div 16 < 16" "z div 64 < 4" "z' div 64 < 4"
    using assms(1-6) by (simp_all add: div_less_iff_less_mult)
  have x: "x mod 4 = x' mod 4" using assms(8) b by linarith
  with assms(8) have y: "y div 16 = y' div 16" by simp
  have y2: "y mod 16 = y' mod 16" using assms(9) b by linarith
  with assms(9) have z: "z div 64 = z' div 64" by simp
  show "x = x'" using assms(7) x by (metis div_mod_decomp)
  show "y = y'" using y y2 by (metis div_mod_decomp)
  show "z = z'" using z assms(10) by (metis div_mod_decomp)
qed

lemma sextet_bounds [simp]:
  fixes a b :: char
  shows "of_char a div 4 < (64::nat)" "of_char a mod 4 * 16 < (64::nat)"
    "of_char a mod 4 * 16 + of_char b div 16 < (64::nat)"
    "of_char a mod 16 * 4 < (64::nat)" "of_char a mod 16 * 4 + of_char b div 64 < (64::nat)"
proof -
  have a: "of_char a < (256::nat)" and b: "of_char b < (256::nat)" by simp_all
  from a show "of_char a div 4 < (64::nat)" by (simp add: div_less_iff_less_mult)
  have 1: "of_char a mod 4 < (4::nat)" "of_char a mod 16 < (16::nat)" by simp_all
  from b have 2: "of_char b div 16 < (16::nat)" "of_char b div 64 < (4::nat)"
    by (simp_all add: div_less_iff_less_mult)
  from 1 2 show "of_char a mod 4 * 16 < (64::nat)" "of_char a mod 16 * 4 < (64::nat)"
    "of_char a mod 4 * 16 + of_char b div 16 < (64::nat)"
    "of_char a mod 16 * 4 + of_char b div 64 < (64::nat)"
    by linarith+
qed

lemma sextets_char_inj:
  fixes a b c a' b' c' :: char
  assumes "of_char a div 4 = (of_char a' div 4 :: nat)"
    and "of_char a mod 4 * 16 + of_char b div 16 = (of_char a' mod 4 * 16 + of_char b' div 16 :: nat)"
    and "of_char b mod 16 * 4 + of_char c div 64 = (of_char b' mod 16 * 4 + of_char c' div 64 :: nat)"
    and "of_char c mod 64 = (of_char c' mod 64 :: nat)"
  shows "a = a' \<and> b = b' \<and> c = c'"
proof -
  have "of_char a = (of_char a' :: nat)" "of_char b = (of_char b' :: nat)" "of_char c = (of_char c' :: nat)"
    by (rule sextets_inj [OF _ _ _ _ _ _ assms]; simp)+
  then show ?thesis by simp
qed

lemma b64_encode_inj [simp]: "b64_encode as = b64_encode bs \<longleftrightarrow> as = bs"
proof
  assume "b64_encode as = b64_encode bs"
  then show "as = bs"
  proof (induction as arbitrary: bs rule: b64_encode.induct)
    case 1
    then show ?case by (cases bs rule: b64_encode.cases) (auto simp: Let_def)
  next
    case (2 a)
    then show ?case
      using sextets_char_inj [of a _ "CHR 0x00" "CHR 0x00" "CHR 0x00" "CHR 0x00"]
      by (cases bs rule: b64_encode.cases) (auto simp: Let_def b64_digit_inj b64_digit_not_pad
          b64_digit_not_pad [symmetric])
  next
    case (3 a b)
    then show ?case
      using sextets_char_inj [of a _ b _ "CHR 0x00" "CHR 0x00"]
      by (cases bs rule: b64_encode.cases) (auto simp: Let_def b64_digit_inj b64_digit_not_pad
          b64_digit_not_pad [symmetric])
  next
    case (4 a b c as)
    then show ?case
      using sextets_char_inj [of a _ b _ c]
      by (cases bs rule: b64_encode.cases) (auto simp: Let_def b64_digit_inj b64_digit_not_pad
          b64_digit_not_pad [symmetric])
  qed
qed simp

text \<open>
  \<open>base64.StdEncoding.DecodeString\<close>: line breaks are skipped, and on corrupt input the bytes decoded
  so far are returned together with an error (\<open>True\<close>).
\<close>

definition b64_value :: "char \<Rightarrow> nat option" where
  "b64_value c = (let n = (of_char c :: nat) in
     if 65 \<le> n \<and> n \<le> 90 then Some (n - 65)
     else if 97 \<le> n \<and> n \<le> 122 then Some (n - 71)
     else if 48 \<le> n \<and> n \<le> 57 then Some (n + 4)
     else if n = 43 then Some 62 else if n = 47 then Some 63 else None)"

fun b64_quanta :: "string \<Rightarrow> bytes \<times> bool" where
  "b64_quanta [] = ([], False)"
| "b64_quanta (a # b # c # d # rest) = (case (b64_value a, b64_value b) of
     (Some x, Some y) \<Rightarrow>
       (if c = CHR ''='' then (if d = CHR ''='' then ([char_of (4 * x + y div 16)], rest \<noteq> []) else ([], True))
        else (case b64_value c of None \<Rightarrow> ([], True) | Some z \<Rightarrow>
          if d = CHR ''='' then ([char_of (4 * x + y div 16), char_of (y mod 16 * 16 + z div 4)], rest \<noteq> [])
          else (case b64_value d of None \<Rightarrow> ([], True) | Some w \<Rightarrow>
            (case b64_quanta rest of (bs, err) \<Rightarrow>
              (char_of (4 * x + y div 16) # char_of (y mod 16 * 16 + z div 4) # char_of (z mod 4 * 64 + w) # bs, err)))))
   | _ \<Rightarrow> ([], True))"
| "b64_quanta _ = ([], True)"

definition b64_decode :: "string \<Rightarrow> bytes \<times> bool" where
  "b64_decode s = b64_quanta (filter (\<lambda>c. c \<noteq> CHR 0x0A \<and> c \<noteq> CHR 0x0D) s)"

lemma b64_value_digit [simp]: "n < 64 \<Longrightarrow> b64_value (b64_digit n) = Some n"
  using of_char_b64_digit [of n] by (auto simp: b64_value_def b64_code_def Let_def split: if_splits)

lemma b64_digit_no_break: "n < 64 \<Longrightarrow> b64_digit n \<noteq> CHR 0x0A \<and> b64_digit n \<noteq> CHR 0x0D"
  using of_char_b64_digit [of n] by (auto simp: b64_code_def split: if_splits)

lemma sextets_bytes:
  fixes a b c :: char
  shows "char_of (4 * (of_char a div 4) + (of_char a mod 4 * 16 + of_char b div 16) div 16 :: nat) = a"
    and "char_of ((of_char a mod 4 * 16 + of_char b div 16) mod 16 * 16 + (of_char b mod 16 * 4 + of_char c div 64) div 4 :: nat) = b"
    and "char_of ((of_char b mod 16 * 4 + of_char c div 64) mod 4 * 64 + of_char c mod 64 :: nat) = c"
proof -
  have "of_char b < (256::nat)" "of_char c < (256::nat)" by simp_all
  then have lt: "of_char b div 16 < (16::nat)" "of_char c div 64 < (4::nat)"
    by (simp_all add: div_less_iff_less_mult)
  then have "(4 * (of_char a div 4) + (of_char a mod 4 * 16 + of_char b div 16) div 16 :: nat) = of_char a" by simp
  then show "char_of (4 * (of_char a div 4) + (of_char a mod 4 * 16 + of_char b div 16) div 16 :: nat) = a"
    by (metis char_of_char)
  from lt have "((of_char a mod 4 * 16 + of_char b div 16) mod 16 * 16 + (of_char b mod 16 * 4 + of_char c div 64) div 4 :: nat) = of_char b"
    by simp
  then show "char_of ((of_char a mod 4 * 16 + of_char b div 16) mod 16 * 16 + (of_char b mod 16 * 4 + of_char c div 64) div 4 :: nat) = b"
    by (metis char_of_char)
  from lt have "((of_char b mod 16 * 4 + of_char c div 64) mod 4 * 64 + of_char c mod 64 :: nat) = of_char c" by simp
  then show "char_of ((of_char b mod 16 * 4 + of_char c div 64) mod 4 * 64 + of_char c mod 64 :: nat) = c"
    by (metis char_of_char)
qed

lemma b64_encode_no_break: "filter (\<lambda>c. c \<noteq> CHR 0x0A \<and> c \<noteq> CHR 0x0D) (b64_encode bs) = b64_encode bs"
  by (induction bs rule: b64_encode.induct) (simp_all add: Let_def b64_digit_no_break)

lemma b64_decode_encode [simp]: "b64_decode (b64_encode bs) = (bs, False)"
proof -
  have "b64_quanta (b64_encode bs) = (bs, False)"
  proof (induction bs rule: b64_encode.induct)
    case (2 a)
    then show ?case using sextets_bytes(1) [of a "CHR 0x00"] by (simp add: Let_def)
  next
    case (3 a b)
    then show ?case using sextets_bytes(1) [of a b] sextets_bytes(2) [of a b "CHR 0x00"]
      by (simp add: Let_def b64_digit_not_pad)
  next
    case (4 a b c bs)
    then show ?case using sextets_bytes(1) [of a b] sextets_bytes(2) [of a b c] sextets_bytes(3) [of b c] by (simp add: Let_def b64_digit_not_pad)
  qed simp
  then show ?thesis by (simp add: b64_decode_def b64_encode_no_break)
qed

section \<open>Ordered association lists\<close>

text \<open>
  A finite map kept sorted by key: \<open>omap_put\<close> and \<open>omap_del\<close> update it, \<open>map_of\<close> looks a key
  up, and the list itself is what an iterator walks over.
\<close>

type_synonym ('k, 'v) omap = "('k \<times> 'v) list"

fun omap_put :: "'k::linorder \<Rightarrow> 'v \<Rightarrow> ('k, 'v) omap \<Rightarrow> ('k, 'v) omap" where
  "omap_put k v [] = [(k, v)]"
| "omap_put k v ((k', v') # m) =
     (if k < k' then (k, v) # (k', v') # m
      else if k = k' then (k, v) # m
      else (k', v') # omap_put k v m)"

definition omap_del :: "'k \<Rightarrow> ('k, 'v) omap \<Rightarrow> ('k, 'v) omap" where
  "omap_del k m = filter (\<lambda>kv. fst kv \<noteq> k) m"

definition omap_ok :: "('k::linorder, 'v) omap \<Rightarrow> bool" where
  "omap_ok m \<longleftrightarrow> sorted_wrt (<) (map fst m)"

lemma map_of_omap_put [simp, omap_laws]: "map_of (omap_put k v m) = (map_of m)(k \<mapsto> v)"
  by (induction k v m rule: omap_put.induct) auto

lemma map_of_omap_del [simp, omap_laws]: "map_of (omap_del k m) = (map_of m)(k := None)"
  by (induction m) (auto simp: omap_del_def fun_eq_iff)

lemma fst_set_omap_put [simp]: "fst ` set (omap_put k v m) = insert k (fst ` set m)"
  by (induction k v m rule: omap_put.induct) auto

lemma omap_ok_Nil [simp]: "omap_ok []"
  by (simp add: omap_ok_def)

lemma omap_ok_Cons: "omap_ok ((k, v) # m) \<longleftrightarrow> (\<forall>x \<in> fst ` set m. k < x) \<and> omap_ok m"
  by (simp add: omap_ok_def)

lemma omap_ok_put [simp, intro]: "omap_ok m \<Longrightarrow> omap_ok (omap_put k v m)"
  by (induction k v m rule: omap_put.induct) (auto simp: omap_ok_Cons)

lemma omap_ok_filter [simp, intro]: "omap_ok m \<Longrightarrow> omap_ok (filter P m)"
  unfolding omap_ok_def by (simp add: sorted_wrt_map sorted_wrt_filter)

lemma omap_ok_del [simp, intro]: "omap_ok m \<Longrightarrow> omap_ok (omap_del k m)"
  unfolding omap_del_def by (rule omap_ok_filter)

lemma omap_ok_distinct: "omap_ok m \<Longrightarrow> distinct (map fst m)"
  unfolding omap_ok_def by (simp add: strict_sorted_iff)

lemma omap_mem_iff: "omap_ok m \<Longrightarrow> (k, v) \<in> set m \<longleftrightarrow> map_of m k = Some v"
  by (auto dest: omap_ok_distinct map_of_SomeD)

lemma set_omap_put:
  "omap_ok m \<Longrightarrow> set (omap_put k v m) = insert (k, v) {kv \<in> set m. fst kv \<noteq> k}"
  by (auto simp: omap_mem_iff split: if_splits)

lemma set_omap_del [simp]: "set (omap_del k m) = {kv \<in> set m. fst kv \<noteq> k}"
  by (auto simp: omap_del_def)

text \<open>Two ordered maps with the same lookups are the same list.\<close>

lemma omap_as_lookups: "omap_ok m \<Longrightarrow> m = map (\<lambda>k. (k, the (map_of m k))) (map fst m)"
  by (auto simp: omap_mem_iff intro!: map_idI [symmetric])

lemma omap_eqI:
  assumes "omap_ok m" "omap_ok n" "map_of m = map_of n"
  shows "m = n"
proof -
  have "set (map fst m) = set (map fst n)"
    using assms(3) by (metis dom_map_of_conv_image_fst set_map)
  with assms have "map fst m = map fst n"
    unfolding omap_ok_def by (metis strict_sorted_equal)
  with omap_as_lookups [OF assms(1)] omap_as_lookups [OF assms(2)] assms(3) show ?thesis
    by metis
qed

section \<open>Signed arithmetic\<close>

text \<open>The value a result of \<open>int64\<close> arithmetic wraps to.\<close>

definition i64 :: "int \<Rightarrow> int" where
  "i64 x = sint (of_int x :: 64 word)"

lemma i64_id: "- (2 ^ 63) \<le> x \<Longrightarrow> x < 2 ^ 63 \<Longrightarrow> i64 x = x"
  by (simp add: i64_def sint_sbintrunc' signed_take_bit_int_eq_self)

section \<open>Rounding\<close>

text \<open>
  A finite \<open>float64\<close> is the rational it denotes. \<open>rnd_prec p\<close> rounds to \<open>p\<close> significant bits, to
  nearest with ties to even, as Go's arithmetic on \<open>float64\<close> (\<open>p = 53\<close>) and on \<open>big.Float\<close> does.
\<close>

datatype float64 = F64 rat | F64Inf bool | F64NaN

definition pow2 :: "int \<Rightarrow> rat" where
  "pow2 e = (if 0 \<le> e then 2 ^ nat e else 1 / 2 ^ nat (- e))"

definition rnd_even :: "rat \<Rightarrow> int" where
  "rnd_even q = (let f = \<lfloor>q\<rfloor>; r = q - of_int f in
     if r < 1 / 2 then f else if 1 / 2 < r then f + 1 else if even f then f else f + 1)"

text \<open>The exponent \<open>e\<close> with \<open>2 ^ e \<le> q < 2 ^ (e + 1)\<close>, for positive \<open>q\<close>.\<close>

definition ilog2 :: "rat \<Rightarrow> int" where
  "ilog2 q = (let (n, d) = quotient_of q; e = bitlen n - bitlen d in
     if pow2 e \<le> q then e else e - 1)"

definition rnd_at :: "int \<Rightarrow> rat \<Rightarrow> rat" where
  "rnd_at e q = of_int (rnd_even (q / pow2 e)) * pow2 e"

definition rnd_prec :: "nat \<Rightarrow> rat \<Rightarrow> rat" where
  "rnd_prec p q = (if q = 0 then 0 else rnd_at (ilog2 \<bar>q\<bar> - (int p - 1)) q)"

definition f64_round :: "rat \<Rightarrow> float64" where
  "f64_round q = (if q = 0 then F64 0 else
     let r = rnd_at (max (ilog2 \<bar>q\<bar> - 52) (- 1074)) q in
     if 2 ^ 1024 \<le> \<bar>r\<bar> then F64Inf (0 < r) else F64 r)"

text \<open>Division of a \<open>float64\<close> by the positive constant \<open>100.0\<close>.\<close>

definition f64_div100 :: "float64 \<Rightarrow> float64" where
  "f64_div100 x = (case x of F64 q \<Rightarrow> f64_round (q / 100) | F64Inf s \<Rightarrow> F64Inf s | F64NaN \<Rightarrow> F64NaN)"

lemma pow2_pos [simp]: "0 < pow2 e"
  by (simp add: pow2_def)

lemma rnd_even_nonneg: "0 \<le> q \<Longrightarrow> 0 \<le> rnd_even q"
  by (auto simp: rnd_even_def Let_def)

lemma rnd_at_nonneg: "0 \<le> q \<Longrightarrow> 0 \<le> rnd_at e q"
  by (simp add: rnd_at_def rnd_even_nonneg less_imp_le)

lemma rnd_prec_nonneg: "0 \<le> q \<Longrightarrow> 0 \<le> rnd_prec p q"
  by (simp add: rnd_prec_def rnd_at_nonneg)

lemma f64_div100_nonneg: "0 \<le> q \<Longrightarrow> f64_div100 (F64 q) = F64 r \<Longrightarrow> 0 \<le> r"
  using rnd_at_nonneg [of "q / 100"]
  by (auto simp: f64_div100_def f64_round_def Let_def split: if_splits)

lemma rnd_even_error: "\<bar>of_int (rnd_even q) - q\<bar> \<le> 1 / 2"
proof -
  have "of_int \<lfloor>q\<rfloor> \<le> q" "q < of_int \<lfloor>q\<rfloor> + 1" by linarith+
  then show ?thesis by (auto simp: rnd_even_def Let_def)
qed

text \<open>Go's \<open>big.Int.Quo\<close> truncates towards zero; \<open>big.Int.Div\<close> is Euclidean.\<close>

definition go_quo :: "int \<Rightarrow> int \<Rightarrow> int" where
  "go_quo a b = sgn a * sgn b * (\<bar>a\<bar> div \<bar>b\<bar>)"

definition go_div :: "int \<Rightarrow> int \<Rightarrow> int" where
  "go_div a b = (if 0 < b then a div b else - (a div (- b)))"

lemma go_quo_pos: "0 \<le> a \<Longrightarrow> 0 < b \<Longrightarrow> go_quo a b = a div b"
  by (cases "a = 0") (simp_all add: go_quo_def)

text \<open>\<open>(num + den - 1) / den\<close> over the reduced fraction is the ceiling.\<close>

lemma ceil_by_quo:
  assumes "quotient_of q = (n, d)" "0 \<le> q"
  shows "go_quo (n + (d - 1)) d = \<lceil>q\<rceil>"
proof -
  have d: "0 < d" using assms(1) by (rule quotient_of_denom_pos)
  have q: "q = of_int n / of_int d" using assms(1) by (rule quotient_of_div)
  have n: "0 \<le> n" using q d assms(2) by (simp add: zero_le_divide_iff)
  define z where "z = (n + (d - 1)) div d"
  have "z * d + (n + (d - 1)) mod d = n + (d - 1)" by (simp add: z_def)
  moreover have "0 \<le> (n + (d - 1)) mod d" "(n + (d - 1)) mod d < d" using d by simp_all
  ultimately have b: "n \<le> z * d" "z * d < n + d" by linarith+
  have "of_int n \<le> (of_int (z * d) :: rat)" "of_int (z * d) < (of_int (n + d) :: rat)"
    using b by (simp_all only: of_int_le_iff of_int_less_iff)
  with d have "\<lceil>q\<rceil> = z"
    unfolding q by (intro ceiling_unique) (simp_all add: field_simps)
  with d n show ?thesis by (simp add: go_quo_pos z_def)
qed

end
