(* ===== verification/Balances.thy ===== *)
theory Balances
  imports Prelude
begin

text \<open>
  Coin configuration, balances and fees: \<^verbatim>\<open>pkg/payments/types.go\<close> (configuration, balance
  information, balance identifiers), \<^verbatim>\<open>pkg/payments/fee.go\<close> and the locked deposits of
  \<^verbatim>\<open>pkg/payments/actions.go\<close>. Amounts are \<open>big.Int\<close> in the code and \<open>int\<close> here; a time is its
  number of nanoseconds since the epoch; an address is its 32 data bytes.
\<close>

type_synonym address = bytes
type_synonym gtime = int

text \<open>The data bytes of an address; an absent address has none.\<close>

definition addr_data :: "address option \<Rightarrow> bytes" where
  "addr_data a = (case a of None \<Rightarrow> [] | Some x \<Rightarrow> x)"

type_synonym uint64 = "64 word"
type_synonym uint32 = "32 word"

definition unix :: "int \<Rightarrow> gtime" where
  "unix s = s * 1000000000"

definition unix_of :: "gtime \<Rightarrow> int" where
  "unix_of t = t div 1000000000"

lemma unix_of_unix [simp]: "unix_of (unix s) = s"
  by (simp add: unix_def unix_of_def)

section \<open>Configuration\<close>

record VirtualConfig =
  MaxCapacityToRentPerTx :: int
  CapacityDepositFee :: int
  CapacityFeePercentPer30Days :: float64
  ProxyMaxCapacity :: int
  ProxyMinFee :: int
  ProxyFeePercent :: float64
  DerivativeFeePercent :: float64
  AllowTunneling :: bool

record VaultData =
  vdTarget :: "address option"
  vdAddress :: "address option"
  vdSignature :: bytes

text \<open>The interfaces of the chain that a coin carries: a jetton client and a vault resolver.\<close>

record JettonClient =
  GetRootAddress :: "address option"
  GetWalletAddress :: "address option \<Rightarrow> address res"

type_synonym VaultResolver = "address option \<Rightarrow> address option \<Rightarrow> (VaultData option \<times> VaultData option) res"

record CoinConfig =
  Enabled :: bool
  VirtualTunnelConfig :: VirtualConfig
  CoinSymbol :: string
  Decimals :: nat
  MinCapacityRequest :: int
  CoinJettonClient :: "JettonClient option"
  CoinVaultResolver :: "VaultResolver option"
  FeePerWithdrawPropose :: int
  BalanceID :: string

section \<open>Balance information\<close>

record BalanceInfo =
  Onchain :: int
  BalAction :: int
  OnHold :: int
  ConditionalLocked :: int
  ConditionalPending :: int
  BalCoinConfig :: CoinConfig

type_synonym balances = "string \<rightharpoonup> BalanceInfo"

definition NewBalanceInfo :: "CoinConfig \<Rightarrow> BalanceInfo" where
  "NewBalanceInfo cc = \<lparr>Onchain = 0, BalAction = 0, OnHold = 0, ConditionalLocked = 0,
     ConditionalPending = 0, BalCoinConfig = cc\<rparr>"

text \<open>\<open>Available\<close> of a possibly nil balance.\<close>

definition Available :: "BalanceInfo option \<Rightarrow> int" where
  "Available bo = (case bo of None \<Rightarrow> 0 | Some b \<Rightarrow>
     (let amt = Onchain b + BalAction b;
          amt = (if 0 < OnHold b then amt - OnHold b else amt);
          amt = (if 0 < ConditionalLocked b then amt - ConditionalLocked b else amt)
      in amt))"

lemma Available_None [simp]: "Available None = 0"
  by (simp add: Available_def)

lemma Available_new [simp]: "Available (Some (NewBalanceInfo cc)) = 0"
  by (simp add: Available_def NewBalanceInfo_def)

lemma Available_nonneg_holds:
  "0 \<le> OnHold b \<Longrightarrow> 0 \<le> ConditionalLocked b \<Longrightarrow>
   Available (Some b) = Onchain b + BalAction b - OnHold b - ConditionalLocked b"
  by (auto simp: Available_def Let_def)

text \<open>
  \<open>ResolveActionBalances\<close> over the coins \<open>act.GetAffectedCoins()\<close> returns, in the order of the
  coins; the single-coin variant takes the first.
\<close>

fun resolve_loop :: "balances \<Rightarrow> CoinConfig list \<Rightarrow> BalanceInfo list res" where
  "resolve_loop bals [] = Inr []"
| "resolve_loop bals (cc # ccs) =
     (case bals (BalanceID cc) of
        None \<Rightarrow> Inl ErrMissingBalanceInfo
      | Some b \<Rightarrow> rbind (resolve_loop bals ccs) (\<lambda>l. Inr (b # l)))"

definition ResolveActionBalances :: "balances \<Rightarrow> CoinConfig list \<Rightarrow> nat \<Rightarrow> BalanceInfo list res" where
  "ResolveActionBalances bals ccs num =
     (if length ccs \<noteq> num then Inl (Errorf ''unexpected balances num'')
      else resolve_loop bals ccs)"

definition ResolveActionBalance :: "balances \<Rightarrow> CoinConfig list \<Rightarrow> BalanceInfo res" where
  "ResolveActionBalance bals ccs =
     rbind (ResolveActionBalances bals ccs 1) (\<lambda>l. Inr (l ! 0))"

lemma ResolveActionBalance_single:
  "ResolveActionBalance bals [cc] =
     (case bals (BalanceID cc) of None \<Rightarrow> Inl ErrMissingBalanceInfo | Some b \<Rightarrow> Inr b)"
  by (simp add: ResolveActionBalance_def ResolveActionBalances_def split: option.split)

lemma ResolveActionBalance_Inr:
  "ResolveActionBalance bals ccs = Inr b \<longleftrightarrow> (\<exists>cc. ccs = [cc] \<and> bals (BalanceID cc) = Some b)"
proof (cases "\<exists>cc. ccs = [cc]")
  case True
  then show ?thesis by (auto simp: ResolveActionBalance_single split: option.splits)
next
  case False
  then have "length ccs \<noteq> 1" by (metis length_0_conv length_Suc_conv One_nat_def)
  with False show ?thesis by (auto simp: ResolveActionBalance_def ResolveActionBalances_def)
qed

section \<open>Balance identifiers\<close>

definition GetTONBalanceID :: string where
  "GetTONBalanceID = hex_encode (zeros 32)"

definition GetJettonBalanceID :: "address option \<Rightarrow> string" where
  "GetJettonBalanceID addr = hex_encode (addr_data addr)"

definition GetJettonFromBalanceID :: "string \<Rightarrow> address res" where
  "GetJettonFromBalanceID i = (case hex_decode i of
     Some a \<Rightarrow> if length a \<noteq> 32 then Inl (Panic (''corrupted balance id: '' @ i)) else Inr a
   | None \<Rightarrow> Inl (Panic (''corrupted balance id: '' @ i)))"

text \<open>The 32-bit identifier of an extra currency is stored at offset 24 of 32 zero bytes.\<close>

definition GetECBalanceID :: "uint32 \<Rightarrow> string" where
  "GetECBalanceID i = hex_encode (zeros 24 @ be_put 4 (unat i) @ zeros 4)"

definition GetECFromBalanceID :: "string \<Rightarrow> uint32 res" where
  "GetECFromBalanceID i = (case hex_decode i of
     Some a \<Rightarrow> if length a \<noteq> 32 then Inl (Panic (''corrupted balance id: '' @ i))
               else Inr (of_nat (be_get (take 4 (drop 24 a))))
   | None \<Rightarrow> Inl (Panic (''corrupted balance id: '' @ i)))"

lemma GetEC_roundtrip: "GetECFromBalanceID (GetECBalanceID i) = Inr i"
proof -
  have "unat i < 256 ^ 4" using unsigned_less [of i] by simp
  then show ?thesis
    by (simp add: GetECFromBalanceID_def GetECBalanceID_def be_get_put)
qed

lemma GetJetton_roundtrip:
  "length a = 32 \<Longrightarrow> GetJettonFromBalanceID (GetJettonBalanceID (Some a)) = Inr a"
  by (simp add: GetJettonFromBalanceID_def GetJettonBalanceID_def addr_data_def)

lemma GetECBalanceID_inj: "GetECBalanceID i = GetECBalanceID j \<Longrightarrow> i = j"
  by (metis GetEC_roundtrip sum.inject(2))

section \<open>Fees\<close>

text \<open>\<open>CalcPercentFeeCeil\<close>; a nil amount is \<open>None\<close>, \<open>percent\<close> any float.\<close>

definition CalcPercentFeeCeil :: "int option \<Rightarrow> float64 \<Rightarrow> int" where
  "CalcPercentFeeCeil amount percent = (case amount of None \<Rightarrow> 0 | Some a \<Rightarrow>
     if a \<le> 0 then 0 else
     (case percent of
        F64NaN \<Rightarrow> 0
      | F64Inf _ \<Rightarrow> 0
      | F64 p \<Rightarrow> if p \<le> 0 then 0 else
          (let feeRat = of_int a * p / 100; (num, den) = quotient_of feeRat in
           if num \<le> 0 then 0 else go_quo (num + (den - 1)) den)))"

lemma CalcPercentFeeCeil_eq:
  "CalcPercentFeeCeil (Some a) (F64 p) = (if 0 < a \<and> 0 < p then \<lceil>of_int a * p / 100\<rceil> else 0)"
proof (cases "0 < a \<and> 0 < p")
  case True
  obtain n d where q: "quotient_of (of_int a * p / 100) = (n, d)" by fastforce
  have pos: "0 < of_int a * p / 100" using True by simp
  have "0 < d" using q by (rule quotient_of_denom_pos)
  moreover have "of_int a * p / 100 = of_int n / of_int d" using q by (rule quotient_of_div)
  ultimately have n: "0 < n" using pos by (simp add: zero_less_divide_iff)
  have "go_quo (n + (d - 1)) d = \<lceil>of_int a * p / 100\<rceil>"
    using q pos by (intro ceil_by_quo) simp_all
  with True q n show ?thesis by (simp add: CalcPercentFeeCeil_def)
next
  case False
  then show ?thesis by (auto simp: CalcPercentFeeCeil_def)
qed

lemma CalcPercentFeeCeil_nonneg: "0 \<le> CalcPercentFeeCeil a p"
proof (cases a; cases p)
  fix x q assume "a = Some x" "p = F64 q"
  moreover have "0 \<le> \<lceil>of_int x * q / 100\<rceil>" if "0 < x" "0 < q"
    using that ceiling_mono [of 0 "of_int x * q / 100"] by simp
  ultimately show ?thesis by (auto simp: CalcPercentFeeCeil_eq)
qed (auto simp: CalcPercentFeeCeil_def)

section \<open>Locked deposits\<close>

record LockedDepositInfo =
  ldAmount :: int
  ldTill :: gtime
  ldUsed :: int

type_synonym locked = "string \<rightharpoonup> LockedDepositInfo"

definition LockedDeposit_Available :: "gtime \<Rightarrow> LockedDepositInfo option \<Rightarrow> int" where
  "LockedDeposit_Available now ldo = (case ldo of None \<Rightarrow> 0 | Some ld \<Rightarrow>
     if ldTill ld < now \<or> ldAmount ld \<le> ldUsed ld then 0 else ldAmount ld - ldUsed ld)"

definition locked_ok :: "LockedDepositInfo \<Rightarrow> bool" where
  "locked_ok ld \<longleftrightarrow> 0 \<le> ldUsed ld \<and> ldUsed ld \<le> ldAmount ld"

text \<open>Marking a part of a rented deposit as used, capped at its amount.\<close>

definition mark_used :: "string \<Rightarrow> int \<Rightarrow> locked option \<Rightarrow> locked option" where
  "mark_used bid amt lo = (case lo of None \<Rightarrow> None | Some l \<Rightarrow>
     (case l bid of None \<Rightarrow> Some l | Some lk \<Rightarrow>
       (let u = ldUsed lk + amt; u = (if ldAmount lk < u then ldAmount lk else u)
        in Some (l(bid \<mapsto> lk\<lparr>ldUsed := u\<rparr>)))))"

lemma mark_used_ok:
  assumes "mark_used bid amt (Some l) = Some l'" "0 \<le> amt" "\<And>k lk. l k = Some lk \<Longrightarrow> locked_ok lk"
  shows "l' k = Some lk \<Longrightarrow> locked_ok lk"
  using assms
  by (fastforce simp: mark_used_def locked_ok_def Let_def split: option.splits if_splits)

lemma LockedDeposit_Available_bounds:
  "0 \<le> LockedDeposit_Available now ldo \<and>
   (ldo = Some ld \<longrightarrow> 0 \<le> ldUsed ld \<longrightarrow> LockedDeposit_Available now ldo \<le> max 0 (ldAmount ld))"
  by (auto simp: LockedDeposit_Available_def split: option.splits)

end
