(* ===== verification/Cells.thy ===== *)
theory Cells
  imports Balances
begin

text \<open>
  TON cells as the program uses them, and the code of \<^verbatim>\<open>pkg/payments/vm/ops.go\<close> on top of
  them. The cell library is not part of the repository: its operations are the fields of
  \<open>cell_lib\<close>, an argument of every definition that calls them, and the locale \<open>cell_library\<close>
  states the documented behaviour the code relies on (a builder appends bits and references, a
  slice reads them back in order).
\<close>

unbundle bit_operations_syntax

section \<open>The cell library\<close>

text \<open>
  \<open>'b\<close> builders, \<open>'s\<close> slices, \<open>'c\<close> cells. A \<open>Must..\<close> operation panics, so it returns a result;
  a load returns the value and the advanced slice.
\<close>

record ('b, 's, 'c) cell_lib =
  BeginCell :: 'b
  MustStoreUInt :: "'b \<Rightarrow> nat \<Rightarrow> nat \<Rightarrow> 'b res"
  MustStoreInt :: "'b \<Rightarrow> int \<Rightarrow> nat \<Rightarrow> 'b res"
  MustStoreBigInt :: "'b \<Rightarrow> int \<Rightarrow> nat \<Rightarrow> 'b res"
  MustStoreRef :: "'b \<Rightarrow> 'c \<Rightarrow> 'b res"
  MustStoreBuilder :: "'b \<Rightarrow> 'b \<Rightarrow> 'b res"
  MustStoreAddr :: "'b \<Rightarrow> address option \<Rightarrow> 'b res"
  MustStoreSlice :: "'b \<Rightarrow> bytes \<Rightarrow> nat \<Rightarrow> 'b res"
  MustStoreBigCoins :: "'b \<Rightarrow> int \<Rightarrow> 'b res"
  BitsUsed :: "'b \<Rightarrow> nat"
  EndCell :: "'b \<Rightarrow> 'c"
  ToSlice :: "'b \<Rightarrow> 's"
  BeginParse :: "'c \<Rightarrow> 's"
  MustToCell :: "'s \<Rightarrow> 'c"
  LoadUInt :: "'s \<Rightarrow> nat \<Rightarrow> (nat \<times> 's) res"
  LoadBigInt :: "'s \<Rightarrow> nat \<Rightarrow> (int \<times> 's) res"
  LoadRefCell :: "'s \<Rightarrow> ('c \<times> 's) res"
  LoadAddr :: "'s \<Rightarrow> (address option \<times> 's) res"
  LoadSlice :: "'s \<Rightarrow> nat \<Rightarrow> (bytes \<times> 's) res"
  LoadBigCoins :: "'s \<Rightarrow> (int \<times> 's) res"
  BitsLeft :: "'s \<Rightarrow> nat"
  RefsNum :: "'s \<Rightarrow> nat"
  CellHash :: "'c \<Rightarrow> bytes"
  CellRefs :: "'c \<Rightarrow> 'c list"

text \<open>\<open>LoadRef\<close> is a reference cell opened for parsing.\<close>

definition LoadRef :: "('b, 's, 'c) cell_lib \<Rightarrow> 's \<Rightarrow> ('s \<times> 's) res" where
  "LoadRef L s = rbind (LoadRefCell L s) (\<lambda>(c, s'). Inr (BeginParse L c, s'))"

text \<open>The TL-B reader and writer of a structure, as the library derives them from field tags.\<close>

record ('s, 'c, 'v) codec =
  LoadFromCell :: "'s \<Rightarrow> ('v \<times> 's) res"
  ToCell :: "'v \<Rightarrow> 'c res"

definition LoadState :: "('b, 's, 'c) cell_lib \<Rightarrow> ('s, 'c, 'v) codec \<Rightarrow> 'c \<Rightarrow> 'v res" where
  "LoadState L C c =
     rbind (rwrap ''failed to load old state'' (LoadFromCell C (BeginParse L c))) (\<lambda>(v, ld).
       if 0 < BitsLeft L ld \<or> 0 < RefsNum L ld then Inl (Errorf ''data left after parse'')
       else Inr v)"

text \<open>A codec whose writer and reader agree on the values \<open>P\<close> describes.\<close>

definition codec_ok :: "('b, 's, 'c) cell_lib \<Rightarrow> ('s, 'c, 'v) codec \<Rightarrow> ('v \<Rightarrow> bool) \<Rightarrow> bool" where
  "codec_ok L C P \<longleftrightarrow> (\<forall>v. P v \<longrightarrow> (\<exists>c. ToCell C v = Inr c \<and> LoadState L C c = Inr v))"

lemma codec_okD: "codec_ok L C P \<Longrightarrow> P v \<Longrightarrow> \<exists>c. ToCell C v = Inr c \<and> LoadState L C c = Inr v"
  by (simp add: codec_ok_def)

lemma codec_ok_load: "codec_ok L C P \<Longrightarrow> P v \<Longrightarrow> ToCell C v = Inr c \<Longrightarrow> LoadState L C c = Inr v"
  by (auto simp: codec_ok_def)

section \<open>Bits\<close>

primrec nat_bits :: "nat \<Rightarrow> nat \<Rightarrow> bool list" where
  "nat_bits 0 v = []"
| "nat_bits (Suc n) v = nat_bits n (v div 2) @ [odd v]"

definition bits_nat :: "bool list \<Rightarrow> nat" where
  "bits_nat bs = foldl (\<lambda>a b. 2 * a + of_bool b) 0 bs"

definition int_bits :: "nat \<Rightarrow> int \<Rightarrow> bool list" where
  "int_bits n v = nat_bits n (nat (v mod 2 ^ n))"

definition bits_int :: "bool list \<Rightarrow> int" where
  "bits_int bs = (let u = int (bits_nat bs) in
     if 2 * u < 2 ^ length bs then u else u - 2 ^ length bs)"

lemma length_nat_bits [simp]: "length (nat_bits n v) = n"
  by (induction n arbitrary: v) auto

lemma length_int_bits [simp]: "length (int_bits n v) = n"
  by (simp add: int_bits_def)

lemma bits_nat_nat_bits: "v < 2 ^ n \<Longrightarrow> bits_nat (nat_bits n v) = v"
proof (induction n arbitrary: v)
  case 0
  then show ?case by (simp add: bits_nat_def)
next
  case (Suc n)
  have "v div 2 < 2 ^ n" using Suc.prems by (simp add: less_mult_imp_div_less mult.commute)
  from Suc.IH [OF this] show ?case by (simp add: bits_nat_def)
qed

text \<open>Values that fit a signed field of \<open>n\<close> bits.\<close>

definition fits :: "nat \<Rightarrow> int \<Rightarrow> bool" where
  "fits n v \<longleftrightarrow> - (2 ^ n) \<le> 2 * v \<and> 2 * v < 2 ^ n"

lemma bits_int_int_bits: "fits n v \<Longrightarrow> bits_int (int_bits n v) = v"
proof -
  assume f: "fits n v"
  let ?m = "v mod 2 ^ n"
  have m: "0 \<le> ?m" "?m < 2 ^ n" by simp_all
  then have "nat ?m < 2 ^ n" by (simp add: nat_less_iff)
  then have u: "int (bits_nat (int_bits n v)) = ?m"
    using m by (simp add: int_bits_def bits_nat_nat_bits)
  show ?thesis
  proof (cases "0 \<le> v")
    case True
    with f have "?m = v" by (simp add: fits_def)
    with f u show ?thesis by (simp add: bits_int_def fits_def)
  next
    case False
    have "?m = (v + 2 ^ n) mod 2 ^ n" by simp
    also have "\<dots> = v + 2 ^ n"
      using f False by (intro mod_pos_pos_trivial) (auto simp: fits_def)
    finally have "?m = v + 2 ^ n" .
    with f u show ?thesis by (auto simp: bits_int_def fits_def Let_def)
  qed
qed

text \<open>Bytes as bits, and \<open>big.Int.BitLen\<close>.\<close>

definition byte_bits :: "bytes \<Rightarrow> bool list" where
  "byte_bits x = concat (map (\<lambda>c. nat_bits 8 (of_char c)) x)"

fun bits_bytes :: "nat \<Rightarrow> bool list \<Rightarrow> bytes" where
  "bits_bytes 0 bs = []"
| "bits_bytes (Suc n) bs = char_of (bits_nat (take 8 bs)) # bits_bytes n (drop 8 bs)"

lemma length_byte_bits [simp]: "length (byte_bits x) = 8 * length x"
  by (induction x) (simp_all add: byte_bits_def)

lemma bits_bytes_byte_bits [simp]: "bits_bytes (length x) (byte_bits x @ r) = x"
  by (induction x) (simp_all add: byte_bits_def bits_nat_nat_bits)

definition BitLen :: "int \<Rightarrow> nat" where
  "BitLen v = nat (bitlen \<bar>v\<bar>)"

lemma BitLen_le_iff: "BitLen v \<le> n \<longleftrightarrow> \<bar>v\<bar> < 2 ^ n"
  using bitlen_nonneg [of "\<bar>v\<bar>"] by (simp add: BitLen_def nat_le_iff bitlen_le_iff_power)

text \<open>Amounts a \<open>VarUInteger 16\<close> field holds.\<close>

definition coins_ok :: "int \<Rightarrow> bool" where
  "coins_ok v \<longleftrightarrow> 0 \<le> v \<and> v < 2 ^ 120"

text \<open>A coin amount is a \<open>VarUInteger 16\<close>: its length in bytes in four bits, then the bytes.\<close>

definition coins_bits :: "int \<Rightarrow> bool list" where
  "coins_bits v = (let k = (BitLen v + 7) div 8 in nat_bits 4 k @ nat_bits (8 * k) (nat v))"

lemma coins_len: "coins_ok v \<Longrightarrow> (BitLen v + 7) div 8 < 16 \<and> nat v < 2 ^ (8 * ((BitLen v + 7) div 8))"
proof -
  assume "coins_ok v"
  then have v: "0 \<le> v" "BitLen v \<le> 120" by (auto simp: coins_ok_def BitLen_le_iff)
  let ?k = "(BitLen v + 7) div 8"
  have "BitLen v \<le> 8 * ?k" by linarith
  then have "\<bar>v\<bar> < 2 ^ (8 * ?k)" by (simp only: BitLen_le_iff)
  then have "nat v < 2 ^ (8 * ?k)" using v(1) by (simp add: nat_less_iff)
  with v(2) show ?thesis by simp
qed

lemma length_coins_bits: "coins_ok v \<Longrightarrow> length (coins_bits v) \<le> 124"
  using coins_len [of v] by (auto simp: coins_bits_def Let_def)

section \<open>The contract of the cell library\<close>

text \<open>
  A standard address has 32 data bytes. The pointer may also be nil (\<open>None\<close>) or the address
  \<open>none\<close> without data (\<open>Some []\<close>); only standard addresses are promised to be read back.
\<close>

definition addr_ok :: "address option \<Rightarrow> bool" where
  "addr_ok a \<longleftrightarrow> (case a of None \<Rightarrow> False | Some x \<Rightarrow> length x = 32)"

locale cell_library =
  fixes L :: "('b, 's, 'c) cell_lib"
    and bview :: "'b \<Rightarrow> bool list \<times> 'c list"
    and sview :: "'s \<Rightarrow> bool list \<times> 'c list"
    and addr_bits :: "address option \<Rightarrow> bool list"
  assumes view_begin: "bview (BeginCell L) = ([], [])"
    and store_uint: "bview b = (bs, rs) \<Longrightarrow> v < 2 ^ n \<Longrightarrow> length bs + n \<le> 1023 \<Longrightarrow>
      \<exists>b'. MustStoreUInt L b v n = Inr b' \<and> bview b' = (bs @ nat_bits n v, rs)"
    and store_int: "bview b = (bs, rs) \<Longrightarrow> fits n i \<Longrightarrow> n \<le> 64 \<Longrightarrow> length bs + n \<le> 1023 \<Longrightarrow>
      \<exists>b'. MustStoreInt L b i n = Inr b' \<and> bview b' = (bs @ int_bits n i, rs)"
    and store_bigint: "bview b = (bs, rs) \<Longrightarrow> fits n i \<Longrightarrow> length bs + n \<le> 1023 \<Longrightarrow>
      \<exists>b'. MustStoreBigInt L b i n = Inr b' \<and> bview b' = (bs @ int_bits n i, rs)"
    and store_ref: "bview b = (bs, rs) \<Longrightarrow> length rs < 4 \<Longrightarrow>
      \<exists>b'. MustStoreRef L b c = Inr b' \<and> bview b' = (bs, rs @ [c])"
    and store_builder: "bview b = (bs, rs) \<Longrightarrow> bview d = (ds, qs) \<Longrightarrow>
      length bs + length ds \<le> 1023 \<Longrightarrow> length rs + length qs \<le> 4 \<Longrightarrow>
      \<exists>b'. MustStoreBuilder L b d = Inr b' \<and> bview b' = (bs @ ds, rs @ qs)"
    and store_addr: "addr_ok a \<Longrightarrow>
      \<exists>b'. MustStoreAddr L (BeginCell L) a = Inr b' \<and> bview b' = (addr_bits a, [])"
    and store_slice: "bview b = (bs, rs) \<Longrightarrow> n \<le> 8 * length x \<Longrightarrow> length bs + n \<le> 1023 \<Longrightarrow>
      \<exists>b'. MustStoreSlice L b x n = Inr b' \<and> bview b' = (bs @ take n (byte_bits x), rs)"
    and store_coins: "bview b = (bs, rs) \<Longrightarrow> coins_ok i \<Longrightarrow> length bs + length (coins_bits i) \<le> 1023 \<Longrightarrow>
      \<exists>b'. MustStoreBigCoins L b i = Inr b' \<and> bview b' = (bs @ coins_bits i, rs)"
    and bits_used: "BitsUsed L b = length (fst (bview b))"
    and view_parse: "sview (BeginParse L (EndCell L b)) = bview b"
    and view_to_slice: "sview (ToSlice L b) = bview b"
    and view_to_cell: "sview (BeginParse L (MustToCell L s)) = sview s"
    and load_uint: "sview s = (bs, rs) \<Longrightarrow> n \<le> length bs \<Longrightarrow>
      \<exists>s'. LoadUInt L s n = Inr (bits_nat (take n bs), s') \<and> sview s' = (drop n bs, rs)"
    and load_bigint: "sview s = (bs, rs) \<Longrightarrow> n \<le> length bs \<Longrightarrow>
      \<exists>s'. LoadBigInt L s n = Inr (bits_int (take n bs), s') \<and> sview s' = (drop n bs, rs)"
    and load_ref: "sview s = (bs, r # rs) \<Longrightarrow>
      \<exists>s'. LoadRefCell L s = Inr (r, s') \<and> sview s' = (bs, rs)"
    and load_addr: "sview s = (addr_bits a @ bs, rs) \<Longrightarrow> addr_ok a \<Longrightarrow>
      \<exists>s'. LoadAddr L s = Inr (a, s') \<and> sview s' = (bs, rs)"
    and load_slice: "sview s = (bs, rs) \<Longrightarrow> n \<le> length bs \<Longrightarrow> 8 dvd n \<Longrightarrow>
      \<exists>s'. LoadSlice L s n = Inr (bits_bytes (n div 8) (take n bs), s') \<and> sview s' = (drop n bs, rs)"
    and load_coins: "sview s = (coins_bits i @ bs, rs) \<Longrightarrow> coins_ok i \<Longrightarrow>
      \<exists>s'. LoadBigCoins L s = Inr (i, s') \<and> sview s' = (bs, rs)"
    and bits_left: "BitsLeft L s = length (fst (sview s))"
    and refs_num: "RefsNum L s = length (snd (sview s))"
    and cell_refs: "CellRefs L c = snd (sview (BeginParse L c))"
begin

text \<open>A field written with \<open>MustStoreUInt\<close> is read back by \<open>LoadUInt\<close>, whatever follows it.\<close>

lemma load_uint_field:
  assumes "sview s = (nat_bits n v @ bs, rs)" "v < 2 ^ n"
  shows "\<exists>s'. LoadUInt L s n = Inr (v, s') \<and> sview s' = (bs, rs)"
  using load_uint [OF assms(1), of n] assms(2) by (simp add: bits_nat_nat_bits)

lemma load_bigint_field:
  assumes "sview s = (int_bits n v @ bs, rs)" "fits n v"
  shows "\<exists>s'. LoadBigInt L s n = Inr (v, s') \<and> sview s' = (bs, rs)"
  using load_bigint [OF assms(1), of n] assms(2) by (simp add: bits_int_int_bits)

lemma load_ref_field:
  assumes "sview s = (bs, r # rs)"
  shows "\<exists>s'. LoadRef L s = Inr (BeginParse L r, s') \<and> sview s' = (bs, rs)"
  using load_ref [OF assms] by (auto simp: LoadRef_def)

end

section \<open>Builder chains\<close>

text \<open>
  \<open>cell.BeginCell().MustStoreA(..).MustStoreB(..)\<close> is a chain of stores, from an empty builder;
  a store of a whole builder may itself panic while the builder is made.
\<close>

definition build :: "('b, 's, 'c) cell_lib \<Rightarrow> ('b \<Rightarrow> 'b res) list \<Rightarrow> 'b res" where
  "build L ops = rfold (\<lambda>op b. op b) ops (BeginCell L)"

definition st_uint :: "('b, 's, 'c) cell_lib \<Rightarrow> nat \<Rightarrow> nat \<Rightarrow> 'b \<Rightarrow> 'b res" where
  "st_uint L v n b = MustStoreUInt L b v n"

definition st_int :: "('b, 's, 'c) cell_lib \<Rightarrow> int \<Rightarrow> nat \<Rightarrow> 'b \<Rightarrow> 'b res" where
  "st_int L v n b = MustStoreInt L b v n"

definition st_bigint :: "('b, 's, 'c) cell_lib \<Rightarrow> int \<Rightarrow> nat \<Rightarrow> 'b \<Rightarrow> 'b res" where
  "st_bigint L v n b = MustStoreBigInt L b v n"

definition st_ref :: "('b, 's, 'c) cell_lib \<Rightarrow> 'c res \<Rightarrow> 'b \<Rightarrow> 'b res" where
  "st_ref L c b = rbind c (MustStoreRef L b)"

definition st_addr :: "('b, 's, 'c) cell_lib \<Rightarrow> address option \<Rightarrow> 'b \<Rightarrow> 'b res" where
  "st_addr L a b = MustStoreAddr L b a"

definition st_builder :: "('b, 's, 'c) cell_lib \<Rightarrow> 'b res \<Rightarrow> 'b \<Rightarrow> 'b res" where
  "st_builder L d b = rbind d (MustStoreBuilder L b)"

definition end_cell :: "('b, 's, 'c) cell_lib \<Rightarrow> 'b res \<Rightarrow> 'c res" where
  "end_cell L m = rbind m (\<lambda>b. Inr (EndCell L b))"

section \<open>Push and read operations of the virtual machine code\<close>

text \<open>\<open>PushIntOP\<close>: the shortest of the three encodings that holds the value and its sign bit.\<close>

definition PushIntOP :: "('b, 's, 'c) cell_lib \<Rightarrow> int \<Rightarrow> 'b res" where
  "PushIntOP L val =
     (let bitsSz = BitLen val + 1 in
      if bitsSz \<le> 8 then build L [st_uint L 0x80 8, st_bigint L val 8]
      else if bitsSz \<le> 16 then build L [st_uint L 0x81 8, st_bigint L val 16]
      else
        (let bitsSz = (if bitsSz < 19 then 19 else bitsSz);
             sz = bitsSz - 19;
             l = sz div 8;
             l = (if sz mod 8 \<noteq> 0 then l + 1 else l);
             x = 19 + l * 8
         in if 257 < x then
              build L [st_uint L 0x82 8, st_uint L l 5,
                st_int L (if val < 0 then - 1 else 0) (x - 257), st_bigint L val 257]
            else build L [st_uint L 0x82 8, st_uint L l 5, st_bigint L val x]))"

definition PushRef :: "('b, 's, 'c) cell_lib \<Rightarrow> 'c \<Rightarrow> 'b res" where
  "PushRef L slc = build L [st_uint L 0x88 8, st_ref L (Inr slc)]"

definition PushNull :: "('b, 's, 'c) cell_lib \<Rightarrow> 'b res" where
  "PushNull L = build L [st_uint L 0x6D 8]"

definition PushSliceRef :: "('b, 's, 'c) cell_lib \<Rightarrow> 's \<Rightarrow> 'b res" where
  "PushSliceRef L slc = build L [st_uint L 0x89 8, st_ref L (Inr (MustToCell L slc))]"

definition ReadCellOP :: "('b, 's, 'c) cell_lib \<Rightarrow> 's \<Rightarrow> ('c \<times> 's) res" where
  "ReadCellOP L code = rbind (LoadUInt L code 8) (\<lambda>(v, code).
     if v \<noteq> 0x88 then Inl (Errorf ''incorrect opcode'') else LoadRefCell L code)"

definition ReadCellOrNullOP :: "('b, 's, 'c) cell_lib \<Rightarrow> 's \<Rightarrow> ('c option \<times> 's) res" where
  "ReadCellOrNullOP L code = rbind (LoadUInt L code 8) (\<lambda>(v, code).
     if v \<noteq> 0x88 \<and> v \<noteq> 0x6D then Inl (Errorf ''incorrect opcode'')
     else if v = 0x6D then Inr (None, code)
     else rbind (LoadRefCell L code) (\<lambda>(c, code). Inr (Some c, code)))"

definition ReadSliceOP :: "('b, 's, 'c) cell_lib \<Rightarrow> 's \<Rightarrow> ('s \<times> 's) res" where
  "ReadSliceOP L code = rbind (LoadUInt L code 8) (\<lambda>(v, code).
     if v \<noteq> 0x89 then Inl (Errorf ''incorrect opcode'') else LoadRef L code)"

text \<open>The wide form: the length in bytes, rounding bits above 257, the value.\<close>

definition read_wide :: "('b, 's, 'c) cell_lib \<Rightarrow> nat \<Rightarrow> 's \<Rightarrow> (int \<times> 's) res" where
  "read_wide L szBytes code =
     (let sz = szBytes * 8 + 19 in
      if 257 < sz then
        rbind (LoadUInt L code (sz - 257)) (\<lambda>(_, code). LoadBigInt L code 257)
      else LoadBigInt L code sz)"

definition ReadIntOP :: "('b, 's, 'c) cell_lib \<Rightarrow> 's \<Rightarrow> (int \<times> 's) res" where
  "ReadIntOP L code = rbind (LoadUInt L code 8) (\<lambda>(pfx, code).
     if pfx = 0x80 then LoadBigInt L code 8
     else if pfx = 0x81 then LoadBigInt L code 16
     else if pfx = 0x82 then
       rbind (LoadUInt L code 5) (\<lambda>(szBytes, code). read_wide L szBytes code)
     else Inl (Errorf ''incorrect opcode''))"

text \<open>
  The code pushes an address as a slice reference and reads it back with two error messages, one
  for the instruction and one for the address.
\<close>

definition push_addr :: "('b, 's, 'c) cell_lib \<Rightarrow> address option \<Rightarrow> 'b res" where
  "push_addr L a = rbind (build L [st_addr L a]) (\<lambda>b. PushSliceRef L (ToSlice L b))"

definition read_addr :: "('b, 's, 'c) cell_lib \<Rightarrow> string \<Rightarrow> string \<Rightarrow> 's \<Rightarrow> (address option \<times> 's) res" where
  "read_addr L m1 m2 s = rbind (rwrap m1 (ReadSliceOP L s)) (\<lambda>(slc, s).
     rbind (rwrap m2 (LoadAddr L slc)) (\<lambda>(a, _). Inr (a, s)))"

section \<open>Round trip of the push and read operations\<close>

definition push_len :: "int \<Rightarrow> nat" where
  "push_len v = (let sz = BitLen v - 18 in if sz mod 8 \<noteq> 0 then sz div 8 + 1 else sz div 8)"

text \<open>The bits \<open>PushIntOP\<close> writes, as one list.\<close>

definition push_bits :: "int \<Rightarrow> bool list" where
  "push_bits v = (if BitLen v + 1 \<le> 8 then nat_bits 8 0x80 @ int_bits 8 v
     else if BitLen v + 1 \<le> 16 then nat_bits 8 0x81 @ int_bits 16 v
     else nat_bits 8 0x82 @ nat_bits 5 (push_len v) @
       (if 257 < 19 + push_len v * 8
        then int_bits (19 + push_len v * 8 - 257) (if v < 0 then - 1 else 0) @ int_bits 257 v
        else int_bits (19 + push_len v * 8) v))"

lemma PushIntOP_alt:
  "PushIntOP L v = (if BitLen v + 1 \<le> 8 then build L [st_uint L 0x80 8, st_bigint L v 8]
     else if BitLen v + 1 \<le> 16 then build L [st_uint L 0x81 8, st_bigint L v 16]
     else if 257 < 19 + push_len v * 8 then
       build L [st_uint L 0x82 8, st_uint L (push_len v) 5,
         st_int L (if v < 0 then - 1 else 0) (19 + push_len v * 8 - 257), st_bigint L v 257]
     else build L [st_uint L 0x82 8, st_uint L (push_len v) 5, st_bigint L v (19 + push_len v * 8)])"
proof -
  have "(if BitLen v + 1 < 19 then 19 else BitLen v + 1) - 19 = BitLen v - 18" by simp
  then show ?thesis by (simp only: PushIntOP_def push_len_def Let_def)
qed

lemma push_len_bounds:
  "BitLen v + 1 \<le> 19 + push_len v * 8"
  "BitLen v \<le> 18 + 8 * k \<Longrightarrow> push_len v \<le> k"
proof -
  define z where "z = BitLen v - 18"
  have l: "push_len v = (if z mod 8 \<noteq> 0 then z div 8 + 1 else z div 8)"
    by (simp add: push_len_def z_def Let_def)
  have dm: "z = 8 * (z div 8) + z mod 8" "z mod 8 < 8" by simp_all
  then have zl: "z \<le> push_len v * 8" unfolding l by (auto split: if_splits)
  then show "BitLen v + 1 \<le> 19 + push_len v * 8" by (auto simp: z_def)
  assume "BitLen v \<le> 18 + 8 * k"
  then have "z \<le> 8 * k" by (auto simp: z_def)
  with dm have "8 * (z div 8) + z mod 8 \<le> 8 * k" by linarith
  moreover have "8 * (z div 8) < 8 * k" if "z mod 8 \<noteq> 0" using calculation that by linarith
  ultimately show "push_len v \<le> k" unfolding l by (auto simp: Suc_le_eq)
qed

lemma fits_BitLen: "BitLen v + 1 \<le> n \<Longrightarrow> fits n v"
proof -
  assume "BitLen v + 1 \<le> n"
  then obtain m where n: "n = Suc m" and "BitLen v \<le> m" by (cases n) auto
  then have "\<bar>v\<bar> < 2 ^ m" by (simp add: BitLen_le_iff)
  then show ?thesis by (auto simp: fits_def n)
qed

lemma length_push_bits:
  "BitLen v \<le> 256 \<Longrightarrow> length (push_bits v) \<le> 272"
  "BitLen v \<le> 122 \<Longrightarrow> length (push_bits v) \<le> 136"
  "BitLen v \<le> 34 \<Longrightarrow> length (push_bits v) \<le> 48"
  using push_len_bounds(2) [of v 30] push_len_bounds(2) [of v 13] push_len_bounds(2) [of v 2]
  by (auto simp: push_bits_def)

text \<open>
  In the contract of the library: \<open>writes op d\<close> says that a store appends the data \<open>d\<close> (bits and
  references) when it fits, \<open>rds rd d v\<close> that a load consumes \<open>d\<close> and returns \<open>v\<close>.
\<close>

type_synonym 'c cdata = "bool list \<times> 'c list"

definition cat :: "'c cdata \<Rightarrow> 'c cdata \<Rightarrow> 'c cdata" where
  "cat d e = (fst d @ fst e, snd d @ snd e)"

definition cfits :: "'c cdata \<Rightarrow> bool" where
  "cfits d \<longleftrightarrow> length (fst d) \<le> 1023 \<and> length (snd d) \<le> 4"

lemma cat_Nil [simp]: "cat d ([], []) = d" "cat ([], []) d = d"
  by (simp_all add: cat_def)

lemma cat_assoc: "cat (cat d e) f = cat d (cat e f)"
  by (simp add: cat_def)

lemma cfits_catD: "cfits (cat d e) \<Longrightarrow> cfits d"
  by (simp add: cfits_def cat_def)

context cell_library
begin

definition writes :: "('b \<Rightarrow> 'b res) \<Rightarrow> 'c cdata \<Rightarrow> bool" where
  "writes op d \<longleftrightarrow> (\<forall>b. cfits (cat (bview b) d) \<longrightarrow> (\<exists>b'. op b = Inr b' \<and> bview b' = cat (bview b) d))"

definition made :: "'b res \<Rightarrow> 'c cdata \<Rightarrow> bool" where
  "made m d \<longleftrightarrow> (\<exists>b. m = Inr b \<and> bview b = d)"

definition rds :: "('s \<Rightarrow> ('v \<times> 's) res) \<Rightarrow> 'c cdata \<Rightarrow> 'v \<Rightarrow> bool" where
  "rds rd d v \<longleftrightarrow> (\<forall>s e. sview s = cat d e \<longrightarrow> (\<exists>s'. rd s = Inr (v, s') \<and> sview s' = e))"

lemma writes_uint [intro]: "v < 2 ^ n \<Longrightarrow> writes (st_uint L v n) (nat_bits n v, [])"
  unfolding writes_def cat_def cfits_def st_uint_def using store_uint by fastforce

lemma writes_int [intro]: "fits n v \<Longrightarrow> n \<le> 64 \<Longrightarrow> writes (st_int L v n) (int_bits n v, [])"
  unfolding writes_def cat_def cfits_def st_int_def using store_int by fastforce

lemma writes_bigint [intro]: "fits n v \<Longrightarrow> writes (st_bigint L v n) (int_bits n v, [])"
  unfolding writes_def cat_def cfits_def st_bigint_def using store_bigint by fastforce

lemma writes_ref [intro]: "m = Inr c \<Longrightarrow> writes (st_ref L m) ([], [c])"
  unfolding writes_def cat_def cfits_def st_ref_def using store_ref by fastforce

lemma writes_builder [intro]: "made m d \<Longrightarrow> writes (st_builder L m) d"
proof -
  assume "made m d"
  then obtain e where e: "m = Inr e" "bview e = d" by (auto simp: made_def)
  show ?thesis
    unfolding writes_def
  proof (intro allI impI)
    fix b assume f: "cfits (cat (bview b) d)"
    obtain bs rs where b: "bview b = (bs, rs)" by fastforce
    obtain ds qs where d: "d = (ds, qs)" by fastforce
    show "\<exists>b'. st_builder L m b = Inr b' \<and> bview b' = cat (bview b) d"
      using store_builder [OF b, of e ds qs] e f b d
      by (auto simp: st_builder_def cfits_def cat_def)
  qed
qed

lemma made_build:
  assumes "list_all2 writes ops ds" "cfits (foldr cat ds ([], []))"
  shows "made (build L ops) (foldr cat ds ([], []))"
proof -
  have "\<exists>b'. rfold (\<lambda>op b. op b) ops b = Inr b' \<and> bview b' = cat (bview b) (foldr cat ds ([], []))"
    if "cfits (cat (bview b) (foldr cat ds ([], [])))" for b
    using assms(1) that
  proof (induction arbitrary: b rule: list_all2_induct)
    case Nil
    then show ?case by simp
  next
    case (Cons op ops d ds)
    from Cons.prems have f: "cfits (cat (cat (bview b) d) (foldr cat ds ([], [])))"
      by (simp add: cat_assoc)
    with Cons.hyps(1) obtain c where c: "op b = Inr c" "bview c = cat (bview b) d"
      unfolding writes_def using cfits_catD by blast
    with f have "cfits (cat (bview c) (foldr cat ds ([], [])))" by simp
    from Cons.IH [OF this] c show ?case by (auto simp: cat_assoc)
  qed
  from this [of "BeginCell L"] assms(2) view_begin show ?thesis
    by (simp add: made_def build_def)
qed

lemma rds_uint [intro]: "v < 2 ^ n \<Longrightarrow> rds (\<lambda>s. LoadUInt L s n) (nat_bits n v, []) v"
  unfolding rds_def cat_def using load_uint_field by fastforce

lemma rds_bigint [intro]: "fits n v \<Longrightarrow> rds (\<lambda>s. LoadBigInt L s n) (int_bits n v, []) v"
  unfolding rds_def cat_def using load_bigint_field by fastforce

lemma rds_ref [intro]: "rds (LoadRefCell L) ([], [c]) c"
  unfolding rds_def cat_def using load_ref by fastforce

lemma rdsE:
  assumes "rds rd d v" "sview s = cat d e"
  obtains s' where "rd s = Inr (v, s')" "sview s' = e"
  using assms unfolding rds_def by blast

text \<open>A load of \<open>d\<close> followed by a load of \<open>e\<close>.\<close>

lemma rds_bind:
  assumes "rds rd d v" "rds (f v) e w"
  shows "rds (\<lambda>s. rbind (rd s) (\<lambda>(x, s). f x s)) (cat d e) w"
  unfolding rds_def
proof (intro allI impI)
  fix s g assume "sview s = cat (cat d e) g"
  then have "sview s = cat d (cat e g)" by (simp add: cat_assoc)
  with assms(1) obtain s1 where s1: "rd s = Inr (v, s1)" "sview s1 = cat e g" by (rule rdsE)
  from assms(2) s1(2) obtain s2 where "f v s1 = Inr (w, s2)" "sview s2 = g" by (rule rdsE)
  with s1(1) show "\<exists>s'. rbind (rd s) (\<lambda>(x, s). f x s) = Inr (w, s') \<and> sview s' = g" by simp
qed

lemma made_push_int: "BitLen v \<le> 256 \<Longrightarrow> made (PushIntOP L v) (push_bits v, [])"
proof -
  assume v: "BitLen v \<le> 256"
  let ?l = "push_len v"
  have l: "?l \<le> 30" using push_len_bounds(2) [of v 30] v by simp
  have fx: "fits (19 + ?l * 8) v" using push_len_bounds(1) by (rule fits_BitLen)
  have f257: "fits 257 v" using v by (intro fits_BitLen) simp
  have pad: "fits (19 + ?l * 8 - 257) (if v < 0 then - 1 else 0)" if "257 < 19 + ?l * 8"
  proof -
    from that have "0 < 19 + ?l * 8 - 257" by simp
    then obtain k where "19 + ?l * 8 - 257 = Suc k" by (rule gr0_implies_Suc [THEN exE])
    moreover have "- 1 < (2::int) ^ k" using zero_less_power [of "2::int" k] by linarith
    ultimately show ?thesis by (simp add: fits_def)
  qed
  have len: "length (push_bits v) \<le> 1023" using length_push_bits(1) [OF v] by simp
  have "made (build L ops) (push_bits v, [])"
    if "list_all2 writes ops (map (\<lambda>b. (b, [])) bss)" "concat bss = push_bits v" for ops bss
  proof -
    have "foldr cat (map (\<lambda>b. (b, [] :: 'c list)) bss) ([], []) = (concat bss, [])" for bss
      by (induction bss) (simp_all add: cat_def)
    with made_build [OF that(1)] that(2) len show ?thesis by (simp add: cfits_def)
  qed
  note m = this
  consider (a) "BitLen v + 1 \<le> 8" | (b) "\<not> BitLen v + 1 \<le> 8" "BitLen v + 1 \<le> 16"
    | (c) "\<not> BitLen v + 1 \<le> 8" "\<not> BitLen v + 1 \<le> 16" "257 < 19 + ?l * 8"
    | (d) "\<not> BitLen v + 1 \<le> 8" "\<not> BitLen v + 1 \<le> 16" "\<not> 257 < 19 + ?l * 8"
    by blast
  then show ?thesis
  proof cases
    case a
    have "list_all2 writes [st_uint L 0x80 8, st_bigint L v 8]
       (map (\<lambda>b. (b, [])) [nat_bits 8 0x80, int_bits 8 v])"
      using fits_BitLen [OF a] by (simp add: writes_uint writes_bigint del: nat_bits.simps)
    from m [OF this] a show ?thesis by (simp add: PushIntOP_alt push_bits_def)
  next
    case b
    have "list_all2 writes [st_uint L 0x81 8, st_bigint L v 16]
       (map (\<lambda>b. (b, [])) [nat_bits 8 0x81, int_bits 16 v])"
      using fits_BitLen [OF b(2)] by (simp add: writes_uint writes_bigint del: nat_bits.simps)
    from m [OF this] b show ?thesis by (simp add: PushIntOP_alt push_bits_def)
  next
    case c
    have "list_all2 writes [st_uint L 0x82 8, st_uint L ?l 5,
         st_int L (if v < 0 then - 1 else 0) (19 + ?l * 8 - 257), st_bigint L v 257]
       (map (\<lambda>b. (b, [])) [nat_bits 8 0x82, nat_bits 5 ?l,
         int_bits (19 + ?l * 8 - 257) (if v < 0 then - 1 else 0), int_bits 257 v])"
      using l c pad f257 by (simp add: writes_uint writes_int writes_bigint del: nat_bits.simps)
    from m [OF this] c show ?thesis by (simp add: PushIntOP_alt push_bits_def)
  next
    case d
    have "list_all2 writes [st_uint L 0x82 8, st_uint L ?l 5, st_bigint L v (19 + ?l * 8)]
       (map (\<lambda>b. (b, [])) [nat_bits 8 0x82, nat_bits 5 ?l, int_bits (19 + ?l * 8) v])"
      using l fx by (simp add: writes_uint writes_bigint del: nat_bits.simps)
    from m [OF this] d show ?thesis by (simp add: PushIntOP_alt push_bits_def)
  qed
qed

text \<open>The value of a read does not matter where the code drops it (the rounding bits).\<close>

lemma rds_uint_any: "rds (\<lambda>s. LoadUInt L s (length bs)) (bs, []) (bits_nat bs)"
  unfolding rds_def
proof (intro allI impI)
  fix s e assume "sview s = cat (bs, []) e"
  then have "sview s = (bs @ fst e, snd e)" by (simp add: cat_def)
  from load_uint [OF this, of "length bs"]
  show "\<exists>s'. LoadUInt L s (length bs) = Inr (bits_nat bs, s') \<and> sview s' = e" by simp
qed

lemma rds_wide:
  assumes "BitLen v \<le> 256"
  shows "rds (read_wide L (push_len v)) (if 257 < 19 + push_len v * 8
      then int_bits (19 + push_len v * 8 - 257) (if v < 0 then - 1 else 0) @ int_bits 257 v
      else int_bits (19 + push_len v * 8) v, []) v"
proof (cases "257 < 19 + push_len v * 8")
  case True
  let ?pad = "int_bits (19 + push_len v * 8 - 257) (if v < 0 then - 1 else 0)"
  have f257: "fits 257 v" using assms by (intro fits_BitLen) simp
  have "rds (\<lambda>s. rbind (LoadUInt L s (length ?pad)) (\<lambda>(x, s). LoadBigInt L s 257))
      (cat (?pad, []) (int_bits 257 v, [])) v"
    using rds_uint_any rds_bigint [OF f257] by (rule rds_bind)
  moreover have "read_wide L (push_len v) =
      (\<lambda>s. rbind (LoadUInt L s (length ?pad)) (\<lambda>(x, s). LoadBigInt L s 257))"
    using True by (simp add: read_wide_def fun_eq_iff add.commute)
  ultimately show ?thesis using True by (simp add: cat_def)
next
  case False
  then have "read_wide L (push_len v) = (\<lambda>s. LoadBigInt L s (19 + push_len v * 8))"
    by (simp add: read_wide_def fun_eq_iff add.commute)
  with False rds_bigint [OF fits_BitLen [OF push_len_bounds(1)]] show ?thesis by simp
qed

lemma rds_push_int: "BitLen v \<le> 256 \<Longrightarrow> rds (ReadIntOP L) (push_bits v, []) v"
proof -
  assume v: "BitLen v \<le> 256"
  have l: "push_len v < 2 ^ 5" using push_len_bounds(2) [of v 30] v by simp
  define sel where "sel = (\<lambda>pfx code. if pfx = (0x80::nat) then LoadBigInt L code 8
     else if pfx = 0x81 then LoadBigInt L code 16
     else if pfx = 0x82 then rbind (LoadUInt L code 5) (\<lambda>(x, code). read_wide L x code)
     else Inl (Errorf ''incorrect opcode''))"
  have R: "ReadIntOP L = (\<lambda>s. rbind (LoadUInt L s 8) (\<lambda>(x, s). sel x s))"
    by (simp only: ReadIntOP_def sel_def fun_eq_iff) simp
  have w82: "rds (sel 0x82) (cat (nat_bits 5 (push_len v), []) (if 257 < 19 + push_len v * 8
      then int_bits (19 + push_len v * 8 - 257) (if v < 0 then - 1 else 0) @ int_bits 257 v
      else int_bits (19 + push_len v * 8) v, [])) v"
    using rds_bind [OF rds_uint [OF l], of "read_wide L", OF rds_wide [OF v]]
    by (simp add: sel_def)
  consider (a) "BitLen v + 1 \<le> 8" | (b) "\<not> BitLen v + 1 \<le> 8" "BitLen v + 1 \<le> 16"
    | (c) "\<not> BitLen v + 1 \<le> 8" "\<not> BitLen v + 1 \<le> 16" by blast
  then show ?thesis
  proof cases
    case a
    have "rds (sel 0x80) (int_bits 8 v, []) v"
      using rds_bigint [OF fits_BitLen [OF a]] by (simp add: sel_def)
    from rds_bind [OF rds_uint [of "0x80" 8], of sel, OF _ this] a show ?thesis
      by (simp add: R push_bits_def cat_def del: nat_bits.simps)
  next
    case b
    have "rds (sel 0x81) (int_bits 16 v, []) v"
      using rds_bigint [OF fits_BitLen [OF b(2)]] by (simp add: sel_def)
    from rds_bind [OF rds_uint [of "0x81" 8], of sel, OF _ this] b show ?thesis
      by (simp add: R push_bits_def cat_def del: nat_bits.simps)
  next
    case c
    from rds_bind [OF rds_uint [of "0x82" 8], of sel, OF _ w82] c show ?thesis
      by (simp add: R push_bits_def cat_def del: nat_bits.simps)
  qed
qed

lemma made_push_ref: "made (PushRef L c) (nat_bits 8 0x88, [c])"
proof -
  have "list_all2 writes [st_uint L 0x88 8, st_ref L (Inr c)] [(nat_bits 8 0x88, []), ([], [c])]"
    by (simp add: writes_uint writes_ref del: nat_bits.simps)
  from made_build [OF this] show ?thesis
    by (simp add: PushRef_def cat_def cfits_def del: nat_bits.simps)
qed

lemma made_push_null: "made (PushNull L) (nat_bits 8 0x6D, [])"
proof -
  have "list_all2 writes [st_uint L 0x6D 8] [(nat_bits 8 0x6D, [])]"
    by (simp add: writes_uint del: nat_bits.simps)
  from made_build [OF this] show ?thesis
    by (simp add: PushNull_def cat_def cfits_def del: nat_bits.simps)
qed

lemma made_push_slice_ref: "made (PushSliceRef L s) (nat_bits 8 0x89, [MustToCell L s])"
proof -
  have "list_all2 writes [st_uint L 0x89 8, st_ref L (Inr (MustToCell L s))]
      [(nat_bits 8 0x89, []), ([], [MustToCell L s])]"
    by (simp add: writes_uint writes_ref del: nat_bits.simps)
  from made_build [OF this] show ?thesis
    by (simp add: PushSliceRef_def cat_def cfits_def del: nat_bits.simps)
qed

lemma rds_prefixed:
  assumes "p < 2 ^ 8" "rds (f p) d v"
  shows "rds (\<lambda>s. rbind (LoadUInt L s 8) (\<lambda>(x, s). f x s)) (nat_bits 8 p @ fst d, snd d) v"
  using rds_bind [OF rds_uint [OF assms(1)], of f, OF assms(2)] by (simp add: cat_def)

lemma rds_map:
  assumes "rds rd d v" shows "rds (\<lambda>s. rbind (rd s) (\<lambda>(x, s). Inr (g x, s))) d (g v)"
  unfolding rds_def
proof (intro allI impI)
  fix s e assume "sview s = cat d e"
  with assms obtain s' where "rd s = Inr (v, s')" "sview s' = e" by (rule rdsE)
  then show "\<exists>s'. rbind (rd s) (\<lambda>(x, s). Inr (g x, s)) = Inr (g v, s') \<and> sview s' = e" by simp
qed

lemma rds_read_cell: "rds (ReadCellOP L) (nat_bits 8 0x88, [c]) c"
  using rds_prefixed [of "0x88" "\<lambda>v code. if v \<noteq> 0x88 then Inl (Errorf ''incorrect opcode'')
      else LoadRefCell L code" "([], [c])" c] rds_ref
  by (simp add: ReadCellOP_def [abs_def] del: nat_bits.simps)

lemma rds_read_cell_or_null:
  "rds (ReadCellOrNullOP L) (nat_bits 8 0x88, [c]) (Some c)"
  "rds (ReadCellOrNullOP L) (nat_bits 8 0x6D, []) None"
proof -
  let ?f = "\<lambda>v code. if v \<noteq> (0x88::nat) \<and> v \<noteq> 0x6D then Inl (Errorf ''incorrect opcode'')
     else if v = 0x6D then Inr (None, code)
     else rbind (LoadRefCell L code) (\<lambda>(c, code). Inr (Some c, code))"
  show "rds (ReadCellOrNullOP L) (nat_bits 8 0x88, [c]) (Some c)"
    using rds_prefixed [of "0x88" ?f "([], [c])" "Some c"] rds_map [OF rds_ref, of Some]
    by (simp add: ReadCellOrNullOP_def [abs_def] del: nat_bits.simps)
  have "rds (?f 0x6D) ([], []) None" by (auto simp: rds_def cat_def)
  then show "rds (ReadCellOrNullOP L) (nat_bits 8 0x6D, []) None"
    using rds_prefixed [of "0x6D" ?f "([], [])" None]
    by (simp add: ReadCellOrNullOP_def [abs_def] del: nat_bits.simps)
qed

lemma rds_read_slice: "rds (ReadSliceOP L) (nat_bits 8 0x89, [c]) (BeginParse L c)"
proof -
  have "rds (LoadRef L) ([], [c]) (BeginParse L c)"
    using rds_map [OF rds_ref] by (simp add: LoadRef_def [abs_def])
  then show ?thesis
    using rds_prefixed [of "0x89" "\<lambda>v code. if v \<noteq> 0x89 then Inl (Errorf ''incorrect opcode'')
      else LoadRef L code" "([], [c])" "BeginParse L c"]
    by (simp add: ReadSliceOP_def [abs_def] del: nat_bits.simps)
qed

lemma push_addr_roundtrip:
  assumes "addr_ok a"
  shows "\<exists>c. made (push_addr L a) (nat_bits 8 0x89, [c]) \<and>
    (\<forall>m1 m2. rds (read_addr L m1 m2) (nat_bits 8 0x89, [c]) a)"
proof -
  obtain b where b: "MustStoreAddr L (BeginCell L) a = Inr b" "bview b = (addr_bits a, [])"
    using store_addr [OF assms] by blast
  define c where "c = MustToCell L (ToSlice L b)"
  have sv: "sview (BeginParse L c) = (addr_bits a @ [], [])"
    using b(2) by (simp add: c_def view_to_cell view_to_slice)
  then obtain t where t: "LoadAddr L (BeginParse L c) = Inr (a, t)"
    using load_addr [OF sv assms] by blast
  have "push_addr L a = PushSliceRef L (ToSlice L b)"
    using b(1) by (simp add: push_addr_def build_def st_addr_def)
  with made_push_slice_ref have 1: "made (push_addr L a) (nat_bits 8 0x89, [c])"
    by (simp add: c_def)
  have "rds (read_addr L m1 m2) (nat_bits 8 0x89, [c]) a" for m1 m2
    unfolding rds_def
  proof (intro allI impI)
    fix s e assume "sview s = cat (nat_bits 8 0x89, [c]) e"
    with rds_read_slice obtain s' where "ReadSliceOP L s = Inr (BeginParse L c, s')" "sview s' = e"
      by (rule rdsE)
    with t show "\<exists>s'. read_addr L m1 m2 s = Inr (a, s') \<and> sview s' = e" by (simp add: read_addr_def)
  qed
  with 1 show ?thesis by blast
qed

end

end
