(* ===== verification/SendState.thy ===== *)
theory SendState
  imports Cells
begin

text \<open>
  The state of a send action and the operations every send action shares
  (\<^verbatim>\<open>pkg/payments/actions/send.go\<close>): what was sent in total, how much of it was committed on
  chain, and at which sequence number.
\<close>

section \<open>State\<close>

record StateActionSend =
  sasAmount :: int
  sasCommited :: int
  sasCommitedSeqno :: uint64

definition send_ok :: "StateActionSend \<Rightarrow> bool" where
  "send_ok s \<longleftrightarrow> coins_ok (sasAmount s) \<and> coins_ok (sasCommited s)"

definition send_outstanding :: "StateActionSend \<Rightarrow> int" where
  "send_outstanding s = sasAmount s - sasCommited s"

record PendingMessageInfo =
  pmAmounts :: "(string \<times> int) list"
  CompletionBodyPrefix :: bytes
  CompletionAddress :: string
  LimitDepth :: int

section \<open>Operations\<close>

text \<open>\<open>prepareExecuteSendState\<close>; \<open>addr_string\<close> renders the party's address.\<close>

definition prepareExecuteSendState ::
  "('b, 's, 'c) cell_lib \<Rightarrow> ('s, 'c, StateActionSend) codec \<Rightarrow> (address \<Rightarrow> string) \<Rightarrow>
   'c \<Rightarrow> uint64 \<Rightarrow> CoinConfig \<Rightarrow> bool \<Rightarrow> balances \<Rightarrow> address \<Rightarrow> bytes \<Rightarrow>
   ('c \<times> PendingMessageInfo) res" where
  "prepareExecuteSendState L SC addr_string state seqno coin withFee finalBalances party completionOp =
     rbind (LoadState L SC state) (\<lambda>cur.
     if seqno \<le> sasCommitedSeqno cur then Inl ErrAlreadyCommitted
     else rbind
       (if withFee then
          (let b = finalBalances (BalanceID coin) in
           if b = None \<or> Available b < FeePerWithdrawPropose coin
           then Inl (Errorf ''not enough balance to pay fee'')
           else Inr (sasAmount cur + FeePerWithdrawPropose coin))
        else Inr (sasAmount cur)) (\<lambda>amount.
     let amount = (if sasCommited cur \<noteq> 0 then amount - sasCommited cur else amount);
         new = \<lparr>sasAmount = amount, sasCommited = amount, sasCommitedSeqno = seqno\<rparr>;
         msg = \<lparr>pmAmounts = [(BalanceID coin, amount)], CompletionBodyPrefix = completionOp,
                CompletionAddress = addr_string party, LimitDepth = 0\<rparr>
     in rbind (ToCell SC new) (\<lambda>newState. Inr (newState, msg))))"

definition empty_send :: StateActionSend where
  "empty_send = \<lparr>sasAmount = 0, sasCommited = 0, sasCommitedSeqno = 0\<rparr>"

definition emptySendState :: "('s, 'c, StateActionSend) codec \<Rightarrow> 'c res" where
  "emptySendState SC = (case ToCell SC empty_send of Inl e \<Rightarrow> Inl (Panic ''serialize empty state'') | Inr c \<Rightarrow> Inr c)"

definition checkCanRemove ::
  "('b, 's, 'c) cell_lib \<Rightarrow> ('s, 'c, StateActionSend) codec \<Rightarrow> uint64 \<Rightarrow> 'c \<Rightarrow> bool res" where
  "checkCanRemove L SC commitedSeqno state = rbind (LoadState L SC state) (\<lambda>cur.
     let amt = sasAmount cur;
         amt = (if sasCommitedSeqno cur \<le> commitedSeqno then amt - sasCommited cur else amt)
     in Inr (amt \<le> 0))"

definition sendStatesDiff ::
  "('b, 's, 'c) cell_lib \<Rightarrow> ('s, 'c, StateActionSend) codec \<Rightarrow> 'c \<Rightarrow> 'c \<Rightarrow> string \<Rightarrow> (string \<times> int) list res" where
  "sendStatesDiff L SC before after balanceId =
     rbind (LoadState L SC before) (\<lambda>b. rbind (LoadState L SC after) (\<lambda>a.
       Inr [(balanceId, sasAmount a - sasAmount b)]))"

definition sendAddCoins ::
  "('b, 's, 'c) cell_lib \<Rightarrow> ('s, 'c, StateActionSend) codec \<Rightarrow> CoinConfig \<Rightarrow> 'c \<Rightarrow> int \<Rightarrow> locked option \<Rightarrow>
   ('c \<times> locked option) res" where
  "sendAddCoins L SC cc actionState amount lck =
     rbind (rwrap ''failed to load old state'' (LoadState L SC actionState)) (\<lambda>act.
     rbind (rwrap ''failed to serialize new action state''
       (ToCell SC (act\<lparr>sasAmount := sasAmount act + amount\<rparr>))) (\<lambda>new.
     Inr (new, mark_used (BalanceID cc) amount lck)))"

section \<open>What the operations do to a decoded state\<close>

lemma send_ok_empty [simp]: "send_ok empty_send"
  by (simp add: send_ok_def coins_ok_def empty_send_def)

lemma emptySendState_load:
  "codec_ok L SC send_ok \<Longrightarrow> \<exists>c. emptySendState SC = Inr c \<and> LoadState L SC c = Inr empty_send"
  using codec_okD [of L SC send_ok empty_send] by (auto simp: emptySendState_def)

lemma sendAddCoins_spec:
  assumes "codec_ok L SC send_ok" "LoadState L SC st = Inr s" "send_ok s"
    and "0 \<le> amt" "sasAmount s + amt < 2 ^ 120"
  shows "\<exists>c. sendAddCoins L SC cc st amt lck = Inr (c, mark_used (BalanceID cc) amt lck) \<and>
    LoadState L SC c = Inr (s\<lparr>sasAmount := sasAmount s + amt\<rparr>) \<and>
    send_ok (s\<lparr>sasAmount := sasAmount s + amt\<rparr>)"
proof -
  let ?n = "s\<lparr>sasAmount := sasAmount s + amt\<rparr>"
  have "send_ok ?n" using assms by (auto simp: send_ok_def coins_ok_def)
  moreover from codec_okD [OF assms(1) this] obtain c where "ToCell SC ?n = Inr c" "LoadState L SC c = Inr ?n"
    by blast
  ultimately show ?thesis using assms(2) by (auto simp: sendAddCoins_def)
qed

text \<open>
  A commit settles everything outstanding: the new state has nothing left to pay, and the pending
  message carries the outstanding amount plus the fee when one is taken.
\<close>

lemma prepareExecuteSendState_spec:
  assumes "prepareExecuteSendState L SC adr st seqno coin withFee bals party op = Inr (c, msg)"
    and "codec_ok L SC send_ok" "LoadState L SC st = Inr s"
    and "due = send_outstanding s + (if withFee then FeePerWithdrawPropose coin else 0)" "coins_ok due"
  shows "LoadState L SC c = Inr \<lparr>sasAmount = due, sasCommited = due, sasCommitedSeqno = seqno\<rparr>"
    and "pmAmounts msg = [(BalanceID coin, due)]"
    and "sasCommitedSeqno s < seqno"
proof -
  let ?n = "\<lparr>sasAmount = due, sasCommited = due, sasCommitedSeqno = seqno\<rparr>"
  have n: "send_ok ?n" using assms(5) by (simp add: send_ok_def)
  have t: "ToCell SC ?n = Inr c" and m: "pmAmounts msg = [(BalanceID coin, due)]"
    and lt: "sasCommitedSeqno s < seqno"
    using assms(1,3,4)
    by (auto simp: prepareExecuteSendState_def send_outstanding_def Let_def not_le algebra_simps split: if_splits)
  show "LoadState L SC c = Inr ?n" using codec_ok_load [OF assms(2) n t] .
  show "pmAmounts msg = [(BalanceID coin, due)]" by (rule m)
  show "sasCommitedSeqno s < seqno" by (rule lt)
qed

lemma prepareExecuteSendState_total:
  assumes "codec_ok L SC send_ok" "LoadState L SC st = Inr s" "sasCommitedSeqno s < seqno"
    and "withFee \<Longrightarrow> \<exists>b. bals (BalanceID coin) = Some b \<and> FeePerWithdrawPropose coin \<le> Available (Some b)"
    and "coins_ok (send_outstanding s + (if withFee then FeePerWithdrawPropose coin else 0))"
  shows "\<exists>r. prepareExecuteSendState L SC adr st seqno coin withFee bals party op = Inr r"
proof -
  define due where "due = send_outstanding s + (if withFee then FeePerWithdrawPropose coin else 0)"
  have "send_ok \<lparr>sasAmount = due, sasCommited = due, sasCommitedSeqno = seqno\<rparr>"
    using assms(5) by (simp add: send_ok_def due_def)
  from codec_okD [OF assms(1) this] obtain c where
    "ToCell SC \<lparr>sasAmount = due, sasCommited = due, sasCommitedSeqno = seqno\<rparr> = Inr c" by blast
  with assms(2-4) show ?thesis
    by (auto simp: prepareExecuteSendState_def send_outstanding_def due_def Let_def not_le algebra_simps)
qed

lemma checkCanRemove_spec:
  "LoadState L SC st = Inr s \<Longrightarrow> checkCanRemove L SC cs st =
     Inr ((if sasCommitedSeqno s \<le> cs then send_outstanding s else sasAmount s) \<le> 0)"
  by (simp add: checkCanRemove_def send_outstanding_def)

end
