(* ===== verification/CellInstance.thy ===== *)
theory CellInstance
  imports SendState
begin

text \<open>
  Cells as bit strings with references, at their real limits (1023 bits, four references), and
  the TL-B layouts of addresses and of coin amounts. They satisfy the contract \<open>cell_library\<close>,
  so the theorems that rest on the contract hold of real cells; witnesses run on them.
\<close>

section \<open>Bit-level cells\<close>

datatype tcell = TCell "bool list" "tcell list"

type_synonym tdata = "bool list \<times> tcell list"

fun open_cell :: "tcell \<Rightarrow> tdata" where
  "open_cell (TCell bs rs) = (bs, rs)"

definition close_cell :: "tdata \<Rightarrow> tcell" where
  "close_cell d = TCell (fst d) (snd d)"

lemma open_close [simp]: "open_cell (close_cell d) = d"
  by (simp add: close_cell_def)

definition t_append :: "tdata \<Rightarrow> tdata \<Rightarrow> tdata res" where
  "t_append b d = (if (fst d = [] \<or> length (fst b) + length (fst d) \<le> 1023) \<and>
       (snd d = [] \<or> length (snd b) + length (snd d) \<le> 4)
     then Inr (cat b d) else Inl (Panic ''cell overflow''))"

definition t_take :: "nat \<Rightarrow> tdata \<Rightarrow> (bool list \<times> tdata) res" where
  "t_take n s = (if n \<le> length (fst s) then Inr (take n (fst s), (drop n (fst s), snd s))
     else Inl (Errorf ''not enough data in reader''))"

text \<open>\<open>addr_none\<close> is \<open>00\<close>; \<open>addr_std\<close> is \<open>100\<close>, the workchain byte and 256 bits.\<close>

definition t_addr_bits :: "address option \<Rightarrow> bool list" where
  "t_addr_bits a = (case a of None \<Rightarrow> [False, False]
     | Some x \<Rightarrow> if x = [] then [False, False] else [True, False, False] @ nat_bits 8 0 @ byte_bits x)"

definition t_load_addr :: "tdata \<Rightarrow> (address option \<times> tdata) res" where
  "t_load_addr s = rbind (t_take 2 s) (\<lambda>(p, s').
     if p = [False, False] then Inr (Some [], s')
     else if p = [True, False] then
       rbind (t_take 267 s) (\<lambda>(w, s'). Inr (Some (bits_bytes 32 (drop 11 w)), s'))
     else Inl (Errorf ''not supported type of address''))"

definition t_load_ref :: "tdata \<Rightarrow> (tcell \<times> tdata) res" where
  "t_load_ref s = (case snd s of [] \<Rightarrow> Inl (Errorf ''no more references'')
     | r # rs \<Rightarrow> Inr (r, (fst s, rs)))"

definition load_coins :: "tdata \<Rightarrow> (int \<times> tdata) res" where
  "load_coins s = rbind (t_take 4 s) (\<lambda>(p, s).
     rbind (t_take (8 * bits_nat p) s) (\<lambda>(q, s). Inr (int (bits_nat q), s)))"

definition ton_cells :: "(tcell \<Rightarrow> bytes) \<Rightarrow> (tdata, tdata, tcell) cell_lib" where
  "ton_cells h = \<lparr>
     BeginCell = ([], []),
     MustStoreUInt = (\<lambda>b v n. if v < 2 ^ n then t_append b (nat_bits n v, []) else Inl (Panic ''uint'')),
     MustStoreInt = (\<lambda>b v n. if fits n v then t_append b (int_bits n v, []) else Inl (Panic ''int'')),
     MustStoreBigInt = (\<lambda>b v n. if fits n v then t_append b (int_bits n v, []) else Inl (Panic ''int'')),
     MustStoreRef = (\<lambda>b c. t_append b ([], [c])),
     MustStoreBuilder = t_append,
     MustStoreAddr = (\<lambda>b a. t_append b (t_addr_bits a, [])),
     MustStoreSlice = (\<lambda>b x n. if n \<le> 8 * length x then t_append b (take n (byte_bits x), [])
        else Inl (Panic ''slice'')),
     MustStoreBigCoins = (\<lambda>b v. if coins_ok v then t_append b (coins_bits v, []) else Inl (Panic ''coins'')),
     BitsUsed = (\<lambda>b. length (fst b)),
     EndCell = close_cell, ToSlice = (\<lambda>b. b), BeginParse = open_cell, MustToCell = close_cell,
     LoadUInt = (\<lambda>s n. rbind (t_take n s) (\<lambda>(bs, s'). Inr (bits_nat bs, s'))),
     LoadBigInt = (\<lambda>s n. rbind (t_take n s) (\<lambda>(bs, s'). Inr (bits_int bs, s'))),
     LoadRefCell = t_load_ref,
     LoadAddr = t_load_addr,
     LoadSlice = (\<lambda>s n. rbind (t_take n s) (\<lambda>(bs, s'). Inr (bits_bytes (n div 8) bs, s'))),
     LoadBigCoins = load_coins,
     BitsLeft = (\<lambda>s. length (fst s)),
     RefsNum = (\<lambda>s. length (snd s)),
     CellHash = h,
     CellRefs = (\<lambda>c. snd (open_cell c))\<rparr>"

lemma length_t_addr_bits: "addr_ok a \<Longrightarrow> length (t_addr_bits a) \<le> 267"
  by (simp add: addr_ok_def t_addr_bits_def split: option.splits)

lemma t_load_addr_field:
  assumes "addr_ok a" shows "t_load_addr (t_addr_bits a @ bs, rs) = Inr (a, (bs, rs))"
proof (cases a)
  case None
  with assms show ?thesis by (simp add: addr_ok_def)
next
  case (Some x)
  with assms have x: "length x = 32" by (simp add: addr_ok_def)
  then have ne: "x \<noteq> []" by auto
  have "drop 11 ([True, False, False] @ nat_bits 8 0 @ byte_bits x) = byte_bits x @ []" by simp
  with x bits_bytes_byte_bits [of x "[]"] have
    "bits_bytes 32 (drop 11 (take 267 (t_addr_bits (Some x) @ bs))) = x"
    using ne by (simp add: t_addr_bits_def)
  moreover have "drop 267 (t_addr_bits (Some x) @ bs) = bs" "267 \<le> length (t_addr_bits (Some x) @ bs)"
    using x ne by (simp_all add: t_addr_bits_def)
  moreover have "take 2 (t_addr_bits (Some x) @ bs) = [True, False]"
    using ne by (simp add: t_addr_bits_def)
  ultimately show ?thesis using Some by (simp add: t_load_addr_def t_take_def)
qed

lemma load_coins_field: "coins_ok v \<Longrightarrow> load_coins (coins_bits v @ bs, rs) = Inr (v, (bs, rs))"
  using coins_len [of v]
  by (auto simp: load_coins_def coins_bits_def t_take_def Let_def bits_nat_nat_bits coins_ok_def)

interpretation ton: cell_library "ton_cells h" "\<lambda>b. b" "\<lambda>s. s" t_addr_bits for h
proof (unfold_locales, goal_cases)
  case (7 a)
  then show ?case
    using length_t_addr_bits [of a]
    by (auto simp: ton_cells_def t_append_def cat_def cfits_def)
next
  case (17 s a bs rs)
  then show ?case by (simp add: ton_cells_def t_load_addr_field)
next
  case (19 s v bs rs)
  then show ?case by (simp add: ton_cells_def load_coins_field)
qed (auto simp: ton_cells_def t_append_def t_take_def t_load_ref_def cat_def cfits_def)

section \<open>TL-B layouts\<close>

definition ton_send :: "(tdata, tcell, StateActionSend) codec" where
  "ton_send = \<lparr>
     LoadFromCell = (\<lambda>s. rbind (load_coins s) (\<lambda>(a, s). rbind (load_coins s) (\<lambda>(c, s).
        rbind (t_take 64 s) (\<lambda>(q, s).
          Inr (\<lparr>sasAmount = a, sasCommited = c, sasCommitedSeqno = of_nat (bits_nat q)\<rparr>, s))))),
     ToCell = (\<lambda>v. if send_ok v then
        Inr (TCell (coins_bits (sasAmount v) @ coins_bits (sasCommited v) @
          nat_bits 64 (unat (sasCommitedSeqno v))) [])
        else Inl (Panic ''coins''))\<rparr>"

lemma word64_bits [simp]: "of_nat (bits_nat (nat_bits 64 (unat w))) = (w :: 64 word)"
proof -
  have "unat w < 2 ^ 64" using unsigned_less [of w, where ?'a = nat] by simp
  then show ?thesis by (simp add: bits_nat_nat_bits)
qed

definition send_cell :: "StateActionSend \<Rightarrow> tcell" where
  "send_cell v = TCell (coins_bits (sasAmount v) @ coins_bits (sasCommited v) @
     nat_bits 64 (unat (sasCommitedSeqno v))) []"

lemma ton_send_to_cell: "send_ok v \<Longrightarrow> ToCell ton_send v = Inr (send_cell v)"
  by (simp add: ton_send_def send_cell_def)

lemma ton_send_load: "send_ok v \<Longrightarrow> LoadState (ton_cells h) ton_send (send_cell v) = Inr v"
  using load_coins_field [of "sasCommited v" "nat_bits 64 (unat (sasCommitedSeqno v))" "[]"]
    load_coins_field [of "sasAmount v"]
  by (simp add: LoadState_def ton_send_def ton_cells_def send_ok_def t_take_def send_cell_def)

lemma ton_send_ok: "codec_ok (ton_cells h) ton_send send_ok"
  by (simp add: codec_ok_def ton_send_to_cell ton_send_load)

text \<open>A vault: two addresses, and the 512-bit signature in a reference.\<close>

definition vault_ok :: "VaultData \<Rightarrow> bool" where
  "vault_ok v \<longleftrightarrow> addr_ok (vdTarget v) \<and> addr_ok (vdAddress v) \<and> length (vdSignature v) = 64"

definition ton_vault :: "(tdata, tcell, VaultData) codec" where
  "ton_vault = \<lparr>
     LoadFromCell = (\<lambda>s. rbind (t_load_addr s) (\<lambda>(t, s). rbind (t_load_addr s) (\<lambda>(a, s).
        rbind (t_load_ref s) (\<lambda>(r, s). rbind (t_take 512 (open_cell r)) (\<lambda>(q, _).
          Inr (\<lparr>vdTarget = t, vdAddress = a, vdSignature = bits_bytes 64 q\<rparr>, s)))))),
     ToCell = (\<lambda>v. if vault_ok v then
        Inr (TCell (t_addr_bits (vdTarget v) @ t_addr_bits (vdAddress v)) [TCell (byte_bits (vdSignature v)) []])
        else Inl (Panic ''vault''))\<rparr>"

lemma ton_vault_ok: "codec_ok (ton_cells h) ton_vault vault_ok"
proof -
  have "LoadState (ton_cells h) ton_vault (TCell (t_addr_bits (vdTarget v) @ t_addr_bits (vdAddress v))
      [TCell (byte_bits (vdSignature v)) []]) = Inr v" if "vault_ok v" for v
    using that t_load_addr_field [of "vdAddress v" "[]"] t_load_addr_field [of "vdTarget v"]
      bits_bytes_byte_bits [of "vdSignature v" "[]"]
    by (simp add: LoadState_def ton_vault_def ton_cells_def vault_ok_def t_take_def t_load_ref_def)
  then show ?thesis by (simp add: codec_ok_def ton_vault_def)
qed

end
