(* ===== verification/Actions.thy ===== *)
theory Actions
  imports CellInstance
begin

text \<open>
  The six send actions (\<^verbatim>\<open>pkg/payments/actions/send*.go\<close>): TON, extra currency and jetton, each
  either paid from the channel (insured) or from a vault. Every action is a record of its Go
  struct; \<open>action\<close> is the interface value of \<^verbatim>\<open>pkg/payments/actions.go\<close>, and the \<open>Action_..\<close>
  functions dispatch on it. The locale \<open>send_action\<close> is the contract the accounting relies on.
\<close>

named_theorems action_defs \<open>definitions of the operations of the six actions\<close>

section \<open>Environment\<close>

text \<open>
  The cell library, the codecs of the structures the actions store, and the static code cells.
\<close>

record ('b, 's, 'c) act_env =
  aeL :: "('b, 's, 'c) cell_lib"
  aeSend :: "('s, 'c, StateActionSend) codec"
  aeVault :: "('s, 'c, VaultData) codec"
  aeAddrString :: "address \<Rightarrow> string"
  actionSendTonStaticCode :: 'c
  actionSendECStaticCode :: 'c
  actionSendJettonStaticCode :: 'c
  actionSendTonVaultStaticCode :: 'c
  actionSendECVaultStaticCode :: 'c
  actionSendJettonVaultStaticCode :: 'c

type_synonym resolve_balance = "string \<Rightarrow> CoinConfig res"

text \<open>\<open>tlb.Parse\<close> of a structure: read it, ignore what follows.\<close>

definition tlb_Parse :: "('b, 's, 'c) cell_lib \<Rightarrow> ('s, 'c, 'v) codec \<Rightarrow> 'c \<Rightarrow> 'v res" where
  "tlb_Parse L C c = rbind (LoadFromCell C (BeginParse L c)) (\<lambda>(v, _). Inr v)"

text \<open>The end of every parser: the static code reference, then nothing.\<close>

definition read_code :: "('b, 's, 'c) cell_lib \<Rightarrow> 'c \<Rightarrow> string \<Rightarrow> 's \<Rightarrow> unit res" where
  "read_code L static m s =
     rbind (rwrap ''failed to parse code'' (LoadRefCell L s)) (\<lambda>(code, s).
     if CellHash L code \<noteq> CellHash L static then Inl (Errorf ''incorrect code'')
     else if BitsLeft L s \<noteq> 0 \<or> RefsNum L s \<noteq> 0 then Inl (Errorf m)
     else Inr ())"

text \<open>An optional vault, pushed as a reference or as null.\<close>

definition push_vault :: "('b, 's, 'c) act_env \<Rightarrow> VaultData option \<Rightarrow> 'b res" where
  "push_vault E v = (case v of
     Some d \<Rightarrow> (case ToCell (aeVault E) d of
        Inl e \<Rightarrow> Inl (Panic ''failed to serialize vault'')
      | Inr c \<Rightarrow> PushRef (aeL E) c)
   | None \<Rightarrow> PushNull (aeL E))"

definition read_vault :: "('b, 's, 'c) act_env \<Rightarrow> 's \<Rightarrow> (VaultData option \<times> 's) res" where
  "read_vault E s =
     rbind (rwrap ''failed to parse cell op'' (ReadCellOrNullOP (aeL E) s)) (\<lambda>(slc, s).
     case slc of
       Some c \<Rightarrow> rbind (rwrap ''failed to parse addr'' (tlb_Parse (aeL E) (aeVault E) c)) (\<lambda>v. Inr (Some v, s))
     | None \<Rightarrow> Inr (None, s))"

text \<open>The balance an emulation updates: the entry of the coin, created when it is missing.\<close>

definition bal_entry :: "balances \<Rightarrow> string \<Rightarrow> CoinConfig \<Rightarrow> BalanceInfo" where
  "bal_entry bals i cc = (case bals i of None \<Rightarrow> NewBalanceInfo cc | Some b \<Rightarrow> b)"

section \<open>TON, insured\<close>

record ActionSendTonInsured =
  tiCoin :: CoinConfig
  tiAddressA :: "address option"
  tiAddressB :: "address option"

definition TonInsured_Serialize :: "('b, 's, 'c) act_env \<Rightarrow> ActionSendTonInsured \<Rightarrow> 'c res" where
  "TonInsured_Serialize E a = (let L = aeL E in end_cell L (build L
     [st_builder L (push_addr L (tiAddressA a)),
      st_builder L (push_addr L (tiAddressB a)),
      st_ref L (Inr (actionSendTonStaticCode E))]))"

definition TonInsured_Parse ::
  "('b, 's, 'c) act_env \<Rightarrow> resolve_balance \<Rightarrow> 's \<Rightarrow> ActionSendTonInsured res" where
  "TonInsured_Parse E rb s = (let L = aeL E in
     rbind (read_addr L ''failed to parse addr slice'' ''failed to parse addr'' s) (\<lambda>(addrA, s).
     rbind (read_addr L ''failed to parse addr slice'' ''failed to parse addr'' s) (\<lambda>(addrB, s).
     rbind (read_code L (actionSendTonStaticCode E) ''unexpected data in condition'' s) (\<lambda>_.
     rbind (rwrap ''failed to resolve balance type'' (rb GetTONBalanceID)) (\<lambda>cc.
     Inr \<lparr>tiCoin = cc, tiAddressA = addrA, tiAddressB = addrB\<rparr>)))))"

definition TonInsured_PrepareNext ::
  "ActionSendTonInsured \<Rightarrow> address option \<Rightarrow> address option \<Rightarrow> ActionSendTonInsured res" where
  "TonInsured_PrepareNext a addrA addrB =
     Inr \<lparr>tiCoin = tiCoin a, tiAddressA = addrA, tiAddressB = addrB\<rparr>"

definition TonInsured_PrepareExecuteState ::
  "('b, 's, 'c) act_env \<Rightarrow> ActionSendTonInsured \<Rightarrow> 'c \<Rightarrow> address \<Rightarrow> uint64 \<Rightarrow> bool \<Rightarrow> balances \<Rightarrow>
   ('c \<times> PendingMessageInfo) res" where [action_defs]:
  "TonInsured_PrepareExecuteState E a state party seqno withFee finalBalances =
     prepareExecuteSendState (aeL E) (aeSend E) (aeAddrString E) state seqno (tiCoin a) withFee
       finalBalances party (zeros 4)"

definition TonInsured_EmulateBalance ::
  "('b, 's, 'c) act_env \<Rightarrow> ActionSendTonInsured \<Rightarrow> 'c \<Rightarrow> balances \<Rightarrow> bool \<Rightarrow> balances res" where [action_defs]:
  "TonInsured_EmulateBalance E a state bals fromUs =
     rbind (LoadState (aeL E) (aeSend E) state) (\<lambda>cur.
     let i = GetTONBalanceID;
         b = bal_entry bals i (tiCoin a);
         amt = sasAmount cur - sasCommited cur
     in Inr (bals(i \<mapsto> b\<lparr>BalAction := (if fromUs then BalAction b - amt else BalAction b + amt)\<rparr>)))"

section \<open>Extra currency, insured\<close>

record ActionSendECInsured =
  eiCoin :: CoinConfig
  eiAddressA :: "address option"
  eiAddressB :: "address option"
  eiEC :: uint32

definition ECInsured_Serialize :: "('b, 's, 'c) act_env \<Rightarrow> ActionSendECInsured \<Rightarrow> 'c res" where
  "ECInsured_Serialize E a = (let L = aeL E in end_cell L (build L
     [st_builder L (push_addr L (eiAddressA a)),
      st_builder L (push_addr L (eiAddressB a)),
      st_builder L (PushIntOP L (uint (eiEC a))),
      st_ref L (Inr (actionSendECStaticCode E))]))"

text \<open>The identifier of an extra currency: positive and at most 32 bits.\<close>

definition read_ec :: "('b, 's, 'c) cell_lib \<Rightarrow> 's \<Rightarrow> (uint32 \<times> 's) res" where
  "read_ec L s = rbind (rwrap ''failed to parse ec int'' (ReadIntOP L s)) (\<lambda>(ec, s).
     if 32 < BitLen ec \<or> ec \<le> 0 then Inl (Errorf ''incorrect ec'') else Inr (of_int ec, s))"

definition ECInsured_Parse ::
  "('b, 's, 'c) act_env \<Rightarrow> resolve_balance \<Rightarrow> 's \<Rightarrow> ActionSendECInsured res" where
  "ECInsured_Parse E rb s = (let L = aeL E in
     rbind (read_addr L ''failed to parse addr slice'' ''failed to parse addr'' s) (\<lambda>(addrA, s).
     rbind (read_addr L ''failed to parse addr slice'' ''failed to parse addr'' s) (\<lambda>(addrB, s).
     rbind (read_ec L s) (\<lambda>(ec, s).
     rbind (read_code L (actionSendECStaticCode E) ''unexpected data in condition'' s) (\<lambda>_.
     rbind (rwrap ''failed to resolve balance type'' (rb (GetECBalanceID ec))) (\<lambda>cc.
     Inr \<lparr>eiCoin = cc, eiAddressA = addrA, eiAddressB = addrB, eiEC = ec\<rparr>))))))"

definition ECInsured_PrepareNext ::
  "ActionSendECInsured \<Rightarrow> address option \<Rightarrow> address option \<Rightarrow> ActionSendECInsured res" where
  "ECInsured_PrepareNext a addrA addrB =
     Inr \<lparr>eiCoin = eiCoin a, eiAddressA = addrA, eiAddressB = addrB, eiEC = eiEC a\<rparr>"

definition ECInsured_PrepareExecuteState ::
  "('b, 's, 'c) act_env \<Rightarrow> ActionSendECInsured \<Rightarrow> 'c \<Rightarrow> address \<Rightarrow> uint64 \<Rightarrow> bool \<Rightarrow> balances \<Rightarrow>
   ('c \<times> PendingMessageInfo) res" where [action_defs]:
  "ECInsured_PrepareExecuteState E a state party seqno withFee finalBalances =
     prepareExecuteSendState (aeL E) (aeSend E) (aeAddrString E) state seqno (eiCoin a) withFee
       finalBalances party (zeros 4)"

definition ECInsured_EmulateBalance ::
  "('b, 's, 'c) act_env \<Rightarrow> ActionSendECInsured \<Rightarrow> 'c \<Rightarrow> balances \<Rightarrow> bool \<Rightarrow> balances res" where [action_defs]:
  "ECInsured_EmulateBalance E a state bals fromUs =
     rbind (LoadState (aeL E) (aeSend E) state) (\<lambda>cur.
     let i = GetECBalanceID (eiEC a);
         b = bal_entry bals i (eiCoin a);
         amt = sasAmount cur - sasCommited cur
     in Inr (bals(i \<mapsto> b\<lparr>BalAction := (if fromUs then BalAction b - amt else BalAction b + amt)\<rparr>)))"

section \<open>Jettons, insured\<close>

record ActionSendJettonInsured =
  jiCoin :: CoinConfig
  jiAddressA :: "address option"
  jiAddressB :: "address option"
  jiRootAddr :: "address option"
  jiWalletA :: "address option"
  jiWalletB :: "address option"

definition JettonInsured_Serialize :: "('b, 's, 'c) act_env \<Rightarrow> ActionSendJettonInsured \<Rightarrow> 'c res" where
  "JettonInsured_Serialize E a = (let L = aeL E in end_cell L (build L
     [st_builder L (push_addr L (jiAddressA a)),
      st_builder L (push_addr L (jiAddressB a)),
      st_builder L (push_addr L (jiRootAddr a)),
      st_ref L (end_cell L (build L
        [st_builder L (push_addr L (jiWalletA a)),
         st_builder L (push_addr L (jiWalletB a)),
         st_ref L (Inr (actionSendJettonStaticCode E))]))]))"

text \<open>Both jetton actions continue in a reference that must be the last one.\<close>

definition read_next :: "('b, 's, 'c) cell_lib \<Rightarrow> 's \<Rightarrow> 's res" where
  "read_next L s = rbind (rwrap ''failed to parse ref'' (LoadRef L s)) (\<lambda>(s2, s).
     if BitsLeft L s \<noteq> 0 \<or> RefsNum L s \<noteq> 0 then Inl (Errorf ''unexpected data'') else Inr s2)"

definition read_wallets :: "('b, 's, 'c) cell_lib \<Rightarrow> 's \<Rightarrow> ((address option \<times> address option) \<times> 's) res" where
  "read_wallets L s =
     rbind (read_addr L ''failed to parse wallet A addr slice'' ''failed to parse wallet A addr'' s) (\<lambda>(walletA, s).
     rbind (read_addr L ''failed to parse wallet B addr slice'' ''failed to parse wallet B addr'' s) (\<lambda>(walletB, s).
     Inr ((walletA, walletB), s)))"

definition JettonInsured_Parse ::
  "('b, 's, 'c) act_env \<Rightarrow> resolve_balance \<Rightarrow> 's \<Rightarrow> ActionSendJettonInsured res" where
  "JettonInsured_Parse E rb s = (let L = aeL E in
     rbind (read_addr L ''failed to parse addr slice'' ''failed to parse addr'' s) (\<lambda>(addrA, s).
     rbind (read_addr L ''failed to parse addr slice'' ''failed to parse addr'' s) (\<lambda>(addrB, s).
     rbind (read_addr L ''failed to parse addr slice'' ''failed to parse root addr'' s) (\<lambda>(root, s).
     rbind (read_next L s) (\<lambda>s.
     rbind (read_wallets L s) (\<lambda>((walletA, walletB), s).
     rbind (read_code L (actionSendJettonStaticCode E) ''unexpected data'' s) (\<lambda>_.
     rbind (rwrap ''failed to resolve balance type'' (rb (GetJettonBalanceID root))) (\<lambda>cc.
     case CoinJettonClient cc of
       None \<Rightarrow> Inl (Errorf ''jetton client is not set'')
     | Some jc \<Rightarrow>
       rbind (rwrap ''failed to get wallet address A'' (GetWalletAddress jc addrA)) (\<lambda>wA.
       rbind (rwrap ''failed to get wallet address B'' (GetWalletAddress jc addrB)) (\<lambda>wB.
       if walletA \<noteq> Some wA \<or> walletB \<noteq> Some wB then Inl (Errorf ''incorrect jetton wallets'')
       else Inr \<lparr>jiCoin = cc, jiAddressA = addrA, jiAddressB = addrB, jiRootAddr = root,
                 jiWalletA = walletA, jiWalletB = walletB\<rparr>))))))))))"

definition JettonInsured_PrepareNext ::
  "ActionSendJettonInsured \<Rightarrow> address option \<Rightarrow> address option \<Rightarrow> ActionSendJettonInsured res" where
  "JettonInsured_PrepareNext a addrA addrB =
     (case CoinJettonClient (jiCoin a) of
        None \<Rightarrow> Inl (Panic ''nil jetton client'')
      | Some jc \<Rightarrow>
        rbind (rwrap ''failed to get wallet address A'' (GetWalletAddress jc addrA)) (\<lambda>wA.
        rbind (rwrap ''failed to get wallet address B'' (GetWalletAddress jc addrB)) (\<lambda>wB.
        Inr \<lparr>jiCoin = jiCoin a, jiAddressA = addrA, jiAddressB = addrB, jiRootAddr = jiRootAddr a,
             jiWalletA = Some wA, jiWalletB = Some wB\<rparr>)))"

definition transferNotificationOp :: bytes where
  "transferNotificationOp = [CHR 0x9C, CHR 0xD0, CHR 0x62, CHR 0x73]"

definition JettonInsured_PrepareExecuteState ::
  "('b, 's, 'c) act_env \<Rightarrow> ActionSendJettonInsured \<Rightarrow> 'c \<Rightarrow> address \<Rightarrow> uint64 \<Rightarrow> bool \<Rightarrow> balances \<Rightarrow>
   ('c \<times> PendingMessageInfo) res" where [action_defs]:
  "JettonInsured_PrepareExecuteState E a state party seqno withFee finalBalances =
     prepareExecuteSendState (aeL E) (aeSend E) (aeAddrString E) state seqno (jiCoin a) withFee
       finalBalances party (transferNotificationOp)"

definition JettonInsured_EmulateBalance ::
  "('b, 's, 'c) act_env \<Rightarrow> ActionSendJettonInsured \<Rightarrow> 'c \<Rightarrow> balances \<Rightarrow> bool \<Rightarrow> balances res" where [action_defs]:
  "JettonInsured_EmulateBalance E a state bals fromUs =
     rbind (LoadState (aeL E) (aeSend E) state) (\<lambda>cur.
     let i = GetJettonBalanceID (jiRootAddr a);
         b = bal_entry bals i (jiCoin a);
         amt = sasAmount cur - sasCommited cur
     in Inr (bals(i \<mapsto> b\<lparr>BalAction := (if fromUs then BalAction b - amt else BalAction b + amt)\<rparr>)))"

section \<open>TON, from a vault\<close>

record ActionSendTonVault =
  tvCoin :: CoinConfig
  tvVaultA :: "VaultData option"
  tvVaultB :: "VaultData option"

definition TonVault_Serialize :: "('b, 's, 'c) act_env \<Rightarrow> ActionSendTonVault \<Rightarrow> 'c res" where
  "TonVault_Serialize E a = (let L = aeL E in end_cell L (build L
     [st_builder L (push_vault E (tvVaultA a)),
      st_builder L (push_vault E (tvVaultB a)),
      st_ref L (Inr (actionSendTonVaultStaticCode E))]))"

definition TonVault_Parse ::
  "('b, 's, 'c) act_env \<Rightarrow> resolve_balance \<Rightarrow> 's \<Rightarrow> ActionSendTonVault res" where
  "TonVault_Parse E rb s = (let L = aeL E in
     rbind (read_vault E s) (\<lambda>(vaultA, s).
     rbind (read_vault E s) (\<lambda>(vaultB, s).
     rbind (read_code L (actionSendTonVaultStaticCode E) ''unexpected data in condition'' s) (\<lambda>_.
     rbind (rwrap ''failed to resolve balance type'' (rb GetTONBalanceID)) (\<lambda>cc.
     Inr \<lparr>tvCoin = cc, tvVaultA = vaultA, tvVaultB = vaultB\<rparr>)))))"

definition TonVault_PrepareNext ::
  "ActionSendTonVault \<Rightarrow> address option \<Rightarrow> address option \<Rightarrow> ActionSendTonVault res" where
  "TonVault_PrepareNext a addrA addrB =
     (case CoinVaultResolver (tvCoin a) of
        None \<Rightarrow> Inl (Errorf ''no vault resolver set'')
      | Some r \<Rightarrow> rbind (r addrA addrB) (\<lambda>(av, bv).
          Inr \<lparr>tvCoin = tvCoin a, tvVaultA = av, tvVaultB = bv\<rparr>))"

definition TonVault_PrepareExecuteState ::
  "('b, 's, 'c) act_env \<Rightarrow> ActionSendTonVault \<Rightarrow> 'c \<Rightarrow> address \<Rightarrow> uint64 \<Rightarrow> bool \<Rightarrow> balances \<Rightarrow>
   ('c \<times> PendingMessageInfo) res" where [action_defs]:
  "TonVault_PrepareExecuteState E a state party seqno withFee finalBalances =
     prepareExecuteSendState (aeL E) (aeSend E) (aeAddrString E) state seqno (tvCoin a) withFee
       finalBalances party (zeros 4)"

definition TonVault_EmulateBalance ::
  "('b, 's, 'c) act_env \<Rightarrow> ActionSendTonVault \<Rightarrow> 'c \<Rightarrow> balances \<Rightarrow> bool \<Rightarrow> balances res" where [action_defs]:
  "TonVault_EmulateBalance E a state bals fromUs =
     rbind (LoadState (aeL E) (aeSend E) state) (\<lambda>cur.
     let i = GetTONBalanceID;
         b = bal_entry bals i (tvCoin a);
         amt = sasAmount cur - sasCommited cur
     in Inr (bals(i \<mapsto> (if fromUs then b else b\<lparr>BalAction := BalAction b + amt\<rparr>))))"

section \<open>Extra currency, from a vault\<close>

record ActionSendECVault =
  evCoin :: CoinConfig
  evVaultA :: "VaultData option"
  evVaultB :: "VaultData option"
  evEC :: uint32

definition ECVault_Serialize :: "('b, 's, 'c) act_env \<Rightarrow> ActionSendECVault \<Rightarrow> 'c res" where
  "ECVault_Serialize E a = (let L = aeL E in end_cell L (build L
     [st_builder L (push_vault E (evVaultA a)),
      st_builder L (push_vault E (evVaultB a)),
      st_builder L (PushIntOP L (uint (evEC a))),
      st_ref L (Inr (actionSendECVaultStaticCode E))]))"

definition ECVault_Parse ::
  "('b, 's, 'c) act_env \<Rightarrow> resolve_balance \<Rightarrow> 's \<Rightarrow> ActionSendECVault res" where
  "ECVault_Parse E rb s = (let L = aeL E in
     rbind (read_vault E s) (\<lambda>(vaultA, s).
     rbind (read_vault E s) (\<lambda>(vaultB, s).
     rbind (read_ec L s) (\<lambda>(ec, s).
     rbind (read_code L (actionSendECVaultStaticCode E) ''unexpected data in condition'' s) (\<lambda>_.
     rbind (rwrap ''failed to resolve balance type'' (rb (GetECBalanceID ec))) (\<lambda>cc.
     Inr \<lparr>evCoin = cc, evVaultA = vaultA, evVaultB = vaultB, evEC = ec\<rparr>))))))"

definition ECVault_PrepareNext ::
  "ActionSendECVault \<Rightarrow> address option \<Rightarrow> address option \<Rightarrow> ActionSendECVault res" where
  "ECVault_PrepareNext a addrA addrB =
     (case CoinVaultResolver (evCoin a) of
        None \<Rightarrow> Inl (Errorf ''no vault resolver set'')
      | Some r \<Rightarrow> rbind (r addrA addrB) (\<lambda>(av, bv).
          Inr \<lparr>evCoin = evCoin a, evVaultA = av, evVaultB = bv, evEC = evEC a\<rparr>))"

definition ECVault_PrepareExecuteState ::
  "('b, 's, 'c) act_env \<Rightarrow> ActionSendECVault \<Rightarrow> 'c \<Rightarrow> address \<Rightarrow> uint64 \<Rightarrow> bool \<Rightarrow> balances \<Rightarrow>
   ('c \<times> PendingMessageInfo) res" where [action_defs]:
  "ECVault_PrepareExecuteState E a state party seqno withFee finalBalances =
     prepareExecuteSendState (aeL E) (aeSend E) (aeAddrString E) state seqno (evCoin a) withFee
       finalBalances party (zeros 4)"

definition ECVault_EmulateBalance ::
  "('b, 's, 'c) act_env \<Rightarrow> ActionSendECVault \<Rightarrow> 'c \<Rightarrow> balances \<Rightarrow> bool \<Rightarrow> balances res" where [action_defs]:
  "ECVault_EmulateBalance E a state bals fromUs =
     rbind (LoadState (aeL E) (aeSend E) state) (\<lambda>cur.
     let i = GetECBalanceID (evEC a);
         b = bal_entry bals i (evCoin a);
         amt = sasAmount cur - sasCommited cur
     in Inr (bals(i \<mapsto> (if fromUs then b else b\<lparr>BalAction := BalAction b + amt\<rparr>))))"

section \<open>Jettons, from a vault\<close>

record ActionSendJettonVault =
  jvCoin :: CoinConfig
  jvVaultA :: "VaultData option"
  jvVaultB :: "VaultData option"
  jvRootAddr :: "address option"
  jvWalletA :: "address option"
  jvWalletB :: "address option"

definition JettonVault_Serialize :: "('b, 's, 'c) act_env \<Rightarrow> ActionSendJettonVault \<Rightarrow> 'c res" where
  "JettonVault_Serialize E a = (let L = aeL E in end_cell L (build L
     [st_builder L (push_vault E (jvVaultA a)),
      st_builder L (push_vault E (jvVaultB a)),
      st_builder L (push_addr L (jvRootAddr a)),
      st_ref L (end_cell L (build L
        [st_builder L (push_addr L (jvWalletA a)),
         st_builder L (push_addr L (jvWalletB a)),
         st_ref L (Inr (actionSendJettonVaultStaticCode E))]))]))"

text \<open>The wallet of a side must be the vault's jetton wallet, and absent without a vault.\<close>

definition check_vault_wallet ::
  "JettonClient \<Rightarrow> string \<Rightarrow> string \<Rightarrow> string \<Rightarrow> VaultData option \<Rightarrow> address option \<Rightarrow> unit res" where
  "check_vault_wallet jc mget mbad mnil vault wallet = (case vault of
     Some v \<Rightarrow> rbind (rwrap mget (GetWalletAddress jc (vdAddress v))) (\<lambda>w.
       if wallet \<noteq> Some w then Inl (Errorf mbad) else Inr ())
   | None \<Rightarrow> if wallet \<noteq> None then Inl (Errorf mnil) else Inr ())"

definition JettonVault_Parse ::
  "('b, 's, 'c) act_env \<Rightarrow> resolve_balance \<Rightarrow> 's \<Rightarrow> ActionSendJettonVault res" where
  "JettonVault_Parse E rb s = (let L = aeL E in
     rbind (read_vault E s) (\<lambda>(vaultA, s).
     rbind (read_vault E s) (\<lambda>(vaultB, s).
     rbind (read_addr L ''failed to parse addr slice'' ''failed to parse root addr'' s) (\<lambda>(root, s).
     rbind (read_next L s) (\<lambda>s.
     rbind (read_wallets L s) (\<lambda>((walletA, walletB), s).
     rbind (read_code L (actionSendJettonVaultStaticCode E) ''unexpected data'' s) (\<lambda>_.
     rbind (rwrap ''failed to resolve balance type'' (rb (GetJettonBalanceID root))) (\<lambda>cc.
     case CoinJettonClient cc of
       None \<Rightarrow> Inl (Errorf ''jetton client is not set'')
     | Some jc \<Rightarrow>
       rbind (check_vault_wallet jc ''failed to get wallet address A'' ''incorrect jetton wallet A''
         ''wallet A must be nil'' vaultA walletA) (\<lambda>_.
       rbind (check_vault_wallet jc ''failed to get wallet address B'' ''incorrect jetton wallet B''
         ''wallet B must be nil'' vaultB walletB) (\<lambda>_.
       Inr \<lparr>jvCoin = cc, jvVaultA = vaultA, jvVaultB = vaultB, jvRootAddr = root,
            jvWalletA = walletA, jvWalletB = walletB\<rparr>))))))))))"

definition vault_wallet :: "JettonClient option \<Rightarrow> string \<Rightarrow> VaultData option \<Rightarrow> address option res" where
  "vault_wallet jco msg v = (case v of
     None \<Rightarrow> Inr None
   | Some d \<Rightarrow> (case jco of None \<Rightarrow> Inl (Panic ''nil jetton client'')
       | Some jc \<Rightarrow> rbind (rwrap msg (GetWalletAddress jc (vdAddress d))) (\<lambda>w. Inr (Some w))))"

definition JettonVault_PrepareNext ::
  "ActionSendJettonVault \<Rightarrow> address option \<Rightarrow> address option \<Rightarrow> ActionSendJettonVault res" where
  "JettonVault_PrepareNext a addrA addrB =
     (case CoinVaultResolver (jvCoin a) of
        None \<Rightarrow> Inl (Errorf ''no vault resolver set'')
      | Some r \<Rightarrow> rbind (r addrA addrB) (\<lambda>(av, bv).
          rbind (vault_wallet (CoinJettonClient (jvCoin a)) ''failed to get vault wallet address A'' av) (\<lambda>wA.
          rbind (vault_wallet (CoinJettonClient (jvCoin a)) ''failed to get vault wallet address B'' bv) (\<lambda>wB.
          Inr \<lparr>jvCoin = jvCoin a, jvVaultA = av, jvVaultB = bv, jvRootAddr = jvRootAddr a,
               jvWalletA = wA, jvWalletB = wB\<rparr>))))"

definition JettonVault_PrepareExecuteState ::
  "('b, 's, 'c) act_env \<Rightarrow> ActionSendJettonVault \<Rightarrow> 'c \<Rightarrow> address \<Rightarrow> uint64 \<Rightarrow> bool \<Rightarrow> balances \<Rightarrow>
   ('c \<times> PendingMessageInfo) res" where [action_defs]:
  "JettonVault_PrepareExecuteState E a state party seqno withFee finalBalances =
     prepareExecuteSendState (aeL E) (aeSend E) (aeAddrString E) state seqno (jvCoin a) withFee
       finalBalances party (transferNotificationOp)"

definition JettonVault_EmulateBalance ::
  "('b, 's, 'c) act_env \<Rightarrow> ActionSendJettonVault \<Rightarrow> 'c \<Rightarrow> balances \<Rightarrow> bool \<Rightarrow> balances res" where [action_defs]:
  "JettonVault_EmulateBalance E a state bals fromUs =
     rbind (LoadState (aeL E) (aeSend E) state) (\<lambda>cur.
     let i = GetJettonBalanceID (jvRootAddr a);
         b = bal_entry bals i (jvCoin a);
         amt = sasAmount cur - sasCommited cur
     in Inr (bals(i \<mapsto> (if fromUs then b else b\<lparr>BalAction := BalAction b + amt\<rparr>))))"

section \<open>The action interface\<close>

datatype action =
    TonInsured ActionSendTonInsured
  | ECInsured ActionSendECInsured
  | JettonInsured ActionSendJettonInsured
  | TonVault ActionSendTonVault
  | ECVault ActionSendECVault
  | JettonVault ActionSendJettonVault

fun Action_coin :: "action \<Rightarrow> CoinConfig" where
  "Action_coin (TonInsured a) =
     tiCoin a"
| "Action_coin (ECInsured a) =
     eiCoin a"
| "Action_coin (JettonInsured a) =
     jiCoin a"
| "Action_coin (TonVault a) =
     tvCoin a"
| "Action_coin (ECVault a) =
     evCoin a"
| "Action_coin (JettonVault a) =
     jvCoin a"

definition GetAffectedCoins :: "action \<Rightarrow> CoinConfig list" where
  "GetAffectedCoins a = [Action_coin a]"

fun Action_Serialize :: "('b, 's, 'c) act_env \<Rightarrow> action \<Rightarrow> 'c res" where
  "Action_Serialize E (TonInsured a) =
     TonInsured_Serialize E a"
| "Action_Serialize E (ECInsured a) =
     ECInsured_Serialize E a"
| "Action_Serialize E (JettonInsured a) =
     JettonInsured_Serialize E a"
| "Action_Serialize E (TonVault a) =
     TonVault_Serialize E a"
| "Action_Serialize E (ECVault a) =
     ECVault_Serialize E a"
| "Action_Serialize E (JettonVault a) =
     JettonVault_Serialize E a"

text \<open>\<open>IDCell\<close>: the hash of the serialised action, the key of its state in the dictionaries.\<close>

definition Action_IDCell :: "('b, 's, 'c) act_env \<Rightarrow> action \<Rightarrow> bytes res" where
  "Action_IDCell E a = rbind (Action_Serialize E a) (\<lambda>c. Inr (CellHash (aeL E) c))"

fun Action_EmulateBalance :: "('b, 's, 'c) act_env \<Rightarrow> action \<Rightarrow> 'c \<Rightarrow> balances \<Rightarrow> bool \<Rightarrow> balances res" where
  "Action_EmulateBalance E (TonInsured a) state bals fromUs =
     TonInsured_EmulateBalance E a state bals fromUs"
| "Action_EmulateBalance E (ECInsured a) state bals fromUs =
     ECInsured_EmulateBalance E a state bals fromUs"
| "Action_EmulateBalance E (JettonInsured a) state bals fromUs =
     JettonInsured_EmulateBalance E a state bals fromUs"
| "Action_EmulateBalance E (TonVault a) state bals fromUs =
     TonVault_EmulateBalance E a state bals fromUs"
| "Action_EmulateBalance E (ECVault a) state bals fromUs =
     ECVault_EmulateBalance E a state bals fromUs"
| "Action_EmulateBalance E (JettonVault a) state bals fromUs =
     JettonVault_EmulateBalance E a state bals fromUs"

fun Action_PrepareExecuteState :: "('b, 's, 'c) act_env \<Rightarrow> action \<Rightarrow> 'c \<Rightarrow> address \<Rightarrow> uint64 \<Rightarrow> bool \<Rightarrow> balances \<Rightarrow>
   ('c \<times> PendingMessageInfo) res" where
  "Action_PrepareExecuteState E (TonInsured a) state party seqno withFee bals =
     TonInsured_PrepareExecuteState E a state party seqno withFee bals"
| "Action_PrepareExecuteState E (ECInsured a) state party seqno withFee bals =
     ECInsured_PrepareExecuteState E a state party seqno withFee bals"
| "Action_PrepareExecuteState E (JettonInsured a) state party seqno withFee bals =
     JettonInsured_PrepareExecuteState E a state party seqno withFee bals"
| "Action_PrepareExecuteState E (TonVault a) state party seqno withFee bals =
     TonVault_PrepareExecuteState E a state party seqno withFee bals"
| "Action_PrepareExecuteState E (ECVault a) state party seqno withFee bals =
     ECVault_PrepareExecuteState E a state party seqno withFee bals"
| "Action_PrepareExecuteState E (JettonVault a) state party seqno withFee bals =
     JettonVault_PrepareExecuteState E a state party seqno withFee bals"

fun Action_PrepareNext :: "action \<Rightarrow> address option \<Rightarrow> address option \<Rightarrow> action res" where
  "Action_PrepareNext (TonInsured a) addrA addrB =
     rbind (TonInsured_PrepareNext a addrA addrB) (\<lambda>n. Inr (TonInsured n))"
| "Action_PrepareNext (ECInsured a) addrA addrB =
     rbind (ECInsured_PrepareNext a addrA addrB) (\<lambda>n. Inr (ECInsured n))"
| "Action_PrepareNext (JettonInsured a) addrA addrB =
     rbind (JettonInsured_PrepareNext a addrA addrB) (\<lambda>n. Inr (JettonInsured n))"
| "Action_PrepareNext (TonVault a) addrA addrB =
     rbind (TonVault_PrepareNext a addrA addrB) (\<lambda>n. Inr (TonVault n))"
| "Action_PrepareNext (ECVault a) addrA addrB =
     rbind (ECVault_PrepareNext a addrA addrB) (\<lambda>n. Inr (ECVault n))"
| "Action_PrepareNext (JettonVault a) addrA addrB =
     rbind (JettonVault_PrepareNext a addrA addrB) (\<lambda>n. Inr (JettonVault n))"

definition Action_AddCoins ::
  "('b, 's, 'c) act_env \<Rightarrow> action \<Rightarrow> 'c \<Rightarrow> int \<Rightarrow> locked option \<Rightarrow> ('c \<times> locked option) res" where
  "Action_AddCoins E a actionState amount lck =
     sendAddCoins (aeL E) (aeSend E) (Action_coin a) actionState amount lck"

definition Action_GetEmptyState :: "('b, 's, 'c) act_env \<Rightarrow> action \<Rightarrow> 'c res" where
  "Action_GetEmptyState E a = emptySendState (aeSend E)"

definition Action_CheckCanRemove :: "('b, 's, 'c) act_env \<Rightarrow> action \<Rightarrow> uint64 \<Rightarrow> 'c \<Rightarrow> bool res" where
  "Action_CheckCanRemove E a commitedSeqno state = checkCanRemove (aeL E) (aeSend E) commitedSeqno state"

definition Action_StatesDiff ::
  "('b, 's, 'c) act_env \<Rightarrow> action \<Rightarrow> 'c \<Rightarrow> 'c \<Rightarrow> (string \<times> int) list res" where
  "Action_StatesDiff E a before after =
     sendStatesDiff (aeL E) (aeSend E) before after (BalanceID (Action_coin a))"

definition Action_GetFeesPerCommitPropose :: "action \<Rightarrow> (string \<times> int) list" where
  "Action_GetFeesPerCommitPropose a =
     [(BalanceID (Action_coin a), FeePerWithdrawPropose (Action_coin a))]"

fun IsVaultAction :: "action \<Rightarrow> bool" where
  "IsVaultAction (TonVault a) = True"
| "IsVaultAction (ECVault a) = True"
| "IsVaultAction (JettonVault a) = True"
| "IsVaultAction _ = False"

section \<open>Choosing the action of a coin\<close>

definition newVaultActionFromBalanceID ::
  "CoinConfig \<Rightarrow> VaultResolver \<Rightarrow> address option \<Rightarrow> address option \<Rightarrow> action option res" where
  "newVaultActionFromBalanceID cc resolver aAddr bAddr =
     rbind (resolver aAddr bAddr) (\<lambda>(vaultA, vaultB).
     if vaultA = None \<and> vaultB = None then Inr None
     else if BalanceID cc = GetTONBalanceID then
       Inr (Some (TonVault \<lparr>tvCoin = cc, tvVaultA = vaultA, tvVaultB = vaultB\<rparr>))
     else (case CoinJettonClient cc of
       Some jc \<Rightarrow>
         rbind (vault_wallet (Some jc) ''failed to resolve vault jetton wallet A'' vaultA) (\<lambda>walletA.
         rbind (vault_wallet (Some jc) ''failed to resolve vault jetton wallet B'' vaultB) (\<lambda>walletB.
         Inr (Some (JettonVault \<lparr>jvCoin = cc, jvVaultA = vaultA, jvVaultB = vaultB,
           jvRootAddr = GetRootAddress jc, jvWalletA = walletA, jvWalletB = walletB\<rparr>))))
     | None \<Rightarrow>
         rbind (GetECFromBalanceID (BalanceID cc)) (\<lambda>ec.
         Inr (Some (ECVault \<lparr>evCoin = cc, evVaultA = vaultA, evVaultB = vaultB, evEC = ec\<rparr>)))))"

text \<open>\<open>parse\<close> is \<open>address.ParseAddr\<close> of the TON library.\<close>

definition NewSendActionFromBalanceID ::
  "(string \<Rightarrow> address res) \<Rightarrow> CoinConfig \<Rightarrow> string \<Rightarrow> string \<Rightarrow> action res" where
  "NewSendActionFromBalanceID parse cc a b =
     rbind (parse a) (\<lambda>aAddr.
     rbind (parse b) (\<lambda>bAddr.
     rbind (case CoinVaultResolver cc of
              Some r \<Rightarrow> newVaultActionFromBalanceID cc r (Some aAddr) (Some bAddr)
            | None \<Rightarrow> Inr None) (\<lambda>vault.
     case vault of
       Some act \<Rightarrow> Inr act
     | None \<Rightarrow>
       if BalanceID cc = GetTONBalanceID then
         Inr (TonInsured \<lparr>tiCoin = cc, tiAddressA = Some aAddr, tiAddressB = Some bAddr\<rparr>)
       else (case CoinJettonClient cc of
         Some jc \<Rightarrow>
           rbind (GetWalletAddress jc (Some aAddr)) (\<lambda>wa.
           rbind (GetWalletAddress jc (Some bAddr)) (\<lambda>wb.
           Inr (JettonInsured \<lparr>jiCoin = cc, jiAddressA = Some aAddr, jiAddressB = Some bAddr,
             jiRootAddr = GetRootAddress jc, jiWalletA = Some wa, jiWalletB = Some wb\<rparr>)))
       | None \<Rightarrow>
           rbind (GetECFromBalanceID (BalanceID cc)) (\<lambda>ec.
           Inr (ECInsured \<lparr>eiCoin = cc, eiAddressA = Some aAddr, eiAddressB = Some bAddr, eiEC = ec\<rparr>))))))"

section \<open>Recognising an action in a cell\<close>

text \<open>
  The registries \<open>ActionTypes\<close> and \<open>ConditionalTypes\<close> map the hash of a static code to a type.
  Detection looks at the references of a cell, then recurses into each; a cell tree is at most
  1024 deep, which bounds the recursion: \<open>fuel\<close> is the depth left.
\<close>

fun DetectType :: "nat \<Rightarrow> ('b, 's, 'c) cell_lib \<Rightarrow> (bytes \<Rightarrow> 'k option) \<Rightarrow> 'c \<Rightarrow> 'k option" where
  "DetectType 0 L types cl = None"
| "DetectType (Suc fuel) L types cl =
     (case first_some (\<lambda>c. types (CellHash L c)) (CellRefs L cl) of
        Some t \<Rightarrow> Some t
      | None \<Rightarrow> first_some (DetectType fuel L types) (CellRefs L cl))"

definition maxCellDepth :: nat where
  "maxCellDepth = 1024"

datatype action_kind = KTonInsured | KECInsured | KJettonInsured | KTonVault | KECVault | KJettonVault

text \<open>What the \<open>init\<close> functions of the action files register.\<close>

definition ActionTypes :: "('b, 's, 'c) act_env \<Rightarrow> bytes \<Rightarrow> action_kind option" where
  "ActionTypes E = (let h = CellHash (aeL E) in map_of
     [(h (actionSendTonStaticCode E), KTonInsured), (h (actionSendECStaticCode E), KECInsured),
      (h (actionSendJettonStaticCode E), KJettonInsured), (h (actionSendTonVaultStaticCode E), KTonVault),
      (h (actionSendECVaultStaticCode E), KECVault), (h (actionSendJettonVaultStaticCode E), KJettonVault)])"

definition DetectActionType :: "('b, 's, 'c) act_env \<Rightarrow> 'c \<Rightarrow> action_kind option" where
  "DetectActionType E cl = DetectType maxCellDepth (aeL E) (ActionTypes E) cl"

fun Action_Parse :: "('b, 's, 'c) act_env \<Rightarrow> action_kind \<Rightarrow> resolve_balance \<Rightarrow> 's \<Rightarrow> action res" where
  "Action_Parse E KTonInsured rb s = rbind (TonInsured_Parse E rb s) (\<lambda>a. Inr (TonInsured a))"
| "Action_Parse E KECInsured rb s = rbind (ECInsured_Parse E rb s) (\<lambda>a. Inr (ECInsured a))"
| "Action_Parse E KJettonInsured rb s = rbind (JettonInsured_Parse E rb s) (\<lambda>a. Inr (JettonInsured a))"
| "Action_Parse E KTonVault rb s = rbind (TonVault_Parse E rb s) (\<lambda>a. Inr (TonVault a))"
| "Action_Parse E KECVault rb s = rbind (ECVault_Parse E rb s) (\<lambda>a. Inr (ECVault a))"
| "Action_Parse E KJettonVault rb s = rbind (JettonVault_Parse E rb s) (\<lambda>a. Inr (JettonVault a))"

definition CodeToAction :: "('b, 's, 'c) act_env \<Rightarrow> resolve_balance \<Rightarrow> 'c \<Rightarrow> action res" where
  "CodeToAction E rb code = (case DetectActionType E code of
     None \<Rightarrow> Inl (Errorf ''unknown action type'')
   | Some k \<Rightarrow> rwrap ''failed to parse action code'' (Action_Parse E k rb (BeginParse (aeL E) code)))"

end
