(* ===== verification/ActionLaws.thy ===== *)
theory ActionLaws
  imports Actions
begin

text \<open>
  What the send actions promise: the accounting contract \<open>send_action\<close> (an emulation moves only
  the balance of the action's coin, by the outstanding amount), its interpretation on all six
  actions and on the dispatcher, and the round trip of the code cells through \<open>CodeToAction\<close>.
\<close>

section \<open>Accounting contract\<close>

text \<open>
  \<open>insured a\<close>: the payer's own balance carries the debt, too. A vault action is paid by the vault,
  so only the receiver's side counts it.
\<close>

definition act_delta :: "bool \<Rightarrow> StateActionSend \<Rightarrow> bool \<Rightarrow> int" where
  "act_delta insured s fromUs =
     (if fromUs then (if insured then - send_outstanding s else 0) else send_outstanding s)"

definition contribution ::
  "('a \<Rightarrow> string) \<Rightarrow> ('a \<Rightarrow> bool) \<Rightarrow> ('c \<Rightarrow> StateActionSend res) \<Rightarrow> string \<Rightarrow> bool \<Rightarrow> 'a \<times> 'c \<Rightarrow> int" where
  "contribution coin_id insured load k fromUs x = (case load (snd x) of Inl _ \<Rightarrow> 0
     | Inr s \<Rightarrow> if coin_id (fst x) = k then act_delta (insured (fst x)) s fromUs else 0)"

definition emulate_all ::
  "('a \<Rightarrow> 'c \<Rightarrow> balances \<Rightarrow> bool \<Rightarrow> balances res) \<Rightarrow> ('a \<times> 'c) list \<Rightarrow> bool \<Rightarrow> balances \<Rightarrow> balances res" where
  "emulate_all emulate xs fromUs = rfold (\<lambda>(a, st) bals. emulate a st bals fromUs) xs"

locale send_action =
  fixes emulate :: "'a \<Rightarrow> 'c \<Rightarrow> balances \<Rightarrow> bool \<Rightarrow> balances res"
    and coin :: "'a \<Rightarrow> CoinConfig"
    and coin_id :: "'a \<Rightarrow> string"
    and insured :: "'a \<Rightarrow> bool"
    and load :: "'c \<Rightarrow> StateActionSend res"
  assumes emulate_eq: "emulate a st bals fromUs = rbind (load st) (\<lambda>s.
      Inr (bals(coin_id a \<mapsto> (bal_entry bals (coin_id a) (coin a))
        \<lparr>BalAction := BalAction (bal_entry bals (coin_id a) (coin a)) + act_delta (insured a) s fromUs\<rparr>)))"
begin

lemma emulate_available:
  assumes "emulate a st bals fromUs = Inr bals'"
  shows "Available (bals' k) = Available (bals k) + contribution coin_id insured load k fromUs (a, st)"
  using assms
  by (auto simp: emulate_eq contribution_def bal_entry_def Available_def NewBalanceInfo_def Let_def
      split: option.splits)

lemma emulate_other:
  "emulate a st bals fromUs = Inr bals' \<Longrightarrow> k \<noteq> coin_id a \<Longrightarrow> bals' k = bals k"
  by (auto simp: emulate_eq)

lemma emulate_holds:
  assumes "emulate a st bals fromUs = Inr bals'" "bals' (coin_id a) = Some b'"
  shows "OnHold b' = OnHold (bal_entry bals (coin_id a) (coin a))"
    and "Onchain b' = Onchain (bal_entry bals (coin_id a) (coin a))"
    and "ConditionalLocked b' = ConditionalLocked (bal_entry bals (coin_id a) (coin a))"
  using assms by (auto simp: emulate_eq)

text \<open>A run over all the actions of one side adds up their contributions.\<close>

lemma emulate_all_available:
  "emulate_all emulate xs fromUs bals = Inr bals' \<Longrightarrow>
   Available (bals' k) = Available (bals k) + sum_list (map (contribution coin_id insured load k fromUs) xs)"
proof (induction xs arbitrary: bals)
  case Nil
  then show ?case by (simp add: emulate_all_def)
next
  case (Cons x xs)
  obtain a st where x: "x = (a, st)" by fastforce
  from Cons.prems x obtain b1 where b1: "emulate a st bals fromUs = Inr b1" "emulate_all emulate xs fromUs b1 = Inr bals'"
    by (auto simp: emulate_all_def)
  from Cons.IH [OF b1(2)] emulate_available [OF b1(1), of k] x show ?case by simp
qed

lemma emulate_all_total:
  "(\<And>a st. (a, st) \<in> set xs \<Longrightarrow> \<exists>s. load st = Inr s) \<Longrightarrow> \<exists>bals'. emulate_all emulate xs fromUs bals = Inr bals'"
  unfolding emulate_all_def
  using rfold_total [of "\<lambda>_. True" bals xs "\<lambda>(a, st) bals. emulate a st bals fromUs"]
  by (fastforce simp: emulate_eq)

text \<open>A settled action (everything committed) leaves the balance as it was.\<close>

lemma emulate_settled:
  "load st = Inr s \<Longrightarrow> send_outstanding s = 0 \<Longrightarrow> contribution coin_id insured load k fromUs (a, st) = 0"
  by (simp add: contribution_def act_delta_def)

end

section \<open>The six actions\<close>

interpretation ton_insured: send_action "TonInsured_EmulateBalance E" tiCoin "\<lambda>_. GetTONBalanceID"
    "\<lambda>_. True" "LoadState (aeL E) (aeSend E)" for E
  by unfold_locales (auto simp: action_defs act_delta_def send_outstanding_def Let_def intro!: rbind_cong)

interpretation ec_insured: send_action "ECInsured_EmulateBalance E" eiCoin "\<lambda>a. GetECBalanceID (eiEC a)"
    "\<lambda>_. True" "LoadState (aeL E) (aeSend E)" for E
  by unfold_locales (auto simp: action_defs act_delta_def send_outstanding_def Let_def intro!: rbind_cong)

interpretation jetton_insured: send_action "JettonInsured_EmulateBalance E" jiCoin
    "\<lambda>a. GetJettonBalanceID (jiRootAddr a)" "\<lambda>_. True" "LoadState (aeL E) (aeSend E)" for E
  by unfold_locales (auto simp: action_defs act_delta_def send_outstanding_def Let_def intro!: rbind_cong)

interpretation ton_vault: send_action "TonVault_EmulateBalance E" tvCoin "\<lambda>_. GetTONBalanceID"
    "\<lambda>_. False" "LoadState (aeL E) (aeSend E)" for E
  by unfold_locales (auto simp: action_defs act_delta_def send_outstanding_def Let_def intro!: rbind_cong)

interpretation ec_vault: send_action "ECVault_EmulateBalance E" evCoin "\<lambda>a. GetECBalanceID (evEC a)"
    "\<lambda>_. False" "LoadState (aeL E) (aeSend E)" for E
  by unfold_locales (auto simp: action_defs act_delta_def send_outstanding_def Let_def intro!: rbind_cong)

interpretation jetton_vault: send_action "JettonVault_EmulateBalance E" jvCoin
    "\<lambda>a. GetJettonBalanceID (jvRootAddr a)" "\<lambda>_. False" "LoadState (aeL E) (aeSend E)" for E
  by unfold_locales (auto simp: action_defs act_delta_def send_outstanding_def Let_def intro!: rbind_cong)

lemmas emulate_eqs =
  ton_insured.emulate_eq ec_insured.emulate_eq jetton_insured.emulate_eq
  ton_vault.emulate_eq ec_vault.emulate_eq jetton_vault.emulate_eq

text \<open>The balance an action of the interface moves.\<close>

fun Action_balance_id :: "action \<Rightarrow> string" where
  "Action_balance_id (TonInsured a) = GetTONBalanceID"
| "Action_balance_id (ECInsured a) = GetECBalanceID (eiEC a)"
| "Action_balance_id (JettonInsured a) = GetJettonBalanceID (jiRootAddr a)"
| "Action_balance_id (TonVault a) = GetTONBalanceID"
| "Action_balance_id (ECVault a) = GetECBalanceID (evEC a)"
| "Action_balance_id (JettonVault a) = GetJettonBalanceID (jvRootAddr a)"

abbreviation Action_contribution :: "('b, 's, 'c) act_env \<Rightarrow> string \<Rightarrow> bool \<Rightarrow> action \<times> 'c \<Rightarrow> int" where
  "Action_contribution E \<equiv> contribution Action_balance_id (\<lambda>a. \<not> IsVaultAction a) (LoadState (aeL E) (aeSend E))"

interpretation act: send_action "Action_EmulateBalance E" Action_coin Action_balance_id
    "\<lambda>a. \<not> IsVaultAction a" "LoadState (aeL E) (aeSend E)" for E
proof unfold_locales
  show "Action_EmulateBalance E a st bals fromUs = rbind (LoadState (aeL E) (aeSend E) st) (\<lambda>s.
      Inr (bals(Action_balance_id a \<mapsto> (bal_entry bals (Action_balance_id a) (Action_coin a))
        \<lparr>BalAction := BalAction (bal_entry bals (Action_balance_id a) (Action_coin a)) +
           act_delta (\<not> IsVaultAction a) s fromUs\<rparr>)))" for a st bals fromUs
    by (cases a) (simp_all add: emulate_eqs)
qed

section \<open>Detection\<close>

text \<open>The cells at most \<open>n\<close> references below a cell.\<close>

fun reach :: "nat \<Rightarrow> ('b, 's, 'c) cell_lib \<Rightarrow> 'c \<Rightarrow> 'c list" where
  "reach 0 L r = []"
| "reach (Suc n) L r = CellRefs L r @ concat (map (reach n L) (CellRefs L r))"

lemma DetectType_None:
  "DetectType n L types r = None \<longleftrightarrow> (\<forall>c \<in> set (reach n L r). types (CellHash L c) = None)"
  by (induction n arbitrary: r)
    (force simp: first_some_None split: option.split dest: first_some_Some)+

lemma DetectType_Some:
  "DetectType n L types r = Some k \<Longrightarrow> \<exists>c \<in> set (reach n L r). types (CellHash L c) = Some k"
  by (induction n arbitrary: r) (fastforce split: option.splits dest: first_some_Some)+

lemma DetectType_unique:
  assumes "\<And>c k'. c \<in> set (reach n L r) \<Longrightarrow> types (CellHash L c) = Some k' \<Longrightarrow> k' = k"
    and "c \<in> set (reach n L r)" "types (CellHash L c) \<noteq> None"
  shows "DetectType n L types r = Some k"
proof -
  from assms(2,3) have "DetectType n L types r \<noteq> None" by (auto simp: DetectType_None)
  then obtain k' where "DetectType n L types r = Some k'" by blast
  with DetectType_Some assms(1) show ?thesis by metis
qed

lemma reach_mono: "m \<le> n \<Longrightarrow> set (reach m L r) \<subseteq> set (reach n L r)"
proof (induction m arbitrary: n r)
  case (Suc m)
  then obtain n' where "n = Suc n'" "m \<le> n'" by (cases n) auto
  with Suc.IH show ?case by fastforce
qed simp

fun Action_kind :: "action \<Rightarrow> action_kind" where
  "Action_kind (TonInsured a) = KTonInsured"
| "Action_kind (ECInsured a) = KECInsured"
| "Action_kind (JettonInsured a) = KJettonInsured"
| "Action_kind (TonVault a) = KTonVault"
| "Action_kind (ECVault a) = KECVault"
| "Action_kind (JettonVault a) = KJettonVault"

section \<open>Round trip of the action codes\<close>

text \<open>
  Actions the protocol builds: standard addresses, vaults with a 64-byte signature, wallets as the
  coin's jetton client computes them, and a coin the resolver knows under the action's balance.
\<close>

fun Action_ok :: "resolve_balance \<Rightarrow> action \<Rightarrow> bool" where
  "Action_ok rb (TonInsured a) \<longleftrightarrow>
     addr_ok (tiAddressA a) \<and> addr_ok (tiAddressB a) \<and> rb GetTONBalanceID = Inr (tiCoin a)"
| "Action_ok rb (ECInsured a) \<longleftrightarrow>
     addr_ok (eiAddressA a) \<and> addr_ok (eiAddressB a) \<and> eiEC a \<noteq> 0 \<and>
     rb (GetECBalanceID (eiEC a)) = Inr (eiCoin a)"
| "Action_ok rb (JettonInsured a) \<longleftrightarrow>
     addr_ok (jiAddressA a) \<and> addr_ok (jiAddressB a) \<and> addr_ok (jiRootAddr a) \<and>
     addr_ok (jiWalletA a) \<and> addr_ok (jiWalletB a) \<and>
     rb (GetJettonBalanceID (jiRootAddr a)) = Inr (jiCoin a) \<and>
     (case CoinJettonClient (jiCoin a) of None \<Rightarrow> False | Some jc \<Rightarrow>
        GetWalletAddress jc (jiAddressA a) = Inr (addr_data (jiWalletA a)) \<and>
        GetWalletAddress jc (jiAddressB a) = Inr (addr_data (jiWalletB a)))"
| "Action_ok rb (TonVault a) \<longleftrightarrow>
     pred_option vault_ok (tvVaultA a) \<and> pred_option vault_ok (tvVaultB a) \<and>
     rb GetTONBalanceID = Inr (tvCoin a)"
| "Action_ok rb (ECVault a) \<longleftrightarrow>
     pred_option vault_ok (evVaultA a) \<and> pred_option vault_ok (evVaultB a) \<and> evEC a \<noteq> 0 \<and>
     rb (GetECBalanceID (evEC a)) = Inr (evCoin a)"
| "Action_ok rb (JettonVault a) \<longleftrightarrow>
     addr_ok (jvRootAddr a) \<and> addr_ok (jvWalletA a) \<and> addr_ok (jvWalletB a) \<and>
     rb (GetJettonBalanceID (jvRootAddr a)) = Inr (jvCoin a) \<and>
     (case (CoinJettonClient (jvCoin a), jvVaultA a, jvVaultB a) of
        (Some jc, Some va, Some vb) \<Rightarrow> vault_ok va \<and> vault_ok vb \<and>
          GetWalletAddress jc (vdAddress va) = Inr (addr_data (jvWalletA a)) \<and>
          GetWalletAddress jc (vdAddress vb) = Inr (addr_data (jvWalletB a))
      | _ \<Rightarrow> False)"

text \<open>Steps of a parser, and the cells a chain of stores makes.\<close>

context cell_library
begin

lemma parse_step:
  assumes "rds rd d v" "sview s = cat d e" "\<And>s'. sview s' = e \<Longrightarrow> f v s' = r"
  shows "rbind (rd s) (\<lambda>(x, s). f x s) = r"
  using rdsE [OF assms(1,2)] assms(3) by (metis case_prod_conv rbind_simps(1))

lemma read_code_ok: "sview s = ([], [c]) \<Longrightarrow> read_code L c m s = Inr ()"
  using load_ref [of s "[]" c "[]"] by (auto simp: read_code_def bits_left refs_num simp del: rbind_Inr)

lemma read_next_ok: "sview s = ([], [c]) \<Longrightarrow> read_next L s = Inr (BeginParse L c)"
  using load_ref_field [of s "[]" c "[]"]
  by (auto simp: read_next_def bits_left refs_num simp del: rbind_Inr)

lemma rds_then:
  assumes "rds rd d v" "\<And>s. f v s = Inr (w, s)"
  shows "rds (\<lambda>s. rbind (rwrap m (rd s)) (\<lambda>(x, s). f x s)) d w"
  unfolding rds_def
proof (intro allI impI)
  fix s e assume "sview s = cat d e"
  with assms(1) obtain s' where "rd s = Inr (v, s')" "sview s' = e" by (rule rdsE)
  with assms(2) show "\<exists>s'. rbind (rwrap m (rd s)) (\<lambda>(x, s). f x s) = Inr (w, s') \<and> sview s' = e"
    by (simp del: rbind_Inr)
qed

lemma end_cell_made:
  "made m d \<Longrightarrow> \<exists>c. end_cell L m = Inr c \<and> sview (BeginParse L c) = d"
  by (auto simp: made_def end_cell_def view_parse)

text \<open>A cell built from stores that fit: it parses as what was stored.\<close>

lemma cell_of:
  assumes "list_all2 writes ops ds" "cfits (foldr cat ds ([], []))"
  obtains c where "end_cell L (build L ops) = Inr c"
    "sview (BeginParse L c) = foldr cat ds ([], [])"
    "CellRefs L c = snd (foldr cat ds ([], []))"
  using end_cell_made [OF made_build [OF assms]] cell_refs by metis

text \<open>\<open>code_ok ser parse code a\<close>: serialising, parsing back and the place of the static code.\<close>

definition code_ok :: "('a \<Rightarrow> 'c res) \<Rightarrow> ('s \<Rightarrow> 'a res) \<Rightarrow> 'c \<Rightarrow> 'a \<Rightarrow> bool" where
  "code_ok ser parse code a \<longleftrightarrow> (\<exists>c. ser a = Inr c \<and> parse (BeginParse L c) = Inr a \<and>
     code \<in> set (reach 2 L c))"

lemma code_okI:
  assumes "ser a = end_cell L (build L ops)" "list_all2 writes ops ds"
    and "cfits (foldr cat ds ([], []))"
    and "\<And>s. sview s = foldr cat ds ([], []) \<Longrightarrow> parse s = Inr a"
    and "code \<in> set (snd (foldr cat ds ([], []))) \<or>
      (\<exists>c \<in> set (snd (foldr cat ds ([], []))). code \<in> set (CellRefs L c))"
  shows "code_ok ser parse code a"
proof -
  obtain c where c: "end_cell L (build L ops) = Inr c"
    "sview (BeginParse L c) = foldr cat ds ([], [])"
    "CellRefs L c = snd (foldr cat ds ([], []))"
    using assms(2,3) by (rule cell_of)
  have "code \<in> set (reach 2 L c)"
    using assms(5) by (auto simp: numeral_2_eq_2 c(3))
  with c(1) assms(1,4) c(2) show ?thesis unfolding code_ok_def by metis
qed

text \<open>The field of an address: what a push writes and a read returns.\<close>

definition addr_field :: "address option \<Rightarrow> 'c cdata \<Rightarrow> bool" where
  "addr_field a d \<longleftrightarrow> made (push_addr L a) d \<and> (\<forall>m n. rds (read_addr L m n) d a) \<and>
     length (fst d) = 8 \<and> length (snd d) = 1"

lemma addr_field_ex: "addr_ok a \<Longrightarrow> \<exists>d. addr_field a d"
  unfolding addr_field_def using push_addr_roundtrip [of a] by fastforce

lemma addr_field_writes: "addr_field a d \<Longrightarrow> writes (st_builder L (push_addr L a)) d"
  and addr_field_read: "addr_field a d \<Longrightarrow> rds (read_addr L m n) d a"
  by (simp_all add: addr_field_def writes_builder)

end

text \<open>The contract of the cells the actions are stored in.\<close>

locale action_cells = cell_library "aeL E" bview sview addr_bits
  for E :: "('b, 's, 'c) act_env"
    and bview :: "'b \<Rightarrow> bool list \<times> 'c list"
    and sview :: "'s \<Rightarrow> bool list \<times> 'c list"
    and addr_bits :: "address option \<Rightarrow> bool list" +
  assumes vault_codec: "codec_ok (aeL E) (aeVault E) vault_ok"
begin

lemma push_vault_roundtrip:
  assumes "pred_option vault_ok v"
  shows "\<exists>d. made (push_vault E v) d \<and> rds (read_vault E) d v \<and> length (fst d) = 8 \<and> length (snd d) \<le> 1"
proof (cases v)
  case None
  have "rds (read_vault E) (nat_bits 8 0x6D, []) None"
    unfolding read_vault_def [abs_def] by (rule rds_then [OF rds_read_cell_or_null(2)]) simp
  moreover have "made (push_vault E None) (nat_bits 8 0x6D, [])"
    using made_push_null by (simp add: push_vault_def)
  ultimately show ?thesis using None by (intro exI [of _ "(nat_bits 8 0x6D, [])"]) simp
next
  case (Some w)
  with assms codec_okD [OF vault_codec, of w] obtain c
    where c: "ToCell (aeVault E) w = Inr c" "LoadState (aeL E) (aeVault E) c = Inr w" by auto
  from c(2) have p: "tlb_Parse (aeL E) (aeVault E) c = Inr w"
    by (auto simp: LoadState_def tlb_Parse_def split: if_splits prod.splits)
  have "rds (read_vault E) (nat_bits 8 0x88, [c]) (Some w)"
    unfolding read_vault_def [abs_def] by (rule rds_then [OF rds_read_cell_or_null(1)]) (simp add: p)
  moreover have "made (push_vault E v) (nat_bits 8 0x88, [c])"
    using Some c(1) made_push_ref by (simp add: push_vault_def)
  ultimately show ?thesis using Some by (intro exI [of _ "(nat_bits 8 0x88, [c])"]) simp
qed

lemma rds_read_ec: "ec \<noteq> 0 \<Longrightarrow> rds (read_ec (aeL E)) (push_bits (uint ec), []) ec"
proof -
  assume nz: "ec \<noteq> 0"
  have "\<bar>uint ec\<bar> < 2 ^ 32" using uint_lt2p [of ec] by simp
  then have b: "BitLen (uint ec) \<le> 32" by (simp only: BitLen_le_iff)
  have "0 < uint ec" using nz by (simp add: word_neq_0_conv word_less_def)
  with b show ?thesis
    unfolding read_ec_def [abs_def] by (intro rds_then [OF rds_push_int]) simp_all
qed

lemma made_push_ec: "made (PushIntOP (aeL E) (uint (ec :: uint32))) (push_bits (uint ec), [])"
  and length_push_ec: "length (push_bits (uint (ec :: uint32))) \<le> 48"
proof -
  have "\<bar>uint ec\<bar> < 2 ^ 32" using uint_lt2p [of ec] by simp
  then have "BitLen (uint ec) \<le> 32" by (simp only: BitLen_le_iff)
  then show "made (PushIntOP (aeL E) (uint ec)) (push_bits (uint ec), [])"
    and "length (push_bits (uint ec)) \<le> 48"
    using made_push_int length_push_bits(3) by simp_all
qed

definition vault_field :: "VaultData option \<Rightarrow> 'c cdata \<Rightarrow> bool" where
  "vault_field v d \<longleftrightarrow> made (push_vault E v) d \<and> rds (read_vault E) d v \<and>
     length (fst d) = 8 \<and> length (snd d) \<le> 1"

lemma vault_field_ex: "pred_option vault_ok v \<Longrightarrow> \<exists>d. vault_field v d"
  unfolding vault_field_def by (rule push_vault_roundtrip)

lemma vault_field_writes: "vault_field v d \<Longrightarrow> writes (st_builder (aeL E) (push_vault E v)) d"
  and vault_field_read: "vault_field v d \<Longrightarrow> rds (read_vault E) d v"
  by (simp_all add: vault_field_def writes_builder)

lemma ec_writes: "writes (st_builder (aeL E) (PushIntOP (aeL E) (uint (ec :: uint32)))) (push_bits (uint ec), [])"
  by (rule writes_builder [OF made_push_ec])

lemma field_sizes:
  "addr_field a d \<Longrightarrow> length (fst d) = 8 \<and> length (snd d) = 1"
  "vault_field v d \<Longrightarrow> length (fst d) = 8 \<and> length (snd d) \<le> 1"
  by (simp_all add: addr_field_def vault_field_def)

lemmas field_writes = addr_field_writes vault_field_writes ec_writes writes_ref

lemma TonInsured_codec:
  assumes "Action_ok rb (TonInsured a)"
  shows "code_ok (TonInsured_Serialize E) (TonInsured_Parse E rb) (actionSendTonStaticCode E) a"
proof -
  let ?k = "actionSendTonStaticCode E"
  from assms obtain da db where A: "addr_field (tiAddressA a) da" and B: "addr_field (tiAddressB a) db"
    using addr_field_ex by fastforce
  show ?thesis
  proof (rule code_okI [where ds = "[da, db, ([], [?k])]"])
    show "TonInsured_Parse E rb s = Inr a" if "sview s = foldr cat [da, db, ([], [?k])] ([], [])" for s
      unfolding TonInsured_Parse_def Let_def
      by (rule parse_step [OF addr_field_read [OF A]], use that in simp,
          rule parse_step [OF addr_field_read [OF B]], simp)
        (use assms in \<open>auto simp: read_code_ok simp del: rbind_Inr\<close>)
  qed (use A B field_sizes in \<open>auto simp: TonInsured_Serialize_def Let_def field_writes cfits_def cat_def\<close>)
qed

lemma ECInsured_codec:
  assumes "Action_ok rb (ECInsured a)"
  shows "code_ok (ECInsured_Serialize E) (ECInsured_Parse E rb) (actionSendECStaticCode E) a"
proof -
  let ?k = "actionSendECStaticCode E" and ?e = "(push_bits (uint (eiEC a)), [])"
  from assms obtain da db where A: "addr_field (eiAddressA a) da" and B: "addr_field (eiAddressB a) db"
    using addr_field_ex by fastforce
  have ec: "eiEC a \<noteq> 0" using assms by simp
  show ?thesis
  proof (rule code_okI [where ds = "[da, db, ?e, ([], [?k])]"])
    show "ECInsured_Parse E rb s = Inr a" if "sview s = foldr cat [da, db, ?e, ([], [?k])] ([], [])" for s
      unfolding ECInsured_Parse_def Let_def
      by (rule parse_step [OF addr_field_read [OF A]], use that in simp,
          rule parse_step [OF addr_field_read [OF B]], simp,
          rule parse_step [OF rds_read_ec [OF ec]], simp)
        (use assms in \<open>auto simp: read_code_ok simp del: rbind_Inr\<close>)
  qed (use A B field_sizes length_push_ec [of "eiEC a"] in
      \<open>auto simp: ECInsured_Serialize_def Let_def field_writes cfits_def cat_def\<close>)
qed

lemma TonVault_codec:
  assumes "Action_ok rb (TonVault a)"
  shows "code_ok (TonVault_Serialize E) (TonVault_Parse E rb) (actionSendTonVaultStaticCode E) a"
proof -
  let ?k = "actionSendTonVaultStaticCode E"
  from assms obtain da db where A: "vault_field (tvVaultA a) da" and B: "vault_field (tvVaultB a) db"
    using vault_field_ex by fastforce
  show ?thesis
  proof (rule code_okI [where ds = "[da, db, ([], [?k])]"])
    show "TonVault_Parse E rb s = Inr a" if "sview s = foldr cat [da, db, ([], [?k])] ([], [])" for s
      unfolding TonVault_Parse_def Let_def
      by (rule parse_step [OF vault_field_read [OF A]], use that in simp,
          rule parse_step [OF vault_field_read [OF B]], simp)
        (use assms in \<open>auto simp: read_code_ok simp del: rbind_Inr\<close>)
  qed (use A B field_sizes(2) [OF A] field_sizes(2) [OF B] in
      \<open>auto simp: TonVault_Serialize_def Let_def field_writes cfits_def cat_def\<close>)
qed

lemma ECVault_codec:
  assumes "Action_ok rb (ECVault a)"
  shows "code_ok (ECVault_Serialize E) (ECVault_Parse E rb) (actionSendECVaultStaticCode E) a"
proof -
  let ?k = "actionSendECVaultStaticCode E" and ?e = "(push_bits (uint (evEC a)), [])"
  from assms obtain da db where A: "vault_field (evVaultA a) da" and B: "vault_field (evVaultB a) db"
    using vault_field_ex by fastforce
  have ec: "evEC a \<noteq> 0" using assms by simp
  show ?thesis
  proof (rule code_okI [where ds = "[da, db, ?e, ([], [?k])]"])
    show "ECVault_Parse E rb s = Inr a" if "sview s = foldr cat [da, db, ?e, ([], [?k])] ([], [])" for s
      unfolding ECVault_Parse_def Let_def
      by (rule parse_step [OF vault_field_read [OF A]], use that in simp,
          rule parse_step [OF vault_field_read [OF B]], simp,
          rule parse_step [OF rds_read_ec [OF ec]], simp)
        (use assms in \<open>auto simp: read_code_ok simp del: rbind_Inr\<close>)
  qed (use A B field_sizes(2) [OF A] field_sizes(2) [OF B] length_push_ec [of "evEC a"] in
      \<open>auto simp: ECVault_Serialize_def Let_def field_writes cfits_def cat_def\<close>)
qed

text \<open>The inner cell of the jetton actions: two wallets and the static code.\<close>

lemma wallets_cell:
  assumes "addr_ok wa" "addr_ok wb"
  obtains c where "end_cell (aeL E) (build (aeL E) [st_builder (aeL E) (push_addr (aeL E) wa),
      st_builder (aeL E) (push_addr (aeL E) wb), st_ref (aeL E) (Inr k)]) = Inr c"
    "k \<in> set (CellRefs (aeL E) c)"
    "\<And>f. rbind (read_wallets (aeL E) (BeginParse (aeL E) c)) (\<lambda>((x, y), s).
       rbind (read_code (aeL E) k m s) (\<lambda>_. f x y)) = f wa wb"
proof -
  from assms obtain da db where A: "addr_field wa da" and B: "addr_field wb db"
    using addr_field_ex by metis
  let ?ds = "[da, db, ([], [k])]"
  have "list_all2 writes [st_builder (aeL E) (push_addr (aeL E) wa),
      st_builder (aeL E) (push_addr (aeL E) wb), st_ref (aeL E) (Inr k)] ?ds"
    using A B by (auto simp: field_writes)
  moreover have "cfits (foldr cat ?ds ([], []))"
    using field_sizes(1) [OF A] field_sizes(1) [OF B] by (simp add: cfits_def cat_def)
  ultimately obtain c where c: "end_cell (aeL E) (build (aeL E) [st_builder (aeL E) (push_addr (aeL E) wa),
      st_builder (aeL E) (push_addr (aeL E) wb), st_ref (aeL E) (Inr k)]) = Inr c"
    "sview (BeginParse (aeL E) c) = foldr cat ?ds ([], [])"
    "CellRefs (aeL E) c = snd (foldr cat ?ds ([], []))"
    by (rule cell_of)
  have "rds (read_wallets (aeL E)) (cat da db) (wa, wb)"
    unfolding read_wallets_def [abs_def]
    by (rule rds_bind [OF addr_field_read [OF A]], rule rds_map [OF addr_field_read [OF B]])
  then have "rbind (read_wallets (aeL E) (BeginParse (aeL E) c)) (\<lambda>((x, y), s).
       rbind (read_code (aeL E) k m s) (\<lambda>_. f x y)) = f wa wb" for f :: "address option \<Rightarrow> address option \<Rightarrow> 'd res"
    by (rule parse_step [where e = "([], [k])"]) (simp_all add: c(2) cat_assoc read_code_ok)
  with c show thesis by (intro that [OF c(1)]) (auto simp: cat_def simp del: rbind_Inr)
qed

lemma JettonInsured_codec:
  assumes "Action_ok rb (JettonInsured a)"
  shows "code_ok (JettonInsured_Serialize E) (JettonInsured_Parse E rb) (actionSendJettonStaticCode E) a"
proof -
  let ?k = "actionSendJettonStaticCode E"
  from assms obtain da db dr where A: "addr_field (jiAddressA a) da" and B: "addr_field (jiAddressB a) db"
    and R: "addr_field (jiRootAddr a) dr" using addr_field_ex by fastforce
  obtain c where c: "end_cell (aeL E) (build (aeL E) [st_builder (aeL E) (push_addr (aeL E) (jiWalletA a)),
      st_builder (aeL E) (push_addr (aeL E) (jiWalletB a)), st_ref (aeL E) (Inr ?k)]) = Inr c"
    "?k \<in> set (CellRefs (aeL E) c)"
    "\<And>f :: address option \<Rightarrow> address option \<Rightarrow> ActionSendJettonInsured res.
       rbind (read_wallets (aeL E) (BeginParse (aeL E) c)) (\<lambda>((x, y), s).
       rbind (read_code (aeL E) ?k ''unexpected data'' s) (\<lambda>_. f x y)) = f (jiWalletA a) (jiWalletB a)"
    using assms wallets_cell [of "jiWalletA a" "jiWalletB a" ?k] by auto
  show ?thesis
  proof (rule code_okI [where ds = "[da, db, dr, ([], [c])]"])
    show "JettonInsured_Parse E rb s = Inr a" if "sview s = foldr cat [da, db, dr, ([], [c])] ([], [])" for s
      unfolding JettonInsured_Parse_def Let_def
      by (rule parse_step [OF addr_field_read [OF A]], use that in simp,
          rule parse_step [OF addr_field_read [OF B]], simp,
          rule parse_step [OF addr_field_read [OF R]], simp)
        (use assms in \<open>auto simp: read_next_ok c(3) addr_ok_def addr_data_def simp del: rbind_Inr split: option.splits\<close>)
  qed (use A B R c(1,2) field_sizes(1) [OF A] field_sizes(1) [OF B] field_sizes(1) [OF R] in
      \<open>auto simp: JettonInsured_Serialize_def Let_def field_writes cfits_def cat_def\<close>)
qed

lemma JettonVault_codec:
  assumes "Action_ok rb (JettonVault a)"
  shows "code_ok (JettonVault_Serialize E) (JettonVault_Parse E rb) (actionSendJettonVaultStaticCode E) a"
proof -
  let ?k = "actionSendJettonVaultStaticCode E"
  from assms obtain da db dr where A: "vault_field (jvVaultA a) da" and B: "vault_field (jvVaultB a) db"
    and R: "addr_field (jvRootAddr a) dr"
    using addr_field_ex vault_field_ex by (fastforce split: option.splits)
  obtain c where c: "end_cell (aeL E) (build (aeL E) [st_builder (aeL E) (push_addr (aeL E) (jvWalletA a)),
      st_builder (aeL E) (push_addr (aeL E) (jvWalletB a)), st_ref (aeL E) (Inr ?k)]) = Inr c"
    "?k \<in> set (CellRefs (aeL E) c)"
    "\<And>f :: address option \<Rightarrow> address option \<Rightarrow> ActionSendJettonVault res.
       rbind (read_wallets (aeL E) (BeginParse (aeL E) c)) (\<lambda>((x, y), s).
       rbind (read_code (aeL E) ?k ''unexpected data'' s) (\<lambda>_. f x y)) = f (jvWalletA a) (jvWalletB a)"
    using assms wallets_cell [of "jvWalletA a" "jvWalletB a" ?k] by auto
  show ?thesis
  proof (rule code_okI [where ds = "[da, db, dr, ([], [c])]"])
    show "JettonVault_Parse E rb s = Inr a" if "sview s = foldr cat [da, db, dr, ([], [c])] ([], [])" for s
      unfolding JettonVault_Parse_def Let_def
      by (rule parse_step [OF vault_field_read [OF A]], use that in simp,
          rule parse_step [OF vault_field_read [OF B]], simp,
          rule parse_step [OF addr_field_read [OF R]], simp)
        (use assms in \<open>auto simp: read_next_ok c(3) addr_ok_def addr_data_def check_vault_wallet_def
            simp del: rbind_Inr split: option.splits\<close>)
  qed (use A B R c(1,2) field_sizes(2) [OF A] field_sizes(2) [OF B] field_sizes(1) [OF R] in
      \<open>auto simp: JettonVault_Serialize_def Let_def field_writes cfits_def cat_def\<close>)
qed

lemmas action_codecs = TonInsured_codec ECInsured_codec JettonInsured_codec
  TonVault_codec ECVault_codec JettonVault_codec

definition registered_only :: "action_kind \<Rightarrow> 'c \<Rightarrow> bool" where
  "registered_only k c \<longleftrightarrow> (\<forall>x \<in> set (reach maxCellDepth (aeL E) c). \<forall>k'.
     ActionTypes E (CellHash (aeL E) x) = Some k' \<longrightarrow> k' = k)"

lemma CodeToAction_codec:
  assumes "code_ok ser parse code a" "ActionTypes E (CellHash (aeL E) code) \<noteq> None"
    and "\<And>s. Action_Parse E k rb s = rbind (parse s) (\<lambda>x. Inr (con x))"
  shows "\<exists>c. ser a = Inr c \<and> (registered_only k c \<longrightarrow> CodeToAction E rb c = Inr (con a))"
proof -
  obtain c where c: "ser a = Inr c" "parse (BeginParse (aeL E) c) = Inr a"
      "code \<in> set (reach 2 (aeL E) c)"
    using assms(1) by (auto simp: code_ok_def)
  have "code \<in> set (reach maxCellDepth (aeL E) c)"
    using reach_mono [of 2 maxCellDepth "aeL E" c] c(3) by (auto simp: maxCellDepth_def)
  then have "DetectActionType E c = Some k" if "registered_only k c"
    unfolding DetectActionType_def using that assms(2)
    by (intro DetectType_unique) (auto simp: registered_only_def)
  with c(1,2) assms(3) show ?thesis by (auto simp: CodeToAction_def simp del: rbind_Inr)
qed

lemma action_code_registered:
  "ActionTypes E (CellHash (aeL E) (actionSendTonStaticCode E)) \<noteq> None"
  "ActionTypes E (CellHash (aeL E) (actionSendECStaticCode E)) \<noteq> None"
  "ActionTypes E (CellHash (aeL E) (actionSendJettonStaticCode E)) \<noteq> None"
  "ActionTypes E (CellHash (aeL E) (actionSendTonVaultStaticCode E)) \<noteq> None"
  "ActionTypes E (CellHash (aeL E) (actionSendECVaultStaticCode E)) \<noteq> None"
  "ActionTypes E (CellHash (aeL E) (actionSendJettonVaultStaticCode E)) \<noteq> None"
  by (simp_all add: ActionTypes_def Let_def)

lemma action_roundtrip:
  "Action_ok rb a \<Longrightarrow> \<exists>c. Action_Serialize E a = Inr c \<and>
     (registered_only (Action_kind a) c \<longrightarrow> CodeToAction E rb c = Inr a)"
proof (cases a)
  case (TonInsured x)
  assume "Action_ok rb a"
  with TonInsured CodeToAction_codec [OF TonInsured_codec action_code_registered(1), of rb x KTonInsured rb TonInsured]
  show ?thesis by simp
next
  case (ECInsured x)
  assume "Action_ok rb a"
  with ECInsured CodeToAction_codec [OF ECInsured_codec action_code_registered(2), of rb x KECInsured rb ECInsured]
  show ?thesis by simp
next
  case (JettonInsured x)
  assume "Action_ok rb a"
  with JettonInsured CodeToAction_codec [OF JettonInsured_codec action_code_registered(3), of rb x KJettonInsured rb JettonInsured]
  show ?thesis by simp
next
  case (TonVault x)
  assume "Action_ok rb a"
  with TonVault CodeToAction_codec [OF TonVault_codec action_code_registered(4), of rb x KTonVault rb TonVault]
  show ?thesis by simp
next
  case (ECVault x)
  assume "Action_ok rb a"
  with ECVault CodeToAction_codec [OF ECVault_codec action_code_registered(5), of rb x KECVault rb ECVault]
  show ?thesis by simp
next
  case (JettonVault x)
  assume "Action_ok rb a"
  with JettonVault CodeToAction_codec [OF JettonVault_codec action_code_registered(6), of rb x KJettonVault rb JettonVault]
  show ?thesis by simp
qed

end

section \<open>Real cells\<close>

text \<open>The environment over bit-level cells; \<open>codes\<close> are the six static code cells.\<close>

definition ton_env ::
  "(tcell \<Rightarrow> bytes) \<Rightarrow> (address \<Rightarrow> string) \<Rightarrow> (nat \<Rightarrow> tcell) \<Rightarrow> (tdata, tdata, tcell) act_env" where
  "ton_env h adr codes = \<lparr>aeL = ton_cells h, aeSend = ton_send, aeVault = ton_vault, aeAddrString = adr,
     actionSendTonStaticCode = codes 0, actionSendECStaticCode = codes 1,
     actionSendJettonStaticCode = codes 2, actionSendTonVaultStaticCode = codes 3,
     actionSendECVaultStaticCode = codes 4, actionSendJettonVaultStaticCode = codes 5\<rparr>"

lemma ton_env_sel [simp]:
  "aeL (ton_env h adr codes) = ton_cells h" "aeSend (ton_env h adr codes) = ton_send"
  "aeVault (ton_env h adr codes) = ton_vault"
  by (simp_all add: ton_env_def)

interpretation ton_act: action_cells "ton_env h adr codes" "\<lambda>b. b" "\<lambda>s. s" t_addr_bits for h adr codes
  using ton.cell_library_axioms ton_vault_ok
  by (auto simp: action_cells_def action_cells_axioms_def)

end
