(* ===== verification/VirtualChannel.thy ===== *)
theory VirtualChannel
  imports ActionLaws
begin

text \<open>
  Virtual channels (\<^verbatim>\<open>pkg/payments/conditionals/channel.go\<close>): a conditional payment of up to
  \<open>Capacity\<close>, plus a fee, that its key holder releases by signing an amount. The chain's cells,
  ed25519 and the codec of the instruction details are fields of \<open>vc_env\<close>.
\<close>

named_theorems vc_defs \<open>operations of a virtual channel\<close>

section \<open>Data\<close>

record ConditionalVirtualChannel =
  vcKey :: bytes
  vcCapacity :: int
  vcFee :: int
  vcPrepay :: int
  vcDeadline :: int
  vcAction :: action

record VCInstructionDetails =
  ExpectedFee :: int
  ExpectedCapacity :: int
  NextFee :: int
  NextCapacity :: int

record VirtualChannelState =
  vsSignature :: bytes
  vsAmount :: int

text \<open>\<open>veMustFromNano\<close> is \<open>tlb.MustFromNano\<close>, which panics on amounts it cannot hold.\<close>

record ('b, 's, 'c) vc_env =
  veA :: "('b, 's, 'c) act_env"
  veVerify :: "bytes \<Rightarrow> bytes \<Rightarrow> bytes \<Rightarrow> bool"
  veSign :: "bytes \<Rightarrow> bytes \<Rightarrow> bytes"
  veDetails :: "('s, 'c, VCInstructionDetails) codec"
  veMustFromNano :: "int \<Rightarrow> nat \<Rightarrow> int res"
  virtualChannelUniversalStaticCode :: 'c

abbreviation veL :: "('b, 's, 'c) vc_env \<Rightarrow> ('b, 's, 'c) cell_lib" where
  "veL E \<equiv> aeL (veA E)"

type_synonym resolve_action = "bytes \<Rightarrow> action res"

section \<open>The signed state\<close>

definition serializePayload :: "('b, 's, 'c) cell_lib \<Rightarrow> int \<Rightarrow> 'b res" where
  "serializePayload L amount = rbind (MustStoreBigCoins L (BeginCell L) amount) (\<lambda>b.
     let notFullBits = BitsUsed L b mod 8 in
     if notFullBits \<noteq> 0 then MustStoreUInt L b 0 (8 - notFullBits) else Inr b)"

definition VCState_ToCell :: "('b, 's, 'c) cell_lib \<Rightarrow> VirtualChannelState \<Rightarrow> 'c res" where
  "VCState_ToCell L c =
     (if length (vsSignature c) \<noteq> 64 then Inl (Errorf ''incorrect signature size'')
      else rbind (MustStoreSlice L (BeginCell L) (vsSignature c) 512) (\<lambda>b.
        rbind (serializePayload L (vsAmount c)) (\<lambda>p.
        rbind (MustStoreBuilder L b p) (\<lambda>b. Inr (EndCell L b)))))"

definition VCState_LoadFromCell :: "('b, 's, 'c) cell_lib \<Rightarrow> 's \<Rightarrow> (VirtualChannelState \<times> 's) res" where
  "VCState_LoadFromCell L s =
     rbind (LoadSlice L s 512) (\<lambda>(sign, s).
     rbind (LoadBigCoins L s) (\<lambda>(coins, s').
     let sz = BitsLeft L s - BitsLeft L s'; notFullBits = sz mod 8 in
     if notFullBits \<noteq> 0 then
       rbind (LoadUInt L s' (8 - notFullBits)) (\<lambda>(_, s'). Inr (\<lparr>vsSignature = sign, vsAmount = coins\<rparr>, s'))
     else Inr (\<lparr>vsSignature = sign, vsAmount = coins\<rparr>, s')))"

definition vcs_codec :: "('b, 's, 'c) cell_lib \<Rightarrow> ('s, 'c, VirtualChannelState) codec" where
  "vcs_codec L = \<lparr>LoadFromCell = VCState_LoadFromCell L, ToCell = VCState_ToCell L\<rparr>"

text \<open>The signed bytes: the whole payload, since the contract checks a slice signature.\<close>

definition payload_bytes :: "('b, 's, 'c) cell_lib \<Rightarrow> int \<Rightarrow> bytes res" where
  "payload_bytes L amount = rbind (serializePayload L amount) (\<lambda>b.
     let cl = ToSlice L b in
     case LoadSlice L cl (BitsLeft L cl) of Inl e \<Rightarrow> Inl (Panic ''load slice'') | Inr (d, _) \<Rightarrow> Inr d)"

definition VCState_Sign :: "('b, 's, 'c) vc_env \<Rightarrow> bytes \<Rightarrow> VirtualChannelState \<Rightarrow> VirtualChannelState res" where
  "VCState_Sign E key c = rbind (payload_bytes (veL E) (vsAmount c)) (\<lambda>d.
     Inr (c\<lparr>vsSignature := veSign E key d\<rparr>))"

definition VCState_Verify :: "('b, 's, 'c) vc_env \<Rightarrow> bytes \<Rightarrow> VirtualChannelState \<Rightarrow> bool res" where
  "VCState_Verify E key c = rbind (payload_bytes (veL E) (vsAmount c)) (\<lambda>d.
     Inr (veVerify E key d (vsSignature c)))"

text \<open>Reject when the signature does not verify.\<close>

definition vc_check_sign :: "('b, 's, 'c) vc_env \<Rightarrow> string \<Rightarrow> bytes \<Rightarrow> VirtualChannelState \<Rightarrow> unit res" where
  "vc_check_sign E m key st = rbind (VCState_Verify E key st) (\<lambda>ok. if ok then Inr () else Inl (Errorf m))"

definition vc_load :: "('b, 's, 'c) vc_env \<Rightarrow> 'c \<Rightarrow> VirtualChannelState res" where
  "vc_load E st = LoadState (veL E) (vcs_codec (veL E)) st"

section \<open>Code cell\<close>

definition VC_Serialize :: "('b, 's, 'c) vc_env \<Rightarrow> ConditionalVirtualChannel \<Rightarrow> 'c res" where
  "VC_Serialize E c = (let L = veL E in
     end_cell L (build L
       [st_builder L (rbind (Action_Serialize (veA E) (vcAction c)) (\<lambda>a. PushIntOP L (int (be_get (CellHash L a))))),
        st_builder L (PushIntOP L (vcFee c)),
        st_builder L (PushIntOP L (vcCapacity c)),
        st_builder L (PushIntOP L (vcPrepay c)),
        st_builder L (PushIntOP L (vcDeadline c)),
        st_builder L (PushIntOP L (int (be_get (vcKey c)))),
        st_ref L (Inr (virtualChannelUniversalStaticCode E))]))"

text \<open>An amount of at most 127 bits that is not negative.\<close>

definition read_amount ::
  "('b, 's, 'c) cell_lib \<Rightarrow> string \<Rightarrow> string \<Rightarrow> string \<Rightarrow> 's \<Rightarrow> (int \<times> 's) res" where
  "read_amount L m mbits mneg s = rbind (rwrap m (ReadIntOP L s)) (\<lambda>(v, s).
     if 127 < BitLen v then Inl (Errorf mbits)
     else if v < 0 then Inl (Errorf mneg)
     else Inr (v, s))"

text \<open>\<open>big.Int.Bytes\<close>, and the 32 bytes of a hash or key with leading zeroes restored.\<close>

definition big_bytes :: "int \<Rightarrow> bytes" where
  "big_bytes v = be_put ((BitLen v + 7) div 8) (nat \<bar>v\<bar>)"

definition bytes32 :: "string \<Rightarrow> int \<Rightarrow> bytes res" where
  "bytes32 m v = (let k = big_bytes v in
     if 32 < length k then Inl (Errorf m)
     else Inr (if length k < 32 then zeros (32 - length k) @ k else k))"

definition VC_Parse ::
  "('b, 's, 'c) vc_env \<Rightarrow> resolve_action \<Rightarrow> 's \<Rightarrow> ConditionalVirtualChannel res" where
  "VC_Parse E actions s = (let L = veL E in
     rbind (rwrap ''failed to parse fee'' (ReadIntOP L s)) (\<lambda>(actHashInt, s).
     rbind (read_amount L ''failed to parse fee'' ''failed to parse fee: incorrect bits len''
       ''failed to parse fee: cannot be negative'' s) (\<lambda>(fee, s).
     rbind (read_amount L ''failed to parse capacity'' ''failed to parse capacity: incorrect bits len''
       ''failed to parse capacity: cannot be negative'' s) (\<lambda>(capacity, s).
     rbind (read_amount L ''failed to parse prepay'' ''failed to parse prepay: incorrect bits len''
       ''failed to parse prepay: cannot be negative'' s) (\<lambda>(prepay, s).
     rbind (rwrap ''failed to parse deadline'' (ReadIntOP L s)) (\<lambda>(deadline, s).
     if 32 < BitLen deadline then Inl (Errorf ''failed to parse deadline: incorrect bits len'')
     else if deadline \<le> 0 then Inl (Errorf ''failed to parse deadline: cannot be negative or zero'')
     else
     rbind (rwrap ''failed to parse key'' (ReadIntOP L s)) (\<lambda>(keyInt, s).
     rbind (bytes32 ''too big key size'' keyInt) (\<lambda>key.
     rbind (bytes32 ''too big act hash size'' actHashInt) (\<lambda>actHash.
     rbind (read_code L (virtualChannelUniversalStaticCode E) ''unexpected data in condition'' s) (\<lambda>_.
     rbind (rwrap ''failed to resolve action'' (actions actHash)) (\<lambda>a.
     if length (GetAffectedCoins a) \<noteq> 1 then Inl (Errorf ''unexpected number of affected coins'')
     else Inr \<lparr>vcKey = key, vcCapacity = capacity, vcFee = fee, vcPrepay = prepay,
               vcDeadline = deadline, vcAction = a\<rparr>)))))))))))"

section \<open>Operations\<close>

definition VC_EmulateBalance :: "ConditionalVirtualChannel \<Rightarrow> balances \<Rightarrow> bool \<Rightarrow> balances res" where
  "VC_EmulateBalance c bals fromUs =
     rbind (rwrap ''failed to resolve balance'' (ResolveActionBalance bals (GetAffectedCoins (vcAction c)))) (\<lambda>b.
     let amt = vcCapacity c + vcFee c;
         amt = (if 0 < vcPrepay c then amt - vcPrepay c else amt);
         i = BalanceID (hd (GetAffectedCoins (vcAction c)))
     in if amt \<le> 0 then Inr bals
        else if fromUs then Inr (bals(i \<mapsto> b\<lparr>ConditionalLocked := ConditionalLocked b + amt\<rparr>))
        else Inr (bals(i \<mapsto> b\<lparr>ConditionalPending := ConditionalPending b + amt\<rparr>)))"

text \<open>\<open>Commit\<close> returns the new action state and the conditional with its prepay updated.\<close>

definition VC_Commit ::
  "('b, 's, 'c) vc_env \<Rightarrow> ConditionalVirtualChannel \<Rightarrow> ConditionalVirtualChannel \<Rightarrow> 'c \<Rightarrow>
   ('c \<times> ConditionalVirtualChannel) res" where
  "VC_Commit E c newCond actState = (let L = veL E; SC = aeSend (veA E) in
     rbind (VC_Serialize E (newCond\<lparr>vcPrepay := 0\<rparr>)) (\<lambda>nCell.
     rbind (VC_Serialize E (c\<lparr>vcPrepay := 0\<rparr>)) (\<lambda>oCell.
     if CellHash L nCell \<noteq> CellHash L oCell then Inl (Errorf ''something except of prepay was changed'')
     else let prepayAmt = vcPrepay newCond - vcPrepay c in
     if prepayAmt < 0 then Inl (Errorf ''prepay cannot be decreased'')
     else
     rbind (rwrap ''failed to load old state'' (LoadState L SC actState)) (\<lambda>state.
     rbind (rwrap ''failed to serialize new state''
       (ToCell SC (state\<lparr>sasAmount := sasAmount state + prepayAmt\<rparr>))) (\<lambda>newState.
     Inr (newState, c\<lparr>vcPrepay := vcPrepay newCond\<rparr>))))))"

definition VC_GetDeadline :: "ConditionalVirtualChannel \<Rightarrow> gtime" where
  "VC_GetDeadline c = unix (vcDeadline c)"

definition VC_ValidateOnAdd :: "gtime \<Rightarrow> ConditionalVirtualChannel \<Rightarrow> unit res" where
  "VC_ValidateOnAdd now c =
     (if vcCapacity c \<le> 0 then Inl (Errorf ''invalid capacity'')
      else if vcFee c < 0 then Inl (Errorf ''invalid fee'')
      else if vcPrepay c \<noteq> 0 then Inl (Errorf ''prepay is not zero'')
      else if vcDeadline c < unix_of now then Inl (Errorf ''expired deadline'')
      else Inr ())"

text \<open>
  \<open>new(big.Float).Mul(SetInt(x), NewFloat(p)).Int\<close>: the product rounded to the larger precision
  of its factors, then truncated. An infinite or undefined factor ends in a panic.
\<close>

definition trunc :: "rat \<Rightarrow> int" where
  "trunc q = (if 0 \<le> q then \<lfloor>q\<rfloor> else \<lceil>q\<rceil>)"

definition float_share :: "int \<Rightarrow> float64 \<Rightarrow> int res" where
  "float_share x p = (case p of
     F64 q \<Rightarrow> Inr (trunc (rnd_prec (max 64 (BitLen x)) (of_int x * q)))
   | _ \<Rightarrow> Inl (Panic ''not a finite factor''))"

definition vc_tunnel_check ::
  "('b, 's, 'c) vc_env \<Rightarrow> ConditionalVirtualChannel \<Rightarrow> VCInstructionDetails \<Rightarrow> BalanceInfo \<Rightarrow> unit res" where
  "vc_tunnel_check E c details balanceInfo = (let cfg = VirtualTunnelConfig (BalCoinConfig balanceInfo) in
     if Available (Some balanceInfo) < 0 then Inl (Errorf ''not enough available balance'')
     else if vcCapacity c < NextCapacity details then Inl (Errorf ''capacity cannot increase'')
     else if \<not> AllowTunneling cfg then Inl (Errorf ''tunneling of such coin is not allowed through this node'')
     else let wantFeeInt = NextCapacity details + NextFee details in
     if ProxyMaxCapacity cfg < wantFeeInt then Inl (Errorf ''too big next capacity+fee'')
     else
     rbind (float_share wantFeeInt (f64_div100 (ProxyFeePercent cfg))) (\<lambda>share.
     rbind (veMustFromNano E share (Decimals (BalCoinConfig balanceInfo))) (\<lambda>wantFee.
     let wantFee = (if wantFee < ProxyMinFee cfg then ProxyMinFee cfg else wantFee) in
     if vcFee c - NextFee details < wantFee then Inl (Errorf ''min fee to open channel'')
     else Inr ())))"

definition vc_final_check ::
  "('b, 's, 'c) vc_env \<Rightarrow> ConditionalVirtualChannel \<Rightarrow> BalanceInfo \<Rightarrow> 'c option \<Rightarrow> unit res" where
  "vc_final_check E c balanceInfo finalState = (case finalState of
     Some fs \<Rightarrow>
       rbind (rwrap ''failed to parse virtual channel state'' (vc_load E fs)) (\<lambda>state.
       rbind (vc_check_sign E ''final state is incorrect'' (vcKey c) state) (\<lambda>_.
       if vsAmount state \<noteq> vcCapacity c then Inl (Errorf ''final state should use full capacity'')
       else if MaxCapacityToRentPerTx (VirtualTunnelConfig (BalCoinConfig balanceInfo)) < vsAmount state
       then Inl (Errorf ''amount to receive is too big to rent in single operation'')
       else Inr ()))
   | None \<Rightarrow>
       if Available (Some balanceInfo) < 0 then Inl (Errorf ''not enough available balance'') else Inr ())"

definition VC_CheckInstruction ::
  "('b, 's, 'c) vc_env \<Rightarrow> ConditionalVirtualChannel \<Rightarrow> 'c option \<Rightarrow> bool \<Rightarrow> balances \<Rightarrow> 'c option \<Rightarrow> unit res" where
  "VC_CheckInstruction E c detailsCell isFinalDest bals finalState = (case detailsCell of
     None \<Rightarrow> Inl (Errorf ''missing details cell'')
   | Some dc \<Rightarrow>
     rbind (LoadState (veL E) (veDetails E) dc) (\<lambda>details.
     if ExpectedFee details \<noteq> vcFee c \<or> ExpectedCapacity details \<noteq> vcCapacity c
     then Inl (Errorf ''incorrect values, not equals to expected'')
     else
     rbind (rwrap ''failed to resolve balances'' (ResolveActionBalance bals (GetAffectedCoins (vcAction c)))) (\<lambda>b.
     if isFinalDest then vc_final_check E c b finalState
     else vc_tunnel_check E c details b)))"

definition VC_PrepareNext ::
  "('b, 's, 'c) vc_env \<Rightarrow> ConditionalVirtualChannel \<Rightarrow> 'c \<Rightarrow> action \<Rightarrow> gtime \<Rightarrow> ConditionalVirtualChannel res" where
  "VC_PrepareNext E c dc act nextDeadline =
     rbind (tlb_Parse (veL E) (veDetails E) dc) (\<lambda>details.
     Inr \<lparr>vcKey = vcKey c, vcCapacity = NextCapacity details, vcFee = NextFee details, vcPrepay = 0,
          vcDeadline = unix_of nextDeadline, vcAction = act\<rparr>)"

definition VC_PrepareCommit ::
  "('b, 's, 'c) vc_env \<Rightarrow> ConditionalVirtualChannel \<Rightarrow> 'c \<Rightarrow> ConditionalVirtualChannel res" where
  "VC_PrepareCommit E c condState =
     rbind (vc_load E condState) (\<lambda>state.
     rbind (vc_check_sign E ''new state signature is incorrect'' (vcKey c) state) (\<lambda>_.
     if vcCapacity c < vsAmount state then Inl (Errorf ''amount is more than capacity'')
     else let newPrepay = vsAmount state + vcFee c in
     if newPrepay < vcPrepay c then Inl (Errorf ''prepay is already more than required'')
     else Inr (c\<lparr>vcPrepay := newPrepay\<rparr>)))"

definition VC_ScoreTunnelTarget ::
  "('b, 's, 'c) vc_env \<Rightarrow> ConditionalVirtualChannel \<Rightarrow> 'c option \<Rightarrow> balances \<Rightarrow> int res" where
  "VC_ScoreTunnelTarget E c detailsCell targetBalances = (case detailsCell of
     None \<Rightarrow> Inl (Errorf ''missing details cell'')
   | Some dc \<Rightarrow>
     rbind (tlb_Parse (veL E) (veDetails E) dc) (\<lambda>details.
     rbind (case ResolveActionBalance targetBalances (GetAffectedCoins (vcAction c)) of
              Inr b \<Rightarrow> Inr (Available (Some b))
            | Inl e \<Rightarrow> if errors_is e ErrMissingBalanceInfo then Inr 0 else Inl e) (\<lambda>avb.
     Inr (avb - (NextCapacity details + NextFee details)))))"

definition VC_ValidateState ::
  "('b, 's, 'c) vc_env \<Rightarrow> ConditionalVirtualChannel \<Rightarrow> 'c option \<Rightarrow> 'c \<Rightarrow> unit res" where
  "VC_ValidateState E c oldStateCell newStateCell =
     rbind (case oldStateCell of Some oc \<Rightarrow> rbind (vc_load E oc) (\<lambda>o1. Inr (Some (vsAmount o1)))
            | None \<Rightarrow> Inr None) (\<lambda>oldAmount.
     rbind (vc_load E newStateCell) (\<lambda>newState.
     rbind (vc_check_sign E ''new state signature is incorrect'' (vcKey c) newState) (\<lambda>_.
     if (case oldAmount of Some a \<Rightarrow> vsAmount newState < a | None \<Rightarrow> False)
     then Inl ErrNewerConditionalStateIsKnown
     else if vcCapacity c < vsAmount newState then Inl (Errorf ''amount is more than capacity'')
     else Inr ())))"

definition vc_need :: "ConditionalVirtualChannel \<Rightarrow> int \<Rightarrow> int" where
  "vc_need c amount = (let needAmt = amount + vcFee c - vcPrepay c in if needAmt < 0 then 0 else needAmt)"

definition VC_Execute ::
  "('b, 's, 'c) vc_env \<Rightarrow> ConditionalVirtualChannel \<Rightarrow> 'c \<Rightarrow> 'c \<Rightarrow> locked option \<Rightarrow> ('c \<times> locked option) res" where
  "VC_Execute E c actionState latestCondState lck =
     rbind (vc_load E latestCondState) (\<lambda>condState.
     rbind (vc_check_sign E ''cond state signature is incorrect'' (vcKey c) condState) (\<lambda>_.
     rbind (rwrap ''failed to load old state'' (LoadState (veL E) (aeSend (veA E)) actionState)) (\<lambda>actState.
     let needAmt = vc_need c (vsAmount condState);
         ccs = GetAffectedCoins (vcAction c) in
     rbind (rwrap ''failed to serialize new action state''
       (ToCell (aeSend (veA E)) (actState\<lparr>sasAmount := sasAmount actState + needAmt\<rparr>))) (\<lambda>newActionState.
     Inr (newActionState, mark_used (BalanceID (hd ccs)) needAmt lck)))))"

section \<open>States in transit\<close>

text \<open>
  A signed state travels encrypted for its receiver. Key agreement, the stream cipher and the bag
  of cells format belong to the TON library: they are the fields of \<open>vc_cipher\<close>.
\<close>

record 'c vc_cipher =
  SharedKey :: "bytes \<Rightarrow> bytes \<Rightarrow> bytes res"
  BuildSharedCipher :: "bytes \<Rightarrow> bytes \<Rightarrow> (bytes \<Rightarrow> bytes) res"
  PublicKey :: "bytes \<Rightarrow> bytes"
  ToBOC :: "'c \<Rightarrow> bytes"
  FromBOC :: "bytes \<Rightarrow> 'c res"

definition SignVirtualChannelState ::
  "('b, 's, 'c) vc_env \<Rightarrow> 'c vc_cipher \<Rightarrow> int \<Rightarrow> bytes \<Rightarrow> bytes \<Rightarrow> (VirtualChannelState \<times> bytes) res" where
  "SignVirtualChannelState E K amount signKey recipient =
     rbind (VCState_Sign E signKey \<lparr>vsSignature = [], vsAmount = amount\<rparr>) (\<lambda>st.
     rbind (rwrap ''failed to serialize cell'' (VCState_ToCell (veL E) st)) (\<lambda>cll.
     rbind (rwrap ''failed to generate shared key'' (SharedKey K signKey recipient)) (\<lambda>sharedKey.
     rbind (rwrap ''failed to init cipher'' (BuildSharedCipher K sharedKey (PublicKey K signKey))) (\<lambda>stream.
     Inr (st, PublicKey K signKey @ stream (ToBOC K cll))))))"

definition ParseVirtualChannelState ::
  "('b, 's, 'c) vc_env \<Rightarrow> 'c vc_cipher \<Rightarrow> bytes \<Rightarrow> bytes \<Rightarrow> (bytes \<times> VirtualChannelState) res" where
  "ParseVirtualChannelState E K data recipient =
     (if length data \<le> 32 + 64 \<or> 32 + 64 + 64 < length data then Inl (Errorf ''incorrect len of state'')
      else
      rbind (rwrap ''failed to generate shared key'' (SharedKey K recipient (take 32 data))) (\<lambda>sharedKey.
      rbind (rwrap ''failed to init cipher'' (BuildSharedCipher K sharedKey (take 32 data))) (\<lambda>stream.
      rbind (rwrap ''failed to parse cell'' (FromBOC K (stream (drop 32 data)))) (\<lambda>cll.
      rbind (rwrap ''failed to parse state'' (tlb_Parse (veL E) (vcs_codec (veL E)) cll)) (\<lambda>res.
      rbind (vc_check_sign E ''incorrect signature'' (take 32 data) res) (\<lambda>_.
      Inr (take 32 data, res)))))))"

end
