(* ===== verification/Samples.thy ===== *)
theory Samples
  imports ActionLaws
begin

text \<open>
  Concrete data the witnesses of the later theories share: a TON coin, its action over bit-level
  cells, and balances.
\<close>

definition ex_cfg :: VirtualConfig where
  "ex_cfg = \<lparr>MaxCapacityToRentPerTx = 1000, CapacityDepositFee = 1, CapacityFeePercentPer30Days = F64 (1/10),
     ProxyMaxCapacity = 1000, ProxyMinFee = 2, ProxyFeePercent = F64 0, DerivativeFeePercent = F64 1,
     AllowTunneling = True\<rparr>"

definition ex_coin :: CoinConfig where
  "ex_coin = \<lparr>Enabled = True, VirtualTunnelConfig = ex_cfg, CoinSymbol = ''TON'', Decimals = 9,
     MinCapacityRequest = 1, CoinJettonClient = None, CoinVaultResolver = None,
     FeePerWithdrawPropose = 5, BalanceID = GetTONBalanceID\<rparr>"

definition ex_addr :: "nat \<Rightarrow> address" where
  "ex_addr n = be_put 32 n"

definition ex_act :: action where
  "ex_act = TonInsured \<lparr>tiCoin = ex_coin, tiAddressA = Some (ex_addr 1), tiAddressB = Some (ex_addr 2)\<rparr>"

text \<open>A hash that tells the small cells of the samples apart, and six static codes.\<close>

fun ex_hash :: "tcell \<Rightarrow> bytes" where
  "ex_hash (TCell bs rs) = be_put 32 (if length bs = 3 \<and> rs = [] then bits_nat bs + 1 else 0)"

definition ex_code :: "nat \<Rightarrow> tcell" where
  "ex_code n = TCell (nat_bits 3 n) []"

definition ex_env :: "(tdata, tdata, tcell) act_env" where
  "ex_env = ton_env ex_hash (\<lambda>a. hex_encode a) ex_code"

definition ex_send :: "int \<Rightarrow> StateActionSend" where
  "ex_send v = \<lparr>sasAmount = v, sasCommited = 0, sasCommitedSeqno = 0\<rparr>"

definition ex_bal :: "int \<Rightarrow> BalanceInfo" where
  "ex_bal v = (NewBalanceInfo ex_coin)\<lparr>Onchain := v\<rparr>"

definition ex_bals :: "int \<Rightarrow> balances" where
  "ex_bals v = [GetTONBalanceID \<mapsto> ex_bal v]"

lemma ex_coin_sel [simp]:
  "BalanceID ex_coin = GetTONBalanceID" "VirtualTunnelConfig ex_coin = ex_cfg" "Decimals ex_coin = 9"
  "FeePerWithdrawPropose ex_coin = 5" "CoinJettonClient ex_coin = None" "CoinVaultResolver ex_coin = None"
  by (simp_all add: ex_coin_def)

lemma ex_act_sel [simp]:
  "Action_coin ex_act = ex_coin" "Action_balance_id ex_act = GetTONBalanceID" "\<not> IsVaultAction ex_act"
  "Action_kind ex_act = KTonInsured"
  by (simp_all add: ex_act_def)

lemma ex_env_sel [simp]:
  "aeL ex_env = ton_cells ex_hash" "aeSend ex_env = ton_send" "aeVault ex_env = ton_vault"
  by (simp_all add: ex_env_def)

lemma ex_bals_sel [simp]: "ex_bals v GetTONBalanceID = Some (ex_bal v)"
  by (simp add: ex_bals_def)

lemma ex_bal_sel [simp]:
  "Onchain (ex_bal v) = v" "BalAction (ex_bal v) = 0" "OnHold (ex_bal v) = 0" "ConditionalLocked (ex_bal v) = 0"
  "ConditionalPending (ex_bal v) = 0" "BalCoinConfig (ex_bal v) = ex_coin"
  by (simp_all add: ex_bal_def NewBalanceInfo_def)

lemma ex_send_sel [simp]:
  "sasAmount (ex_send v) = v" "sasCommited (ex_send v) = 0" "sasCommitedSeqno (ex_send v) = 0"
  by (simp_all add: ex_send_def)

lemma ex_send_ok [simp]: "send_ok (ex_send v) \<longleftrightarrow> 0 \<le> v \<and> v < 2 ^ 120"
  by (simp add: send_ok_def coins_ok_def)

lemma ex_hash_32: "length (ex_hash c) = 32"
  by (cases c) simp

text \<open>The cell of an insured TON action, and the cells below a cell whose references are leaves.\<close>

lemma TonInsured_cell:
  assumes "addr_ok (tiAddressA a)" "addr_ok (tiAddressB a)"
  shows "TonInsured_Serialize (ton_env h adr codes) a = Inr (TCell (nat_bits 8 0x89 @ nat_bits 8 0x89)
    [TCell (t_addr_bits (tiAddressA a)) [], TCell (t_addr_bits (tiAddressB a)) [], codes 0])"
  using length_t_addr_bits [OF assms(1)] length_t_addr_bits [OF assms(2)]
  by (simp add: TonInsured_Serialize_def ton_env_def ton_cells_def build_def st_builder_def push_addr_def st_addr_def
      PushSliceRef_def st_uint_def st_ref_def t_append_def cat_def end_cell_def close_cell_def Let_def
      del: nat_bits.simps rbind_Inr)

lemma reach_leaf: "CellRefs L c = [] \<Longrightarrow> reach n L c = []"
  by (cases n) simp_all

lemma reach_flat:
  "(\<And>x. x \<in> set (CellRefs L c) \<Longrightarrow> CellRefs L x = []) \<Longrightarrow> 0 < n \<Longrightarrow> set (reach n L c) = set (CellRefs L c)"
  by (cases n) (auto simp: reach_leaf)

text \<open>A codec that writes the values of a list as their positions, and reads them back.\<close>

definition table_codec :: "'v list \<Rightarrow> (tdata, tcell, 'v) codec" where
  "table_codec xs = \<lparr>
     LoadFromCell = (\<lambda>s. rbind (t_take 3 s) (\<lambda>(q, s).
        if bits_nat q < length xs then Inr (xs ! bits_nat q, s) else Inl (Errorf ''unknown value''))),
     ToCell = (\<lambda>v. case find (\<lambda>i. xs ! i = v) [0..<min 8 (length xs)] of None \<Rightarrow> Inl (Errorf ''unsupported value'')
        | Some i \<Rightarrow> Inr (ex_code i))\<rparr>"

lemma table_codec_cell: "ToCell (table_codec xs) v = Inr c \<Longrightarrow> \<exists>i < min 8 (length xs). xs ! i = v \<and> c = ex_code i"
  by (auto simp: table_codec_def find_Some_iff split: option.splits)

end
