(* ===== verification/ConditionalLock.thy ===== *)
theory ConditionalLock
  imports Samples
begin

text \<open>
  The contract every conditional payment keeps towards the channel accounting: while it is open its
  payer has \<open>lock c\<close> less available, settling it with an accepted state adds \<open>pay c cs\<close> to the
  state of its action, and never more than was locked. Virtual channels and derivative conditionals
  implement it.
\<close>

locale conditional_lock =
  fixes E :: "('b, 's, 'c) act_env"
    and act_of :: "'k \<Rightarrow> action"
    and emulate :: "'k \<Rightarrow> balances \<Rightarrow> bool \<Rightarrow> balances res"
    and execute :: "'k \<Rightarrow> 'c \<Rightarrow> 'c \<Rightarrow> locked option \<Rightarrow> ('c \<times> locked option) res"
    and wf :: "'k \<Rightarrow> bool"
    and accepted :: "'k \<Rightarrow> 'c \<Rightarrow> bool"
    and lock :: "'k \<Rightarrow> int"
    and pay :: "'k \<Rightarrow> 'c \<Rightarrow> int"
  assumes emulate_lock: "wf c \<Longrightarrow> emulate c bals fromUs = Inr bals' \<Longrightarrow>
      (\<And>b. bals (BalanceID (Action_coin (act_of c))) = Some b \<Longrightarrow> 0 \<le> ConditionalLocked b) \<Longrightarrow>
      Available (bals' k) = Available (bals k) -
        (if fromUs \<and> k = BalanceID (Action_coin (act_of c)) then lock c else 0)"
    and execute_pay: "codec_ok (aeL E) (aeSend E) send_ok \<Longrightarrow> accepted c cs \<Longrightarrow>
      LoadState (aeL E) (aeSend E) st = Inr s \<Longrightarrow> send_ok s \<Longrightarrow> sasAmount s + pay c cs < 2 ^ 120 \<Longrightarrow>
      \<exists>st' l. execute c st cs lck = Inr (st', l) \<and>
        LoadState (aeL E) (aeSend E) st' = Inr (s\<lparr>sasAmount := sasAmount s + pay c cs\<rparr>)"
    and pay_bounds: "accepted c cs \<Longrightarrow> 0 \<le> pay c cs \<and> pay c cs \<le> lock c"
begin

text \<open>Adding to an action's state moves the balance by the amount, on the side that counts it.\<close>

lemma contribution_add:
  assumes "LoadState (aeL E) (aeSend E) st = Inr s"
    and "LoadState (aeL E) (aeSend E) st' = Inr (s\<lparr>sasAmount := sasAmount s + d\<rparr>)"
  shows "Action_contribution E k fromUs (a, st') = Action_contribution E k fromUs (a, st) +
    (if k = Action_balance_id a then (if fromUs then (if IsVaultAction a then 0 else - d) else d) else 0)"
  using assms by (simp add: contribution_def act_delta_def send_outstanding_def)

lemma settlement_covered:
  assumes "codec_ok (aeL E) (aeSend E) send_ok" "accepted c cs" "wf c"
    and "LoadState (aeL E) (aeSend E) st = Inr s" "send_ok s" "sasAmount s + lock c < 2 ^ 120"
    and "a = act_of c" "Action_balance_id a = BalanceID (Action_coin a)"
    and "\<And>b. bals (BalanceID (Action_coin a)) = Some b \<Longrightarrow> 0 \<le> ConditionalLocked b"
    and "Action_EmulateBalance E a st bals fromUs = Inr b1" "emulate c b1 fromUs = Inr b2"
  shows "\<exists>st' l b3. execute c st cs lck = Inr (st', l) \<and> Action_EmulateBalance E a st' bals fromUs = Inr b3 \<and>
    (\<forall>k. Available (b2 k) \<le> Available (b3 k)) \<and>
    (\<not> fromUs \<longrightarrow> Available (b3 (BalanceID (Action_coin a))) = Available (b1 (BalanceID (Action_coin a))) + pay c cs)"
proof -
  let ?i = "BalanceID (Action_coin a)"
  have p: "0 \<le> pay c cs" "pay c cs \<le> lock c" using pay_bounds [OF assms(2)] by simp_all
  with assms(6) have "sasAmount s + pay c cs < 2 ^ 120" by linarith
  from execute_pay [OF assms(1,2,4,5) this] obtain st' l where st': "execute c st cs lck = Inr (st', l)"
    "LoadState (aeL E) (aeSend E) st' = Inr (s\<lparr>sasAmount := sasAmount s + pay c cs\<rparr>)" by blast
  obtain b3 where b3: "Action_EmulateBalance E a st' bals fromUs = Inr b3"
    using st'(2) by (simp add: act.emulate_eq)
  have pos: "0 \<le> ConditionalLocked b" if "b1 (BalanceID (Action_coin (act_of c))) = Some b" for b
    using that assms(4,8,9,10) unfolding assms(7) [symmetric]
    by (auto simp: act.emulate_eq bal_entry_def NewBalanceInfo_def split: option.splits)
  have av: "Available (b1 j) = Available (bals j) + Action_contribution E j fromUs (a, st)"
    "Available (b3 j) = Available (bals j) + Action_contribution E j fromUs (a, st')"
    "Available (b2 j) = Available (b1 j) - (if fromUs \<and> j = ?i then lock c else 0)" for j
    using act.emulate_available [OF assms(10)] act.emulate_available [OF b3] emulate_lock [OF assms(3,11) pos] assms(7)
    by simp_all
  have "Available (b2 j) \<le> Available (b3 j)" for j
    using av [of j] contribution_add [OF assms(4) st'(2), of j fromUs a] assms(8) p by auto
  moreover have "\<not> fromUs \<longrightarrow> Available (b3 ?i) = Available (b1 ?i) + pay c cs"
    using av(1,2) [of ?i] contribution_add [OF assms(4) st'(2), of ?i fromUs a] assms(8) by simp
  ultimately show ?thesis using st'(1) b3 by blast
qed

end

end
