(* ===== verification/VCLaws.thy ===== *)
theory VCLaws
  imports VirtualChannel ConditionalLock
begin

text \<open>
  What virtual channels promise: their signed state and code cell survive serialisation, a
  settlement never takes more than was locked, a commit followed by the settlement pays what the
  settlement alone would, and a node that forwards a channel keeps its fee.
\<close>

section \<open>Bytes of keys and hashes\<close>

lemma be_put_get: "be_put (length k) (be_get k) = k"
proof (induction k rule: rev_induct)
  case (snoc c k)
  then show ?case by (simp add: of_char_of char_of_char)
qed simp

lemma be_get_less: "be_get k < 256 ^ length k"
proof (induction k rule: rev_induct)
  case (snoc c k)
  have "(of_char c :: nat) < 256" by simp
  with snoc have "be_get k * 256 + of_char c < (be_get k + 1) * 256" "(be_get k + 1) * 256 \<le> 256 ^ length k * 256"
    by simp_all
  from less_le_trans [OF this] show ?case by (simp add: mult.commute)
qed simp

lemma be_put_0: "be_put n 0 = zeros n"
  by (induction n) (simp_all add: zeros_def replicate_append_same)

lemma be_put_zeros: "v < 256 ^ n \<Longrightarrow> be_put (m + n) v = zeros m @ be_put n v"
proof (induction n arbitrary: v)
  case 0
  then show ?case by (simp add: be_put_0 zeros_def)
next
  case (Suc n)
  then have "v div 256 < 256 ^ n" by (simp add: less_mult_imp_div_less mult.commute)
  with Suc.IH show ?case by simp
qed

lemma bytes32_key:
  assumes "length k = 32"
  shows "bytes32 m (int (be_get k)) = Inr k"
proof -
  let ?v = "int (be_get k)"
  define l where "l = (BitLen ?v + 7) div 8"
  have "be_get k < 2 ^ 256" using be_get_less [of k] assms by simp
  then have b: "BitLen ?v \<le> 256" by (simp add: BitLen_le_iff)
  then have l32: "l \<le> 32" by (simp add: l_def)
  have "BitLen ?v \<le> 8 * l" unfolding l_def by linarith
  then have "\<bar>?v\<bar> < 2 ^ (8 * l)" by (simp only: BitLen_le_iff)
  then have "be_get k < 256 ^ l" by (simp add: power_mult)
  from be_put_zeros [OF this, of "32 - l"] l32 have "be_put 32 (be_get k) = zeros (32 - l) @ be_put l (be_get k)"
    by simp
  moreover have "big_bytes ?v = be_put l (be_get k)" by (simp add: big_bytes_def l_def)
  moreover have "zeros 0 = []" by (simp add: zeros_def)
  ultimately show ?thesis using l32 be_put_get [of k] assms by (auto simp: bytes32_def Let_def)
qed

section \<open>The signed state\<close>

definition vs_ok :: "VirtualChannelState \<Rightarrow> bool" where
  "vs_ok st \<longleftrightarrow> length (vsSignature st) = 64 \<and> coins_ok (vsAmount st)"

definition payload_bits :: "int \<Rightarrow> bool list" where
  "payload_bits v = (let r = length (coins_bits v) mod 8 in
     coins_bits v @ (if r \<noteq> 0 then nat_bits (8 - r) 0 else []))"

lemma payload_bits_whole: "8 dvd length (payload_bits v)"
proof -
  define n where "n = length (coins_bits v)"
  have "8 dvd n + (8 - n mod 8)" if "n mod 8 \<noteq> 0"
  proof -
    have "n + (8 - n mod 8) = 8 * (n div 8 + 1)" by presburger
    then show ?thesis by simp
  qed
  then show ?thesis by (auto simp: payload_bits_def Let_def n_def [symmetric])
qed

lemma length_payload_bits: "coins_ok v \<Longrightarrow> length (payload_bits v) \<le> 131"
  using length_coins_bits [of v] by (auto simp: payload_bits_def Let_def)

context cell_library
begin

lemma serializePayload_made: "coins_ok v \<Longrightarrow> made (serializePayload L v) (payload_bits v, [])"
proof -
  assume v: "coins_ok v"
  obtain b where b: "MustStoreBigCoins L (BeginCell L) v = Inr b" "bview b = (coins_bits v, [])"
    using store_coins [OF view_begin v] length_coins_bits [OF v] by auto
  let ?r = "length (coins_bits v) mod 8"
  have l: "length (coins_bits v) + (8 - ?r) \<le> 1023" using length_coins_bits [OF v] by linarith
  obtain d where d: "MustStoreUInt L b 0 (8 - ?r) = Inr d" "bview d = (coins_bits v @ nat_bits (8 - ?r) 0, [])"
    using store_uint [OF b(2) _ l, of 0] by auto
  with b show ?thesis
    by (simp add: made_def serializePayload_def bits_used payload_bits_def Let_def del: rbind_Inr)
qed

lemma payload_bytes_ok:
  "coins_ok v \<Longrightarrow> payload_bytes L v = Inr (bits_bytes (length (payload_bits v) div 8) (payload_bits v))"
proof -
  assume "coins_ok v"
  from serializePayload_made [OF this] obtain b where b: "serializePayload L v = Inr b" "bview b = (payload_bits v, [])"
    by (auto simp: made_def)
  have sv: "sview (ToSlice L b) = (payload_bits v, [])" using b(2) by (simp add: view_to_slice)
  from load_slice [OF sv order.refl payload_bits_whole] b(1) sv show ?thesis
    by (auto simp: payload_bytes_def bits_left simp del: rbind_Inr)
qed

lemma vcs_codec_ok: "codec_ok L (vcs_codec L) vs_ok"
  unfolding codec_ok_def
proof (intro allI impI)
  fix st assume "vs_ok st"
  then have s: "length (vsSignature st) = 64" and v: "coins_ok (vsAmount st)" by (auto simp: vs_ok_def)
  let ?p = "payload_bits (vsAmount st)" and ?c = "coins_bits (vsAmount st)"
  let ?r = "length ?c mod 8"
  obtain b where b: "MustStoreSlice L (BeginCell L) (vsSignature st) 512 = Inr b"
      "bview b = (byte_bits (vsSignature st), [])"
    using store_slice [OF view_begin, of 512 "vsSignature st"] s by auto
  obtain p where p: "serializePayload L (vsAmount st) = Inr p" "bview p = (?p, [])"
    using serializePayload_made [OF v] by (auto simp: made_def)
  obtain d where d: "MustStoreBuilder L b p = Inr d" "bview d = (byte_bits (vsSignature st) @ ?p, [])"
    using store_builder [OF b(2) p(2)] s length_payload_bits [OF v] by auto
  have t: "ToCell (vcs_codec L) st = Inr (EndCell L d)"
    using s b(1) p(1) d(1) by (simp add: vcs_codec_def VCState_ToCell_def)
  let ?s = "BeginParse L (EndCell L d)"
  have "sview ?s = (byte_bits (vsSignature st) @ ?p, [])" using d(2) by (simp add: view_parse)
  from load_slice [OF this, of 512] s bits_bytes_byte_bits [of "vsSignature st" "[]"] obtain s1
    where s1: "LoadSlice L ?s 512 = Inr (vsSignature st, s1)" "sview s1 = (?p, [])" by auto
  have "sview s1 = (?c @ (if ?r \<noteq> 0 then nat_bits (8 - ?r) 0 else []), [])"
    using s1(2) by (simp add: payload_bits_def Let_def)
  from load_coins [OF this v] obtain s2 where s2: "LoadBigCoins L s1 = Inr (vsAmount st, s2)"
    "sview s2 = (if ?r \<noteq> 0 then nat_bits (8 - ?r) 0 else [], [])" by auto
  have sz: "BitsLeft L s1 - BitsLeft L s2 = length ?c"
    using s1(2) s2(2) by (simp add: bits_left payload_bits_def Let_def)
  have "\<exists>s3. LoadFromCell (vcs_codec L) ?s = Inr (st, s3) \<and> sview s3 = ([], [])"
  proof (cases "?r = 0")
    case True
    with s1(1) s2 sz show ?thesis by (simp add: vcs_codec_def VCState_LoadFromCell_def Let_def del: rbind_Inr)
  next
    case False
    with s2(2) have "sview s2 = (nat_bits (8 - ?r) 0 @ [], [])" by simp
    from load_uint_field [OF this] False s1(1) s2(1) sz show ?thesis
      by (auto simp: vcs_codec_def VCState_LoadFromCell_def Let_def simp del: rbind_Inr)
  qed
  with t show "\<exists>c. ToCell (vcs_codec L) st = Inr c \<and> LoadState L (vcs_codec L) c = Inr st"
    by (auto simp: LoadState_def bits_left refs_num simp del: rbind_Inr)
qed

end

section \<open>The code cell\<close>

text \<open>
  Amounts below \<open>2 ^ 120\<close> (a coin amount), a 32-bit deadline and a 32-byte key: the six pushed
  integers then take at most 1000 of the 1023 bits of a cell.
\<close>

definition vc_ok :: "ConditionalVirtualChannel \<Rightarrow> bool" where
  "vc_ok c \<longleftrightarrow> length (vcKey c) = 32 \<and> coins_ok (vcCapacity c) \<and> coins_ok (vcFee c) \<and>
     coins_ok (vcPrepay c) \<and> 0 < vcDeadline c \<and> vcDeadline c < 2 ^ 32"

locale vc_cells = cell_library "veL E" bview sview addr_bits
  for E :: "('b, 's, 'c) vc_env"
    and bview :: "'b \<Rightarrow> bool list \<times> 'c list"
    and sview :: "'s \<Rightarrow> bool list \<times> 'c list"
    and addr_bits :: "address option \<Rightarrow> bool list" +
  assumes hash_32: "length (CellHash (veL E) c) = 32"
begin

lemma coins_BitLen: "coins_ok v \<Longrightarrow> BitLen v \<le> 120"
  by (auto simp: coins_ok_def BitLen_le_iff)

lemma rds_amount: "coins_ok v \<Longrightarrow> rds (read_amount (veL E) m n k) (push_bits v, []) v"
  unfolding read_amount_def [abs_def]
  using coins_BitLen [of v] by (intro rds_then [OF rds_push_int]) (auto simp: coins_ok_def)

lemma rds_int: "BitLen v \<le> 256 \<Longrightarrow> rds (\<lambda>s. rwrap m (ReadIntOP (veL E) s)) (push_bits v, []) v"
  using rds_then [OF rds_push_int, of v "\<lambda>x s. Inr (x, s)"] by (simp add: rds_def)

lemma key_BitLen: "length k = 32 \<Longrightarrow> BitLen (int (be_get k)) \<le> 256"
  using be_get_less [of k] by (simp add: BitLen_le_iff)

text \<open>The stores of \<open>VC_Serialize\<close> and the data they write.\<close>

abbreviation vc_stores :: "ConditionalVirtualChannel \<Rightarrow> ('b \<Rightarrow> 'b res) list" where
  "vc_stores c \<equiv>
     [st_builder (veL E) (rbind (Action_Serialize (veA E) (vcAction c)) (\<lambda>a. PushIntOP (veL E) (int (be_get (CellHash (veL E) a))))),
      st_builder (veL E) (PushIntOP (veL E) (vcFee c)), st_builder (veL E) (PushIntOP (veL E) (vcCapacity c)),
      st_builder (veL E) (PushIntOP (veL E) (vcPrepay c)), st_builder (veL E) (PushIntOP (veL E) (vcDeadline c)),
      st_builder (veL E) (PushIntOP (veL E) (int (be_get (vcKey c)))),
      st_ref (veL E) (Inr (virtualChannelUniversalStaticCode E))]"

abbreviation vc_data :: "'c \<Rightarrow> ConditionalVirtualChannel \<Rightarrow> 'c cdata list" where
  "vc_data a c \<equiv> [(push_bits (int (be_get (CellHash (veL E) a))), []), (push_bits (vcFee c), []),
     (push_bits (vcCapacity c), []), (push_bits (vcPrepay c), []), (push_bits (vcDeadline c), []),
     (push_bits (int (be_get (vcKey c))), []), ([], [virtualChannelUniversalStaticCode E])]"

lemma vc_bits:
  assumes "vc_ok c"
  shows "BitLen (int (be_get (CellHash (veL E) a))) \<le> 256" "BitLen (int (be_get (vcKey c))) \<le> 256"
    "BitLen (vcFee c) \<le> 120" "BitLen (vcCapacity c) \<le> 120" "BitLen (vcPrepay c) \<le> 120"
    "BitLen (vcDeadline c) \<le> 32"
  using assms key_BitLen coins_BitLen hash_32 by (auto simp: vc_ok_def BitLen_le_iff)

lemma vc_stores_write:
  assumes "vc_ok c" "Action_Serialize (veA E) (vcAction c) = Inr a"
  shows "list_all2 writes (vc_stores c) (vc_data a c)" "cfits (foldr cat (vc_data a c) ([], []))"
proof -
  note B = vc_bits(1) [OF assms(1), of a] vc_bits(2-6) [OF assms(1)]
  then have "BitLen (vcFee c) \<le> 256" "BitLen (vcCapacity c) \<le> 256" "BitLen (vcPrepay c) \<le> 256"
    "BitLen (vcDeadline c) \<le> 256" by simp_all
  with B assms(2) show "list_all2 writes (vc_stores c) (vc_data a c)"
    by (auto intro!: writes_builder made_push_int writes_ref)
  show "cfits (foldr cat (vc_data a c) ([], []))"
    using length_push_bits(1) [OF B(1)] length_push_bits(1) [OF B(2)] length_push_bits(2) [of "vcFee c"]
      length_push_bits(2) [of "vcCapacity c"] length_push_bits(2) [of "vcPrepay c"]
      length_push_bits(3) [of "vcDeadline c"] B by (simp add: cfits_def cat_def)
qed

lemma VC_cell_refs:
  assumes "vc_ok c" "Action_Serialize (veA E) (vcAction c) = Inr a"
  shows "\<exists>cl. VC_Serialize E c = Inr cl \<and> CellRefs (veL E) cl = [virtualChannelUniversalStaticCode E]"
proof -
  obtain cl where "end_cell (veL E) (build (veL E) (vc_stores c)) = Inr cl"
    "CellRefs (veL E) cl = snd (foldr cat (vc_data a c) ([], []))"
    by (rule cell_of [OF vc_stores_write [OF assms]])
  then show ?thesis by (simp add: VC_Serialize_def Let_def cat_def)
qed

lemma VC_codec:
  assumes "vc_ok c" "Action_Serialize (veA E) (vcAction c) = Inr a"
    and "actions (CellHash (veL E) a) = Inr (vcAction c)"
  shows "code_ok (VC_Serialize E) (VC_Parse E actions) (virtualChannelUniversalStaticCode E) c"
proof -
  from assms(1) have ok: "length (vcKey c) = 32" "coins_ok (vcFee c)" "coins_ok (vcCapacity c)"
    "coins_ok (vcPrepay c)" "0 < vcDeadline c" "vcDeadline c < 2 ^ 32" by (auto simp: vc_ok_def)
  note B = vc_bits(1) [OF assms(1), of a] vc_bits(2-6) [OF assms(1)]
  then have D256: "BitLen (vcDeadline c) \<le> 256" by simp
  have nd: "(32 < BitLen (vcDeadline c)) = False" "(vcDeadline c \<le> 0) = False" using B(6) ok(5) by simp_all
  show ?thesis
  proof (rule code_okI [OF _ vc_stores_write [OF assms(1,2)]])
    show "VC_Parse E actions s = Inr c" if "sview s = foldr cat (vc_data a c) ([], [])" for s
      unfolding VC_Parse_def Let_def
      by (rule parse_step [OF rds_int [OF B(1)]], use that in simp,
          rule parse_step [OF rds_amount [OF ok(2)]], simp,
          rule parse_step [OF rds_amount [OF ok(3)]], simp,
          rule parse_step [OF rds_amount [OF ok(4)]], simp,
          rule parse_step [OF rds_int [OF D256]], simp, simp only: nd if_False,
          rule parse_step [OF rds_int [OF B(2)]], simp)
        (use assms ok in \<open>auto simp: read_code_ok bytes32_key hash_32 GetAffectedCoins_def simp del: rbind_Inr\<close>)
  qed (auto simp: VC_Serialize_def Let_def cat_def)
qed

end

section \<open>Accounting\<close>

definition vc_locked :: "ConditionalVirtualChannel \<Rightarrow> int" where
  "vc_locked c = max 0 (vcCapacity c + vcFee c - max 0 (vcPrepay c))"

lemma vc_locked_nonneg: "0 \<le> vc_locked c"
  by (simp add: vc_locked_def)

abbreviation vc_coin_id :: "ConditionalVirtualChannel \<Rightarrow> string" where
  "vc_coin_id c \<equiv> BalanceID (Action_coin (vcAction c))"

lemma VC_EmulateBalance_eq:
  assumes "bals (vc_coin_id c) = Some b"
  shows "VC_EmulateBalance c bals fromUs = Inr (if vc_locked c = 0 then bals
    else if fromUs then bals(vc_coin_id c \<mapsto> b\<lparr>ConditionalLocked := ConditionalLocked b + vc_locked c\<rparr>)
    else bals(vc_coin_id c \<mapsto> b\<lparr>ConditionalPending := ConditionalPending b + vc_locked c\<rparr>))"
  using assms
  by (auto simp: VC_EmulateBalance_def ResolveActionBalance_single GetAffectedCoins_def vc_locked_def Let_def
      simp del: rbind_Inr rwrap_Inr)

lemma VC_EmulateBalance_missing:
  "bals (vc_coin_id c) = None \<Longrightarrow> VC_EmulateBalance c bals fromUs =
     Inl (Wrapf ''failed to resolve balance'' ErrMissingBalanceInfo)"
  by (simp add: VC_EmulateBalance_def ResolveActionBalance_single GetAffectedCoins_def wrapf_def)

lemma VC_EmulateBalance_available:
  assumes "VC_EmulateBalance c bals fromUs = Inr bals'"
    and "\<And>b. bals (vc_coin_id c) = Some b \<Longrightarrow> 0 \<le> ConditionalLocked b"
  shows "Available (bals' k) = Available (bals k) - (if fromUs \<and> k = vc_coin_id c then vc_locked c else 0)"
proof (cases "bals (vc_coin_id c)")
  case None
  with assms(1) VC_EmulateBalance_missing show ?thesis by simp
next
  case (Some b)
  have "0 \<le> vc_locked c" by (simp add: vc_locked_def)
  with Some assms VC_EmulateBalance_eq [of bals c b fromUs] show ?thesis
    by (auto simp: Available_def Let_def split: if_splits)
qed

lemma vc_check_sign_ok [simp]:
  "vc_check_sign E m k st = Inr x \<longleftrightarrow> VCState_Verify E k st = Inr True"
  by (cases "VCState_Verify E k st") (auto simp: vc_check_sign_def)

lemma VC_ValidateState_Inr:
  "VC_ValidateState E c old new = Inr x \<longleftrightarrow>
     (\<exists>st. vc_load E new = Inr st \<and> VCState_Verify E (vcKey c) st = Inr True \<and> vsAmount st \<le> vcCapacity c \<and>
       (case old of None \<Rightarrow> True | Some oc \<Rightarrow> \<exists>o1. vc_load E oc = Inr o1 \<and> vsAmount o1 \<le> vsAmount st))"
  by (fastforce simp: VC_ValidateState_def not_less split: option.splits if_splits)

lemma vc_need_nonneg [simp]: "0 \<le> vc_need c a"
  by (simp add: vc_need_def Let_def)

lemma vc_need_le_locked: "a \<le> vcCapacity c \<Longrightarrow> 0 \<le> vcPrepay c \<Longrightarrow> vc_need c a \<le> vc_locked c"
  by (simp add: vc_need_def vc_locked_def Let_def)

text \<open>A settlement adds exactly the amount still owed to the action's state.\<close>

lemma VC_Execute_spec:
  assumes "codec_ok (veL E) (aeSend (veA E)) send_ok" "vc_load E cs = Inr cst"
    and "VCState_Verify E (vcKey c) cst = Inr True"
    and "LoadState (veL E) (aeSend (veA E)) st = Inr s" "send_ok s"
    and "sasAmount s + vc_need c (vsAmount cst) < 2 ^ 120"
  obtains st' where "VC_Execute E c st cs lck = Inr (st', mark_used (vc_coin_id c) (vc_need c (vsAmount cst)) lck)"
    "LoadState (veL E) (aeSend (veA E)) st' = Inr (s\<lparr>sasAmount := sasAmount s + vc_need c (vsAmount cst)\<rparr>)"
proof -
  let ?n = "s\<lparr>sasAmount := sasAmount s + vc_need c (vsAmount cst)\<rparr>"
  have "send_ok ?n" using assms(5,6) by (simp add: send_ok_def coins_ok_def)
  from codec_okD [OF assms(1) this] obtain st'
    where st': "ToCell (aeSend (veA E)) ?n = Inr st'" "LoadState (veL E) (aeSend (veA E)) st' = Inr ?n" by blast
  have "vc_check_sign E m (vcKey c) cst = Inr ()" for m using assms(3) by simp
  with st' assms(2,4) show thesis
    by (intro that) (simp_all add: VC_Execute_def GetAffectedCoins_def Let_def del: vc_check_sign_ok)
qed

lemma VC_PrepareCommit_Inr:
  "VC_PrepareCommit E c cs = Inr c1 \<longleftrightarrow> (\<exists>st. vc_load E cs = Inr st \<and> VCState_Verify E (vcKey c) st = Inr True \<and>
     vsAmount st \<le> vcCapacity c \<and> vcPrepay c \<le> vsAmount st + vcFee c \<and>
     c1 = c\<lparr>vcPrepay := vsAmount st + vcFee c\<rparr>)"
  by (auto simp: VC_PrepareCommit_def Let_def not_less)

lemma VC_Commit_spec:
  assumes "codec_ok (veL E) (aeSend (veA E)) send_ok" "VC_Serialize E (c\<lparr>vcPrepay := 0\<rparr>) = Inr cell"
    and "vcPrepay c \<le> p" "LoadState (veL E) (aeSend (veA E)) st = Inr s" "send_ok s"
    and "sasAmount s + (p - vcPrepay c) < 2 ^ 120"
  obtains st' where "VC_Commit E c (c\<lparr>vcPrepay := p\<rparr>) st = Inr (st', c\<lparr>vcPrepay := p\<rparr>)"
    "LoadState (veL E) (aeSend (veA E)) st' = Inr (s\<lparr>sasAmount := sasAmount s + (p - vcPrepay c)\<rparr>)"
proof -
  let ?n = "s\<lparr>sasAmount := sasAmount s + (p - vcPrepay c)\<rparr>"
  have "send_ok ?n" using assms(3,5,6) by (simp add: send_ok_def coins_ok_def)
  from codec_okD [OF assms(1) this] obtain st'
    where "ToCell (aeSend (veA E)) ?n = Inr st'" "LoadState (veL E) (aeSend (veA E)) st' = Inr ?n" by blast
  with assms(2,3,4) show thesis by (intro that) (simp_all add: VC_Commit_def Let_def)
qed

lemma LoadState_tlb_Parse: "LoadState L C c = Inr v \<Longrightarrow> tlb_Parse L C c = Inr v"
  by (auto simp: LoadState_def tlb_Parse_def split: if_splits prod.splits)

text \<open>A state the channel accepts, and what it still has to pay.\<close>

definition vc_accepted :: "('b, 's, 'c) vc_env \<Rightarrow> ConditionalVirtualChannel \<Rightarrow> 'c \<Rightarrow> bool" where
  "vc_accepted E c cs \<longleftrightarrow> 0 \<le> vcPrepay c \<and> VC_ValidateState E c None cs = Inr ()"

definition vc_pay :: "('b, 's, 'c) vc_env \<Rightarrow> ConditionalVirtualChannel \<Rightarrow> 'c \<Rightarrow> int" where
  "vc_pay E c cs = (case vc_load E cs of Inl _ \<Rightarrow> 0 | Inr st \<Rightarrow> vc_need c (vsAmount st))"

interpretation vc_lock: conditional_lock "veA E" vcAction VC_EmulateBalance "VC_Execute E" "\<lambda>_. True" "vc_accepted E"
    vc_locked "vc_pay E" for E
proof (unfold_locales, goal_cases)
  case (1 c bals fromUs bals' k)
  from 1(2,3) show ?case by (rule VC_EmulateBalance_available)
next
  case (2 c cs st s lck)
  then obtain cst where cst: "vc_load E cs = Inr cst" "VCState_Verify E (vcKey c) cst = Inr True"
    by (auto simp: vc_accepted_def VC_ValidateState_Inr)
  with 2 have "sasAmount s + vc_need c (vsAmount cst) < 2 ^ 120" by (simp add: vc_pay_def)
  then obtain st' where "VC_Execute E c st cs lck = Inr (st', mark_used (vc_coin_id c) (vc_need c (vsAmount cst)) lck)"
    "LoadState (veL E) (aeSend (veA E)) st' = Inr (s\<lparr>sasAmount := sasAmount s + vc_need c (vsAmount cst)\<rparr>)"
    by (rule VC_Execute_spec [OF 2(1) cst 2(3,4)])
  with cst(1) show ?case by (auto simp: vc_pay_def)
next
  case (3 c cs)
  then show ?case
    by (auto simp: vc_accepted_def VC_ValidateState_Inr vc_pay_def vc_need_le_locked)
qed

section \<open>Real cells\<close>

definition details_ok :: "VCInstructionDetails \<Rightarrow> bool" where
  "details_ok d \<longleftrightarrow> coins_ok (ExpectedFee d) \<and> coins_ok (ExpectedCapacity d) \<and> coins_ok (NextFee d) \<and>
     coins_ok (NextCapacity d)"

definition details_cell :: "VCInstructionDetails \<Rightarrow> tcell" where
  "details_cell d = TCell (coins_bits (ExpectedFee d) @ coins_bits (ExpectedCapacity d) @
     coins_bits (NextFee d) @ coins_bits (NextCapacity d)) []"

definition ton_details :: "(tdata, tcell, VCInstructionDetails) codec" where
  "ton_details = \<lparr>
     LoadFromCell = (\<lambda>s. rbind (load_coins s) (\<lambda>(a, s). rbind (load_coins s) (\<lambda>(b, s).
        rbind (load_coins s) (\<lambda>(c, s). rbind (load_coins s) (\<lambda>(d, s).
          Inr (\<lparr>ExpectedFee = a, ExpectedCapacity = b, NextFee = c, NextCapacity = d\<rparr>, s)))))),
     ToCell = (\<lambda>d. if details_ok d then Inr (details_cell d) else Inl (Panic ''coins''))\<rparr>"

lemma ton_details_load: "details_ok d \<Longrightarrow> LoadState (ton_cells h) ton_details (details_cell d) = Inr d"
  using load_coins_field [of "NextCapacity d" "[]" "[]"] load_coins_field [of "NextFee d"]
    load_coins_field [of "ExpectedCapacity d"] load_coins_field [of "ExpectedFee d"]
  by (simp add: LoadState_def ton_details_def ton_cells_def details_ok_def details_cell_def)

text \<open>A 32-byte hash.\<close>

definition sized :: "('a \<Rightarrow> bytes) \<Rightarrow> 'a \<Rightarrow> bytes" where
  "sized h c = take 32 (h c @ zeros 32)"

definition ton_vc_env ::
  "(tdata, tdata, tcell) act_env \<Rightarrow> (bytes \<Rightarrow> bytes \<Rightarrow> bytes \<Rightarrow> bool) \<Rightarrow> (bytes \<Rightarrow> bytes \<Rightarrow> bytes) \<Rightarrow>
   (int \<Rightarrow> nat \<Rightarrow> int res) \<Rightarrow> tcell \<Rightarrow> (tdata, tdata, tcell) vc_env" where
  "ton_vc_env A ver sig mfn code = \<lparr>veA = A, veVerify = ver, veSign = sig, veDetails = ton_details,
     veMustFromNano = mfn, virtualChannelUniversalStaticCode = code\<rparr>"

interpretation ton_vc: vc_cells "ton_vc_env (ton_env (sized h) adr codes) ver sig mfn code"
    "\<lambda>b. b" "\<lambda>s. s" t_addr_bits for h adr codes ver sig mfn code
proof -
  have "length (CellHash (ton_cells (sized h)) c) = 32" for c by (simp add: ton_cells_def sized_def)
  with ton.cell_library_axioms [of "sized h"] show "vc_cells (ton_vc_env (ton_env (sized h) adr codes) ver sig mfn code)
    (\<lambda>b. b) (\<lambda>s. s) t_addr_bits"
    by (simp add: vc_cells_def vc_cells_axioms_def ton_vc_env_def)
qed

definition vstate_cell :: "VirtualChannelState \<Rightarrow> tcell" where
  "vstate_cell st = TCell (byte_bits (vsSignature st) @ payload_bits (vsAmount st)) []"

lemma vstate_to_cell: "vs_ok st \<Longrightarrow> VCState_ToCell (ton_cells h) st = Inr (vstate_cell st)"
  using length_payload_bits [of "vsAmount st"] length_coins_bits [of "vsAmount st"]
  by (auto simp: VCState_ToCell_def vs_ok_def serializePayload_def ton_cells_def t_append_def cat_def
      vstate_cell_def payload_bits_def close_cell_def Let_def simp del: rbind_Inr)

lemma vstate_load: "vs_ok st \<Longrightarrow> LoadState (ton_cells h) (vcs_codec (ton_cells h)) (vstate_cell st) = Inr st"
  by (rule codec_ok_load [OF ton.vcs_codec_ok]) (simp_all add: vcs_codec_def vstate_to_cell)

text \<open>Sample channel: capacity 50, fee 3; signatures are the 64 zero bytes.\<close>

definition ex_vc_env :: "(tdata, tdata, tcell) vc_env" where
  "ex_vc_env = ton_vc_env ex_env (\<lambda>k m s. s = zeros 64) (\<lambda>k m. zeros 64) (\<lambda>v n. Inr v) (ex_code 6)"

definition ex_vc :: ConditionalVirtualChannel where
  "ex_vc = \<lparr>vcKey = be_put 32 7, vcCapacity = 50, vcFee = 3, vcPrepay = 0, vcDeadline = 1000, vcAction = ex_act\<rparr>"

definition ex_vstate :: "int \<Rightarrow> VirtualChannelState" where
  "ex_vstate v = \<lparr>vsSignature = zeros 64, vsAmount = v\<rparr>"

lemma ex_vc_env_sel [simp]:
  "veA ex_vc_env = ex_env" "veDetails ex_vc_env = ton_details" "veMustFromNano ex_vc_env = (\<lambda>v n. Inr v)"
  by (simp_all add: ex_vc_env_def ton_vc_env_def)

lemma ex_vc_sel [simp]:
  "vcKey ex_vc = be_put 32 7" "vcCapacity ex_vc = 50" "vcFee ex_vc = 3" "vcPrepay ex_vc = 0" "vcAction ex_vc = ex_act"
  by (simp_all add: ex_vc_def)

lemma ex_vstate_load [simp]:
  "coins_ok v \<Longrightarrow> vc_load ex_vc_env (vstate_cell (ex_vstate v)) = Inr (ex_vstate v)"
  by (simp add: vc_load_def vstate_load vs_ok_def ex_vstate_def)

lemma ex_vstate_amount [simp]: "vsAmount (ex_vstate v) = v"
  by (simp add: ex_vstate_def)

lemma ex_vstate_verify [simp]: "coins_ok v \<Longrightarrow> VCState_Verify ex_vc_env k (ex_vstate v) = Inr True"
  using ton.payload_bytes_ok [of v ex_hash]
  by (simp add: VCState_Verify_def ex_vstate_def ex_vc_env_def ton_vc_env_def)

lemma sized_id: "(\<And>c. length (h c) = 32) \<Longrightarrow> sized h = h"
  by (rule ext) (simp add: sized_def)

lemma ex_act_ser: "\<exists>c. Action_Serialize ex_env ex_act = Inr c"
proof -
  have "Action_ok (\<lambda>_. Inr ex_coin) ex_act" by (simp add: ex_act_def addr_ok_def ex_addr_def)
  then show ?thesis unfolding ex_env_def using ton_act.action_roundtrip by blast
qed

lemma ex_vc_ser: "coins_ok p \<Longrightarrow> \<exists>c. VC_Serialize ex_vc_env (ex_vc\<lparr>vcPrepay := p\<rparr>) = Inr c"
proof -
  assume p: "coins_ok p"
  obtain a where a: "Action_Serialize ex_env ex_act = Inr a" using ex_act_ser by blast
  have s: "sized ex_hash = ex_hash" by (rule sized_id) (rule ex_hash_32)
  have "vc_ok (ex_vc\<lparr>vcPrepay := p\<rparr>)" using p by (simp add: vc_ok_def ex_vc_def coins_ok_def)
  from ton_vc.VC_codec [OF this, where actions = "\<lambda>_. Inr ex_act" and h = ex_hash and a = a and adr = "hex_encode"
      and codes = ex_code and ver = "\<lambda>k m s. s = zeros 64" and sig = "\<lambda>k m. zeros 64" and mfn = "\<lambda>v n. Inr v"
      and code = "ex_code 6"] a
  show ?thesis by (auto simp: s ton_vc_env_def ex_vc_env_def ex_env_def ton.code_ok_def)
qed

section \<open>Properties\<close>

text \<open>C3: A settlement of a validated virtual channel state always goes through and is covered by
  what was locked: the payer's available balance is never lower after the settlement than while the
  conditional was open, and the receiver gains exactly the amount still owed.\<close>

theorem vc_settlement_covered:
  assumes "codec_ok (veL E) (aeSend (veA E)) send_ok"
    and "VC_ValidateState E c None cs = Inr ()" "0 \<le> vcPrepay c" "vc_load E cs = Inr cst"
    and "LoadState (veL E) (aeSend (veA E)) st = Inr s" "send_ok s" "sasAmount s + vc_locked c < 2 ^ 120"
    and "a = vcAction c" "Action_balance_id a = BalanceID (Action_coin a)"
    and "\<And>b. bals (BalanceID (Action_coin a)) = Some b \<Longrightarrow> 0 \<le> ConditionalLocked b"
  shows "\<exists>st' lck' b1 b2 b3. VC_Execute E c st cs lck = Inr (st', lck') \<and>
    Action_EmulateBalance (veA E) a st bals fromUs = Inr b1 \<and> VC_EmulateBalance c b1 fromUs = Inr b2 \<and>
    Action_EmulateBalance (veA E) a st' bals fromUs = Inr b3 \<and>
    (\<forall>k. Available (b2 k) \<le> Available (b3 k)) \<and>
    (\<not> fromUs \<longrightarrow> Available (b3 (BalanceID (Action_coin a))) =
       Available (b1 (BalanceID (Action_coin a))) + vc_need c (vsAmount cst))"
proof -
  obtain b1 where b1: "Action_EmulateBalance (veA E) a st bals fromUs = Inr b1"
    using assms(5) by (simp add: act.emulate_eq)
  with assms(5,9) obtain e where "b1 (BalanceID (Action_coin a)) = Some e" by (auto simp: act.emulate_eq)
  then obtain b2 where b2: "VC_EmulateBalance c b1 fromUs = Inr b2"
    using VC_EmulateBalance_eq [of b1 c e fromUs] assms(8) by auto
  have "vc_accepted E c cs" using assms(2,3) by (simp add: vc_accepted_def)
  from vc_lock.settlement_covered [OF assms(1) this TrueI assms(5-10) b1 b2] b1 b2 assms(4) show ?thesis
    by (auto simp: vc_pay_def)
qed

theorem vc_settlement_covered_witness:
  "\<exists>st' lck' b1 b2 b3. VC_Execute ex_vc_env ex_vc (send_cell (ex_send 10)) (vstate_cell (ex_vstate 20)) None = Inr (st', lck') \<and>
    Action_EmulateBalance ex_env ex_act (send_cell (ex_send 10)) (ex_bals 100) True = Inr b1 \<and>
    VC_EmulateBalance ex_vc b1 True = Inr b2 \<and> Action_EmulateBalance ex_env ex_act st' (ex_bals 100) True = Inr b3 \<and>
    Available (b2 GetTONBalanceID) \<le> Available (b3 GetTONBalanceID)"
proof -
  have v: "VC_ValidateState ex_vc_env ex_vc None (vstate_cell (ex_vstate 20)) = Inr ()"
    by (simp add: VC_ValidateState_Inr coins_ok_def)
  have l: "LoadState (veL ex_vc_env) (aeSend (veA ex_vc_env)) (send_cell (ex_send 10)) = Inr (ex_send 10)"
    by (simp add: ton_send_load)
  show ?thesis
    using vc_settlement_covered [OF _ v _ _ l, where a = ex_act and bals = "ex_bals 100" and
        fromUs = True and lck = None]
    by (force simp: ton_send_ok vc_locked_def coins_ok_def)
qed



text \<open>C26: A node that accepts to forward a virtual channel never loses on it: the next channel has
  the same key and no more capacity, and whatever amount the key holder releases, the incoming
  settlement exceeds the outgoing one by at least the configured minimal fee and the wanted share.\<close>

theorem vc_tunnel_profit:
  assumes "VC_CheckInstruction E c (Some dc) False bals fs = Inr ()" "vcPrepay c = 0"
    and "VC_PrepareNext E c dc act dl = Inr n" "0 \<le> vcFee n" "0 \<le> amount"
    and "bals (vc_coin_id c) = Some b" "cfg = VirtualTunnelConfig (BalCoinConfig b)"
  shows "vcKey n = vcKey c \<and> vcCapacity n \<le> vcCapacity c \<and> vcCapacity n + vcFee n \<le> ProxyMaxCapacity cfg \<and>
    AllowTunneling cfg \<and> 0 \<le> Available (Some b) \<and>
    (\<exists>share. float_share (vcCapacity n + vcFee n) (f64_div100 (ProxyFeePercent cfg)) = Inr share \<and>
      (\<exists>want. veMustFromNano E share (Decimals (BalCoinConfig b)) = Inr want \<and>
        max want (ProxyMinFee cfg) \<le> vc_need c amount - vc_need n amount))"
proof -
  from assms(1,6) obtain d where d: "LoadState (veL E) (veDetails E) dc = Inr d" "vc_tunnel_check E c d b = Inr ()"
    by (auto simp: VC_CheckInstruction_def GetAffectedCoins_def ResolveActionBalance_single split: if_splits)
  have n: "n = \<lparr>vcKey = vcKey c, vcCapacity = NextCapacity d, vcFee = NextFee d, vcPrepay = 0,
      vcDeadline = unix_of dl, vcAction = act\<rparr>"
    using assms(3) LoadState_tlb_Parse [OF d(1)] by (simp add: VC_PrepareNext_def)
  from d(2) obtain share want where t: "0 \<le> Available (Some b)" "NextCapacity d \<le> vcCapacity c"
    "AllowTunneling cfg" "NextCapacity d + NextFee d \<le> ProxyMaxCapacity cfg"
    "float_share (NextCapacity d + NextFee d) (f64_div100 (ProxyFeePercent cfg)) = Inr share"
    "veMustFromNano E share (Decimals (BalCoinConfig b)) = Inr want"
    "max want (ProxyMinFee cfg) \<le> vcFee c - NextFee d"
    unfolding assms(7) by (auto simp: vc_tunnel_check_def Let_def not_less max_def split: if_splits)
  have "vc_need c amount - vc_need n amount = vcFee c - NextFee d \<or> vcFee c - NextFee d < vc_need c amount - vc_need n amount"
    using assms(2,4,5) n by (auto simp: vc_need_def Let_def)
  with t n show ?thesis by (intro conjI exI [of _ share] exI [of _ want]) auto
qed

definition ex_details :: VCInstructionDetails where
  "ex_details = \<lparr>ExpectedFee = 3, ExpectedCapacity = 50, NextFee = 1, NextCapacity = 50\<rparr>"

lemma ex_details_sel [simp]:
  "ExpectedFee ex_details = 3" "ExpectedCapacity ex_details = 50" "NextFee ex_details = 1" "NextCapacity ex_details = 50"
  by (simp_all add: ex_details_def)

theorem vc_tunnel_profit_witness:
  "VC_CheckInstruction ex_vc_env ex_vc (Some (details_cell ex_details)) False (ex_bals 100) None = Inr () \<and>
   (\<exists>n. VC_PrepareNext ex_vc_env ex_vc (details_cell ex_details) ex_act 0 = Inr n \<and> vcCapacity n \<le> vcCapacity ex_vc \<and>
     2 \<le> vc_need ex_vc 20 - vc_need n 20)"
proof -
  have d: "LoadState (ton_cells ex_hash) ton_details (details_cell ex_details) = Inr ex_details"
    by (rule ton_details_load) (simp add: details_ok_def coins_ok_def)
  have c: "VC_CheckInstruction ex_vc_env ex_vc (Some (details_cell ex_details)) False (ex_bals 100) None = Inr ()"
    by (simp add: VC_CheckInstruction_def d GetAffectedCoins_def ResolveActionBalance_single
        vc_tunnel_check_def ex_cfg_def Available_def float_share_def f64_div100_def f64_round_def trunc_def
        rnd_prec_def Let_def del: rbind_Inr rwrap_Inr)
  let ?n = "\<lparr>vcKey = vcKey ex_vc, vcCapacity = 50, vcFee = 1, vcPrepay = 0, vcDeadline = 0, vcAction = ex_act\<rparr>"
  have n: "VC_PrepareNext ex_vc_env ex_vc (details_cell ex_details) ex_act 0 = Inr ?n"
    by (simp add: VC_PrepareNext_def LoadState_tlb_Parse [OF d] unix_of_def del: rbind_Inr)
  show ?thesis
    using vc_tunnel_profit [OF c _ n, of 20 "ex_bal 100" ex_cfg] c n by (auto simp: ex_cfg_def)
qed

text \<open>
  What a transfer of a signed state relies on: ed25519 accepts its own signatures, both sides agree
  on the key, the stream cipher undoes itself, and the bag of cells of a state reads back.
\<close>

definition transit_ok :: "('b, 's, 'c) vc_env \<Rightarrow> 'c vc_cipher \<Rightarrow> bytes \<Rightarrow> bytes \<Rightarrow> bool" where
  "transit_ok E K sk rk \<longleftrightarrow> length (PublicKey K sk) = 32 \<and>
     (\<forall>m. veVerify E (PublicKey K sk) m (veSign E sk m) \<and> length (veSign E sk m) = 64) \<and>
     SharedKey K sk (PublicKey K rk) = SharedKey K rk (PublicKey K sk) \<and>
     (case SharedKey K rk (PublicKey K sk) of Inl _ \<Rightarrow> False | Inr k \<Rightarrow>
       (case BuildSharedCipher K k (PublicKey K sk) of Inl _ \<Rightarrow> False | Inr f \<Rightarrow>
         \<forall>d. f (f d) = d \<and> length (f d) = length d)) \<and>
     (\<forall>st c. VCState_ToCell (veL E) st = Inr c \<longrightarrow> FromBOC K (ToBOC K c) = Inr c \<and>
       64 < length (ToBOC K c) \<and> length (ToBOC K c) \<le> 128)"

text \<open>C27: A virtual channel state signed and encrypted for a receiver is read back by that receiver
  unchanged, together with the sender's key.\<close>

theorem vc_state_transit:
  assumes "cell_library (veL E) bview sview addr_bits" "coins_ok amount" "transit_ok E K sk rk"
  shows "\<exists>st data. SignVirtualChannelState E K amount sk (PublicKey K rk) = Inr (st, data) \<and>
    vsAmount st = amount \<and> ParseVirtualChannelState E K data rk = Inr (PublicKey K sk, st)"
proof -
  obtain k f where t: "length (PublicKey K sk) = 32" "SharedKey K sk (PublicKey K rk) = Inr k"
    "SharedKey K rk (PublicKey K sk) = Inr k" "BuildSharedCipher K k (PublicKey K sk) = Inr f"
    "\<And>d. f (f d) = d" "\<And>d. length (f d) = length d"
    using assms(3) by (auto simp: transit_ok_def split: sum.splits)
  obtain d where d: "payload_bytes (veL E) amount = Inr d"
    using cell_library.payload_bytes_ok [OF assms(1,2)] by blast
  define st where "st = \<lparr>vsSignature = veSign E sk d, vsAmount = amount\<rparr>"
  have sig: "length (veSign E sk d) = 64" "veVerify E (PublicKey K sk) d (veSign E sk d)"
    using assms(3) by (auto simp: transit_ok_def)
  then have "vs_ok st" using assms(2) by (simp add: vs_ok_def st_def)
  from codec_okD [OF cell_library.vcs_codec_ok [OF assms(1)] this] obtain c
    where c: "VCState_ToCell (veL E) st = Inr c" "LoadState (veL E) (vcs_codec (veL E)) c = Inr st"
    by (auto simp: vcs_codec_def)
  from c(1) assms(3) have b: "FromBOC K (ToBOC K c) = Inr c" "64 < length (ToBOC K c)" "length (ToBOC K c) \<le> 128"
    by (auto simp: transit_ok_def)
  have v: "VCState_Verify E (PublicKey K sk) st = Inr True"
    using d sig(2) by (simp add: VCState_Verify_def st_def)
  let ?data = "PublicKey K sk @ f (ToBOC K c)"
  have "SignVirtualChannelState E K amount sk (PublicKey K rk) = Inr (st, ?data)"
    using d c(1) t by (simp add: SignVirtualChannelState_def VCState_Sign_def st_def)
  moreover have "ParseVirtualChannelState E K ?data rk = Inr (PublicKey K sk, st)"
    using t b v LoadState_tlb_Parse [OF c(2)]
    by (simp add: ParseVirtualChannelState_def)
  ultimately show ?thesis by (auto simp: st_def)
qed

text \<open>A sample cipher: the bag of a state cell holds its bits as bytes.\<close>

fun ex_boc :: "tcell \<Rightarrow> bytes" where
  "ex_boc (TCell bs rs) = bits_bytes (length bs div 8) bs"

definition ex_cipher :: "tcell vc_cipher" where
  "ex_cipher = \<lparr>SharedKey = (\<lambda>a b. Inr []), BuildSharedCipher = (\<lambda>k p. Inr rev), PublicKey = (\<lambda>k. zeros 32),
     ToBOC = ex_boc, FromBOC = (\<lambda>d. Inr (TCell (byte_bits d) []))\<rparr>"

lemma bits_nat_snoc: "bits_nat (bs @ [b]) = 2 * bits_nat bs + of_bool b"
  by (simp add: bits_nat_def)

lemma nat_bits_bits_nat: "nat_bits (length bs) (bits_nat bs) = bs"
  by (induction bs rule: rev_induct) (auto simp: bits_nat_snoc bits_nat_def)

lemma bits_nat_less: "bits_nat bs < 2 ^ length bs"
proof (induction bs rule: rev_induct)
  case (snoc b bs)
  then show ?case by (cases b) (simp_all add: bits_nat_snoc)
qed (simp add: bits_nat_def)

lemma byte_bits_bits_bytes: "length bs = 8 * n \<Longrightarrow> byte_bits (bits_bytes n bs) = bs"
proof (induction n arbitrary: bs)
  case (Suc n)
  then have l: "length (take 8 bs) = 8" "length (drop 8 bs) = 8 * n" by simp_all
  have "of_char (char_of (bits_nat (take 8 bs)) :: char) = bits_nat (take 8 bs)"
    using bits_nat_less [of "take 8 bs"] l(1) by (simp add: of_char_of)
  then have "byte_bits (bits_bytes (Suc n) bs) = nat_bits 8 (bits_nat (take 8 bs)) @ byte_bits (bits_bytes n (drop 8 bs))"
    by (simp add: byte_bits_def del: nat_bits.simps)
  also have "\<dots> = take 8 bs @ drop 8 bs"
    using nat_bits_bits_nat [of "take 8 bs"] l Suc.IH [OF l(2)] by (simp del: nat_bits.simps)
  finally show ?case by simp
qed (simp add: byte_bits_def)

lemma length_bits_bytes [simp]: "length (bits_bytes n bs) = n"
  by (induction n arbitrary: bs) simp_all

lemma vstate_cell_only: "VCState_ToCell (ton_cells h) st = Inr c \<Longrightarrow> vs_ok st \<and> c = vstate_cell st"
proof -
  assume a: "VCState_ToCell (ton_cells h) st = Inr c"
  then have "vs_ok st"
    by (auto simp: VCState_ToCell_def vs_ok_def serializePayload_def ton_cells_def split: if_splits)
  with a vstate_to_cell [of st h] show ?thesis by simp
qed

lemma ex_transit: "transit_ok ex_vc_env ex_cipher sk rk"
proof -
  have "FromBOC ex_cipher (ToBOC ex_cipher c) = Inr c \<and> 64 < length (ToBOC ex_cipher c) \<and>
      length (ToBOC ex_cipher c) \<le> 128" if s: "VCState_ToCell (veL ex_vc_env) st = Inr c" for st c
  proof -
    from s vstate_cell_only have ok: "vs_ok st" "c = vstate_cell st" by auto
    obtain m where m: "length (payload_bits (vsAmount st)) = 8 * m" using payload_bits_whole by blast
    let ?bs = "byte_bits (vsSignature st) @ payload_bits (vsAmount st)"
    have l: "length ?bs = 8 * (64 + m)" using m ok(1) by (simp add: vs_ok_def)
    have "0 < length (payload_bits (vsAmount st))" by (simp add: payload_bits_def coins_bits_def Let_def)
    with m have "1 \<le> m" by simp
    moreover have "m \<le> 16" using length_payload_bits [of "vsAmount st"] ok(1) m by (simp add: vs_ok_def)
    moreover have "length ?bs div 8 = 64 + m" using l by simp
    ultimately show ?thesis using byte_bits_bits_bytes [OF l] ok(2)
      by (simp add: ex_cipher_def vstate_cell_def)
  qed
  then show ?thesis by (auto simp: transit_ok_def ex_cipher_def ex_vc_env_def ton_vc_env_def)
qed

theorem vc_state_transit_witness:
  "\<exists>st data. SignVirtualChannelState ex_vc_env ex_cipher 42 ''a'' (PublicKey ex_cipher ''b'') = Inr (st, data) \<and>
    vsAmount st = 42 \<and> ParseVirtualChannelState ex_vc_env ex_cipher data ''b'' = Inr (PublicKey ex_cipher ''a'', st)"
  using vc_state_transit [of ex_vc_env "\<lambda>b. b" "\<lambda>s. s" t_addr_bits 42 ex_cipher "''a''" "''b''"]
    ton.cell_library_axioms ex_transit
  by (simp add: coins_ok_def)

end
