(* ===== verification/Oracle.thy ===== *)
theory Oracle
  imports CellInstance
begin

text \<open>
  The price oracle of derivative conditionals (\<^verbatim>\<open>pkg/payments/conditionals/oracle/price.go\<close>): a
  ring of 120 one-second slots that a provider fills and the conditionals read. A UNIX second is
  an \<open>int\<close> in the range of \<open>int64\<close>, and where a difference may leave that range it wraps; the ring arrays are lists of length 120. The abstraction \<open>ring_abs\<close> forgets the ring:
  it is the map from a second to its price.
\<close>

named_theorems ring_simps \<open>slot laws of the price ring\<close>

section \<open>Proof cells\<close>

record 'c PriceInner =
  piSignature :: bytes
  piSignedBody :: "'c option"

record PriceProof =
  ppAt :: uint32
  ppPrice :: int

text \<open>The cell library, the codecs of the proof structures, and ed25519.\<close>

record ('b, 's, 'c) oracle_env =
  oeL :: "('b, 's, 'c) cell_lib"
  oeInner :: "('s, 'c, 'c PriceInner) codec"
  oeProof :: "('s, 'c, PriceProof) codec"
  oeVerify :: "bytes \<Rightarrow> bytes \<Rightarrow> bytes \<Rightarrow> bool"
  oeSignCell :: "bytes \<Rightarrow> 'c \<Rightarrow> bytes"
  oeFromNano :: "int \<Rightarrow> nat \<Rightarrow> int res"

definition oracle_parse :: "('b, 's, 'c) cell_lib \<Rightarrow> ('s, 'c, 'v) codec \<Rightarrow> 'c \<Rightarrow> 'v res" where
  "oracle_parse L C c = rbind (LoadFromCell C (BeginParse L c)) (\<lambda>(v, _). Inr v)"

definition ParsePriceProof :: "('b, 's, 'c) oracle_env \<Rightarrow> 'c option \<Rightarrow> (int \<times> int) res" where
  "ParsePriceProof E pc = (case pc of
     None \<Rightarrow> Inl (Errorf ''proof cell is nil'')
   | Some c \<Rightarrow>
     rbind (rwrap ''failed to parse PriceInner'' (oracle_parse (oeL E) (oeInner E) c)) (\<lambda>inner.
     case piSignedBody inner of
       None \<Rightarrow> Inl (Errorf ''PriceInner has nil signed body'')
     | Some body \<Rightarrow>
       rbind (rwrap ''failed to parse PriceProof'' (oracle_parse (oeL E) (oeProof E) body)) (\<lambda>pp.
       Inr (uint (ppAt pp), ppPrice pp))))"

definition VerifyProofCell :: "('b, 's, 'c) oracle_env \<Rightarrow> 'c option \<Rightarrow> bytes \<Rightarrow> bool" where
  "VerifyProofCell E pc pubKey = (case pc of
     None \<Rightarrow> False
   | Some c \<Rightarrow>
     if length pubKey \<noteq> 32 then False
     else (case oracle_parse (oeL E) (oeInner E) c of
       Inl _ \<Rightarrow> False
     | Inr inner \<Rightarrow> (case piSignedBody inner of
         None \<Rightarrow> False
       | Some body \<Rightarrow>
         if length (piSignature inner) \<noteq> 64 then False
         else oeVerify E pubKey (CellHash (oeL E) body) (piSignature inner))))"

definition BuildPriceInnerCell :: "('b, 's, 'c) oracle_env \<Rightarrow> int \<Rightarrow> int \<Rightarrow> bytes \<Rightarrow> 'c res" where
  "BuildPriceInnerCell E sec price signer =
     (if sec \<le> 0 \<or> 2 ^ 32 - 1 < sec then Inl (Errorf ''invalid timestamp'')
      else rbind (rwrap ''failed to convert price'' (oeFromNano E price 9)) (\<lambda>coins.
       rbind (rwrap ''failed to build PriceProof cell''
         (ToCell (oeProof E) \<lparr>ppAt = of_int sec, ppPrice = coins\<rparr>)) (\<lambda>proofCell.
       ToCell (oeInner E) \<lparr>piSignature = oeSignCell E signer proofCell, piSignedBody = Some proofCell\<rparr>)))"

section \<open>The ring\<close>

record 'c Resolver =
  rProofKey :: bytes
  rPrices :: "int option list"
  rTimestamps :: "int list"
  rLatest :: int
  rProofCells :: "'c option list"
  rProofTimestamps :: "int list"

record 'c RangePrice =
  rpAt :: int
  rpPrice :: "int option"
  rpProof :: "'c option"

text \<open>
  \<open>int(at % 120)\<close> as an index: Go's remainder keeps the sign, and a negative index panics.
\<close>

definition go_rem :: "int \<Rightarrow> int \<Rightarrow> int" where
  "go_rem a b = sgn a * (\<bar>a\<bar> mod \<bar>b\<bar>)"

definition ring_idx :: "int \<Rightarrow> nat res" where
  "ring_idx sec = (let i = go_rem sec 120 in
     if i < 0 then Inl (Panic ''index out of range'') else Inr (nat i))"

definition emptyResolver :: "bytes \<Rightarrow> 'c Resolver" where
  "emptyResolver key = \<lparr>rProofKey = key, rPrices = replicate 120 None, rTimestamps = replicate 120 0,
     rLatest = 0, rProofCells = replicate 120 None, rProofTimestamps = replicate 120 0\<rparr>"

definition put_price :: "int \<Rightarrow> int \<Rightarrow> 'c Resolver \<Rightarrow> 'c Resolver res" where
  "put_price sec price r = rbind (ring_idx sec) (\<lambda>idx.
     Inr (r\<lparr>rPrices := (rPrices r)[idx := Some price], rTimestamps := (rTimestamps r)[idx := sec],
       rLatest := (if rLatest r < sec then sec else rLatest r)\<rparr>))"

definition put_proof :: "('b, 's, 'c) oracle_env \<Rightarrow> int \<Rightarrow> 'c option \<Rightarrow> 'c Resolver \<Rightarrow> 'c Resolver res" where
  "put_proof E sec proof r = rbind (ring_idx sec) (\<lambda>idx.
     case proof of
       None \<Rightarrow> Inr r
     | Some _ \<Rightarrow>
       if rProofKey r = [] \<or> VerifyProofCell E proof (rProofKey r)
       then Inr (r\<lparr>rProofCells := (rProofCells r)[idx := proof],
                   rProofTimestamps := (rProofTimestamps r)[idx := sec]\<rparr>)
       else Inr r)"

definition storePrices ::
  "('b, 's, 'c) oracle_env \<Rightarrow> 'c RangePrice list \<Rightarrow> 'c Resolver \<Rightarrow> 'c Resolver res" where
  "storePrices E prices = rfold (\<lambda>p r. case rpPrice p of
     None \<Rightarrow> Inr r
   | Some v \<Rightarrow> rbind (put_price (rpAt p) v r) (put_proof E (rpAt p) (rpProof p))) prices"

definition GetPriceAt :: "'c Resolver option \<Rightarrow> int \<Rightarrow> int res" where
  "GetPriceAt ro sec = (case ro of
     None \<Rightarrow> Inl (Panic ''nil pointer dereference'')
   | Some r \<Rightarrow>
     if rLatest r = 0 then Inl ErrNoData
     else if rLatest r < sec then Inl ErrTooNew
     else if 120 \<le> i64 (rLatest r - sec) then Inl ErrTooOld
     else rbind (ring_idx sec) (\<lambda>idx.
       case rPrices r ! idx of
         Some price \<Rightarrow> if rTimestamps r ! idx \<noteq> sec then Inl ErrUnavailable else Inr price
       | None \<Rightarrow> Inl ErrUnavailable))"

text \<open>The slot of a second, when it holds that second.\<close>

definition ring_slot :: "'c Resolver \<Rightarrow> int \<Rightarrow> int option res" where
  "ring_slot r sec = rbind (ring_idx sec) (\<lambda>idx.
     Inr (if rTimestamps r ! idx = sec then rPrices r ! idx else None))"

fun last_price_loop :: "'c Resolver \<Rightarrow> int \<Rightarrow> nat list \<Rightarrow> (int \<times> int) res" where
  "last_price_loop r latest [] = Inl ErrUnavailable"
| "last_price_loop r latest (i # is) = rbind (ring_slot r (latest - int i)) (\<lambda>po.
     case po of Some p \<Rightarrow> Inr (latest - int i, p) | None \<Rightarrow> last_price_loop r latest is)"

definition GetLastPrice :: "'c Resolver option \<Rightarrow> (int \<times> int) res" where
  "GetLastPrice ro = (case ro of
     None \<Rightarrow> Inl ErrNoData
   | Some r \<Rightarrow>
     if rLatest r = 0 then Inl ErrNoData
     else rbind (ring_slot r (rLatest r)) (\<lambda>po.
       case po of
         Some price \<Rightarrow> Inr (rLatest r, price)
       | None \<Rightarrow> last_price_loop r (rLatest r) [1..<120]))"

text \<open>The window the two \<open>Since\<close> queries scan: \<open>None\<close> when there is nothing to return.\<close>

definition since_window :: "'c Resolver option \<Rightarrow> int \<Rightarrow> (int \<times> int) option" where
  "since_window ro since = (case ro of
     None \<Rightarrow> None
   | Some r \<Rightarrow>
     if rLatest r = 0 then None
     else (let latest = rLatest r;
               from = i64 (since + 1);
               from = (if 120 \<le> i64 (latest - from) then latest - 119 else from);
               from = (if from < 0 then 0 else from)
           in if latest < from then None else Some (from, latest)))"

definition GetPricesSince :: "'c Resolver option \<Rightarrow> int \<Rightarrow> (int \<times> int) list res" where
  "GetPricesSince ro since = (case (ro, since_window ro since) of
     (Some r, Some (from, latest)) \<Rightarrow>
       rfold (\<lambda>sec acc. rbind (ring_slot r sec) (\<lambda>po. Inr (case po of None \<Rightarrow> acc | Some p \<Rightarrow> acc @ [(sec, p)])))
         [from..latest] []
   | _ \<Rightarrow> Inr [])"

definition proof_slot :: "'c Resolver \<Rightarrow> int \<Rightarrow> 'c option res" where
  "proof_slot r sec = rbind (ring_idx sec) (\<lambda>idx.
     Inr (if rProofTimestamps r ! idx = sec then rProofCells r ! idx else None))"

definition GetSignedPricesSince :: "'c Resolver option \<Rightarrow> int \<Rightarrow> 'c list res" where
  "GetSignedPricesSince ro since = (case (ro, since_window ro since) of
     (Some r, Some (from, latest)) \<Rightarrow>
       rfold (\<lambda>sec acc. rbind (proof_slot r sec) (\<lambda>po. Inr (case po of None \<Rightarrow> acc | Some p \<Rightarrow> acc @ [p])))
         [from..latest] []
   | _ \<Rightarrow> Inr [])"

definition GetProofPublicKey :: "'c Resolver option \<Rightarrow> bytes option" where
  "GetProofPublicKey ro = (case ro of None \<Rightarrow> None | Some r \<Rightarrow>
     if rProofKey r = [] then None else Some (rProofKey r))"

section \<open>Providers\<close>

text \<open>
  A provider answers requests; its optional interfaces are the optional fields. Every call reaches
  the network, so its answer is part of the provider given here.
\<close>

record 'c PriceProvider =
  Fetch :: "int \<Rightarrow> (int \<times> int option) res"
  FetchSince :: "(int \<Rightarrow> 'c RangePrice list res) option"
  FetchRange :: "(int \<Rightarrow> int \<Rightarrow> 'c RangePrice list res) option"
  BuildProofCell :: "(int \<Rightarrow> int \<Rightarrow> 'c res) option"
  ProofPublicKey :: "bytes option"
  HasSetPrice :: bool

definition store_answer ::
  "('b, 's, 'c) oracle_env \<Rightarrow> 'c RangePrice list res \<Rightarrow> 'c Resolver \<Rightarrow> 'c Resolver res" where
  "store_answer E ans r = (case ans of
     Inl (Panic m) \<Rightarrow> Inl (Panic m)
   | Inl _ \<Rightarrow> Inr r
   | Inr prices \<Rightarrow> if prices = [] then Inr r else storePrices E prices r)"

definition preloadLastSeconds ::
  "('b, 's, 'c) oracle_env \<Rightarrow> 'c PriceProvider \<Rightarrow> int \<Rightarrow> int \<Rightarrow> 'c Resolver \<Rightarrow> 'c Resolver res" where
  "preloadLastSeconds E P now n r =
     (if n \<le> 0 then Inr r
      else (case FetchSince P of
        Some sp \<Rightarrow> store_answer E (sp 0) r
      | None \<Rightarrow> (case FetchRange P of
          Some rp \<Rightarrow> (let start = now - n + 1; start = (if start < 0 then 0 else start)
                      in store_answer E (rp start now) r)
        | None \<Rightarrow> Inr r)))"

definition NewResolver ::
  "('b, 's, 'c) oracle_env \<Rightarrow> 'c PriceProvider \<Rightarrow> int \<Rightarrow> 'c Resolver res" where
  "NewResolver E P now = preloadLastSeconds E P now 120
     (emptyResolver (case ProofPublicKey P of None \<Rightarrow> [] | Some k \<Rightarrow> k))"

definition fetchOnce ::
  "('b, 's, 'c) oracle_env \<Rightarrow> 'c PriceProvider \<Rightarrow> int \<Rightarrow> 'c Resolver \<Rightarrow> 'c Resolver res" where
  "fetchOnce E P now r = (case FetchSince P of
     Some sp \<Rightarrow> store_answer E (sp (rLatest r)) r
   | None \<Rightarrow> (case Fetch P now of
       Inl (Panic m) \<Rightarrow> Inl (Panic m)
     | Inl _ \<Rightarrow> Inr r
     | Inr (ts, po) \<Rightarrow> (case po of
         None \<Rightarrow> Inr r
       | Some price \<Rightarrow>
         (let ts = ts - go_rem ts 1;
              proof = (case BuildProofCell P of
                 None \<Rightarrow> None
               | Some bp \<Rightarrow> (case bp ts price of Inl _ \<Rightarrow> None | Inr c \<Rightarrow> Some c))
          in storePrices E [\<lparr>rpAt = ts, rpPrice = Some price, rpProof = proof\<rparr>] r))))"

definition SetPrice :: "'c PriceProvider \<Rightarrow> int \<Rightarrow> int option \<Rightarrow> 'c Resolver \<Rightarrow> 'c Resolver res" where
  "SetPrice P now price r = (case price of
     None \<Rightarrow> Inl (Errorf ''price is nil'')
   | Some p \<Rightarrow> if \<not> HasSetPrice P then Inl (Errorf ''price update is not supported by this resolver provider'')
      else put_price now p r)"

section \<open>The ring implements a map of seconds\<close>

definition slot :: "int \<Rightarrow> nat" where
  "slot t = nat (t mod 120)"

definition ring_abs :: "'c Resolver \<Rightarrow> int \<Rightarrow> int option" where
  "ring_abs r t = (if rTimestamps r ! slot t = t then rPrices r ! slot t else None)"

definition ring_ok :: "'c Resolver \<Rightarrow> bool" where
  "ring_ok r \<longleftrightarrow> length (rPrices r) = 120 \<and> length (rTimestamps r) = 120 \<and>
     length (rProofCells r) = 120 \<and> length (rProofTimestamps r) = 120 \<and> 0 \<le> rLatest r"

lemma slot_less [simp]: "slot t < 120"
  by (simp add: slot_def nat_less_iff)

lemma ring_idx_nonneg [ring_simps]: "0 \<le> t \<Longrightarrow> ring_idx t = Inr (slot t)"
  by (cases "t = 0") (simp_all add: ring_idx_def go_rem_def slot_def Let_def)

lemma slot_near: "t < u \<Longrightarrow> u < t + 120 \<Longrightarrow> slot t \<noteq> slot u"
proof
  assume a: "t < u" "u < t + 120" and "slot t = slot u"
  then have "t mod 120 = u mod 120" by (simp add: slot_def eq_nat_nat_iff)
  then have "120 dvd u - t" by (simp add: mod_eq_dvd_iff dvd_diff_commute)
  with a show False by (auto dest: zdvd_imp_le)
qed

lemma ring_ok_empty: "ring_ok (emptyResolver k)"
  by (simp add: ring_ok_def emptyResolver_def)

lemma ring_slot_abs [ring_simps]: "0 \<le> t \<Longrightarrow> ring_slot r t = Inr (ring_abs r t)"
  by (simp add: ring_slot_def ring_abs_def ring_idx_nonneg)

lemma put_price_step:
  assumes "ring_ok r" "0 \<le> t"
  obtains r' where "put_price t v r = Inr r'" "ring_ok r'" "rLatest r' = max (rLatest r) t"
    "ring_abs r' = (\<lambda>u. if slot u = slot t then (if u = t then Some v else None) else ring_abs r u)"
    "rProofKey r' = rProofKey r" "rProofCells r' = rProofCells r"
proof
  show "put_price t v r = Inr (r\<lparr>rPrices := (rPrices r)[slot t := Some v],
      rTimestamps := (rTimestamps r)[slot t := t],
      rLatest := (if rLatest r < t then t else rLatest r)\<rparr>)"
    using assms(2) by (simp add: put_price_def ring_idx_nonneg)
qed (use assms in \<open>auto simp: ring_ok_def ring_abs_def fun_eq_iff\<close>)

lemma put_proof_step:
  assumes "ring_ok r" "0 \<le> t"
  obtains r' where "put_proof E t pr r = Inr r'" "ring_ok r'" "rLatest r' = rLatest r"
    "ring_abs r' = ring_abs r" "rProofKey r' = rProofKey r"
    "\<And>c. Some c \<in> set (rProofCells r') \<Longrightarrow> Some c \<in> set (rProofCells r) \<or>
       rProofKey r = [] \<or> VerifyProofCell E (Some c) (rProofKey r)"
proof -
  let ?up = "r\<lparr>rProofCells := (rProofCells r)[slot t := pr], rProofTimestamps := (rProofTimestamps r)[slot t := t]\<rparr>"
  let ?new = "if pr \<noteq> None \<and> (rProofKey r = [] \<or> VerifyProofCell E pr (rProofKey r)) then ?up else r"
  have 1: "put_proof E t pr r = Inr ?new"
    using assms(2) by (auto simp: put_proof_def ring_idx_nonneg simp del: rbind_Inr split: option.splits)
  have 2: "ring_ok ?new" "rLatest ?new = rLatest r" "ring_abs ?new = ring_abs r" "rProofKey ?new = rProofKey r"
    using assms(1) by (auto simp: ring_ok_def ring_abs_def fun_eq_iff)
  have "Some c \<in> set (rProofCells r) \<or> rProofKey r = [] \<or> VerifyProofCell E (Some c) (rProofKey r)"
    if "Some c \<in> set (rProofCells ?new)" for c
    using that set_update_subset_insert [of "rProofCells r" "slot t" pr] by (auto split: if_splits)
  with 1 2 show thesis by (rule that)
qed

text \<open>A stored sample: priced and not before the epoch.\<close>

definition sample_ok :: "'c RangePrice \<Rightarrow> bool" where
  "sample_ok p \<longleftrightarrow> 0 \<le> rpAt p \<and> rpPrice p \<noteq> None"

lemma store_step:
  assumes "ring_ok r" "0 \<le> rpAt p" "rpPrice p = Some v"
  obtains r' where "storePrices E (p # ps) r = storePrices E ps r'" "ring_ok r'"
    "rLatest r' = max (rLatest r) (rpAt p)"
    "ring_abs r' = (\<lambda>u. if slot u = slot (rpAt p) then (if u = rpAt p then Some v else None) else ring_abs r u)"
proof -
  obtain r1 where r1: "put_price (rpAt p) v r = Inr r1" "ring_ok r1" "rLatest r1 = max (rLatest r) (rpAt p)"
    "ring_abs r1 = (\<lambda>u. if slot u = slot (rpAt p) then (if u = rpAt p then Some v else None) else ring_abs r u)"
    by (rule put_price_step [OF assms(1,2)])
  obtain r2 where r2: "put_proof E (rpAt p) (rpProof p) r1 = Inr r2" "ring_ok r2" "rLatest r2 = rLatest r1"
    "ring_abs r2 = ring_abs r1"
    by (rule put_proof_step [OF r1(2) assms(2)])
  have "storePrices E (p # ps) r = storePrices E ps r2"
    using assms(3) r1(1) r2(1) by (simp add: storePrices_def)
  with r1 r2 show thesis by (intro that [of r2]) simp_all
qed

lemma store_total:
  "ring_ok r \<Longrightarrow> (\<And>p. p \<in> set ps \<Longrightarrow> sample_ok p) \<Longrightarrow> \<exists>r'. storePrices E ps r = Inr r' \<and> ring_ok r' \<and>
     rLatest r \<le> rLatest r' \<and> (\<forall>p \<in> set ps. rpAt p \<le> rLatest r')"
proof (induction ps arbitrary: r)
  case Nil
  then show ?case by (simp add: storePrices_def)
next
  case (Cons p ps)
  from Cons.prems(2) [of p] obtain v where p: "0 \<le> rpAt p" "rpPrice p = Some v" by (auto simp: sample_ok_def)
  obtain r1 where "storePrices E (p # ps) r = storePrices E ps r1" "ring_ok r1"
    "rLatest r1 = max (rLatest r) (rpAt p)"
    by (rule store_step [OF Cons.prems(1) p])
  with Cons.IH [of r1] Cons.prems(2) show ?case by fastforce
qed

text \<open>Samples of the next two minutes never evict the second \<open>t\<close>.\<close>

lemma store_keeps:
  assumes "ring_ok r" "\<And>p. p \<in> set ps \<Longrightarrow> sample_ok p \<and> t < rpAt p \<and> rpAt p < t + 120"
    and "storePrices E ps r = Inr r'"
  shows "ring_abs r' t = ring_abs r t"
  using assms
proof (induction ps arbitrary: r)
  case Nil
  then show ?case by (simp add: storePrices_def)
next
  case (Cons p ps)
  from Cons.prems(2) [of p] obtain v where p: "0 \<le> rpAt p" "rpPrice p = Some v"
    and t: "slot t \<noteq> slot (rpAt p)" by (auto simp: sample_ok_def slot_near)
  obtain r1 where r1: "storePrices E (p # ps) r = storePrices E ps r1" "ring_ok r1"
    "ring_abs r1 = (\<lambda>u. if slot u = slot (rpAt p) then (if u = rpAt p then Some v else None) else ring_abs r u)"
    by (rule store_step [OF Cons.prems(1) p])
  with Cons.IH [OF r1(2)] Cons.prems(2,3) t show ?case by simp
qed

text \<open>After a batch in time order, every sample of the last two minutes is stored.\<close>

lemma store_serves:
  assumes "ring_ok r" "\<And>p. p \<in> set ps \<Longrightarrow> sample_ok p" "sorted_wrt (<) (map rpAt ps)"
    and "storePrices E ps r = Inr r'" "p \<in> set ps" "rLatest r' < rpAt p + 120"
  shows "ring_abs r' (rpAt p) = rpPrice p"
proof -
  obtain xs ys where ps: "ps = xs @ p # ys" using assms(5) by (meson split_list)
  obtain r1 where r1: "storePrices E xs r = Inr r1" "ring_ok r1"
    using store_total [of r xs E] assms(1,2) ps by auto
  have e: "storePrices E (p # ys) r1 = Inr r'"
    using assms(4) r1(1) by (simp add: ps storePrices_def rfold_append)
  obtain v where v: "0 \<le> rpAt p" "rpPrice p = Some v" using assms(2,5) by (auto simp: sample_ok_def)
  obtain r2 where r2: "storePrices E (p # ys) r1 = storePrices E ys r2" "ring_ok r2"
    "ring_abs r2 = (\<lambda>u. if slot u = slot (rpAt p) then (if u = rpAt p then Some v else None) else ring_abs r1 u)"
    by (rule store_step [OF r1(2) v])
  have "rpAt q \<le> rLatest r'" if "q \<in> set ys" for q
    using store_total [OF r2(2), of ys E] assms(2) ps e r2(1) that by auto
  then have "ring_abs r' (rpAt p) = ring_abs r2 (rpAt p)"
    using assms(2,3,6) ps e r2(1,2) by (intro store_keeps [of r2 ys]) (fastforce simp: sorted_wrt_append)+
  with r2(3) v show ?thesis by simp
qed

section \<open>What readers see\<close>

lemma GetPriceAt_abs:
  assumes "0 \<le> t"
  shows "GetPriceAt (Some r) t = (if rLatest r = 0 then Inl ErrNoData
     else if rLatest r < t then Inl ErrTooNew
     else if 120 \<le> i64 (rLatest r - t) then Inl ErrTooOld
     else (case ring_abs r t of Some p \<Rightarrow> Inr p | None \<Rightarrow> Inl ErrUnavailable))"
  using assms by (simp add: GetPriceAt_def ring_idx_nonneg ring_abs_def split: option.split)

lemma last_price_loop_spec:
  assumes "\<And>i. i \<in> set is \<Longrightarrow> int i \<le> latest"
  shows "last_price_loop r latest is =
    (case first_some (\<lambda>i. map_option (\<lambda>p. (latest - int i, p)) (ring_abs r (latest - int i))) is of
       Some tp \<Rightarrow> Inr tp | None \<Rightarrow> Inl ErrUnavailable)"
  using assms by (induction "is") (auto simp: ring_slot_abs split: option.splits)

lemma first_some_split:
  "first_some f xs = Some y \<Longrightarrow> \<exists>us x vs. xs = us @ x # vs \<and> f x = Some y \<and> (\<forall>u \<in> set us. f u = None)"
proof (induction xs)
  case (Cons x xs)
  show ?case
  proof (cases "f x")
    case None
    with Cons obtain us z vs where "xs = us @ z # vs" "f z = Some y" "\<forall>u \<in> set us. f u = None" by auto
    with None have "x # xs = (x # us) @ z # vs \<and> f z = Some y \<and> (\<forall>u \<in> set (x # us). f u = None)" by simp
    then show ?thesis by blast
  next
    case (Some z)
    with Cons.prems have "x # xs = [] @ x # xs \<and> f x = Some y \<and> (\<forall>u \<in> set []. f u = None)" by simp
    then show ?thesis by blast
  qed
qed simp

lemma upt_before: "[a..<b] = us @ x # vs \<Longrightarrow> u \<in> set us \<longleftrightarrow> a \<le> u \<and> u < x"
proof -
  assume e: "[a..<b] = us @ x # vs"
  then have s: "sorted_wrt (<) (us @ x # vs)" by (metis sorted_wrt_upt)
  have m: "u \<in> set (us @ x # vs) \<longleftrightarrow> a \<le> u \<and> u < b" using e by (metis atLeastLessThan_iff set_upt)
  have "x < b" using e by (metis atLeastLessThan_iff in_set_conv_decomp set_upt)
  with s m show ?thesis by (fastforce simp: sorted_wrt_append)
qed

text \<open>The freshest sample of the window, or nothing when the whole window is empty.\<close>

definition freshest :: "'c Resolver \<Rightarrow> int \<Rightarrow> int \<Rightarrow> bool" where
  "freshest r t p \<longleftrightarrow> ring_abs r t = Some p \<and> t \<le> rLatest r \<and> rLatest r < t + 120 \<and>
     (\<forall>u. t < u \<and> u \<le> rLatest r \<longrightarrow> ring_abs r u = None)"

lemma last_price_window:
  assumes "119 \<le> rLatest r" "ring_abs r (rLatest r) = None"
    and "last_price_loop r (rLatest r) [1..<120] = x"
  shows "case x of Inr (t, p) \<Rightarrow> freshest r t p
     | Inl e \<Rightarrow> e = ErrUnavailable \<and> (\<forall>u. rLatest r - 120 < u \<and> u \<le> rLatest r \<longrightarrow> ring_abs r u = None)"
proof -
  let ?n = "rLatest r"
  let ?f = "\<lambda>i. map_option (\<lambda>p. (?n - int i, p)) (ring_abs r (?n - int i))"
  have x: "x = (case first_some ?f [1..<120] of Some tp \<Rightarrow> Inr tp | None \<Rightarrow> Inl ErrUnavailable)"
    using assms(1,3) last_price_loop_spec [of "[1..<120]" ?n r] by auto
  have none: "ring_abs r u = None" if "u \<le> ?n" "\<And>i. 1 \<le> i \<Longrightarrow> u = ?n - int i \<Longrightarrow> ?f i = None" for u
  proof (cases "u = ?n")
    case False
    with that(1) have "1 \<le> nat (?n - u)" "u = ?n - int (nat (?n - u))" by simp_all
    with that(2) [of "nat (?n - u)"] show ?thesis by simp
  qed (use assms(2) in simp)
  show ?thesis
  proof (cases "first_some ?f [1..<120]")
    case None
    then have "?f i = None" if "1 \<le> i" "i < 120" for i using that by (simp add: first_some_None)
    then have "ring_abs r u = None" if "?n - 120 < u" "u \<le> ?n" for u using that by (intro none) auto
    with None x show ?thesis by simp
  next
    case (Some tp)
    from first_some_split [OF this] obtain us i vs
      where u: "[1..<120] = us @ i # vs" "?f i = Some tp" "\<forall>j \<in> set us. ?f j = None" by (elim exE conjE)
    have "i \<in> set [1..<120]" unfolding u(1) by simp
    then have i: "1 \<le> i" "i < 120" by (simp_all only: set_upt atLeastLessThan_iff)
    from u(2) obtain p where p: "tp = (?n - int i, p)" "ring_abs r (?n - int i) = Some p" by auto
    have "?f j = None" if "1 \<le> j" "j < i" for j using u(3) upt_before [OF u(1)] that by blast
    then have "ring_abs r w = None" if "?n - int i < w" "w \<le> ?n" for w using that by (intro none) auto
    with Some x p i show ?thesis by (simp add: freshest_def)
  qed
qed

section \<open>Cached proofs\<close>

text \<open>When the provider has a proof key, every cached proof cell is signed with it.\<close>

definition proofs_ok :: "('b, 's, 'c) oracle_env \<Rightarrow> 'c Resolver \<Rightarrow> bool" where
  "proofs_ok E r \<longleftrightarrow> rProofKey r = [] \<or>
     (\<forall>c. Some c \<in> set (rProofCells r) \<longrightarrow> VerifyProofCell E (Some c) (rProofKey r))"

lemma proofs_ok_empty: "proofs_ok E (emptyResolver k)"
  by (simp add: proofs_ok_def emptyResolver_def)

lemma storePrices_proofs:
  "ring_ok r \<Longrightarrow> proofs_ok E r \<Longrightarrow> (\<And>p. p \<in> set ps \<Longrightarrow> 0 \<le> rpAt p) \<Longrightarrow> storePrices E ps r = Inr r' \<Longrightarrow>
   ring_ok r' \<and> proofs_ok E r' \<and> rProofKey r' = rProofKey r"
proof (induction ps arbitrary: r)
  case Nil
  then show ?case by (simp add: storePrices_def)
next
  case (Cons p ps)
  show ?case
  proof (cases "rpPrice p")
    case None
    with Cons show ?thesis by (simp add: storePrices_def)
  next
    case (Some v)
    have t: "0 \<le> rpAt p" using Cons.prems(3) by simp
    obtain r1 where r1: "put_price (rpAt p) v r = Inr r1" "ring_ok r1" "rProofKey r1 = rProofKey r"
      "rProofCells r1 = rProofCells r"
      by (rule put_price_step [OF Cons.prems(1) t])
    obtain r2 where r2: "put_proof E (rpAt p) (rpProof p) r1 = Inr r2" "ring_ok r2" "rProofKey r2 = rProofKey r1"
      "\<And>c. Some c \<in> set (rProofCells r2) \<Longrightarrow> Some c \<in> set (rProofCells r1) \<or>
         rProofKey r1 = [] \<or> VerifyProofCell E (Some c) (rProofKey r1)"
      using put_proof_step [OF r1(2) t, where E = E and pr = "rpProof p"] by blast
    have "proofs_ok E r2" using Cons.prems(2) r1(3,4) r2(3,4) unfolding proofs_ok_def by metis
    with Cons.IH [OF r2(2)] Cons.prems(3,4) Some r1(1,3) r2(1,3) show ?thesis
      by (simp add: storePrices_def)
  qed
qed

lemma GetSignedPricesSince_mem:
  assumes "ring_ok r" "GetSignedPricesSince (Some r) since = Inr cs" "c \<in> set cs"
  shows "Some c \<in> set (rProofCells r)"
proof -
  have "\<forall>x \<in> set acc'. Some x \<in> set (rProofCells r)"
    if "rfold (\<lambda>sec acc. rbind (proof_slot r sec) (\<lambda>po. Inr (case po of None \<Rightarrow> acc | Some p \<Rightarrow> acc @ [p]))) ts acc = Inr acc'"
      "\<forall>x \<in> set acc. Some x \<in> set (rProofCells r)" "\<And>t. t \<in> set ts \<Longrightarrow> 0 \<le> t" for ts acc acc'
    using that(1,2) by (rule rfold_inv)
      (use that(3) assms(1) in \<open>auto simp: proof_slot_def ring_idx_nonneg ring_ok_def split: option.splits if_splits;
        metis nth_mem slot_less\<close>)
  with assms(2,3) show ?thesis
    by (fastforce simp: GetSignedPricesSince_def since_window_def Let_def split: option.splits if_splits)
qed

section \<open>Properties\<close>

text \<open>C33: A batch of price samples in time order is always stored, and afterwards every sample of the
  last 120 seconds is served at exactly its second: later samples of the window never evict it.\<close>

theorem oracle_serves_window:
  assumes "ring_ok r" "\<And>p. p \<in> set ps \<Longrightarrow> sample_ok p" "sorted_wrt (<) (map rpAt ps)"
  shows "\<exists>r'. storePrices E ps r = Inr r' \<and> ring_ok r' \<and>
    (\<forall>p \<in> set ps. 0 < rpAt p \<and> rLatest r' < rpAt p + 120 \<longrightarrow>
       (\<exists>v. rpPrice p = Some v \<and> GetPriceAt (Some r') (rpAt p) = Inr v))"
proof -
  from store_total [OF assms(1), of ps E] assms(2) obtain r' where r': "storePrices E ps r = Inr r'" "ring_ok r'"
    "\<forall>p \<in> set ps. rpAt p \<le> rLatest r'" by blast
  have "\<exists>v. rpPrice p = Some v \<and> GetPriceAt (Some r') (rpAt p) = Inr v"
    if p: "p \<in> set ps" "0 < rpAt p" "rLatest r' < rpAt p + 120" for p
  proof -
    obtain v where v: "rpPrice p = Some v" using assms(2) [OF p(1)] by (auto simp: sample_ok_def)
    have "ring_abs r' (rpAt p) = Some v" using store_serves [OF assms r'(1) p(1,3)] v by simp
    moreover have "rpAt p \<le> rLatest r'" using r'(3) p(1) by blast
    ultimately show ?thesis using v p by (simp add: GetPriceAt_abs i64_id)
  qed
  with r' show ?thesis by blast
qed

text \<open>A sample environment: a proof cell is a signature with the signed body in a reference.\<close>

definition ex_inner :: "(tdata, tcell, tcell PriceInner) codec" where
  "ex_inner = \<lparr>
     LoadFromCell = (\<lambda>s. rbind (t_take 512 s) (\<lambda>(q, s). rbind (t_load_ref s) (\<lambda>(r, s).
        Inr (\<lparr>piSignature = bits_bytes 64 q, piSignedBody = Some r\<rparr>, s)))),
     ToCell = (\<lambda>p. case piSignedBody p of None \<Rightarrow> Inl (Errorf ''nil body'')
        | Some b \<Rightarrow> Inr (TCell (byte_bits (piSignature p)) [b]))\<rparr>"

definition ex_pproof :: "(tdata, tcell, PriceProof) codec" where
  "ex_pproof = \<lparr>
     LoadFromCell = (\<lambda>s. rbind (t_take 32 s) (\<lambda>(a, s). rbind (load_coins s) (\<lambda>(p, s).
        Inr (\<lparr>ppAt = of_nat (bits_nat a), ppPrice = p\<rparr>, s)))),
     ToCell = (\<lambda>p. Inr (TCell (nat_bits 32 (unat (ppAt p)) @ coins_bits (ppPrice p)) []))\<rparr>"

definition ex_oracle :: "(tdata, tdata, tcell) oracle_env" where
  "ex_oracle = \<lparr>oeL = ton_cells (\<lambda>_. zeros 32), oeInner = ex_inner, oeProof = ex_pproof,
     oeVerify = (\<lambda>k m s. s = k @ m), oeSignCell = (\<lambda>k c. k @ zeros 32), oeFromNano = (\<lambda>v n. Inr v)\<rparr>"

definition ex_sample :: "int \<Rightarrow> int \<Rightarrow> tcell RangePrice" where
  "ex_sample t v = \<lparr>rpAt = t, rpPrice = Some v, rpProof = None\<rparr>"

theorem oracle_serves_window_witness:
  "\<exists>r'. storePrices ex_oracle [ex_sample 500 7, ex_sample 600 8] (emptyResolver []) = Inr r' \<and> ring_ok r' \<and>
    (rLatest r' < 620 \<longrightarrow> GetPriceAt (Some r') 500 = Inr 7)"
proof -
  let ?ps = "[ex_sample 500 7, ex_sample 600 8]"
  have ok: "sample_ok p" if "p \<in> set ?ps" for p
    using that by (auto simp: ex_sample_def sample_ok_def)
  have srt: "sorted_wrt (<) (map rpAt ?ps)" by (simp add: ex_sample_def)
  from oracle_serves_window [OF ring_ok_empty [of "[]"] ok srt, where E = ex_oracle]
  obtain r' where r': "storePrices ex_oracle ?ps (emptyResolver []) = Inr r'" "ring_ok r'"
    "\<forall>p \<in> set ?ps. 0 < rpAt p \<and> rLatest r' < rpAt p + 120 \<longrightarrow>
       (\<exists>v. rpPrice p = Some v \<and> GetPriceAt (Some r') (rpAt p) = Inr v)" by blast
  from r'(3) have "rLatest r' < 620 \<longrightarrow> GetPriceAt (Some r') 500 = Inr 7" by (auto simp: ex_sample_def)
  with r'(1,2) show ?thesis by blast
qed

text \<open>\<open>GetLastPrice\<close> returns the freshest sample of the 120-second window, and reports
  \<open>ErrUnavailable\<close> only when the whole window is empty.\<close>

lemma last_price_is_freshest:
  assumes "119 \<le> rLatest r"
  shows "case GetLastPrice (Some r) of
      Inr (t, p) \<Rightarrow> freshest r t p
    | Inl e \<Rightarrow> e = ErrUnavailable \<and> (\<forall>u. rLatest r - 120 < u \<and> u \<le> rLatest r \<longrightarrow> ring_abs r u = None)"
proof (cases "ring_abs r (rLatest r)")
  case None
  with assms last_price_window [OF assms None refl] show ?thesis
    by (simp add: GetLastPrice_def ring_slot_abs)
next
  case (Some p)
  with assms show ?thesis by (auto simp: GetLastPrice_def ring_slot_abs freshest_def)
qed

text \<open>When the provider signs its prices, every proof cell the resolver hands out carries a valid
  signature of that provider: cells that do not verify are never cached.\<close>

lemma signed_prices_verify:
  assumes "storePrices E ps (emptyResolver key) = Inr r" "\<And>p. p \<in> set ps \<Longrightarrow> 0 \<le> rpAt p" "key \<noteq> []"
    and "GetSignedPricesSince (Some r) since = Inr cs" "c \<in> set cs"
  shows "VerifyProofCell E (Some c) key"
proof -
  have "ring_ok r" "proofs_ok E r" "rProofKey r = key"
    using storePrices_proofs [OF ring_ok_empty proofs_ok_empty assms(2,1)] by (auto simp: emptyResolver_def)
  with GetSignedPricesSince_mem [OF _ assms(4,5)] assms(3) show ?thesis by (auto simp: proofs_ok_def)
qed


end
