(* ===== verification/Resolvable.thy ===== *)
theory Resolvable
  imports VCLaws Oracle
begin

text \<open>
  Derivative conditionals (\<^verbatim>\<open>pkg/payments/conditionals/resolvable.go\<close>) and the resolver contract
  they name (\<^verbatim>\<open>pkg/payments/conditionals/contracts/derivatves.go\<close>). The amount a side owes is a
  function of the oracle price; the price resolver is a Go interface holding a pointer, so it is
  \<open>None\<close> for a nil interface and \<open>Some None\<close> for an interface that holds a nil pointer.
\<close>

section \<open>Data\<close>

type_synonym uint16 = "16 word"

record ConditionalResolvableDetails =
  rdAssetID :: uint32
  rdIsLong :: bool
  rdLeverage :: uint16
  rdEntryPrice :: int

record 'c ConditionalResolvable =
  crKey :: bytes
  crAmount :: int
  crFee :: int
  crIsInitiator :: bool
  crResolverAddr :: "address option"
  crDetails :: ConditionalResolvableDetails
  crPriceResolver :: "'c Resolver option option"
  crAction :: action

record 'c ResolvableInstructionDetails =
  ResolverContractCodeHash :: bytes
  ResolverContractData :: "'c option"

record ResolvableState =
  rsKey :: bytes
  rsAmount :: int
  rsAt :: int

text \<open>
  \<open>reStateInit\<close> serialises a state init of code and data; \<open>reDerivativeCode\<close> is the compiled
  contract \<open>Codes[0]\<close>; \<open>rePriceResolvers\<close> the global map of resolvers.
\<close>

record ('b, 's, 'c) rs_env =
  reA :: "('b, 's, 'c) act_env"
  reDetails :: "('s, 'c, ConditionalResolvableDetails) codec"
  reInstr :: "('s, 'c, 'c ResolvableInstructionDetails) codec"
  reState :: "('s, 'c, ResolvableState) codec"
  reStateInit :: "'c \<Rightarrow> 'c \<Rightarrow> 'c res"
  reDerivativeCode :: 'c
  resolvableStaticCode :: 'c
  rePriceResolvers :: "uint32 \<Rightarrow> 'c Resolver option"

abbreviation reL :: "('b, 's, 'c) rs_env \<Rightarrow> ('b, 's, 'c) cell_lib" where
  "reL E \<equiv> aeL (reA E)"

definition maxSupportedLeverage :: uint16 where
  "maxSupportedLeverage = 20"

definition derivativeResolveAcceptanceWindowSec :: int where
  "derivativeResolveAcceptanceWindowSec = 10"

section \<open>Code cell\<close>

definition RS_Serialize :: "('b, 's, 'c) rs_env \<Rightarrow> 'c ConditionalResolvable \<Rightarrow> 'c res" where
  "RS_Serialize E c = (let L = reL E in
     case ToCell (reDetails E) (crDetails c) of
       Inl e \<Rightarrow> Inl (Panic ''serialize details'')
     | Inr det \<Rightarrow> end_cell L (build L
         [st_builder L (rbind (Action_Serialize (reA E) (crAction c)) (\<lambda>a. PushIntOP L (int (be_get (CellHash L a))))),
          st_builder L (PushIntOP L (int (be_get (crKey c)))),
          st_builder L (PushIntOP L (crAmount c)),
          st_builder L (PushIntOP L (crFee c)),
          st_builder L (PushIntOP L (if crIsInitiator c then 1 else 0)),
          st_builder L (PushRef L det),
          st_ref L (end_cell L (build L
            [st_builder L (push_addr L (crResolverAddr c)),
             st_ref L (Inr (resolvableStaticCode E))]))]))"

text \<open>An amount that, unlike the fee, may not be zero.\<close>

definition read_positive ::
  "('b, 's, 'c) cell_lib \<Rightarrow> string \<Rightarrow> string \<Rightarrow> string \<Rightarrow> 's \<Rightarrow> (int \<times> 's) res" where
  "read_positive L m mbits mneg s = rbind (rwrap m (ReadIntOP L s)) (\<lambda>(v, s).
     if 127 < BitLen v then Inl (Errorf mbits)
     else if v \<le> 0 then Inl (Errorf mneg)
     else Inr (v, s))"

definition RS_Parse ::
  "('b, 's, 'c) rs_env \<Rightarrow> resolve_action \<Rightarrow> 's \<Rightarrow> 'c ConditionalResolvable res" where
  "RS_Parse E actions s = (let L = reL E in
     rbind (rwrap ''failed to parse hash'' (ReadIntOP L s)) (\<lambda>(actHashInt, s).
     rbind (rwrap ''failed to parse key'' (ReadIntOP L s)) (\<lambda>(keyInt, s).
     rbind (bytes32 ''too big key size'' keyInt) (\<lambda>key.
     rbind (read_positive L ''failed to parse amount'' ''failed to parse amount: incorrect bits len''
       ''failed to parse amount: cannot be negative or zero'' s) (\<lambda>(amount, s).
     rbind (read_amount L ''failed to parse fee'' ''failed to parse fee: incorrect bits len''
       ''failed to parse fee: cannot be negative'' s) (\<lambda>(fee, s).
     rbind (rwrap ''failed to parse is initiator'' (ReadIntOP L s)) (\<lambda>(isInitiator, s).
     if isInitiator \<noteq> 0 \<and> isInitiator \<noteq> 1 then Inl (Errorf ''failed to parse is initiator: incorrect value'')
     else
     rbind (rwrap ''failed to read details ref'' (ReadCellOP L s)) (\<lambda>(dc, s).
     rbind (rwrap ''failed to load details'' (LoadState L (reDetails E) dc)) (\<lambda>details.
     rbind (rwrap ''failed to parse resolver ref'' (LoadRef L s)) (\<lambda>(s, _).
     rbind (read_addr L ''failed to parse addr slice'' ''failed to parse addr'' s) (\<lambda>(resolverAddr, s).
     rbind (bytes32 ''too big act hash size'' actHashInt) (\<lambda>actHash.
     rbind (read_code L (resolvableStaticCode E) ''unexpected data in condition'' s) (\<lambda>_.
     rbind (rwrap ''failed to resolve action'' (actions actHash)) (\<lambda>a.
     if length (GetAffectedCoins a) \<noteq> 1 then Inl (Errorf ''unexpected number of affected coins'')
     else Inr \<lparr>crKey = key, crAmount = amount, crFee = fee, crIsInitiator = (isInitiator \<noteq> 0),
               crResolverAddr = resolverAddr, crDetails = details,
               crPriceResolver = Some (rePriceResolvers E (rdAssetID details)),
               crAction = a\<rparr>))))))))))))))"

section \<open>Validation\<close>

text \<open>The amounts are set by \<open>Parse\<close>, so the nil checks of the code do not apply.\<close>

definition RS_ValidateOnAdd :: "'c ConditionalResolvable \<Rightarrow> unit res" where
  "RS_ValidateOnAdd c =
     (if crAmount c < 0 then Inl (Errorf ''invalid amount'')
      else if crFee c < 0 then Inl (Errorf ''invalid fee'')
      else if rdLeverage (crDetails c) = 0 \<or> maxSupportedLeverage < rdLeverage (crDetails c)
      then Inl (Errorf ''unsupported leverage'')
      else if crResolverAddr c = None then Inl (Errorf ''resolver address is required'')
      else (let ccs = GetAffectedCoins (crAction c) in
        if length ccs \<noteq> 1 then Inl (Errorf ''unexpected number of affected coins'')
        else let minFee = CalcPercentFeeCeil (Some (crAmount c)) (DerivativeFeePercent (VirtualTunnelConfig (hd ccs)));
                 minFee = minFee * uint (rdLeverage (crDetails c)) in
          if crFee c < minFee then Inl (Errorf ''invalid fee: expected at least'') else Inr ()))"

text \<open>\<open>roi = delta * Amount * Leverage / entryPrice\<close>, with \<open>big.Int.Div\<close>.\<close>

definition rs_roi :: "'c ConditionalResolvable \<Rightarrow> int \<Rightarrow> int" where
  "rs_roi c price = (let entryPrice = rdEntryPrice (crDetails c);
       delta = (if rdIsLong (crDetails c) then price - entryPrice else entryPrice - price)
     in go_div (delta * crAmount c * uint (rdLeverage (crDetails c))) entryPrice)"

definition rs_expected :: "'c ConditionalResolvable \<Rightarrow> int \<Rightarrow> int" where
  "rs_expected c price = (let roi = rs_roi c price in
     if 0 < roi then 0
     else if 0 < crAmount c \<and> crAmount c < \<bar>roi\<bar> then crAmount c else \<bar>roi\<bar>)"

definition RS_ValidateState ::
  "('b, 's, 'c) rs_env \<Rightarrow> 'c ConditionalResolvable \<Rightarrow> 'c option \<Rightarrow> 'c \<Rightarrow> unit res" where
  "RS_ValidateState E c oldState newState =
     (if oldState \<noteq> None then Inl (Errorf ''state already accepted'')
      else (case crPriceResolver c of
        None \<Rightarrow> Inl (Errorf ''price resolver is not configured'')
      | Some ro \<Rightarrow>
        rbind (LoadState (reL E) (reState E) newState) (\<lambda>state.
        if rsKey state \<noteq> crKey c then Inl (Errorf ''incorrect key'')
        else (case GetLastPrice ro of
          Inl (Panic m) \<Rightarrow> Inl (Panic m)
        | Inl _ \<Rightarrow> Inl (Errorf ''price resolver is not ready, cannot validate state'')
        | Inr (latestAt, _) \<Rightarrow>
          if latestAt \<le> 0 then Inl (Errorf ''price resolver is not ready, cannot validate state'')
          else if i64 (latestAt + 2) < rsAt state then Inl (Errorf ''state timestamp is too far in the future'')
          else if derivativeResolveAcceptanceWindowSec < i64 (latestAt - rsAt state)
          then Inl (Errorf ''state timestamp is too old'')
          else if rsAmount state < 0 then Inl (Errorf ''amount cannot be negative'')
          else
          rbind (rwrap ''failed to get price'' (GetPriceAt ro (rsAt state))) (\<lambda>price.
          if rdEntryPrice (crDetails c) = 0 then Inl (Errorf ''invalid entry price'')
          else if 1 < \<bar>rsAmount state - rs_expected c price\<bar> then Inl (Errorf ''incorrect amount'')
          else Inr ())))))"

section \<open>Balance and settlement\<close>

text \<open>Up to four recent seconds, while the error says the sample is only not there yet.\<close>

fun try_prices :: "'c Resolver option \<Rightarrow> int list \<Rightarrow> int option res" where
  "try_prices ro [] = Inr None"
| "try_prices ro (t # ts) = (case GetPriceAt ro t of
     Inr p \<Rightarrow> Inr (Some p)
   | Inl (Panic m) \<Rightarrow> Inl (Panic m)
   | Inl e \<Rightarrow> if errors_is e ErrTooNew \<or> errors_is e ErrUnavailable \<or> errors_is e ErrNoData
       then try_prices ro ts else Inr None)"

definition getBestEffortCurrentPrice :: "'c Resolver option \<Rightarrow> gtime \<Rightarrow> int res" where
  "getBestEffortCurrentPrice ro now = (let t = unix_of now in
     rbind (try_prices ro [t, t - 1, t - 2, t - 3]) (\<lambda>po.
     case po of
       Some p \<Rightarrow> Inr p
     | None \<Rightarrow> rbind (GetLastPrice ro) (\<lambda>(_, p). Inr p)))"

definition rs_lock :: "'c ConditionalResolvable \<Rightarrow> int \<Rightarrow> int" where
  "rs_lock c roi = (let lckd = (if roi < 0 \<and> \<bar>crAmount c\<bar> < \<bar>roi\<bar> then \<bar>roi\<bar> else crAmount c) in
     if crIsInitiator c then lckd + crFee c
     else let lckd = lckd - crFee c in if lckd < 0 then 0 else lckd)"

definition rs_pending :: "'c ConditionalResolvable \<Rightarrow> int \<Rightarrow> int" where
  "rs_pending c roi = (if crIsInitiator c then roi + crFee c
     else let r = roi - crFee c in if r < 0 then 0 else r)"

definition RS_EmulateBalance ::
  "gtime \<Rightarrow> 'c ConditionalResolvable \<Rightarrow> balances \<Rightarrow> bool \<Rightarrow> balances res" where
  "RS_EmulateBalance now c bals fromUs =
     rbind (rwrap ''failed to resolve balance'' (ResolveActionBalance bals (GetAffectedCoins (crAction c)))) (\<lambda>b.
     case crPriceResolver c of
       None \<Rightarrow> Inl (Errorf ''price resolver is not configured'')
     | Some ro \<Rightarrow>
       rbind (rwrap ''failed to get price'' (getBestEffortCurrentPrice ro now)) (\<lambda>price.
       if rdEntryPrice (crDetails c) = 0 then Inl (Errorf ''invalid entry price'')
       else let roi = rs_roi c price; i = BalanceID (hd (GetAffectedCoins (crAction c))) in
         if fromUs then Inr (bals(i \<mapsto> b\<lparr>ConditionalLocked := ConditionalLocked b + rs_lock c roi\<rparr>))
         else if 0 < rs_pending c roi
           then Inr (bals(i \<mapsto> b\<lparr>ConditionalPending := ConditionalPending b + rs_pending c roi\<rparr>))
           else Inr bals))"

definition RS_Commit :: "'c ConditionalResolvable \<Rightarrow> 'c \<Rightarrow> ('c \<times> 'c ConditionalResolvable) res" where
  "RS_Commit c actState = Inl (Errorf ''derivative conditionals cannot be committed'')"

definition RS_PrepareCommit :: "'c ConditionalResolvable \<Rightarrow> 'c \<Rightarrow> 'c ConditionalResolvable res" where
  "RS_PrepareCommit c condState = Inl (Errorf ''derivative conditionals cannot be committed'')"

definition BuildDerivativeStateInit :: "'c \<Rightarrow> 'c option \<Rightarrow> ('c \<times> 'c) res" where
  "BuildDerivativeStateInit code data = (case data of
     None \<Rightarrow> Inl (Errorf ''code and data must be non-nil'') | Some d \<Rightarrow> Inr (code, d))"

definition CalcDerivativeAddress ::
  "('b, 's, 'c) cell_lib \<Rightarrow> ('c \<Rightarrow> 'c \<Rightarrow> 'c res) \<Rightarrow> 'c \<times> 'c \<Rightarrow> address res" where
  "CalcDerivativeAddress L si cd = rbind (rwrap ''failed to serialize state init'' (si (fst cd) (snd cd))) (\<lambda>c.
     Inr (CellHash L c))"

definition RS_CheckInstruction ::
  "('b, 's, 'c) rs_env \<Rightarrow> 'c ConditionalResolvable \<Rightarrow> 'c option \<Rightarrow> bool \<Rightarrow> balances \<Rightarrow> 'c option \<Rightarrow> unit res" where
  "RS_CheckInstruction E c detailsCell isFinalDest bals finalState = (case detailsCell of
     None \<Rightarrow> Inl (Errorf ''missing details cell'')
   | Some dc \<Rightarrow>
     if finalState \<noteq> None then Inl (Errorf ''final state is not supported for this conditional type'')
     else if \<not> isFinalDest then Inl (Errorf ''tunneling is not supported for this conditional type'')
     else (case GetAffectedCoins (crAction c) of
       [] \<Rightarrow> Inl (Errorf ''no affected coins for derivative action'')
     | cc # _ \<Rightarrow>
       if bals (BalanceID cc) = None \<or> Available (bals (BalanceID cc)) < crAmount c
       then Inl (Errorf ''not enough balance to cover derivative collateral'')
       else
       rbind (LoadState (reL E) (reInstr E) dc) (\<lambda>details.
       if length (ResolverContractCodeHash details) \<noteq> 32
       then Inl (Errorf ''incorrect resolver contract code hash length'')
       else if ResolverContractData details = None then Inl (Errorf ''missing resolver contract data'')
       else
       rbind (rwrap ''failed to build resolver state init''
         (BuildDerivativeStateInit (reDerivativeCode E) (ResolverContractData details))) (\<lambda>si.
       if CellHash (reL E) (fst si) \<noteq> ResolverContractCodeHash details
       then Inl (Errorf ''incorrect resolver contract code hash'')
       else
       rbind (rwrap ''failed to calc resolver address'' (CalcDerivativeAddress (reL E) (reStateInit E) si)) (\<lambda>ra.
       if crResolverAddr c \<noteq> Some ra then Inl (Errorf ''resolver address mismatch'')
       else Inr ())))))"

definition RS_PrepareNext :: "'c ConditionalResolvable \<Rightarrow> 'c \<Rightarrow> action \<Rightarrow> gtime \<Rightarrow> 'c ConditionalResolvable res" where
  "RS_PrepareNext c dc nextAction nextDeadline = Inl (Errorf ''derivative conditionals cannot be tunneled'')"

definition RS_ScoreTunnelTarget :: "'c ConditionalResolvable \<Rightarrow> 'c option \<Rightarrow> balances \<Rightarrow> int res" where
  "RS_ScoreTunnelTarget c dc bals = Inl (Errorf ''derivative conditionals cannot be tunneled'')"

definition rs_add :: "'c ConditionalResolvable \<Rightarrow> int \<Rightarrow> int" where
  "rs_add c amount = (let toAdd = (if 0 < crAmount c \<and> crAmount c < amount then crAmount c else amount) in
     if crIsInitiator c then toAdd + crFee c
     else let toAdd = toAdd - crFee c in if toAdd < 0 then 0 else toAdd)"

definition RS_Execute ::
  "('b, 's, 'c) rs_env \<Rightarrow> 'c ConditionalResolvable \<Rightarrow> 'c \<Rightarrow> 'c \<Rightarrow> locked option \<Rightarrow> ('c \<times> locked option) res" where
  "RS_Execute E c actionState latestCondState lck =
     rbind (LoadState (reL E) (reState E) latestCondState) (\<lambda>condState.
     if rsKey condState \<noteq> crKey c then Inl (Errorf ''incorrect key'')
     else if rsAmount condState < 0 then Inl (Errorf ''amount cannot be negative'')
     else Action_AddCoins (reA E) (crAction c) actionState (rs_add c (rsAmount condState)) lck)"

text \<open>\<open>time.Date(3000, 1, 1, ..)\<close>: no deadline.\<close>

definition RS_GetDeadline :: gtime where
  "RS_GetDeadline = unix 32503680000"

end
