(* ===== verification/RSLaws.thy ===== *)
theory RSLaws
  imports Resolvable
begin

text \<open>
  What derivative conditionals promise: their code cell survives serialisation, opposite positions
  are zero-sum, a settlement is covered by the collateral, and what happens when no price resolver
  is registered for the asset.
\<close>

section \<open>Amounts\<close>

definition rs_wf :: "'c ConditionalResolvable \<Rightarrow> bool" where
  "rs_wf c \<longleftrightarrow> 0 < crAmount c \<and> 0 \<le> crFee c"

lemma rs_lock_nonneg: "rs_wf c \<Longrightarrow> 0 \<le> rs_lock c roi"
  by (auto simp: rs_wf_def rs_lock_def Let_def)

lemma rs_add_bounds: "rs_wf c \<Longrightarrow> 0 \<le> amount \<Longrightarrow> 0 \<le> rs_add c amount \<and> rs_add c amount \<le> rs_lock c roi"
  by (auto simp: rs_wf_def rs_add_def rs_lock_def Let_def)

lemma rs_expected_bounds: "0 < crAmount c \<Longrightarrow> 0 \<le> rs_expected c p \<and> rs_expected c p \<le> crAmount c"
  by (auto simp: rs_expected_def Let_def)

text \<open>Rounding down both a value and its negation loses at most one unit in total.\<close>

lemma div_opposite: "0 < (b::int) \<Longrightarrow> (- a) div b \<in> {- (a div b), - (a div b) - 1}"
  by (simp add: zdiv_zminus1_eq_if)

text \<open>Two sides of one position.\<close>

definition opposite :: "'c ConditionalResolvable \<Rightarrow> 'c ConditionalResolvable \<Rightarrow> bool" where
  "opposite c d \<longleftrightarrow> rdIsLong (crDetails c) \<noteq> rdIsLong (crDetails d) \<and> crAmount c = crAmount d \<and>
     rdLeverage (crDetails c) = rdLeverage (crDetails d) \<and> rdEntryPrice (crDetails c) = rdEntryPrice (crDetails d) \<and>
     0 < rdEntryPrice (crDetails c)"

lemma opposite_roi:
  assumes "opposite c d"
  shows "rs_roi d p \<in> {- rs_roi c p, - rs_roi c p - 1}"
proof -
  let ?e = "rdEntryPrice (crDetails c)"
  define x where "x = (if rdIsLong (crDetails c) then p - ?e else ?e - p) * crAmount c * uint (rdLeverage (crDetails c))"
  have c: "rs_roi c p = x div ?e" and d: "rs_roi d p = (- x) div ?e"
    using assms by (auto simp: rs_roi_def opposite_def Let_def go_div_def x_def algebra_simps)
  show ?thesis unfolding c d using assms by (intro div_opposite) (simp add: opposite_def)
qed

lemma opposite_expected: "opposite c d \<Longrightarrow> rs_expected c p = 0 \<or> rs_expected d p = 0"
  using opposite_roi [of c d p] by (auto simp: rs_expected_def Let_def)

section \<open>Validation and settlement\<close>

lemma RS_ValidateState_Inr:
  assumes "RS_ValidateState E c old cs = Inr ()"
  obtains ro st price where "crPriceResolver c = Some ro" "LoadState (reL E) (reState E) cs = Inr st"
    "old = None" "rsKey st = crKey c" "0 \<le> rsAmount st" "GetPriceAt ro (rsAt st) = Inr price"
    "\<bar>rsAmount st - rs_expected c price\<bar> \<le> 1"
  using assms
  by (auto simp: RS_ValidateState_def split: if_splits option.splits sum.splits gerror.splits)

definition rs_accepted :: "('b, 's, 'c) rs_env \<Rightarrow> 'c ConditionalResolvable \<Rightarrow> 'c \<Rightarrow> bool" where
  "rs_accepted E c cs \<longleftrightarrow> rs_wf c \<and> RS_ValidateState E c None cs = Inr ()"

definition rs_pay :: "('b, 's, 'c) rs_env \<Rightarrow> 'c ConditionalResolvable \<Rightarrow> 'c \<Rightarrow> int" where
  "rs_pay E c cs = (case LoadState (reL E) (reState E) cs of Inl _ \<Rightarrow> 0 | Inr st \<Rightarrow> rs_add c (rsAmount st))"

text \<open>What the emulation locks at a given moment.\<close>

definition rs_locked :: "gtime \<Rightarrow> 'c ConditionalResolvable \<Rightarrow> int" where
  "rs_locked now c = rs_lock c (case crPriceResolver c of None \<Rightarrow> 0 | Some ro \<Rightarrow>
     (case getBestEffortCurrentPrice ro now of Inl _ \<Rightarrow> 0 | Inr p \<Rightarrow> rs_roi c p))"

lemma RS_EmulateBalance_Inr:
  assumes "RS_EmulateBalance now c bals fromUs = Inr bals'"
  obtains b ro p where "bals (BalanceID (Action_coin (crAction c))) = Some b" "crPriceResolver c = Some ro"
    "getBestEffortCurrentPrice ro now = Inr p"
    "bals' = (if fromUs then bals(BalanceID (Action_coin (crAction c)) \<mapsto>
         b\<lparr>ConditionalLocked := ConditionalLocked b + rs_lock c (rs_roi c p)\<rparr>)
       else if 0 < rs_pending c (rs_roi c p) then bals(BalanceID (Action_coin (crAction c)) \<mapsto>
         b\<lparr>ConditionalPending := ConditionalPending b + rs_pending c (rs_roi c p)\<rparr>) else bals)"
  using assms
  by (auto simp: RS_EmulateBalance_def GetAffectedCoins_def ResolveActionBalance_Inr Let_def
      split: option.splits if_splits)

interpretation rs_lock: conditional_lock "reA E" crAction "RS_EmulateBalance now" "RS_Execute E" rs_wf
    "rs_accepted E" "rs_locked now" "rs_pay E" for E now
proof (unfold_locales, goal_cases)
  case (1 c bals fromUs bals' k)
  from 1(2) obtain b ro p where e: "bals (BalanceID (Action_coin (crAction c))) = Some b" "crPriceResolver c = Some ro"
    "getBestEffortCurrentPrice ro now = Inr p"
    "bals' = (if fromUs then bals(BalanceID (Action_coin (crAction c)) \<mapsto>
         b\<lparr>ConditionalLocked := ConditionalLocked b + rs_lock c (rs_roi c p)\<rparr>)
       else if 0 < rs_pending c (rs_roi c p) then bals(BalanceID (Action_coin (crAction c)) \<mapsto>
         b\<lparr>ConditionalPending := ConditionalPending b + rs_pending c (rs_roi c p)\<rparr>) else bals)"
    by (rule RS_EmulateBalance_Inr)
  have "0 \<le> ConditionalLocked b" using 1(3) e(1) .
  with e rs_lock_nonneg [OF 1(1), of "rs_roi c p"] show ?case
    by (auto simp: Available_def rs_locked_def Let_def)
next
  case (2 c cs st s lck)
  from 2(2) have v: "RS_ValidateState E c None cs = Inr ()" and wf: "rs_wf c" by (auto simp: rs_accepted_def)
  from v obtain x where x: "LoadState (reL E) (reState E) cs = Inr x" "rsKey x = crKey c" "0 \<le> rsAmount x"
    by (rule RS_ValidateState_Inr)
  have "0 \<le> rs_add c (rsAmount x)" using rs_add_bounds [OF wf x(3)] by blast
  from sendAddCoins_spec [OF 2(1,3,4) this, of "Action_coin (crAction c)" lck] 2(5) x show ?case
    by (auto simp: RS_Execute_def rs_pay_def Action_AddCoins_def)
next
  case (3 c cs)
  then have v: "RS_ValidateState E c None cs = Inr ()" and wf: "rs_wf c" by (auto simp: rs_accepted_def)
  from v obtain x where "LoadState (reL E) (reState E) cs = Inr x" "0 \<le> rsAmount x" by (rule RS_ValidateState_Inr)
  with rs_add_bounds [OF wf] show ?case by (auto simp: rs_pay_def rs_locked_def)
qed

section \<open>The code cell\<close>

definition rd_ok :: "ConditionalResolvableDetails \<Rightarrow> bool" where
  "rd_ok d \<longleftrightarrow> coins_ok (rdEntryPrice d)"

definition rs_ok :: "('b, 's, 'c) rs_env \<Rightarrow> 'c ConditionalResolvable \<Rightarrow> bool" where
  "rs_ok E c \<longleftrightarrow> length (crKey c) = 32 \<and> coins_ok (crAmount c) \<and> 0 < crAmount c \<and> coins_ok (crFee c) \<and>
     addr_ok (crResolverAddr c) \<and> rd_ok (crDetails c) \<and>
     crPriceResolver c = Some (rePriceResolvers E (rdAssetID (crDetails c)))"

locale rs_cells = cell_library "reL E" bview sview addr_bits
  for E :: "('b, 's, 'c) rs_env"
    and bview :: "'b \<Rightarrow> bool list \<times> 'c list"
    and sview :: "'s \<Rightarrow> bool list \<times> 'c list"
    and addr_bits :: "address option \<Rightarrow> bool list" +
  assumes rs_hash_32: "length (CellHash (reL E) c) = 32"
    and details_codec: "codec_ok (reL E) (reDetails E) rd_ok"
begin

lemma rds_wrap: "rds rd d v \<Longrightarrow> rds (\<lambda>s. rwrap m (rd s)) d v"
  unfolding rds_def by simp

lemma rds_positive: "coins_ok v \<Longrightarrow> 0 < v \<Longrightarrow> rds (read_positive (reL E) m n k) (push_bits v, []) v"
  unfolding read_positive_def [abs_def]
  by (intro rds_then [OF rds_push_int]) (auto simp: coins_ok_def BitLen_le_iff not_less)

lemma rds_fee: "coins_ok v \<Longrightarrow> rds (read_amount (reL E) m n k) (push_bits v, []) v"
  unfolding read_amount_def [abs_def]
  by (intro rds_then [OF rds_push_int]) (auto simp: coins_ok_def BitLen_le_iff not_less)

lemma rds_read_ref: "rds (LoadRef (reL E)) ([], [c]) (BeginParse (reL E) c)"
  using rds_map [OF rds_ref] by (simp add: LoadRef_def [abs_def])

text \<open>The inner cell: the resolver's address and the static code.\<close>

lemma resolver_cell:
  assumes "addr_ok a"
  obtains c where "end_cell (reL E) (build (reL E) [st_builder (reL E) (push_addr (reL E) a), st_ref (reL E) (Inr k)]) = Inr c"
    "k \<in> set (CellRefs (reL E) c)"
    "\<forall>m n. \<exists>s. read_addr (reL E) m n (BeginParse (reL E) c) = Inr (a, s) \<and> sview s = ([], [k])"
proof -
  from assms obtain d where d: "addr_field a d" using addr_field_ex by blast
  have w: "list_all2 writes [st_builder (reL E) (push_addr (reL E) a), st_ref (reL E) (Inr k)] [d, ([], [k])]"
    using d by (auto simp: addr_field_writes writes_ref)
  have "length (fst d) = 8" "length (snd d) = 1" using d by (simp_all add: addr_field_def)
  then have "cfits (foldr cat [d, ([], [k])] ([], []))" by (simp add: cfits_def cat_def)
  with w obtain c where c: "end_cell (reL E) (build (reL E) [st_builder (reL E) (push_addr (reL E) a), st_ref (reL E) (Inr k)]) = Inr c"
    "sview (BeginParse (reL E) c) = foldr cat [d, ([], [k])] ([], [])"
    "CellRefs (reL E) c = snd (foldr cat [d, ([], [k])] ([], []))"
    by (rule cell_of)
  have sv: "sview (BeginParse (reL E) c) = cat d ([], [k])" using c(2) by simp
  have "\<exists>s. read_addr (reL E) m n (BeginParse (reL E) c) = Inr (a, s) \<and> sview s = ([], [k])" for m n
    by (rule rdsE [OF addr_field_read [OF d] sv]) blast
  with c show thesis by (intro that [OF c(1)]) (auto simp: cat_def)
qed

lemma RS_codec:
  assumes "rs_ok E c" "Action_Serialize (reA E) (crAction c) = Inr a"
    and "actions (CellHash (reL E) a) = Inr (crAction c)"
  shows "code_ok (RS_Serialize E) (RS_Parse E actions) (resolvableStaticCode E) c"
proof -
  let ?k = "resolvableStaticCode E" and ?d = "\<lambda>v. (push_bits v, [])"
  let ?h = "int (be_get (CellHash (reL E) a))" and ?key = "int (be_get (crKey c))"
  define i where "i = (if crIsInitiator c then 1 else 0 :: int)"
  define op where "op = nat_bits 8 0x88"
  from assms(1) have ok: "length (crKey c) = 32" "coins_ok (crAmount c)" "0 < crAmount c" "coins_ok (crFee c)"
    "addr_ok (crResolverAddr c)" "rd_ok (crDetails c)"
    "crPriceResolver c = Some (rePriceResolvers E (rdAssetID (crDetails c)))" by (auto simp: rs_ok_def)
  have B: "BitLen ?h \<le> 256" "BitLen ?key \<le> 256" "BitLen (crAmount c) \<le> 120" "BitLen (crFee c) \<le> 120" "BitLen i \<le> 1"
    using be_get_less [of "CellHash (reL E) a"] be_get_less [of "crKey c"] ok rs_hash_32
    by (auto simp: BitLen_le_iff coins_ok_def i_def)
  have rdc: "rds (ReadCellOP (reL E)) (op, [det]) det" for det unfolding op_def by (rule rds_read_cell)
  have mpr: "made (PushRef (reL E) det) (op, [det])" for det unfolding op_def by (rule made_push_ref)
  have lop: "length op = 8" by (simp add: op_def)
  obtain det where det: "ToCell (reDetails E) (crDetails c) = Inr det"
      "LoadState (reL E) (reDetails E) det = Inr (crDetails c)"
    using codec_okD [OF details_codec ok(6)] by blast
  obtain ic where ic: "end_cell (reL E) (build (reL E) [st_builder (reL E) (push_addr (reL E) (crResolverAddr c)),
      st_ref (reL E) (Inr ?k)]) = Inr ic" "?k \<in> set (CellRefs (reL E) ic)"
    "\<forall>m n. \<exists>s. read_addr (reL E) m n (BeginParse (reL E) ic) = Inr (crResolverAddr c, s) \<and> sview s = ([], [?k])"
    by (rule resolver_cell [OF ok(5), of ?k])
  let ?ds = "[?d ?h, ?d ?key, ?d (crAmount c), ?d (crFee c), ?d i, (op, [det]), ([], [ic])]"
  have I: "(i \<noteq> 0 \<and> i \<noteq> 1) = False" "(i \<noteq> 0) = crIsInitiator c" by (simp_all add: i_def)
  have B256: "BitLen i \<le> 256" "BitLen (crAmount c) \<le> 256" "BitLen (crFee c) \<le> 256" using B by simp_all
  show ?thesis
  proof (rule code_okI [where ds = ?ds])
    show "RS_Parse E actions s = Inr c" if "sview s = foldr cat ?ds ([], [])" for s
    proof -
      have k32: "bytes32 m ?key = Inr (crKey c)" "bytes32 m ?h = Inr (CellHash (reL E) a)" for m
        using ok(1) rs_hash_32 by (simp_all add: bytes32_key)
      show ?thesis
        unfolding RS_Parse_def Let_def
        by (rule parse_step [OF rds_wrap [OF rds_push_int [OF B(1)]]], use that in simp,
            rule parse_step [OF rds_wrap [OF rds_push_int [OF B(2)]]], assumption, simp only: k32 rbind_simps,
            rule parse_step [OF rds_positive [OF ok(2,3)]], assumption,
            rule parse_step [OF rds_fee [OF ok(4)]], assumption,
            rule parse_step [OF rds_wrap [OF rds_push_int [OF B256(1)]]], assumption, simp only: I(1) if_False,
            rule parse_step [OF rds_wrap [OF rdc]], assumption, simp only: det(2) rwrap_simps rbind_simps,
            rule parse_step [OF rds_wrap [OF rds_read_ref [of ic]], where e = "([], [])"], simp)
          (use ic(3) [THEN spec, THEN spec, of "''failed to parse addr slice''" "''failed to parse addr''"] assms(3) ok(7) k32 in
            \<open>auto simp: read_code_ok GetAffectedCoins_def I(2) simp del: rbind_Inr rwrap_Inr\<close>)
    qed
    show "list_all2 writes [st_builder (reL E) (rbind (Action_Serialize (reA E) (crAction c)) (\<lambda>a. PushIntOP (reL E) (int (be_get (CellHash (reL E) a))))),
        st_builder (reL E) (PushIntOP (reL E) ?key), st_builder (reL E) (PushIntOP (reL E) (crAmount c)),
        st_builder (reL E) (PushIntOP (reL E) (crFee c)), st_builder (reL E) (PushIntOP (reL E) i),
        st_builder (reL E) (PushRef (reL E) det),
        st_ref (reL E) (end_cell (reL E) (build (reL E) [st_builder (reL E) (push_addr (reL E) (crResolverAddr c)),
          st_ref (reL E) (Inr ?k)]))] ?ds"
      using assms(2) B B256 ic(1) by (auto intro!: writes_builder made_push_int mpr writes_ref)
    show "cfits (foldr cat ?ds ([], []))"
      using length_push_bits(1) [OF B(1)] length_push_bits(1) [OF B(2)] length_push_bits(2) [of "crAmount c"]
        length_push_bits(2) [of "crFee c"] length_push_bits(3) [of i] B lop by (simp add: cfits_def cat_def)
  qed (use det(1) ic(2) in \<open>auto simp: RS_Serialize_def Let_def cat_def i_def\<close>)
qed

end

end
