(* ===== verification/Conditionals.thy ===== *)
theory Conditionals
  imports RSLaws "HOL-Library.AList"
begin

text \<open>
  The \<open>Conditional\<close> interface of \<^verbatim>\<open>pkg/payments/actions.go\<close> over its two implementations, the
  recognition of a conditional in a code cell, its lookup in the conditionals dictionary
  (\<^verbatim>\<open>pkg/payments/types.go\<close>), and the settlement step of
  \<^verbatim>\<open>tonpayments/conditional_settlement.go\<close>.
\<close>

section \<open>Interface\<close>

datatype 'c conditional =
    VCond ConditionalVirtualChannel
  | RCond "'c ConditionalResolvable"

record ('b, 's, 'c) cond_env =
  ceVC :: "('b, 's, 'c) vc_env"
  ceRS :: "('b, 's, 'c) rs_env"

abbreviation ceA :: "('b, 's, 'c) cond_env \<Rightarrow> ('b, 's, 'c) act_env" where
  "ceA E \<equiv> veA (ceVC E)"

abbreviation ceL :: "('b, 's, 'c) cond_env \<Rightarrow> ('b, 's, 'c) cell_lib" where
  "ceL E \<equiv> aeL (ceA E)"

fun Cond_Serialize :: "('b, 's, 'c) cond_env \<Rightarrow> 'c conditional \<Rightarrow> 'c res" where
  "Cond_Serialize E (VCond c) = VC_Serialize (ceVC E) c"
| "Cond_Serialize E (RCond c) = RS_Serialize (ceRS E) c"

fun Cond_GetAction :: "'c conditional \<Rightarrow> action" where
  "Cond_GetAction (VCond c) = vcAction c"
| "Cond_GetAction (RCond c) = crAction c"

fun Cond_GetKey :: "'c conditional \<Rightarrow> bytes" where
  "Cond_GetKey (VCond c) = vcKey c"
| "Cond_GetKey (RCond c) = crKey c"

fun Cond_GetDeadline :: "'c conditional \<Rightarrow> gtime" where
  "Cond_GetDeadline (VCond c) = VC_GetDeadline c"
| "Cond_GetDeadline (RCond c) = RS_GetDeadline"

fun Cond_ValidateOnAdd :: "gtime \<Rightarrow> 'c conditional \<Rightarrow> unit res" where
  "Cond_ValidateOnAdd now (VCond c) = VC_ValidateOnAdd now c"
| "Cond_ValidateOnAdd now (RCond c) = RS_ValidateOnAdd c"

fun Cond_ValidateState :: "('b, 's, 'c) cond_env \<Rightarrow> 'c conditional \<Rightarrow> 'c option \<Rightarrow> 'c \<Rightarrow> unit res" where
  "Cond_ValidateState E (VCond c) old new = VC_ValidateState (ceVC E) c old new"
| "Cond_ValidateState E (RCond c) old new = RS_ValidateState (ceRS E) c old new"

fun Cond_EmulateBalance :: "gtime \<Rightarrow> 'c conditional \<Rightarrow> balances \<Rightarrow> bool \<Rightarrow> balances res" where
  "Cond_EmulateBalance now (VCond c) bals fromUs = VC_EmulateBalance c bals fromUs"
| "Cond_EmulateBalance now (RCond c) bals fromUs = RS_EmulateBalance now c bals fromUs"

fun Cond_Commit ::
  "('b, 's, 'c) cond_env \<Rightarrow> 'c conditional \<Rightarrow> 'c conditional \<Rightarrow> 'c \<Rightarrow> ('c \<times> 'c conditional) res" where
  "Cond_Commit E (VCond c) (VCond upd) st = rbind (VC_Commit (ceVC E) c upd st) (\<lambda>(st', c'). Inr (st', VCond c'))"
| "Cond_Commit E (VCond c) (RCond _) st = Inl (Errorf ''unexpected cond type'')"
| "Cond_Commit E (RCond c) _ st = rbind (RS_Commit c st) (\<lambda>(st', c'). Inr (st', RCond c'))"

fun Cond_PrepareCommit :: "('b, 's, 'c) cond_env \<Rightarrow> 'c conditional \<Rightarrow> 'c \<Rightarrow> 'c conditional res" where
  "Cond_PrepareCommit E (VCond c) st = rbind (VC_PrepareCommit (ceVC E) c st) (\<lambda>n. Inr (VCond n))"
| "Cond_PrepareCommit E (RCond c) st = rbind (RS_PrepareCommit c st) (\<lambda>n. Inr (RCond n))"

fun Cond_CheckInstruction ::
  "('b, 's, 'c) cond_env \<Rightarrow> 'c conditional \<Rightarrow> 'c option \<Rightarrow> bool \<Rightarrow> balances \<Rightarrow> 'c option \<Rightarrow> unit res" where
  "Cond_CheckInstruction E (VCond c) dc fin bals fs = VC_CheckInstruction (ceVC E) c dc fin bals fs"
| "Cond_CheckInstruction E (RCond c) dc fin bals fs = RS_CheckInstruction (ceRS E) c dc fin bals fs"

fun Cond_PrepareNext ::
  "('b, 's, 'c) cond_env \<Rightarrow> 'c conditional \<Rightarrow> 'c \<Rightarrow> action \<Rightarrow> gtime \<Rightarrow> 'c conditional res" where
  "Cond_PrepareNext E (VCond c) dc act dl = rbind (VC_PrepareNext (ceVC E) c dc act dl) (\<lambda>n. Inr (VCond n))"
| "Cond_PrepareNext E (RCond c) dc act dl = rbind (RS_PrepareNext c dc act dl) (\<lambda>n. Inr (RCond n))"

fun Cond_ScoreTunnelTarget ::
  "('b, 's, 'c) cond_env \<Rightarrow> 'c conditional \<Rightarrow> 'c option \<Rightarrow> balances \<Rightarrow> int res" where
  "Cond_ScoreTunnelTarget E (VCond c) dc bals = VC_ScoreTunnelTarget (ceVC E) c dc bals"
| "Cond_ScoreTunnelTarget E (RCond c) dc bals = RS_ScoreTunnelTarget c dc bals"

fun Cond_Execute ::
  "('b, 's, 'c) cond_env \<Rightarrow> 'c conditional \<Rightarrow> 'c \<Rightarrow> 'c \<Rightarrow> locked option \<Rightarrow> ('c \<times> locked option) res" where
  "Cond_Execute E (VCond c) st cs lck = VC_Execute (ceVC E) c st cs lck"
| "Cond_Execute E (RCond c) st cs lck = RS_Execute (ceRS E) c st cs lck"

text \<open>A derivative whose resolved amount is zero settles without touching its action.\<close>

definition executeConditionalSettlement ::
  "('b, 's, 'c) cond_env \<Rightarrow> 'c conditional \<Rightarrow> 'c \<Rightarrow> 'c \<Rightarrow> locked option \<Rightarrow> ('c \<times> locked option) res" where
  "executeConditionalSettlement E cond actionState resolve lck = (case cond of
     RCond c \<Rightarrow>
       rbind (rwrap ''failed to load resolve state'' (LoadState (reL (ceRS E)) (reState (ceRS E)) resolve)) (\<lambda>state.
       if rsAmount state = 0 then Inr (actionState, lck)
       else Cond_Execute E cond actionState resolve lck)
   | VCond c \<Rightarrow> Cond_Execute E cond actionState resolve lck)"

section \<open>Recognition\<close>

datatype cond_kind = KVirtualChannel | KResolvable

definition ConditionalTypes :: "('b, 's, 'c) cond_env \<Rightarrow> bytes \<Rightarrow> cond_kind option" where
  "ConditionalTypes E = (let h = CellHash (ceL E) in map_of
     [(h (virtualChannelUniversalStaticCode (ceVC E)), KVirtualChannel),
      (h (resolvableStaticCode (ceRS E)), KResolvable)])"

definition DetectConditionalType :: "('b, 's, 'c) cond_env \<Rightarrow> 'c \<Rightarrow> cond_kind option" where
  "DetectConditionalType E cl = DetectType maxCellDepth (ceL E) (ConditionalTypes E) cl"

fun Cond_Parse :: "('b, 's, 'c) cond_env \<Rightarrow> cond_kind \<Rightarrow> resolve_action \<Rightarrow> 's \<Rightarrow> 'c conditional res" where
  "Cond_Parse E KVirtualChannel actions s = rbind (VC_Parse (ceVC E) actions s) (\<lambda>c. Inr (VCond c))"
| "Cond_Parse E KResolvable actions s = rbind (RS_Parse (ceRS E) actions s) (\<lambda>c. Inr (RCond c))"

text \<open>
  Detection returns a nil interface when it recognises nothing, and \<open>CodeToConditional\<close> calls
  \<open>Parse\<close> on it: a nil dereference, where \<open>CodeToAction\<close> returns an error.
\<close>

definition CodeToConditional :: "('b, 's, 'c) cond_env \<Rightarrow> resolve_action \<Rightarrow> 'c \<Rightarrow> 'c conditional res" where
  "CodeToConditional E actions code = (case DetectConditionalType E code of
     None \<Rightarrow> Inl (Panic ''nil pointer dereference'')
   | Some k \<Rightarrow> rwrap ''failed to parse cond code'' (Cond_Parse E k actions (BeginParse (ceL E) code)))"

text \<open>
  The dictionary of the cell library: \<open>LoadValue\<close> by key cell and \<open>LoadAll\<close>, whose entries are
  slices, \<open>Set\<close> and \<open>Delete\<close>, which return the changed dictionary, and its cell.
  \<open>FindConditional\<close> looks up by identifier, without a proof builder.
\<close>

record ('m, 's, 'c) dict_lib =
  LoadValue :: "'m \<Rightarrow> 'c \<Rightarrow> 's res"
  LoadAll :: "'m \<Rightarrow> ('s \<times> 's) list res"
  DictSet :: "'m \<Rightarrow> 'c \<Rightarrow> 'c \<Rightarrow> 'm res"
  DictDelete :: "'m \<Rightarrow> 'c \<Rightarrow> 'm res"
  DictIsEmpty :: "'m \<Rightarrow> bool"
  DictAsCell :: "'m \<Rightarrow> 'c"

definition FindConditional ::
  "('b, 's, 'c) cond_env \<Rightarrow> ('m, 's, 'c) dict_lib \<Rightarrow> 'm \<Rightarrow> bytes \<Rightarrow> resolve_action \<Rightarrow> ('c \<times> 'c conditional) res" where
  "FindConditional E D conditionals cid actions =
     rbind (end_cell (ceL E) (MustStoreSlice (ceL E) (BeginCell (ceL E)) cid 256)) (\<lambda>idx.
     case LoadValue D conditionals idx of
       Inl err \<Rightarrow> if errors_is err ErrNoSuchKeyInDict then Inl PayErrNotFound else Inl err
     | Inr sl \<Rightarrow>
       rbind (rwrap ''failed to parse of one of conditionals''
         (CodeToConditional E actions (MustToCell (ceL E) sl))) (\<lambda>cond.
       Inr (idx, cond)))"

section \<open>Detection after serialisation\<close>

definition cond_only :: "('b, 's, 'c) cond_env \<Rightarrow> cond_kind \<Rightarrow> 'c \<Rightarrow> bool" where
  "cond_only E k c \<longleftrightarrow> (\<forall>x \<in> set (reach maxCellDepth (ceL E) c). \<forall>k'.
     ConditionalTypes E (CellHash (ceL E) x) = Some k' \<longrightarrow> k' = k)"

lemma CodeToConditional_codec:
  assumes "parse (BeginParse (ceL E) c) = Inr a" "code \<in> set (reach 2 (ceL E) c)"
    and "ConditionalTypes E (CellHash (ceL E) code) \<noteq> None"
    and "\<And>s. Cond_Parse E k actions s = rbind (parse s) (\<lambda>x. Inr (con x))" "cond_only E k c"
  shows "CodeToConditional E actions c = Inr (con a)"
proof -
  have "code \<in> set (reach maxCellDepth (ceL E) c)"
    using reach_mono [of 2 maxCellDepth "ceL E" c] assms(2) by (auto simp: maxCellDepth_def)
  then have "DetectConditionalType E c = Some k"
    unfolding DetectConditionalType_def using assms(3,5)
    by (intro DetectType_unique) (auto simp: cond_only_def)
  with assms(1,4) show ?thesis by (simp add: CodeToConditional_def del: rbind_Inr)
qed

text \<open>The conditionals the protocol builds.\<close>

fun cond_ok :: "('b, 's, 'c) cond_env \<Rightarrow> 'c conditional \<Rightarrow> bool" where
  "cond_ok E (VCond c) \<longleftrightarrow> vc_ok c"
| "cond_ok E (RCond c) \<longleftrightarrow> rs_ok (ceRS E) c"

fun Cond_kind :: "'c conditional \<Rightarrow> cond_kind" where
  "Cond_kind (VCond c) = KVirtualChannel"
| "Cond_kind (RCond c) = KResolvable"

text \<open>The cells of both kinds, in one environment.\<close>

locale cond_cells = vc_cells "ceVC E" bview sview addr_bits
  for E :: "('b, 's, 'c) cond_env"
    and bview :: "'b \<Rightarrow> bool list \<times> 'c list"
    and sview :: "'s \<Rightarrow> bool list \<times> 'c list"
    and addr_bits :: "address option \<Rightarrow> bool list" +
  assumes same_actions: "reA (ceRS E) = veA (ceVC E)"
    and rd_codec: "codec_ok (ceL E) (reDetails (ceRS E)) rd_ok"

sublocale cond_cells \<subseteq> rs: rs_cells "ceRS E" bview sview addr_bits
  using cell_library_axioms hash_32 rd_codec
  by (simp add: rs_cells_def rs_cells_axioms_def same_actions)

context cond_cells
begin

lemma cond_roundtrip:
  assumes "cond_ok E c" "Action_Serialize (ceA E) (Cond_GetAction c) = Inr a"
    and "actions (CellHash (ceL E) a) = Inr (Cond_GetAction c)"
  shows "\<exists>cl. Cond_Serialize E c = Inr cl \<and> (cond_only E (Cond_kind c) cl \<longrightarrow> CodeToConditional E actions cl = Inr c)"
proof (cases c)
  case (VCond v)
  with assms VC_codec [of v a actions] obtain cl where cl: "VC_Serialize (ceVC E) v = Inr cl"
    "VC_Parse (ceVC E) actions (BeginParse (ceL E) cl) = Inr v"
    "virtualChannelUniversalStaticCode (ceVC E) \<in> set (reach 2 (ceL E) cl)"
    by (auto simp: code_ok_def)
  from CodeToConditional_codec [where con = VCond and k = KVirtualChannel and E = E and actions = actions
      and parse = "VC_Parse (ceVC E) actions", OF cl(2,3)] cl(1) VCond show ?thesis
    by (simp add: ConditionalTypes_def Let_def)
next
  case (RCond v)
  with assms rs.RS_codec [of v a actions] obtain cl where cl: "RS_Serialize (ceRS E) v = Inr cl"
    "RS_Parse (ceRS E) actions (BeginParse (ceL E) cl) = Inr v"
    "resolvableStaticCode (ceRS E) \<in> set (reach 2 (ceL E) cl)"
    by (auto simp: code_ok_def same_actions)
  from CodeToConditional_codec [where con = RCond and k = KResolvable and E = E and actions = actions
      and parse = "RS_Parse (ceRS E) actions", OF cl(2,3)] cl(1) RCond show ?thesis
    by (simp add: ConditionalTypes_def Let_def)
qed

end

section \<open>Real cells\<close>

definition rdetails_cell :: "ConditionalResolvableDetails \<Rightarrow> tcell" where
  "rdetails_cell d = TCell (nat_bits 32 (unat (rdAssetID d)) @ [rdIsLong d] @ nat_bits 16 (unat (rdLeverage d)) @
     coins_bits (rdEntryPrice d)) []"

definition ton_rdetails :: "(tdata, tcell, ConditionalResolvableDetails) codec" where
  "ton_rdetails = \<lparr>
     LoadFromCell = (\<lambda>s. rbind (t_take 32 s) (\<lambda>(a, s). rbind (t_take 1 s) (\<lambda>(l, s).
        rbind (t_take 16 s) (\<lambda>(v, s). rbind (load_coins s) (\<lambda>(p, s).
          Inr (\<lparr>rdAssetID = of_nat (bits_nat a), rdIsLong = hd l, rdLeverage = of_nat (bits_nat v), rdEntryPrice = p\<rparr>, s)))))),
     ToCell = (\<lambda>d. if rd_ok d then Inr (rdetails_cell d) else Inl (Panic ''coins''))\<rparr>"

lemma word_bits: "bits_nat (nat_bits (LENGTH('a)) (unat w)) = unat (w :: 'a::len word)"
  using unsigned_less [of w, where ?'a = nat] by (simp add: bits_nat_nat_bits)

lemma ton_rdetails_ok: "codec_ok (ton_cells h) ton_rdetails rd_ok"
proof -
  have "LoadState (ton_cells h) ton_rdetails (rdetails_cell d) = Inr d" if "rd_ok d" for d
    using that load_coins_field [of "rdEntryPrice d" "[]" "[]"] word_bits [of "rdAssetID d"] word_bits [of "rdLeverage d"]
    by (simp add: LoadState_def ton_rdetails_def ton_cells_def rd_ok_def rdetails_cell_def t_take_def)
  then show ?thesis by (simp add: codec_ok_def ton_rdetails_def)
qed

definition rstate_cell :: "ResolvableState \<Rightarrow> tcell" where
  "rstate_cell st = TCell (byte_bits (rsKey st) @ nat_bits 128 (nat (rsAmount st)) @ int_bits 64 (rsAt st)) []"

definition rstate_ok :: "ResolvableState \<Rightarrow> bool" where
  "rstate_ok st \<longleftrightarrow> length (rsKey st) = 32 \<and> 0 \<le> rsAmount st \<and> rsAmount st < 2 ^ 128 \<and> fits 64 (rsAt st)"

definition ton_rstate :: "(tdata, tcell, ResolvableState) codec" where
  "ton_rstate = \<lparr>
     LoadFromCell = (\<lambda>s. rbind (t_take 256 s) (\<lambda>(k, s). rbind (t_take 128 s) (\<lambda>(a, s).
        rbind (t_take 64 s) (\<lambda>(t, s).
          Inr (\<lparr>rsKey = bits_bytes 32 k, rsAmount = int (bits_nat a), rsAt = bits_int t\<rparr>, s))))),
     ToCell = (\<lambda>st. if rstate_ok st then Inr (rstate_cell st) else Inl (Panic ''state''))\<rparr>"

lemma ton_rstate_load: "rstate_ok st \<Longrightarrow> LoadState (ton_cells h) ton_rstate (rstate_cell st) = Inr st"
proof -
  assume ok: "rstate_ok st"
  then have "nat (rsAmount st) < 2 ^ 128" by (simp add: rstate_ok_def nat_less_iff)
  then have "int (bits_nat (nat_bits 128 (nat (rsAmount st)))) = rsAmount st"
    using ok by (simp add: bits_nat_nat_bits rstate_ok_def)
  with ok bits_bytes_byte_bits [of "rsKey st" "[]"] show ?thesis
    by (simp add: LoadState_def ton_rstate_def ton_cells_def rstate_ok_def rstate_cell_def t_take_def bits_int_int_bits)
qed

definition ton_rs_env ::
  "(tdata, tdata, tcell) act_env \<Rightarrow> (tdata, tcell, tcell ResolvableInstructionDetails) codec \<Rightarrow>
   (tcell \<Rightarrow> tcell \<Rightarrow> tcell res) \<Rightarrow> tcell \<Rightarrow> tcell \<Rightarrow> (uint32 \<Rightarrow> tcell Resolver option) \<Rightarrow> (tdata, tdata, tcell) rs_env" where
  "ton_rs_env A ins si dcode code pr = \<lparr>reA = A, reDetails = ton_rdetails, reInstr = ins, reState = ton_rstate,
     reStateInit = si, reDerivativeCode = dcode, resolvableStaticCode = code, rePriceResolvers = pr\<rparr>"

interpretation ton_cond: cond_cells "\<lparr>ceVC = ton_vc_env (ton_env (sized h) adr codes) ver sig mfn vcode,
    ceRS = ton_rs_env (ton_env (sized h) adr codes) ins si dcode rcode pr\<rparr>" "\<lambda>b. b" "\<lambda>s. s" t_addr_bits
  for h adr codes ver sig mfn vcode ins si dcode rcode pr
  using ton_vc.vc_cells_axioms ton_rdetails_ok
  by (simp add: cond_cells_def cond_cells_axioms_def ton_rs_env_def ton_vc_env_def)

text \<open>Sample derivative: a short of 50 at entry price 100 with leverage 2, while the oracle says 110.\<close>

definition ex_ring :: "tcell Resolver" where
  "ex_ring = (emptyResolver [])\<lparr>rPrices := (replicate 120 None)[40 := Some 110],
     rTimestamps := (replicate 120 0)[40 := 1000], rLatest := 1000\<rparr>"

definition ex_instr :: "(tdata, tcell, tcell ResolvableInstructionDetails) codec" where
  "ex_instr = \<lparr>LoadFromCell = (\<lambda>s. Inl (Errorf ''no instruction'')), ToCell = (\<lambda>d. Inl (Errorf ''no instruction''))\<rparr>"

definition ex_rs_env :: "tcell Resolver option \<Rightarrow> (tdata, tdata, tcell) rs_env" where
  "ex_rs_env r = ton_rs_env ex_env ex_instr (\<lambda>_ c. Inr c) (ex_code 0) (ex_code 7) (\<lambda>_. r)"

definition ex_cond_env :: "tcell Resolver option \<Rightarrow> (tdata, tdata, tcell) cond_env" where
  "ex_cond_env r = \<lparr>ceVC = ex_vc_env, ceRS = ex_rs_env r\<rparr>"

definition ex_rs :: "tcell Resolver option \<Rightarrow> bool \<Rightarrow> tcell ConditionalResolvable" where
  "ex_rs r long = \<lparr>crKey = be_put 32 9, crAmount = 50, crFee = 5, crIsInitiator = True, crResolverAddr = Some (ex_addr 3),
     crDetails = \<lparr>rdAssetID = 1, rdIsLong = long, rdLeverage = 2, rdEntryPrice = 100\<rparr>,
     crPriceResolver = Some r, crAction = ex_act\<rparr>"

definition ex_rstate :: "int \<Rightarrow> ResolvableState" where
  "ex_rstate v = \<lparr>rsKey = be_put 32 9, rsAmount = v, rsAt = 1000\<rparr>"

lemma ex_rs_sel [simp]:
  "crAction (ex_rs r l) = ex_act" "crAmount (ex_rs r l) = 50" "crFee (ex_rs r l) = 5" "crIsInitiator (ex_rs r l)"
  "crPriceResolver (ex_rs r l) = Some r" "crKey (ex_rs r l) = be_put 32 9" "rdEntryPrice (crDetails (ex_rs r l)) = 100"
  "rdIsLong (crDetails (ex_rs r l)) = l" "rdLeverage (crDetails (ex_rs r l)) = 2"
  by (simp_all add: ex_rs_def)

lemma ex_rs_env_sel [simp]:
  "reA (ex_rs_env r) = ex_env" "reState (ex_rs_env r) = ton_rstate" "ceVC (ex_cond_env r) = ex_vc_env"
  "ceRS (ex_cond_env r) = ex_rs_env r"
  by (simp_all add: ex_rs_env_def ton_rs_env_def ex_cond_env_def)

lemma ex_ring_read [simp]: "GetPriceAt (Some ex_ring) 1000 = Inr 110" "GetLastPrice (Some ex_ring) = Inr (1000, 110)"
proof -
  have "ring_abs ex_ring 1000 = Some 110" by (simp add: ring_abs_def slot_def ex_ring_def emptyResolver_def)
  moreover have "rLatest ex_ring = 1000" by (simp add: ex_ring_def)
  ultimately show "GetPriceAt (Some ex_ring) 1000 = Inr 110" "GetLastPrice (Some ex_ring) = Inr (1000, 110)"
    by (simp_all add: GetPriceAt_abs GetLastPrice_def ring_slot_abs i64_id)
qed

lemma ex_roi [simp]: "rs_roi (ex_rs r False) 110 = - 10" "rs_roi (ex_rs r True) 110 = 10"
  by (simp_all add: rs_roi_def go_div_def)

lemma ex_rstate_load [simp]:
  "0 \<le> v \<Longrightarrow> v < 2 ^ 128 \<Longrightarrow> LoadState (ton_cells ex_hash) ton_rstate (rstate_cell (ex_rstate v)) = Inr (ex_rstate v)"
  by (rule ton_rstate_load) (simp add: rstate_ok_def ex_rstate_def fits_def)

lemma ex_rstate_sel [simp]: "rsAmount (ex_rstate v) = v" "rsKey (ex_rstate v) = be_put 32 9" "rsAt (ex_rstate v) = 1000"
  by (simp_all add: ex_rstate_def)

lemma ex_rs_valid:
  "RS_ValidateState (ex_rs_env (Some ex_ring)) (ex_rs (Some ex_ring) False) None (rstate_cell (ex_rstate 10)) = Inr ()"
  "RS_ValidateState (ex_rs_env (Some ex_ring)) (ex_rs (Some ex_ring) True) None (rstate_cell (ex_rstate 0)) = Inr ()"
  by (simp_all add: i64_id RS_ValidateState_def rs_expected_def derivativeResolveAcceptanceWindowSec_def Let_def
      del: rbind_Inr rwrap_Inr)

section \<open>Properties\<close>

text \<open>C31: Every well-formed conditional survives its code cell: it serialises without panicking, and
  as long as no other registered static code occurs in the cell, \<open>CodeToConditional\<close> recognises its
  type and parses back exactly the same conditional.\<close>

theorem conditional_code_roundtrip:
  assumes "cond_cells E bview sview addr_bits" "cond_ok E c"
    and "Action_Serialize (ceA E) (Cond_GetAction c) = Inr a"
    and "actions (CellHash (ceL E) a) = Inr (Cond_GetAction c)"
  shows "\<exists>cl. Cond_Serialize E c = Inr cl \<and> (cond_only E (Cond_kind c) cl \<longrightarrow> CodeToConditional E actions cl = Inr c)"
  using assms by (rule cond_cells.cond_roundtrip)

lemma ex_cond_cells: "cond_cells (ex_cond_env None) (\<lambda>b. b) (\<lambda>s. s) t_addr_bits"
proof -
  have s: "sized ex_hash = ex_hash" by (rule sized_id) (rule ex_hash_32)
  show ?thesis
    using ton_cond.cond_cells_axioms [of ex_hash hex_encode ex_code "\<lambda>k m s. s = zeros 64" "\<lambda>k m. zeros 64" "\<lambda>v n. Inr v"
        "ex_code 6" ex_instr "\<lambda>_ c. Inr c" "ex_code 0" "ex_code 7" "\<lambda>_. None"]
    by (simp add: s ex_cond_env_def ex_rs_env_def ex_vc_env_def ex_env_def)
qed

lemma ex_vc_cond_ok: "cond_ok (ex_cond_env None) (VCond ex_vc)"
  by (simp add: vc_ok_def coins_ok_def ex_vc_def)

lemma ex_cond_only:
  assumes "Cond_Serialize (ex_cond_env None) (VCond ex_vc) = Inr cl"
  shows "cond_only (ex_cond_env None) KVirtualChannel cl"
proof -
  obtain a where a: "Action_Serialize ex_env ex_act = Inr a" using ex_act_ser by auto
  have "vc_cells ex_vc_env (\<lambda>b. b) (\<lambda>s. s) t_addr_bits" using ex_cond_cells by (simp add: cond_cells_def)
  from vc_cells.VC_cell_refs [OF this, of ex_vc a] ex_vc_cond_ok a assms
  have refs: "CellRefs (ton_cells ex_hash) cl = [ex_code 6]"
    by (auto simp: ex_vc_env_def ton_vc_env_def)
  have "set (reach maxCellDepth (ton_cells ex_hash) cl) = {ex_code 6}"
    using refs by (subst reach_flat) (auto simp: maxCellDepth_def ton_cells_def ex_code_def)
  moreover have "ex_hash (ex_code 6) \<noteq> ex_hash (ex_code 7)"
    by (simp add: ex_code_def bits_nat_nat_bits del: nat_bits.simps) (auto dest: be_put_inj [rotated 2])
  ultimately show ?thesis
    by (auto simp: cond_only_def ConditionalTypes_def ton_cells_def ex_vc_env_def ton_vc_env_def ex_rs_env_def
        ton_rs_env_def ex_cond_env_def split: if_splits)
qed

lemma ex_vc_code:
  obtains cl where "Cond_Serialize (ex_cond_env None) (VCond ex_vc) = Inr cl"
    "CodeToConditional (ex_cond_env None) (\<lambda>_. Inr ex_act) cl = Inr (VCond ex_vc)"
proof -
  obtain a where a: "Action_Serialize (ceA (ex_cond_env None)) (Cond_GetAction (VCond ex_vc :: tcell conditional)) = Inr a" using ex_act_ser by auto
  from cond_cells.cond_roundtrip [OF ex_cond_cells ex_vc_cond_ok a, of "\<lambda>_. Inr ex_act"] ex_cond_only that
  show thesis by fastforce
qed

theorem conditional_code_roundtrip_witness:
  "\<exists>cl. Cond_Serialize (ex_cond_env None) (VCond ex_vc) = Inr cl \<and>
     CodeToConditional (ex_cond_env None) (\<lambda>_. Inr ex_act) cl = Inr (VCond ex_vc)"
proof -
  obtain a where a: "Action_Serialize (ceA (ex_cond_env None)) (Cond_GetAction (VCond ex_vc :: tcell conditional)) = Inr a" using ex_act_ser by auto
  from conditional_code_roundtrip [OF ex_cond_cells ex_vc_cond_ok a, of "\<lambda>_. Inr ex_act"] ex_cond_only
  show ?thesis by fastforce
qed

text \<open>C34: A cell in which no registered static code occurs makes \<open>CodeToConditional\<close>, and with it the
  lookup of a conditional, panic on a nil interface instead of returning an error, as
  \<open>CodeToAction\<close> does in the same situation.\<close>

theorem unknown_conditional_panics:
  assumes "\<And>c. c \<in> set (reach maxCellDepth (ceL E) code) \<Longrightarrow> ConditionalTypes E (CellHash (ceL E) c) = None"
    and "\<And>c. c \<in> set (reach maxCellDepth (ceL E) code) \<Longrightarrow> ActionTypes (ceA E) (CellHash (ceL E) c) = None"
    and "end_cell (ceL E) (MustStoreSlice (ceL E) (BeginCell (ceL E)) cid 256) = Inr idx"
    and "LoadValue D conds idx = Inr sl" "MustToCell (ceL E) sl = code"
  shows "FindConditional E D conds cid actions = Inl (Panic ''nil pointer dereference'') \<and>
    CodeToAction (ceA E) rb code = Inl (Errorf ''unknown action type'')"
proof -
  have "DetectConditionalType E code = None" "DetectActionType (ceA E) code = None"
    using assms(1,2) by (auto simp: DetectConditionalType_def DetectActionType_def DetectType_None)
  with assms(3-5) show ?thesis
    by (simp add: FindConditional_def CodeToConditional_def CodeToAction_def wrapf_def)
qed

text \<open>A dictionary as a list of key and value cells.\<close>

definition ton_dict :: "((tcell \<times> tcell) list, tdata, tcell) dict_lib" where
  "ton_dict = \<lparr>LoadValue = (\<lambda>m k. case map_of m k of None \<Rightarrow> Inl ErrNoSuchKeyInDict | Some v \<Rightarrow> Inr (open_cell v)),
     LoadAll = (\<lambda>m. Inr (map (\<lambda>(k, v). (open_cell k, open_cell v)) m)),
     DictSet = (\<lambda>m k v. Inr (AList.update k v m)), DictDelete = (\<lambda>m k. Inr (AList.delete k m)),
     DictIsEmpty = (\<lambda>m. m = []), DictAsCell = (\<lambda>m. TCell [] (concat (map (\<lambda>(k, v). [k, v]) m)))\<rparr>"

theorem unknown_conditional_panics_witness:
  "FindConditional (ex_cond_env None) ton_dict [(TCell (byte_bits (zeros 32)) [], TCell [] [])] (zeros 32) (\<lambda>_. Inr ex_act) =
     Inl (Panic ''nil pointer dereference'') \<and>
   CodeToAction ex_env (\<lambda>_. Inr ex_coin) (TCell [] []) = Inl (Errorf ''unknown action type'')"
proof -
  have r: "reach n (ton_cells ex_hash) (TCell [] []) = []" for n by (rule reach_leaf) (simp add: ton_cells_def)
  have k: "end_cell (ton_cells ex_hash) (MustStoreSlice (ton_cells ex_hash) (BeginCell (ton_cells ex_hash)) (zeros 32) 256) =
      Inr (TCell (byte_bits (zeros 32)) [])"
    by (simp add: ton_cells_def end_cell_def t_append_def cat_def close_cell_def)
  have l: "LoadValue ton_dict [(TCell (byte_bits (zeros 32)) [], TCell [] [])] (TCell (byte_bits (zeros 32)) []) = Inr ([], [])"
    by (simp add: ton_dict_def)
  show ?thesis
    using unknown_conditional_panics [of "ex_cond_env None" "TCell [] []" "zeros 32" "TCell (byte_bits (zeros 32)) []"
        ton_dict _ "([], [])" "\<lambda>_. Inr ex_act" "\<lambda>_. Inr ex_coin", OF _ _ _ l] k
    by (simp add: r) (simp add: ton_cells_def close_cell_def)
qed

text \<open>C10: The settlement of a validated derivative conditional goes through and is covered by the
  collateral the balance emulation locks, whatever the current price: the payer's available balance
  does not drop below what it was while the conditional was open.\<close>

theorem derivative_settlement_covered:
  assumes "codec_ok (reL (ceRS E)) (aeSend (reA (ceRS E))) send_ok" "rs_wf c"
    and "RS_ValidateState (ceRS E) c None cs = Inr ()"
    and "LoadState (reL (ceRS E)) (aeSend (reA (ceRS E))) st = Inr s" "send_ok s"
    and "sasAmount s + rs_locked now c < 2 ^ 120"
    and "a = crAction c" "Action_balance_id a = BalanceID (Action_coin a)"
    and "\<And>b. bals (BalanceID (Action_coin a)) = Some b \<Longrightarrow> 0 \<le> ConditionalLocked b"
    and "Action_EmulateBalance (reA (ceRS E)) a st bals fromUs = Inr b1"
    and "Cond_EmulateBalance now (RCond c) b1 fromUs = Inr b2"
  shows "\<exists>st' l b3. executeConditionalSettlement E (RCond c) st cs lck = Inr (st', l) \<and>
    Action_EmulateBalance (reA (ceRS E)) a st' bals fromUs = Inr b3 \<and> (\<forall>k. Available (b2 k) \<le> Available (b3 k))"
proof -
  have acc: "rs_accepted (ceRS E) c cs" using assms(2,3) by (simp add: rs_accepted_def)
  from assms(3) obtain x where x: "LoadState (reL (ceRS E)) (reState (ceRS E)) cs = Inr x" by (rule RS_ValidateState_Inr)
  have e: "RS_EmulateBalance now c b1 fromUs = Inr b2" using assms(11) by simp
  from rs_lock.settlement_covered [OF assms(1) acc assms(2,4-10) e]
  obtain st' l b3 where r: "RS_Execute (ceRS E) c st cs lck = Inr (st', l)"
    "Action_EmulateBalance (reA (ceRS E)) a st' bals fromUs = Inr b3" "\<forall>k. Available (b2 k) \<le> Available (b3 k)" by blast
  show ?thesis
  proof (cases "rsAmount x = 0")
    case True
    have pos: "0 \<le> ConditionalLocked b" if "b1 (BalanceID (Action_coin (crAction c))) = Some b" for b
      using that assms(4,8,9,10) unfolding assms(7) [symmetric]
      by (auto simp: act.emulate_eq bal_entry_def NewBalanceInfo_def split: option.splits)
    have "0 \<le> rs_locked now c" using assms(2) by (simp add: rs_locked_def rs_lock_nonneg)
    with rs_lock.emulate_lock [OF assms(2) e pos] have "\<forall>k. Available (b2 k) \<le> Available (b1 k)" by simp
    with True x assms(10) show ?thesis by (auto simp: executeConditionalSettlement_def)
  next
    case False
    with r x show ?thesis by (auto simp: executeConditionalSettlement_def)
  qed
qed

theorem derivative_settlement_covered_witness:
  "\<exists>b1 b2 st' l b3. Action_EmulateBalance ex_env ex_act (send_cell (ex_send 1)) (ex_bals 100) True = Inr b1 \<and>
    RS_EmulateBalance (unix 1000) (ex_rs (Some ex_ring) False) b1 True = Inr b2 \<and>
    executeConditionalSettlement (ex_cond_env (Some ex_ring)) (RCond (ex_rs (Some ex_ring) False)) (send_cell (ex_send 1))
      (rstate_cell (ex_rstate 10)) None = Inr (st', l) \<and>
    Action_EmulateBalance ex_env ex_act st' (ex_bals 100) True = Inr b3 \<and>
    Available (b2 GetTONBalanceID) \<le> Available (b3 GetTONBalanceID)"
proof -
  let ?c = "ex_rs (Some ex_ring) False"
  have l: "LoadState (ton_cells ex_hash) ton_send (send_cell (ex_send 1)) = Inr (ex_send 1)" by (simp add: ton_send_load)
  have p: "getBestEffortCurrentPrice (Some ex_ring) (unix 1000) = Inr 110" by (simp add: getBestEffortCurrentPrice_def Let_def)
  obtain b1 where b1: "Action_EmulateBalance ex_env ex_act (send_cell (ex_send 1)) (ex_bals 100) True = Inr b1"
    using l by (simp add: act.emulate_eq)
  from b1 obtain e where "b1 GetTONBalanceID = Some e" using l by (auto simp: act.emulate_eq)
  then obtain b2 where b2: "RS_EmulateBalance (unix 1000) ?c b1 True = Inr b2"
    by (simp add: RS_EmulateBalance_def GetAffectedCoins_def ResolveActionBalance_single p Let_def)
  show ?thesis
    using derivative_settlement_covered [of "ex_cond_env (Some ex_ring)" ?c "rstate_cell (ex_rstate 10)"
        "send_cell (ex_send 1)" "ex_send 1" "unix 1000" ex_act "ex_bals 100" True b1 b2 None] b1 b2 l ex_rs_valid(1) p
    by (auto simp: ton_send_ok rs_wf_def rs_locked_def rs_lock_def Let_def)
qed

text \<open>Opposite positions are zero-sum: of two validated states of a long and a short with the same
  collateral, leverage and entry price at the same price, at most one pays more than the rounding
  unit, and neither pays more than its collateral plus that unit.\<close>

lemma derivative_zero_sum:
  assumes "opposite c d" "0 < crAmount c" "crPriceResolver c = crPriceResolver d"
    and "RS_ValidateState E c None cs = Inr ()" "RS_ValidateState E d None ds = Inr ()"
    and "LoadState (reL E) (reState E) cs = Inr x" "LoadState (reL E) (reState E) ds = Inr y" "rsAt x = rsAt y"
  shows "min (rsAmount x) (rsAmount y) \<le> 1 \<and> rsAmount x \<le> crAmount c + 1 \<and> rsAmount y \<le> crAmount d + 1"
proof -
  obtain ro p where 1: "crPriceResolver c = Some ro" "GetPriceAt ro (rsAt x) = Inr p" "\<bar>rsAmount x - rs_expected c p\<bar> \<le> 1"
    using assms(4,6) by (auto elim!: RS_ValidateState_Inr)
  obtain ro' p' where 2: "crPriceResolver d = Some ro'" "GetPriceAt ro' (rsAt y) = Inr p'" "\<bar>rsAmount y - rs_expected d p'\<bar> \<le> 1"
    using assms(5,7) by (auto elim!: RS_ValidateState_Inr)
  have "p' = p" using 1 2 assms(3,8) by simp
  moreover have "rs_expected c p \<le> crAmount c" "rs_expected d p \<le> crAmount d"
    using rs_expected_bounds assms(1,2) by (metis opposite_def)+
  ultimately show ?thesis using opposite_expected [OF assms(1), of p] 1(3) 2(3) by auto
qed

text \<open>C35: A derivative conditional whose asset has no registered price resolver passes the parser with
  an interface that holds a nil pointer, so the check for a missing resolver never fires and the
  balance emulation panics on a nil dereference.\<close>

theorem unknown_asset_panics:
  assumes "RS_Parse E actions s = Inr c" "rePriceResolvers E (rdAssetID (crDetails c)) = None"
    and "bals (BalanceID (Action_coin (crAction c))) = Some b"
  shows "crPriceResolver c \<noteq> None \<and> RS_EmulateBalance now c bals fromUs = Inl (Panic ''nil pointer dereference'')"
proof -
  from assms(1,2) have "crPriceResolver c = Some None"
    by (auto simp: RS_Parse_def Let_def split: if_splits)
  with assms(3) show ?thesis
    by (simp add: RS_EmulateBalance_def GetAffectedCoins_def ResolveActionBalance_single
        getBestEffortCurrentPrice_def GetPriceAt_def wrapf_def Let_def)
qed

theorem unknown_asset_panics_witness:
  "\<exists>s. RS_Parse (ex_rs_env None) (\<lambda>_. Inr ex_act) s = Inr (ex_rs None True) \<and>
     RS_EmulateBalance 0 (ex_rs None True) (ex_bals 100) True = Inl (Panic ''nil pointer dereference'')"
proof -
  have sz: "sized ex_hash = ex_hash" by (rule sized_id) (rule ex_hash_32)
  obtain a where a: "Action_Serialize ex_env ex_act = Inr a" using ex_act_ser by blast
  have ok: "rs_ok (ex_rs_env None) (ex_rs None True)"
    by (simp add: rs_ok_def coins_ok_def rd_ok_def addr_ok_def ex_addr_def ex_rs_def ex_rs_env_def ton_rs_env_def)
  have "\<exists>s. RS_Parse (ex_rs_env None) (\<lambda>_. Inr ex_act) s = Inr (ex_rs None True)"
    using ton_cond.rs.RS_codec [where h = ex_hash and adr = hex_encode and codes = ex_code and ins = ex_instr and
        si = "\<lambda>_ c. Inr c" and dcode = "ex_code 0" and rcode = "ex_code 7" and pr = "\<lambda>_. None" and
        c = "ex_rs None True" and a = a and actions = "\<lambda>_. Inr ex_act"] a ok
    by (auto simp: sz ex_rs_env_def ex_env_def ton.code_ok_def ton_rs_env_def simp del: split_paired_Ex)
  then obtain s where s: "RS_Parse (ex_rs_env None) (\<lambda>_. Inr ex_act) s = Inr (ex_rs None True)" by blast
  from unknown_asset_panics [OF s, of "ex_bals 100" _ 0 True] s show ?thesis
    by (intro exI [of _ s]) (simp add: ex_rs_env_def ton_rs_env_def)
qed

end
