(* ===== verification/Store.thy ===== *)
theory Store
  imports Prelude
begin

text \<open>
  The key-value storage of the node: \<^verbatim>\<open>tonpayments/db/leveldb/db.go\<close> behind the \<open>Executor\<close> and
  \<open>Storage\<close> interfaces of \<^verbatim>\<open>tonpayments/db/db.go\<close>. The LevelDB library is a parameter; what the
  code relies on is the locale \<open>leveldb_laws\<close>. A database operation maps an executor (the database
  itself, or an open transaction) to its result and the executor afterwards.
\<close>

section \<open>The LevelDB library\<close>

datatype batch_op = BPut bytes bytes | BDelete bytes

text \<open>
  Handles of type \<open>'d\<close> (the database) and \<open>'s\<close> (a snapshot). An iterator over a key prefix is the
  list of entries it visits in ascending order and the error it reports at the end.
\<close>

record ('d, 's) leveldb =
  DbGet :: "'d \<Rightarrow> bytes \<Rightarrow> bytes res"
  DbHas :: "'d \<Rightarrow> bytes \<Rightarrow> bool res"
  DbIter :: "'d \<Rightarrow> bytes \<Rightarrow> (bytes \<times> bytes) list \<times> gerror option"
  DbPut :: "'d \<Rightarrow> bytes \<Rightarrow> bytes \<Rightarrow> unit res \<times> 'd"
  DbDelete :: "'d \<Rightarrow> bytes \<Rightarrow> unit res \<times> 'd"
  DbWrite :: "'d \<Rightarrow> batch_op list \<Rightarrow> unit res \<times> 'd"
  GetSnapshot :: "'d \<Rightarrow> 's res"
  SnapGet :: "'s \<Rightarrow> bytes \<Rightarrow> bytes res"
  SnapHas :: "'s \<Rightarrow> bytes \<Rightarrow> bool res"
  SnapIter :: "'s \<Rightarrow> bytes \<Rightarrow> (bytes \<times> bytes) list \<times> gerror option"

section \<open>Executors and database programs\<close>

text \<open>A transaction reads from its snapshot and records its writes in a batch.\<close>

datatype ('d, 's) executor = OnDB 'd | OnTx 'd 's "batch_op list"

type_synonym ('d, 's, 'a) dbm = "('d, 's) executor \<Rightarrow> 'a res \<times> ('d, 's) executor"

definition dret :: "'a \<Rightarrow> ('d, 's, 'a) dbm" where
  "dret x e = (Inr x, e)"

definition dlift :: "'a res \<Rightarrow> ('d, 's, 'a) dbm" where
  "dlift r e = (r, e)"

definition dbind :: "('d, 's, 'a) dbm \<Rightarrow> ('a \<Rightarrow> ('d, 's, 'b) dbm) \<Rightarrow> ('d, 's, 'b) dbm" where
  "dbind m f e = (case m e of (Inl err, e') \<Rightarrow> (Inl err, e') | (Inr x, e') \<Rightarrow> f x e')"

definition dwrap :: "string \<Rightarrow> ('d, 's, 'a) dbm \<Rightarrow> ('d, 's, 'a) dbm" where
  "dwrap msg m e = (case m e of (r, e') \<Rightarrow> (rwrap msg r, e'))"

definition dcatch :: "('d, 's, 'a) dbm \<Rightarrow> (gerror \<Rightarrow> ('d, 's, 'a) dbm) \<Rightarrow> ('d, 's, 'a) dbm" where
  "dcatch m h e = (case m e of (Inl err, e') \<Rightarrow> h err e' | (Inr x, e') \<Rightarrow> (Inr x, e'))"

text \<open>Programs are unfolded only when they run on an executor.\<close>

lemmas dbm_defs = dret_def dlift_def dbind_def dwrap_def dcatch_def
lemmas dbm_simps [simp] =
  dbm_defs [where e = "OnDB d" for d] dbm_defs [where e = "OnTx d s b" for d s b]

lemma exec_if:
  "(if c then f else g) (OnDB d) = (if c then f (OnDB d) else g (OnDB d))"
  "(if c then f else g) (OnTx d s b) = (if c then f (OnTx d s b) else g (OnTx d s b))"
  by simp_all

text \<open>\<open>batchWrap\<close>: writes of a transaction must be synchronous.\<close>

definition batchWrap_Put :: "batch_op list \<Rightarrow> bytes \<Rightarrow> bytes \<Rightarrow> bool \<Rightarrow> unit res \<times> batch_op list" where
  "batchWrap_Put b k v sync = (if \<not> sync then (Inl (Panic ''must be sync write''), b) else (Inr (), b @ [BPut k v]))"

definition batchWrap_Delete :: "batch_op list \<Rightarrow> bytes \<Rightarrow> bool \<Rightarrow> unit res \<times> batch_op list" where
  "batchWrap_Delete b k sync = (if \<not> sync then (Inl (Panic ''must be sync write''), b) else (Inr (), b @ [BDelete k]))"

fun Executor_Put :: "('d, 's) leveldb \<Rightarrow> bytes \<Rightarrow> bytes \<Rightarrow> ('d, 's, unit) dbm" where
  "Executor_Put L k v (OnDB d) = (case DbPut L d k v of (r, d') \<Rightarrow> (r, OnDB d'))"
| "Executor_Put L k v (OnTx d s b) = (case batchWrap_Put b k v True of (r, b') \<Rightarrow> (r, OnTx d s b'))"

fun Executor_Delete :: "('d, 's) leveldb \<Rightarrow> bytes \<Rightarrow> ('d, 's, unit) dbm" where
  "Executor_Delete L k (OnDB d) = (case DbDelete L d k of (r, d') \<Rightarrow> (r, OnDB d'))"
| "Executor_Delete L k (OnTx d s b) = (case batchWrap_Delete b k True of (r, b') \<Rightarrow> (r, OnTx d s b'))"

definition not_found :: "'a res \<Rightarrow> 'a res" where
  "not_found r = (case r of Inl err \<Rightarrow> Inl (if errors_is err LevelErrNotFound then DbErrNotFound else err) | Inr v \<Rightarrow> Inr v)"

fun Executor_Get :: "('d, 's) leveldb \<Rightarrow> bytes \<Rightarrow> ('d, 's, bytes) dbm" where
  "Executor_Get L k (OnDB d) = (not_found (DbGet L d k), OnDB d)"
| "Executor_Get L k (OnTx d s b) = (not_found (SnapGet L s k), OnTx d s b)"

fun Executor_Has :: "('d, 's) leveldb \<Rightarrow> bytes \<Rightarrow> ('d, 's, bool) dbm" where
  "Executor_Has L k (OnDB d) = (DbHas L d k, OnDB d)"
| "Executor_Has L k (OnTx d s b) = (SnapHas L s k, OnTx d s b)"

text \<open>
  Everything an iterator delivers, and its final error. A reverse iterator starts at the last entry,
  delivers it first (\<open>reverseIterator.first\<close>) and then walks backwards.
\<close>

definition iter_order :: "bool \<Rightarrow> (bytes \<times> bytes) list \<Rightarrow> (bytes \<times> bytes) list" where
  "iter_order forward kvs = (if forward then kvs else rev kvs)"

fun NewIterator :: "('d, 's) leveldb \<Rightarrow> bytes \<Rightarrow> bool \<Rightarrow> ('d, 's, (bytes \<times> bytes) list \<times> gerror option) dbm" where
  "NewIterator L p forward (OnDB d) = (case DbIter L d p of (kvs, err) \<Rightarrow> (Inr (iter_order forward kvs, err), OnDB d))"
| "NewIterator L p forward (OnTx d s b) =
     (case SnapIter L s p of (kvs, err) \<Rightarrow> (Inr (iter_order forward kvs, err), OnTx d s b))"

fun tx_batch :: "('d, 's) executor \<Rightarrow> batch_op list" where
  "tx_batch (OnTx d s b) = b"
| "tx_batch (OnDB d) = []"

text \<open>
  \<open>Transaction\<close>: inside a transaction the body joins it; otherwise the body runs on a snapshot, and
  its batch is written when it succeeds. An error or a panic drops the batch.
\<close>

definition Transaction :: "('d, 's) leveldb \<Rightarrow> ('d, 's, 'a) dbm \<Rightarrow> ('d, 's, 'a) dbm" where
  "Transaction L f e = (case e of
     OnTx d s b \<Rightarrow> f e
   | OnDB d \<Rightarrow> (case rwrap ''failed to get db snapshot'' (GetSnapshot L d) of
       Inl err \<Rightarrow> (Inl err, OnDB d)
     | Inr snap \<Rightarrow> (case f (OnTx d snap []) of
         (Inl err, _) \<Rightarrow> (Inl err, OnDB d)
       | (Inr x, tx) \<Rightarrow> (case DbWrite L d (tx_batch tx) of (r, d') \<Rightarrow>
           (rbind (rwrap ''failed to write batch to db'' r) (\<lambda>_. Inr x), OnDB d')))))"

declare Executor_Put.simps [simp del] Executor_Delete.simps [simp del] Executor_Get.simps [simp del]
  Executor_Has.simps [simp del] NewIterator.simps [simp del]

section \<open>JSON\<close>

text \<open>\<open>json.Marshal\<close> and \<open>json.Unmarshal\<close> at one type of values.\<close>

record 'a json =
  Marshal :: "'a \<Rightarrow> bytes res"
  Unmarshal :: "bytes \<Rightarrow> 'a res"

definition json_ok :: "'a json \<Rightarrow> ('a \<Rightarrow> bool) \<Rightarrow> bool" where
  "json_ok J P \<longleftrightarrow> (\<forall>x. P x \<longrightarrow> (\<exists>d. Marshal J x = Inr d \<and> Unmarshal J d = Inr x))"

lemma json_okD: "json_ok J P \<Longrightarrow> P x \<Longrightarrow> \<exists>d. Marshal J x = Inr d \<and> Unmarshal J d = Inr x"
  by (simp add: json_ok_def)

lemma json_ok_mono: "json_ok J P \<Longrightarrow> (\<And>x. Q x \<Longrightarrow> P x) \<Longrightarrow> json_ok J Q"
  by (auto simp: json_ok_def)

text \<open>A codec for finitely many values: the position in a list.\<close>

definition table_json :: "'a list \<Rightarrow> 'a json" where
  "table_json xs = \<lparr>
     Marshal = (\<lambda>x. case find (\<lambda>i. xs ! i = x) [0..<length xs] of None \<Rightarrow> Inl (Errorf ''unsupported value'')
        | Some i \<Rightarrow> Inr (replicate i CHR ''1'')),
     Unmarshal = (\<lambda>d. if length d < length xs then Inr (xs ! length d) else Inl (Errorf ''invalid character''))\<rparr>"

lemma table_json_ok: "json_ok (table_json xs) (\<lambda>x. x \<in> set xs)"
  unfolding json_ok_def
proof (intro allI impI)
  fix x assume "x \<in> set xs"
  then have "\<exists>i \<in> set [0..<length xs]. xs ! i = x" by (auto simp: in_set_conv_nth)
  then obtain i where i: "find (\<lambda>i. xs ! i = x) [0..<length xs] = Some i"
    using find_None_iff [of "\<lambda>i. xs ! i = x" "[0..<length xs]"] by (cases "find (\<lambda>i. xs ! i = x) [0..<length xs]") auto
  then have "i < length xs" "xs ! i = x" by (auto simp: find_Some_iff)
  with i show "\<exists>d. Marshal (table_json xs) x = Inr d \<and> Unmarshal (table_json xs) d = Inr x"
    by (simp add: table_json_def)
qed

section \<open>What the code relies on\<close>

primrec apply_op :: "batch_op \<Rightarrow> (bytes, bytes) omap \<Rightarrow> (bytes, bytes) omap" where
  "apply_op (BPut k v) m = omap_put k v m"
| "apply_op (BDelete k) m = omap_del k m"

definition apply_batch :: "batch_op list \<Rightarrow> (bytes, bytes) omap \<Rightarrow> (bytes, bytes) omap" where
  "apply_batch b m = fold apply_op b m"

lemma apply_batch_simps [simp]:
  "apply_batch [] m = m" "apply_batch (o' # b) m = apply_batch b (apply_op o' m)"
  "apply_batch (b @ c) m = apply_batch c (apply_batch b m)"
  by (simp_all add: apply_batch_def)

lemma omap_ok_batch [simp, intro]: "omap_ok m \<Longrightarrow> omap_ok (apply_batch b m)"
proof (induction b arbitrary: m)
  case (Cons o' b)
  then show ?case by (cases o') auto
qed simp

definition with_prefix :: "bytes \<Rightarrow> (bytes, bytes) omap \<Rightarrow> (bytes, bytes) omap" where
  "with_prefix p m = filter (\<lambda>kv. prefix p (fst kv)) m"

definition lookup_res :: "(bytes, bytes) omap \<Rightarrow> bytes \<Rightarrow> gerror \<Rightarrow> bytes res" where
  "lookup_res m k err = (case map_of m k of None \<Rightarrow> Inl err | Some v \<Rightarrow> Inr v)"

text \<open>
  The contract: a database is an ordered map from keys to values, a snapshot is the map at the time
  it was taken, a batch applies its operations in order, and none of them fails.
\<close>

locale leveldb_laws =
  fixes L :: "('d, 's) leveldb"
    and view :: "'d \<Rightarrow> (bytes, bytes) omap"
    and sview :: "'s \<Rightarrow> (bytes, bytes) omap"
    and snap :: "'d \<Rightarrow> 's"
  assumes view_ok: "omap_ok (view d)"
    and db_get: "DbGet L d k = lookup_res (view d) k LevelErrNotFound"
    and db_has: "DbHas L d k = Inr (map_of (view d) k \<noteq> None)"
    and db_iter: "DbIter L d p = (with_prefix p (view d), None)"
    and db_put: "fst (DbPut L d k v) = Inr ()" "view (snd (DbPut L d k v)) = omap_put k v (view d)"
    and db_delete: "fst (DbDelete L d k) = Inr ()" "view (snd (DbDelete L d k)) = omap_del k (view d)"
    and db_write: "fst (DbWrite L d b) = Inr ()" "view (snd (DbWrite L d b)) = apply_batch b (view d)"
    and db_snapshot: "GetSnapshot L d = Inr (snap d)" "sview (snap d) = view d"
    and snap_get: "SnapGet L s k = lookup_res (sview s) k LevelErrNotFound"
    and snap_has: "SnapHas L s k = Inr (map_of (sview s) k \<noteq> None)"
    and snap_iter: "SnapIter L s p = (with_prefix p (sview s), None)"
begin

text \<open>What an executor reads, and what the database holds once it is committed.\<close>

fun reads :: "('d, 's) executor \<Rightarrow> (bytes, bytes) omap" where
  "reads (OnDB d) = view d"
| "reads (OnTx d s b) = sview s"

lemma exec_get [simp]: "Executor_Get L k e = (lookup_res (reads e) k DbErrNotFound, e)"
  by (cases e) (auto simp: Executor_Get.simps db_get snap_get lookup_res_def not_found_def split: option.splits)

lemma exec_has [simp]: "Executor_Has L k e = (Inr (map_of (reads e) k \<noteq> None), e)"
  by (cases e) (simp_all add: Executor_Has.simps db_has snap_has)

lemma exec_iter [simp]: "NewIterator L p fwd e = (Inr (iter_order fwd (with_prefix p (reads e)), None), e)"
  by (cases e) (simp_all add: NewIterator.simps db_iter snap_iter)

lemma tx_put [simp]: "Executor_Put L k v (OnTx d s b) = (Inr (), OnTx d s (b @ [BPut k v]))"
  by (simp add: Executor_Put.simps batchWrap_Put_def)

lemma tx_delete [simp]: "Executor_Delete L k (OnTx d s b) = (Inr (), OnTx d s (b @ [BDelete k]))"
  by (simp add: Executor_Delete.simps batchWrap_Delete_def)

lemma tx_join [simp]: "Transaction L f (OnTx d s b) = f (OnTx d s b)"
  by (simp add: Transaction_def)

lemma exec_put: "\<exists>e'. Executor_Put L k v (OnDB d) = (Inr (), OnDB e') \<and> view e' = omap_put k v (view d)"
  using db_put [of d k v] by (cases "DbPut L d k v") (auto simp: Executor_Put.simps)

text \<open>A transaction is atomic: all of its batch, or nothing when its body fails.\<close>

lemma tx_commit:
  assumes "f (OnTx d (snap d) []) = (Inr x, OnTx d' s' b)"
  shows "\<exists>d2. Transaction L f (OnDB d) = (Inr x, OnDB d2) \<and> view d2 = apply_batch b (view d)"
  using assms db_write [of d b] by (cases "DbWrite L d b") (auto simp: Transaction_def db_snapshot)

lemma tx_rollback:
  "f (OnTx d (snap d) []) = (Inl err, e) \<Longrightarrow> Transaction L f (OnDB d) = (Inl err, OnDB d)"
  by (simp add: Transaction_def db_snapshot)

lemma tx_run: "Transaction L f (OnDB d) = (case f (OnTx d (snap d) []) of
    (Inl err, _) \<Rightarrow> (Inl err, OnDB d) | (Inr x, tx) \<Rightarrow> (Inr x, OnDB (snd (DbWrite L d (tx_batch tx)))))"
  using db_write(1) [of d] by (auto simp: Transaction_def db_snapshot split: prod.splits sum.splits) (metis fst_conv rbind_simps(1) rwrap_simps(1))+

lemma tx_stays: obtains r d' where "Transaction L f (OnDB d) = (r, OnDB d')"
  by (cases "f (OnTx d (snap d) [])"; cases "fst (f (OnTx d (snap d) []))") (auto simp: tx_run)

lemma snap_reads [simp]: "sview (snap d) = view d"
  by (rule db_snapshot)

end

lemma lookup_res_simps [simp]:
  "map_of m k = Some v \<Longrightarrow> lookup_res m k err = Inr v"
  "map_of m k = None \<Longrightarrow> lookup_res m k err = Inl err"
  by (simp_all add: lookup_res_def)

lemma set_with_prefix [simp]: "set (with_prefix p m) = {kv \<in> set m. prefix p (fst kv)}"
  by (simp add: with_prefix_def)

lemma omap_ok_with_prefix [simp, intro]: "omap_ok m \<Longrightarrow> omap_ok (with_prefix p m)"
  by (simp add: with_prefix_def)

section \<open>A database in memory\<close>

text \<open>The log of all writes: the database is what replaying it gives.\<close>

type_synonym mem = "batch_op list"

definition mem_view :: "mem \<Rightarrow> (bytes, bytes) omap" where
  "mem_view w = apply_batch w []"

datatype msnap = Snap mem

primrec msnap_view :: "msnap \<Rightarrow> (bytes, bytes) omap" where
  "msnap_view (Snap d) = mem_view d"

definition mem_db :: "(mem, msnap) leveldb" where
  "mem_db = \<lparr>
     DbGet = (\<lambda>d k. lookup_res (mem_view d) k LevelErrNotFound),
     DbHas = (\<lambda>d k. Inr (map_of (mem_view d) k \<noteq> None)),
     DbIter = (\<lambda>d p. (with_prefix p (mem_view d), None)),
     DbPut = (\<lambda>d k v. (Inr (), d @ [BPut k v])),
     DbDelete = (\<lambda>d k. (Inr (), d @ [BDelete k])),
     DbWrite = (\<lambda>d b. (Inr (), d @ b)),
     GetSnapshot = (\<lambda>d. Inr (Snap d)),
     SnapGet = (\<lambda>s k. lookup_res (msnap_view s) k LevelErrNotFound),
     SnapHas = (\<lambda>s k. Inr (map_of (msnap_view s) k \<noteq> None)),
     SnapIter = (\<lambda>s p. (with_prefix p (msnap_view s), None))\<rparr>"

interpretation mem: leveldb_laws mem_db mem_view msnap_view Snap
  by unfold_locales (auto simp: mem_db_def mem_view_def lookup_res_def)

section \<open>Text codecs\<close>

text \<open>Self-delimiting encodings, from which concrete codecs are put together.\<close>

definition enc_nat :: "nat \<Rightarrow> bytes" where
  "enc_nat n = replicate n CHR ''1'' @ ''0''"

fun dec_nat :: "bytes \<Rightarrow> (nat \<times> bytes) option" where
  "dec_nat [] = None"
| "dec_nat (c # cs) = (if c = CHR ''1'' then map_option (\<lambda>(n, r). (Suc n, r)) (dec_nat cs) else Some (0, cs))"

lemma dec_enc_nat [simp]: "dec_nat (enc_nat n @ r) = Some (n, r)"
  by (induction n) (simp_all add: enc_nat_def)

definition enc_str :: "string \<Rightarrow> bytes" where
  "enc_str s = enc_nat (length s) @ s"

definition dec_str :: "bytes \<Rightarrow> (string \<times> bytes) option" where
  "dec_str d = map_option (\<lambda>(n, r). (take n r, drop n r)) (dec_nat d)"

lemma dec_enc_str [simp]: "dec_str (enc_str s @ r) = Some (s, r)"
  by (simp add: enc_str_def dec_str_def)

lemma dec_enc_str_end [simp]: "dec_str (enc_str s) = Some (s, [])"
  using dec_enc_str [of s "[]"] by simp

definition enc_int :: "int \<Rightarrow> bytes" where
  "enc_int i = (if i < 0 then CHR ''-'' else CHR ''+'') # enc_nat (nat \<bar>i\<bar>)"

fun dec_int :: "bytes \<Rightarrow> (int \<times> bytes) option" where
  "dec_int [] = None"
| "dec_int (c # cs) = map_option (\<lambda>(n, r). (if c = CHR ''-'' then - int n else int n, r)) (dec_nat cs)"

lemma dec_enc_int [simp]: "dec_int (enc_int i @ r) = Some (i, r)"
  by (simp add: enc_int_def)

definition enc_opt :: "int option \<Rightarrow> bytes" where
  "enc_opt x = (case x of None \<Rightarrow> ''n'' | Some i \<Rightarrow> CHR ''s'' # enc_int i)"

fun dec_opt :: "bytes \<Rightarrow> (int option \<times> bytes) option" where
  "dec_opt [] = None"
| "dec_opt (c # cs) = (if c = CHR ''n'' then Some (None, cs) else map_option (\<lambda>(i, r). (Some i, r)) (dec_int cs))"

lemma dec_enc_opt [simp]: "dec_opt (enc_opt x @ r) = Some (x, r)"
  by (cases x) (simp_all add: enc_opt_def)

end
