(* ===== verification/Tasks.thy ===== *)
theory Tasks
  imports Store Balances
begin

text \<open>
  The persistent task queue: \<^verbatim>\<open>tonpayments/db/task.go\<close> over \<open>Task\<close> of \<^verbatim>\<open>tonpayments/db/tasks.go\<close>.
  A task is stored under \<open>tv:<id>\<close>; an index entry \<open>ti:<pool>:<execute after><queue>\<close>, whose byte order
  is the processing order, points to it.
\<close>

section \<open>Data and keys\<close>

record Task =
  taskID :: string
  taskType :: string
  Queue :: string
  taskData :: bytes
  LockedTill :: "gtime option"
  LockedAt :: "gtime option"
  ExecuteAfter :: gtime
  ReExecuteAfter :: "gtime option"
  ExecuteTill :: "gtime option"
  taskCreatedAt :: gtime
  CompletedAt :: "gtime option"
  LastError :: string

text \<open>\<open>uint64(t.UnixNano())\<close>.\<close>

definition nano64 :: "gtime \<Rightarrow> uint64" where
  "nano64 t = of_int t"

definition task_key :: "string \<Rightarrow> bytes" where
  "task_key i = ''tv:'' @ i"

definition index_prefix :: "string \<Rightarrow> bytes" where
  "index_prefix pool = ''ti:'' @ pool @ '':''"

definition getTaskIndexKey :: "Task \<Rightarrow> string \<Rightarrow> bytes" where
  "getTaskIndexKey task pool = index_prefix pool @ be_put 8 (unat (nano64 (ExecuteAfter task))) @ Queue task"

section \<open>Operations\<close>

definition load_task :: "('d, 's) leveldb \<Rightarrow> Task json \<Rightarrow> bytes \<Rightarrow> ('d, 's, Task) dbm" where
  "load_task L J dataKey = dbind (dwrap ''failed to get task by index'' (Executor_Get L dataKey)) (\<lambda>data.
     dlift (rwrap ''failed to decode json data'' (Unmarshal J data)))"

text \<open>\<open>DumpTasks\<close>: all tasks whose identifier has the prefix, newest first (\<open>sort.Slice\<close> leaves open
  how tasks created at the same time are ordered; here they keep the key order).\<close>

definition DumpTasks :: "('d, 's) leveldb \<Rightarrow> Task json \<Rightarrow> string \<Rightarrow> ('d, 's, Task list) dbm" where
  "DumpTasks L J p = dbind (NewIterator L (task_key p) True) (\<lambda>(kvs, _).
     dbind (dlift (rfold (\<lambda>(_, v) acc. rbind (rwrap ''failed to decode json data'' (Unmarshal J v)) (\<lambda>t. Inr (acc @ [t])))
       kvs [])) (\<lambda>ts. dret (sort_key (\<lambda>t. - taskCreatedAt t) ts)))"

fun list_loop :: "('d, 's) leveldb \<Rightarrow> Task json \<Rightarrow> gtime \<Rightarrow> bytes \<Rightarrow> (bytes \<times> bytes) list \<Rightarrow> Task list \<Rightarrow> ('d, 's, Task list) dbm" where
  "list_loop L J now keyIndex [] acc = dret acc"
| "list_loop L J now keyIndex ((key, dataKey) # kvs) acc =
     (if length key < length keyIndex + 8 then dlift (Inl (Panic ''index out of range''))
      else if unat (nano64 now) < be_get (take 8 (drop (length keyIndex) key)) then dret acc
      else dbind (load_task L J dataKey) (\<lambda>task.
        list_loop L J now keyIndex kvs (if CompletedAt task \<noteq> None then acc else acc @ [task])))"

definition ListActiveTasks :: "('d, 's) leveldb \<Rightarrow> Task json \<Rightarrow> gtime \<Rightarrow> string \<Rightarrow> ('d, 's, Task list) dbm" where
  "ListActiveTasks L J now pool = dbind (NewIterator L (index_prefix pool) True) (\<lambda>(kvs, _).
     list_loop L J now (index_prefix pool) kvs [])"

text \<open>
  \<open>AcquireTask\<close>: \<open>clk i\<close> is what the \<open>i\<close>-th call of \<open>time.Now\<close> returns, \<open>started\<close> the start of the
  process. A task that is locked or waits for its retry blocks the rest of its queue.
\<close>

definition lock_period :: int where
  "lock_period = 5 * 60 * 1000000000"

definition is_locked :: "gtime \<Rightarrow> gtime \<Rightarrow> Task \<Rightarrow> bool" where
  "is_locked started now task = (case (LockedAt task, LockedTill task) of
     (Some a, Some t) \<Rightarrow> now < t \<and> started < a | _ \<Rightarrow> False)"

definition is_waiting :: "gtime \<Rightarrow> Task \<Rightarrow> bool" where
  "is_waiting now task = (case ReExecuteAfter task of Some t \<Rightarrow> now < t | None \<Rightarrow> False)"

definition is_expired :: "gtime \<Rightarrow> Task \<Rightarrow> bool" where
  "is_expired now task = (case ExecuteTill task of Some t \<Rightarrow> t < now | None \<Rightarrow> False)"

definition lock_task :: "gtime \<Rightarrow> gtime \<Rightarrow> Task \<Rightarrow> Task" where
  "lock_task now till task = task\<lparr>LockedTill := Some till, LockedAt := Some now\<rparr>"

fun acquire_loop ::
  "('d, 's) leveldb \<Rightarrow> Task json \<Rightarrow> gtime \<Rightarrow> (nat \<Rightarrow> gtime) \<Rightarrow> bytes \<Rightarrow> (bytes \<times> bytes) list \<Rightarrow> string list \<Rightarrow>
   gtime \<Rightarrow> nat \<Rightarrow> ('d, 's, Task option) dbm" where
  "acquire_loop L J started clk keyIndex [] toSkip now i = dret None"
| "acquire_loop L J started clk keyIndex ((key, dataKey) # kvs) toSkip now i =
     (if length key < length keyIndex + 8 then dlift (Inl (Panic ''index out of range''))
      else if unat (nano64 now) < be_get (take 8 (drop (length keyIndex) key)) then dret None
      else if drop (length keyIndex + 8) key \<in> set toSkip
      then acquire_loop L J started clk keyIndex kvs toSkip now i
      else dbind (load_task L J dataKey) (\<lambda>task.
        if CompletedAt task \<noteq> None then acquire_loop L J started clk keyIndex kvs toSkip now i
        else (let now = clk i in
          if is_locked started now task \<or> is_waiting now task
          then acquire_loop L J started clk keyIndex kvs (toSkip @ [Queue task]) now (Suc i)
          else if is_expired now task
          then dbind (dwrap ''failed to delete index'' (Executor_Delete L key)) (\<lambda>_.
            acquire_loop L J started clk keyIndex kvs toSkip now (Suc i))
          else (let result = lock_task now (clk (Suc i) + lock_period) task in
            dbind (dlift (rwrap ''failed to encode json'' (Marshal J result))) (\<lambda>data.
            dbind (dwrap ''failed to put index'' (Executor_Put L dataKey data)) (\<lambda>_. dret (Some result)))))))"

definition AcquireTask ::
  "('d, 's) leveldb \<Rightarrow> Task json \<Rightarrow> gtime \<Rightarrow> (nat \<Rightarrow> gtime) \<Rightarrow> string \<Rightarrow> ('d, 's, Task option) dbm" where
  "AcquireTask L J started clk pool = Transaction L (
     dbind (NewIterator L (index_prefix pool) True) (\<lambda>(kvs, iterr).
     dbind (acquire_loop L J started clk (index_prefix pool) kvs [] (clk 0) 1) (\<lambda>r.
     case iterr of Some err \<Rightarrow> dlift (Inl err) | None \<Rightarrow> dret r)))"

definition createTask :: "('d, 's) leveldb \<Rightarrow> Task json \<Rightarrow> Task \<Rightarrow> string \<Rightarrow> ('d, 's, unit) dbm" where
  "createTask L J task pool = Transaction L (
     dbind (dwrap ''failed to check existance'' (Executor_Has L (task_key (taskID task)))) (\<lambda>has.
     if has then dlift (Inl DbErrAlreadyExists) else
     dbind (dlift (rwrap ''failed to encode json'' (Marshal J task))) (\<lambda>data.
     dbind (dwrap ''failed to put data'' (Executor_Put L (task_key (taskID task)) data)) (\<lambda>_.
     dwrap ''failed to put index'' (Executor_Put L (getTaskIndexKey task pool) (task_key (taskID task)))))))"

text \<open>\<open>CreateTask\<close>: \<open>bts\<close> is the marshalled payload; \<open>now1\<close> and \<open>now2\<close> are its two clock reads.\<close>

definition new_task ::
  "gtime \<Rightarrow> gtime \<Rightarrow> string \<Rightarrow> string \<Rightarrow> string \<Rightarrow> bytes \<Rightarrow> gtime option \<Rightarrow> gtime option \<Rightarrow> Task" where
  "new_task now1 now2 typ queue i bts executeAfter executeTill =
     \<lparr>taskID = i, taskType = typ, Queue = queue, taskData = bts, LockedTill = None, LockedAt = None,
      ExecuteAfter = (case executeAfter of None \<Rightarrow> now1 | Some t \<Rightarrow> t), ReExecuteAfter = None,
      ExecuteTill = executeTill, taskCreatedAt = now2, CompletedAt = None, LastError = []\<rparr>"

definition CreateTask ::
  "('d, 's) leveldb \<Rightarrow> Task json \<Rightarrow> gtime \<Rightarrow> gtime \<Rightarrow> string \<Rightarrow> string \<Rightarrow> string \<Rightarrow> string \<Rightarrow> bytes res \<Rightarrow>
   gtime option \<Rightarrow> gtime option \<Rightarrow> ('d, 's, unit) dbm" where
  "CreateTask L J now1 now2 pool typ queue i data executeAfter executeTill =
     dbind (dlift data) (\<lambda>bts. Transaction L (
       dcatch (createTask L J (new_task now1 now2 typ queue i bts executeAfter executeTill) pool)
         (\<lambda>err. if errors_is err DbErrAlreadyExists then dret () else dlift (Inl (wrapf ''failed to create task'' err)))))"

text \<open>
  \<open>CompleteTask\<close> and \<open>RetryTask\<close> also update the caller's task; the second component is the task
  as they leave it.
\<close>

definition put_existing :: "('d, 's) leveldb \<Rightarrow> Task json \<Rightarrow> Task \<Rightarrow> ('d, 's, unit) dbm \<Rightarrow> ('d, 's, unit) dbm" where
  "put_existing L J task after = Transaction L (
     dbind (dwrap ''failed to check existance'' (Executor_Has L (task_key (taskID task)))) (\<lambda>has.
     if \<not> has then dlift (Inl DbErrNotFound) else
     dbind (dlift (rwrap ''failed to encode json'' (Marshal J task))) (\<lambda>data.
     dbind (dwrap ''failed to put'' (Executor_Put L (task_key (taskID task)) data)) (\<lambda>_. after))))"

definition CompleteTask :: "('d, 's) leveldb \<Rightarrow> Task json \<Rightarrow> gtime \<Rightarrow> string \<Rightarrow> Task \<Rightarrow> ('d, 's, unit) dbm \<times> Task" where
  "CompleteTask L J now pool task =
     (if CompletedAt task \<noteq> None then (dret (), task)
      else (let task' = task\<lparr>CompletedAt := Some now, LockedTill := None\<rparr> in
        (put_existing L J task' (dwrap ''failed to put index'' (Executor_Delete L (getTaskIndexKey task' pool))), task')))"

definition RetryTask :: "('d, 's) leveldb \<Rightarrow> Task json \<Rightarrow> Task \<Rightarrow> string \<Rightarrow> gtime \<Rightarrow> ('d, 's, unit) dbm \<times> Task" where
  "RetryTask L J task reason retryAt =
     (if CompletedAt task \<noteq> None \<or> LockedTill task = None then (dret (), task)
      else (let task' = task\<lparr>LockedTill := None, LastError := reason, ReExecuteAfter := Some retryAt\<rparr> in
        (put_existing L J task' (dret ()), task')))"

end
