(* ===== verification/TaskLaws.thy ===== *)
theory TaskLaws
  imports Tasks
begin

text \<open>
  What the task queue guarantees: the index invariant and that every operation keeps it, the order
  within a queue, mutual exclusion of workers, and retirement of completed tasks.
\<close>

section \<open>Invariant\<close>

definition stored :: "Task json \<Rightarrow> (bytes, bytes) omap \<Rightarrow> bytes \<Rightarrow> Task option" where
  "stored J m v = (case map_of m v of None \<Rightarrow> None | Some data \<Rightarrow>
     (case Unmarshal J data of Inl _ \<Rightarrow> None | Inr t \<Rightarrow> Some t))"

definition entry_ok :: "Task json \<Rightarrow> (Task \<Rightarrow> bool) \<Rightarrow> string \<Rightarrow> (bytes, bytes) omap \<Rightarrow> bytes \<Rightarrow> bytes \<Rightarrow> bool" where
  "entry_ok J P pool m k v \<longleftrightarrow>
     (\<exists>t. stored J m v = Some t \<and> P t \<and> v = task_key (taskID t) \<and> k = getTaskIndexKey t pool)"

text \<open>Every index entry of a pool points to the task whose time and queue its key carries.\<close>

definition queue_ok :: "Task json \<Rightarrow> (Task \<Rightarrow> bool) \<Rightarrow> string \<Rightarrow> (bytes, bytes) omap \<Rightarrow> bool" where
  "queue_ok J P pool m \<longleftrightarrow> omap_ok m \<and>
     (\<forall>k v. map_of m k = Some v \<longrightarrow> prefix (index_prefix pool) k \<longrightarrow> entry_ok J P pool m k v)"

definition pool_index :: "string \<Rightarrow> (bytes, bytes) omap \<Rightarrow> (bytes \<times> bytes) list" where
  "pool_index pool m = with_prefix (index_prefix pool) m"

lemma index_key_prefix [simp]: "prefix (index_prefix pool) (getTaskIndexKey t pool)"
  by (simp add: getTaskIndexKey_def)

lemma keys_differ [simp]:
  "task_key i \<noteq> getTaskIndexKey t pool" "getTaskIndexKey t pool \<noteq> task_key i"
  "\<not> prefix (index_prefix pool) (task_key i)"
  by (simp_all add: task_key_def getTaskIndexKey_def index_prefix_def)

lemma task_key_inj [simp]: "task_key i = task_key j \<longleftrightarrow> i = j"
  by (simp add: task_key_def)

lemma index_key_parts [simp]:
  "\<not> length (getTaskIndexKey t pool) < length (index_prefix pool) + 8"
  "take 8 (drop (length (index_prefix pool)) (getTaskIndexKey t pool)) = be_put 8 (unat (nano64 (ExecuteAfter t)))"
  "drop (length (index_prefix pool) + 8) (getTaskIndexKey t pool) = Queue t"
  by (simp_all add: getTaskIndexKey_def)

lemma queue_ok_mem:
  "queue_ok J P pool m \<Longrightarrow> (k, v) \<in> set (pool_index pool m) \<Longrightarrow> entry_ok J P pool m k v"
  by (auto simp: queue_ok_def pool_index_def omap_mem_iff)

lemma stored_put [simp]: "stored J (omap_put k d m) v =
    (if v = k then (case Unmarshal J d of Inl _ \<Rightarrow> None | Inr t \<Rightarrow> Some t) else stored J m v)"
  by (simp add: stored_def)

lemma stored_del [simp]: "stored J (omap_del k m) v = (if v = k then None else stored J m v)"
  by (simp add: stored_def)

lemma entry_ok_put_task:
  assumes "entry_ok J P pool m k v" "Unmarshal J data = Inr t" "P t"
    and "\<And>t0. stored J m (task_key (taskID t)) = Some t0 \<Longrightarrow> ExecuteAfter t0 = ExecuteAfter t \<and> Queue t0 = Queue t"
  shows "entry_ok J P pool (omap_put (task_key (taskID t)) data m) k v"
  using assms by (auto simp: entry_ok_def getTaskIndexKey_def)

lemma entry_ok_index:
  "entry_ok J P pool m k v \<Longrightarrow> prefix (index_prefix pool) k' \<Longrightarrow>
   entry_ok J P pool (omap_del k' m) k v \<and> entry_ok J P pool (omap_put k' d m) k v"
  by (auto simp: entry_ok_def)

text \<open>Storing a task whose time and queue agree with what the index says.\<close>

lemma queue_ok_put_task:
  assumes "queue_ok J P pool m" "Unmarshal J data = Inr t" "P t"
    and "\<And>t0. stored J m (task_key (taskID t)) = Some t0 \<Longrightarrow> ExecuteAfter t0 = ExecuteAfter t \<and> Queue t0 = Queue t"
  shows "queue_ok J P pool (omap_put (task_key (taskID t)) data m)"
  using assms(1) entry_ok_put_task [where J = J and P = P and t = t and data = data and m = m and pool = pool] assms(2-4)
  unfolding queue_ok_def by (auto split: if_splits)

lemma queue_ok_del_index:
  "queue_ok J P pool m \<Longrightarrow> prefix (index_prefix pool) k \<Longrightarrow> queue_ok J P pool (omap_del k m)"
  unfolding queue_ok_def by (auto simp: entry_ok_index split: if_splits)

lemma queue_ok_put_index:
  assumes "queue_ok J P pool m" "stored J m (task_key (taskID t)) = Some t" "P t"
  shows "queue_ok J P pool (omap_put (getTaskIndexKey t pool) (task_key (taskID t)) m)"
  using assms entry_ok_index [where J = J and P = P and pool = pool and m = m] unfolding queue_ok_def
  by (auto simp: entry_ok_def [where v = "task_key (taskID t)"] split: if_splits)

lemma queue_ok_del_all:
  "queue_ok J P pool m \<Longrightarrow> (\<And>k. k \<in> set ks \<Longrightarrow> prefix (index_prefix pool) k) \<Longrightarrow>
   queue_ok J P pool (apply_batch (map BDelete ks) m)"
  by (induction ks arbitrary: m) (auto simp: queue_ok_del_index)

lemma map_of_del_all: "map_of (apply_batch (map BDelete ks) m) k = (if k \<in> set ks then None else map_of m k)"
  by (induction ks arbitrary: m) auto

section \<open>The acquire loop\<close>

definition runnable :: "gtime \<Rightarrow> gtime \<Rightarrow> Task \<Rightarrow> bool" where
  "runnable started now t \<longleftrightarrow>
     CompletedAt t = None \<and> \<not> is_locked started now t \<and> \<not> is_waiting now t \<and> \<not> is_expired now t"

text \<open>
  The removed entries \<open>ks\<close> are expired; the acquired task is runnable, its queue is not blocked,
  and what precedes it in its queue is completed or was removed.
\<close>

definition picked ::
  "Task json \<Rightarrow> gtime \<Rightarrow> (nat \<Rightarrow> gtime) \<Rightarrow> (bytes, bytes) omap \<Rightarrow> (bytes \<times> bytes) list \<Rightarrow> string list \<Rightarrow> bytes list \<Rightarrow>
   Task \<Rightarrow> bytes \<Rightarrow> bytes \<Rightarrow> bool" where
  "picked J started clk m kvs skip ks t v data \<longleftrightarrow> (\<exists>pre k post t0 j.
     kvs = pre @ (k, v) # post \<and> stored J m v = Some t0 \<and> runnable started (clk j) t0 \<and>
     t = lock_task (clk j) (clk (Suc j) + lock_period) t0 \<and> Marshal J t = Inr data \<and> Queue t0 \<notin> set skip \<and>
     set ks \<subseteq> fst ` set pre \<and>
     (\<forall>(k', v') \<in> set pre. \<forall>t'. stored J m v' = Some t' \<longrightarrow> Queue t' = Queue t0 \<longrightarrow>
        CompletedAt t' \<noteq> None \<or> k' \<in> set ks))"

definition dropped ::
  "Task json \<Rightarrow> gtime \<Rightarrow> (nat \<Rightarrow> gtime) \<Rightarrow> (bytes, bytes) omap \<Rightarrow> (bytes \<times> bytes) list \<Rightarrow> bytes list \<Rightarrow> bool" where
  "dropped J started clk m kvs ks \<longleftrightarrow> (\<forall>k \<in> set ks. \<exists>v t j. (k, v) \<in> set kvs \<and> stored J m v = Some t \<and>
     CompletedAt t = None \<and> is_expired (clk j) t \<and> \<not> is_locked started (clk j) t)"

definition acquired ::
  "Task json \<Rightarrow> gtime \<Rightarrow> (nat \<Rightarrow> gtime) \<Rightarrow> (bytes, bytes) omap \<Rightarrow> (bytes \<times> bytes) list \<Rightarrow> string list \<Rightarrow>
   Task option \<Rightarrow> batch_op list \<Rightarrow> bool" where
  "acquired J started clk m kvs skip r w \<longleftrightarrow> (\<exists>ks. dropped J started clk m kvs ks \<and>
     (case r of None \<Rightarrow> w = map BDelete ks
      | Some t \<Rightarrow> \<exists>v data. picked J started clk m kvs skip ks t v data \<and> w = map BDelete ks @ [BPut v data]))"

lemma pickedE:
  assumes "picked J started clk m kvs skip ks t v data"
  obtains pre k post t0 j where "kvs = pre @ (k, v) # post" "stored J m v = Some t0" "runnable started (clk j) t0"
    "t = lock_task (clk j) (clk (Suc j) + lock_period) t0" "Marshal J t = Inr data" "Queue t0 \<notin> set skip" "set ks \<subseteq> fst ` set pre"
    "\<forall>(k', v') \<in> set pre. \<forall>t'. stored J m v' = Some t' \<longrightarrow> Queue t' = Queue t0 \<longrightarrow>
        CompletedAt t' \<noteq> None \<or> k' \<in> set ks"
  using assms unfolding picked_def by blast

lemma acquired_None: "acquired J started clk m kvs skip None []"
  unfolding acquired_def dropped_def by (auto intro: exI [of _ "[]"])

lemma picked_skip:
  assumes "picked J started clk m kvs skip' ks t v data" "set skip \<subseteq> set skip'"
    and "\<And>t'. stored J m vq = Some t' \<Longrightarrow> Queue t' \<in> set skip' \<or> CompletedAt t' \<noteq> None \<or> kq \<in> set ks'"
    and "set ks \<subseteq> set ks'" "set ks' \<subseteq> insert kq (set ks)"
  shows "picked J started clk m ((kq, vq) # kvs) skip ks' t v data"
proof -
  from assms(1) obtain pre k post t0 j where p: "kvs = pre @ (k, v) # post" "stored J m v = Some t0"
    "runnable started (clk j) t0" "t = lock_task (clk j) (clk (Suc j) + lock_period) t0" "Marshal J t = Inr data"
    "Queue t0 \<notin> set skip'" "set ks \<subseteq> fst ` set pre"
    "\<forall>(k', v') \<in> set pre. \<forall>t'. stored J m v' = Some t' \<longrightarrow> Queue t' = Queue t0 \<longrightarrow>
        CompletedAt t' \<noteq> None \<or> k' \<in> set ks"
    by (rule pickedE)
  have "(kq, vq) # kvs = ((kq, vq) # pre) @ (k, v) # post" using p(1) by simp
  moreover have "\<forall>(k', v') \<in> set ((kq, vq) # pre). \<forall>t'. stored J m v' = Some t' \<longrightarrow> Queue t' = Queue t0 \<longrightarrow>
        CompletedAt t' \<noteq> None \<or> k' \<in> set ks'"
    using p(6,8) assms(3,4) by fastforce
  moreover have "set ks' \<subseteq> fst ` set ((kq, vq) # pre)" using p(7) assms(5) by auto
  ultimately show ?thesis using p(2-6) assms(2) unfolding picked_def by blast
qed

lemma acquired_skip:
  assumes "acquired J started clk m kvs skip' r w" "set skip \<subseteq> set skip'"
    and "\<And>t'. stored J m vq = Some t' \<Longrightarrow> Queue t' \<in> set skip' \<or> CompletedAt t' \<noteq> None"
  shows "acquired J started clk m ((kq, vq) # kvs) skip r w"
proof -
  from assms(1) obtain ks where ks: "dropped J started clk m kvs ks"
    "case r of None \<Rightarrow> w = map BDelete ks
      | Some t \<Rightarrow> \<exists>v data. picked J started clk m kvs skip' ks t v data \<and> w = map BDelete ks @ [BPut v data]"
    unfolding acquired_def by blast
  have "dropped J started clk m ((kq, vq) # kvs) ks" using ks(1) by (fastforce simp: dropped_def)
  moreover have "picked J started clk m ((kq, vq) # kvs) skip ks t v data"
    if "picked J started clk m kvs skip' ks t v data" for t v data
    using that assms(2) by (rule picked_skip) (use assms(3) in blast)+
  ultimately show ?thesis using ks(2)
    unfolding acquired_def by (cases r) (auto intro!: exI [of _ ks])
qed

lemma acquired_drop:
  assumes "acquired J started clk m kvs skip r w" "stored J m vq = Some t0" "CompletedAt t0 = None" "is_expired (clk j) t0"
    and "\<not> is_locked started (clk j) t0"
  shows "acquired J started clk m ((kq, vq) # kvs) skip r (BDelete kq # w)"
proof -
  from assms(1) obtain ks where ks: "dropped J started clk m kvs ks"
    "case r of None \<Rightarrow> w = map BDelete ks
      | Some t \<Rightarrow> \<exists>v data. picked J started clk m kvs skip ks t v data \<and> w = map BDelete ks @ [BPut v data]"
    unfolding acquired_def by blast
  have "dropped J started clk m ((kq, vq) # kvs) (kq # ks)" using ks(1) assms(2-5) by (fastforce simp: dropped_def)
  moreover have "picked J started clk m ((kq, vq) # kvs) skip (kq # ks) t v data"
    if "picked J started clk m kvs skip ks t v data" for t v data
    using that by (rule picked_skip) auto
  ultimately show ?thesis using ks(2)
    unfolding acquired_def by (cases r) (auto intro!: exI [of _ "kq # ks"])
qed

lemma acquired_pick:
  assumes "stored J m vq = Some t0" "runnable started (clk j) t0" "Queue t0 \<notin> set skip"
    and "Marshal J (lock_task (clk j) (clk (Suc j) + lock_period) t0) = Inr data"
  shows "acquired J started clk m ((kq, vq) # kvs) skip
    (Some (lock_task (clk j) (clk (Suc j) + lock_period) t0)) [BPut vq data]"
proof -
  have "picked J started clk m ((kq, vq) # kvs) skip [] (lock_task (clk j) (clk (Suc j) + lock_period) t0) vq data"
    unfolding picked_def using assms by (intro exI [of _ "[]"] exI [of _ kq] exI [of _ kvs] exI [of _ t0] exI [of _ j]) simp
  moreover have "dropped J started clk m ((kq, vq) # kvs) []" by (simp add: dropped_def)
  ultimately show ?thesis unfolding acquired_def by (auto intro!: exI [of _ "[]"])
qed

locale task_store = leveldb_laws L view sview snap
  for L :: "('d, 's) leveldb" and view sview snap +
  fixes J :: "Task json" and P :: "Task \<Rightarrow> bool"
  assumes json: "json_ok J P"
    and lock_closed: "P t \<Longrightarrow> P (lock_task a b t)"
begin

lemma load_task_ok: "stored J (reads e) v = Some t \<Longrightarrow> load_task L J v e = (Inr t, e)"
  by (auto simp: load_task_def stored_def dbm_defs split: option.splits sum.splits)

lemma acquire_loop_spec:
  assumes "\<And>k v. (k, v) \<in> set kvs \<Longrightarrow> entry_ok J P pool (sview s) k v"
  shows "\<exists>r w. acquire_loop L J started clk (index_prefix pool) kvs skip now i (OnTx d s b) = (Inr r, OnTx d s (b @ w)) \<and>
    acquired J started clk (sview s) kvs skip r w"
  using assms
proof (induction kvs arbitrary: skip now i b)
  case Nil
  then show ?case by (auto simp: acquired_None)
next
  case (Cons kv kvs)
  obtain k v where kv: "kv = (k, v)" by fastforce
  with Cons.prems obtain t where t: "stored J (sview s) v = Some t" "P t" "v = task_key (taskID t)" "k = getTaskIndexKey t pool"
    by (auto simp: entry_ok_def)
  note IH = Cons.IH [OF Cons.prems, simplified]
  have ld: "load_task L J v (OnTx d s b) = (Inr t, OnTx d s b)" using t(1) by (simp add: load_task_ok)
  have skip: "\<exists>r w. acquire_loop L J started clk (index_prefix pool) kvs skip' now' i' (OnTx d s b) = (Inr r, OnTx d s (b @ w)) \<and>
      acquired J started clk (sview s) (kv # kvs) skip r w"
    if "set skip \<subseteq> set skip'" "Queue t \<in> set skip' \<or> CompletedAt t \<noteq> None" for skip' now' i'
    using IH [of skip' now' i' b] acquired_skip [OF _ that(1), of J started clk "sview s" kvs _ _ v k] that(2) t(1) kv by fastforce
  define due where "due \<longleftrightarrow> be_get (be_put 8 (unat (nano64 (ExecuteAfter t)))) \<le> unat (nano64 now)"
  note key = kv t(4) due_def not_less Let_def
  consider (late) "\<not> due" | (blocked) "due" "Queue t \<in> set skip"
    | (complete) "due" "Queue t \<notin> set skip" "CompletedAt t \<noteq> None"
    | (busy) "due" "Queue t \<notin> set skip" "CompletedAt t = None" "is_locked started (clk i) t \<or> is_waiting (clk i) t"
    | (expired) "due" "Queue t \<notin> set skip" "CompletedAt t = None" "\<not> is_locked started (clk i) t"
        "\<not> is_waiting (clk i) t" "is_expired (clk i) t"
    | (run) "due" "Queue t \<notin> set skip" "runnable started (clk i) t"
    unfolding runnable_def by metis
  then show ?case
  proof cases
    case late
    then show ?thesis by (auto simp: key acquired_None)
  next
    case blocked
    then show ?thesis using skip [of skip now i] by (simp add: key)
  next
    case complete
    then show ?thesis using skip [of skip now i] ld by (simp add: key)
  next
    case busy
    then show ?thesis using skip [of "skip @ [Queue t]" "clk i" "Suc i"] ld by (auto simp: key)
  next
    case expired
    obtain r w where rw: "acquire_loop L J started clk (index_prefix pool) kvs skip (clk i) (Suc i) (OnTx d s (b @ [BDelete k])) =
        (Inr r, OnTx d s ((b @ [BDelete k]) @ w))" "acquired J started clk (sview s) kvs skip r w"
      using IH [of skip "clk i" "Suc i" "b @ [BDelete k]"] by blast
    from acquired_drop [where kq = k, OF rw(2) t(1) expired(3,6,4)] rw(1) expired ld show ?thesis
      by (auto simp: key intro!: exI [of _ r] exI [of _ "BDelete k # w"])
  next
    case run
    let ?t = "lock_task (clk i) (clk (Suc i) + lock_period) t"
    obtain data where data: "Marshal J ?t = Inr data" using json_okD [OF json lock_closed [OF t(2)]] by blast
    from acquired_pick [where j = i and clk = clk and kq = k and kvs = kvs, OF t(1) run(3,2) data] data run ld
    show ?thesis by (auto simp: key runnable_def intro!: exI [of _ "Some ?t"] exI [of _ "[BPut v data]"])
  qed
qed

lemma AcquireTask_spec:
  assumes "queue_ok J P pool (view d)"
  shows "\<exists>r d' w. AcquireTask L J started clk pool (OnDB d) = (Inr r, OnDB d') \<and> view d' = apply_batch w (view d) \<and>
    acquired J started clk (view d) (pool_index pool (view d)) [] r w"
proof -
  obtain r w where rw: "acquire_loop L J started clk (index_prefix pool) (pool_index pool (view d)) [] (clk 0) 1
      (OnTx d (snap d) []) = (Inr r, OnTx d (snap d) w)" "acquired J started clk (view d) (pool_index pool (view d)) [] r w"
    using acquire_loop_spec [of "pool_index pool (view d)" pool "snap d"] queue_ok_mem [OF assms] by fastforce
  then show ?thesis unfolding AcquireTask_def
    using tx_commit [of "\<lambda>e. dbind (NewIterator L (index_prefix pool) True) (\<lambda>(kvs, iterr).
     dbind (acquire_loop L J started clk (index_prefix pool) kvs [] (clk 0) 1) (\<lambda>r.
     case iterr of Some err \<Rightarrow> dlift (Inl err) | None \<Rightarrow> dret r)) e" d r d "snap d" w]
    by (auto simp: iter_order_def pool_index_def)
qed

lemma acquired_queue_ok:
  assumes "queue_ok J P pool m" "acquired J started clk m (pool_index pool m) [] r w"
  shows "queue_ok J P pool (apply_batch w m)"
proof -
  from assms(2) obtain ks where ks: "dropped J started clk m (pool_index pool m) ks"
    "case r of None \<Rightarrow> w = map BDelete ks
      | Some t \<Rightarrow> \<exists>v data. picked J started clk m (pool_index pool m) [] ks t v data \<and> w = map BDelete ks @ [BPut v data]"
    unfolding acquired_def by blast
  have pre: "k \<in> set ks \<Longrightarrow> prefix (index_prefix pool) k" for k
    using ks(1) by (auto simp: dropped_def pool_index_def)
  note del = queue_ok_del_all [OF assms(1) pre]
  show ?thesis
  proof (cases r)
    case None
    with ks(2) del show ?thesis by simp
  next
    case (Some t)
    with ks(2) obtain v data where p1: "w = map BDelete ks @ [BPut v data]"
      "picked J started clk m (pool_index pool m) [] ks t v data" by auto
    from p1(2) obtain pre k post t0 j where p2: "pool_index pool m = pre @ (k, v) # post" "stored J m v = Some t0"
      "t = lock_task (clk j) (clk (Suc j) + lock_period) t0" "Marshal J t = Inr data" by (rule pickedE)
    then have p: "w = map BDelete ks @ [BPut v data]" "(k, v) \<in> set (pool_index pool m)" "stored J m v = Some t0"
      "t = lock_task (clk j) (clk (Suc j) + lock_period) t0" "Marshal J t = Inr data" using p1(1) by simp_all
    from queue_ok_mem [OF assms(1) p(2)] p(3) have t0: "P t0" "v = task_key (taskID t0)" by (auto simp: entry_ok_def)
    have u: "Unmarshal J data = Inr t" using json_okD [OF json lock_closed [OF t0(1), of "clk j" "clk (Suc j) + lock_period"]] p(4,5) by auto
    have v: "v = task_key (taskID t)" using t0(2) p(4) by (simp add: lock_task_def)
    have "stored J (apply_batch (map BDelete ks) m) v = Some t0"
      using p(3) pre [of v] t0(2) by (auto simp: stored_def map_of_del_all)
    then have "queue_ok J P pool (omap_put v data (apply_batch (map BDelete ks) m))"
      unfolding v by (intro queue_ok_put_task del u) (use p(4) t0(1) v in \<open>auto simp: lock_task_def intro: lock_closed [unfolded lock_task_def]\<close>)
    with p(1) show ?thesis by simp
  qed
qed

lemma createTask_tx:
  assumes "P t"
  shows "if map_of (sview s) (task_key (taskID t)) = None
    then \<exists>data. createTask L J t pool (OnTx d s b) = (Inr (),
        OnTx d s (b @ [BPut (task_key (taskID t)) data, BPut (getTaskIndexKey t pool) (task_key (taskID t))])) \<and>
      Unmarshal J data = Inr t
    else createTask L J t pool (OnTx d s b) = (Inl DbErrAlreadyExists, OnTx d s b)"
  using json_okD [OF json assms] by (auto simp: createTask_def)

lemma CreateTask_spec:
  assumes "P t" "t = new_task now1 now2 typ queue i bts after till"
  shows "\<exists>d'. CreateTask L J now1 now2 pool typ queue i (Inr bts) after till (OnDB d) = (Inr (), OnDB d') \<and>
    (if map_of (view d) (task_key i) = None
     then \<exists>data. view d' = omap_put (getTaskIndexKey t pool) (task_key i) (omap_put (task_key i) data (view d)) \<and>
       Unmarshal J data = Inr t
     else view d' = view d)"
proof -
  have i: "taskID t = i" using assms(2) by (simp add: new_task_def)
  let ?f = "dcatch (createTask L J t pool)
     (\<lambda>err. if errors_is err DbErrAlreadyExists then dret () else dlift (Inl (wrapf ''failed to create task'' err)))"
  have c: "CreateTask L J now1 now2 pool typ queue i (Inr bts) after till (OnDB d) = Transaction L ?f (OnDB d)"
    by (simp add: CreateTask_def assms(2))
  show ?thesis
  proof (cases "map_of (view d) (task_key i) = None")
    case True
    then obtain data where "createTask L J t pool (OnTx d (snap d) []) = (Inr (), OnTx d (snap d)
        [BPut (task_key i) data, BPut (getTaskIndexKey t pool) (task_key i)])" "Unmarshal J data = Inr t"
      using createTask_tx [OF assms(1), of "snap d" pool d "[]"] i by auto
    with True tx_commit [of ?f d "()" d "snap d"] show ?thesis unfolding c by auto
  next
    case False
    then have "createTask L J t pool (OnTx d (snap d) []) = (Inl DbErrAlreadyExists, OnTx d (snap d) [])"
      using createTask_tx [OF assms(1), of "snap d" pool d "[]"] i by simp
    with False tx_commit [of ?f d "()" d "snap d" "[]"] show ?thesis unfolding c by auto
  qed
qed

lemma put_existing_spec:
  assumes "P t" "stored J (view d) (task_key (taskID t)) \<noteq> None"
    and "\<And>b. after (OnTx d (snap d) b) = (Inr (), OnTx d (snap d) (b @ c))"
  shows "\<exists>d' data. put_existing L J t after (OnDB d) = (Inr (), OnDB d') \<and>
    view d' = apply_batch c (omap_put (task_key (taskID t)) data (view d)) \<and> Unmarshal J data = Inr t"
proof -
  obtain data where data: "Marshal J t = Inr data" "Unmarshal J data = Inr t" using json_okD [OF json assms(1)] by blast
  obtain x where x: "map_of (view d) (task_key (taskID t)) = Some x"
    using assms(2) by (auto simp: stored_def split: option.splits)
  let ?f = "dbind (dwrap ''failed to check existance'' (Executor_Has L (task_key (taskID t)))) (\<lambda>has.
     if \<not> has then dlift (Inl DbErrNotFound) else
     dbind (dlift (rwrap ''failed to encode json'' (Marshal J t))) (\<lambda>data.
     dbind (dwrap ''failed to put'' (Executor_Put L (task_key (taskID t)) data)) (\<lambda>_. after)))"
  have "?f (OnTx d (snap d) []) = (Inr (), OnTx d (snap d) (BPut (task_key (taskID t)) data # c))"
    using data x assms(3) [of "[BPut (task_key (taskID t)) data]"] by simp
  with tx_commit [of ?f d "()" d "snap d"] data(2) show ?thesis unfolding put_existing_def by fastforce
qed

lemma CompleteTask_spec:
  assumes "CompletedAt t = None" "P (t\<lparr>CompletedAt := Some now, LockedTill := None\<rparr>)"
    and "stored J (view d) (task_key (taskID t)) \<noteq> None"
  shows "\<exists>d' data. fst (CompleteTask L J now pool t) (OnDB d) = (Inr (), OnDB d') \<and>
    view d' = omap_del (getTaskIndexKey t pool) (omap_put (task_key (taskID t)) data (view d)) \<and>
    Unmarshal J data = Inr (t\<lparr>CompletedAt := Some now, LockedTill := None\<rparr>)"
proof -
  let ?t = "t\<lparr>CompletedAt := Some now, LockedTill := None\<rparr>"
  have k: "getTaskIndexKey ?t pool = getTaskIndexKey t pool" by (simp add: getTaskIndexKey_def)
  have a: "dwrap ''failed to put index'' (Executor_Delete L (getTaskIndexKey ?t pool)) (OnTx d (snap d) b) =
      (Inr (), OnTx d (snap d) (b @ [BDelete (getTaskIndexKey t pool)]))" for b by (simp add: k)
  have s: "stored J (view d) (task_key (taskID ?t)) \<noteq> None" using assms(3) by simp
  from put_existing_spec [OF assms(2) s a] show ?thesis
    using assms(1) unfolding CompleteTask_def Let_def by auto
qed

lemma RetryTask_spec:
  assumes "CompletedAt t = None" "LockedTill t \<noteq> None"
    and "P (t\<lparr>LockedTill := None, LastError := reason, ReExecuteAfter := Some retryAt\<rparr>)"
    and "stored J (view d) (task_key (taskID t)) \<noteq> None"
  shows "\<exists>d' data. fst (RetryTask L J t reason retryAt) (OnDB d) = (Inr (), OnDB d') \<and>
    view d' = omap_put (task_key (taskID t)) data (view d) \<and>
    Unmarshal J data = Inr (t\<lparr>LockedTill := None, LastError := reason, ReExecuteAfter := Some retryAt\<rparr>)"
proof -
  let ?t = "t\<lparr>LockedTill := None, LastError := reason, ReExecuteAfter := Some retryAt\<rparr>"
  have s: "stored J (view d) (task_key (taskID ?t)) \<noteq> None" using assms(4) by simp
  have a: "dret () (OnTx d (snap d) b) = (Inr (), OnTx d (snap d) (b @ []))" for b by simp
  from put_existing_spec [OF assms(3) s a] show ?thesis using assms(1,2) unfolding RetryTask_def Let_def by auto
qed

end

section \<open>Runs of the queue\<close>

text \<open>
  A step of a pool: one of the four operations, called as the worker calls them. The task handed to
  \<open>CompleteTask\<close> and \<open>RetryTask\<close> is the stored one up to the fields a worker may change.
\<close>

definition handed_out :: "Task json \<Rightarrow> (bytes, bytes) omap \<Rightarrow> Task \<Rightarrow> bool" where
  "handed_out J m t \<longleftrightarrow> (\<exists>t0. stored J m (task_key (taskID t)) = Some t0 \<and>
     ExecuteAfter t0 = ExecuteAfter t \<and> Queue t0 = Queue t)"

inductive task_step ::
  "('d, 's) leveldb \<Rightarrow> ('d \<Rightarrow> (bytes, bytes) omap) \<Rightarrow> Task json \<Rightarrow> (Task \<Rightarrow> bool) \<Rightarrow> string \<Rightarrow> 'd \<Rightarrow> 'd \<Rightarrow> bool"
  for L view J P pool where
  step_create: "P (new_task now1 now2 typ queue i bts after till) \<Longrightarrow>
    CreateTask L J now1 now2 pool typ queue i (Inr bts) after till (OnDB d) = (r, OnDB d') \<Longrightarrow>
    task_step L view J P pool d d'"
| step_acquire: "AcquireTask L J started clk pool (OnDB d) = (r, OnDB d') \<Longrightarrow> task_step L view J P pool d d'"
| step_complete: "handed_out J (view d) t \<Longrightarrow> P (t\<lparr>CompletedAt := Some now, LockedTill := None\<rparr>) \<Longrightarrow>
    fst (CompleteTask L J now pool t) (OnDB d) = (r, OnDB d') \<Longrightarrow> task_step L view J P pool d d'"
| step_retry: "handed_out J (view d) t \<Longrightarrow>
    P (t\<lparr>LockedTill := None, LastError := reason, ReExecuteAfter := Some retryAt\<rparr>) \<Longrightarrow>
    fst (RetryTask L J t reason retryAt) (OnDB d) = (r, OnDB d') \<Longrightarrow> task_step L view J P pool d d'"

inductive_cases task_stepE: "task_step L view J P pool d d'"

context task_store
begin

lemma create_keeps:
  assumes "queue_ok J P pool (view d)" "P t" "t = new_task now1 now2 typ queue i bts after till"
    and "CreateTask L J now1 now2 pool typ queue i (Inr bts) after till (OnDB d) = (r, OnDB d')"
  shows "queue_ok J P pool (view d')"
proof (cases "map_of (view d) (task_key i) = None")
  case False
  with CreateTask_spec [OF assms(2,3), of pool d] assms(1,4) show ?thesis by auto
next
  case True
  have i: "taskID t = i" using assms(3) by (simp add: new_task_def)
  from True CreateTask_spec [OF assms(2,3), of pool d] assms(4) obtain data where
    v: "view d' = omap_put (getTaskIndexKey t pool) (task_key i) (omap_put (task_key i) data (view d))" "Unmarshal J data = Inr t"
    by auto
  have "stored J (view d) (task_key i) = None" using True by (simp add: stored_def)
  then have q: "queue_ok J P pool (omap_put (task_key i) data (view d))"
    using queue_ok_put_task [OF assms(1) v(2) assms(2)] i by simp
  have "stored J (omap_put (task_key i) data (view d)) (task_key i) = Some t" using v(2) by simp
  with queue_ok_put_index [OF q _ assms(2)] v(1) i show ?thesis by simp
qed

lemma complete_keeps:
  assumes "queue_ok J P pool (view d)" "handed_out J (view d) t" "P (t\<lparr>CompletedAt := Some now, LockedTill := None\<rparr>)"
    and "fst (CompleteTask L J now pool t) (OnDB d) = (r, OnDB d')"
  shows "queue_ok J P pool (view d')"
proof (cases "CompletedAt t")
  case (Some x)
  with assms(1,4) show ?thesis by (simp add: CompleteTask_def)
next
  case None
  let ?t = "t\<lparr>CompletedAt := Some now, LockedTill := None\<rparr>"
  have s: "stored J (view d) (task_key (taskID t)) \<noteq> None" using assms(2) by (auto simp: handed_out_def)
  from CompleteTask_spec [OF None assms(3) s, of pool] assms(4) obtain data where
    v: "view d' = omap_del (getTaskIndexKey t pool) (omap_put (task_key (taskID t)) data (view d))" "Unmarshal J data = Inr ?t"
    by auto
  have "queue_ok J P pool (omap_put (task_key (taskID ?t)) data (view d))"
    using assms(2) by (intro queue_ok_put_task [OF assms(1) v(2) assms(3)]) (auto simp: handed_out_def)
  with v(1) show ?thesis by (simp add: queue_ok_del_index)
qed

lemma retry_keeps:
  assumes "queue_ok J P pool (view d)" "handed_out J (view d) t"
    and "P (t\<lparr>LockedTill := None, LastError := reason, ReExecuteAfter := Some retryAt\<rparr>)"
    and "fst (RetryTask L J t reason retryAt) (OnDB d) = (r, OnDB d')"
  shows "queue_ok J P pool (view d')"
proof (cases "CompletedAt t \<noteq> None \<or> LockedTill t = None")
  case True
  with assms(1,4) show ?thesis by (auto simp: RetryTask_def)
next
  case False
  let ?t = "t\<lparr>LockedTill := None, LastError := reason, ReExecuteAfter := Some retryAt\<rparr>"
  have s: "stored J (view d) (task_key (taskID t)) \<noteq> None" using assms(2) by (auto simp: handed_out_def)
  from RetryTask_spec [OF _ _ assms(3) s] False assms(4) obtain data where
    v: "view d' = omap_put (task_key (taskID t)) data (view d)" "Unmarshal J data = Inr ?t" by auto
  have "queue_ok J P pool (omap_put (task_key (taskID ?t)) data (view d))"
    using assms(2) by (intro queue_ok_put_task [OF assms(1) v(2) assms(3)]) (auto simp: handed_out_def)
  with v(1) show ?thesis by simp
qed

lemma acquire_keeps:
  assumes "queue_ok J P pool (view d)" "AcquireTask L J started clk pool (OnDB d) = (r, OnDB d')"
  shows "queue_ok J P pool (view d')"
  using AcquireTask_spec [OF assms(1), of started clk] acquired_queue_ok [OF assms(1), of started clk] assms(2) by fastforce

lemma step_keeps: "task_step L view J P pool d d' \<Longrightarrow> queue_ok J P pool (view d) \<Longrightarrow> queue_ok J P pool (view d')"
  by (elim task_stepE) (blast intro: create_keeps acquire_keeps complete_keeps retry_keeps)+

lemma reachable_queue_ok:
  "(task_step L view J P pool)\<^sup>*\<^sup>* d d' \<Longrightarrow> queue_ok J P pool (view d) \<Longrightarrow> queue_ok J P pool (view d')"
  by (induction rule: rtranclp_induct) (auto intro: step_keeps)

text \<open>What an acquired task is, in the words of the database.\<close>

lemma acquired_task:
  assumes "queue_ok J P pool (view d)" "AcquireTask L J started clk pool (OnDB d) = (Inr (Some t), OnDB d')"
  obtains ks pre k post t0 j data where
    "dropped J started clk (view d) (pool_index pool (view d)) ks" "pool_index pool (view d) = pre @ (k, task_key (taskID t)) # post"
    "stored J (view d) (task_key (taskID t)) = Some t0" "runnable started (clk j) t0"
    "t = lock_task (clk j) (clk (Suc j) + lock_period) t0" "Unmarshal J data = Inr t"
    "view d' = omap_put (task_key (taskID t)) data (apply_batch (map BDelete ks) (view d))"
    "set ks \<subseteq> fst ` set pre"
    "\<forall>(k', v') \<in> set pre. \<forall>t'. stored J (view d) v' = Some t' \<longrightarrow> Queue t' = Queue t0 \<longrightarrow>
        CompletedAt t' \<noteq> None \<or> k' \<in> set ks"
proof -
  from AcquireTask_spec [OF assms(1), of started clk] assms(2) obtain w where
    w: "view d' = apply_batch w (view d)" "acquired J started clk (view d) (pool_index pool (view d)) [] (Some t) w" by auto
  from w(2) obtain ks v data where ks: "dropped J started clk (view d) (pool_index pool (view d)) ks"
    "picked J started clk (view d) (pool_index pool (view d)) [] ks t v data" "w = map BDelete ks @ [BPut v data]"
    unfolding acquired_def by auto
  from ks(2) obtain pre k post t0 j where p: "pool_index pool (view d) = pre @ (k, v) # post" "stored J (view d) v = Some t0"
    "runnable started (clk j) t0" "t = lock_task (clk j) (clk (Suc j) + lock_period) t0" "Marshal J t = Inr data" "set ks \<subseteq> fst ` set pre"
    "\<forall>(k', v') \<in> set pre. \<forall>t'. stored J (view d) v' = Some t' \<longrightarrow> Queue t' = Queue t0 \<longrightarrow>
        CompletedAt t' \<noteq> None \<or> k' \<in> set ks" by (rule pickedE)
  have e: "P t0" "v = task_key (taskID t0)" using queue_ok_mem [OF assms(1), of k v] p(1,2) by (auto simp: entry_ok_def)
  have v: "v = task_key (taskID t)" using e(2) p(4) by (simp add: lock_task_def)
  have "Unmarshal J data = Inr t"
    using json_okD [OF json lock_closed [OF e(1), of "clk j" "clk (Suc j) + lock_period"]] p(4,5) by auto
  with that [OF ks(1) _ _ p(3,4)] p w(1) ks(3) v show thesis by auto
qed

text \<open>Entries with a smaller key come earlier in the index, and a key has one entry.\<close>

lemma index_sorted:
  "pool_index pool (view d) = pre @ (k, v) # post \<Longrightarrow> (\<forall>x \<in> set pre. fst x < k) \<and> (\<forall>x \<in> set post. k < fst x)"
  using omap_ok_with_prefix [OF view_ok [of d], of "index_prefix pool"]
  by (auto simp: pool_index_def omap_ok_def sorted_wrt_append)

lemma index_before:
  "pool_index pool (view d) = pre @ (k, v) # post \<Longrightarrow> (k', v') \<in> set (pool_index pool (view d)) \<Longrightarrow> k' < k \<Longrightarrow>
   (k', v') \<in> set pre"
  using index_sorted [of pool d pre k v post] by auto

lemma index_unique:
  "(k, v) \<in> set (pool_index pool (view d)) \<Longrightarrow> (k, v') \<in> set (pool_index pool (view d)) \<Longrightarrow> v = v'"
  using view_ok [of d] by (auto simp: pool_index_def omap_mem_iff)

lemma index_key_mono:
  assumes "nano64 (ExecuteAfter t') < nano64 (ExecuteAfter t)"
  shows "getTaskIndexKey t' pool < getTaskIndexKey t pool"
proof -
  have "unat (nano64 x) < 256 ^ 8" for x using unsigned_less [of "nano64 x"] by simp
  then have "be_put 8 (unat (nano64 (ExecuteAfter t'))) < be_put 8 (unat (nano64 (ExecuteAfter t)))"
    using assms by (simp add: be_put_less_iff word_less_nat_alt)
  then show ?thesis
    by (simp add: getTaskIndexKey_def lexord_append_same_length)
qed

lemma queue_order:
  assumes "queue_ok J P pool (view d)" "AcquireTask L J started clk pool (OnDB d) = (Inr (Some t), OnDB d')"
    and "(k', task_key (taskID t')) \<in> set (pool_index pool (view d))" "stored J (view d) (task_key (taskID t')) = Some t'"
    and "Queue t' = Queue t" "nano64 (ExecuteAfter t') < nano64 (ExecuteAfter t)"
  shows "CompletedAt t' \<noteq> None \<or> (\<exists>j. is_expired (clk j) t')"
proof -
  obtain ks pre k post t0 j data where a:
    "dropped J started clk (view d) (pool_index pool (view d)) ks" "pool_index pool (view d) = pre @ (k, task_key (taskID t)) # post"
    "stored J (view d) (task_key (taskID t)) = Some t0" "t = lock_task (clk j) (clk (Suc j) + lock_period) t0"
    "\<forall>(k', v') \<in> set pre. \<forall>t'. stored J (view d) v' = Some t' \<longrightarrow> Queue t' = Queue t0 \<longrightarrow>
        CompletedAt t' \<noteq> None \<or> k' \<in> set ks"
    using assms(1,2) by (rule acquired_task)
  have k: "k = getTaskIndexKey t0 pool" "k' = getTaskIndexKey t' pool"
    using queue_ok_mem [OF assms(1), of k "task_key (taskID t)"] queue_ok_mem [OF assms(1,3)] a(2,3) assms(4)
    by (auto simp: entry_ok_def)
  have "k' < k" unfolding k using assms(6) a(4) by (intro index_key_mono) (simp add: lock_task_def)
  from index_before [OF a(2) assms(3) this] a(5) assms(4,5) a(4) have "CompletedAt t' \<noteq> None \<or> k' \<in> set ks"
    by (fastforce simp: lock_task_def)
  moreover have "\<exists>j. is_expired (clk j) t'" if "k' \<in> set ks"
  proof -
    from a(1) that obtain v tx j where x: "(k', v) \<in> set (pool_index pool (view d))" "stored J (view d) v = Some tx" "is_expired (clk j) tx"
      unfolding dropped_def by blast
    with index_unique [OF x(1) assms(3)] assms(4) show ?thesis by auto
  qed
  ultimately show ?thesis by blast
qed

text \<open>The index after an acquisition: the removed entries are gone, everything else is as it was.\<close>

lemma index_after:
  assumes "view d' = omap_put (task_key i) data (apply_batch (map BDelete ks) (view d))"
  shows "(k, v) \<in> set (pool_index pool (view d')) \<longleftrightarrow> (k, v) \<in> set (pool_index pool (view d)) \<and> k \<notin> set ks"
  using view_ok [of d] view_ok [of d'] unfolding pool_index_def
  by (auto simp: omap_mem_iff assms map_of_del_all split: if_splits)

lemma exclusive_queue:
  assumes "queue_ok J P pool (view d)" "AcquireTask L J started clk pool (OnDB d) = (Inr (Some t), OnDB d1)"
    and "LockedAt t = Some a" "started < a" "LockedTill t = Some till" "\<And>i. clk2 i < till"
    and "AcquireTask L J started clk2 pool (OnDB d1) = (Inr (Some t2), OnDB d2)"
  shows "Queue t2 \<noteq> Queue t"
proof
  assume same: "Queue t2 = Queue t"
  obtain ks pre k post t0 j data where a:
    "pool_index pool (view d) = pre @ (k, task_key (taskID t)) # post"
    "stored J (view d) (task_key (taskID t)) = Some t0" "runnable started (clk j) t0"
    "t = lock_task (clk j) (clk (Suc j) + lock_period) t0" "Unmarshal J data = Inr t"
    "view d1 = omap_put (task_key (taskID t)) data (apply_batch (map BDelete ks) (view d))" "set ks \<subseteq> fst ` set pre"
    "\<forall>(k', v') \<in> set pre. \<forall>t'. stored J (view d) v' = Some t' \<longrightarrow> Queue t' = Queue t0 \<longrightarrow>
        CompletedAt t' \<noteq> None \<or> k' \<in> set ks"
    using assms(1,2) by (rule acquired_task)
  have ok1: "queue_ok J P pool (view d1)" using acquire_keeps [OF assms(1,2)] .
  obtain ks2 pre2 k2 post2 t02 j2 data2 where b:
    "dropped J started clk2 (view d1) (pool_index pool (view d1)) ks2"
    "pool_index pool (view d1) = pre2 @ (k2, task_key (taskID t2)) # post2"
    "stored J (view d1) (task_key (taskID t2)) = Some t02" "runnable started (clk2 j2) t02"
    "t2 = lock_task (clk2 j2) (clk2 (Suc j2) + lock_period) t02"
    "\<forall>(k', v') \<in> set pre2. \<forall>t'. stored J (view d1) v' = Some t' \<longrightarrow> Queue t' = Queue t02 \<longrightarrow>
        CompletedAt t' \<noteq> None \<or> k' \<in> set ks2"
    using ok1 assms(7) by (rule acquired_task)
  have st: "stored J (view d1) (task_key (taskID t)) = Some t" using a(5,6) by simp
  have lck: "is_locked started (clk2 i) t" for i using assms(3-6) by (simp add: is_locked_def)
  have q: "Queue t0 = Queue t" "Queue t02 = Queue t" "CompletedAt t = None" "taskID t02 = taskID t2"
    using a(3,4) b(5) same by (auto simp: lock_task_def runnable_def)
  have kin: "(k, task_key (taskID t)) \<in> set (pool_index pool (view d1))"
    using index_after [OF a(6), of k "task_key (taskID t)" pool] a(1,7) index_sorted [OF a(1)] by fastforce
  have k2in: "(k2, task_key (taskID t2)) \<in> set (pool_index pool (view d))" "k2 \<notin> set ks"
    using index_after [OF a(6), of k2 "task_key (taskID t2)" pool] b(2) by auto
  have ne: "taskID t2 \<noteq> taskID t" using st b(3,4) lck by (auto simp: runnable_def)
  have sd: "stored J (view d) (task_key (taskID t2)) = Some t02"
    using b(3) ne a(6) by (auto simp: stored_def map_of_del_all split: if_splits)
  consider "k2 < k" | "k2 = k" | "k < k2" by (metis linorder_neqE)
  then show False
  proof cases
    case 1
    from index_before [OF a(1) k2in(1) this] a(8) sd q b(4) k2in(2) show False by (fastforce simp: runnable_def)
  next
    case 2
    with index_unique [OF kin, of "task_key (taskID t2)"] b(2) ne show False by simp
  next
    case 3
    from index_before [OF b(2) kin this] b(6) st q have "k \<in> set ks2" by fastforce
    with b(1) obtain v tx i where "(k, v) \<in> set (pool_index pool (view d1))" "stored J (view d1) v = Some tx"
      "\<not> is_locked started (clk2 i) tx" unfolding dropped_def by blast
    with index_unique [OF kin] st lck show False by fastforce
  qed
qed

text \<open>A due and runnable task is handed out when only completed tasks precede it in the index.\<close>

lemma due_key:
  "nano64 (ExecuteAfter t) \<le> nano64 now \<Longrightarrow> \<not> unat (nano64 now) < be_get (be_put 8 (unat (nano64 (ExecuteAfter t))))"
proof -
  have "unat (nano64 (ExecuteAfter t)) < 256 ^ 8" using unsigned_less [of "nano64 (ExecuteAfter t)"] by simp
  then show "nano64 (ExecuteAfter t) \<le> nano64 now \<Longrightarrow> ?thesis" by (simp add: be_get_put not_less word_le_nat_alt)
qed

lemma acquire_loop_head:
  assumes "\<And>k' v'. (k', v') \<in> set pre \<Longrightarrow> \<exists>t'. stored J (sview s) v' = Some t' \<and> k' = getTaskIndexKey t' pool \<and>
      CompletedAt t' \<noteq> None \<and> nano64 (ExecuteAfter t') \<le> nano64 now"
    and "stored J (sview s) v = Some t" "k = getTaskIndexKey t pool" "nano64 (ExecuteAfter t) \<le> nano64 now"
    and "runnable started (clk i) t" "Marshal J (lock_task (clk i) (clk (Suc i) + lock_period) t) = Inr data"
  shows "acquire_loop L J started clk (index_prefix pool) (pre @ (k, v) # rest) [] now i (OnTx d s b) =
    (Inr (Some (lock_task (clk i) (clk (Suc i) + lock_period) t)), OnTx d s (b @ [BPut v data]))"
  using assms
proof (induction pre)
  case Nil
  then show ?case by (simp add: due_key load_task_ok runnable_def Let_def)
next
  case (Cons kv pre)
  obtain k' v' where kv: "kv = (k', v')" by fastforce
  from Cons.prems(1) [of k' v'] kv obtain t' where "stored J (sview s) v' = Some t'" "k' = getTaskIndexKey t' pool"
    "CompletedAt t' \<noteq> None" "nano64 (ExecuteAfter t') \<le> nano64 now" by auto
  with Cons kv show ?case by (simp add: due_key load_task_ok)
qed

lemma acquire_head:
  assumes "queue_ok J P pool (view d)" "pool_index pool (view d) = pre @ (k, v) # rest" "stored J (view d) v = Some t"
    and "\<And>k' v' t'. (k', v') \<in> set pre \<Longrightarrow> stored J (view d) v' = Some t' \<Longrightarrow>
      CompletedAt t' \<noteq> None \<and> nano64 (ExecuteAfter t') \<le> nano64 (clk 0)"
    and "nano64 (ExecuteAfter t) \<le> nano64 (clk 0)" "runnable started (clk 1) t"
  shows "\<exists>d'. AcquireTask L J started clk pool (OnDB d) = (Inr (Some (lock_task (clk 1) (clk 2 + lock_period) t)), OnDB d')"
proof -
  let ?t = "lock_task (clk 1) (clk (Suc 1) + lock_period) t"
  have e: "P t" "k = getTaskIndexKey t pool"
    using queue_ok_mem [OF assms(1), of k v] assms(2,3) by (auto simp: entry_ok_def)
  obtain data where data: "Marshal J ?t = Inr data" using json_okD [OF json lock_closed [OF e(1)]] by blast
  have pre: "\<exists>t'. stored J (sview (snap d)) v' = Some t' \<and> k' = getTaskIndexKey t' pool \<and>
      CompletedAt t' \<noteq> None \<and> nano64 (ExecuteAfter t') \<le> nano64 (clk 0)" if "(k', v') \<in> set pre" for k' v'
    using queue_ok_mem [OF assms(1), of k' v'] assms(2) assms(4) [OF that] that by (auto simp: entry_ok_def)
  have st: "stored J (sview (snap d)) v = Some t" using assms(3) by simp
  from acquire_loop_head [where rest = rest and d = d and b = "[]", OF pre st e(2) assms(5,6) data]
  show ?thesis unfolding AcquireTask_def
    using tx_commit [of "\<lambda>e. dbind (NewIterator L (index_prefix pool) True) (\<lambda>(kvs, iterr).
     dbind (acquire_loop L J started clk (index_prefix pool) kvs [] (clk 0) 1) (\<lambda>r.
     case iterr of Some err \<Rightarrow> dlift (Inl err) | None \<Rightarrow> dret r)) e" d "Some ?t" d "snap d" "[BPut v data]"] assms(2)
    by (auto simp: iter_order_def pool_index_def numeral_2_eq_2)
qed

text \<open>After completion no entry of the pool leads to the task any more.\<close>

lemma complete_unlinks:
  assumes "queue_ok J P pool (view d)" "handed_out J (view d) t" "CompletedAt t = None"
    and "P (t\<lparr>CompletedAt := Some now, LockedTill := None\<rparr>)"
  shows "\<exists>d'. fst (CompleteTask L J now pool t) (OnDB d) = (Inr (), OnDB d') \<and>
    (\<forall>k. (k, task_key (taskID t)) \<notin> set (pool_index pool (view d')))"
proof -
  from assms(2) obtain t0 where t0: "stored J (view d) (task_key (taskID t)) = Some t0"
    "ExecuteAfter t0 = ExecuteAfter t" "Queue t0 = Queue t" by (auto simp: handed_out_def)
  from CompleteTask_spec [OF assms(3,4), of d pool] t0(1) obtain d' data where d':
    "fst (CompleteTask L J now pool t) (OnDB d) = (Inr (), OnDB d')"
    "view d' = omap_del (getTaskIndexKey t pool) (omap_put (task_key (taskID t)) data (view d))" by auto
  have "k = getTaskIndexKey t pool" if "(k, task_key (taskID t)) \<in> set (pool_index pool (view d))" for k
    using queue_ok_mem [OF assms(1) that] t0 by (auto simp: entry_ok_def getTaskIndexKey_def)
  then have "(k, task_key (taskID t)) \<notin> set (pool_index pool (view d'))" for k
    using view_ok [of d] view_ok [of d'] by (auto simp: pool_index_def omap_mem_iff d'(2) split: if_splits)
  with d'(1) show ?thesis by blast
qed

lemma acquired_indexed:
  assumes "queue_ok J P pool (view d)" "AcquireTask L J started clk pool (OnDB d) = (Inr (Some t), OnDB d')"
  shows "\<exists>k. (k, task_key (taskID t)) \<in> set (pool_index pool (view d))"
  using assms by (rule acquired_task) auto

end

end
