(* ===== verification/TaskProps.thy ===== *)
theory TaskProps
  imports TaskLaws
begin

text \<open>
  The guarantees of the task queue as theorems over any LevelDB that keeps its contract, and a
  concrete task codec with which they are instantiated.
\<close>

section \<open>A task codec\<close>

definition enc_task :: "Task \<Rightarrow> bytes" where
  "enc_task t = enc_str (taskID t) @ enc_str (taskType t) @ enc_str (Queue t) @ enc_str (taskData t) @
     enc_opt (LockedTill t) @ enc_opt (LockedAt t) @ enc_int (ExecuteAfter t) @ enc_opt (ReExecuteAfter t) @
     enc_opt (ExecuteTill t) @ enc_int (taskCreatedAt t) @ enc_opt (CompletedAt t) @ enc_str (LastError t)"

definition dec_task :: "bytes \<Rightarrow> Task option" where
  "dec_task d =
     Option.bind (dec_str d) (\<lambda>(i, d). Option.bind (dec_str d) (\<lambda>(ty, d). Option.bind (dec_str d) (\<lambda>(q, d).
     Option.bind (dec_str d) (\<lambda>(dt, d). Option.bind (dec_opt d) (\<lambda>(lt, d). Option.bind (dec_opt d) (\<lambda>(la, d).
     Option.bind (dec_int d) (\<lambda>(ea, d). Option.bind (dec_opt d) (\<lambda>(re, d). Option.bind (dec_opt d) (\<lambda>(et, d).
     Option.bind (dec_int d) (\<lambda>(ca, d). Option.bind (dec_opt d) (\<lambda>(co, d). Option.bind (dec_str d) (\<lambda>(le, d).
     Some \<lparr>taskID = i, taskType = ty, Queue = q, taskData = dt, LockedTill = lt, LockedAt = la, ExecuteAfter = ea,
       ReExecuteAfter = re, ExecuteTill = et, taskCreatedAt = ca, CompletedAt = co, LastError = le\<rparr>))))))))))))"

definition ex_task_json :: "Task json" where
  "ex_task_json = \<lparr>Marshal = (\<lambda>t. Inr (enc_task t)),
     Unmarshal = (\<lambda>d. case dec_task d of None \<Rightarrow> Inl (Errorf ''invalid json'') | Some t \<Rightarrow> Inr t)\<rparr>"

lemma dec_enc_task [simp]: "dec_task (enc_task t) = Some t"
  by (simp add: dec_task_def enc_task_def)

lemma ex_task_json_ok [simp]: "json_ok ex_task_json (\<lambda>_. True)"
  by (simp add: json_ok_def ex_task_json_def)

interpretation mem_tasks: task_store mem_db mem_view msnap_view Snap ex_task_json "\<lambda>_. True"
  by unfold_locales auto

section \<open>Sample runs\<close>

definition ex_task :: "string \<Rightarrow> string \<Rightarrow> gtime \<Rightarrow> Task" where
  "ex_task i q after = new_task 5 5 ''t'' q i ''{}'' (Some after) None"

text \<open>The writes of one \<open>CreateTask\<close>.\<close>

definition ex_log :: "string \<Rightarrow> string \<Rightarrow> gtime \<Rightarrow> mem" where
  "ex_log i q after = [BPut (task_key i) (enc_task (ex_task i q after)),
     BPut (getTaskIndexKey (ex_task i q after) ''p'') (task_key i)]"

lemma ex_empty_ok: "queue_ok ex_task_json (\<lambda>_. True) ''p'' (mem_view [])"
  by (simp add: queue_ok_def mem_view_def)

lemma ex_log_ok:
  assumes "queue_ok ex_task_json (\<lambda>_. True) ''p'' (mem_view d)" "map_of (mem_view d) (task_key i) = None"
  shows "queue_ok ex_task_json (\<lambda>_. True) ''p'' (mem_view (d @ ex_log i q after))"
proof -
  let ?t = "ex_task i q after" and ?d = "enc_task (ex_task i q after)"
  have i: "taskID ?t = i" by (simp add: ex_task_def new_task_def)
  have u: "Unmarshal ex_task_json ?d = Inr ?t" by (simp add: ex_task_json_def)
  have "queue_ok ex_task_json (\<lambda>_. True) ''p'' (omap_put (task_key (taskID ?t)) ?d (mem_view d))"
    using assms i by (intro queue_ok_put_task u) (simp_all add: stored_def)
  from queue_ok_put_index [where t = "?t", OF this] u i show ?thesis by (simp add: mem_view_def ex_log_def)
qed

definition ex_db :: mem where
  "ex_db = ex_log ''a'' ''q'' 1 @ ex_log ''b'' ''q'' 2"

lemma index_before_task: "getTaskIndexKey t pool < task_key i"
  by (simp add: getTaskIndexKey_def index_prefix_def task_key_def less_char_def)

lemma ex_keys:
  "getTaskIndexKey (ex_task ''a'' ''q'' 1) ''p'' < getTaskIndexKey (ex_task ''b'' ''q'' 2) ''p''"
  "task_key ''a'' < task_key ''b''"
  by (simp_all add: mem_tasks.index_key_mono ex_task_def new_task_def nano64_def task_key_def less_char_def)

lemma ex_db_view: "mem_view ex_db = [
    (getTaskIndexKey (ex_task ''a'' ''q'' 1) ''p'', task_key ''a''),
    (getTaskIndexKey (ex_task ''b'' ''q'' 2) ''p'', task_key ''b''),
    (task_key ''a'', enc_task (ex_task ''a'' ''q'' 1)), (task_key ''b'', enc_task (ex_task ''b'' ''q'' 2))]"
  unfolding ex_db_def ex_log_def mem_view_def
  by (simp add: ex_keys index_before_task order_less_not_sym [OF index_before_task] order_less_not_sym [OF ex_keys(1)]
      order_less_not_sym [OF ex_keys(2)] order_less_imp_not_eq2 [OF ex_keys(1)])

lemma ex_db_ok: "queue_ok ex_task_json (\<lambda>_. True) ''p'' (mem_view ex_db)"
proof -
  have a: "queue_ok ex_task_json (\<lambda>_. True) ''p'' (mem_view (ex_log ''a'' ''q'' 1))"
    using ex_log_ok [OF ex_empty_ok, of "''a''"] by (simp add: mem_view_def)
  have "map_of (mem_view (ex_log ''a'' ''q'' 1)) (task_key ''b'') = None"
    by (simp add: mem_view_def ex_log_def)
  from ex_log_ok [OF a this] show ?thesis by (simp add: ex_db_def)
qed

lemma ex_db_index: "pool_index ''p'' (mem_view ex_db) = [
    (getTaskIndexKey (ex_task ''a'' ''q'' 1) ''p'', task_key ''a''),
    (getTaskIndexKey (ex_task ''b'' ''q'' 2) ''p'', task_key ''b'')]"
  by (simp add: pool_index_def ex_db_view with_prefix_def)

lemma ex_db_stored:
  "stored ex_task_json (mem_view ex_db) (task_key ''a'') = Some (ex_task ''a'' ''q'' 1)"
  "stored ex_task_json (mem_view ex_db) (task_key ''b'') = Some (ex_task ''b'' ''q'' 2)"
  by (simp_all add: stored_def ex_db_view ex_task_json_def)

lemma ex_runnable: "runnable 0 10 (ex_task i q after)"
  by (simp add: runnable_def is_locked_def is_waiting_def is_expired_def ex_task_def new_task_def)

lemma ex_acquire: "\<exists>d'. AcquireTask mem_db ex_task_json 0 (\<lambda>_. 10) ''p'' (OnDB ex_db) =
    (Inr (Some (lock_task 10 (10 + lock_period) (ex_task ''a'' ''q'' 1))), OnDB d')"
  using mem_tasks.acquire_head [OF ex_db_ok _ ex_db_stored(1), of "[]" _ _ "\<lambda>_. 10" 0] ex_runnable
  by (simp add: ex_db_index) (simp add: ex_task_def new_task_def nano64_def)

section \<open>Properties\<close>

text \<open>C7: In every state reachable by creating, acquiring, completing and retrying tasks, each index
  entry of the pool leads to the task whose time and queue its key carries, so \<open>AcquireTask\<close> never
  fails with a dangling index.\<close>

theorem task_queue_invariant:
  assumes "task_store L view sview snap J P" "queue_ok J P pool (view d0)"
    and "(task_step L view J P pool)\<^sup>*\<^sup>* d0 d"
  shows "queue_ok J P pool (view d) \<and>
    (\<exists>r d'. AcquireTask L J started clk pool (OnDB d) = (Inr r, OnDB d') \<and> queue_ok J P pool (view d'))"
proof -
  have q: "queue_ok J P pool (view d)" by (rule task_store.reachable_queue_ok [OF assms(1,3,2)])
  obtain r d' where a: "AcquireTask L J started clk pool (OnDB d) = (Inr r, OnDB d')"
    using task_store.AcquireTask_spec [OF assms(1) q] by blast
  with q task_store.acquire_keeps [OF assms(1) q a] show ?thesis by blast
qed

theorem task_queue_invariant_witness:
  "queue_ok ex_task_json (\<lambda>_. True) ''p'' (mem_view ex_db) \<and>
    (\<exists>r d'. AcquireTask mem_db ex_task_json 0 (\<lambda>_. 10) ''p'' (OnDB ex_db) = (Inr r, OnDB d') \<and>
       queue_ok ex_task_json (\<lambda>_. True) ''p'' (mem_view d'))"
  by (rule task_queue_invariant [OF mem_tasks.task_store_axioms ex_db_ok]) simp

text \<open>C6: Tasks of one queue are handed out in the order of their execution times: when \<open>AcquireTask\<close>
  returns a task, every indexed task of the same queue with an earlier time is completed or expired.
  In particular a task that is locked or waits for its retry blocks the later ones.\<close>

theorem acquire_keeps_queue_order:
  assumes "task_store L view sview snap J P" "queue_ok J P pool (view d)"
    and "AcquireTask L J started clk pool (OnDB d) = (Inr (Some t), OnDB d')"
    and "(k', task_key (taskID t')) \<in> set (pool_index pool (view d))" "stored J (view d) (task_key (taskID t')) = Some t'"
    and "Queue t' = Queue t" "nano64 (ExecuteAfter t') < nano64 (ExecuteAfter t)"
  shows "CompletedAt t' \<noteq> None \<or> (\<exists>j. is_expired (clk j) t')"
  using assms by (rule task_store.queue_order)

text \<open>A queue whose first task is completed but still indexed.\<close>

definition ex_done :: Task where
  "ex_done = (ex_task ''a'' ''q'' 1)\<lparr>CompletedAt := Some 7\<rparr>"

lemma ex_db_decode: "Unmarshal ex_task_json (enc_task t) = Inr t"
  by (simp add: ex_task_json_def)

definition ex_db2 :: mem where
  "ex_db2 = ex_db @ [BPut (task_key ''a'') (enc_task ex_done)]"

lemma ex_db2_view: "mem_view ex_db2 = [
    (getTaskIndexKey (ex_task ''a'' ''q'' 1) ''p'', task_key ''a''),
    (getTaskIndexKey (ex_task ''b'' ''q'' 2) ''p'', task_key ''b''),
    (task_key ''a'', enc_task ex_done), (task_key ''b'', enc_task (ex_task ''b'' ''q'' 2))]"
  using ex_db_view unfolding ex_db2_def mem_view_def
  by (simp add: order_less_not_sym [OF index_before_task])

lemma ex_db2_ok: "queue_ok ex_task_json (\<lambda>_. True) ''p'' (mem_view ex_db2)"
proof -
  have i: "taskID ex_done = ''a''" by (simp add: ex_done_def ex_task_def new_task_def)
  have "queue_ok ex_task_json (\<lambda>_. True) ''p'' (omap_put (task_key (taskID ex_done)) (enc_task ex_done) (mem_view ex_db))"
    by (rule queue_ok_put_task [OF ex_db_ok]) (simp_all add: i ex_db_stored ex_db_decode, simp add: ex_done_def)
  then show ?thesis by (simp add: ex_db2_def i mem_view_def)
qed

lemma ex_db2_acquire: "\<exists>d'. AcquireTask mem_db ex_task_json 0 (\<lambda>_. 10) ''p'' (OnDB ex_db2) =
    (Inr (Some (lock_task 10 (10 + lock_period) (ex_task ''b'' ''q'' 2))), OnDB d')"
proof -
  have i: "pool_index ''p'' (mem_view ex_db2) = [(getTaskIndexKey (ex_task ''a'' ''q'' 1) ''p'', task_key ''a'')] @
      (getTaskIndexKey (ex_task ''b'' ''q'' 2) ''p'', task_key ''b'') # []"
    by (simp add: pool_index_def ex_db2_view with_prefix_def)
  have s: "stored ex_task_json (mem_view ex_db2) (task_key ''a'') = Some ex_done"
    "stored ex_task_json (mem_view ex_db2) (task_key ''b'') = Some (ex_task ''b'' ''q'' 2)"
    by (simp_all add: stored_def ex_db2_view ex_db_decode)
  have pre: "CompletedAt t' \<noteq> None \<and> nano64 (ExecuteAfter t') \<le> nano64 10"
    if "(k', v') \<in> set [(getTaskIndexKey (ex_task ''a'' ''q'' 1) ''p'', task_key ''a'')]"
      "stored ex_task_json (mem_view ex_db2) v' = Some t'" for k' v' t'
    using that s(1) by (auto simp: ex_done_def ex_task_def new_task_def nano64_def)
  show ?thesis
    by (rule mem_tasks.acquire_head [where clk = "\<lambda>_. 10", OF ex_db2_ok i s(2) pre _ ex_runnable])
      (simp_all add: ex_task_def new_task_def nano64_def)
qed

theorem acquire_keeps_queue_order_witness:
  "\<exists>t d'. AcquireTask mem_db ex_task_json 0 (\<lambda>_. 10) ''p'' (OnDB ex_db2) = (Inr (Some t), OnDB d') \<and>
     taskID t = ''b'' \<and> (CompletedAt ex_done \<noteq> None \<or> is_expired 10 ex_done)"
proof -
  obtain d' where d': "AcquireTask mem_db ex_task_json 0 (\<lambda>_. 10) ''p'' (OnDB ex_db2) =
    (Inr (Some (lock_task 10 (10 + lock_period) (ex_task ''b'' ''q'' 2))), OnDB d')" using ex_db2_acquire by blast
  have k: "(getTaskIndexKey (ex_task ''a'' ''q'' 1) ''p'', task_key (taskID ex_done)) \<in> set (pool_index ''p'' (mem_view ex_db2))"
    by (simp add: pool_index_def ex_db2_view ex_done_def) (simp add: ex_task_def new_task_def)
  have s: "stored ex_task_json (mem_view ex_db2) (task_key (taskID ex_done)) = Some ex_done"
    by (simp add: stored_def ex_db2_view ex_db_decode) (simp add: ex_done_def ex_task_def new_task_def)
  have "CompletedAt ex_done \<noteq> None \<or> (\<exists>j::nat. is_expired 10 ex_done)"
    by (rule acquire_keeps_queue_order [OF mem_tasks.task_store_axioms ex_db2_ok d' k s])
      (simp_all add: ex_done_def lock_task_def ex_task_def new_task_def nano64_def)
  with d' show ?thesis by (fastforce simp: lock_task_def ex_task_def new_task_def)
qed



text \<open>C32: No starvation at the head of a queue: a task that is due, not locked, not waiting and not expired
  is handed out by the next \<open>AcquireTask\<close>, with a five-minute lock, when only completed tasks precede it.\<close>

theorem due_task_acquired:
  assumes "task_store L view sview snap J P" "queue_ok J P pool (view d)"
    and "pool_index pool (view d) = pre @ (k, v) # rest" "stored J (view d) v = Some t"
    and "\<And>k' v' t'. (k', v') \<in> set pre \<Longrightarrow> stored J (view d) v' = Some t' \<Longrightarrow>
      CompletedAt t' \<noteq> None \<and> nano64 (ExecuteAfter t') \<le> nano64 (clk 0)"
    and "nano64 (ExecuteAfter t) \<le> nano64 (clk 0)" "runnable started (clk 1) t"
  shows "\<exists>d'. AcquireTask L J started clk pool (OnDB d) = (Inr (Some (lock_task (clk 1) (clk 2 + lock_period) t)), OnDB d')"
  using assms by (rule task_store.acquire_head)

theorem due_task_acquired_witness:
  "\<exists>d'. AcquireTask mem_db ex_task_json 0 (\<lambda>_. 10) ''p'' (OnDB ex_db) =
    (Inr (Some (lock_task 10 (10 + lock_period) (ex_task ''a'' ''q'' 1))), OnDB d')"
  using due_task_acquired [OF mem_tasks.task_store_axioms ex_db_ok _ ex_db_stored(1), of "[]" _ _ "\<lambda>_. 10" 0] ex_runnable
  by (simp add: ex_db_index) (simp add: ex_task_def new_task_def nano64_def)

text \<open>Completing a task retires it: \<open>CompleteTask\<close> succeeds, and \<open>AcquireTask\<close> never returns the
  task again.\<close>

lemma completed_task_retired:
  assumes "task_store L view sview snap J P" "queue_ok J P pool (view d)" "handed_out J (view d) t" "CompletedAt t = None"
    and "P (t\<lparr>CompletedAt := Some now, LockedTill := None\<rparr>)"
  shows "\<exists>d'. fst (CompleteTask L J now pool t) (OnDB d) = (Inr (), OnDB d') \<and>
    (\<forall>started clk t2 d2. AcquireTask L J started clk pool (OnDB d') = (Inr (Some t2), OnDB d2) \<longrightarrow> taskID t2 \<noteq> taskID t)"
proof -
  obtain d' where d': "fst (CompleteTask L J now pool t) (OnDB d) = (Inr (), OnDB d')"
    "\<forall>k. (k, task_key (taskID t)) \<notin> set (pool_index pool (view d'))"
    using task_store.complete_unlinks [OF assms] by blast
  have q: "queue_ok J P pool (view d')" by (rule task_store.complete_keeps [OF assms(1-3,5) d'(1)])
  from d' task_store.acquired_indexed [OF assms(1) q] show ?thesis by metis
qed

text \<open>C40: The index key does not carry the task identifier, so two tasks of a pool with the same execution
  time and queue share one index entry: creating the second one unlinks the first, which stays stored
  and incomplete but is never handed out from that state.\<close>

theorem task_index_collision:
  assumes "task_store L view sview snap J P" "queue_ok J P pool (view d)"
    and "stored J (view d) (task_key (taskID t)) = Some t" "P u" "u = new_task now1 now2 typ (Queue t) i bts (Some (ExecuteAfter t)) till"
    and "i \<noteq> taskID t" "map_of (view d) (task_key i) = None"
  shows "\<exists>d'. CreateTask L J now1 now2 pool typ (Queue t) i (Inr bts) (Some (ExecuteAfter t)) till (OnDB d) = (Inr (), OnDB d') \<and>
    stored J (view d') (task_key (taskID t)) = Some t \<and>
    (\<forall>started clk t2 d2. AcquireTask L J started clk pool (OnDB d') = (Inr (Some t2), OnDB d2) \<longrightarrow> taskID t2 \<noteq> taskID t)"
proof -
  obtain d' data where d':
    "CreateTask L J now1 now2 pool typ (Queue t) i (Inr bts) (Some (ExecuteAfter t)) till (OnDB d) = (Inr (), OnDB d')"
    "view d' = omap_put (getTaskIndexKey u pool) (task_key i) (omap_put (task_key i) data (view d))"
    using task_store.CreateTask_spec [OF assms(1,4,5), of pool d] assms(7) by auto
  have k: "getTaskIndexKey u pool = getTaskIndexKey t pool" using assms(5) by (simp add: getTaskIndexKey_def new_task_def)
  have q: "queue_ok J P pool (view d')" by (rule task_store.create_keeps [OF assms(1,2,4,5) d'(1)])
  have s: "stored J (view d') (task_key (taskID t)) = Some t" using assms(3,6) d'(2) by simp
  have "(x, task_key (taskID t)) \<notin> set (pool_index pool (view d'))" for x
  proof
    assume a: "(x, task_key (taskID t)) \<in> set (pool_index pool (view d'))"
    from queue_ok_mem [OF q a] s have "x = getTaskIndexKey t pool" by (auto simp: entry_ok_def)
    with a q assms(6) d'(2) k show False by (auto simp: pool_index_def omap_mem_iff queue_ok_def)
  qed
  with d'(1) s task_store.acquired_indexed [OF assms(1) q] show ?thesis by metis
qed

theorem task_index_collision_witness:
  "\<exists>d'. CreateTask mem_db ex_task_json 5 5 ''p'' ''t'' ''q'' ''c'' (Inr ''{}'') (Some 1) None (OnDB ex_db) = (Inr (), OnDB d') \<and>
    (\<forall>started clk t2 d2. AcquireTask mem_db ex_task_json started clk ''p'' (OnDB d') = (Inr (Some t2), OnDB d2) \<longrightarrow>
       taskID t2 \<noteq> ''a'')"
proof -
  have i: "taskID (ex_task ''a'' ''q'' 1) = ''a''" "Queue (ex_task ''a'' ''q'' 1) = ''q''" "ExecuteAfter (ex_task ''a'' ''q'' 1) = 1"
    by (simp_all add: ex_task_def new_task_def)
  have s: "stored ex_task_json (mem_view ex_db) (task_key (taskID (ex_task ''a'' ''q'' 1))) = Some (ex_task ''a'' ''q'' 1)"
    by (simp add: i ex_db_stored)
  have "map_of (mem_view ex_db) (task_key ''c'') = None" by (simp add: ex_db_view)
  with task_index_collision [OF mem_tasks.task_store_axioms ex_db_ok s TrueI refl, of "''c''" 5 5 "''t''" "''{}''" None]
  show ?thesis unfolding i by auto
qed

end
