(* ===== verification/ChannelTypes.thy ===== *)
theory ChannelTypes
  imports Conditionals Store
begin

text \<open>
  The channel as a node keeps it: \<^verbatim>\<open>tonpayments/db/types.go\<close> with the signed state structures of
  \<^verbatim>\<open>pkg/payments/types.go\<close>, the balance computation over both sides' actions and conditionals, the
  fee for rented capacity and the record of known resolves.
\<close>

section \<open>Signed states\<close>

record StateSide =
  ConditionalsHash :: bytes
  ActionStatesHash :: bytes

record StateBody =
  sbChannelID :: bytes
  sbSeqno :: uint64
  sbA :: StateSide
  sbB :: StateSide

record StateBodySigned =
  SignatureA :: bytes
  SignatureB :: bytes
  sbBody :: StateBody

definition StateBodySigned_IsEmpty :: "StateBodySigned \<Rightarrow> bool" where
  "StateBodySigned_IsEmpty s \<longleftrightarrow>
     SignatureA s = zeros 64 \<and> SignatureB s = zeros 64 \<and>
     ConditionalsHash (sbA (sbBody s)) = zeros 32 \<and> ConditionalsHash (sbB (sbBody s)) = zeros 32 \<and>
     ActionStatesHash (sbA (sbBody s)) = zeros 32 \<and> ActionStatesHash (sbB (sbBody s)) = zeros 32"

section \<open>Channel\<close>

datatype ChannelStatus = ChannelStateInactive | ChannelStateActive | ChannelStateClosing | ChannelStateAny

datatype ConditionalStatus = ConditionalStateActive | ConditionalStateWantClose | ConditionalStateClosed
  | ConditionalStateWantRemove | ConditionalStateRemoved | ConditionalStatePending

datatype ChannelHistoryEventType = ChannelHistoryActionBalanceChanged | ChannelHistoryActionTransferIn
  | ChannelHistoryActionTransferOut | ChannelHistoryActionUncooperativeCloseStarted | ChannelHistoryActionClosed
  | ChannelHistoryActionTheirCapacityRented | ChannelHistoryActionOurCapacityRented
  | ChannelHistoryActionWithdrawTransactionRequest

record 'm AgreedData =
  adConditionals :: 'm
  adActionStates :: 'm

record 'm Side =
  sdAddress :: string
  OnchainBalances :: "(string \<times> int) list"
  OnchainKey :: bytes
  sdData :: "'m AgreedData"
  LockedDeposits :: locked
  PendingOnchainTransfers :: "(string \<times> PendingMessageInfo) list"
  LatestProcessedLT :: uint64
  LatestWalletSeqno :: uint32
  LatestCommitedSeqno :: uint64
  LastProcessedTxAt :: gtime
  ActiveOnchain :: bool
  IsSettlementFinalized :: bool

record 'c PendingCommit =
  pcSeqno :: uint64
  pcMessage :: 'c

record ('m, 'c) Channel =
  chID :: bytes
  chStatus :: ChannelStatus
  WeLeft :: bool
  SafeOnchainClosePeriod :: int
  AcceptingActions :: bool
  WebPeer :: bool
  UrgentForUs :: bool
  UncoopCloseStarted :: bool
  SignedState :: "'c option"
  Our :: "'m Side"
  Their :: "'m Side"
  InitAt :: gtime
  chCreatedAt :: gtime
  CodeHash :: bytes
  InitMessageBody :: "'c option"
  InitialData :: "'c option"
  chPendingCommit :: "'c PendingCommit option"
  DBVersion :: int

record 'c ConditionalMetaSide =
  cmChannelAddress :: string
  cmConditional :: "'c option"
  UncooperativeDeadline :: gtime
  SafeDeadline :: gtime
  SenderKey :: bytes
  LinkedKey :: bytes

text \<open>\<open>SpecialDetails\<close> is an arbitrary JSON value; \<open>'j\<close> is its type, \<open>None\<close> is nil.\<close>

record ('c, 'j) ConditionalMeta =
  cmKey :: bytes
  cmStatus :: ConditionalStatus
  Incoming :: "'c ConditionalMetaSide option"
  Outgoing :: "'c ConditionalMetaSide option"
  LastKnownResolve :: "'c option"
  FinalDestination :: bytes
  SpecialDetails :: "'j option"
  cmCreatedAt :: gtime
  cmUpdatedAt :: gtime

definition SideA :: "('m, 'c) Channel \<Rightarrow> 'm Side" where
  "SideA ch = (if WeLeft ch then Our ch else Their ch)"

definition SideB :: "('m, 'c) Channel \<Rightarrow> 'm Side" where
  "SideB ch = (if WeLeft ch then Their ch else Our ch)"

text \<open>
  What the channel code uses beside the conditionals: dictionaries, the TL-B codecs of the signed
  state, and signature verification. \<open>FullResolver\<close> is the resolver interface of the service.
\<close>

record ('b, 's, 'c, 'm) chan_env =
  cnC :: "('b, 's, 'c) cond_env"
  cnD :: "('m, 's, 'c) dict_lib"
  cnSigned :: "('s, 'c, StateBodySigned) codec"
  cnBody :: "('s, 'c, StateBody) codec"
  cnVerify :: "bytes \<Rightarrow> bytes \<Rightarrow> bytes \<Rightarrow> bool"

abbreviation cnL :: "('b, 's, 'c, 'm) chan_env \<Rightarrow> ('b, 's, 'c) cell_lib" where
  "cnL E \<equiv> ceL (cnC E)"

record FullResolver =
  GetKnownBalanceTypes :: "CoinConfig list"
  ResolveAction :: resolve_action

text \<open>\<open>Verify\<close>: a side is checked when its key is given, and must be unsigned when it is not.\<close>

definition check_side :: "('b, 's, 'c, 'm) chan_env \<Rightarrow> bytes option \<Rightarrow> bytes \<Rightarrow> bytes \<Rightarrow> string \<Rightarrow> string \<Rightarrow> unit res" where
  "check_side E key hash sig bad nonempty = (case key of
     Some k \<Rightarrow> if cnVerify E k hash sig then Inr () else Inl (Errorf bad)
   | None \<Rightarrow> if sig = zeros 64 then Inr () else Inl (Errorf nonempty))"

definition StateBodySigned_Verify ::
  "('b, 's, 'c, 'm) chan_env \<Rightarrow> StateBodySigned \<Rightarrow> bytes option \<Rightarrow> bytes option \<Rightarrow> unit res" where
  "StateBodySigned_Verify E s keyA keyB =
     (if keyA = None \<and> keyB = None then Inl (Errorf ''keys are nil'')
      else rbind (ToCell (cnBody E) (sbBody s)) (\<lambda>c.
        rbind (check_side E keyA (CellHash (cnL E) c) (SignatureA s) ''invalid signature A'' ''signature A expected to be empty'') (\<lambda>_.
        check_side E keyB (CellHash (cnL E) c) (SignatureB s) ''invalid signature B'' ''signature B expected to be empty'')))"

definition empty_side :: StateSide where
  "empty_side = \<lparr>ConditionalsHash = zeros 32, ActionStatesHash = zeros 32\<rparr>"

definition LoadSignedState :: "('b, 's, 'c, 'm) chan_env \<Rightarrow> ('m, 'c) Channel \<Rightarrow> StateBodySigned res" where
  "LoadSignedState E ch = (case SignedState ch of
     None \<Rightarrow> Inr \<lparr>SignatureA = zeros 64, SignatureB = zeros 64,
        sbBody = \<lparr>sbChannelID = chID ch, sbSeqno = LatestCommitedSeqno (Our ch), sbA = empty_side, sbB = empty_side\<rparr>\<rparr>
   | Some c \<Rightarrow> (case LoadState (cnL E) (cnSigned E) c of
        Inl err \<Rightarrow> Inl (Panic ''corrupted state'') | Inr st \<Rightarrow> Inr st))"

section \<open>Balances\<close>

text \<open>
  \<open>CalcBalance\<close>: every known coin, the on-chain amounts, what is on hold for pending on-chain
  transfers, the actions of both sides, then the conditionals of both sides. \<open>clk i\<close> is the time at
  which the \<open>i\<close>-th conditional reads the current price.
\<close>

definition set_onchain :: "string \<times> int \<Rightarrow> balances \<Rightarrow> balances res" where
  "set_onchain x bals = (case bals (fst x) of
     None \<Rightarrow> Inl (Panic ''nil pointer dereference'')
   | Some b \<Rightarrow> Inr (bals(fst x \<mapsto> b\<lparr>Onchain := snd x\<rparr>)))"

definition add_hold :: "string \<times> int \<Rightarrow> balances \<Rightarrow> balances res" where
  "add_hold x bals = (case bals (fst x) of
     None \<Rightarrow> Inl (Panic ''nil pointer dereference'')
   | Some b \<Rightarrow> Inr (bals(fst x \<mapsto> b\<lparr>OnHold := OnHold b + snd x\<rparr>)))"

definition dict_key :: "('b, 's, 'c) cell_lib \<Rightarrow> 's \<Rightarrow> bytes res" where
  "dict_key L k = (case LoadSlice L k 256 of Inl _ \<Rightarrow> Inl (Panic ''not enough data'') | Inr (i, _) \<Rightarrow> Inr i)"

definition emulate_action ::
  "('b, 's, 'c, 'm) chan_env \<Rightarrow> FullResolver \<Rightarrow> string \<Rightarrow> bool \<Rightarrow> 's \<times> 's \<Rightarrow> balances \<Rightarrow> balances res" where
  "emulate_action E R msg fromUs kv bals =
     rbind (dict_key (cnL E) (fst kv)) (\<lambda>actId.
     rbind (rwrap msg (ResolveAction R actId)) (\<lambda>act.
     Action_EmulateBalance (ceA (cnC E)) act (MustToCell (cnL E) (snd kv)) bals fromUs))"

definition emulate_conditional ::
  "('b, 's, 'c, 'm) chan_env \<Rightarrow> FullResolver \<Rightarrow> bool \<Rightarrow> gtime \<times> 's \<Rightarrow> balances \<Rightarrow> balances res" where
  "emulate_conditional E R fromUs x bals =
     rbind (CodeToConditional (cnC E) (ResolveAction R) (MustToCell (cnL E) (snd x))) (\<lambda>c.
     Cond_EmulateBalance (fst x) c bals fromUs)"

definition known_balances :: "CoinConfig list \<Rightarrow> balances" where
  "known_balances ccs = fold (\<lambda>cc bals. bals(BalanceID cc \<mapsto> NewBalanceInfo cc)) ccs Map.empty"

definition at_times :: "(nat \<Rightarrow> gtime) \<Rightarrow> nat \<Rightarrow> ('s \<times> 's) list \<Rightarrow> (gtime \<times> 's) list" where
  "at_times clk n kvs = map (\<lambda>(i, kv). (clk (n + i), snd kv)) (enumerate 0 kvs)"

definition CalcBalance ::
  "('b, 's, 'c, 'm) chan_env \<Rightarrow> FullResolver \<Rightarrow> (nat \<Rightarrow> gtime) \<Rightarrow> ('m, 'c) Channel \<Rightarrow> bool \<Rightarrow> balances res" where
  "CalcBalance E R clk ch isTheir =
     (let (s1, s2) = (if isTheir then (Their ch, Our ch) else (Our ch, Their ch));
          bals = known_balances (GetKnownBalanceTypes R) in
      rbind (if ActiveOnchain s1 then rfold set_onchain (OnchainBalances s1) bals else Inr bals) (\<lambda>bals.
      rbind (LoadAll (cnD E) (adActionStates (sdData s1))) (\<lambda>s1Actions.
      rbind (LoadAll (cnD E) (adConditionals (sdData s1))) (\<lambda>s1Conditionals.
      rbind (LoadAll (cnD E) (adActionStates (sdData s2))) (\<lambda>s2Actions.
      rbind (LoadAll (cnD E) (adConditionals (sdData s2))) (\<lambda>s2Conditionals.
      rbind (rfold add_hold (concat (map (pmAmounts \<circ> snd) (PendingOnchainTransfers s1))) bals) (\<lambda>bals.
      rbind (rfold (emulate_action E R ''failed to resolve s1 action'' True) s1Actions bals) (\<lambda>bals.
      rbind (rfold (emulate_action E R ''failed to resolve s2 action'' False) s2Actions bals) (\<lambda>bals.
      rbind (rfold (emulate_conditional E R True) (at_times clk 0 s1Conditionals) bals) (\<lambda>bals.
      rfold (emulate_conditional E R False) (at_times clk (length s1Conditionals) s2Conditionals) bals))))))))))"

section \<open>Capacity fee\<close>

text \<open>\<open>time.Time.Sub\<close> saturates at the range of a \<open>Duration\<close>.\<close>

definition time_sub :: "gtime \<Rightarrow> gtime \<Rightarrow> int" where
  "time_sub a b = max (- (2 ^ 63)) (min (2 ^ 63 - 1) (a - b))"

definition CalcDepositFee ::
  "gtime \<Rightarrow> ('m, 'c) Channel \<Rightarrow> CoinConfig \<Rightarrow> int \<Rightarrow> gtime \<Rightarrow> bool \<Rightarrow> int res" where
  "CalcDepositFee now ch cc newAmount till isTheir =
     (let periodSec = 30 * 24 * 60 * 60 :: int;
          totalSec = go_quo (time_sub till now) 1000000000 in
      if totalSec \<le> 0 then Inr 0 else
      let ld = LockedDeposits (if isTheir then Their ch else Our ch) (BalanceID cc);
          (oldAmount, oldUsed, oldUntil) = (case ld of
             Some l \<Rightarrow> if now < ldTill l then (ldAmount l, ldUsed l, ldTill l) else (0, 0, now)
           | None \<Rightarrow> (0, 0, now));
          delta = newAmount - oldAmount in
      if delta \<le> 0 then Inr 0 else
      (case f64_div100 (CapacityFeePercentPer30Days (VirtualTunnelConfig cc)) of
         F64 percent \<Rightarrow>
           (let free = oldAmount - oldUsed;
                extFee = (if 0 < free \<and> oldUntil < till
                  then rat_of_int free * percent *
                       (rat_of_int (go_quo (time_sub till oldUntil) 1000000000) / rat_of_int periodSec) else 0);
                deltaFee = rat_of_int delta * percent * (rat_of_int totalSec / rat_of_int periodSec);
                (num, den) = quotient_of (extFee + deltaFee) in
            Inr (go_quo (num + (den - 1)) den + CapacityDepositFee (VirtualTunnelConfig cc)))
       | _ \<Rightarrow> Inl (Panic ''nil pointer dereference'')))"

section \<open>Known resolves\<close>

definition AddKnownResolve ::
  "('b, 's, 'c) cond_env \<Rightarrow> gtime \<Rightarrow> ('c, 'j) ConditionalMeta \<Rightarrow> 'c conditional \<Rightarrow> 'c \<Rightarrow> bool \<Rightarrow>
   ('c, 'j) ConditionalMeta res" where
  "AddKnownResolve E now meta cond state errOnOlderState =
     (if Cond_GetDeadline cond < now then Inl (Errorf ''conditional has expired'')
      else (case Cond_ValidateState E cond (LastKnownResolve meta) state of
        Inl err \<Rightarrow> if \<not> errOnOlderState \<and> errors_is err ErrNewerConditionalStateIsKnown then Inr meta
          else Inl (wrapf ''failed to validate add state'' err)
      | Inr _ \<Rightarrow> Inr (meta\<lparr>LastKnownResolve := Some state\<rparr>)))"

end
