(* ===== verification/ChannelLaws.thy ===== *)
theory ChannelLaws
  imports ChannelTypes
begin

text \<open>
  What the balance computation means: a closed form of the available balance that does not depend on
  the order of actions and conditionals, and the conservation of the channel's funds over both sides.
\<close>

section \<open>Folds that add up\<close>

lemma rfold_sum:
  fixes g :: "'a \<Rightarrow> int"
  assumes "rfold f xs s = Inr t" "P s"
    and "\<And>x u v. x \<in> set xs \<Longrightarrow> P u \<Longrightarrow> f x u = Inr v \<Longrightarrow> P v \<and> m v = m u + g x"
  shows "P t \<and> m t = m s + sum_list (map g xs)"
  using assms
proof (induction xs arbitrary: s)
  case (Cons x xs)
  then obtain v where v: "f x s = Inr v" "rfold f xs v = Inr t" by auto
  have "P v \<and> m v = m s + g x" using Cons.prems(3) [OF _ Cons.prems(2) v(1)] by simp
  have "P b \<and> m b = m u + g y" if "y \<in> set xs" "P u" "f y u = Inr b" for y u b
    using Cons.prems(3) [of y u b] that by simp
  note Cons.IH [OF v(2) _ this]
  with \<open>P v \<and> m v = m s + g x\<close> show ?case by fastforce
qed simp

section \<open>Shares\<close>

text \<open>Locks and holds never count negatively.\<close>

definition bals_ok :: "balances \<Rightarrow> bool" where
  "bals_ok bals \<longleftrightarrow> (\<forall>k b. bals k = Some b \<longrightarrow> 0 \<le> OnHold b \<and> 0 \<le> ConditionalLocked b)"

lemma bals_ok_upd: "bals_ok bals \<Longrightarrow> 0 \<le> OnHold b \<Longrightarrow> 0 \<le> ConditionalLocked b \<Longrightarrow> bals_ok (bals(k \<mapsto> b))"
  by (simp add: bals_ok_def)

lemma bals_okD: "bals_ok bals \<Longrightarrow> bals k = Some b \<Longrightarrow> 0 \<le> OnHold b \<and> 0 \<le> ConditionalLocked b"
  by (simp add: bals_ok_def)

definition onchain_of :: "'m Side \<Rightarrow> string \<Rightarrow> int" where
  "onchain_of s k = (if ActiveOnchain s then (case map_of (OnchainBalances s) k of Some v \<Rightarrow> v | None \<Rightarrow> 0) else 0)"

definition hold_share :: "string \<Rightarrow> string \<times> int \<Rightarrow> int" where
  "hold_share k x = (if fst x = k then snd x else 0)"

abbreviation side_holds :: "'m Side \<Rightarrow> (string \<times> int) list" where
  "side_holds s \<equiv> concat (map (pmAmounts \<circ> snd) (PendingOnchainTransfers s))"

definition entry_action :: "('b, 's, 'c, 'm) chan_env \<Rightarrow> FullResolver \<Rightarrow> 's \<times> 's \<Rightarrow> (action \<times> 'c) res" where
  "entry_action E R kv = rbind (dict_key (cnL E) (fst kv)) (\<lambda>i. rbind (ResolveAction R i) (\<lambda>act.
     Inr (act, MustToCell (cnL E) (snd kv))))"

definition action_share :: "('b, 's, 'c, 'm) chan_env \<Rightarrow> FullResolver \<Rightarrow> string \<Rightarrow> bool \<Rightarrow> 's \<times> 's \<Rightarrow> int" where
  "action_share E R k fromUs kv = (case entry_action E R kv of Inl _ \<Rightarrow> 0
     | Inr x \<Rightarrow> Action_contribution (ceA (cnC E)) k fromUs x)"

text \<open>The part of an action's debt that a vault pays: it reaches the receiver but not the payer.\<close>

definition vault_share :: "('b, 's, 'c, 'm) chan_env \<Rightarrow> FullResolver \<Rightarrow> string \<Rightarrow> 's \<times> 's \<Rightarrow> int" where
  "vault_share E R k kv = (case entry_action E R kv of Inl _ \<Rightarrow> 0
     | Inr x \<Rightarrow> if IsVaultAction (fst x) then Action_contribution (ceA (cnC E)) k False x else 0)"

lemma action_shares: "action_share E R k True kv + action_share E R k False kv = vault_share E R k kv"
  by (auto simp: action_share_def vault_share_def contribution_def act_delta_def split: sum.splits)

fun cond_wf :: "'c conditional \<Rightarrow> bool" where
  "cond_wf (VCond c) = True"
| "cond_wf (RCond c) = rs_wf c"

fun cond_locked :: "gtime \<Rightarrow> 'c conditional \<Rightarrow> int" where
  "cond_locked now (VCond c) = vc_locked c"
| "cond_locked now (RCond c) = rs_locked now c"

definition lock_share :: "('b, 's, 'c, 'm) chan_env \<Rightarrow> FullResolver \<Rightarrow> string \<Rightarrow> gtime \<times> 's \<Rightarrow> int" where
  "lock_share E R k x = (case CodeToConditional (cnC E) (ResolveAction R) (MustToCell (cnL E) (snd x)) of Inl _ \<Rightarrow> 0
     | Inr c \<Rightarrow> if k = BalanceID (Action_coin (Cond_GetAction c)) then cond_locked (fst x) c else 0)"

definition conds_wf :: "('b, 's, 'c, 'm) chan_env \<Rightarrow> FullResolver \<Rightarrow> ('s \<times> 's) list \<Rightarrow> bool" where
  "conds_wf E R kvs \<longleftrightarrow> (\<forall>kv \<in> set kvs. \<forall>c.
     CodeToConditional (cnC E) (ResolveAction R) (MustToCell (cnL E) (snd kv)) = Inr c \<longrightarrow> cond_wf c)"

section \<open>Every step of the computation\<close>

lemma known_balances_new: "known_balances ccs k = Some b \<Longrightarrow> \<exists>cc. b = NewBalanceInfo cc"
proof -
  have "fold (\<lambda>cc bals. bals(BalanceID cc \<mapsto> NewBalanceInfo cc)) ccs m k = Some b \<Longrightarrow>
      (\<And>j c. m j = Some c \<Longrightarrow> \<exists>cc. c = NewBalanceInfo cc) \<Longrightarrow> \<exists>cc. b = NewBalanceInfo cc" for m
  proof (induction ccs arbitrary: m)
    case (Cons a ccs)
    from Cons.prems(1) have "fold (\<lambda>cc bals. bals(BalanceID cc \<mapsto> NewBalanceInfo cc)) ccs
        (m(BalanceID a \<mapsto> NewBalanceInfo a)) k = Some b" by (simp only: fold_simps)
    from this show ?case by (rule Cons.IH) (use Cons.prems(2) in \<open>auto split: if_splits\<close>)
  qed simp
  then show "known_balances ccs k = Some b \<Longrightarrow> ?thesis" by (auto simp: known_balances_def)
qed

lemma known_balances_start: "bals_ok (known_balances ccs)" "Available (known_balances ccs k) = 0"
proof -
  show "bals_ok (known_balances ccs)"
    by (auto simp: bals_ok_def NewBalanceInfo_def dest!: known_balances_new)
  show "Available (known_balances ccs k) = 0"
    by (cases "known_balances ccs k") (auto dest!: known_balances_new)
qed

lemma set_onchain_all:
  assumes "rfold set_onchain xs bals = Inr bals'" "distinct (map fst xs)"
  shows "bals' k = (case map_of xs k of None \<Rightarrow> bals k | Some v \<Rightarrow> map_option (\<lambda>b. b\<lparr>Onchain := v\<rparr>) (bals k))"
    and "map_of xs k \<noteq> None \<Longrightarrow> bals k \<noteq> None"
  using assms
proof (induction xs arbitrary: bals)
  case (Cons x xs)
  {
    case 1
    then obtain b where b: "bals (fst x) = Some b" "rfold set_onchain xs (bals(fst x \<mapsto> b\<lparr>Onchain := snd x\<rparr>)) = Inr bals'"
      by (cases "bals (fst x)") (auto simp: set_onchain_def [of x])
    from Cons.IH(1) [OF b(2)] 1 b(1) show ?case
      by (cases x) (auto split: option.splits simp: map_of_eq_None_iff image_iff)
  next
    case 2
    then obtain b where b: "bals (fst x) = Some b" "rfold set_onchain xs (bals(fst x \<mapsto> b\<lparr>Onchain := snd x\<rparr>)) = Inr bals'"
      by (cases "bals (fst x)") (auto simp: set_onchain_def [of x])
    from Cons.IH(2) [OF _ b(2)] 2 b(1) show ?case by (cases x) (auto split: if_splits)
  }
qed simp_all

lemma onchain_step:
  assumes "(if ActiveOnchain s then rfold set_onchain (OnchainBalances s) (known_balances ccs) else Inr (known_balances ccs)) = Inr bals"
    and "distinct (map fst (OnchainBalances s))"
  shows "bals_ok bals \<and> Available (bals k) = onchain_of s k"
proof (cases "ActiveOnchain s")
  case True
  with assms(1) have f: "rfold set_onchain (OnchainBalances s) (known_balances ccs) = Inr bals" by simp
  note b = set_onchain_all [OF f assms(2)]
  have "bals_ok bals"
    unfolding bals_ok_def using known_balances_start(1) [of ccs] b(1)
    by (fastforce simp: bals_ok_def split: option.splits)
  moreover have "Available (bals k) = onchain_of s k"
    using b [of k] True known_balances_start(2) [of ccs k] known_balances_new [of ccs k]
    by (cases "map_of (OnchainBalances s) k") (auto simp: onchain_of_def Available_def NewBalanceInfo_def)
  ultimately show ?thesis by blast
next
  case False
  with assms(1) known_balances_start show ?thesis by (auto simp: onchain_of_def)
qed

lemma add_hold_step:
  assumes "add_hold x bals = Inr bals'" "bals_ok bals" "0 \<le> snd x"
  shows "bals_ok bals' \<and> Available (bals' k) = Available (bals k) + - hold_share k x"
proof -
  from assms(1) obtain b where b: "bals (fst x) = Some b" "bals' = bals(fst x \<mapsto> b\<lparr>OnHold := OnHold b + snd x\<rparr>)"
    by (auto simp: add_hold_def split: option.splits)
  have "0 \<le> OnHold b" "0 \<le> ConditionalLocked b" using assms(2) b(1) by (auto simp: bals_ok_def)
  with b assms(2,3) show ?thesis by (auto simp: bals_ok_def hold_share_def Available_nonneg_holds)
qed

lemma emulate_action_step:
  assumes "emulate_action E R msg fromUs kv bals = Inr bals'" "bals_ok bals"
  shows "bals_ok bals' \<and> Available (bals' k) = Available (bals k) + action_share E R k fromUs kv"
proof -
  from assms(1) obtain act where a: "entry_action E R kv = Inr (act, MustToCell (cnL E) (snd kv))"
    "Action_EmulateBalance (ceA (cnC E)) act (MustToCell (cnL E) (snd kv)) bals fromUs = Inr bals'"
    by (auto simp: emulate_action_def entry_action_def)
  from act.emulate_available [OF a(2), of k] a(1)
  have "Available (bals' k) = Available (bals k) + action_share E R k fromUs kv" by (simp add: action_share_def)
  moreover have "bals_ok bals'"
    using a(2) assms(2) bals_okD [OF assms(2), of "Action_balance_id act"]
    by (auto simp: act.emulate_eq bal_entry_def NewBalanceInfo_def intro!: bals_ok_upd split: option.splits)
  ultimately show ?thesis by blast
qed

lemma Cond_EmulateBalance_step:
  assumes "Cond_EmulateBalance now c bals fromUs = Inr bals'" "bals_ok bals" "cond_wf c"
  shows "bals_ok bals' \<and> Available (bals' k) = Available (bals k) -
    (if fromUs \<and> k = BalanceID (Action_coin (Cond_GetAction c)) then cond_locked now c else 0)"
proof (cases c)
  case (VCond v)
  have ok: "bals_ok bals'"
    using assms(1,2) VCond bals_okD [OF assms(2), of "BalanceID (Action_coin (vcAction v))"]
    by (auto simp: VC_EmulateBalance_def GetAffectedCoins_def ResolveActionBalance_Inr Let_def
        simp del: fun_upd_apply intro: bals_ok_upd split: if_splits)
  from VCond assms(1) have e: "VC_EmulateBalance v bals fromUs = Inr bals'" by simp
  have p: "0 \<le> ConditionalLocked b" if "bals (BalanceID (Action_coin (vcAction v))) = Some b" for b
    using assms(2) that by (auto simp: bals_ok_def)
  from vc_lock.emulate_lock [OF TrueI e p, of k] VCond ok show ?thesis by simp
next
  case (RCond r)
  from RCond assms(1) have e: "RS_EmulateBalance now r bals fromUs = Inr bals'" by simp
  have w: "rs_wf r" using RCond assms(3) by simp
  have p: "0 \<le> ConditionalLocked b" if "bals (BalanceID (Action_coin (crAction r))) = Some b" for b
    using assms(2) that by (auto simp: bals_ok_def)
  from e obtain b ro pr where "bals (BalanceID (Action_coin (crAction r))) = Some b"
    "bals' = (if fromUs then bals(BalanceID (Action_coin (crAction r)) \<mapsto>
         b\<lparr>ConditionalLocked := ConditionalLocked b + rs_lock r (rs_roi r pr)\<rparr>)
       else if 0 < rs_pending r (rs_roi r pr) then bals(BalanceID (Action_coin (crAction r)) \<mapsto>
         b\<lparr>ConditionalPending := ConditionalPending b + rs_pending r (rs_roi r pr)\<rparr>) else bals)"
    by (rule RS_EmulateBalance_Inr)
  then have ok: "bals_ok bals'"
    using assms(2) rs_lock_nonneg [OF w, of "rs_roi r pr"] bals_okD [OF assms(2), of "BalanceID (Action_coin (crAction r))" b]
    by (auto intro!: bals_ok_upd)
  from rs_lock.emulate_lock [OF w e p, of k] RCond ok show ?thesis by simp
qed

lemma emulate_conditional_step:
  assumes "emulate_conditional E R fromUs x bals = Inr bals'" "bals_ok bals"
    and "\<And>c. CodeToConditional (cnC E) (ResolveAction R) (MustToCell (cnL E) (snd x)) = Inr c \<Longrightarrow> cond_wf c"
  shows "bals_ok bals' \<and> Available (bals' k) = Available (bals k) + (if fromUs then - lock_share E R k x else 0)"
proof -
  from assms(1) obtain c where c: "CodeToConditional (cnC E) (ResolveAction R) (MustToCell (cnL E) (snd x)) = Inr c"
    "Cond_EmulateBalance (fst x) c bals fromUs = Inr bals'"
    by (auto simp: emulate_conditional_def)
  from Cond_EmulateBalance_step [OF c(2) assms(2) assms(3) [OF c(1)], of k] c(1) show ?thesis
    by (simp add: lock_share_def)
qed

lemma at_times_snd: "x \<in> set (at_times clk n kvs) \<Longrightarrow> \<exists>kv \<in> set kvs. snd x = snd kv"
  by (auto simp: at_times_def in_set_enumerate_eq) (metis nth_mem snd_conv)

lemma conditionals_step:
  assumes "rfold (emulate_conditional E R fromUs) (at_times clk n kvs) bals = Inr bals'" "bals_ok bals" "conds_wf E R kvs"
  shows "bals_ok bals' \<and> Available (bals' k) = Available (bals k) +
    sum_list (map (\<lambda>x. if fromUs then - lock_share E R k x else 0) (at_times clk n kvs))"
proof (rule rfold_sum [where m = "\<lambda>b. Available (b k)" and P = bals_ok, OF assms(1,2)])
  fix x u v
  assume x: "x \<in> set (at_times clk n kvs)" "bals_ok u" "emulate_conditional E R fromUs x u = Inr v"
  have "cond_wf c" if "CodeToConditional (cnC E) (ResolveAction R) (MustToCell (cnL E) (snd x)) = Inr c" for c
    using that at_times_snd [OF x(1)] assms(3) by (auto simp: conds_wf_def)
  from emulate_conditional_step [OF x(3,2) this]
  show "bals_ok v \<and> Available (v k) = Available (u k) + (if fromUs then - lock_share E R k x else 0)" .
qed

section \<open>Closed form\<close>

text \<open>A side's data as the computation reads it: actions and conditionals of a dictionary pair.\<close>

definition side_loads :: "('b, 's, 'c, 'm) chan_env \<Rightarrow> 'm Side \<Rightarrow> ('s \<times> 's) list \<Rightarrow> ('s \<times> 's) list \<Rightarrow> bool" where
  "side_loads E s acts conds \<longleftrightarrow> LoadAll (cnD E) (adActionStates (sdData s)) = Inr acts \<and>
     LoadAll (cnD E) (adConditionals (sdData s)) = Inr conds"

definition side_ok :: "'m Side \<Rightarrow> bool" where
  "side_ok s \<longleftrightarrow> distinct (map fst (OnchainBalances s)) \<and> (\<forall>x \<in> set (side_holds s). 0 \<le> snd x)"

text \<open>What a side has of a coin before the other side's actions are counted.\<close>

definition side_funds :: "'m Side \<Rightarrow> string \<Rightarrow> int" where
  "side_funds s k = onchain_of s k - sum_list (map (hold_share k) (side_holds s))"

definition side_locks :: "('b, 's, 'c, 'm) chan_env \<Rightarrow> FullResolver \<Rightarrow> (nat \<Rightarrow> gtime) \<Rightarrow> ('s \<times> 's) list \<Rightarrow> string \<Rightarrow> int" where
  "side_locks E R clk conds k = sum_list (map (lock_share E R k) (at_times clk 0 conds))"

lemma sum_list_neg: "sum_list (map (\<lambda>x. - f x) xs) = - sum_list (map f xs :: int list)"
  by (induction xs) simp_all

lemma balance_formula:
  assumes c: "CalcBalance E R clk ch isTheir = Inr bals"
    and s: "(s1, s2) = (if isTheir then (Their ch, Our ch) else (Our ch, Their ch))"
    and ok: "side_ok s1" "side_loads E s1 a1 c1" "side_loads E s2 a2 c2" "conds_wf E R c1" "conds_wf E R c2"
  shows "Available (bals k) = side_funds s1 k + sum_list (map (action_share E R k True) a1) +
    sum_list (map (action_share E R k False) a2) - side_locks E R clk c1 k"
proof -
  from c s ok(2,3) obtain b0 b1 b2 b3 b4 where
    0: "(if ActiveOnchain s1 then rfold set_onchain (OnchainBalances s1) (known_balances (GetKnownBalanceTypes R))
         else Inr (known_balances (GetKnownBalanceTypes R))) = Inr b0"
    and 1: "rfold add_hold (side_holds s1) b0 = Inr b1"
    and 2: "rfold (emulate_action E R ''failed to resolve s1 action'' True) a1 b1 = Inr b2"
    and 3: "rfold (emulate_action E R ''failed to resolve s2 action'' False) a2 b2 = Inr b3"
    and 4: "rfold (emulate_conditional E R True) (at_times clk 0 c1) b3 = Inr b4"
    and 5: "rfold (emulate_conditional E R False) (at_times clk (length c1) c2) b4 = Inr bals"
    by (auto simp: CalcBalance_def side_loads_def Let_def split: prod.splits)
  let ?av = "\<lambda>b. Available (b k)"
  have h0: "bals_ok b0 \<and> ?av b0 = onchain_of s1 k" using onchain_step [OF 0] ok(1) by (simp add: side_ok_def)
  have h1: "bals_ok b1 \<and> ?av b1 = ?av b0 + sum_list (map (\<lambda>x. - hold_share k x) (side_holds s1))"
    using h0 add_hold_step [where k = k] ok(1) unfolding side_ok_def by (intro rfold_sum [OF 1]) blast+
  have h2: "bals_ok b2 \<and> ?av b2 = ?av b1 + sum_list (map (action_share E R k True) a1)"
    using h1 emulate_action_step by (intro rfold_sum [OF 2]) blast+
  have h3: "bals_ok b3 \<and> ?av b3 = ?av b2 + sum_list (map (action_share E R k False) a2)"
    using h2 emulate_action_step by (intro rfold_sum [OF 3]) blast+
  have h4: "bals_ok b4 \<and> ?av b4 = ?av b3 + sum_list (map (\<lambda>x. - lock_share E R k x) (at_times clk 0 c1))"
    using conditionals_step [OF 4 _ ok(4), of k] h3 by simp
  have h5: "bals_ok bals \<and> ?av bals = ?av b4"
    using conditionals_step [OF 5 _ ok(5), of k] h4 by simp
  from h0 h1 h2 h3 h4 h5 show ?thesis
    by (simp add: side_funds_def side_locks_def sum_list_neg)
qed

section \<open>Samples\<close>

definition no_codec :: "('s, 'c, 'v) codec" where
  "no_codec = \<lparr>LoadFromCell = (\<lambda>_. Inl (Errorf ''unsupported'')), ToCell = (\<lambda>_. Inl (Errorf ''unsupported''))\<rparr>"

type_synonym tdict = "(tcell \<times> tcell) list"

definition ex_chan_env :: "(tdata, tdata, tcell, tdict) chan_env" where
  "ex_chan_env = \<lparr>cnC = ex_cond_env None, cnD = ton_dict, cnSigned = no_codec, cnBody = no_codec,
     cnVerify = (\<lambda>k m s. s = k @ m)\<rparr>"

definition ex_side :: "string \<Rightarrow> int \<Rightarrow> tdict \<Rightarrow> tdict Side" where
  "ex_side adr amt acts = \<lparr>sdAddress = adr, OnchainBalances = [(GetTONBalanceID, amt)], OnchainKey = zeros 32,
     sdData = \<lparr>adConditionals = [], adActionStates = acts\<rparr>, LockedDeposits = Map.empty,
     PendingOnchainTransfers = [(''h'', \<lparr>pmAmounts = [(GetTONBalanceID, 7)], CompletionBodyPrefix = [],
       CompletionAddress = [], LimitDepth = 0\<rparr>)],
     LatestProcessedLT = 0, LatestWalletSeqno = 0, LatestCommitedSeqno = 0, LastProcessedTxAt = 0,
     ActiveOnchain = True, IsSettlementFinalized = False\<rparr>"

definition ex_channel :: "(tdict, tcell) Channel" where
  "ex_channel = \<lparr>chID = zeros 16, chStatus = ChannelStateActive, WeLeft = True, SafeOnchainClosePeriod = 0,
     AcceptingActions = True, WebPeer = False, UrgentForUs = False, UncoopCloseStarted = False, SignedState = None,
     Our = ex_side ''a'' 100 [(TCell (byte_bits (zeros 32)) [], send_cell (ex_send 10))],
     Their = ex_side ''b'' 50 [(TCell (byte_bits (zeros 32)) [], send_cell (ex_send 4))],
     InitAt = 0, chCreatedAt = 0, CodeHash = [], InitMessageBody = None, InitialData = None, chPendingCommit = None,
     DBVersion = 1\<rparr>"

definition ex_resolver :: FullResolver where
  "ex_resolver = \<lparr>GetKnownBalanceTypes = [ex_coin], ResolveAction = (\<lambda>_. Inr ex_act)\<rparr>"

lemma ex_chan_sel [simp]:
  "cnC ex_chan_env = ex_cond_env None" "cnD ex_chan_env = ton_dict"
  "ResolveAction ex_resolver = (\<lambda>_. Inr ex_act)" "GetKnownBalanceTypes ex_resolver = [ex_coin]"
  by (simp_all add: ex_chan_env_def ex_resolver_def)

lemma ex_side_sel [simp]:
  "side_loads ex_chan_env (ex_side adr amt acts) a c \<longleftrightarrow> a = map (\<lambda>(k, v). (open_cell k, open_cell v)) acts \<and> c = []"
  "side_ok (ex_side adr amt acts)" "side_funds (ex_side adr amt acts) GetTONBalanceID = amt - 7"
  by (auto simp: side_loads_def side_ok_def side_funds_def onchain_of_def hold_share_def ex_side_def ton_dict_def)

lemma ex_bits: "LoadSlice (ton_cells ex_hash) (byte_bits (zeros 32), []) 256 = Inr (zeros 32, ([], []))"
  using bits_bytes_byte_bits [of "zeros 32" "[]"] by (simp add: ton_cells_def t_take_def)

section \<open>Properties\<close>

text \<open>C11: Off-chain state neither creates nor destroys funds. Whatever actions and conditionals the two
  sides agreed on, what both sides have available together with what their conditionals lock equals
  the on-chain funds minus the pending withdrawals, plus only what vaults owe.\<close>

theorem channel_funds_conserved:
  assumes "CalcBalance E R clk1 ch False = Inr ours" "CalcBalance E R clk2 ch True = Inr theirs"
    and "side_ok (Our ch)" "side_ok (Their ch)" "side_loads E (Our ch) a1 c1" "side_loads E (Their ch) a2 c2"
    and "conds_wf E R c1" "conds_wf E R c2"
  shows "Available (ours k) + Available (theirs k) + side_locks E R clk1 c1 k + side_locks E R clk2 c2 k =
    side_funds (Our ch) k + side_funds (Their ch) k + sum_list (map (vault_share E R k) (a1 @ a2))"
proof -
  have sh: "sum_list (map (action_share E R k True) a) + sum_list (map (action_share E R k False) a) =
      sum_list (map (vault_share E R k) a)" for a
    by (induction a) (simp_all add: action_shares [symmetric])
  have "Available (ours k) = side_funds (Our ch) k + sum_list (map (action_share E R k True) a1) +
      sum_list (map (action_share E R k False) a2) - side_locks E R clk1 c1 k"
    by (rule balance_formula [OF assms(1) _ assms(3,5-8)]) simp
  moreover have "Available (theirs k) = side_funds (Their ch) k + sum_list (map (action_share E R k True) a2) +
      sum_list (map (action_share E R k False) a1) - side_locks E R clk2 c2 k"
    by (rule balance_formula [OF assms(2) _ assms(4,6,5,8,7)]) simp
  ultimately show ?thesis using sh [of a1] sh [of a2] by simp
qed

lemma ex_load [simp]: "LoadState (ton_cells ex_hash) ton_send (MustToCell (ton_cells ex_hash) (open_cell (send_cell (ex_send v)))) =
    LoadState (ton_cells ex_hash) ton_send (send_cell (ex_send v))"
  by (cases "send_cell (ex_send v)") (simp add: ton_cells_def close_cell_def)

lemma ex_calc: "\<exists>b. CalcBalance ex_chan_env ex_resolver clk ex_channel isTheir = Inr b"
  by (cases isTheir)
    (simp_all add: CalcBalance_def ex_channel_def ex_side_def known_balances_def set_onchain_def add_hold_def ton_dict_def
      emulate_action_def dict_key_def at_times_def ex_cond_env_def ex_vc_env_def ton_vc_env_def ex_bits
      act.emulate_eq ton_send_load)

theorem channel_funds_conserved_witness:
  "\<exists>ours theirs. CalcBalance ex_chan_env ex_resolver (\<lambda>_. 0) ex_channel False = Inr ours \<and>
     CalcBalance ex_chan_env ex_resolver (\<lambda>_. 0) ex_channel True = Inr theirs \<and>
     Available (ours GetTONBalanceID) + Available (theirs GetTONBalanceID) = 136"
proof -
  obtain ours theirs where b: "CalcBalance ex_chan_env ex_resolver (\<lambda>_. 0) ex_channel False = Inr ours"
    "CalcBalance ex_chan_env ex_resolver (\<lambda>_. 0) ex_channel True = Inr theirs" using ex_calc by blast
  let ?a = "\<lambda>v. [(open_cell (TCell (byte_bits (zeros 32)) []), open_cell (send_cell (ex_send v)))]"
  have "Available (ours GetTONBalanceID) + Available (theirs GetTONBalanceID) +
      side_locks ex_chan_env ex_resolver (\<lambda>_. 0) [] GetTONBalanceID + side_locks ex_chan_env ex_resolver (\<lambda>_. 0) [] GetTONBalanceID =
      side_funds (Our ex_channel) GetTONBalanceID + side_funds (Their ex_channel) GetTONBalanceID +
      sum_list (map (vault_share ex_chan_env ex_resolver GetTONBalanceID) (?a 10 @ ?a 4))"
    by (rule channel_funds_conserved [OF b]) (simp_all add: ex_channel_def conds_wf_def)
  with b show ?thesis
    by (auto simp: side_locks_def at_times_def vault_share_def entry_action_def ex_channel_def split: sum.splits)
qed

text \<open>The fee for rented capacity is the exact ceiling of the capacity fee: the newly rented amount for
  the whole time from now on, plus the unused part of a still active deposit for the time it is
  prolonged, plus the fixed fee. It is zero when the time is not in the future and, even if the time is
  prolonged, when the amount does not grow.\<close>

lemma deposit_fee_exact:
  assumes "f64_div100 (CapacityFeePercentPer30Days (VirtualTunnelConfig cc)) = F64 q" "0 \<le> q"
    and "l = (case LockedDeposits (if isTheir then Their ch else Our ch) (BalanceID cc) of
          Some l \<Rightarrow> if now < ldTill l then l else \<lparr>ldAmount = 0, ldTill = now, ldUsed = 0\<rparr>
        | None \<Rightarrow> \<lparr>ldAmount = 0, ldTill = now, ldUsed = 0\<rparr>)"
    and "secs = go_quo (time_sub till now) 1000000000" "ext = go_quo (time_sub till (ldTill l)) 1000000000"
  shows "CalcDepositFee now ch cc newAmount till isTheir = Inr (if secs \<le> 0 \<or> newAmount \<le> ldAmount l then 0 else
    \<lceil>((if ldUsed l < ldAmount l \<and> ldTill l < till then rat_of_int (ldAmount l - ldUsed l) * q * (rat_of_int ext / 2592000) else 0) +
      rat_of_int (newAmount - ldAmount l) * q * (rat_of_int secs / 2592000))\<rceil> + CapacityDepositFee (VirtualTunnelConfig cc))"
proof (cases "secs \<le> 0 \<or> newAmount \<le> ldAmount l")
  case True
  then show ?thesis using assms(3-5) by (auto simp: CalcDepositFee_def Let_def split: option.splits if_splits)
next
  case False
  let ?f = "(if ldUsed l < ldAmount l \<and> ldTill l < till then rat_of_int (ldAmount l - ldUsed l) * q * (rat_of_int ext / 2592000) else 0) +
      rat_of_int (newAmount - ldAmount l) * q * (rat_of_int secs / 2592000)"
  have o: "(case LockedDeposits (if isTheir then Their ch else Our ch) (BalanceID cc) of
      Some l \<Rightarrow> if now < ldTill l then (ldAmount l, ldUsed l, ldTill l) else (0, 0, now) | None \<Rightarrow> (0, 0, now)) =
    (ldAmount l, ldUsed l, ldTill l)"
    using assms(3) by (auto split: option.splits)
  have "0 \<le> ext" if "ldTill l < till" using that assms(5) by (simp add: time_sub_def go_quo_pos pos_imp_zdiv_nonneg_iff)
  then have "0 \<le> ?f" using False assms(2) by (intro add_nonneg_nonneg) (auto intro!: mult_nonneg_nonneg divide_nonneg_nonneg)
  moreover obtain n d where nd: "quotient_of ?f = (n, d)" by fastforce
  ultimately have "go_quo (n + (d - 1)) d = \<lceil>?f\<rceil>" by (intro ceil_by_quo)
  with False nd show ?thesis unfolding CalcDepositFee_def Let_def o
    by (cases "ldUsed l < ldAmount l \<and> ldTill l < till") (auto simp: assms(1) assms(4) [symmetric] assms(5) [symmetric])
qed

text \<open>The known resolve of a virtual channel only grows: a new state replaces the known one only if it
  is correctly signed, within capacity and of no smaller amount; an older state leaves the record as it
  was, as an error only when the caller asked for one.\<close>

lemma known_resolve_monotone:
  assumes "AddKnownResolve E now meta (VCond c) state strict = Inr meta'" "LastKnownResolve meta = Some old" "vc_load (ceVC E) old = Inr o'"
  shows "\<exists>cur n. LastKnownResolve meta' = Some cur \<and> vc_load (ceVC E) cur = Inr n \<and> vsAmount o' \<le> vsAmount n \<and>
    (cur \<noteq> old \<longrightarrow> VCState_Verify (ceVC E) (vcKey c) n = Inr True \<and> vsAmount n \<le> vcCapacity c \<and> now \<le> unix (vcDeadline c))"
proof (cases "Cond_ValidateState E (VCond c) (LastKnownResolve meta) state")
  case (Inl e)
  with assms(1) have "meta' = meta" by (auto simp: AddKnownResolve_def split: if_splits)
  with assms(2,3) show ?thesis by auto
next
  case (Inr u)
  with assms(1) have m: "meta' = meta\<lparr>LastKnownResolve := Some state\<rparr>" "\<not> unix (vcDeadline c) < now"
    by (auto simp: AddKnownResolve_def VC_GetDeadline_def split: if_splits)
  from Inr assms(2,3) obtain n where "vc_load (ceVC E) state = Inr n" "VCState_Verify (ceVC E) (vcKey c) n = Inr True"
    "vsAmount n \<le> vcCapacity c" "vsAmount o' \<le> vsAmount n" by (auto simp: VC_ValidateState_Inr)
  with m show ?thesis by auto
qed

end
