(* ===== verification/ChannelDB.thy ===== *)
theory ChannelDB
  imports ChannelTypes
begin

text \<open>
  The channel database: \<^verbatim>\<open>tonpayments/db/channel.go\<close> and \<^verbatim>\<open>tonpayments/db/block.go\<close>. Channels are
  stored under \<open>ch:<address>\<close> with an optimistic version, pending states under
  \<open>chp:<address>:<seqno><hash>\<close>, history under \<open>chs:<address>:<time><type>\<close>. The callbacks of the
  service run inside the transaction: they are functions on the executor.
\<close>

section \<open>Urgent peers\<close>

definition urgent_prefix :: bytes where
  "urgent_prefix = ''urgent-peer:''"

definition AddUrgentPeer :: "('d, 's) leveldb \<Rightarrow> bytes \<Rightarrow> ('d, 's, unit) dbm" where
  "AddUrgentPeer L peer =
     (if length peer \<noteq> 32 then dlift (Inl (Errorf ''invalid peer address length''))
      else let key = urgent_prefix @ b64_encode peer in
        Transaction L (
          dbind (dwrap ''failed to check existence'' (Executor_Has L key)) (\<lambda>has.
          if has then dret ()
          else dwrap ''failed to add urgent peer to db'' (Executor_Put L key []))))"

text \<open>A peer stored before the migration has its raw bytes in the key.\<close>

definition RemoveUrgentPeer :: "('d, 's) leveldb \<Rightarrow> bytes \<Rightarrow> ('d, 's, unit) dbm" where
  "RemoveUrgentPeer L peer =
     (if length peer \<noteq> 32 then dlift (Inl (Errorf ''invalid peer address length''))
      else let key = urgent_prefix @ b64_encode peer; alt = urgent_prefix @ peer;
          del = (\<lambda>k. dwrap ''failed to remove urgent peer from db'' (Executor_Delete L k)) in
        Transaction L (
          dbind (dwrap ''failed to check existence'' (Executor_Has L key)) (\<lambda>has.
          if has then del key
          else dbind (dwrap ''failed to check alt existence'' (Executor_Has L alt)) (\<lambda>has.
            if \<not> has then dret () else del alt))))"

definition urgent_peer_of :: "bytes \<Rightarrow> bytes res" where
  "urgent_peer_of key = (let p = drop (length urgent_prefix) key in
     if length p = 32 then Inr p
     else let p = fst (b64_decode p) in
       if length p \<noteq> 32 then Inl (Errorf ''invalid peer address length'') else Inr p)"

definition GetUrgentPeers :: "('d, 's) leveldb \<Rightarrow> ('d, 's, bytes list) dbm" where
  "GetUrgentPeers L = dbind (NewIterator L urgent_prefix True) (\<lambda>(kvs, err).
     dbind (dlift (rfold (\<lambda>(k, _) acc. rbind (urgent_peer_of k) (\<lambda>p. Inr (acc @ [p]))) kvs [])) (\<lambda>peers.
     case err of Some e \<Rightarrow> dlift (Inl (wrapf ''failed to retrieve urgent peers'' e)) | None \<Rightarrow> dret peers))"

section \<open>Channels\<close>

definition channel_key :: "string \<Rightarrow> bytes" where
  "channel_key addr = ''ch:'' @ addr"

type_synonym ('d, 's, 'm, 'c) channel_cb = "(('m, 'c) Channel \<Rightarrow> bool \<Rightarrow> ('d, 's) executor \<Rightarrow> ('d, 's) executor) option"

definition run_cb :: "('x \<Rightarrow> 'y \<Rightarrow> ('d, 's) executor \<Rightarrow> ('d, 's) executor) option \<Rightarrow> 'x \<Rightarrow> 'y \<Rightarrow> ('d, 's, unit) dbm" where
  "run_cb cb x y e = (Inr (), case cb of None \<Rightarrow> e | Some f \<Rightarrow> f x y e)"

definition get_json :: "('d, 's) leveldb \<Rightarrow> 'a json \<Rightarrow> bytes \<Rightarrow> ('d, 's, 'a) dbm" where
  "get_json L J key =
     dbind (dcatch (Executor_Get L key) (\<lambda>err. if errors_is err DbErrNotFound then dlift (Inl DbErrNotFound)
       else dlift (Inl (wrapf ''failed to get from db'' err)))) (\<lambda>data.
     dlift (rwrap ''failed to decode json data'' (Unmarshal J data)))"

definition GetChannel :: "('d, 's) leveldb \<Rightarrow> ('m, 'c) Channel json \<Rightarrow> string \<Rightarrow> ('d, 's, ('m, 'c) Channel) dbm" where
  "GetChannel L J addr = get_json L J (channel_key addr)"

text \<open>
  The caller's channel gets the new version, too; it is the result. \<open>now\<close> is the clock read as
  nanoseconds, an \<open>int64\<close>.
\<close>

definition CreateChannel ::
  "('d, 's) leveldb \<Rightarrow> ('m, 'c) Channel json \<Rightarrow> ('d, 's, 'm, 'c) channel_cb \<Rightarrow> int \<Rightarrow> ('m, 'c) Channel \<Rightarrow>
   ('d, 's, ('m, 'c) Channel) dbm" where
  "CreateChannel L J cb now channel = (let key = channel_key (sdAddress (Our channel)) in
     Transaction L (
       dbind (dwrap ''failed to check existance'' (Executor_Has L key)) (\<lambda>has.
       if has then dlift (Inl DbErrAlreadyExists)
       else let channel = channel\<lparr>DBVersion := now\<rparr> in
         dbind (dlift (rwrap ''failed to encode json'' (Marshal J channel))) (\<lambda>data.
         dbind (dwrap ''failed to put'' (Executor_Put L key data)) (\<lambda>_.
         dbind (run_cb cb channel True) (\<lambda>_. dret channel))))))"

definition UpdateChannel ::
  "('d, 's) leveldb \<Rightarrow> ('m, 'c) Channel json \<Rightarrow> ('d, 's, 'm, 'c) channel_cb \<Rightarrow> int \<Rightarrow> ('m, 'c) Channel \<Rightarrow>
   ('d, 's, ('m, 'c) Channel) dbm" where
  "UpdateChannel L J cb now channel = (let key = channel_key (sdAddress (Our channel)) in
     Transaction L (
       dbind (dwrap ''failed to get channel'' (GetChannel L J (sdAddress (Our channel)))) (\<lambda>cur.
       if DBVersion cur \<noteq> DBVersion channel then dlift (Inl (Errorf ''version mismatch retry changes''))
       else let channel = channel\<lparr>DBVersion := now\<rparr> in
         dbind (dlift (rwrap ''failed to encode json'' (Marshal J channel))) (\<lambda>data.
         dbind (dwrap ''failed to put'' (Executor_Put L key data)) (\<lambda>_.
         dbind (run_cb cb channel (chStatus cur \<noteq> chStatus channel)) (\<lambda>_. dret channel))))))"

definition channel_matches :: "bytes option \<Rightarrow> ChannelStatus \<Rightarrow> ('m, 'c) Channel \<Rightarrow> bool" where
  "channel_matches key status ch \<longleftrightarrow> (status = ChannelStateAny \<or> chStatus ch = status) \<and>
     (case key of None \<Rightarrow> True | Some k \<Rightarrow> OnchainKey (Their ch) = k)"

definition GetChannels ::
  "('d, 's) leveldb \<Rightarrow> ('m, 'c) Channel json \<Rightarrow> bytes option \<Rightarrow> ChannelStatus \<Rightarrow> ('d, 's, ('m, 'c) Channel list) dbm" where
  "GetChannels L J key status = dbind (NewIterator L ''ch:'' True) (\<lambda>(kvs, err).
     dbind (dlift (rfold (\<lambda>(_, v) acc. rbind (rwrap ''failed to decode json data'' (Unmarshal J v)) (\<lambda>ch.
       Inr (if channel_matches key status ch then acc @ [ch] else acc))) kvs [])) (\<lambda>chs.
     case err of Some e \<Rightarrow> dlift (Inl e) | None \<Rightarrow> dret chs))"

section \<open>Action codes\<close>

definition action_code_key :: "bytes \<Rightarrow> bytes" where
  "action_code_key hash = ''ac:'' @ b64_encode hash"

text \<open>Store a value unless its key is taken.\<close>

definition put_once :: "('d, 's) leveldb \<Rightarrow> bytes \<Rightarrow> bytes res \<Rightarrow> ('d, 's, unit) dbm \<Rightarrow> ('d, 's, unit) dbm" where
  "put_once L key data after = Transaction L (
     dbind (dwrap ''failed to check existance'' (Executor_Has L key)) (\<lambda>has.
     if has then dret () else
     dbind (dlift (rwrap ''failed to encode json'' data)) (\<lambda>data.
     dbind (dwrap ''failed to put'' (Executor_Put L key data)) (\<lambda>_. after))))"

definition CreateActionCode :: "('d, 's) leveldb \<Rightarrow> 'c json \<Rightarrow> ('c \<Rightarrow> bytes) \<Rightarrow> 'c \<Rightarrow> ('d, 's, unit) dbm" where
  "CreateActionCode L J hash action = put_once L (action_code_key (hash action)) (Marshal J action) (dret ())"

definition GetActionCode :: "('d, 's) leveldb \<Rightarrow> 'c json \<Rightarrow> ('c \<Rightarrow> bytes) \<Rightarrow> bytes \<Rightarrow> ('d, 's, 'c) dbm" where
  "GetActionCode L J hash h = dbind (get_json L J (action_code_key h)) (\<lambda>code.
     if hash code \<noteq> h then dlift (Inl (Errorf ''invalid action code hash'')) else dret code)"

section \<open>History\<close>

record ChannelHistoryItem =
  hiAt :: gtime
  hiAction :: ChannelHistoryEventType
  hiData :: bytes

fun event_no :: "ChannelHistoryEventType \<Rightarrow> nat" where
  "event_no ChannelHistoryActionBalanceChanged = 1"
| "event_no ChannelHistoryActionTransferIn = 2"
| "event_no ChannelHistoryActionTransferOut = 3"
| "event_no ChannelHistoryActionUncooperativeCloseStarted = 4"
| "event_no ChannelHistoryActionClosed = 5"
| "event_no ChannelHistoryActionTheirCapacityRented = 6"
| "event_no ChannelHistoryActionOurCapacityRented = 7"
| "event_no ChannelHistoryActionWithdrawTransactionRequest = 8"

definition history_prefix :: "string \<Rightarrow> bytes" where
  "history_prefix addr = ''chs:'' @ addr @ '':''"

definition time_bytes :: "gtime \<Rightarrow> bytes" where
  "time_bytes t = be_put 8 (unat (of_int t :: uint64))"

definition getChannelHistoryIndexKey :: "('m, 'c) Channel \<Rightarrow> gtime \<Rightarrow> ChannelHistoryEventType \<Rightarrow> bytes" where
  "getChannelHistoryIndexKey ch at' typ =
     history_prefix (sdAddress (Our ch)) @ time_bytes at' @ [char_of (48 + event_no typ)]"

definition CreateChannelEvent ::
  "('d, 's) leveldb \<Rightarrow> ChannelHistoryItem json \<Rightarrow>
   (('m, 'c) Channel \<Rightarrow> ChannelHistoryItem \<Rightarrow> ('d, 's) executor \<Rightarrow> ('d, 's) executor) option \<Rightarrow>
   ('m, 'c) Channel \<Rightarrow> gtime \<Rightarrow> ChannelHistoryItem \<Rightarrow> ('d, 's, unit) dbm" where
  "CreateChannelEvent L J cb channel at' item =
     put_once L (getChannelHistoryIndexKey channel at' (hiAction item)) (Marshal J item) (run_cb cb channel item)"

text \<open>
  \<open>GetChannelsHistoryByPeriod\<close> walks from the newest entry: entries before \<open>after\<close> are skipped, an
  entry after \<open>before\<close> ends the walk.
\<close>

fun history_loop ::
  "ChannelHistoryItem json \<Rightarrow> nat \<Rightarrow> int \<Rightarrow> gtime option \<Rightarrow> gtime option \<Rightarrow> (bytes \<times> bytes) list \<Rightarrow>
   ChannelHistoryItem list \<Rightarrow> ChannelHistoryItem list res" where
  "history_loop J plen limit before after [] acc = Inr acc"
| "history_loop J plen limit before after ((k, v) # kvs) acc =
     (if length k < plen + 8 then history_loop J plen limit before after kvs acc
      else let ts = sint (of_nat (be_get (take 8 (drop plen k))) :: uint64) in
        if (case after of Some a \<Rightarrow> ts < a | None \<Rightarrow> False) then history_loop J plen limit before after kvs acc
        else if (case before of Some b \<Rightarrow> b < ts | None \<Rightarrow> False) then Inr acc
        else rbind (rwrap ''failed to decode history json'' (Unmarshal J v)) (\<lambda>hist.
          let acc = acc @ [hist\<lparr>hiAt := ts\<rparr>] in
          if 0 < limit \<and> limit \<le> int (length acc) then Inr acc
          else history_loop J plen limit before after kvs acc))"

definition GetChannelsHistoryByPeriod ::
  "('d, 's) leveldb \<Rightarrow> ChannelHistoryItem json \<Rightarrow> string \<Rightarrow> int \<Rightarrow> gtime option \<Rightarrow> gtime option \<Rightarrow>
   ('d, 's, ChannelHistoryItem list) dbm" where
  "GetChannelsHistoryByPeriod L J addr limit before after =
     dbind (NewIterator L (history_prefix addr) False) (\<lambda>(kvs, _).
     dlift (history_loop J (length (history_prefix addr)) limit before after kvs []))"

section \<open>Pending states\<close>

record 'm PendingChannelState =
  psSeqno :: uint64
  psOurData :: "'m AgreedData"
  psTheirData :: "'m AgreedData"

definition pending_prefix :: "string \<Rightarrow> bytes" where
  "pending_prefix addr = ''chp:'' @ addr @ '':''"

definition seqno_bytes :: "uint64 \<Rightarrow> bytes" where
  "seqno_bytes n = be_put 8 (unat n)"

definition getSavedChannelStateKey :: "('b, 's, 'c, 'm) chan_env \<Rightarrow> ('m, 'c) Channel \<Rightarrow> StateBody \<Rightarrow> bytes res" where
  "getSavedChannelStateKey E ch body = rbind (ToCell (cnBody E) body) (\<lambda>c.
     Inr (pending_prefix (sdAddress (Our ch)) @ seqno_bytes (sbSeqno body) @ CellHash (cnL E) c))"

definition SaveChannelPendingState ::
  "('d, 't) leveldb \<Rightarrow> 'm PendingChannelState json \<Rightarrow> ('b, 's, 'c, 'm) chan_env \<Rightarrow> ('m, 'c) Channel \<Rightarrow> StateBody \<Rightarrow>
   ('d, 't, unit) dbm" where
  "SaveChannelPendingState L J E channel body =
     (let state = \<lparr>psSeqno = sbSeqno body, psOurData = sdData (Our channel), psTheirData = sdData (Their channel)\<rparr> in
      dbind (dlift (getSavedChannelStateKey E channel body)) (\<lambda>key. put_once L key (Marshal J state) (dret ())))"

definition GetChannelPendingState ::
  "('d, 't) leveldb \<Rightarrow> 'm PendingChannelState json \<Rightarrow> ('b, 's, 'c, 'm) chan_env \<Rightarrow> ('m, 'c) Channel \<Rightarrow> StateBody \<Rightarrow>
   ('d, 't, 'm PendingChannelState) dbm" where
  "GetChannelPendingState L J E channel body =
     dbind (dlift (rwrap ''failed to generate key'' (getSavedChannelStateKey E channel body))) (\<lambda>key. get_json L J key)"

fun cleanup_loop :: "('d, 't) leveldb \<Rightarrow> bytes \<Rightarrow> (bytes \<times> bytes) list \<Rightarrow> ('d, 't, unit) dbm" where
  "cleanup_loop L bound [] = dret ()"
| "cleanup_loop L bound ((k, v) # kvs) =
     (if bound \<le> k then dret ()
      else dbind (dwrap ''failed to delete old state'' (Executor_Delete L k)) (\<lambda>_. cleanup_loop L bound kvs))"

definition CleanupChannelPendingStates ::
  "('d, 't) leveldb \<Rightarrow> ('b, 's, 'c, 'm) chan_env \<Rightarrow> ('m, 'c) Channel \<Rightarrow> StateBody \<Rightarrow> ('d, 't, unit) dbm" where
  "CleanupChannelPendingStates L E channel body =
     dbind (dlift (rwrap ''failed to generate key'' (getSavedChannelStateKey E channel body))) (\<lambda>key.
     let prefix = pending_prefix (sdAddress (Our channel)) in
     Transaction L (
       dbind (dwrap ''failed to delete'' (Executor_Delete L key)) (\<lambda>_.
       dbind (NewIterator L prefix True) (\<lambda>(kvs, _).
       cleanup_loop L (prefix @ seqno_bytes (sbSeqno body)) kvs))))"

section \<open>Block offset\<close>

record BlockOffset =
  boSeqno :: uint32
  boUpdatedAt :: gtime

definition SetBlockOffset :: "('d, 't) leveldb \<Rightarrow> BlockOffset json \<Rightarrow> gtime \<Rightarrow> uint32 \<Rightarrow> ('d, 't, unit) dbm" where
  "SetBlockOffset L J now seqno =
     dbind (dlift (rwrap ''failed to encode json'' (Marshal J \<lparr>boSeqno = seqno, boUpdatedAt = now\<rparr>))) (\<lambda>data.
     dwrap ''failed to put'' (Executor_Put L ''bo:master'' data))"

definition GetBlockOffset :: "('d, 't) leveldb \<Rightarrow> BlockOffset json \<Rightarrow> ('d, 't, BlockOffset) dbm" where
  "GetBlockOffset L J = get_json L J ''bo:master''"

end
