(* ===== verification/MetaDB.thy ===== *)
theory MetaDB
  imports ChannelDB
begin

text \<open>
  The conditional metas: \<^verbatim>\<open>tonpayments/db/virtual-channel.go\<close>. A meta is stored under
  \<open>vch:<key>\<close>; the keys of active incoming metas with special details are indexed under
  \<open>vchi:ActiveSpecialMetas:<key>\<close>, which the price worker walks. \<open>fields\<close> is what
  \<open>json.Marshal\<close> makes of the special details, read back as an object: the names of its fields.
\<close>

record ('c, 'j) meta_json =
  mjMeta :: "('c, 'j) ConditionalMeta json"
  mjFields :: "'j \<Rightarrow> string list res"

definition virtualChannelMetaKey :: "bytes \<Rightarrow> bytes" where
  "virtualChannelMetaKey key = ''vch:'' @ b64_encode key"

definition vchActiveSpecialMetasPrefix :: bytes where
  "vchActiveSpecialMetasPrefix = ''vchi:ActiveSpecialMetas:''"

definition activeSpecialMetaIndexKey :: "bytes \<Rightarrow> bytes" where
  "activeSpecialMetaIndexKey key = vchActiveSpecialMetasPrefix @ b64_encode key"

definition hasSpecialDetails :: "('c, 'j) meta_json \<Rightarrow> 'j option \<Rightarrow> bool" where
  "hasSpecialDetails J v = (case v of None \<Rightarrow> False
     | Some x \<Rightarrow> (case mjFields J x of Inl _ \<Rightarrow> False | Inr obj \<Rightarrow> 0 < length obj))"

definition shouldIndexActiveSpecialMeta :: "('c, 'j) meta_json \<Rightarrow> ('c, 'j) ConditionalMeta option \<Rightarrow> bool" where
  "shouldIndexActiveSpecialMeta J meta = (case meta of None \<Rightarrow> False
     | Some m \<Rightarrow> if Incoming m = None \<or> cmStatus m \<noteq> ConditionalStateActive then False
         else hasSpecialDetails J (SpecialDetails m))"

definition syncActiveSpecialMetasIndex ::
  "('d, 's) leveldb \<Rightarrow> ('c, 'j) meta_json \<Rightarrow> ('c, 'j) ConditionalMeta option \<Rightarrow> ('c, 'j) ConditionalMeta option \<Rightarrow>
   ('d, 's, unit) dbm" where
  "syncActiveSpecialMetasIndex L J prev next =
     (let prevIndexed = shouldIndexActiveSpecialMeta J prev;
          nextIndexed = shouldIndexActiveSpecialMeta J next in
      dbind (case prev of
          Some p \<Rightarrow> if prevIndexed \<and> (next = None \<or> \<not> nextIndexed \<or> map_option cmKey next \<noteq> Some (cmKey p))
            then dwrap ''failed to delete active special meta index'' (Executor_Delete L (activeSpecialMetaIndexKey (cmKey p)))
            else dret ()
        | None \<Rightarrow> dret ()) (\<lambda>_.
      case next of
          Some n \<Rightarrow> if nextIndexed
            then dwrap ''failed to put active special meta index'' (Executor_Put L (activeSpecialMetaIndexKey (cmKey n)) (cmKey n))
            else dret ()
        | None \<Rightarrow> dret ()))"

definition CreateVirtualChannelMeta ::
  "('d, 's) leveldb \<Rightarrow> ('c, 'j) meta_json \<Rightarrow> ('c, 'j) ConditionalMeta \<Rightarrow> ('d, 's, unit) dbm" where
  "CreateVirtualChannelMeta L J meta = (let key = virtualChannelMetaKey (cmKey meta) in
     Transaction L (
       dbind (dwrap ''failed to check existance'' (Executor_Has L key)) (\<lambda>has.
       if has then dlift (Inl DbErrAlreadyExists) else
       dbind (dlift (rwrap ''failed to encode json'' (Marshal (mjMeta J) meta))) (\<lambda>data.
       dbind (dwrap ''failed to put'' (Executor_Put L key data)) (\<lambda>_.
       syncActiveSpecialMetasIndex L J None (Some meta))))))"

definition UpdateVirtualChannelMeta ::
  "('d, 's) leveldb \<Rightarrow> ('c, 'j) meta_json \<Rightarrow> ('c, 'j) ConditionalMeta \<Rightarrow> ('d, 's, unit) dbm" where
  "UpdateVirtualChannelMeta L J meta = (let key = virtualChannelMetaKey (cmKey meta) in
     Transaction L (
       dbind (dwrap ''failed to check existance'' (Executor_Has L key)) (\<lambda>has.
       if \<not> has then dlift (Inl DbErrNotFound) else
       dbind (dwrap ''failed to load previous virtual channel meta'' (Executor_Get L key)) (\<lambda>prevRaw.
       dbind (dlift (rwrap ''failed to decode previous virtual channel meta'' (Unmarshal (mjMeta J) prevRaw))) (\<lambda>prev.
       dbind (dlift (rwrap ''failed to encode json'' (Marshal (mjMeta J) meta))) (\<lambda>data.
       dbind (dwrap ''failed to put'' (Executor_Put L key data)) (\<lambda>_.
       syncActiveSpecialMetasIndex L J (Some prev) (Some meta))))))))"

definition GetVirtualChannelMeta ::
  "('d, 's) leveldb \<Rightarrow> ('c, 'j) meta_json \<Rightarrow> bytes \<Rightarrow> ('d, 's, ('c, 'j) ConditionalMeta) dbm" where
  "GetVirtualChannelMeta L J key = get_json L (mjMeta J) (virtualChannelMetaKey key)"

text \<open>
  \<open>ForEachActiveSpecialMetaKey\<close>: the keys handed to the callback, in order, and the error at the
  end. \<open>stop\<close> is the first entry at which the context is cancelled; the callback runs on the
  executor.
\<close>

definition index_entry_key :: "bytes \<times> bytes \<Rightarrow> bytes option" where
  "index_entry_key kv = (if length (snd kv) = 32 then Some (snd kv)
     else (case b64_decode (drop (length vchActiveSpecialMetasPrefix) (fst kv)) of (dec, ok) \<Rightarrow>
       if \<not> ok \<or> length dec \<noteq> 32 then None else Some dec))"

fun for_each_loop ::
  "(bytes \<Rightarrow> ('d, 's, unit) dbm) \<Rightarrow> (bytes \<times> bytes) list \<Rightarrow> nat option \<Rightarrow> ('d, 's, unit) dbm" where
  "for_each_loop f [] stop = dret ()"
| "for_each_loop f (kv # kvs) stop =
     (if stop = Some 0 then dlift (Inl (Errorf ''context canceled''))
      else let rest = for_each_loop f kvs (map_option (\<lambda>n. n - 1) stop) in
        (case index_entry_key kv of None \<Rightarrow> rest | Some k \<Rightarrow> dbind (f k) (\<lambda>_. rest)))"

definition ForEachActiveSpecialMetaKey ::
  "('d, 's) leveldb \<Rightarrow> nat option \<Rightarrow> (bytes \<Rightarrow> ('d, 's, unit) dbm) \<Rightarrow> ('d, 's, unit) dbm" where
  "ForEachActiveSpecialMetaKey L stop f =
     dbind (NewIterator L vchActiveSpecialMetasPrefix True) (\<lambda>(kvs, err).
     dbind (for_each_loop f kvs stop) (\<lambda>_.
     case err of Some e \<Rightarrow> dlift (Inl (wrapf ''failed to iterate active special metas index'' e)) | None \<Rightarrow> dret ()))"

definition load_meta :: "('d, 's) leveldb \<Rightarrow> ('c, 'j) meta_json \<Rightarrow> bytes \<Rightarrow> ('d, 's, ('c, 'j) ConditionalMeta) dbm" where
  "load_meta L J k =
     dbind (dcatch (Executor_Get L (virtualChannelMetaKey k)) (\<lambda>err.
       if errors_is err DbErrNotFound then dlift (Inl DbErrNotFound)
       else dlift (Inl (wrapf ''failed to load virtual channel meta'' err)))) (\<lambda>raw.
     dlift (rwrap ''failed to decode virtual channel meta'' (Unmarshal (mjMeta J) raw)))"

definition store_meta ::
  "('d, 's) leveldb \<Rightarrow> ('c, 'j) meta_json \<Rightarrow> ('c, 'j) ConditionalMeta \<Rightarrow> ('c, 'j) ConditionalMeta \<Rightarrow> ('d, 's, unit) dbm" where
  "store_meta L J prev next =
     dbind (dlift (rwrap ''failed to encode virtual channel meta'' (Marshal (mjMeta J) next))) (\<lambda>data.
     dbind (dwrap ''failed to store virtual channel meta'' (Executor_Put L (virtualChannelMetaKey (cmKey next)) data)) (\<lambda>_.
     syncActiveSpecialMetasIndex L J (Some prev) (Some next)))"

definition resolve_linked_key :: "('c, 'j) ConditionalMeta \<Rightarrow> bytes" where
  "resolve_linked_key meta = (case Incoming meta of
     Some i \<Rightarrow> if length (LinkedKey i) = 32 then LinkedKey i
       else (case Outgoing meta of Some ou \<Rightarrow> if length (LinkedKey ou) = 32 then LinkedKey ou else [] | None \<Rightarrow> [])
   | None \<Rightarrow> (case Outgoing meta of Some ou \<Rightarrow> if length (LinkedKey ou) = 32 then LinkedKey ou else [] | None \<Rightarrow> []))"

definition set_status :: "gtime \<Rightarrow> ConditionalStatus \<Rightarrow> ('c, 'j) ConditionalMeta \<Rightarrow> ('c, 'j) ConditionalMeta" where
  "set_status now status meta = meta\<lparr>cmStatus := status, cmUpdatedAt := now\<rparr>"

definition ClosePairMeta ::
  "('d, 's) leveldb \<Rightarrow> ('c, 'j) meta_json \<Rightarrow> gtime \<Rightarrow> bytes \<Rightarrow> ConditionalStatus \<Rightarrow> ('d, 's, unit) dbm" where
  "ClosePairMeta L J now key status = Transaction L (
     dbind (load_meta L J key) (\<lambda>meta.
     dbind (store_meta L J meta (set_status now status meta)) (\<lambda>_.
     let linkedKey = resolve_linked_key meta in
     if length linkedKey \<noteq> 32 \<or> linkedKey = cmKey meta then dret ()
     else dbind (dcatch (dbind (load_meta L J linkedKey) (\<lambda>m. dret (Some m)))
         (\<lambda>err. if errors_is err DbErrNotFound then dret None else dlift (Inl err))) (\<lambda>linked.
       case linked of None \<Rightarrow> dret ()
       | Some m \<Rightarrow> store_meta L J m (set_status now status m)))))"

end
