(* ===== verification/MetaLaws.thy ===== *)
theory MetaLaws
  imports MetaDB
begin

text \<open>
  The index of active special metas is a view of the stored metas: every operation keeps it so, and
  the walk over the index visits exactly the active incoming metas with special details.
\<close>

section \<open>Invariant\<close>

definition stored_meta :: "('c, 'j) meta_json \<Rightarrow> (bytes, bytes) omap \<Rightarrow> bytes \<Rightarrow> ('c, 'j) ConditionalMeta option" where
  "stored_meta J m k = (case map_of m (virtualChannelMetaKey k) of None \<Rightarrow> None
     | Some d \<Rightarrow> (case Unmarshal (mjMeta J) d of Inl _ \<Rightarrow> None | Inr x \<Rightarrow> Some x))"

definition meta_entry_ok :: "('c, 'j) meta_json \<Rightarrow> (('c, 'j) ConditionalMeta \<Rightarrow> bool) \<Rightarrow> (bytes, bytes) omap \<Rightarrow> bytes \<Rightarrow> bool" where
  "meta_entry_ok J P m k \<longleftrightarrow> (map_of m (virtualChannelMetaKey k) \<noteq> None \<longrightarrow>
     (\<exists>x. stored_meta J m k = Some x \<and> P x \<and> cmKey x = k))"

definition meta_index_ok :: "('c, 'j) meta_json \<Rightarrow> (('c, 'j) ConditionalMeta \<Rightarrow> bool) \<Rightarrow> (bytes, bytes) omap \<Rightarrow> bool" where
  "meta_index_ok J P m \<longleftrightarrow> omap_ok m \<and> (\<forall>k. meta_entry_ok J P m k) \<and>
     (\<forall>k. map_of m (activeSpecialMetaIndexKey k) =
        (if shouldIndexActiveSpecialMeta J (stored_meta J m k) then Some k else None)) \<and>
     (\<forall>i. prefix vchActiveSpecialMetasPrefix i \<longrightarrow> map_of m i \<noteq> None \<longrightarrow> (\<exists>k. i = activeSpecialMetaIndexKey k))"

lemma b64_inj [simp]: "b64_encode a = b64_encode b \<longleftrightarrow> a = b"
  by (metis b64_decode_encode fst_conv)

lemma meta_keys [simp]:
  "virtualChannelMetaKey a = virtualChannelMetaKey b \<longleftrightarrow> a = b"
  "activeSpecialMetaIndexKey a = activeSpecialMetaIndexKey b \<longleftrightarrow> a = b"
  "virtualChannelMetaKey a \<noteq> activeSpecialMetaIndexKey b" "activeSpecialMetaIndexKey b \<noteq> virtualChannelMetaKey a"
  "prefix vchActiveSpecialMetasPrefix (activeSpecialMetaIndexKey b)"
  "\<not> prefix vchActiveSpecialMetasPrefix (virtualChannelMetaKey a)"
  by (simp_all add: virtualChannelMetaKey_def activeSpecialMetaIndexKey_def vchActiveSpecialMetasPrefix_def)

text \<open>The writes of a synchronisation of the index with a meta that keeps its key.\<close>

definition sync_ops ::
  "('c, 'j) meta_json \<Rightarrow> ('c, 'j) ConditionalMeta option \<Rightarrow> ('c, 'j) ConditionalMeta \<Rightarrow> batch_op list" where
  "sync_ops J prev next =
     (if shouldIndexActiveSpecialMeta J (Some next) then [BPut (activeSpecialMetaIndexKey (cmKey next)) (cmKey next)]
      else if shouldIndexActiveSpecialMeta J prev then [BDelete (activeSpecialMetaIndexKey (cmKey next))] else [])"

definition meta_ops ::
  "('c, 'j) meta_json \<Rightarrow> ('c, 'j) ConditionalMeta option \<Rightarrow> ('c, 'j) ConditionalMeta \<Rightarrow> bytes \<Rightarrow> batch_op list" where
  "meta_ops J prev next data = BPut (virtualChannelMetaKey (cmKey next)) data # sync_ops J prev next"

lemma map_of_meta_ops [simp]:
  "i \<noteq> virtualChannelMetaKey (cmKey next) \<Longrightarrow> i \<noteq> activeSpecialMetaIndexKey (cmKey next) \<Longrightarrow>
   map_of (apply_batch (meta_ops J prev next data) m) i = map_of m i"
  "map_of (apply_batch (meta_ops J prev next data) m) (virtualChannelMetaKey (cmKey next)) = Some data"
  by (simp_all add: meta_ops_def sync_ops_def)

lemma stored_meta_ops:
  "Unmarshal (mjMeta J) data = Inr next \<Longrightarrow> stored_meta J (apply_batch (meta_ops J prev next data) m) k =
     (if k = cmKey next then Some next else stored_meta J m k)"
  by (simp add: stored_meta_def)

lemma meta_ops_ok:
  assumes "meta_index_ok J P m" "stored_meta J m (cmKey next) = prev" "Unmarshal (mjMeta J) data = Inr next" "P next"
  shows "meta_index_ok J P (apply_batch (meta_ops J prev next data) m)" (is "meta_index_ok J P ?m")
proof -
  note st = stored_meta_ops [OF assms(3), of prev m]
  have "meta_entry_ok J P ?m k" for k
    using assms(1,4) st [of k] by (cases "k = cmKey next") (simp_all add: meta_index_ok_def meta_entry_ok_def)
  moreover have "map_of ?m (activeSpecialMetaIndexKey k) =
      (if shouldIndexActiveSpecialMeta J (stored_meta J ?m k) then Some k else None)" for k
    using assms(1,2) st [of k] by (cases "k = cmKey next") (simp_all add: meta_index_ok_def meta_ops_def sync_ops_def)
  moreover have "\<exists>k. i = activeSpecialMetaIndexKey k" if "prefix vchActiveSpecialMetasPrefix i" "map_of ?m i \<noteq> None" for i
    using that assms(1) by (cases "i = activeSpecialMetaIndexKey (cmKey next)")
      (auto simp: meta_index_ok_def meta_ops_def sync_ops_def split: if_splits)
  ultimately show ?thesis using assms(1) by (simp add: meta_index_ok_def)
qed

section \<open>Operations\<close>

text \<open>Any sequence of the operations on metas, and a callback run on a list of keys.\<close>

inductive meta_step :: "('d, 's) leveldb \<Rightarrow> ('c, 'j) meta_json \<Rightarrow> (('c, 'j) ConditionalMeta \<Rightarrow> bool) \<Rightarrow> 'd \<Rightarrow> 'd \<Rightarrow> bool"
  for L J P where
  create: "P x \<Longrightarrow> CreateVirtualChannelMeta L J x (OnDB d) = (r, OnDB d') \<Longrightarrow> meta_step L J P d d'"
| update: "P x \<Longrightarrow> UpdateVirtualChannelMeta L J x (OnDB d) = (r, OnDB d') \<Longrightarrow> meta_step L J P d d'"
| close: "ClosePairMeta L J now k status (OnDB d) = (r, OnDB d') \<Longrightarrow> meta_step L J P d d'"

fun run_all :: "(bytes \<Rightarrow> ('d, 's, unit) dbm) \<Rightarrow> bytes list \<Rightarrow> ('d, 's, unit) dbm" where
  "run_all f [] = dret ()"
| "run_all f (k # ks) = dbind (f k) (\<lambda>_. run_all f ks)"

locale meta_store = leveldb_laws L view sview snap
  for L :: "('d, 's) leveldb"
    and view :: "'d \<Rightarrow> (bytes, bytes) omap"
    and sview :: "'s \<Rightarrow> (bytes, bytes) omap"
    and snap :: "'d \<Rightarrow> 's" +
  fixes J :: "('c, 'j) meta_json"
    and P :: "('c, 'j) ConditionalMeta \<Rightarrow> bool"
  assumes meta_json: "json_ok (mjMeta J) P"
    and meta_status: "P m \<Longrightarrow> P (set_status now status m)"
    and meta_key: "P m \<Longrightarrow> length (cmKey m) = 32"
begin

lemma sync_run:
  assumes "prev = None \<or> map_option cmKey prev = Some (cmKey next)"
  shows "syncActiveSpecialMetasIndex L J prev (Some next) (OnTx d s b) = (Inr (), OnTx d s (b @ sync_ops J prev next))"
  using assms by (cases prev) (auto simp: syncActiveSpecialMetasIndex_def sync_ops_def shouldIndexActiveSpecialMeta_def Let_def)

lemma meta_data: "P m \<Longrightarrow> \<exists>data. Marshal (mjMeta J) m = Inr data \<and> Unmarshal (mjMeta J) data = Inr m"
  using meta_json by (rule json_okD)

lemma load_meta_run:
  "load_meta L J k (OnTx d s b) = ((case map_of (sview s) (virtualChannelMetaKey k) of None \<Rightarrow> Inl DbErrNotFound
     | Some raw \<Rightarrow> rwrap ''failed to decode virtual channel meta'' (Unmarshal (mjMeta J) raw)), OnTx d s b)"
  by (simp add: load_meta_def lookup_res_def split: option.splits)

lemma store_meta_run:
  assumes "P next" "cmKey prev = cmKey next" "Marshal (mjMeta J) next = Inr data"
  shows "store_meta L J prev next (OnTx d s b) = (Inr (), OnTx d s (b @ meta_ops J (Some prev) next data))"
  using assms by (simp add: store_meta_def sync_run meta_ops_def)

lemma stored_metaD:
  assumes "meta_index_ok J P m" "map_of m (virtualChannelMetaKey k) = Some raw"
  obtains x where "Unmarshal (mjMeta J) raw = Inr x" "P x" "cmKey x = k" "stored_meta J m k = Some x"
  using assms unfolding meta_index_ok_def meta_entry_ok_def by (auto simp: stored_meta_def split: sum.splits)

lemma create_keeps:
  assumes "meta_index_ok J P (view d)" "P x" "CreateVirtualChannelMeta L J x (OnDB d) = (r, OnDB d')"
  shows "meta_index_ok J P (view d')"
proof -
  obtain data where data: "Marshal (mjMeta J) x = Inr data" "Unmarshal (mjMeta J) data = Inr x"
    using meta_data [OF assms(2)] by blast
  show ?thesis
  proof (cases "map_of (view d) (virtualChannelMetaKey (cmKey x))")
    case None
    with assms(3) data(1) have "view d' = apply_batch (meta_ops J None x data) (view d)"
      by (auto simp: CreateVirtualChannelMeta_def Let_def tx_run sync_run meta_ops_def db_write(2))
    then show ?thesis using meta_ops_ok [OF assms(1) _ data(2) assms(2), of None] None by (simp add: stored_meta_def)
  next
    case (Some raw)
    with assms(3) have "d' = d" by (auto simp: CreateVirtualChannelMeta_def Let_def tx_run)
    with assms(1) show ?thesis by simp
  qed
qed

lemma update_keeps:
  assumes "meta_index_ok J P (view d)" "P x" "UpdateVirtualChannelMeta L J x (OnDB d) = (r, OnDB d')"
  shows "meta_index_ok J P (view d')"
proof -
  obtain data where data: "Marshal (mjMeta J) x = Inr data" "Unmarshal (mjMeta J) data = Inr x"
    using meta_data [OF assms(2)] by blast
  show ?thesis
  proof (cases "map_of (view d) (virtualChannelMetaKey (cmKey x))")
    case (Some raw)
    obtain p where p: "Unmarshal (mjMeta J) raw = Inr p" "cmKey p = cmKey x" "stored_meta J (view d) (cmKey x) = Some p"
      using stored_metaD [OF assms(1) Some] by metis
    with assms(3) data(1) Some have "view d' = apply_batch (meta_ops J (Some p) x data) (view d)"
      by (auto simp: UpdateVirtualChannelMeta_def Let_def tx_run sync_run meta_ops_def db_write(2))
    then show ?thesis using meta_ops_ok [OF assms(1) p(3) data(2) assms(2)] by simp
  next
    case None
    with assms(3) have "d' = d" by (auto simp: UpdateVirtualChannelMeta_def Let_def tx_run)
    with assms(1) show ?thesis by simp
  qed
qed

lemma set_status_key [simp]: "cmKey (set_status now status m) = cmKey m"
  by (simp add: set_status_def)

text \<open>What \<open>ClosePairMeta\<close> does: the meta and, when it is stored, the linked one get the new status.\<close>

lemma close_pair_spec:
  assumes "meta_index_ok J P (view d)" "stored_meta J (view d) k = Some x"
    and "ClosePairMeta L J now k status (OnDB d) = (r, OnDB d')"
  shows "r = Inr () \<and> meta_index_ok J P (view d') \<and> (\<forall>i. stored_meta J (view d') i =
    (if i = k \<or> (i = resolve_linked_key x \<and> length i = 32) then map_option (set_status now status) (stored_meta J (view d) i)
     else stored_meta J (view d) i))"
proof -
  let ?l = "resolve_linked_key x"
  obtain raw where raw: "map_of (view d) (virtualChannelMetaKey k) = Some raw" "Unmarshal (mjMeta J) raw = Inr x"
    using assms(2) by (auto simp: stored_meta_def split: option.splits sum.splits)
  from stored_metaD [OF assms(1) raw(1)] raw(2) have x: "P x" "cmKey x = k" by auto
  have nx: "P (set_status now status x)" "cmKey (set_status now status x) = k" using meta_status x by auto
  obtain data where data: "Marshal (mjMeta J) (set_status now status x) = Inr data"
    "Unmarshal (mjMeta J) data = Inr (set_status now status x)" using meta_data [OF nx(1)] by blast
  let ?b = "meta_ops J (Some x) (set_status now status x) data"
  let ?m = "apply_batch ?b (view d)"
  have ok1: "meta_index_ok J P ?m" using meta_ops_ok [OF assms(1) _ data(2) nx(1), of "Some x"] assms(2) nx(2) by simp
  have st1: "stored_meta J ?m i = (if i = k then Some (set_status now status x) else stored_meta J (view d) i)" for i
    using stored_meta_ops [OF data(2)] nx(2) by simp
  show ?thesis
  proof (cases "length ?l = 32 \<and> ?l \<noteq> k \<and> map_of (view d) (virtualChannelMetaKey ?l) \<noteq> None")
    case False
    with assms(3) raw x nx data(1) have "r = Inr ()" "view d' = ?m"
      by (auto simp: ClosePairMeta_def Let_def tx_run load_meta_run store_meta_run db_write(2) exec_if split: if_splits)
    with ok1 st1 False assms(2) show ?thesis by (auto simp: stored_meta_def split: option.splits)
  next
    case True
    then obtain lraw where lraw: "map_of (view d) (virtualChannelMetaKey ?l) = Some lraw" by auto
    obtain l where l: "Unmarshal (mjMeta J) lraw = Inr l" "P l" "cmKey l = ?l" "stored_meta J (view d) ?l = Some l"
      by (rule stored_metaD [OF assms(1) lraw])
    have nl: "P (set_status now status l)" using meta_status l(2) by auto
    obtain ldata where ldata: "Marshal (mjMeta J) (set_status now status l) = Inr ldata"
      "Unmarshal (mjMeta J) ldata = Inr (set_status now status l)" using meta_data [OF nl] by blast
    let ?lb = "meta_ops J (Some l) (set_status now status l) ldata"
    have r: "r = Inr ()" "view d' = apply_batch ?lb ?m"
      using assms(3) raw x nx data(1) True lraw l nl ldata(1)
      by (auto simp: ClosePairMeta_def Let_def tx_run load_meta_run store_meta_run db_write(2))
    have "meta_index_ok J P (view d')"
      unfolding r(2) using meta_ops_ok [OF ok1 _ ldata(2) nl, of "Some l"] st1 l(3,4) True by simp
    moreover have "stored_meta J (view d') i = (if i = ?l then Some (set_status now status l) else stored_meta J ?m i)" for i
      unfolding r(2) using stored_meta_ops [OF ldata(2)] l(3) by simp
    ultimately show ?thesis using r(1) st1 l(4) assms(2) True by auto
  qed
qed

lemma close_keeps:
  assumes "meta_index_ok J P (view d)" "ClosePairMeta L J now k status (OnDB d) = (r, OnDB d')"
  shows "meta_index_ok J P (view d')"
proof (cases "map_of (view d) (virtualChannelMetaKey k)")
  case None
  with assms(2) have "d' = d" by (auto simp: ClosePairMeta_def tx_run load_meta_run)
  with assms(1) show ?thesis by simp
next
  case (Some raw)
  obtain x where "stored_meta J (view d) k = Some x" by (rule stored_metaD [OF assms(1) Some])
  from close_pair_spec [OF assms(1) this assms(2)] show ?thesis by blast
qed

lemma meta_steps_keep: "(meta_step L J P)\<^sup>*\<^sup>* d d' \<Longrightarrow> meta_index_ok J P (view d) \<Longrightarrow> meta_index_ok J P (view d')"
  by (induction rule: rtranclp_induct) (auto elim!: meta_step.cases intro: create_keeps update_keeps close_keeps)

text \<open>The walk runs the callback on every indexed key, each once.\<close>

lemma for_each_run:
  "(\<And>kv. kv \<in> set kvs \<Longrightarrow> index_entry_key kv = Some (snd kv)) \<Longrightarrow> for_each_loop f kvs None = run_all f (map snd kvs)"
  by (induction kvs) (auto simp: Let_def)

lemma index_walk:
  assumes "meta_index_ok J P (view d)"
  shows "\<exists>ks. distinct ks \<and> set ks = {k. shouldIndexActiveSpecialMeta J (stored_meta J (view d) k)} \<and>
    ForEachActiveSpecialMetaKey L None f (OnDB d) = run_all f ks (OnDB d)"
proof -
  let ?kvs = "with_prefix vchActiveSpecialMetasPrefix (view d)"
  have m: "omap_ok (view d)" using assms by (simp add: meta_index_ok_def)
  have e: "(i, v) \<in> set ?kvs \<longleftrightarrow> i = activeSpecialMetaIndexKey v \<and> shouldIndexActiveSpecialMeta J (stored_meta J (view d) v)" for i v
  proof -
    have "i = activeSpecialMetaIndexKey v \<and> shouldIndexActiveSpecialMeta J (stored_meta J (view d) v)"
      if "map_of (view d) i = Some v" "prefix vchActiveSpecialMetasPrefix i"
    proof -
      from that assms obtain k where k: "i = activeSpecialMetaIndexKey k" unfolding meta_index_ok_def by blast
      with that(1) assms have "Some v = (if shouldIndexActiveSpecialMeta J (stored_meta J (view d) k) then Some k else None)"
        unfolding meta_index_ok_def by metis
      with k show ?thesis by (simp split: if_splits)
    qed
    with assms m show ?thesis unfolding meta_index_ok_def by (auto simp: omap_mem_iff)
  qed
  have len: "length v = 32" if "shouldIndexActiveSpecialMeta J (stored_meta J (view d) v)" for v
  proof -
    from that obtain raw where "map_of (view d) (virtualChannelMetaKey v) = Some raw"
      by (auto simp: stored_meta_def shouldIndexActiveSpecialMeta_def split: option.splits)
    then show ?thesis using stored_metaD [OF assms] meta_key by metis
  qed
  have "distinct ?kvs" using omap_ok_with_prefix [OF m] by (metis distinct_map omap_ok_def strict_sorted_iff)
  moreover have "inj_on snd (set ?kvs)" using e by (auto intro!: inj_onI simp del: set_with_prefix)
  ultimately have "distinct (map snd ?kvs)" by (simp add: distinct_map)
  moreover have "set (map snd ?kvs) = {k. shouldIndexActiveSpecialMeta J (stored_meta J (view d) k)}"
  proof (rule set_eqI)
    fix k show "k \<in> set (map snd ?kvs) \<longleftrightarrow> k \<in> {k. shouldIndexActiveSpecialMeta J (stored_meta J (view d) k)}"
      using e [of "activeSpecialMetaIndexKey k" k] e [of _ k] unfolding set_map image_iff mem_Collect_eq by (metis prod.collapse snd_conv)
  qed
  moreover have "for_each_loop f ?kvs None = run_all f (map snd ?kvs)"
    using e len by (intro for_each_run) (auto simp: index_entry_key_def simp del: set_with_prefix)
  moreover have "ForEachActiveSpecialMetaKey L None f (OnDB d) = for_each_loop f ?kvs None (OnDB d)"
    by (simp add: ForEachActiveSpecialMetaKey_def iter_order_def dret_def split: prod.splits sum.splits)
  ultimately show ?thesis by metis
qed

end

section \<open>Properties\<close>

text \<open>C28: The index of active special metas is exact. After any sequence of creations, updates and
  closings of metas, walking the index calls the worker once for every stored meta that is active,
  incoming and has special details, and for no other key.\<close>

theorem special_index_exact:
  assumes "meta_store L view sview snap J P" "meta_index_ok J P (view d)" "(meta_step L J P)\<^sup>*\<^sup>* d d'"
  shows "\<exists>ks. distinct ks \<and> set ks = {k. shouldIndexActiveSpecialMeta J (stored_meta J (view d') k)} \<and>
    ForEachActiveSpecialMetaKey L None f (OnDB d') = run_all f ks (OnDB d')"
  using meta_store.index_walk [OF assms(1)] meta_store.meta_steps_keep [OF assms(1,3,2)] .

text \<open>Two linked metas, of which the incoming one has special details.\<close>

definition ex_link :: "bytes \<Rightarrow> tcell ConditionalMetaSide" where
  "ex_link k = \<lparr>cmChannelAddress = ''a'', cmConditional = None, UncooperativeDeadline = 0, SafeDeadline = 0,
     SenderKey = [], LinkedKey = k\<rparr>"

definition ex_in :: "(tcell, unit) ConditionalMeta" where
  "ex_in = \<lparr>cmKey = be_put 32 3, cmStatus = ConditionalStateActive, Incoming = Some (ex_link (be_put 32 2)), Outgoing = None,
     LastKnownResolve = None, FinalDestination = [], SpecialDetails = Some (), cmCreatedAt = 0, cmUpdatedAt = 0\<rparr>"

definition ex_out :: "(tcell, unit) ConditionalMeta" where
  "ex_out = \<lparr>cmKey = be_put 32 2, cmStatus = ConditionalStateActive, Incoming = None, Outgoing = Some (ex_link (be_put 32 3)),
     LastKnownResolve = None, FinalDestination = [], SpecialDetails = Some (), cmCreatedAt = 0, cmUpdatedAt = 0\<rparr>"

fun enc_status :: "ConditionalStatus \<Rightarrow> bytes" where
  "enc_status ConditionalStateActive = enc_nat 1"
| "enc_status ConditionalStateWantClose = enc_nat 2"
| "enc_status ConditionalStateClosed = enc_nat 3"
| "enc_status ConditionalStateWantRemove = enc_nat 4"
| "enc_status ConditionalStateRemoved = enc_nat 5"
| "enc_status ConditionalStatePending = enc_nat 6"

definition dec_status :: "bytes \<Rightarrow> (ConditionalStatus \<times> bytes) option" where
  "dec_status d = map_option (\<lambda>(n, r). ([ConditionalStateActive, ConditionalStateActive, ConditionalStateWantClose,
     ConditionalStateClosed, ConditionalStateWantRemove, ConditionalStateRemoved, ConditionalStatePending] ! n, r)) (dec_nat d)"

lemma dec_enc_status [simp]: "dec_status (enc_status st @ r) = Some (st, r)"
  by (cases st) (simp_all add: dec_status_def)

text \<open>A codec for the two metas with any status and time of update.\<close>

definition ex_meta_json :: "(tcell, unit) meta_json" where
  "ex_meta_json = \<lparr>
     mjMeta = \<lparr>Marshal = (\<lambda>m. Inr ((if cmKey m = be_put 32 3 then ''i'' else ''o'') @ enc_status (cmStatus m) @ enc_int (cmUpdatedAt m))),
       Unmarshal = (\<lambda>d. case dec_status (tl d) of None \<Rightarrow> Inl (Errorf ''invalid json'') | Some (st, r) \<Rightarrow>
         (case dec_int r of None \<Rightarrow> Inl (Errorf ''invalid json'') | Some (t, _) \<Rightarrow>
           Inr (set_status t st (if hd d = CHR ''i'' then ex_in else ex_out))))\<rparr>,
     mjFields = (\<lambda>_. Inr [''details''])\<rparr>"

definition ex_meta_ok :: "(tcell, unit) ConditionalMeta \<Rightarrow> bool" where
  "ex_meta_ok m \<longleftrightarrow> (\<exists>t st. m = set_status t st ex_in \<or> m = set_status t st ex_out)"

lemma ex_keys_differ [simp]: "be_put 32 2 \<noteq> be_put 32 3" "be_put 32 3 \<noteq> be_put 32 2"
  using be_put_inj [of 2 32 3] by auto

lemma dec_enc_int_end [simp]: "dec_int (enc_int i) = Some (i, [])"
  using dec_enc_int [of i "[]"] by simp

lemma set_status_twice: "set_status t st (set_status t' st' m) = set_status t st m"
  by (simp add: set_status_def)

lemma ex_meta_json_ok: "json_ok (mjMeta ex_meta_json) ex_meta_ok"
  by (auto simp: json_ok_def ex_meta_json_def ex_meta_ok_def set_status_def ex_in_def ex_out_def)

interpretation mem_metas: meta_store mem_db mem_view msnap_view Snap ex_meta_json ex_meta_ok
proof
  show "json_ok (mjMeta ex_meta_json) ex_meta_ok" by (rule ex_meta_json_ok)
  show "ex_meta_ok m \<Longrightarrow> ex_meta_ok (set_status now status m)" for m now status
    unfolding ex_meta_ok_def by (metis set_status_twice)
  show "ex_meta_ok m \<Longrightarrow> length (cmKey m) = 32" for m
    by (auto simp: ex_meta_ok_def set_status_def ex_in_def ex_out_def)
qed

definition ex_meta_log :: mem where
  "ex_meta_log = meta_ops ex_meta_json None ex_in (''i'' @ enc_status ConditionalStateActive @ enc_int 0) @
     meta_ops ex_meta_json None ex_out (''o'' @ enc_status ConditionalStateActive @ enc_int 0)"

lemma ex_meta_data:
  "Marshal (mjMeta ex_meta_json) ex_in = Inr (''i'' @ enc_status ConditionalStateActive @ enc_int 0)"
  "Marshal (mjMeta ex_meta_json) ex_out = Inr (''o'' @ enc_status ConditionalStateActive @ enc_int 0)"
  "Unmarshal (mjMeta ex_meta_json) (''i'' @ enc_status ConditionalStateActive @ enc_int 0) = Inr ex_in"
  "Unmarshal (mjMeta ex_meta_json) (''o'' @ enc_status ConditionalStateActive @ enc_int 0) = Inr ex_out"
  by (simp_all add: ex_meta_json_def set_status_def ex_in_def ex_out_def del: enc_status.simps)

lemma ex_metas_ok [simp]: "ex_meta_ok ex_in" "ex_meta_ok ex_out"
  by (auto simp: ex_meta_ok_def set_status_def ex_in_def ex_out_def)

lemma ex_meta_empty: "meta_index_ok ex_meta_json ex_meta_ok (mem_view [])"
  by (simp add: meta_index_ok_def meta_entry_ok_def stored_meta_def mem_view_def shouldIndexActiveSpecialMeta_def)

lemma ex_meta_keys [simp]: "cmKey ex_in = be_put 32 3" "cmKey ex_out = be_put 32 2"
  by (simp_all add: ex_in_def ex_out_def)

lemma ex_meta_stored: "stored_meta ex_meta_json (mem_view ex_meta_log) k =
    (if k = be_put 32 2 then Some ex_out else if k = be_put 32 3 then Some ex_in else None)"
  using ex_meta_data(3,4)
  by (simp add: ex_meta_log_def mem_view_def stored_meta_ops) (simp add: stored_meta_def)

lemma ex_meta_steps: "(meta_step mem_db ex_meta_json ex_meta_ok)\<^sup>*\<^sup>* [] ex_meta_log"
proof -
  let ?a = "meta_ops ex_meta_json None ex_in (''i'' @ enc_status ConditionalStateActive @ enc_int 0)"
  have "CreateVirtualChannelMeta mem_db ex_meta_json ex_in (OnDB []) = (Inr (), OnDB ?a)"
    using ex_meta_data(1)
    by (simp add: CreateVirtualChannelMeta_def Let_def mem.tx_run mem_metas.sync_run meta_ops_def mem_view_def)
      (simp add: mem_db_def)
  moreover have "map_of (mem_view ?a) (virtualChannelMetaKey (cmKey ex_out)) = None"
    by (simp add: mem_view_def)
  then have "CreateVirtualChannelMeta mem_db ex_meta_json ex_out (OnDB ?a) = (Inr (), OnDB ex_meta_log)"
    using ex_meta_data(2)
    by (simp add: CreateVirtualChannelMeta_def Let_def mem.tx_run mem_metas.sync_run meta_ops_def ex_meta_log_def)
      (simp add: mem_db_def)
  ultimately show ?thesis
    by (meson converse_rtranclp_into_rtranclp ex_metas_ok meta_step.create rtranclp.rtrancl_refl)
qed

theorem special_index_exact_witness:
  "\<exists>ks. distinct ks \<and> set ks = {be_put 32 3} \<and>
    ForEachActiveSpecialMetaKey mem_db None (\<lambda>k. Executor_Put mem_db k []) (OnDB ex_meta_log) = run_all (\<lambda>k. Executor_Put mem_db k []) ks (OnDB ex_meta_log)"
proof -
  have "{k. shouldIndexActiveSpecialMeta ex_meta_json (stored_meta ex_meta_json (mem_view ex_meta_log) k)} = {be_put 32 3}"
    by (auto simp: ex_meta_stored shouldIndexActiveSpecialMeta_def ex_out_def)
      (simp_all add: ex_in_def hasSpecialDetails_def ex_meta_json_def)
  with special_index_exact [OF mem_metas.meta_store_axioms ex_meta_empty ex_meta_steps, of "\<lambda>k. Executor_Put mem_db k []"] show ?thesis by simp
qed

text \<open>Closing a pair is atomic: with one call the meta and, when it is stored, the meta it is linked
  to get the new status; every other meta is untouched.\<close>

lemma close_pair_atomic:
  assumes "meta_store L view sview snap J P" "meta_index_ok J P (view d)" "stored_meta J (view d) k = Some x"
    and "ClosePairMeta L J now k status (OnDB d) = (r, OnDB d')"
  shows "r = Inr () \<and> (\<forall>i. stored_meta J (view d') i =
    (if i = k \<or> (i = resolve_linked_key x \<and> length i = 32) then map_option (set_status now status) (stored_meta J (view d) i)
     else stored_meta J (view d) i))"
  using meta_store.close_pair_spec [OF assms] by blast

end
