(* ===== verification/Transport.thy ===== *)
theory Transport
  imports ChannelTypes
begin

text \<open>
  The messages between nodes: \<^verbatim>\<open>tonpayments/transport/types.go\<close>. The proposable and requestable
  actions, and the instructions of a tunnel: each is encrypted for its hop, and a hop reads only its
  own. The TL serialisation, SHA-256 and the key agreement are parameters; random numbers are
  arguments.
\<close>

section \<open>Actions\<close>

record InstructionContainer =
  icHash :: bytes
  icData :: bytes

record 'c AddConditionalInstruction =
  aiTarget :: bytes
  NextInstructionKey :: bytes
  ExpectedDeadline :: int
  NextTarget :: bytes
  NextDeadline :: int
  aiDetails :: "'c option"
  FinalState :: "'c option"

text \<open>\<open>instructionPrivateKey\<close> is not part of the message: instructions to send are paired with it.\<close>

record 'c AddConditionalAction =
  NewActionCode :: "'c option"
  acConditional :: 'c
  InstructionKey :: bytes
  Instructions :: "InstructionContainer list"
  acSignature :: bytes

record SwapAction =
  FromBalanceID :: bytes
  ToBalanceID :: bytes
  FromAmount :: bytes
  ToAmount :: bytes

record RentCapacityAction =
  rcTill :: uint64
  rcAmount :: bytes
  rcBalanceID :: bytes

record CooperativeCommitAction =
  caActionID :: bytes
  MsgSignature :: bytes
  WithFee :: bool

datatype 'c transport_action =
    AddConditional "'c AddConditionalAction"
  | ExecuteConditional bytes 'c
  | RemoveConditional bytes
  | IncrementStates bool
  | CommitVirtual bytes 'c
  | RentCapacity RentCapacityAction
  | CooperativeCommit CooperativeCommitAction
  | RemoveAction bytes
  | Swap SwapAction
  | CooperativeClose 'c
  | ExecuteTransaction 'c

section \<open>Tunnel instructions\<close>

text \<open>
  The libraries the instructions use: TL serialisation (a parse ignores what follows the value),
  SHA-256, and the primitives of \<open>vc_cipher\<close>.
\<close>

record 'c tl_lib =
  tlK :: "'c vc_cipher"
  tlSha256 :: "bytes \<Rightarrow> bytes"
  tlInstruction :: "'c AddConditionalInstruction \<Rightarrow> bytes res"
  tlParseInstruction :: "bytes \<Rightarrow> 'c AddConditionalInstruction res"
  tlInstructions :: "InstructionContainer list \<Rightarrow> bytes res"
  tlSign :: "bytes \<Rightarrow> bytes \<Rightarrow> bytes"
  tlVerify :: "bytes \<Rightarrow> bytes \<Rightarrow> bytes \<Rightarrow> bool"

definition serialize_all ::
  "'c tl_lib \<Rightarrow> ('c AddConditionalInstruction \<times> bytes) list \<Rightarrow> bytes list res" where
  "serialize_all T actions = rmap (\<lambda>(a, _). rwrap ''failed to serialize action data'' (tlInstruction T a)) actions"

text \<open>
  One instruction: padded with random bytes to the common length, then encrypted under the key
  shared with its target. \<open>pad i\<close> are the random bytes of the \<open>i\<close>-th instruction.
\<close>

definition encrypt_instruction ::
  "'c tl_lib \<Rightarrow> nat \<Rightarrow> (nat \<Rightarrow> nat \<Rightarrow> char) \<Rightarrow> nat \<times> ('c AddConditionalInstruction \<times> bytes) \<times> bytes \<Rightarrow> InstructionContainer res" where
  "encrypt_instruction T maxLen pad x = (case x of (i, (a, priv), ser) \<Rightarrow>
     let data = ser @ map (pad i) [0..<maxLen - length ser] in
     rbind (rwrap ''failed to calc shared key'' (SharedKey (tlK T) priv (aiTarget a))) (\<lambda>sharedKey.
     let hash = tlSha256 T data in
     rbind (rwrap ''failed to init cipher'' (BuildSharedCipher (tlK T) sharedKey hash)) (\<lambda>stream.
     Inr \<lparr>icHash = hash, icData = stream data\<rparr>)))"

definition SetInstructions ::
  "'c tl_lib \<Rightarrow> nat \<Rightarrow> (nat \<Rightarrow> nat \<Rightarrow> char) \<Rightarrow> 'c AddConditionalAction \<Rightarrow> ('c AddConditionalInstruction \<times> bytes) list \<Rightarrow>
   bytes \<Rightarrow> 'c AddConditionalAction res" where
  "SetInstructions T fuzz pad a actions key =
     rbind (serialize_all T actions) (\<lambda>sers.
     let maxLen = fold (\<lambda>d m. max m (length d)) sers 0 + fuzz in
     rbind (rmap (encrypt_instruction T maxLen pad) (enumerate 0 (zip actions sers))) (\<lambda>list.
     rbind (rwrap ''failed to serialize instructions data'' (tlInstructions T list)) (\<lambda>data.
     Inr (a\<lparr>Instructions := list, acSignature := tlSign T key data\<rparr>))))"

fun decrypt_loop :: "'c tl_lib \<Rightarrow> bytes \<Rightarrow> InstructionContainer list \<Rightarrow> 'c AddConditionalInstruction res" where
  "decrypt_loop T sharedKey [] = Inl (Errorf ''not found'')"
| "decrypt_loop T sharedKey (i # is) =
     rbind (rwrap ''failed to init cipher'' (BuildSharedCipher (tlK T) sharedKey (icHash i))) (\<lambda>stream.
     let payload = stream (icData i) in
     if tlSha256 T payload \<noteq> icHash i then decrypt_loop T sharedKey is
     else rwrap ''incorrect AddConditionalInstruction'' (tlParseInstruction T payload))"

definition DecryptOurInstruction ::
  "('b, 's, 'c) cond_env \<Rightarrow> 'c tl_lib \<Rightarrow> 'c AddConditionalAction \<Rightarrow> bytes \<Rightarrow> bytes \<Rightarrow> resolve_action \<Rightarrow>
   'c AddConditionalInstruction res" where
  "DecryptOurInstruction E T a key instructionKey actions =
     rbind (rwrap ''failed to serialize verify data'' (tlInstructions T (Instructions a))) (\<lambda>verifyData.
     rbind (rwrap ''failed to convert conditional data'' (CodeToConditional E actions (acConditional a))) (\<lambda>cond.
     if \<not> tlVerify T (Cond_GetKey cond) verifyData (acSignature a) then Inl (Errorf ''incorrect signature'')
     else rbind (rwrap ''failed to calc shared key'' (SharedKey (tlK T) key instructionKey)) (\<lambda>sharedKey.
     decrypt_loop T sharedKey (Instructions a))))"

section \<open>Building a tunnel\<close>

record TunnelChainPart =
  tpTarget :: bytes
  tpCapacity :: int
  tpFee :: int
  tpDeadline :: gtime

text \<open>
  \<open>gen i\<close> is the \<open>i\<close>-th generated key pair (public, private); the last hop uses the sender's key
  when it is given, so that the receiver knows the sender.
\<close>

definition hop_keys :: "'c tl_lib \<Rightarrow> (nat \<Rightarrow> bytes \<times> bytes) \<Rightarrow> bytes option \<Rightarrow> nat \<Rightarrow> nat \<Rightarrow> bytes \<times> bytes" where
  "hop_keys T gen senderKey n i = (case senderKey of
     Some sk \<Rightarrow> if i \<noteq> n - 1 then gen i else (PublicKey (tlK T) sk, sk)
   | None \<Rightarrow> gen i)"

definition hop_details ::
  "('b, 's, 'c) vc_env \<Rightarrow> CoinConfig \<Rightarrow> TunnelChainPart \<Rightarrow> TunnelChainPart \<Rightarrow> 'c res" where
  "hop_details E cc part next =
     rbind (veMustFromNano E (tpFee part) (Decimals cc)) (\<lambda>ef.
     rbind (veMustFromNano E (tpCapacity part) (Decimals cc)) (\<lambda>ec.
     rbind (veMustFromNano E (tpFee next) (Decimals cc)) (\<lambda>nf.
     rbind (veMustFromNano E (tpCapacity next) (Decimals cc)) (\<lambda>nc.
     rwrap ''failed to serialize details''
       (ToCell (veDetails E) \<lparr>ExpectedFee = ef, ExpectedCapacity = ec, NextFee = nf, NextCapacity = nc\<rparr>)))))"

text \<open>A hop that is not the last points to its successor; the last points to itself.\<close>

definition chain_next :: "TunnelChainPart list \<Rightarrow> nat \<Rightarrow> TunnelChainPart" where
  "chain_next chain i = (if i < length chain - 1 then chain ! Suc i else chain ! i)"

definition final_state ::
  "('b, 's, 'c) vc_env \<Rightarrow> bytes \<Rightarrow> TunnelChainPart list \<Rightarrow> bool \<Rightarrow> nat \<Rightarrow> 'c option res" where
  "final_state E key chain withFinalState i =
     (if i = length chain - 1 \<and> withFinalState
      then (case VCState_Sign E key \<lparr>vsSignature = [], vsAmount = tpCapacity (chain ! i)\<rparr> of
          Inl err \<Rightarrow> Inl err
        | Inr st \<Rightarrow> rbind (rwrap ''failed to serialize final state'' (VCState_ToCell (veL E) st)) (\<lambda>fs. Inr (Some fs)))
      else Inr None)"

definition tunnel_hop ::
  "('b, 's, 'c) vc_env \<Rightarrow> 'c tl_lib \<Rightarrow> (nat \<Rightarrow> bytes \<times> bytes) \<Rightarrow> bytes \<Rightarrow> TunnelChainPart list \<Rightarrow> bool \<Rightarrow> bytes option \<Rightarrow>
   CoinConfig \<Rightarrow> nat \<Rightarrow> ('c AddConditionalInstruction \<times> bytes) list \<Rightarrow> ('c AddConditionalInstruction \<times> bytes) list res" where
  "tunnel_hop E T gen key chain withFinalState senderKey cc i acc =
     (let part = chain ! i; next = chain_next chain i; n = length chain in
      rbind (final_state E key chain withFinalState i) (\<lambda>fs.
      rbind (hop_details E cc part next) (\<lambda>dc.
      Inr (acc @ [(\<lparr>aiTarget = tpTarget part,
         NextInstructionKey = (if i < n - 1 then fst (hop_keys T gen senderKey n (Suc i)) else []),
         ExpectedDeadline = unix_of (tpDeadline part), NextTarget = tpTarget next,
         NextDeadline = unix_of (tpDeadline next), aiDetails = Some dc, FinalState = fs\<rparr>,
         snd (hop_keys T gen senderKey n i))]))))"

text \<open>
  Decoy instructions hide the length of the chain. \<open>rnd i j\<close> is the \<open>j\<close>-th random number drawn for
  the \<open>i\<close>-th of them, reduced to the range the code asks for; \<open>skeys i\<close> are its random target, next
  target and key pair.
\<close>

definition randAmount :: "int \<Rightarrow> int \<Rightarrow> int \<Rightarrow> int" where
  "randAmount r from to = (let diff = to - from in if diff \<le> 0 then from else r mod diff + from)"

definition tunnel_stub ::
  "('b, 's, 'c) vc_env \<Rightarrow> (nat \<Rightarrow> nat \<Rightarrow> int) \<Rightarrow> (nat \<Rightarrow> bytes \<times> bytes \<times> bytes \<times> bytes) \<Rightarrow> TunnelChainPart list \<Rightarrow> CoinConfig \<Rightarrow>
   nat \<Rightarrow> ('c AddConditionalInstruction \<times> bytes) list \<Rightarrow> ('c AddConditionalInstruction \<times> bytes) list res" where
  "tunnel_stub E rnd skeys chain cc i acc =
     (let l = chain ! (length chain - 1); f = chain ! 0;
          nextFee = randAmount (rnd i 0) (tpFee l) (tpFee f);
          nextCap = randAmount (rnd i 1) (tpCapacity l) (tpCapacity f);
          dlDiff = (unix_of (tpDeadline f) - unix_of (tpDeadline l)) * 2;
          dlDiff = (if dlDiff < 3600 then 3600 else dlDiff);
          nextDl = (unix_of (tpDeadline l) - go_quo dlDiff 2) + rnd i 2 mod dlDiff;
          expDl = nextDl + rnd i 3 mod dlDiff;
          (randKey2, randKey, randKey3, randKey3prv) = skeys i in
      rbind (hop_details E cc \<lparr>tpTarget = [], tpCapacity = randAmount (rnd i 5) (tpCapacity l) nextCap,
          tpFee = randAmount (rnd i 4) (tpFee l) nextFee, tpDeadline = 0\<rparr>
        \<lparr>tpTarget = [], tpCapacity = nextCap, tpFee = nextFee, tpDeadline = 0\<rparr>) (\<lambda>details.
      Inr (acc @ [(\<lparr>aiTarget = randKey2, NextInstructionKey = randKey3, ExpectedDeadline = expDl, NextTarget = randKey,
         NextDeadline = nextDl, aiDetails = Some details, FinalState = None\<rparr>, randKey3prv)])))"

text \<open>\<open>shuffle\<close> is the random permutation applied when there are decoys.\<close>

definition GenerateTunnel ::
  "('b, 's, 'c) vc_env \<Rightarrow> 'c tl_lib \<Rightarrow> (nat \<Rightarrow> bytes \<times> bytes) \<Rightarrow> (nat \<Rightarrow> nat \<Rightarrow> int) \<Rightarrow>
   (nat \<Rightarrow> bytes \<times> bytes \<times> bytes \<times> bytes) \<Rightarrow>
   (('c AddConditionalInstruction \<times> bytes) list \<Rightarrow> ('c AddConditionalInstruction \<times> bytes) list) \<Rightarrow> bytes \<Rightarrow>
   TunnelChainPart list \<Rightarrow> nat \<Rightarrow> bool \<Rightarrow> bytes option \<Rightarrow> CoinConfig \<Rightarrow>
   (bytes \<times> ('c AddConditionalInstruction \<times> bytes) list) res" where
  "GenerateTunnel E T gen rnd skeys shuffle key chain stubSize withFinalState senderKey cc =
     (if chain = [] then Inl (Errorf ''chain is empty'')
      else rbind (rfold (tunnel_hop E T gen key chain withFinalState senderKey cc) [0..<length chain] []) (\<lambda>list.
        rbind (if 0 < stubSize
          then rbind (rfold (tunnel_stub E rnd skeys chain cc) [0..<stubSize] list) (\<lambda>l. Inr (shuffle l))
          else Inr list) (\<lambda>list.
        Inr (fst (hop_keys T gen senderKey (length chain) 0), list))))"

end
