(* ===== verification/TransportLaws.thy ===== *)
theory TransportLaws
  imports Transport
begin

text \<open>
  What the encrypted instructions of a tunnel guarantee: all have the same length, each hop reads
  exactly the instruction made for it, and the chain built from a route is consistent: what one hop
  is told to send on is what the next expects.
\<close>

section \<open>What the code relies on\<close>

text \<open>
  A stream cipher is its own inverse and keeps the length; the key agreement is symmetric; a TL
  parse reads a value and ignores what follows; signatures verify.
\<close>

locale tl_laws =
  fixes T :: "'c tl_lib"
  assumes stream_inverse: "BuildSharedCipher (tlK T) k h = Inr f \<Longrightarrow> f (f x) = x"
    and stream_length: "BuildSharedCipher (tlK T) k h = Inr f \<Longrightarrow> length (f x) = length x"
    and shared_symmetric: "SharedKey (tlK T) a (PublicKey (tlK T) b) = SharedKey (tlK T) b (PublicKey (tlK T) a)"
    and parse_prefix: "tlInstruction T v = Inr d \<Longrightarrow> tlParseInstruction T (d @ rest) = Inr v"
    and sign_verify: "tlVerify T (PublicKey (tlK T) key) d (tlSign T key d)"
begin

lemma encrypt_facts:
  assumes "encrypt_instruction T n pad (i, (a, priv), ser) = Inr c"
  shows "\<exists>k f. SharedKey (tlK T) priv (aiTarget a) = Inr k \<and> BuildSharedCipher (tlK T) k (icHash c) = Inr f \<and>
    f (icData c) = ser @ map (pad i) [0..<n - length ser] \<and> tlSha256 T (f (icData c)) = icHash c \<and>
    (length ser \<le> n \<longrightarrow> length (icData c) = n)"
  using assms by (auto simp: encrypt_instruction_def Let_def stream_inverse stream_length)

lemma decrypt_at:
  assumes "i < length is" "\<And>j. j < i \<Longrightarrow> \<exists>f. BuildSharedCipher (tlK T) k (icHash (is ! j)) = Inr f \<and>
      tlSha256 T (f (icData (is ! j))) \<noteq> icHash (is ! j)"
    and "BuildSharedCipher (tlK T) k (icHash (is ! i)) = Inr f" "tlSha256 T (f (icData (is ! i))) = icHash (is ! i)"
  shows "decrypt_loop T k is = rwrap ''incorrect AddConditionalInstruction'' (tlParseInstruction T (f (icData (is ! i))))"
  using assms
proof (induction "is" arbitrary: i)
  case (Cons c cs)
  show ?case
  proof (cases i)
    case 0
    with Cons.prems show ?thesis by simp
  next
    case (Suc n)
    from Cons.prems(2) [of 0] Suc obtain g where "BuildSharedCipher (tlK T) k (icHash c) = Inr g"
      "tlSha256 T (g (icData c)) \<noteq> icHash c" by auto
    moreover have "decrypt_loop T k cs = rwrap ''incorrect AddConditionalInstruction'' (tlParseInstruction T (f (icData (cs ! n))))"
    proof (rule Cons.IH)
      show "\<exists>f. BuildSharedCipher (tlK T) k (icHash (cs ! j)) = Inr f \<and> tlSha256 T (f (icData (cs ! j))) \<noteq> icHash (cs ! j)"
        if "j < n" for j using Cons.prems(2) [of "Suc j"] that Suc by simp
    qed (use Cons.prems Suc in auto)
    ultimately show ?thesis using Suc by simp
  qed
qed simp

lemma maxlen_ge: "d \<in> set ds \<Longrightarrow> length d \<le> fold (\<lambda>d m. max m (length d)) ds m"
proof (induction ds arbitrary: m)
  case (Cons x xs)
  have "n \<le> fold (\<lambda>d m. max m (length d)) xs n" for n by (induction xs arbitrary: n) (auto, meson max.cobounded1 order_trans)
  from this [of "max m (length x)"] Cons show ?case by auto
qed simp

text \<open>The containers of \<open>SetInstructions\<close>, one per instruction.\<close>

lemma set_instructions:
  assumes "SetInstructions T fuzz pad a actions key = Inr a'"
  obtains n sers data where "length sers = length actions" "length (Instructions a') = length actions"
    "\<And>i. i < length actions \<Longrightarrow> tlInstruction T (fst (actions ! i)) = Inr (sers ! i)"
    "\<And>i. i < length actions \<Longrightarrow> length (sers ! i) \<le> n"
    "\<And>i. i < length actions \<Longrightarrow> encrypt_instruction T n pad (i, actions ! i, sers ! i) = Inr (Instructions a' ! i)"
    "tlInstructions T (Instructions a') = Inr data" "acSignature a' = tlSign T key data"
    "acConditional a' = acConditional a"
proof -
  from assms obtain sers list data where 1: "serialize_all T actions = Inr sers"
    "rmap (encrypt_instruction T (fold (\<lambda>d m. max m (length d)) sers 0 + fuzz) pad) (enumerate 0 (zip actions sers)) = Inr list"
    "tlInstructions T list = Inr data" "a' = a\<lparr>Instructions := list, acSignature := tlSign T key data\<rparr>"
    by (auto simp: SetInstructions_def Let_def)
  let ?n = "fold (\<lambda>d m. max m (length d)) sers 0 + fuzz"
  from 1(1) have s: "length sers = length actions" "\<And>i. i < length actions \<Longrightarrow> tlInstruction T (fst (actions ! i)) = Inr (sers ! i)"
    by (auto simp: serialize_all_def rmap_Inr list_all2_conv_all_nth case_prod_beta)
  from 1(2) have e: "length list = length actions"
    "\<And>i. i < length actions \<Longrightarrow> encrypt_instruction T ?n pad (i, actions ! i, sers ! i) = Inr (list ! i)"
    using s(1) by (auto simp: rmap_Inr list_all2_conv_all_nth nth_enumerate_eq)
  show thesis
    by (rule that [of sers ?n data]) (use s e 1(3,4) maxlen_ge [of _ sers 0] in \<open>auto intro: trans_le_add1\<close>)
qed

lemma instruction_delivered:
  assumes "SetInstructions T fuzz pad a actions key = Inr a'" "i < length actions" "actions ! i = (ins, priv)"
    and "aiTarget ins = PublicKey (tlK T) me" "CodeToConditional E res (acConditional a) = Inr cond"
    and "Cond_GetKey cond = PublicKey (tlK T) key" "SharedKey (tlK T) me (PublicKey (tlK T) priv) = Inr k"
    and "\<And>j. j < i \<Longrightarrow> \<exists>f. BuildSharedCipher (tlK T) k (icHash (Instructions a' ! j)) = Inr f \<and>
      tlSha256 T (f (icData (Instructions a' ! j))) \<noteq> icHash (Instructions a' ! j)"
  shows "DecryptOurInstruction E T a' me (PublicKey (tlK T) priv) res = Inr ins"
proof -
  from assms(1) obtain n sers data where s: "length (Instructions a') = length actions"
    "tlInstruction T ins = Inr (sers ! i)" "encrypt_instruction T n pad (i, (ins, priv), sers ! i) = Inr (Instructions a' ! i)"
    "tlInstructions T (Instructions a') = Inr data" "acSignature a' = tlSign T key data" "acConditional a' = acConditional a"
    using assms(2,3) by (elim set_instructions) force
  have k: "SharedKey (tlK T) priv (aiTarget ins) = Inr k" using assms(4,7) shared_symmetric [of me priv] by simp
  from encrypt_facts [OF s(3)] k obtain f where f: "BuildSharedCipher (tlK T) k (icHash (Instructions a' ! i)) = Inr f"
    "f (icData (Instructions a' ! i)) = sers ! i @ map (pad i) [0..<n - length (sers ! i)]"
    "tlSha256 T (f (icData (Instructions a' ! i))) = icHash (Instructions a' ! i)" by auto
  have "decrypt_loop T k (Instructions a') = Inr ins"
    using decrypt_at [OF _ assms(8) f(1,3)] assms(2) s(1) f(2) parse_prefix [OF s(2)] by simp
  with s(4-6) assms(5-7) sign_verify show ?thesis by (simp add: DecryptOurInstruction_def)
qed

lemma instructions_uniform:
  assumes "SetInstructions T fuzz pad a actions key = Inr a'"
  shows "\<exists>n. \<forall>c \<in> set (Instructions a'). length (icData c) = n"
  using assms
proof (rule set_instructions)
  fix n sers data
  assume s: "length (Instructions a') = length actions" "\<And>i. i < length actions \<Longrightarrow> length (sers ! i) \<le> n"
    "\<And>i. i < length actions \<Longrightarrow> encrypt_instruction T n pad (i, actions ! i, sers ! i) = Inr (Instructions a' ! i)"
  have "length (icData c) = n" if "c \<in> set (Instructions a')" for c
  proof -
    from that s(1) obtain i where i: "i < length actions" "c = Instructions a' ! i" by (auto simp: in_set_conv_nth)
    obtain ins priv where "actions ! i = (ins, priv)" by fastforce
    with encrypt_facts [of n pad i ins priv "sers ! i" c] s(2,3) [OF i(1)] i(2) show ?thesis by auto
  qed
  then show ?thesis by blast
qed

end

section \<open>Consistency of a route\<close>

lemma rfold_append_map:
  "rfold (\<lambda>x acc. rbind (g x) (\<lambda>y. Inr (acc @ [y]))) xs acc = rbind (rmap g xs) (\<lambda>ys. Inr (acc @ ys))"
  by (induction xs arbitrary: acc) (auto simp: rbind_def split: sum.splits)

definition hop_at ::
  "('b, 's, 'c) vc_env \<Rightarrow> 'c tl_lib \<Rightarrow> (nat \<Rightarrow> bytes \<times> bytes) \<Rightarrow> bytes \<Rightarrow> TunnelChainPart list \<Rightarrow> bool \<Rightarrow> bytes option \<Rightarrow>
   CoinConfig \<Rightarrow> nat \<Rightarrow> ('c AddConditionalInstruction \<times> bytes) res" where
  "hop_at E T gen key chain withFinalState senderKey cc i =
     rbind (tunnel_hop E T gen key chain withFinalState senderKey cc i []) (\<lambda>l. Inr (hd l))"

lemma tunnel_hops:
  "rfold (tunnel_hop E T gen key chain ws sk cc) is [] = rmap (hop_at E T gen key chain ws sk cc) is"
proof -
  have "tunnel_hop E T gen key chain ws sk cc = (\<lambda>i acc. rbind (hop_at E T gen key chain ws sk cc i) (\<lambda>y. Inr (acc @ [y])))"
    by (intro ext) (auto simp: tunnel_hop_def hop_at_def Let_def rbind_def split: sum.splits)
  moreover have "rbind m Inr = m" for m :: "'z res" by (simp add: rbind_def split: sum.splits)
  ultimately show ?thesis by (simp add: rfold_append_map)
qed

lemma hop_at_facts:
  assumes "hop_at E T gen key chain ws sk cc i = Inr (a, priv)"
  shows "aiTarget a = tpTarget (chain ! i)" "priv = snd (hop_keys T gen sk (length chain) i)"
    "NextInstructionKey a = (if i < length chain - 1 then fst (hop_keys T gen sk (length chain) (Suc i)) else [])"
    "ExpectedDeadline a = unix_of (tpDeadline (chain ! i))" "NextTarget a = tpTarget (chain_next chain i)"
    "NextDeadline a = unix_of (tpDeadline (chain_next chain i))"
    "\<exists>dc. aiDetails a = Some dc \<and> hop_details E cc (chain ! i) (chain_next chain i) = Inr dc"
  using assms by (auto simp: hop_at_def tunnel_hop_def Let_def)

lemma hop_details_load:
  assumes "codec_ok (veL E) (veDetails E) details_ok" "hop_details E cc p q = Inr dc"
    and "\<And>v. v \<in> {tpFee p, tpCapacity p, tpFee q, tpCapacity q} \<Longrightarrow> coins_ok v \<and> veMustFromNano E v (Decimals cc) = Inr v"
  shows "LoadState (veL E) (veDetails E) dc =
    Inr \<lparr>ExpectedFee = tpFee p, ExpectedCapacity = tpCapacity p, NextFee = tpFee q, NextCapacity = tpCapacity q\<rparr>"
proof -
  let ?d = "\<lparr>ExpectedFee = tpFee p, ExpectedCapacity = tpCapacity p, NextFee = tpFee q, NextCapacity = tpCapacity q\<rparr>"
  have "ToCell (veDetails E) ?d = Inr dc" using assms(2,3) by (simp add: hop_details_def)
  moreover have "details_ok ?d" using assms(3) by (simp add: details_ok_def)
  ultimately show ?thesis using assms(1) by (auto simp: codec_ok_def)
qed

section \<open>Properties\<close>


text \<open>A library in which only the second hop's key agreement gives a cipher that does nothing.\<close>

definition ex_ins :: "bytes \<Rightarrow> tcell AddConditionalInstruction" where
  "ex_ins t = \<lparr>aiTarget = t, NextInstructionKey = [], ExpectedDeadline = 0, NextTarget = [], NextDeadline = 0,
     aiDetails = None, FinalState = None\<rparr>"

definition ex_tl :: "tcell tl_lib" where
  "ex_tl = \<lparr>tlK = \<lparr>SharedKey = (\<lambda>a b. Inr (if a \<le> b then a @ b else b @ a)),
       BuildSharedCipher = (\<lambda>k h. Inr (if k = ''q1t1'' then (\<lambda>x. x) else rev)),
       PublicKey = (\<lambda>k. k), ToBOC = (\<lambda>_. []), FromBOC = (\<lambda>_. Inl (Errorf ''boc''))\<rparr>,
     tlSha256 = (\<lambda>x. x),
     tlInstruction = (\<lambda>v. if v = ex_ins ''t0'' then Inr ''a'' else if v = ex_ins ''t1'' then Inr ''b'' else Inl (Errorf ''tl'')),
     tlParseInstruction = (\<lambda>d. if take 1 d = ''a'' then Inr (ex_ins ''t0'') else Inr (ex_ins ''t1'')),
     tlInstructions = (\<lambda>_. Inr ''data''), tlSign = (\<lambda>k d. k), tlVerify = (\<lambda>k d s. s = k)\<rparr>"

lemma ex_ins_inj [simp]: "ex_ins a = ex_ins b \<longleftrightarrow> a = b"
  by (auto simp: ex_ins_def)

interpretation ex_tl: tl_laws ex_tl
  by unfold_locales (auto simp: ex_tl_def split: if_splits)


text \<open>A generated tunnel is consistent hop by hop: each hop is told the target, the deadline and the
  instruction key of its successor, and the conditional it prepares for the successor carries exactly
  the fee and the capacity the successor's own instruction expects.\<close>

lemma tunnel_consistent:
  assumes "GenerateTunnel E T gen rnd skeys shuffle key chain 0 ws sk cc = Inr (first, list)" "Suc i < length chain"
    and "codec_ok (veL E) (veDetails E) details_ok" "\<And>k. fst (gen k) = PublicKey (tlK T) (snd (gen k))"
    and "\<And>p v. p \<in> set chain \<Longrightarrow> v \<in> {tpFee p, tpCapacity p} \<Longrightarrow> coins_ok v \<and> veMustFromNano E v (Decimals cc) = Inr v"
    and "list ! i = (a, priv)" "list ! Suc i = (b, priv')" "aiDetails a = Some da" "aiDetails b = Some db"
    and "VC_PrepareNext E c da act (unix (NextDeadline a)) = Inr c'"
  shows "NextTarget a = aiTarget b \<and> NextDeadline a = ExpectedDeadline b \<and> NextInstructionKey a = PublicKey (tlK T) priv' \<and>
    vcDeadline c' = ExpectedDeadline b \<and>
    (\<exists>d. LoadState (veL E) (veDetails E) db = Inr d \<and> ExpectedFee d = vcFee c' \<and> ExpectedCapacity d = vcCapacity c')"
proof -
  let ?h = "hop_at E T gen key chain ws sk cc" and ?n = "length chain"
  from assms(1) have "rmap ?h [0..<?n] = Inr list" by (auto simp: GenerateTunnel_def tunnel_hops split: if_splits)
  then have h: "?h j = Inr (list ! j)" if "j < ?n" for j using that by (auto simp: rmap_Inr list_all2_conv_all_nth)
  from h [of i] h [of "Suc i"] assms(2,6,7) have hi: "?h i = Inr (a, priv)" "?h (Suc i) = Inr (b, priv')" by simp_all
  note fa = hop_at_facts [OF hi(1)] and fb = hop_at_facts [OF hi(2)]
  have nx: "chain_next chain i = chain ! Suc i" using assms(2) by (auto simp: chain_next_def)
  have keys: "fst (hop_keys T gen sk ?n (Suc i)) = PublicKey (tlK T) (snd (hop_keys T gen sk ?n (Suc i)))"
    using assms(4) by (auto simp: hop_keys_def split: option.splits)
  have ok: "coins_ok v \<and> veMustFromNano E v (Decimals cc) = Inr v"
    if "v \<in> {tpFee (chain ! j), tpCapacity (chain ! j), tpFee (chain_next chain j), tpCapacity (chain_next chain j)}" "j < ?n" for v j
  proof -
    have "chain ! j \<in> set chain" "chain_next chain j \<in> set chain" using that(2) by (auto simp: chain_next_def)
    with assms(5) that(1) show ?thesis by blast
  qed
  have da: "LoadState (veL E) (veDetails E) da = Inr \<lparr>ExpectedFee = tpFee (chain ! i), ExpectedCapacity = tpCapacity (chain ! i),
      NextFee = tpFee (chain ! Suc i), NextCapacity = tpCapacity (chain ! Suc i)\<rparr>"
    using hop_details_load [OF assms(3), of cc "chain ! i" "chain_next chain i" da] fa(7) assms(8) ok [where j = i] assms(2) nx by auto
  have db: "\<exists>d. LoadState (veL E) (veDetails E) db = Inr d \<and> ExpectedFee d = tpFee (chain ! Suc i) \<and>
      ExpectedCapacity d = tpCapacity (chain ! Suc i)"
    using hop_details_load [OF assms(3), of cc "chain ! Suc i" "chain_next chain (Suc i)" db] fb(7) assms(9) ok [where j = "Suc i"] assms(2)
    by auto
  have c': "vcDeadline c' = NextDeadline a" "vcFee c' = tpFee (chain ! Suc i)" "vcCapacity c' = tpCapacity (chain ! Suc i)"
    using assms(10) da by (auto simp: VC_PrepareNext_def tlb_Parse_def LoadState_def split: if_splits)
  show ?thesis using fa fb nx keys db c' assms(2) by auto
qed

definition ex_chain :: "TunnelChainPart list" where
  "ex_chain = [\<lparr>tpTarget = ''t0'', tpCapacity = 50, tpFee = 3, tpDeadline = unix 900\<rparr>,
     \<lparr>tpTarget = ''t1'', tpCapacity = 50, tpFee = 1, tpDeadline = unix 600\<rparr>]"

lemma ton_details_cell: "details_ok d \<Longrightarrow> ToCell ton_details d = Inr (details_cell d)"
  by (simp add: ton_details_def)

lemma ton_details_codec: "codec_ok (ton_cells h) ton_details details_ok"
  by (simp add: codec_ok_def ton_details_cell ton_details_load)

lemma ton_details_parse: "details_ok d \<Longrightarrow> tlb_Parse (ton_cells h) ton_details (details_cell d) = Inr d"
  using ton_details_load [of d h] by (auto simp: tlb_Parse_def LoadState_def split: if_splits)

end
