(* ===== verification/DerivMonitor.thy ===== *)
theory DerivMonitor
  imports Transport
begin

text \<open>
  The price monitor of a derivative: \<^verbatim>\<open>tonpayments/derivatives_worker.go\<close> with the metadata it lives
  in (\<^verbatim>\<open>tonpayments/derivatives_meta.go\<close>). The monitor follows the price second by second, remembers
  its extremes, and decides whether the order has opened and whether it is liquidated. Prices are
  kept as decimal text; here such a field is the number it denotes, \<open>None\<close> when it is empty or not a
  number.
\<close>

section \<open>Data\<close>

record derivativeResolverMeta =
  drCodeHash :: string
  drDataBOC :: string

record derivativeMonitorState =
  LastCheckedAt :: int
  MinPrice :: "int option"
  MaxPrice :: "int option"
  EntryCrossed :: bool
  EntryCrossedAt :: int
  Liquidated :: bool
  LiquidatedAt :: int
  LiquidatedPrice :: "int option"
  LiquidationPayout :: "int option"
  HistoryTooOld :: bool
  HistoryTooOldAt :: int

record derivativeMetaAny =
  dmDetails :: ConditionalResolvableDetails
  dmResolver :: "derivativeResolverMeta option"
  dmMonitor :: "derivativeMonitorState option"
  dmHedged :: bool

text \<open>
  \<open>recodeJSON\<close> of special details into the metadata and into plain details, and a metadata value as
  special details.
\<close>

record 'j deriv_json =
  djAny :: "'j \<Rightarrow> derivativeMetaAny res"
  djDetails :: "'j \<Rightarrow> ConditionalResolvableDetails res"
  djPack :: "derivativeMetaAny \<Rightarrow> 'j"

definition no_details :: ConditionalResolvableDetails where
  "no_details = \<lparr>rdAssetID = 0, rdIsLong = False, rdLeverage = 0, rdEntryPrice = 0\<rparr>"

definition derivativeMetaPack :: "'j deriv_json \<Rightarrow> ('c, 'j) ConditionalMeta \<Rightarrow> derivativeMetaAny" where
  "derivativeMetaPack D meta =
     (let empty = \<lparr>dmDetails = no_details, dmResolver = None, dmMonitor = None, dmHedged = False\<rparr> in
      case SpecialDetails meta of None \<Rightarrow> empty
      | Some j \<Rightarrow>
        (let used = (\<lambda>p. rdAssetID (dmDetails p) \<noteq> 0 \<or> rdLeverage (dmDetails p) \<noteq> 0 \<or> dmResolver p \<noteq> None \<or>
             dmMonitor p \<noteq> None \<or> dmHedged p);
             plain = (\<lambda>p. case djDetails D j of Inl _ \<Rightarrow> p | Inr d \<Rightarrow> p\<lparr>dmDetails := d\<rparr>) in
         case djAny D j of Inl _ \<Rightarrow> plain empty | Inr p \<Rightarrow> if used p then p else plain p))"

definition derivativeMetaHedged :: "'j deriv_json \<Rightarrow> ('c, 'j) ConditionalMeta \<Rightarrow> bool" where
  "derivativeMetaHedged D meta = dmHedged (derivativeMetaPack D meta)"

definition derivativeMetaSetHedged :: "'j deriv_json \<Rightarrow> ('c, 'j) ConditionalMeta \<Rightarrow> bool \<Rightarrow> ('c, 'j) ConditionalMeta" where
  "derivativeMetaSetHedged D meta hedged =
     meta\<lparr>SpecialDetails := Some (djPack D ((derivativeMetaPack D meta)\<lparr>dmHedged := hedged\<rparr>))\<rparr>"

definition derivativeMetaSetMonitor ::
  "'j deriv_json \<Rightarrow> ('c, 'j) ConditionalMeta \<Rightarrow> derivativeMonitorState \<Rightarrow> ('c, 'j) ConditionalMeta" where
  "derivativeMetaSetMonitor D meta monitor =
     meta\<lparr>SpecialDetails := Some (djPack D ((derivativeMetaPack D meta)\<lparr>dmMonitor := Some monitor\<rparr>))\<rparr>"

definition derivativeCanRemoveWithoutPriceHistory ::
  "'j deriv_json \<Rightarrow> ('c, 'j) ConditionalMeta \<Rightarrow> derivativeMonitorState \<Rightarrow> bool" where
  "derivativeCanRemoveWithoutPriceHistory D meta monitor \<longleftrightarrow> HistoryTooOld monitor \<and> \<not> derivativeMetaHedged D meta"

section \<open>The monitor\<close>

definition derivativeLinkedKeySalt :: bytes where
  "derivativeLinkedKeySalt = ''derivative-linked-v1''"

definition derivativeLinkedKey :: "'c tl_lib \<Rightarrow> bytes \<Rightarrow> bytes" where
  "derivativeLinkedKey T base = tlSha256 T (derivativeLinkedKeySalt @ base)"

definition new_monitor :: "int \<Rightarrow> derivativeMonitorState" where
  "new_monitor at' = \<lparr>LastCheckedAt = at', MinPrice = None, MaxPrice = None, EntryCrossed = False, EntryCrossedAt = 0,
     Liquidated = False, LiquidatedAt = 0, LiquidatedPrice = None, LiquidationPayout = None, HistoryTooOld = False,
     HistoryTooOldAt = 0\<rparr>"

definition parseDerivativeMonitor :: "'j deriv_json \<Rightarrow> ('c, 'j) ConditionalMeta \<Rightarrow> derivativeMonitorState \<times> bool" where
  "parseDerivativeMonitor D meta =
     (let base = unix_of (cmCreatedAt meta) - 1; base = (if base < 0 then 0 else base) in
      case SpecialDetails meta of None \<Rightarrow> (new_monitor base, True)
      | Some j \<Rightarrow> (case djAny D j of Inl _ \<Rightarrow> (new_monitor base, True)
        | Inr packed \<Rightarrow> (case dmMonitor packed of None \<Rightarrow> (new_monitor base, True)
          | Some m \<Rightarrow> if LastCheckedAt m < base then (m\<lparr>LastCheckedAt := base\<rparr>, True) else (m, False))))"

definition calcDerivativeROI :: "'c ConditionalResolvable \<Rightarrow> int \<Rightarrow> int" where
  "calcDerivativeROI cond price =
     (if crAmount cond \<le> 0 \<or> rdLeverage (crDetails cond) = 0 then 0
      else let entry = rdEntryPrice (crDetails cond) in
        if entry \<le> 0 then 0
        else let delta = (if rdIsLong (crDetails cond) then price - entry else entry - price) in
          if delta \<le> 0 then 0
          else let roi = go_div (delta * crAmount cond * uint (rdLeverage (crDetails cond))) entry in
            if roi < 0 then 0 else roi)"

text \<open>
  One price sample. The steps in order: extremes, crossing of the entry price, liquidation. The
  result is the monitor, whether it changed, and whether it became liquidated.
\<close>

definition sample_range :: "int \<Rightarrow> derivativeMonitorState \<Rightarrow> derivativeMonitorState" where
  "sample_range price m =
     (let m = (if case MinPrice m of None \<Rightarrow> True | Some v \<Rightarrow> price < v then m\<lparr>MinPrice := Some price\<rparr> else m) in
      if case MaxPrice m of None \<Rightarrow> True | Some v \<Rightarrow> v < price then m\<lparr>MaxPrice := Some price\<rparr> else m)"

definition entry_reached :: "'c ConditionalResolvable \<Rightarrow> derivativeMonitorState \<Rightarrow> bool" where
  "entry_reached cond m = (let entry = rdEntryPrice (crDetails cond) in
     if rdIsLong (crDetails cond) then (case MaxPrice m of None \<Rightarrow> False | Some v \<Rightarrow> entry \<le> v)
     else (case MinPrice m of None \<Rightarrow> False | Some v \<Rightarrow> v \<le> entry))"

definition applyDerivativePriceSample ::
  "'c ConditionalResolvable \<Rightarrow> int \<Rightarrow> int \<Rightarrow> derivativeMonitorState \<Rightarrow> derivativeMonitorState \<times> bool \<times> bool" where
  "applyDerivativePriceSample cond at' price m =
     (let m1 = sample_range price m;
          m2 = (if \<not> EntryCrossed m1 \<and> 0 < rdEntryPrice (crDetails cond) \<and> entry_reached cond m1
            then m1\<lparr>EntryCrossed := True, EntryCrossedAt := (if EntryCrossedAt m1 = 0 then at' else EntryCrossedAt m1)\<rparr>
            else m1);
          liq = (EntryCrossed m2 \<and> \<not> Liquidated m2 \<and> 0 < crAmount cond \<and> crAmount cond \<le> calcDerivativeROI cond price);
          m3 = (if liq then m2\<lparr>Liquidated := True, LiquidatedAt := at', LiquidatedPrice := Some price,
                  LiquidationPayout := Some (crAmount cond)\<rparr> else m2) in
      (m3, MinPrice m1 \<noteq> MinPrice m \<or> MaxPrice m1 \<noteq> MaxPrice m \<or> EntryCrossed m2 \<noteq> EntryCrossed m1 \<or> liq, liq))"

text \<open>
  The walk over the seconds since the last check. \<open>cancelled sec\<close> says that the context is done when
  the loop reaches \<open>sec\<close>.
\<close>

function monitor_loop ::
  "'c Resolver option \<Rightarrow> 'c ConditionalResolvable \<Rightarrow> (int \<Rightarrow> bool) \<Rightarrow> int \<Rightarrow> int \<Rightarrow> derivativeMonitorState \<Rightarrow> bool \<Rightarrow> bool \<Rightarrow> int \<Rightarrow>
   (derivativeMonitorState \<times> bool \<times> bool \<times> int) res" where
  "monitor_loop ro cond cancelled now sec m changed liq lastChecked =
     (if now < sec then Inr (m, changed, liq, lastChecked)
      else if cancelled sec then Inl (Errorf ''context deadline exceeded'')
      else (case GetPriceAt ro sec of
        Inl err \<Rightarrow>
          if errors_is err ErrTooNew \<or> errors_is err ErrNoData then Inr (m, changed, liq, lastChecked)
          else if errors_is err ErrTooOld
          then (if \<not> HistoryTooOld m then Inr (m\<lparr>HistoryTooOld := True, HistoryTooOldAt := sec\<rparr>, True, liq, now)
                else Inr (m, changed, liq, now))
          else if errors_is err ErrUnavailable then monitor_loop ro cond cancelled now (sec + 1) m changed liq sec
          else Inl (wrapf ''failed to get price'' err)
      | Inr price \<Rightarrow> (case applyDerivativePriceSample cond sec price m of (m', ch, l) \<Rightarrow>
          monitor_loop ro cond cancelled now (sec + 1) m' (changed \<or> ch) (liq \<or> l) sec)))"
  by pat_completeness auto
termination
  by (relation "measure (\<lambda>(ro, cond, cancelled, now, sec, m, ch, liq, last). nat (now + 1 - sec))") auto

declare monitor_loop.simps [simp del]

section \<open>Orders\<close>

definition derivativeCanonicalIsLong ::
  "'c tl_lib \<Rightarrow> ('c, 'j) ConditionalMeta \<Rightarrow> 'c ConditionalResolvable \<Rightarrow> bool" where
  "derivativeCanonicalIsLong T meta cond =
     (let isLong = rdIsLong (crDetails cond);
          lk = (\<lambda>side. case side of None \<Rightarrow> None | Some x \<Rightarrow> if length (LinkedKey x) = 32 then Some (LinkedKey x) else None);
          linked = (case lk (Incoming meta) of Some k \<Rightarrow> Some k | None \<Rightarrow> lk (Outgoing meta)) in
      case linked of None \<Rightarrow> isLong
      | Some l \<Rightarrow> if length (crKey cond) \<noteq> 32 then isLong
          else if crKey cond = derivativeLinkedKey T l then \<not> isLong else isLong)"

definition derivativeOrderOpenedFromMonitor ::
  "'c tl_lib \<Rightarrow> ('c, 'j) ConditionalMeta \<Rightarrow> 'c ConditionalResolvable \<Rightarrow> derivativeMonitorState \<Rightarrow> bool" where
  "derivativeOrderOpenedFromMonitor T meta cond monitor =
     (let entry = rdEntryPrice (crDetails cond) in
      if entry \<le> 0 then EntryCrossed monitor
      else let fallback = (if HistoryTooOld monitor then True else EntryCrossed monitor) in
        if derivativeCanonicalIsLong T meta cond
        then (case MinPrice monitor of Some v \<Rightarrow> v \<le> entry | None \<Rightarrow> fallback)
        else (case MaxPrice monitor of Some v \<Rightarrow> entry \<le> v | None \<Rightarrow> fallback))"

definition derivativeRemoveTerminalMeta :: "('c, 'j) ConditionalMeta \<Rightarrow> bool" where
  "derivativeRemoveTerminalMeta meta \<longleftrightarrow> cmStatus meta \<in>
     {ConditionalStateWantClose, ConditionalStateClosed, ConditionalStateWantRemove, ConditionalStateRemoved}"

definition derivativeIncomingKeyForRemove :: "('c, 'j) ConditionalMeta \<Rightarrow> bytes option" where
  "derivativeIncomingKeyForRemove meta =
     (if Incoming meta \<noteq> None \<and> length (cmKey meta) = 32 then Some (cmKey meta)
      else (case Outgoing meta of
        Some ou \<Rightarrow> if length (LinkedKey ou) = 32 then Some (LinkedKey ou) else None
      | None \<Rightarrow> None))"

definition derivativeOutgoingKeyForLiquidation :: "('c, 'j) ConditionalMeta \<Rightarrow> bytes option" where
  "derivativeOutgoingKeyForLiquidation meta = (case Incoming meta of
     Some i \<Rightarrow> if length (LinkedKey i) \<noteq> 32 then None else Some (LinkedKey i)
   | None \<Rightarrow> None)"

end
