(* ===== verification/Service.thy ===== *)
theory Service
  imports MetaDB DerivMonitor Tasks
begin

text \<open>
  The node's service: its configuration and libraries (\<open>svc\<close>), the resolvers of
  \<^verbatim>\<open>tonpayments/cache.go\<close> and \<^verbatim>\<open>tonpayments/api.go\<close>, the linked derivative conditionals of
  \<^verbatim>\<open>tonpayments/derivatives_linked.go\<close>, the task payloads of \<^verbatim>\<open>tonpayments/db/tasks.go\<close> and the
  shared steps of \<^verbatim>\<open>tonpayments/process.go\<close>. A service operation is a database program.
\<close>

section \<open>Task payloads and history data\<close>

record derivativeHedgeWebhookRequest =
  hwEvent :: string
  hwOrderID :: string
  hwLinkedOrderID :: string
  hwStatus :: string
  hwChannelAddress :: string
  hwSymbol :: string
  hwIsLong :: bool
  hwLeverage :: int
  hwCollateral :: string
  hwFee :: string
  hwEntryPrice :: string
  hwHedged :: bool
  hwCreatedAt :: int
  hwClosedAt :: int

datatype 'c task_payload =
    ChannelTask string
  | FinalizeSettleTask string bytes
  | ChannelUncooperativeCloseTask string bytes "gtime option"
  | TopupTask string string string gtime bool
  | ActionCommitTask string bytes gtime bool
  | CommitExecuteTask string 'c
  | WaitPendingTxTask string bool string bytes gtime
  | WaitDepositCompletionTask string string bool bytes string gtime
  | RefreshOnchainBalanceTask string bool int
  | ExecuteExternalTxTask string bool 'c uint32
  | RequestExternalTxTask string 'c uint32
  | SettleConditionalStepTask int string 'c "gtime option"
  | SettleActionStepTask int string 'c "gtime option"
  | ChannelCooperativeCloseTask string gtime
  | CloseConditionalTask bytes
  | CloseNextVirtualTask bytes
  | CommitVirtualTask string bytes
  | AddConditionalTask bytes bytes string bytes string int "'c AddConditionalAction"
  | AddDerivativeTask string int "'c AddConditionalAction"
  | SwapTask string SwapAction
  | IncrementStatesTask string bool
  | RemoveConditionalTask bytes
  | derivativeHedgeWebhookTask derivativeHedgeWebhookRequest

datatype history_data =
    TransferInData "(string \<times> string) list" bytes
  | TransferOutData "(string \<times> string) list" bytes
  | AmountData bool "(string \<times> string) list"
  | RentCapData string string string int
  | TxRequestData "(string \<times> string) list"

datatype VirtualChannelEventType = VirtualChannelEventTypeOpen | VirtualChannelEventTypeClose | VirtualChannelEventTypeRemove

section \<open>The service\<close>

text \<open>
  The fields are the libraries and codecs the service calls, its configuration, its callbacks
  (the channel callback, webhook and swap hook of the embedding program) and its key.
  \<open>svHedgeSend\<close> is the HTTP exchange of the hedge webhook, \<open>svToBOC\<close> the bag of cells of a cell.
  \<open>svSign key hash\<close> is \<open>cell.Sign\<close>, \<open>svAmount\<close> is the text of an amount with its decimals.
\<close>

record CooperativeCommitBody =
  ccChannelID :: bytes
  ccSeqno :: uint64
  ccFromA :: bool

record 'c CooperativeCommitAct =
  coStateA :: "'c option"
  coStateB :: "'c option"
  coCode :: 'c

record 'c CooperativeCommitSigned =
  csBody :: CooperativeCommitBody
  csAction :: "'c CooperativeCommitAct option"

record 'c CooperativeCommitMsg =
  cmSignatureA :: bytes
  cmSignatureB :: bytes
  cmSigned :: "'c CooperativeCommitSigned"

record ('b, 's, 'c, 'm, 'd, 't, 'j) svc =
  svE :: "('b, 's, 'c, 'm) chan_env"
  svT :: "'c tl_lib"
  svL :: "('d, 't) leveldb"
  svChannelJ :: "('m, 'c) Channel json"
  svMetaJ :: "('c, 'j) meta_json"
  svDJ :: "'j deriv_json"
  svHistoryJ :: "ChannelHistoryItem json"
  svPendingJ :: "'m PendingChannelState json"
  svTaskJ :: "Task json"
  svCodeJ :: "'c json"
  svPayload :: "'c task_payload \<Rightarrow> bytes res"
  svEventData :: "history_data \<Rightarrow> bytes res"
  svCommitSigned :: "('s, 'c, 'c CooperativeCommitSigned) codec"
  svCommitMsg :: "('s, 'c, 'c CooperativeCommitMsg) codec"
  svOnChannel :: "('d, 't, 'm, 'c) channel_cb"
  svOnHistory :: "(('m, 'c) Channel \<Rightarrow> ChannelHistoryItem \<Rightarrow> ('d, 't) executor \<Rightarrow> ('d, 't) executor) option"
  svOnSwap :: "(('m, 'c) Channel \<Rightarrow> CoinConfig \<Rightarrow> CoinConfig \<Rightarrow> int \<Rightarrow> int \<Rightarrow> unit res) option"
  svWebhook :: "(VirtualChannelEventType \<Rightarrow> ('c, 'j) ConditionalMeta \<Rightarrow> ('d, 't, unit) dbm) option"
  svHedgeSend :: "derivativeHedgeWebhookRequest \<Rightarrow> unit res"
  svToBOC :: "'c \<Rightarrow> bytes"
  WebhookURL :: string
  svKey :: bytes
  svPub :: bytes
  svSign :: "bytes \<Rightarrow> bytes \<Rightarrow> bytes"
  svKnown :: "(string \<times> CoinConfig) list"
  svParseAddr :: "string \<Rightarrow> address res"
  svAmount :: "int \<Rightarrow> nat \<Rightarrow> string"
  MinSafeVirtualChannelTimeoutSec :: int
  AcceptingDerivatives :: bool
  AllowOnTheirSide :: bool

abbreviation svC :: "('b, 's, 'c, 'm, 'd, 't, 'j) svc \<Rightarrow> ('b, 's, 'c) cond_env" where
  "svC S \<equiv> cnC (svE S)"

abbreviation svA :: "('b, 's, 'c, 'm, 'd, 't, 'j) svc \<Rightarrow> ('b, 's, 'c) act_env" where
  "svA S \<equiv> ceA (svC S)"

abbreviation svCells :: "('b, 's, 'c, 'm, 'd, 't, 'j) svc \<Rightarrow> ('b, 's, 'c) cell_lib" where
  "svCells S \<equiv> cnL (svE S)"

abbreviation svD :: "('b, 's, 'c, 'm, 'd, 't, 'j) svc \<Rightarrow> ('m, 's, 'c) dict_lib" where
  "svD S \<equiv> cnD (svE S)"

section \<open>Coins\<close>

definition ResolveBalanceType :: "('b, 's, 'c, 'm, 'd, 't, 'j) svc \<Rightarrow> string \<Rightarrow> CoinConfig res" where
  "ResolveBalanceType S i = (case map_of (svKnown S) i of None \<Rightarrow> Inl (Errorf ''unknown balance type'') | Some b \<Rightarrow> Inr b)"

definition ResolveCoinConfig :: "('b, 's, 'c, 'm, 'd, 't, 'j) svc \<Rightarrow> string \<Rightarrow> CoinConfig res" where
  "ResolveCoinConfig S i = (case map_of (svKnown S) i of None \<Rightarrow> Inl ErrNotWhitelisted
     | Some b \<Rightarrow> if \<not> Enabled b then Inl ErrNotWhitelisted else Inr b)"

text \<open>\<open>strings.TrimSpace\<close>, \<open>ToUpper\<close> and \<open>ToLower\<close> on ASCII text.\<close>

definition is_space :: "char \<Rightarrow> bool" where
  "is_space c \<longleftrightarrow> of_char c \<in> {9, 10, 11, 12, 13, 32 :: nat}"

definition TrimSpace :: "string \<Rightarrow> string" where
  "TrimSpace s = rev (dropWhile is_space (rev (dropWhile is_space s)))"

definition ToUpper :: "string \<Rightarrow> string" where
  "ToUpper = map (\<lambda>c. let n = of_char c in if 97 \<le> n \<and> n \<le> (122 :: nat) then char_of (n - 32) else c)"

definition ToLower :: "string \<Rightarrow> string" where
  "ToLower = map (\<lambda>c. let n = of_char c in if 65 \<le> n \<and> n \<le> (90 :: nat) then char_of (n + 32) else c)"

text \<open>Decimal text of a number.\<close>

fun nat_text :: "nat \<Rightarrow> string" where
  "nat_text n = (if n < 10 then [char_of (48 + n)] else nat_text (n div 10) @ [char_of (48 + n mod 10)])"

declare nat_text.simps [simp del]

definition int_text :: "int \<Rightarrow> string" where
  "int_text i = (if i < 0 then ''-'' else []) @ nat_text (nat \<bar>i\<bar>)"

text \<open>Coins have distinct upper-case symbols: the service does not start otherwise.\<close>

definition ResolveCoinConfigBySymbol :: "('b, 's, 'c, 'm, 'd, 't, 'j) svc \<Rightarrow> string \<Rightarrow> CoinConfig res" where
  "ResolveCoinConfigBySymbol S symbol = (case find (\<lambda>(_, b). CoinSymbol b = ToUpper symbol) (svKnown S) of
     None \<Rightarrow> Inl ErrNotWhitelisted
   | Some (_, b) \<Rightarrow> if \<not> Enabled b then Inl ErrNotWhitelisted else Inr b)"

definition MustAmount :: "('b, 's, 'c, 'm, 'd, 't, 'j) svc \<Rightarrow> CoinConfig \<Rightarrow> int \<Rightarrow> int res" where
  "MustAmount S cc nano = veMustFromNano (ceVC (svC S)) nano (Decimals cc)"

text \<open>The amounts of a balance change as text, by symbol; unknown coins are left out.\<close>

definition formatDiff :: "('b, 's, 'c, 'm, 'd, 't, 'j) svc \<Rightarrow> (string \<times> int) list \<Rightarrow> (string \<times> string) list res" where
  "formatDiff S bals = rfold (\<lambda>(i, b) acc. case ResolveCoinConfig S i of
       Inl _ \<Rightarrow> Inr acc
     | Inr cc \<Rightarrow> rbind (MustAmount S cc b) (\<lambda>v. Inr (acc @ [(CoinSymbol cc, svAmount S v (Decimals cc))]))) bals []"

definition calcBalancesDiff :: "(string \<times> int) list \<Rightarrow> (string \<times> int) list \<Rightarrow> (string \<times> int) list" where
  "calcBalancesDiff before after = concat (map (\<lambda>(s2, b).
     let diff = (case map_of before s2 of Some prev \<Rightarrow> if 0 < prev then b - prev else b | None \<Rightarrow> b) in
     if diff \<noteq> 0 then [(s2, diff)] else []) after)"

section \<open>Actions\<close>

text \<open>The key cell of a 256-bit identifier, and of an action.\<close>

definition id_cell :: "('b, 's, 'c) cell_lib \<Rightarrow> bytes \<Rightarrow> 'c res" where
  "id_cell L h = end_cell L (MustStoreSlice L (BeginCell L) h 256)"

definition IDCell :: "('b, 's, 'c, 'm, 'd, 't, 'j) svc \<Rightarrow> action \<Rightarrow> 'c res" where
  "IDCell S act = rbind (Action_IDCell (svA S) act) (id_cell (svCells S))"

text \<open>
  Resolution of an action by its identifier, and its registration. The service keeps a cache in
  front of the stored codes; these are the operations without it.
\<close>

definition stored_action :: "('b, 's, 'c, 'm, 'd, 't, 'j) svc \<Rightarrow> bytes \<Rightarrow> ('d, 't, action) dbm" where
  "stored_action S i = dbind (GetActionCode (svL S) (svCodeJ S) (CellHash (svCells S)) i) (\<lambda>cl.
     dlift (CodeToAction (svA S) (ResolveBalanceType S) cl))"

definition save_action :: "('b, 's, 'c, 'm, 'd, 't, 'j) svc \<Rightarrow> action \<Rightarrow> ('d, 't, unit) dbm" where
  "save_action S act = dbind (dlift (Action_Serialize (svA S) act)) (\<lambda>cl.
     CreateActionCode (svL S) (svCodeJ S) (CellHash (svCells S)) cl)"

text \<open>\<open>dask\<close> reads from the executor at hand, \<open>dtry\<close> turns an error into a value; a panic stays one.\<close>

definition dask :: "(('d, 't) executor \<Rightarrow> 'a res) \<Rightarrow> ('d, 't, 'a) dbm" where
  "dask f e = (f e, e)"

definition dtry :: "('d, 't, 'a) dbm \<Rightarrow> ('d, 't, 'a res) dbm" where
  "dtry m e = (case m e of (Inl err, e') \<Rightarrow> (if is_panic err then Inl err else Inr (Inl err), e') | (Inr x, e') \<Rightarrow> (Inr (Inr x), e'))"

definition dwhen :: "bool \<Rightarrow> ('d, 't, unit) dbm \<Rightarrow> ('d, 't, unit) dbm" where
  "dwhen b m = (if b then m else dret ())"

lemmas svm_defs = dask_def dtry_def
lemmas svm_simps [simp] =
  svm_defs [where e = "OnDB d" for d] svm_defs [where e = "OnTx d s b" for d s b] dwhen_def

text \<open>The service as a resolver, reading from the executor at hand.\<close>

definition svcResolver :: "('b, 's, 'c, 'm, 'd, 't, 'j) svc \<Rightarrow> ('d, 't) executor \<Rightarrow> FullResolver" where
  "svcResolver S e = \<lparr>GetKnownBalanceTypes = map snd (svKnown S), ResolveAction = (\<lambda>i. fst (stored_action S i e))\<rparr>"

text \<open>\<open>tmpFullResolver\<close>: actions that are not stored yet.\<close>

definition tmpFullResolver :: "('b, 's, 'c, 'm, 'd, 't, 'j) svc \<Rightarrow> action list \<Rightarrow> ('d, 't) executor \<Rightarrow> FullResolver" where
  "tmpFullResolver S newActions e = (svcResolver S e)\<lparr>ResolveAction := (\<lambda>i.
     case fst (stored_action S i e) of
       Inr a \<Rightarrow> Inr a
     | Inl err \<Rightarrow> if errors_is err DbErrNotFound
         then (case first_some (\<lambda>a. case Action_Serialize (svA S) a of
               Inl p \<Rightarrow> Some (Inl p) | Inr c \<Rightarrow> if CellHash (svCells S) c = i then Some (Inr a) else None) newActions of
             Some r \<Rightarrow> r | None \<Rightarrow> Inl err)
         else Inl err)\<rparr>"

text \<open>A conditional from its code, or from a dictionary, and a balance, with the service as resolver.\<close>

definition code_to_cond :: "('b, 's, 'c, 'm, 'd, 't, 'j) svc \<Rightarrow> 'c \<Rightarrow> ('d, 't, 'c conditional) dbm" where
  "code_to_cond S code = dask (\<lambda>e. CodeToConditional (svC S) (ResolveAction (svcResolver S e)) code)"

definition find_cond :: "('b, 's, 'c, 'm, 'd, 't, 'j) svc \<Rightarrow> 'm \<Rightarrow> bytes \<Rightarrow> ('d, 't, 'c \<times> 'c conditional) dbm" where
  "find_cond S m i = dask (\<lambda>e. FindConditional (svC S) (svD S) m i (ResolveAction (svcResolver S e)))"

definition calc_balance ::
  "('b, 's, 'c, 'm, 'd, 't, 'j) svc \<Rightarrow> (nat \<Rightarrow> gtime) \<Rightarrow> ('m, 'c) Channel \<Rightarrow> bool \<Rightarrow> ('d, 't, balances) dbm" where
  "calc_balance S clk ch isTheir = dask (\<lambda>e. CalcBalance (svE S) (svcResolver S e) clk ch isTheir)"

definition MustParseAddr :: "('b, 's, 'c, 'm, 'd, 't, 'j) svc \<Rightarrow> string \<Rightarrow> address res" where
  "MustParseAddr S a = (case svParseAddr S a of Inl _ \<Rightarrow> Inl (Panic ''invalid address'') | Inr x \<Rightarrow> Inr x)"

definition validateIncomingAction :: "('b, 's, 'c, 'm, 'd, 't, 'j) svc \<Rightarrow> action \<Rightarrow> unit res" where
  "validateIncomingAction S act = (if IsVaultAction act \<and> \<not> AllowOnTheirSide S
     then Inl (Errorf ''vault actions are not accepted on this node'') else Inr ())"

text \<open>The addresses of an insured action as the code compares them; a vault action is not supported.\<close>

definition insured_addrs :: "action \<Rightarrow> (address option \<times> address option) option" where
  "insured_addrs act = (case act of
     JettonInsured a \<Rightarrow> Some (jiAddressA a, jiAddressB a)
   | TonInsured a \<Rightarrow> Some (tiAddressA a, tiAddressB a)
   | ECInsured a \<Rightarrow> Some (eiAddressA a, eiAddressB a)
   | _ \<Rightarrow> None)"

definition validate_addrs ::
  "('b, 's, 'c, 'm, 'd, 't, 'j) svc \<Rightarrow> ('m, 'c) Channel \<Rightarrow> address option \<Rightarrow> address option \<Rightarrow> unit res" where
  "validate_addrs S ch addrA addrB =
     (let (our, their) = (if WeLeft ch then (addrA, addrB) else (addrB, addrA));
          str = (\<lambda>a. case a of None \<Rightarrow> ''NONE'' | Some x \<Rightarrow> aeAddrString (svA S) x) in
      if str our \<noteq> sdAddress (Our ch) \<or> str their \<noteq> sdAddress (Their ch) then Inl (Errorf ''incorrect addresses'')
      else Inr ())"

definition set_action_state :: "'m \<Rightarrow> 'm Side \<Rightarrow> 'm Side" where
  "set_action_state d s = s\<lparr>sdData := (sdData s)\<lparr>adActionStates := d\<rparr>\<rparr>"

definition set_conditionals :: "'m \<Rightarrow> 'm Side \<Rightarrow> 'm Side" where
  "set_conditionals d s = s\<lparr>sdData := (sdData s)\<lparr>adConditionals := d\<rparr>\<rparr>"

text \<open>\<open>Set\<close> and \<open>Delete\<close> on the dictionaries of a side.\<close>

definition side_set_action ::
  "('b, 's, 'c, 'm, 'd, 't, 'j) svc \<Rightarrow> 'c \<Rightarrow> 'c \<Rightarrow> 'm Side \<Rightarrow> 'm Side res" where
  "side_set_action S k v s = rbind (DictSet (svD S) (adActionStates (sdData s)) k v) (\<lambda>d. Inr (set_action_state d s))"

definition side_set_cond ::
  "('b, 's, 'c, 'm, 'd, 't, 'j) svc \<Rightarrow> 'c \<Rightarrow> 'c \<Rightarrow> 'm Side \<Rightarrow> 'm Side res" where
  "side_set_cond S k v s = rbind (DictSet (svD S) (adConditionals (sdData s)) k v) (\<lambda>d. Inr (set_conditionals d s))"

definition side_del_cond :: "('b, 's, 'c, 'm, 'd, 't, 'j) svc \<Rightarrow> 'c \<Rightarrow> 'm Side \<Rightarrow> 'm Side res" where
  "side_del_cond S k s = rbind (DictDelete (svD S) (adConditionals (sdData s)) k) (\<lambda>d. Inr (set_conditionals d s))"

text \<open>A dictionary value, \<open>None\<close> when there is none.\<close>

definition find_value :: "('b, 's, 'c, 'm, 'd, 't, 'j) svc \<Rightarrow> string \<Rightarrow> 'm \<Rightarrow> 'c \<Rightarrow> 'c option res" where
  "find_value S msg m k = (case LoadValue (svD S) m k of
     Inr sl \<Rightarrow> Inr (Some (MustToCell (svCells S) sl))
   | Inl err \<Rightarrow> if errors_is err ErrNoSuchKeyInDict then Inr None else Inl (wrapf msg err))"

definition load_value :: "('b, 's, 'c, 'm, 'd, 't, 'j) svc \<Rightarrow> string \<Rightarrow> 'm \<Rightarrow> 'c \<Rightarrow> 'c res" where
  "load_value S msg m k = rbind (rwrap msg (LoadValue (svD S) m k)) (\<lambda>sl. Inr (MustToCell (svCells S) sl))"

definition addActionToChannel ::
  "('b, 's, 'c, 'm, 'd, 't, 'j) svc \<Rightarrow> ('m, 'c) Channel \<Rightarrow> 'c \<Rightarrow> (action \<times> ('m, 'c) Channel) res" where
  "addActionToChannel S ch code =
     rbind (rwrap ''failed to detect action type'' (CodeToAction (svA S) (ResolveBalanceType S) code)) (\<lambda>a.
     rbind (Action_Serialize (svA S) a) (\<lambda>ac.
     if CellHash (svCells S) ac \<noteq> CellHash (svCells S) code then Inl (Errorf ''incorrect action hash'') else
     rbind (IDCell S a) (\<lambda>aid.
     rbind (find_value S ''failed to find action in proposed state'' (adActionStates (sdData (Their ch))) aid) (\<lambda>cur.
     if cur \<noteq> None then Inl ErrActionAlreadyExists else
     rbind (case insured_addrs a of
         Some (addrA, addrB) \<Rightarrow> rwrap ''failed to validate action addresses'' (validate_addrs S ch addrA addrB)
       | None \<Rightarrow> Inl (Errorf ''unsupported action type'')) (\<lambda>_.
     rbind (Action_GetEmptyState (svA S) a) (\<lambda>empty.
     rbind (rwrap ''failed to set action state'' (side_set_action S aid empty (Their ch))) (\<lambda>their.
     Inr (a, ch\<lparr>Their := their\<rparr>))))))))"

section \<open>Linked derivatives\<close>

definition reverseDerivativeAction :: "action \<Rightarrow> action res" where
  "reverseDerivativeAction act = (case act of
     TonInsured a \<Rightarrow> Inr (TonInsured (a\<lparr>tiAddressA := tiAddressB a, tiAddressB := tiAddressA a\<rparr>))
   | JettonInsured a \<Rightarrow> Inr (JettonInsured (a\<lparr>jiAddressA := jiAddressB a, jiAddressB := jiAddressA a,
       jiWalletA := jiWalletB a, jiWalletB := jiWalletA a\<rparr>))
   | ECInsured a \<Rightarrow> Inr (ECInsured (a\<lparr>eiAddressA := eiAddressB a, eiAddressB := eiAddressA a\<rparr>))
   | _ \<Rightarrow> Inl (Errorf ''unsupported derivative action type''))"

definition buildLinkedDerivativeConditional :: "'c tl_lib \<Rightarrow> 'c ConditionalResolvable \<Rightarrow> 'c ConditionalResolvable res" where
  "buildLinkedDerivativeConditional T base =
     (if length (crKey base) \<noteq> 32 then Inl (Errorf ''invalid derivative key size'')
      else rbind (reverseDerivativeAction (crAction base)) (\<lambda>reversed.
        Inr (base\<lparr>crKey := derivativeLinkedKey T (crKey base), crIsInitiator := \<not> crIsInitiator base,
          crDetails := (crDetails base)\<lparr>rdIsLong := \<not> rdIsLong (crDetails base)\<rparr>, crAction := reversed\<rparr>)))"

definition ensureConditionalOnSide ::
  "('b, 's, 'c, 'm, 'd, 't, 'j) svc \<Rightarrow> 'm Side \<Rightarrow> 'c conditional \<Rightarrow> (bool \<times> 'm Side) res" where
  "ensureConditionalOnSide S side cond =
     rbind (Cond_Serialize (svC S) cond) (\<lambda>ser.
     rbind (id_cell (svCells S) (CellHash (svCells S) ser)) (\<lambda>key.
     rbind (find_value S ''failed to check conditional existence'' (adConditionals (sdData side)) key) (\<lambda>cur.
     if cur \<noteq> None then Inr (False, side)
     else rbind (rwrap ''failed to add conditional'' (side_set_cond S key ser side)) (\<lambda>side. Inr (True, side)))))"

definition ensureActionStateOnSide ::
  "('b, 's, 'c, 'm, 'd, 't, 'j) svc \<Rightarrow> 'm Side \<Rightarrow> action \<Rightarrow> (bool \<times> 'm Side) res" where
  "ensureActionStateOnSide S side act =
     rbind (IDCell S act) (\<lambda>actID.
     rbind (find_value S ''failed to check action state existence'' (adActionStates (sdData side)) actID) (\<lambda>cur.
     if cur \<noteq> None then Inr (False, side)
     else rbind (Action_GetEmptyState (svA S) act) (\<lambda>empty.
       rbind (rwrap ''failed to init action state'' (side_set_action S actID empty side)) (\<lambda>side. Inr (True, side)))))"

text \<open>
  The resolve of the linked conditional: nothing when the primary pays or the linked side has no
  loss, its loss capped at the collateral otherwise.
\<close>

definition computeLinkedDerivativeSettle ::
  "('b, 's, 'c) rs_env \<Rightarrow> 'c \<Rightarrow> 'c ConditionalResolvable \<Rightarrow> 'c option res" where
  "computeLinkedDerivativeSettle E primaryResolve linked =
     rbind (rwrap ''failed to parse primary resolve state'' (LoadState (reL E) (reState E) primaryResolve)) (\<lambda>primary.
     if 0 < rsAmount primary then Inr None
     else (case crPriceResolver linked of
       None \<Rightarrow> Inl (Errorf ''no price resolver for linked asset'')
     | Some ro \<Rightarrow>
       rbind (rwrap ''failed to get price'' (GetPriceAt ro (rsAt primary))) (\<lambda>price.
       let entry = rdEntryPrice (crDetails linked) in
       if entry \<le> 0 then Inl (Errorf ''invalid linked entry price'')
       else let delta = (if rdIsLong (crDetails linked) then price - entry else entry - price);
           pnl = go_div (crAmount linked * uint (rdLeverage (crDetails linked)) * delta) entry in
         if 0 \<le> pnl then Inr None
         else let settle = (if 0 < crAmount linked \<and> crAmount linked < \<bar>pnl\<bar> then crAmount linked else \<bar>pnl\<bar>) in
           rbind (ToCell (reState E) \<lparr>rsKey = crKey linked, rsAmount = settle, rsAt = rsAt primary\<rparr>) (\<lambda>c. Inr (Some c)))))"

section \<open>Channels\<close>

definition GetActiveChannel :: "('b, 's, 'c, 'm, 'd, 't, 'j) svc \<Rightarrow> string \<Rightarrow> ('d, 't, ('m, 'c) Channel) dbm" where
  "GetActiveChannel S addr = dbind (GetChannel (svL S) (svChannelJ S) addr) (\<lambda>ch.
     if chStatus ch \<noteq> ChannelStateActive then dlift (Inl ErrNotActive)
     else dbind (dlift (LoadSignedState (svE S) ch)) (\<lambda>st.
       if StateBodySigned_IsEmpty st then dlift (Inl (Errorf ''states not exchanged yet'')) else dret ch))"

text \<open>A task of the payments pool; \<open>now1\<close> and \<open>now2\<close> are the clock reads of \<open>CreateTask\<close>.\<close>

definition create_task ::
  "('b, 's, 'c, 'm, 'd, 't, 'j) svc \<Rightarrow> gtime \<Rightarrow> gtime \<Rightarrow> string \<Rightarrow> string \<Rightarrow> string \<Rightarrow> 'c task_payload \<Rightarrow>
   gtime option \<Rightarrow> gtime option \<Rightarrow> ('d, 't, unit) dbm" where
  "create_task S now1 now2 typ queue i payload after till =
     CreateTask (svL S) (svTaskJ S) now1 now2 ''pn'' typ queue i (svPayload S payload) after till"

end
