(* ===== verification/Derivatives.thy ===== *)
theory Derivatives
  imports Service
begin

text \<open>
  The service steps around a derivative: \<^verbatim>\<open>tonpayments/derivatives_meta.go\<close>, the monitor refresh and
  the removal check of \<^verbatim>\<open>tonpayments/derivatives_worker.go\<close>, the metadata of
  \<^verbatim>\<open>tonpayments/derivatives_resolver_contract.go\<close> and the resolves of
  \<^verbatim>\<open>tonpayments/derivatives_resolve.go\<close>. \<open>clk i\<close> is the \<open>i\<close>-th read of the clock by an operation.
\<close>

section \<open>Metadata of a derivative\<close>

text \<open>\<open>oracle.GetResolverID\<close>: the CRC-32 of the lower-case source and the upper-case symbol.\<close>

definition crc_step :: "uint32 \<Rightarrow> uint32" where
  "crc_step c = (if odd c then xor (drop_bit 1 c) 0xEDB88320 else drop_bit 1 c)"

definition ChecksumIEEE :: "bytes \<Rightarrow> uint32" where
  "ChecksumIEEE bs = not (fold (\<lambda>b c. (crc_step ^^ 8) (xor c (of_nat (of_char b)))) bs (not 0))"

definition GetResolverID :: "string \<Rightarrow> string \<Rightarrow> uint32" where
  "GetResolverID src symbol = ChecksumIEEE (ToLower src @ ''_'' @ ToUpper symbol)"

definition supportedSymbols :: "(string \<times> string) list" where
  "supportedSymbols = [(''binance'', ''BTCUSDT''), (''binance'', ''TONUSDT'')]"

definition derivativeSymbolByID :: "uint32 \<Rightarrow> string" where
  "derivativeSymbolByID i = (case find (\<lambda>(p, s). GetResolverID p s = i) supportedSymbols of
     Some (_, s) \<Rightarrow> s | None \<Rightarrow> [])"

fun derivativeStatusString :: "ConditionalStatus \<Rightarrow> string" where
  "derivativeStatusString ConditionalStateClosed = ''closed''"
| "derivativeStatusString ConditionalStateRemoved = ''removed''"
| "derivativeStatusString ConditionalStateWantClose = ''want_close''"
| "derivativeStatusString ConditionalStateWantRemove = ''want_remove''"
| "derivativeStatusString ConditionalStatePending = ''pending''"
| "derivativeStatusString ConditionalStateActive = ''active''"

definition defaultDerivativesCollateralSymbol :: string where
  "defaultDerivativesCollateralSymbol = ''TON''"

definition formatDerivativeCollateralAmount :: "('b, 's, 'c, 'm, 'd, 't, 'j) svc \<Rightarrow> int \<Rightarrow> string res" where
  "formatDerivativeCollateralAmount S amount =
     (case ResolveCoinConfigBySymbol S defaultDerivativesCollateralSymbol of
       Inl _ \<Rightarrow> Inr (int_text amount)
     | Inr cc \<Rightarrow> rbind (MustAmount S cc amount) (\<lambda>v. Inr (svAmount S v (Decimals cc))))"

definition formatDerivativePrice :: "('b, 's, 'c, 'm, 'd, 't, 'j) svc \<Rightarrow> int \<Rightarrow> string res" where
  "formatDerivativePrice S price = rbind (veMustFromNano (ceVC (svC S)) price 9) (\<lambda>v. Inr (svAmount S v 9))"

section \<open>Orders and hedging\<close>

definition resolveDerivativeOrderMeta ::
  "('b, 's, 'c, 'm, 'd, 't, 'j) svc \<Rightarrow> ('c, 'j) ConditionalMeta \<Rightarrow> ('d, 't, ('c, 'j) ConditionalMeta option) dbm" where
  "resolveDerivativeOrderMeta S meta =
     (if Outgoing meta \<noteq> None then dret (Some meta)
      else (case Incoming meta of
        None \<Rightarrow> dret None
      | Some i \<Rightarrow> if length (LinkedKey i) \<noteq> 32 then dret None
          else dbind (GetVirtualChannelMeta (svL S) (svMetaJ S) (LinkedKey i)) (\<lambda>linked.
            dret (if Outgoing linked = None then None else Some linked))))"

definition derivativesHedgingEnabled :: "('b, 's, 'c, 'm, 'd, 't, 'j) svc \<Rightarrow> bool" where
  "derivativesHedgingEnabled S \<longleftrightarrow> TrimSpace (WebhookURL S) \<noteq> []"

definition buildDerivativeHedgeOpenWebhook ::
  "('b, 's, 'c, 'm, 'd, 't, 'j) svc \<Rightarrow> gtime \<Rightarrow> ('m, 'c) Channel \<Rightarrow> 'c ConditionalResolvable \<Rightarrow> 'c ConditionalResolvable \<Rightarrow>
   derivativeHedgeWebhookRequest res" where
  "buildDerivativeHedgeOpenWebhook S now channel incoming outgoing =
     rbind (formatDerivativeCollateralAmount S (crAmount outgoing)) (\<lambda>collateral.
     rbind (formatDerivativeCollateralAmount S (crFee outgoing)) (\<lambda>fee.
     rbind (formatDerivativePrice S (rdEntryPrice (crDetails outgoing))) (\<lambda>price.
     Inr \<lparr>hwEvent = ''open'', hwOrderID = b64_encode (crKey outgoing), hwLinkedOrderID = b64_encode (crKey incoming),
       hwStatus = [], hwChannelAddress = sdAddress (Our channel), hwSymbol = derivativeSymbolByID (rdAssetID (crDetails outgoing)),
       hwIsLong = rdIsLong (crDetails outgoing), hwLeverage = uint (rdLeverage (crDetails outgoing)),
       hwCollateral = collateral, hwFee = fee, hwEntryPrice = price, hwHedged = False,
       hwCreatedAt = unix_of now, hwClosedAt = 0\<rparr>)))"

definition buildDerivativeHedgeCloseWebhook ::
  "('b, 's, 'c, 'm, 'd, 't, 'j) svc \<Rightarrow> gtime \<Rightarrow> ('c, 'j) ConditionalMeta \<Rightarrow> ConditionalStatus \<Rightarrow>
   ('d, 't, derivativeHedgeWebhookRequest option) dbm" where
  "buildDerivativeHedgeCloseWebhook S now meta status =
     dbind (resolveDerivativeOrderMeta S meta) (\<lambda>orderMeta.
     case orderMeta of None \<Rightarrow> dret None
     | Some om \<Rightarrow> (case Outgoing om of None \<Rightarrow> dret None
       | Some ou \<Rightarrow> (case cmConditional ou of None \<Rightarrow> dret None
         | Some code \<Rightarrow>
           dbind (dwrap ''failed to parse derivative for hedge close webhook'' (code_to_cond S code)) (\<lambda>cond.
           case cond of VCond _ \<Rightarrow> dret None
           | RCond c \<Rightarrow>
             dbind (dlift (formatDerivativeCollateralAmount S (crAmount c))) (\<lambda>collateral.
             dbind (dlift (formatDerivativeCollateralAmount S (crFee c))) (\<lambda>fee.
             dbind (dlift (formatDerivativePrice S (rdEntryPrice (crDetails c)))) (\<lambda>price.
             dret (Some \<lparr>hwEvent = ''close'', hwOrderID = b64_encode (cmKey om),
               hwLinkedOrderID = (if length (LinkedKey ou) = 32 then b64_encode (LinkedKey ou) else []),
               hwStatus = derivativeStatusString status, hwChannelAddress = cmChannelAddress ou,
               hwSymbol = derivativeSymbolByID (rdAssetID (crDetails c)), hwIsLong = rdIsLong (crDetails c),
               hwLeverage = uint (rdLeverage (crDetails c)), hwCollateral = collateral, hwFee = fee, hwEntryPrice = price,
               hwHedged = derivativeMetaHedged (svDJ S) om, hwCreatedAt = unix_of (cmCreatedAt om),
               hwClosedAt = unix_of now\<rparr>))))))))"

definition requestDerivativeHedgeOpen ::
  "('b, 's, 'c, 'm, 'd, 't, 'j) svc \<Rightarrow> gtime \<Rightarrow> ('m, 'c) Channel \<Rightarrow> 'c ConditionalResolvable \<Rightarrow> 'c ConditionalResolvable \<Rightarrow>
   unit res" where
  "requestDerivativeHedgeOpen S now channel incoming outgoing =
     rbind (buildDerivativeHedgeOpenWebhook S now channel incoming outgoing) (svHedgeSend S)"

definition scheduleDerivativeHedgeClose ::
  "('b, 's, 'c, 'm, 'd, 't, 'j) svc \<Rightarrow> (nat \<Rightarrow> gtime) \<Rightarrow> ('c, 'j) ConditionalMeta \<Rightarrow> ConditionalStatus \<Rightarrow> ('d, 't, unit) dbm" where
  "scheduleDerivativeHedgeClose S clk meta status =
     (if \<not> derivativesHedgingEnabled S then dret ()
      else dbind (buildDerivativeHedgeCloseWebhook S (clk 0) meta status) (\<lambda>req.
        case req of None \<Rightarrow> dret ()
        | Some r \<Rightarrow> dcatch (create_task S (clk 1) (clk 2) ''derivative-hedge-webhook'' (hwOrderID r)
            (''derivative-hedge-webhook-'' @ hwEvent r @ ''-'' @ hwOrderID r) (derivativeHedgeWebhookTask r) None None)
            (\<lambda>err. if errors_is err DbErrAlreadyExists then dret () else dlift (Inl err))))"

definition SetDerivativeOrderHedged ::
  "('b, 's, 'c, 'm, 'd, 't, 'j) svc \<Rightarrow> (nat \<Rightarrow> gtime) \<Rightarrow> bytes \<Rightarrow> bool \<Rightarrow> ('d, 't, unit) dbm" where
  "SetDerivativeOrderHedged S clk key hedged =
     (if length key \<noteq> 32 then dlift (Inl (Errorf ''incorrect order id''))
      else Transaction (svL S) (
        dbind (GetVirtualChannelMeta (svL S) (svMetaJ S) key) (\<lambda>meta.
        dbind (resolveDerivativeOrderMeta S meta) (\<lambda>orderMeta.
        case orderMeta of None \<Rightarrow> dlift (Inl (Errorf ''derivative order is not found''))
        | Some om \<Rightarrow>
          let om = (derivativeMetaSetHedged (svDJ S) om hedged)\<lparr>cmUpdatedAt := clk 0\<rparr> in
          dbind (UpdateVirtualChannelMeta (svL S) (svMetaJ S) om) (\<lambda>_.
          let linkedKey = (case Outgoing om of Some ou \<Rightarrow> LinkedKey ou | None \<Rightarrow> []) in
          if length linkedKey \<noteq> 32 then dret ()
          else dbind (GetVirtualChannelMeta (svL S) (svMetaJ S) linkedKey) (\<lambda>linked.
            UpdateVirtualChannelMeta (svL S) (svMetaJ S)
              ((derivativeMetaSetHedged (svDJ S) linked hedged)\<lparr>cmUpdatedAt := clk 1\<rparr>)))))))"

section \<open>The monitor in the database\<close>

text \<open>
  \<open>refreshIncomingDerivativeMeta\<close>: walk the prices since the last check and store the monitor when it
  changed, into the metadata as it is by then. \<open>cancelled\<close> is as in \<open>monitor_loop\<close>.
\<close>

definition refreshIncomingDerivativeMeta ::
  "('b, 's, 'c, 'm, 'd, 't, 'j) svc \<Rightarrow> gtime \<Rightarrow> (int \<Rightarrow> bool) \<Rightarrow> bytes \<Rightarrow>
   ('d, 't, ('c, 'j) ConditionalMeta \<times> 'c ConditionalResolvable \<times> derivativeMonitorState \<times> bool) dbm" where
  "refreshIncomingDerivativeMeta S now cancelled key =
     dbind (GetVirtualChannelMeta (svL S) (svMetaJ S) key) (\<lambda>meta.
     case (if cmStatus meta \<noteq> ConditionalStateActive \<and> cmStatus meta \<noteq> ConditionalStatePending then None
           else Option.bind (Incoming meta) cmConditional) of
       None \<Rightarrow> dlift (Inl ErrNotIncomingDerivative)
     | Some code \<Rightarrow>
       dbind (dwrap ''failed to parse incoming derivative conditional'' (code_to_cond S code)) (\<lambda>condRaw.
       case condRaw of VCond _ \<Rightarrow> dlift (Inl ErrNotIncomingDerivative)
       | RCond cond \<Rightarrow> (case crPriceResolver cond of
           None \<Rightarrow> dlift (Inl (Errorf ''price resolver for asset is not configured''))
         | Some ro \<Rightarrow>
           let (monitor, needsWrap) = parseDerivativeMonitor (svDJ S) meta;
               from = max (LastCheckedAt monitor + 1) (unix_of (cmCreatedAt meta)) in
           dbind (dlift (monitor_loop ro cond cancelled (unix_of now) from monitor needsWrap False (LastCheckedAt monitor)))
             (\<lambda>(m, changed, liq, lastChecked).
           let newer = (LastCheckedAt m < lastChecked);
               m = (if newer then m\<lparr>LastCheckedAt := lastChecked\<rparr> else m) in
           if changed \<or> newer
           then dbind (GetVirtualChannelMeta (svL S) (svMetaJ S) key) (\<lambda>latest.
             let latest = derivativeMetaSetMonitor (svDJ S) latest m in
             dbind (UpdateVirtualChannelMeta (svL S) (svMetaJ S) latest) (\<lambda>_. dret (latest, cond, m, liq)))
           else dret (meta, cond, m, liq)))))"

definition ensureDerivativeRemovable ::
  "('b, 's, 'c, 'm, 'd, 't, 'j) svc \<Rightarrow> gtime \<Rightarrow> (int \<Rightarrow> bool) \<Rightarrow> ('c, 'j) ConditionalMeta \<Rightarrow> ('d, 't, unit) dbm" where
  "ensureDerivativeRemovable S now cancelled outgoingMeta = (case derivativeIncomingKeyForRemove outgoingMeta of
     None \<Rightarrow> dlift (Inl (Errorf ''incoming derivative key is required to validate remove''))
   | Some incomingKey \<Rightarrow>
     dbind (dtry (refreshIncomingDerivativeMeta S now cancelled incomingKey)) (\<lambda>r.
     case r of
       Inl err \<Rightarrow>
         let failed = dlift (Inl (wrapf ''failed to refresh derivative monitor before remove'' err)) in
         if errors_is err DbErrNotFound \<or> errors_is err ErrNotIncomingDerivative
         then (if derivativeRemoveTerminalMeta outgoingMeta then dret ()
           else dbind (dtry (GetVirtualChannelMeta (svL S) (svMetaJ S) incomingKey)) (\<lambda>l.
             case l of
               Inl loadErr \<Rightarrow> if errors_is loadErr DbErrNotFound then dret () else failed
             | Inr incomingMeta \<Rightarrow> if derivativeRemoveTerminalMeta incomingMeta then dret () else failed))
         else failed
     | Inr (meta, cond, monitor, _) \<Rightarrow>
         if derivativeOrderOpenedFromMonitor (svT S) meta cond monitor
         then (if derivativeCanRemoveWithoutPriceHistory (svDJ S) meta monitor then dret ()
           else dlift (Inl (Errorf ''derivative order already opened, remove is denied'')))
         else dret ()))"

section \<open>Resolver metadata\<close>

definition parseDerivativeResolverMeta ::
  "('b, 's, 'c, 'm, 'd, 't, 'j) svc \<Rightarrow> 'c option \<Rightarrow> derivativeResolverMeta option res" where
  "parseDerivativeResolverMeta S detailsCell = (case detailsCell of None \<Rightarrow> Inr None
   | Some c \<Rightarrow> rbind (LoadState (svCells S) (reInstr (ceRS (svC S))) c) (\<lambda>details.
       case ResolverContractData details of None \<Rightarrow> Inr None
       | Some data \<Rightarrow> Inr (if ResolverContractCodeHash details = [] then None
           else Some \<lparr>drCodeHash = b64_encode (ResolverContractCodeHash details), drDataBOC = b64_encode (svToBOC S data)\<rparr>)))"

definition buildDerivativeMetaAny ::
  "('b, 's, 'c, 'm, 'd, 't, 'j) svc \<Rightarrow> ConditionalResolvableDetails \<Rightarrow> 'c option \<Rightarrow> 'j res" where
  "buildDerivativeMetaAny S details instr =
     (case parseDerivativeResolverMeta S instr of
        Inl err \<Rightarrow> if is_panic err then Inl err
          else Inr (djPack (svDJ S) \<lparr>dmDetails = details, dmResolver = None, dmMonitor = None, dmHedged = False\<rparr>)
      | Inr r \<Rightarrow> Inr (djPack (svDJ S) \<lparr>dmDetails = details, dmResolver = r, dmMonitor = None, dmHedged = False\<rparr>))"

section \<open>Resolves\<close>

definition derivative_pnl :: "'c ConditionalResolvable \<Rightarrow> int \<Rightarrow> int" where
  "derivative_pnl cond price = (let entry = rdEntryPrice (crDetails cond);
     delta = (if rdIsLong (crDetails cond) then price - entry else entry - price) in
     go_div (crAmount cond * uint (rdLeverage (crDetails cond)) * delta) entry)"

definition buildIncomingDerivativeResolve ::
  "('b, 's, 'c) rs_env \<Rightarrow> 'c ConditionalResolvable \<Rightarrow> bytes \<Rightarrow> 'c res" where
  "buildIncomingDerivativeResolve E outCond incomingKey = (case rePriceResolvers E (rdAssetID (crDetails outCond)) of
     None \<Rightarrow> Inl (Errorf ''no price resolver for asset'')
   | Some resolver \<Rightarrow>
     rbind (rwrap ''failed to get current price'' (GetLastPrice (Some resolver))) (\<lambda>(at', lastPrice).
     if lastPrice \<le> 0 then Inl (Errorf ''failed to get current price'')
     else if rdEntryPrice (crDetails outCond) \<le> 0 then Inl (Errorf ''invalid entry price'')
     else let pnl = derivative_pnl outCond lastPrice;
         settle = (if 0 < pnl then (if 0 < crAmount outCond \<and> crAmount outCond < pnl then crAmount outCond else pnl) else 0) in
       ToCell (reState E) \<lparr>rsKey = incomingKey, rsAmount = settle, rsAt = at'\<rparr>))"

definition buildDerivativeResolveForPrice ::
  "('b, 's, 'c) rs_env \<Rightarrow> 'c ConditionalResolvable \<Rightarrow> int \<Rightarrow> int \<Rightarrow> 'c res" where
  "buildDerivativeResolveForPrice E cond at' lastPrice =
     (if lastPrice \<le> 0 then Inl (Errorf ''invalid derivative exit price'')
      else if rdEntryPrice (crDetails cond) \<le> 0 then Inl (Errorf ''invalid entry price'')
      else if crAmount cond \<le> 0 then Inl (Errorf ''invalid derivative amount'')
      else if rdLeverage (crDetails cond) = 0 then Inl (Errorf ''invalid derivative leverage'')
      else let pnl = derivative_pnl cond lastPrice;
          settle = (if pnl < 0 then (if crAmount cond < \<bar>pnl\<bar> then crAmount cond else \<bar>pnl\<bar>) else 0) in
        ToCell (reState E) \<lparr>rsKey = crKey cond, rsAmount = settle, rsAt = at'\<rparr>)"

end
