(* ===== verification/Closing.thy ===== *)
theory Closing
  imports Derivatives
begin

text \<open>
  Closing a conditional and preparing an on-chain commit: \<open>closeConditional\<close> and \<open>getCommitRequest\<close> of
  \<^verbatim>\<open>tonpayments/api.go\<close>, and the end of the derivatives of an inactive channel
  (\<^verbatim>\<open>tonpayments/derivatives_meta.go\<close>).
\<close>

section \<open>Closing a conditional\<close>

text \<open>The hash of a conditional code that must be there.\<close>

definition code_hash :: "('b, 's, 'c, 'm, 'd, 't, 'j) svc \<Rightarrow> 'c option \<Rightarrow> bytes res" where
  "code_hash S code = (case code of None \<Rightarrow> Inl (Panic ''nil pointer dereference'') | Some c \<Rightarrow> Inr (CellHash (svCells S) c))"

text \<open>
  \<open>closeConditional\<close>: check that the known resolve settles, mark the pair, and schedule the
  cooperative close with, when the settlement pays, an uncooperative one in time. The result is the
  metadata as the caller sees it afterwards.
\<close>

definition close_deadline :: "gtime \<Rightarrow> ('m, 'c) Channel \<Rightarrow> gtime \<Rightarrow> gtime" where
  "close_deadline now ch till = (let till = till - unix (SafeOnchainClosePeriod ch); minDelay = now + unix 60 in
     if till \<le> minDelay then minDelay else till)"

definition closeConditional ::
  "('b, 's, 'c, 'm, 'd, 't, 'j) svc \<Rightarrow> (nat \<Rightarrow> gtime) \<Rightarrow> ('c, 'j) ConditionalMeta \<Rightarrow> ('d, 't, ('c, 'j) ConditionalMeta) dbm" where
  "closeConditional S clk meta = (case Incoming meta of
     None \<Rightarrow> dlift (Inl (if Outgoing meta \<noteq> None then ErrCannotCloseOutgoingVirtual else Errorf ''conditional has no incoming channel''))
   | Some inc \<Rightarrow> (case LastKnownResolve meta of
     None \<Rightarrow> dlift (Inl ErrNoResolveExists)
   | Some resolve \<Rightarrow>
     dbind (dcatch (GetActiveChannel S (cmChannelAddress inc)) (\<lambda>err.
       if errors_is err DbErrNotFound then dlift (Inl (Errorf ''onchain channel with source is not active''))
       else dlift (Inl (wrapf ''failed to get channel'' err)))) (\<lambda>ch.
     dbind (dlift (code_hash S (cmConditional inc))) (\<lambda>condId.
     dbind (dtry (find_cond S (adConditionals (sdData (Their ch))) condId)) (\<lambda>found.
     case found of
       Inl err \<Rightarrow> if errors_is err PayErrNotFound then dret meta
         else dlift (Inl (wrapf ''failed to find virtual channel'' err))
     | Inr (_, cond) \<Rightarrow>
       dbind (dlift (IDCell S (Cond_GetAction cond))) (\<lambda>aid.
       dbind (dlift (load_value S ''failed to load active channel state'' (adActionStates (sdData (Their ch))) aid)) (\<lambda>actState.
       dbind (dlift (rwrap ''failed to execute conditional'' (Cond_Execute (svC S) cond actState resolve None))) (\<lambda>(newActState, _).
       let same = (CellHash (svCells S) newActState = CellHash (svCells S) actState);
           till = (if same then Cond_GetDeadline cond else close_deadline (clk 2) ch (Cond_GetDeadline cond));
           our = sdAddress (Our ch) in
       dwrap ''failed to execute db tx for close virtual channel'' (Transaction (svL S) (
         dbind (dwrap ''failed to update virtual channel pair in db''
           (ClosePairMeta (svL S) (svMetaJ S) (clk 0) (cmKey meta) ConditionalStateWantClose)) (\<lambda>_.
         dbind (if same then dret (Inr ()) else dtry (create_task S (clk 3) (clk 4) ''uncooperative-close'' (our @ ''-uncoop'')
           (''uncooperative-close-'' @ our @ ''-vc-'' @ b64_encode condId)
           (ChannelUncooperativeCloseTask our condId None) (Some till) None)) (\<lambda>_.
         dbind (dwrap ''failed to create close conditional task'' (create_task S (clk 5) (clk 6) ''close-conditional'' (our @ ''-coop'')
           (''close-conditional-'' @ our @ ''-vc-'' @ b64_encode condId)
           (CloseConditionalTask (cmKey meta)) None (Some till))) (\<lambda>_.
         dret (meta\<lparr>cmStatus := ConditionalStateWantClose, cmUpdatedAt := clk 1\<rparr>))))))))))))))"

section \<open>Commit request\<close>

text \<open>
  \<open>getCommitRequest\<close>: both sides' states of one action as they will be committed on-chain, the message
  signed by us, and the pending transfers of both sides. \<open>feeFromUs\<close> is nil when nobody pays the fee.
\<close>

definition prepare_side ::
  "('b, 's, 'c, 'm, 'd, 't, 'j) svc \<Rightarrow> (nat \<Rightarrow> gtime) \<Rightarrow> ('m, 'c) Channel \<Rightarrow> action \<Rightarrow> 'c option \<Rightarrow> bool \<Rightarrow> uint64 \<Rightarrow> bool \<Rightarrow>
   ('d, 't, 'c option \<times> PendingMessageInfo option) dbm" where
  "prepare_side S clk ch act st isTheir seqno withFee = (case st of
     None \<Rightarrow> dret (None, None)
   | Some c \<Rightarrow>
     dbind (dwrap ''failed to calc our balance'' (calc_balance S clk ch isTheir)) (\<lambda>bals.
     dbind (dlift (MustParseAddr S (sdAddress (if isTheir then Our ch else Their ch)))) (\<lambda>party.
     dbind (dlift (rwrap ''failed to prepare execute state'' (Action_PrepareExecuteState (svA S) act c party seqno withFee bals)))
       (\<lambda>(st', tx). dret (Some st', Some tx)))))"

definition getCommitRequest ::
  "('b, 's, 'c, 'm, 'd, 't, 'j) svc \<Rightarrow> (nat \<Rightarrow> nat \<Rightarrow> gtime) \<Rightarrow> ('m, 'c) Channel \<Rightarrow> bytes option \<Rightarrow> bool \<Rightarrow> bool option \<Rightarrow>
   ('d, 't, 'c CooperativeCommitMsg \<times> PendingMessageInfo option \<times> PendingMessageInfo option \<times> bytes) dbm" where
  "getCommitRequest S clk ch actionId executeByUs feeFromUs =
     (if \<not> ActiveOnchain (Our ch) \<or> \<not> ActiveOnchain (Their ch)
      then dlift (Inl (Errorf ''both sides contracts must be active onchain to commit''))
      else dbind (dlift (LoadSignedState (svE S) ch)) (\<lambda>st.
        let seqno = sbSeqno (sbBody st) + 1;
            body = \<lparr>ccChannelID = chID ch, ccSeqno = seqno, ccFromA = (if executeByUs then WeLeft ch else \<not> WeLeft ch)\<rparr> in
        dbind (case actionId of None \<Rightarrow> dret (None, None, None)
          | Some i \<Rightarrow>
            dbind (dwrap ''failed to resolve action'' (stored_action S i)) (\<lambda>act.
            dbind (dlift (IDCell S act)) (\<lambda>aid.
            dbind (dlift (find_value S ''failed to load their action state'' (adActionStates (sdData (Their ch))) aid)) (\<lambda>their.
            dbind (dlift (find_value S ''failed to load our action state'' (adActionStates (sdData (Our ch))) aid)) (\<lambda>our.
            if our = None \<and> their = None then dlift (Inl ErrNothingToCommit) else
            dbind (prepare_side S (clk 0) ch act our False seqno (feeFromUs = Some True)) (\<lambda>(our', ourTx).
            dbind (prepare_side S (clk 1) ch act their True seqno (feeFromUs = Some False)) (\<lambda>(their', theirTx).
            dbind (dlift (Action_Serialize (svA S) act)) (\<lambda>code.
            dret (Some \<lparr>coStateA = our', coStateB = their', coCode = code\<rparr>, ourTx, theirTx))))))))) (\<lambda>(a, ourTx, theirTx).
        let a = (if WeLeft ch then a else map_option (\<lambda>x. x\<lparr>coStateA := coStateB x, coStateB := coStateA x\<rparr>) a);
            signed = \<lparr>csBody = body, csAction = a\<rparr> in
        dbind (dlift (rwrap ''failed to serialize body to cell'' (ToCell (svCommitSigned S) signed))) (\<lambda>c.
        let sig = svSign S (svKey S) (CellHash (svCells S) c); (sa, sb) = (if WeLeft ch then (sig, zeros 64) else (zeros 64, sig)) in
        dret (\<lparr>cmSignatureA = sa, cmSignatureB = sb, cmSigned = signed\<rparr>, ourTx, theirTx, sig)))))"

section \<open>Derivatives of an inactive channel\<close>

definition derivativeMetaTouchesChannel :: "('c, 'j) ConditionalMeta \<Rightarrow> string \<Rightarrow> bool" where
  "derivativeMetaTouchesChannel meta addr \<longleftrightarrow>
     (case Incoming meta of Some i \<Rightarrow> cmChannelAddress i = addr | None \<Rightarrow> False) \<or>
     (case Outgoing meta of Some ou \<Rightarrow> cmChannelAddress ou = addr | None \<Rightarrow> False)"

definition derivativeMetaTerminal :: "ConditionalStatus \<Rightarrow> bool" where
  "derivativeMetaTerminal status \<longleftrightarrow> status = ConditionalStateClosed \<or> status = ConditionalStateRemoved"

definition derivativeFinalStatusOnInactive ::
  "('c, 'j) ConditionalMeta \<Rightarrow> ('c, 'j) ConditionalMeta option \<Rightarrow> ConditionalStatus" where
  "derivativeFinalStatusOnInactive orderMeta linkedMeta =
     (if LastKnownResolve orderMeta \<noteq> None \<or> (case linkedMeta of Some l \<Rightarrow> LastKnownResolve l \<noteq> None | None \<Rightarrow> False)
      then ConditionalStateClosed else ConditionalStateRemoved)"

text \<open>A read that may find nothing.\<close>

definition find_meta :: "('b, 's, 'c, 'm, 'd, 't, 'j) svc \<Rightarrow> bytes \<Rightarrow> ('d, 't, ('c, 'j) ConditionalMeta option) dbm" where
  "find_meta S key = dbind (dtry (GetVirtualChannelMeta (svL S) (svMetaJ S) key)) (\<lambda>r. case r of
     Inl err \<Rightarrow> if errors_is err DbErrNotFound then dret None else dlift (Inl err)
   | Inr meta \<Rightarrow> dret (Some meta))"

definition finalize_order ::
  "('b, 's, 'c, 'm, 'd, 't, 'j) svc \<Rightarrow> (nat \<Rightarrow> gtime) \<Rightarrow> ('c, 'j) ConditionalMeta \<Rightarrow> 'c ConditionalMetaSide \<Rightarrow> ('d, 't, unit) dbm" where
  "finalize_order S clk om ou =
     dbind (if length (LinkedKey ou) = 32 then find_meta S (LinkedKey ou) else dret None) (\<lambda>linked.
     let status = derivativeFinalStatusOnInactive om linked in
     dbind (if derivativeMetaTerminal (cmStatus om) then dret om
       else dbind (ClosePairMeta (svL S) (svMetaJ S) (clk 0) (cmKey om) status) (\<lambda>_.
         dret (om\<lparr>cmStatus := status, cmUpdatedAt := clk 1\<rparr>))) (\<lambda>om.
     scheduleDerivativeHedgeClose S (\<lambda>i. clk (i + 2)) om status))"

text \<open>\<open>finalizeKey\<close> with the set of handled orders, and the walk over one dictionary.\<close>

definition finalizeKey ::
  "('b, 's, 'c, 'm, 'd, 't, 'j) svc \<Rightarrow> (nat \<Rightarrow> gtime) \<Rightarrow> ('m, 'c) Channel \<Rightarrow> bytes \<Rightarrow> bytes list \<Rightarrow> ('d, 't, bytes list) dbm" where
  "finalizeKey S clk ch key handled =
     (if length key \<noteq> 32 then dret handled
      else dbind (find_meta S key) (\<lambda>m. case m of None \<Rightarrow> dret handled
      | Some meta \<Rightarrow>
        if \<not> derivativeMetaTouchesChannel meta (sdAddress (Our ch)) then dret handled
        else dbind (dtry (resolveDerivativeOrderMeta S meta)) (\<lambda>r. case r of
          Inl err \<Rightarrow> if errors_is err DbErrNotFound then dret handled else dlift (Inl err)
        | Inr None \<Rightarrow> dret handled
        | Inr (Some om) \<Rightarrow> (case Outgoing om of None \<Rightarrow> dret handled
          | Some ou \<Rightarrow> if cmKey om \<in> set handled then dret handled
              else dbind (finalize_order S clk om ou) (\<lambda>_. dret (cmKey om # handled))))))"

primrec finalizeDict ::
  "('b, 's, 'c, 'm, 'd, 't, 'j) svc \<Rightarrow> (nat \<Rightarrow> nat \<Rightarrow> gtime) \<Rightarrow> ('m, 'c) Channel \<Rightarrow> ('s \<times> 's) list \<Rightarrow> nat \<Rightarrow> bytes list \<Rightarrow>
   ('d, 't, bytes list) dbm" where
  "finalizeDict S clk ch [] n handled = dret handled"
| "finalizeDict S clk ch (kv # kvs) n handled =
     (if RefsNum (svCells S) (snd kv) = 0 \<and> BitsLeft (svCells S) (snd kv) = 0 then finalizeDict S clk ch kvs (n + 1) handled
      else dbind (dtry (code_to_cond S (MustToCell (svCells S) (snd kv)))) (\<lambda>r. case r of
        Inl _ \<Rightarrow> finalizeDict S clk ch kvs (n + 1) handled
      | Inr (VCond _) \<Rightarrow> finalizeDict S clk ch kvs (n + 1) handled
      | Inr (RCond c) \<Rightarrow> dbind (finalizeKey S (clk n) ch (crKey c) handled) (\<lambda>handled.
          finalizeDict S clk ch kvs (n + 1) handled)))"

definition finalizeInactiveChannelDerivatives ::
  "('b, 's, 'c, 'm, 'd, 't, 'j) svc \<Rightarrow> (nat \<Rightarrow> nat \<Rightarrow> gtime) \<Rightarrow> ('m, 'c) Channel \<Rightarrow> ('d, 't, unit) dbm" where
  "finalizeInactiveChannelDerivatives S clk ch =
     dbind (dlift (rwrap ''failed to load our channel conditionals'' (LoadAll (svD S) (adConditionals (sdData (Our ch)))))) (\<lambda>our.
     dbind (finalizeDict S clk ch our 0 []) (\<lambda>handled.
     dbind (dlift (rwrap ''failed to load their channel conditionals'' (LoadAll (svD S) (adConditionals (sdData (Their ch)))))) (\<lambda>their.
     dbind (finalizeDict S clk ch their (length our) handled) (\<lambda>_. dret ()))))"

end
