(* ===== verification/Updates.thy ===== *)
theory Updates
  imports Closing
begin

text \<open>
  What a proposed action does to the two sides of a channel. The proposer
  (\<^verbatim>\<open>tonpayments/state.go\<close>) and the responder (\<^verbatim>\<open>tonpayments/process.go\<close>) run the same steps with the
  sides swapped, so each step is a function of the sides it changes.
\<close>

section \<open>Helpers\<close>

text \<open>How long a conditional stays safe on this channel, in seconds.\<close>

definition safe_margin :: "gtime \<Rightarrow> ('m, 'c) Channel \<Rightarrow> 'c conditional \<Rightarrow> int" where
  "safe_margin now ch cond = i64 (unix_of (Cond_GetDeadline cond) - (unix_of now + SafeOnchainClosePeriod ch))"

definition SetBytes :: "bytes \<Rightarrow> int" where
  "SetBytes b = int (be_get b)"

definition dict_hash :: "('b, 's, 'c, 'm, 'd, 't, 'j) svc \<Rightarrow> 'm \<Rightarrow> bytes" where
  "dict_hash S m = (if DictIsEmpty (svD S) m then zeros 32 else CellHash (svCells S) (DictAsCell (svD S) m))"

definition side_hashes :: "('b, 's, 'c, 'm, 'd, 't, 'j) svc \<Rightarrow> 'm Side \<Rightarrow> StateSide" where
  "side_hashes S s = \<lparr>ConditionalsHash = dict_hash S (adConditionals (sdData s)),
     ActionStatesHash = dict_hash S (adActionStates (sdData s))\<rparr>"

text \<open>The state of an action, empty when there is none yet.\<close>

definition load_or_empty ::
  "('b, 's, 'c, 'm, 'd, 't, 'j) svc \<Rightarrow> string \<Rightarrow> action \<Rightarrow> 'm Side \<Rightarrow> ('c \<times> bool) res" where
  "load_or_empty S msg act side =
     rbind (IDCell S act) (\<lambda>aid.
     rbind (find_value S msg (adActionStates (sdData side)) aid) (\<lambda>cur.
     case cur of Some c \<Rightarrow> Inr (c, False)
     | None \<Rightarrow> rbind (Action_GetEmptyState (svA S) act) (\<lambda>c. Inr (c, True))))"

definition set_locked :: "locked option \<Rightarrow> 'm Side \<Rightarrow> 'm Side" where
  "set_locked lck side = (case lck of Some l \<Rightarrow> side\<lparr>LockedDeposits := l\<rparr> | None \<Rightarrow> side)"

section \<open>Settling a conditional\<close>

text \<open>
  The conditional of the paying side settles into its action; a linked conditional on the other side
  settles with it, a linked derivative only for its own loss. Both conditionals are removed. The
  result has the paying action's state before and after, and the linked one's.
\<close>

definition execute_main ::
  "('b, 's, 'c, 'm, 'd, 't, 'j) svc \<Rightarrow> 'c conditional \<Rightarrow> 'c \<Rightarrow> 'm Side \<Rightarrow> ('c \<times> 'c \<times> 'm Side) res" where
  "execute_main S cond resolve side =
     rbind (IDCell S (Cond_GetAction cond)) (\<lambda>aid.
     rbind (load_value S ''failed to load action state'' (adActionStates (sdData side)) aid) (\<lambda>old.
     rbind (rwrap ''failed to execute condition''
       (executeConditionalSettlement (svC S) cond old resolve (Some (LockedDeposits side)))) (\<lambda>(new, lck).
     rbind (rwrap ''failed to set action state'' (side_set_action S aid new (set_locked lck side))) (\<lambda>side.
     Inr (old, new, side)))))"

definition linked_resolve ::
  "('b, 's, 'c, 'm, 'd, 't, 'j) svc \<Rightarrow> 'c conditional \<Rightarrow> 'c \<Rightarrow> 'c option res" where
  "linked_resolve S cond resolve = (case cond of
     RCond c \<Rightarrow> rwrap ''failed to compute linked derivative settle'' (computeLinkedDerivativeSettle (ceRS (svC S)) resolve c)
   | VCond _ \<Rightarrow> Inr (Some resolve))"

definition execute_linked ::
  "('b, 's, 'c, 'm, 'd, 't, 'j) svc \<Rightarrow> 'c conditional \<Rightarrow> 'c \<Rightarrow> 'm Side \<Rightarrow> (('c \<times> 'c) option \<times> 'm Side) res" where
  "execute_linked S cond resolve side =
     rbind (linked_resolve S cond resolve) (\<lambda>r. case r of
       None \<Rightarrow> Inr (None, side)
     | Some lr \<Rightarrow>
       rbind (IDCell S (Cond_GetAction cond)) (\<lambda>aid.
       rbind (load_value S ''failed to load linked action state'' (adActionStates (sdData side)) aid) (\<lambda>old.
       rbind (rwrap ''failed to execute linked condition''
         (Cond_Execute (svC S) cond old lr (Some (LockedDeposits side)))) (\<lambda>(new, lck).
       rbind (rwrap ''failed to set linked action'' (side_set_action S aid new (set_locked lck side))) (\<lambda>side.
       Inr (Some (old, new), side))))))"

definition settle_linked ::
  "('b, 's, 'c, 'm, 'd, 't, 'j) svc \<Rightarrow> ('c \<times> 'c conditional) option \<Rightarrow> 'c \<Rightarrow> 'm Side \<Rightarrow> (('c \<times> 'c) option \<times> 'm Side) res" where
  "settle_linked S linked resolve side = (case linked of
     None \<Rightarrow> Inr (None, side)
   | Some (idx, cond) \<Rightarrow>
     rbind (execute_linked S cond resolve side) (\<lambda>(st, side).
     rbind (rwrap ''failed to remove linked condition'' (side_del_cond S idx side)) (\<lambda>side. Inr (st, side))))"

section \<open>Committing a conditional\<close>

definition commit_side ::
  "('b, 's, 'c, 'm, 'd, 't, 'j) svc \<Rightarrow> 'c \<Rightarrow> 'c conditional \<Rightarrow> 'c conditional \<Rightarrow> 'c \<Rightarrow> 'm Side \<Rightarrow> 'm Side res" where
  "commit_side S idx cond upd old side =
     rbind (IDCell S (Cond_GetAction cond)) (\<lambda>aid.
     rbind (rwrap ''failed to commit conditional'' (Cond_Commit (svC S) cond upd old)) (\<lambda>(new, cond).
     rbind (Cond_Serialize (svC S) cond) (\<lambda>ser.
     rbind (rwrap ''failed to set condition'' (side_set_cond S idx ser side)) (\<lambda>side.
     rwrap ''failed to set condition'' (side_set_action S aid new side)))))"

section \<open>Renting capacity\<close>

text \<open>The renting side pays the fee with its send action of the coin.\<close>

definition pay_fee ::
  "('b, 's, 'c, 'm, 'd, 't, 'j) svc \<Rightarrow> action \<Rightarrow> int \<Rightarrow> 'c \<Rightarrow> 'm Side \<Rightarrow> 'm Side res" where
  "pay_fee S act fee st side =
     rbind (rwrap ''failed to load action state'' (LoadState (svCells S) (aeSend (svA S)) st)) (\<lambda>cur.
     rbind (rwrap ''failed to serialize updated action state'' (ToCell (aeSend (svA S)) (cur\<lparr>sasAmount := sasAmount cur + fee\<rparr>))) (\<lambda>new.
     rbind (IDCell S act) (\<lambda>aid.
     rwrap ''failed to set condition'' (side_set_action S aid new side))))"

section \<open>Swapping\<close>

definition add_coins ::
  "('b, 's, 'c, 'm, 'd, 't, 'j) svc \<Rightarrow> string \<Rightarrow> action \<Rightarrow> 'c \<Rightarrow> int \<Rightarrow> 'm Side \<Rightarrow> ('c \<times> 'm Side) res" where
  "add_coins S msg act st amount side =
     rbind (rwrap msg (Action_AddCoins (svA S) act st amount (Some (LockedDeposits side)))) (\<lambda>(new, lck).
     Inr (new, set_locked lck side))"

text \<open>The two send actions of a swap, with the amounts at the decimals of their coins.\<close>

definition swap_actions ::
  "('b, 's, 'c, 'm, 'd, 't, 'j) svc \<Rightarrow> ('m, 'c) Channel \<Rightarrow> SwapAction \<Rightarrow>
   (CoinConfig \<times> CoinConfig \<times> int \<times> int \<times> action \<times> action) res" where
  "swap_actions S ch sw =
     rbind (rwrap ''failed to resolve from coin config'' (ResolveCoinConfig S (hex_encode (FromBalanceID sw)))) (\<lambda>fromCC.
     rbind (rwrap ''failed to resolve to coin config'' (ResolveCoinConfig S (hex_encode (ToBalanceID sw)))) (\<lambda>toCC.
     rbind (MustAmount S fromCC (SetBytes (FromAmount sw))) (\<lambda>fromAmt.
     rbind (MustAmount S toCC (SetBytes (ToAmount sw))) (\<lambda>toAmt.
     rbind (rwrap ''failed to create send action from from balance id''
       (NewSendActionFromBalanceID (svParseAddr S) fromCC (sdAddress (SideA ch)) (sdAddress (SideB ch)))) (\<lambda>fromAct.
     rbind (rwrap ''failed to create send action from to balance id''
       (NewSendActionFromBalanceID (svParseAddr S) toCC (sdAddress (SideA ch)) (sdAddress (SideB ch)))) (\<lambda>toAct.
     Inr (fromCC, toCC, fromAmt, toAmt, fromAct, toAct)))))))"

text \<open>The amounts are added to \<open>theirAct\<close> on their side and to \<open>ourAct\<close> on ours.\<close>

definition swap_sides ::
  "('b, 's, 'c, 'm, 'd, 't, 'j) svc \<Rightarrow> action \<Rightarrow> int \<Rightarrow> action \<Rightarrow> int \<Rightarrow> ('m, 'c) Channel \<Rightarrow>
   (bool \<times> bool \<times> ('m, 'c) Channel) res" where
  "swap_sides S theirAct theirAmt ourAct ourAmt ch =
     rbind (load_or_empty S ''failed to load their action state'' theirAct (Their ch)) (\<lambda>(theirState, newTheir).
     rbind (load_or_empty S ''failed to load our action state'' ourAct (Our ch)) (\<lambda>(ourState, newOur).
     rbind (add_coins S ''failed to add coins to their action state'' theirAct theirState theirAmt (Their ch)) (\<lambda>(theirNew, their).
     rbind (add_coins S ''failed to add coins to our action state'' ourAct ourState ourAmt (Our ch)) (\<lambda>(ourNew, our).
     rbind (IDCell S theirAct) (\<lambda>theirId.
     rbind (rwrap ''failed to set their action state'' (side_set_action S theirId theirNew their)) (\<lambda>their.
     rbind (IDCell S ourAct) (\<lambda>ourId.
     rbind (rwrap ''failed to set our action state'' (side_set_action S ourId ourNew our)) (\<lambda>our.
     Inr (newTheir, newOur, ch\<lparr>Their := their, Our := our\<rparr>)))))))))"

definition check_funds ::
  "('b, 's, 'c, 'm, 'd, 't, 'j) svc \<Rightarrow> (nat \<Rightarrow> gtime) \<Rightarrow> action list \<Rightarrow> ('m, 'c) Channel \<Rightarrow> bool \<Rightarrow> CoinConfig \<Rightarrow> ('d, 't, unit) dbm" where
  "check_funds S clk acts ch isTheir cc =
     dbind (dask (\<lambda>e. rwrap ''failed to calc balance'' (CalcBalance (svE S) (tmpFullResolver S acts e) clk ch isTheir))) (\<lambda>bals.
     dlift (case bals (BalanceID cc) of
       None \<Rightarrow> Inl (Errorf ''not enough funds on balance'')
     | Some b \<Rightarrow> if Available (Some b) < 0 then Inl (Errorf ''not enough funds on balance'') else Inr ()))"

section \<open>Committing an action on-chain\<close>

definition pendingIDCommit :: "uint64 \<Rightarrow> string" where
  "pendingIDCommit seqno = ''commit_'' @ nat_text (unat seqno)"

definition pendingIDWallet :: "uint32 \<Rightarrow> string" where
  "pendingIDWallet seqno = ''wallet_'' @ nat_text (unat seqno)"

text \<open>The committed states and pending transfers enter the channel.\<close>

definition set_committed ::
  "('b, 's, 'c, 'm, 'd, 't, 'j) svc \<Rightarrow> string \<Rightarrow> 'c \<Rightarrow> 'c option \<Rightarrow> 'm Side \<Rightarrow> 'm Side res" where
  "set_committed S msg aid st side = (case st of None \<Rightarrow> Inr side | Some c \<Rightarrow> rwrap msg (side_set_action S aid c side))"

definition add_pending :: "string \<Rightarrow> PendingMessageInfo option \<Rightarrow> 'm Side \<Rightarrow> 'm Side" where
  "add_pending k p side = (case p of None \<Rightarrow> side
     | Some i \<Rightarrow> side\<lparr>PendingOnchainTransfers := AList.update k i (PendingOnchainTransfers side)\<rparr>)"

definition apply_commit ::
  "('b, 's, 'c, 'm, 'd, 't, 'j) svc \<Rightarrow> bytes \<Rightarrow> 'c CooperativeCommitMsg \<Rightarrow> 'c \<Rightarrow> PendingMessageInfo option \<Rightarrow>
   PendingMessageInfo option \<Rightarrow> ('m, 'c) Channel \<Rightarrow> ('m, 'c) Channel res" where
  "apply_commit S actionId req msg ourPending theirPending ch =
     rbind (id_cell (svCells S) actionId) (\<lambda>aid.
     case csAction (cmSigned req) of None \<Rightarrow> Inl (Panic ''nil pointer dereference'')
     | Some a \<Rightarrow>
       let (our, their) = (if WeLeft ch then (coStateA a, coStateB a) else (coStateB a, coStateA a));
           seqno = ccSeqno (csBody (cmSigned req)); k = pendingIDCommit seqno in
       rbind (set_committed S ''failed to set our action state'' aid our (Our ch)) (\<lambda>ourSide.
       rbind (set_committed S ''failed to set their action state'' aid their (Their ch)) (\<lambda>theirSide.
       Inr (ch\<lparr>Our := add_pending k ourPending ourSide, Their := add_pending k theirPending theirSide,
         chPendingCommit := Some \<lparr>pcSeqno = seqno, pcMessage = msg\<rparr>\<rparr>))))"

definition no_pending :: "('m, 'c) Channel \<Rightarrow> unit res" where
  "no_pending ch = (if chPendingCommit ch \<noteq> None then Inl (Errorf ''can't execute action while there is already pending commit'')
     else if PendingOnchainTransfers (Their ch) \<noteq> [] \<or> PendingOnchainTransfers (Our ch) \<noteq> []
     then Inl (Errorf ''can't execute action while there are pending onchian transfers'') else Inr ())"

end
