(* ===== verification/Propose.thy ===== *)
theory Propose
  imports Updates
begin

text \<open>
  The proposing side: \<open>updateOurStateWithAction\<close> of \<^verbatim>\<open>tonpayments/state.go\<close>, one definition per kind of
  action, and \<open>proposeAction\<close> of \<^verbatim>\<open>tonpayments/service.go\<close>. An update is the changed channel with the
  program to run on the stored channel when the peer has agreed, or nothing when the action was applied before.
  \<open>clk i j\<close> is the \<open>j\<close>-th clock read at the \<open>i\<close>-th place that reads it.
\<close>

section \<open>Updates\<close>

datatype ('c, 'j) action_details = NoDetails | CondDetails "'c conditional" | MetaDetails "('c, 'j) ConditionalMeta"

type_synonym ('d, 't, 'm, 'c) on_success = "('m, 'c) Channel \<Rightarrow> ('d, 't, unit) dbm"
type_synonym ('d, 't, 'm, 'c) update = "(('m, 'c) Channel \<times> ('d, 't, 'm, 'c) on_success) option"

text \<open>A new conditional on our side; a derivative comes with its linked conditional on theirs.\<close>

definition add_linked ::
  "('b, 's, 'c, 'm, 'd, 't, 'j) svc \<Rightarrow> 'c conditional \<Rightarrow> 'm Side \<Rightarrow> (('c ConditionalResolvable \<times> bool) option \<times> 'm Side) res" where
  "add_linked S cond side = (case cond of
     VCond _ \<Rightarrow> Inr (None, side)
   | RCond res \<Rightarrow>
     rbind (rwrap ''failed to prepare linked derivative conditional'' (buildLinkedDerivativeConditional (svT S) res)) (\<lambda>linked.
     rbind (rwrap ''failed to add linked derivative condition'' (ensureConditionalOnSide S side (RCond linked))) (\<lambda>(_, side).
     rbind (rwrap ''failed to init linked derivative action state'' (ensureActionStateOnSide S side (crAction linked))) (\<lambda>(isNew, side).
     Inr (Some (linked, isNew), side)))))"

definition propose_add ::
  "('b, 's, 'c, 'm, 'd, 't, 'j) svc \<Rightarrow> (nat \<Rightarrow> nat \<Rightarrow> gtime) \<Rightarrow> ('m, 'c) Channel \<Rightarrow> 'c AddConditionalAction \<Rightarrow> 'c conditional \<Rightarrow>
   ('d, 't, ('d, 't, 'm, 'c) update) dbm" where
  "propose_add S clk ch act cond =
     dbind (dlift (Cond_ValidateOnAdd (clk 0 0) cond)) (\<lambda>_.
     if safe_margin (clk 1 0) ch cond < MinSafeVirtualChannelTimeoutSec S
     then dlift (Inl (Errorf ''safe conditional deadline is less than acceptable''))
     else
     dbind (dlift (Cond_Serialize (svC S) cond)) (\<lambda>val.
     dbind (dlift (id_cell (svCells S) (CellHash (svCells S) val))) (\<lambda>key.
     dbind (dlift (find_value S ''failed to load our condition'' (adConditionals (sdData (Our ch))) key)) (\<lambda>cur.
     if cur \<noteq> None then dret None
     else
     dbind (dlift (IDCell S (Cond_GetAction cond))) (\<lambda>actId.
     dbind (dlift (find_value S ''failed to load our action state'' (adActionStates (sdData (Our ch))) actId)) (\<lambda>st.
     let saveAction = (st = None) in
     dbind (dlift (if \<not> saveAction then Inr (Our ch)
       else if NewActionCode act = None then Inl (Errorf ''action code must be set'')
       else rbind (Action_GetEmptyState (svA S) (Cond_GetAction cond)) (\<lambda>empty.
         rwrap ''failed to set action state'' (side_set_action S actId empty (Our ch))))) (\<lambda>our.
     dbind (dlift (rwrap ''failed to set condition'' (side_set_cond S key val our))) (\<lambda>our.
     dbind (dlift (add_linked S cond (Their ch))) (\<lambda>(linked, their).
     dbind (dwhen saveAction (dwrap ''failed to save action'' (save_action S (Cond_GetAction cond)))) (\<lambda>_.
     dbind (case linked of Some (l, True) \<Rightarrow> dwrap ''failed to save linked derivative action'' (save_action S (crAction l))
       | _ \<Rightarrow> dret ()) (\<lambda>_.
     dret (Some (ch\<lparr>Our := our, Their := their\<rparr>, \<lambda>_. dret ())))))))))))))"

definition propose_commit_virtual ::
  "('b, 's, 'c, 'm, 'd, 't, 'j) svc \<Rightarrow> ('m, 'c) Channel \<Rightarrow> bytes \<Rightarrow> 'c \<Rightarrow> ('d, 't, ('d, 't, 'm, 'c) update) dbm" where
  "propose_commit_virtual S ch i updated =
     dbind (dwrap ''failed to parse updated conditional'' (code_to_cond S updated)) (\<lambda>upd.
     dbind (find_cond S (adConditionals (sdData (Our ch))) i) (\<lambda>(idx, cond).
     dbind (dlift (IDCell S (Cond_GetAction cond))) (\<lambda>aid.
     dbind (dlift (load_value S ''failed to load action state'' (adActionStates (sdData (Our ch))) aid)) (\<lambda>actState.
     dbind (dlift (Cond_Serialize (svC S) cond)) (\<lambda>ser.
     if CellHash (svCells S) updated = CellHash (svCells S) ser then dret None
     else dbind (dlift (commit_side S idx cond upd actState (Our ch))) (\<lambda>our.
       dret (Some (ch\<lparr>Our := our\<rparr>, \<lambda>_. dret ()))))))))"

text \<open>The key of the linked metadata of a conditional, incoming first.\<close>

definition any_linked_key :: "('c, 'j) ConditionalMeta \<Rightarrow> bytes" where
  "any_linked_key meta = (let lk = (\<lambda>side. case side of Some x \<Rightarrow> LinkedKey x | None \<Rightarrow> []) in
     if lk (Incoming meta) \<noteq> [] then lk (Incoming meta) else lk (Outgoing meta))"

text \<open>A conditional that may be gone.\<close>

definition lookup_cond ::
  "('b, 's, 'c, 'm, 'd, 't, 'j) svc \<Rightarrow> 'm \<Rightarrow> bytes \<Rightarrow> ('d, 't, ('c \<times> 'c conditional) option) dbm" where
  "lookup_cond S m i = dbind (dtry (find_cond S m i)) (\<lambda>r. case r of
     Inl err \<Rightarrow> if errors_is err PayErrNotFound then dret None else dlift (Inl err)
   | Inr x \<Rightarrow> dret (Some x))"

definition removable ::
  "('b, 's, 'c, 'm, 'd, 't, 'j) svc \<Rightarrow> gtime \<Rightarrow> (int \<Rightarrow> bool) \<Rightarrow> 'c conditional \<Rightarrow> ('c, 'j) ConditionalMeta \<Rightarrow> ('d, 't, unit) dbm" where
  "removable S now cancelled cond meta = (case cond of VCond _ \<Rightarrow> dret ()
     | RCond _ \<Rightarrow> dwrap ''failed to remove derivative conditional'' (ensureDerivativeRemovable S now cancelled meta))"

definition push_event ::
  "('b, 's, 'c, 'm, 'd, 't, 'j) svc \<Rightarrow> string \<Rightarrow> VirtualChannelEventType \<Rightarrow> ('c, 'j) ConditionalMeta \<Rightarrow> ('d, 't, unit) dbm" where
  "push_event S msg ev meta = (case svWebhook S of None \<Rightarrow> dret () | Some push \<Rightarrow> dwrap msg (push ev meta))"

definition linked_code :: "('c, 'j) ConditionalMeta \<Rightarrow> 'c option option" where
  "linked_code meta = (case Outgoing meta of Some ou \<Rightarrow> Some (cmConditional ou) | None \<Rightarrow> map_option cmConditional (Incoming meta))"

definition propose_remove ::
  "('b, 's, 'c, 'm, 'd, 't, 'j) svc \<Rightarrow> (nat \<Rightarrow> nat \<Rightarrow> gtime) \<Rightarrow> (int \<Rightarrow> bool) \<Rightarrow> ('m, 'c) Channel \<Rightarrow> bytes \<Rightarrow>
   ('d, 't, ('d, 't, 'm, 'c) update) dbm" where
  "propose_remove S clk cancelled ch i =
     dbind (lookup_cond S (adConditionals (sdData (Their ch))) i) (\<lambda>found. case found of None \<Rightarrow> dret None
     | Some (idx, vch) \<Rightarrow>
     dbind (dwrap ''failed to load virtual channel meta'' (GetVirtualChannelMeta (svL S) (svMetaJ S) (Cond_GetKey vch))) (\<lambda>meta.
     dbind (removable S (clk 0 0) cancelled vch meta) (\<lambda>_.
     let linkedKey = any_linked_key meta in
     dbind (if linkedKey = [] then dret None
       else dbind (dwrap ''failed to load linked virtual channel meta'' (find_meta S linkedKey)) (\<lambda>lm.
         case Option.bind lm linked_code of None \<Rightarrow> dret None
         | Some code \<Rightarrow> dbind (dlift (code_hash S code)) (\<lambda>h.
             if h = [] then dret None
             else dwrap ''failed to find linked conditional'' (lookup_cond S (adConditionals (sdData (Our ch))) h)))) (\<lambda>linked.
     dbind (dlift (side_del_cond S idx (Their ch))) (\<lambda>their.
     dbind (dlift (case linked of None \<Rightarrow> Inr (Our ch)
       | Some (lidx, _) \<Rightarrow> rwrap ''failed to remove linked condition'' (side_del_cond S lidx (Our ch)))) (\<lambda>our.
     dret (Some (ch\<lparr>Our := our, Their := their\<rparr>, \<lambda>_.
       dbind (dwrap ''failed to schedule derivative hedge remove webhook''
         (scheduleDerivativeHedgeClose S (clk 1) meta ConditionalStateRemoved)) (\<lambda>_.
       push_event S ''failed to push virtual channel close event'' VirtualChannelEventTypeRemove meta)))))))))"

text \<open>Their conditional settles to us, with the linked one on our side.\<close>

definition non_zero_diff :: "(string \<times> int) list \<Rightarrow> bool" where
  "non_zero_diff diff = (\<exists>(_, v) \<in> set diff. v \<noteq> 0)"

definition states_diff ::
  "('b, 's, 'c, 'm, 'd, 't, 'j) svc \<Rightarrow> 'c conditional \<Rightarrow> ('c \<times> 'c) option \<Rightarrow> (string \<times> int) list res" where
  "states_diff S cond st = (case st of None \<Rightarrow> Inr []
     | Some (old, new) \<Rightarrow> Action_StatesDiff (svA S) (Cond_GetAction cond) old new)"

text \<open>The history entry of a settlement: nothing when it cannot be encoded.\<close>

definition settle_history ::
  "('b, 's, 'c, 'm, 'd, 't, 'j) svc \<Rightarrow> (string \<times> int) list \<Rightarrow> (string \<times> int) list \<Rightarrow> bytes \<Rightarrow>
   (ChannelHistoryEventType \<times> bytes) option res" where
  "settle_history S diff linkedDiff senderKey =
     (let entry = (\<lambda>typ data. case svEventData S data of
         Inl err \<Rightarrow> if is_panic err then Inl err else Inr None | Inr d \<Rightarrow> Inr (Some (typ, d))) in
      if non_zero_diff diff
      then rbind (formatDiff S diff) (\<lambda>amounts. entry ChannelHistoryActionTransferIn (TransferInData amounts senderKey))
      else if non_zero_diff linkedDiff
      then rbind (formatDiff S linkedDiff) (\<lambda>amounts. entry ChannelHistoryActionTransferOut (TransferOutData amounts senderKey))
      else Inr None)"

definition create_event ::
  "('b, 's, 'c, 'm, 'd, 't, 'j) svc \<Rightarrow> ('m, 'c) Channel \<Rightarrow> gtime \<Rightarrow> ChannelHistoryEventType \<Rightarrow> bytes \<Rightarrow> ('d, 't, unit) dbm" where
  "create_event S ch at' typ data = CreateChannelEvent (svL S) (svHistoryJ S) (svOnHistory S) ch at'
     \<lparr>hiAt = 0, hiAction = typ, hiData = data\<rparr>"

definition linked_outgoing ::
  "('b, 's, 'c, 'm, 'd, 't, 'j) svc \<Rightarrow> ('m, 'c) Channel \<Rightarrow> ('c, 'j) ConditionalMeta \<Rightarrow> ('d, 't, ('c \<times> 'c conditional) option) dbm" where
  "linked_outgoing S ch meta = (case Incoming meta of None \<Rightarrow> dret None
     | Some inc \<Rightarrow> if LinkedKey inc = [] then dret None
       else dbind (dwrap ''failed to load linked virtual channel meta'' (find_meta S (LinkedKey inc))) (\<lambda>lm.
         case Option.bind lm Outgoing of None \<Rightarrow> dret None
         | Some ou \<Rightarrow> dbind (dlift (code_hash S (cmConditional ou))) (\<lambda>h.
             dwrap ''failed to find linked conditional'' (lookup_cond S (adConditionals (sdData (Our ch))) h))))"

definition propose_execute ::
  "('b, 's, 'c, 'm, 'd, 't, 'j) svc \<Rightarrow> (nat \<Rightarrow> nat \<Rightarrow> gtime) \<Rightarrow> ('m, 'c) Channel \<Rightarrow> bytes \<Rightarrow> 'c \<Rightarrow> ('c, 'j) ConditionalMeta \<Rightarrow>
   ('d, 't, ('d, 't, 'm, 'c) update) dbm" where
  "propose_execute S clk ch i state meta =
     dbind (lookup_cond S (adConditionals (sdData (Their ch))) i) (\<lambda>found. case found of None \<Rightarrow> dret None
     | Some (idx, cond) \<Rightarrow>
     dbind (dlift (rwrap ''failed to validate state'' (Cond_ValidateState (svC S) cond None state))) (\<lambda>_.
     if Cond_GetDeadline cond < clk 0 0 then dlift (Inl (Errorf ''conditional has expired''))
     else
     dbind (linked_outgoing S ch meta) (\<lambda>linked.
     dbind (dlift (execute_main S cond state (Their ch))) (\<lambda>(old, new, their).
     dbind (dlift (settle_linked S linked state (Our ch))) (\<lambda>(lst, our).
     dbind (dlift (case linked of None \<Rightarrow> Inr [] | Some (_, lc) \<Rightarrow> rwrap ''failed to calc linked balance diff'' (states_diff S lc lst))) (\<lambda>linkedDiff.
     dbind (dlift (side_del_cond S idx their)) (\<lambda>their.
     dbind (dlift (rwrap ''failed to calc balance diff'' (states_diff S cond (Some (old, new))))) (\<lambda>diff.
     let senderKey = (case Incoming meta of Some inc \<Rightarrow> SenderKey inc | None \<Rightarrow> []);
         ch = ch\<lparr>Our := our, Their := their\<rparr> in
     dbind (dlift (settle_history S diff linkedDiff senderKey)) (\<lambda>history.
     dret (Some (ch, \<lambda>ch.
       dbind (dwrap ''failed to close virtual channel pair meta''
         (ClosePairMeta (svL S) (svMetaJ S) (clk 1 0) (cmKey meta) ConditionalStateClosed)) (\<lambda>_.
       let meta = meta\<lparr>cmStatus := ConditionalStateClosed, cmUpdatedAt := clk 2 0\<rparr> in
       dbind (dwrap ''failed to schedule derivative hedge close webhook''
         (scheduleDerivativeHedgeClose S (clk 3) meta ConditionalStateClosed)) (\<lambda>_.
       dbind (case history of None \<Rightarrow> dret ()
         | Some (typ, data) \<Rightarrow> dwrap ''failed to create channel event'' (create_event S ch (clk 4 0) typ data)) (\<lambda>_.
       push_event S ''failed to push virtual channel close event'' VirtualChannelEventTypeClose meta))))))))))))))"

text \<open>We rent capacity from the peer and pay for it.\<close>

definition propose_rent ::
  "('b, 's, 'c, 'm, 'd, 't, 'j) svc \<Rightarrow> (nat \<Rightarrow> nat \<Rightarrow> gtime) \<Rightarrow> ('m, 'c) Channel \<Rightarrow> RentCapacityAction \<Rightarrow>
   ('d, 't, ('d, 't, 'm, 'c) update) dbm" where
  "propose_rent S clk ch act =
     dbind (dlift (rwrap ''failed to resolve balance type'' (ResolveBalanceType S (hex_encode (rcBalanceID act))))) (\<lambda>cc.
     let amount = SetBytes (rcAmount act); till = unix (sint (rcTill act)) in
     dbind (dlift (CalcDepositFee (clk 0 0) ch cc amount till True)) (\<lambda>totalFee.
     dbind (dlift (rwrap ''failed to create send action''
       (NewSendActionFromBalanceID (svParseAddr S) cc (sdAddress (SideA ch)) (sdAddress (SideB ch))))) (\<lambda>a.
     dbind (dlift (load_or_empty S ''failed to load action state'' a (Our ch))) (\<lambda>(aState, saveAction).
     dbind (dlift (pay_fee S a totalFee aState (Our ch))) (\<lambda>our.
     dbind (dlift (case LockedDeposits (Their ch) (BalanceID cc) of
         Some ld \<Rightarrow> if clk 1 0 < ldTill ld
           then (if amount \<le> ldAmount ld then Inl (Errorf ''amount should increase only'')
             else if till < ldTill ld then Inl (Errorf ''new till should be greater than old one'')
             else Inr (ldUsed ld))
           else Inr 0
       | None \<Rightarrow> Inr 0)) (\<lambda>used.
     let their = (Their ch)\<lparr>LockedDeposits := (LockedDeposits (Their ch))(BalanceID cc \<mapsto>
           \<lparr>ldAmount = amount, ldTill = till, ldUsed = used\<rparr>)\<rparr>;
         ch = ch\<lparr>Our := our, Their := their\<rparr> in
     dbind (dlift (rwrap ''failed to marshal event data''
       (svEventData S (RentCapData (BalanceID cc) (int_text amount) (int_text totalFee) (unix_of till))))) (\<lambda>data.
     dbind (dwhen saveAction (dwrap ''failed to save action'' (save_action S a))) (\<lambda>_.
     dret (Some (ch, \<lambda>ch. dwrap ''failed to create channel our cap rent event''
       (create_event S ch (clk 2 0) ChannelHistoryActionTheirCapacityRented data)))))))))))"

definition propose_commit ::
  "('b, 's, 'c, 'm, 'd, 't, 'j) svc \<Rightarrow> (nat \<Rightarrow> nat \<Rightarrow> gtime) \<Rightarrow> ('m, 'c) Channel \<Rightarrow> CooperativeCommitAction \<Rightarrow>
   ('d, 't, ('d, 't, 'm, 'c) update) dbm" where
  "propose_commit S clk ch act =
     dbind (dlift (no_pending ch)) (\<lambda>_.
     dbind (if WithFee act then dbind (dwrap ''failed to resolve action'' (stored_action S (caActionID act)))
         (\<lambda>a. dret (Action_GetFeesPerCommitPropose a)) else dret []) (\<lambda>fees.
     let payFee = (if WithFee act then Some (WeLeft ch) else None) in
     dbind (dlift (rbind (formatDiff S fees) (\<lambda>amounts. rwrap ''failed to marshal event data'' (svEventData S (TxRequestData amounts))))) (\<lambda>data.
     dbind (dwrap ''failed to prepare execute action channel request''
       (getCommitRequest S clk ch (Some (caActionID act)) (\<not> WithFee act) payFee)) (\<lambda>(req, ourPending, theirPending, _).
     dbind (dlift (rwrap ''failed to serialize pending commit message'' (ToCell (svCommitSigned S) (cmSigned req)))) (\<lambda>msg.
     if \<not> cnVerify (svE S) (OnchainKey (Our ch)) (CellHash (svCells S) msg) (MsgSignature act)
     then dlift (Inl (Errorf ''commit state missmatch''))
     else dbind (dlift (apply_commit S (caActionID act) req msg ourPending theirPending ch)) (\<lambda>ch.
       dret (Some (ch, \<lambda>ch. dwrap ''failed to create channel our cap rent event''
         (create_event S ch (clk 2 0) ChannelHistoryActionWithdrawTransactionRequest data)))))))))"

definition propose_swap ::
  "('b, 's, 'c, 'm, 'd, 't, 'j) svc \<Rightarrow> (nat \<Rightarrow> nat \<Rightarrow> gtime) \<Rightarrow> ('m, 'c) Channel \<Rightarrow> SwapAction \<Rightarrow>
   ('d, 't, ('d, 't, 'm, 'c) update) dbm" where
  "propose_swap S clk ch act =
     dbind (dlift (swap_actions S ch act)) (\<lambda>(fromCC, toCC, fromAmt, toAmt, fromAct, toAct).
     dbind (dlift (swap_sides S toAct toAmt fromAct fromAmt ch)) (\<lambda>(saveTheir, saveOur, ch).
     dbind (check_funds S (clk 0) [fromAct, toAct] ch True fromCC) (\<lambda>_.
     dbind (check_funds S (clk 1) [fromAct, toAct] ch False toCC) (\<lambda>_.
     dbind (dwhen saveOur (dwrap ''failed to save action'' (save_action S fromAct))) (\<lambda>_.
     dbind (dwhen saveTheir (dwrap ''failed to save action'' (save_action S toAct))) (\<lambda>_.
     dret (Some (ch, \<lambda>_. dret ()))))))))"

text \<open>
  One case per action. The remaining messages are requests, which cannot be proposed. Details of the
  wrong type are a failed type assertion for the execution, an error for the addition.
\<close>

definition propose_update ::
  "('b, 's, 'c, 'm, 'd, 't, 'j) svc \<Rightarrow> (nat \<Rightarrow> nat \<Rightarrow> gtime) \<Rightarrow> (int \<Rightarrow> bool) \<Rightarrow> ('m, 'c) Channel \<Rightarrow> 'c transport_action \<Rightarrow>
   ('c, 'j) action_details \<Rightarrow> ('d, 't, ('d, 't, 'm, 'c) update) dbm" where
  "propose_update S clk cancelled ch action details = (case action of
     IncrementStates _ \<Rightarrow> dret (Some (ch, \<lambda>_. dret ()))
   | AddConditional act \<Rightarrow> (case details of CondDetails cond \<Rightarrow> propose_add S clk ch act cond
       | _ \<Rightarrow> dlift (Inl (Errorf ''missing conditional details for add action'')))
   | CommitVirtual i updated \<Rightarrow> propose_commit_virtual S ch i updated
   | RemoveConditional i \<Rightarrow> propose_remove S clk cancelled ch i
   | ExecuteConditional i state \<Rightarrow> (case details of MetaDetails meta \<Rightarrow> propose_execute S clk ch i state meta
       | _ \<Rightarrow> dlift (Inl (Panic ''interface conversion'')))
   | RentCapacity act \<Rightarrow> propose_rent S clk ch act
   | CooperativeCommit act \<Rightarrow> propose_commit S clk ch act
   | Swap act \<Rightarrow> propose_swap S clk ch act
   | _ \<Rightarrow> dlift (Inl (Errorf ''unexpected action type'')))"

section \<open>The proposed state\<close>

definition next_body :: "('b, 's, 'c, 'm, 'd, 't, 'j) svc \<Rightarrow> ('m, 'c) Channel \<Rightarrow> StateBody \<Rightarrow> StateBody" where
  "next_body S ch body = (let our = side_hashes S (Our ch); their = side_hashes S (Their ch) in
     body\<lparr>sbSeqno := sbSeqno body + 1, sbA := (if WeLeft ch then our else their), sbB := (if WeLeft ch then their else our)\<rparr>)"

definition sign_body :: "('b, 's, 'c, 'm, 'd, 't, 'j) svc \<Rightarrow> StateBody \<Rightarrow> bytes res" where
  "sign_body S body = rbind (ToCell (cnBody (svE S)) body) (\<lambda>c. Inr (svSign S (svKey S) (CellHash (svCells S) c)))"

definition sign_state :: "('b, 's, 'c, 'm, 'd, 't, 'j) svc \<Rightarrow> ('m, 'c) Channel \<Rightarrow> StateBody \<Rightarrow> StateBodySigned res" where
  "sign_state S ch body = rbind (rwrap ''failed to serialize state for signing'' (sign_body S body)) (\<lambda>sig.
     Inr (if WeLeft ch then \<lparr>SignatureA = sig, SignatureB = zeros 64, sbBody = body\<rparr>
          else \<lparr>SignatureA = zeros 64, SignatureB = sig, sbBody = body\<rparr>))"

definition updateOurStateWithAction ::
  "('b, 's, 'c, 'm, 'd, 't, 'j) svc \<Rightarrow> (nat \<Rightarrow> nat \<Rightarrow> gtime) \<Rightarrow> (int \<Rightarrow> bool) \<Rightarrow> ('m, 'c) Channel \<Rightarrow> 'c transport_action \<Rightarrow>
   ('c, 'j) action_details \<Rightarrow> ('d, 't, ('m, 'c) Channel \<times> ('d, 't, 'm, 'c) on_success \<times> StateBodySigned) dbm" where
  "updateOurStateWithAction S clk cancelled ch action details =
     dbind (dlift (LoadSignedState (svE S) ch)) (\<lambda>state.
     dbind (propose_update S clk cancelled ch action details) (\<lambda>upd.
     let (ch', onSuccess, body) = (case upd of None \<Rightarrow> (ch, \<lambda>_. dret (), sbBody state)
         | Some (ch', f) \<Rightarrow> (ch', f, next_body S ch' (sbBody state))) in
     dbind (dlift (sign_state S ch' body)) (\<lambda>st. dret (ch', onSuccess, st))))"

section \<open>Proposing\<close>

record 'c ProposalDecision =
  Agreed :: bool
  Reason :: string
  pdSignedState :: "'c option"

text \<open>Check of the peer's answer: signed by both, over our body. The result is the state with both signatures.\<close>

definition take_signature :: "('m, 'c) Channel \<Rightarrow> StateBodySigned \<Rightarrow> StateBodySigned \<Rightarrow> StateBodySigned" where
  "take_signature ch st theirs = (if WeLeft ch then st\<lparr>SignatureB := SignatureB theirs\<rparr> else st\<lparr>SignatureA := SignatureA theirs\<rparr>)"

definition accept_answer ::
  "('b, 's, 'c, 'm, 'd, 't, 'j) svc \<Rightarrow> ('m, 'c) Channel \<Rightarrow> StateBodySigned \<Rightarrow> 'c ProposalDecision \<Rightarrow> StateBodySigned res" where
  "accept_answer S ch state res =
     (if \<not> Agreed res then Inl (if Reason res = ''channel is busy'' then ErrChannelIsBusy else ErrDenied)
      else (case pdSignedState res of None \<Rightarrow> Inl (Panic ''nil pointer dereference'')
      | Some c \<Rightarrow>
        rbind (rwrap ''failed to parse their updated channel state'' (LoadState (svCells S) (cnSigned (svE S)) c)) (\<lambda>theirState.
        rbind (rwrap ''failed to verify their state signature''
          (StateBodySigned_Verify (svE S) theirState (Some (OnchainKey (SideA ch))) (Some (OnchainKey (SideB ch))))) (\<lambda>_.
        rbind (rwrap ''failed to serialize our body state'' (ToCell (cnBody (svE S)) (sbBody state))) (\<lambda>ours.
        rbind (rwrap ''failed to serialize their body state'' (ToCell (cnBody (svE S)) (sbBody theirState))) (\<lambda>theirs.
        if CellHash (svCells S) ours \<noteq> CellHash (svCells S) theirs
        then Inl (Errorf ''their state body hash doesn't match ours'')
        else Inr (take_signature ch state theirState)))))))"

text \<open>
  \<open>peer\<close> is the transport: it delivers the signed state with the action and returns the decision.
  \<open>now\<close> is the clock read of \<open>UpdateChannel\<close>.
\<close>

definition proposeAction ::
  "('b, 's, 'c, 'm, 'd, 't, 'j) svc \<Rightarrow> (nat \<Rightarrow> nat \<Rightarrow> gtime) \<Rightarrow> (int \<Rightarrow> bool) \<Rightarrow> int \<Rightarrow>
   ('c \<Rightarrow> 'c transport_action \<Rightarrow> 'c ProposalDecision res) \<Rightarrow> string \<Rightarrow> 'c transport_action \<Rightarrow> ('c, 'j) action_details \<Rightarrow>
   ('d, 't, unit) dbm" where
  "proposeAction S clk cancelled now peer channelAddress action details =
     dbind (dwrap ''failed to get channel'' (GetChannel (svL S) (svChannelJ S) channelAddress)) (\<lambda>channel.
     dbind (dcatch (updateOurStateWithAction S clk cancelled channel action details) (\<lambda>err.
       dlift (Inl (if is_panic err then err else Wrapf ''failed to prepare actions for the next node'' ErrNotPossible)))) (\<lambda>(channel, onSuccess, state).
     dbind (dwrap ''failed to save pending state'' (SaveChannelPendingState (svL S) (svPendingJ S) (svE S) channel (sbBody state))) (\<lambda>_.
     dbind (dlift (rwrap ''failed to serialize signed state'' (ToCell (cnSigned (svE S)) state))) (\<lambda>toSend.
     dbind (dlift (MustParseAddr S (sdAddress (Their channel)))) (\<lambda>_.
     dbind (dlift (rwrap ''failed to propose actions'' (peer toSend action))) (\<lambda>res.
     dbind (dlift (accept_answer S channel state res)) (\<lambda>signed.
     dbind (dlift (rwrap ''failed to serialize signed state to save'' (ToCell (cnSigned (svE S)) signed))) (\<lambda>toSave.
     Transaction (svL S) (
       dbind (dwrap ''failed to update channel in db''
         (UpdateChannel (svL S) (svChannelJ S) (svOnChannel S) now (channel\<lparr>SignedState := Some toSave\<rparr>))) (\<lambda>channel.
       dbind (dwrap ''failed to delete pending state''
         (CleanupChannelPendingStates (svL S) (svE S) channel (sbBody state))) (\<lambda>_.
       dwrap ''failed to execute on success in tx'' (onSuccess channel))))))))))))"

end
