(* ===== verification/Process.thy ===== *)
theory Process
  imports Propose
begin

text \<open>
  The responding side: \<open>ProcessAction\<close> of \<^verbatim>\<open>tonpayments/process.go\<close>. The peer's signed proposal is
  checked, the action is replayed on our copy of the channel, and only when both sides' hashes come
  out as proposed the state is signed and stored, in one transaction with the follow-up work.
  Each kind of action is one definition; its result is the changed channel with the program to run
  in that transaction. The asynchronous discovery of an unknown channel is not modelled.
\<close>

section \<open>Small actions\<close>

definition process_increment ::
  "('b, 's, 'c, 'm, 'd, 't, 'j) svc \<Rightarrow> (nat \<Rightarrow> nat \<Rightarrow> gtime) \<Rightarrow> ('m, 'c) Channel \<Rightarrow> uint64 \<Rightarrow> bool \<Rightarrow> ('d, 't, 'm, 'c) on_success" where
  "process_increment S clk ch seqno wantResponse = (\<lambda>_. if wantResponse
     then dwrap ''failed to create increment-state task'' (create_task S (clk 0 0) (clk 0 1) ''increment-state'' (sdAddress (Our ch))
       (''increment-state-'' @ sdAddress (Our ch) @ ''-'' @ nat_text (unat seqno))
       (IncrementStatesTask (sdAddress (Our ch)) False) None None)
     else dret ())"

text \<open>The linked conditional of ours on their side, which its metadata must name.\<close>

definition linked_incoming ::
  "('b, 's, 'c, 'm, 'd, 't, 'j) svc \<Rightarrow> ('m, 'c) Channel \<Rightarrow> ('c, 'j) ConditionalMeta \<Rightarrow> ('d, 't, ('c \<times> 'c conditional) option) dbm" where
  "linked_incoming S ch meta = (case Outgoing meta of None \<Rightarrow> dret None
     | Some ou \<Rightarrow> if LinkedKey ou = [] then dret None
       else dbind (dwrap ''failed to load linked virtual channel meta'' (GetVirtualChannelMeta (svL S) (svMetaJ S) (LinkedKey ou))) (\<lambda>lm.
         case Incoming lm of None \<Rightarrow> dret None
         | Some inc \<Rightarrow> dbind (dlift (code_hash S (cmConditional inc))) (\<lambda>h.
             dwrap ''failed to find linked virtual channel'' (lookup_cond S (adConditionals (sdData (Their ch))) h))))"

definition process_remove ::
  "('b, 's, 'c, 'm, 'd, 't, 'j) svc \<Rightarrow> (nat \<Rightarrow> nat \<Rightarrow> gtime) \<Rightarrow> (int \<Rightarrow> bool) \<Rightarrow> ('m, 'c) Channel \<Rightarrow> bytes \<Rightarrow>
   ('d, 't, ('d, 't, 'm, 'c) update) dbm" where
  "process_remove S clk cancelled ch i =
     dbind (dwrap ''failed to find virtual channel in our prev state'' (lookup_cond S (adConditionals (sdData (Our ch))) i)) (\<lambda>found.
     case found of None \<Rightarrow> dret None
     | Some (idxOut, vchOut) \<Rightarrow>
     dbind (dwrap ''failed to load virtual channel meta'' (GetVirtualChannelMeta (svL S) (svMetaJ S) (Cond_GetKey vchOut))) (\<lambda>meta.
     dbind (removable S (clk 0 0) cancelled vchOut meta) (\<lambda>_.
     dbind (linked_incoming S ch meta) (\<lambda>linked.
     dbind (dlift (rwrap ''failed to remove condition'' (side_del_cond S idxOut (Our ch)))) (\<lambda>our.
     dbind (dlift (case linked of None \<Rightarrow> Inr (Their ch)
       | Some (idxIn, _) \<Rightarrow> rwrap ''failed to remove linked condition'' (side_del_cond S idxIn (Their ch)))) (\<lambda>their.
     dret (Some (ch\<lparr>Our := our, Their := their\<rparr>, \<lambda>_.
       dbind (dwrap ''failed to schedule derivative hedge remove webhook''
         (scheduleDerivativeHedgeClose S (clk 1) meta ConditionalStateRemoved)) (\<lambda>_.
       case Incoming meta of None \<Rightarrow> dret ()
       | Some inc \<Rightarrow> dwrap ''failed to create remove-cond task'' (create_task S (clk 2 0) (clk 2 1) ''remove-cond''
           (cmChannelAddress inc) (''remove-cond-'' @ b64_encode (cmKey meta)) (RemoveConditionalTask (cmKey meta)) None None))))))))))"

definition process_commit_virtual ::
  "('b, 's, 'c, 'm, 'd, 't, 'j) svc \<Rightarrow> ('m, 'c) Channel \<Rightarrow> bytes \<Rightarrow> 'c \<Rightarrow> ('d, 't, ('d, 't, 'm, 'c) update) dbm" where
  "process_commit_virtual S ch i updated =
     dbind (dwrap ''failed to find virtual channel in their old state'' (find_cond S (adConditionals (sdData (Their ch))) i)) (\<lambda>(idx, cond).
     dbind (dwrap ''failed to decode updated conditional'' (code_to_cond S updated)) (\<lambda>newCond.
     dbind (dlift (IDCell S (Cond_GetAction cond))) (\<lambda>aid.
     dbind (dlift (load_value S ''failed to load new action state'' (adActionStates (sdData (Their ch))) aid)) (\<lambda>old.
     dbind (dlift (commit_side S idx cond newCond old (Their ch))) (\<lambda>their.
     dret (Some (ch\<lparr>Their := their\<rparr>, \<lambda>_. dret ())))))))"

section \<open>Execution\<close>

text \<open>Our conditional settles to the peer, with the linked one on their side.\<close>

definition executed_meta ::
  "('b, 's, 'c, 'm, 'd, 't, 'j) svc \<Rightarrow> (nat \<Rightarrow> nat \<Rightarrow> gtime) \<Rightarrow> ('c, 'j) ConditionalMeta \<Rightarrow> ('d, 't, ('c, 'j) ConditionalMeta) dbm" where
  "executed_meta S clk meta = (if Incoming meta = None
     then dbind (dwrap ''failed to close virtual channel pair meta''
         (ClosePairMeta (svL S) (svMetaJ S) (clk 1 0) (cmKey meta) ConditionalStateClosed)) (\<lambda>_.
       dret (meta\<lparr>cmStatus := ConditionalStateClosed, cmUpdatedAt := clk 2 0\<rparr>))
     else let meta = meta\<lparr>cmUpdatedAt := clk 2 0\<rparr> in
       dbind (dwrap ''failed to update virtual channel meta'' (UpdateVirtualChannelMeta (svL S) (svMetaJ S) meta)) (\<lambda>_. dret meta))"

definition after_execute ::
  "('b, 's, 'c, 'm, 'd, 't, 'j) svc \<Rightarrow> (nat \<Rightarrow> nat \<Rightarrow> gtime) \<Rightarrow> ('c, 'j) ConditionalMeta \<Rightarrow> bytes \<Rightarrow> ('d, 't, 'm, 'c) on_success" where
  "after_execute S clk meta data ch =
     dbind (dwrap ''failed to create channel event'' (create_event S ch (cmUpdatedAt meta) ChannelHistoryActionTransferOut data)) (\<lambda>_.
     dbind (push_event S ''failed to push virtual channel open event'' VirtualChannelEventTypeOpen meta) (\<lambda>_.
     dbind (executed_meta S clk meta) (\<lambda>meta.
     dbind (dwrap ''failed to schedule derivative hedge close webhook''
       (scheduleDerivativeHedgeClose S (clk 3) meta ConditionalStateClosed)) (\<lambda>_.
     if Incoming meta = None then dret ()
     else dbind (dwrap ''failed to close next conditional'' (closeConditional S (clk 4) meta)) (\<lambda>meta.
       dwrap ''failed to save closing virtual channel meta'' (UpdateVirtualChannelMeta (svL S) (svMetaJ S) meta))))))"

definition process_execute ::
  "('b, 's, 'c, 'm, 'd, 't, 'j) svc \<Rightarrow> (nat \<Rightarrow> nat \<Rightarrow> gtime) \<Rightarrow> ('m, 'c) Channel \<Rightarrow> bytes \<Rightarrow> 'c \<Rightarrow>
   ('d, 't, ('d, 't, 'm, 'c) update) dbm" where
  "process_execute S clk ch i state =
     dbind (dwrap ''failed to find virtual channel in our prev state'' (lookup_cond S (adConditionals (sdData (Our ch))) i)) (\<lambda>found.
     case found of None \<Rightarrow> dret None
     | Some (idxOut, condOut) \<Rightarrow>
     dbind (dwrap ''failed to load virtual channel meta'' (GetVirtualChannelMeta (svL S) (svMetaJ S) (Cond_GetKey condOut))) (\<lambda>meta.
     dbind (dlift (rwrap ''failed to add resolve'' (AddKnownResolve (svC S) (clk 0 0) meta condOut state False))) (\<lambda>meta.
     dbind (linked_incoming S ch meta) (\<lambda>linked.
     dbind (dlift (execute_main S condOut state (Our ch))) (\<lambda>(old, new, our).
     dbind (dlift (settle_linked S linked state (Their ch))) (\<lambda>(_, their).
     dbind (dlift (rwrap ''failed to remove condition (out)'' (side_del_cond S idxOut our))) (\<lambda>our.
     dbind (dlift (IDCell S (Cond_GetAction condOut))) (\<lambda>aid.
     dbind (dlift (rwrap ''failed to set action state (out)'' (side_set_action S aid new our))) (\<lambda>our.
     dbind (dlift (rwrap ''failed to calc balance diff'' (states_diff S condOut (Some (old, new))))) (\<lambda>diff.
     dbind (dlift (formatDiff S diff)) (\<lambda>amounts.
     dbind (dlift (case svEventData S (TransferOutData amounts (FinalDestination meta)) of
         Inl err \<Rightarrow> if is_panic err then Inl err else Inr [] | Inr d \<Rightarrow> Inr d)) (\<lambda>data.
     dret (Some (ch\<lparr>Our := our, Their := their\<rparr>, after_execute S clk meta data))))))))))))))"

section \<open>Funds\<close>

definition process_swap ::
  "('b, 's, 'c, 'm, 'd, 't, 'j) svc \<Rightarrow> (nat \<Rightarrow> nat \<Rightarrow> gtime) \<Rightarrow> ('m, 'c) Channel \<Rightarrow> SwapAction \<Rightarrow>
   ('d, 't, ('d, 't, 'm, 'c) update) dbm" where
  "process_swap S clk ch act = (case svOnSwap S of None \<Rightarrow> dlift (Inl (Errorf ''swaps are not enabled on this node''))
     | Some onSwap \<Rightarrow>
     dbind (dlift (swap_actions S ch act)) (\<lambda>(fromCC, toCC, fromAmt, toAmt, fromAct, toAct).
     dbind (dlift (swap_sides S fromAct fromAmt toAct toAmt ch)) (\<lambda>(saveTheir, saveOur, ch).
     dbind (check_funds S (clk 0) [fromAct, toAct] ch True fromCC) (\<lambda>_.
     dbind (check_funds S (clk 1) [fromAct, toAct] ch False toCC) (\<lambda>_.
     dbind (dlift (rwrap ''swap is not allowed'' (onSwap ch fromCC toCC fromAmt toAmt))) (\<lambda>_.
     dbind (dwhen saveOur (dwrap ''failed to save action'' (save_action S toAct))) (\<lambda>_.
     dbind (dwhen saveTheir (dwrap ''failed to save action'' (save_action S fromAct))) (\<lambda>_.
     dret (Some (ch, \<lambda>_. dret ()))))))))))"

text \<open>The commit message of the peer must be the one we compute, and is completed with their signature.\<close>

definition process_commit ::
  "('b, 's, 'c, 'm, 'd, 't, 'j) svc \<Rightarrow> (nat \<Rightarrow> nat \<Rightarrow> gtime) \<Rightarrow> ('m, 'c) Channel \<Rightarrow> uint64 \<Rightarrow> CooperativeCommitAction \<Rightarrow>
   ('d, 't, ('d, 't, 'm, 'c) update) dbm" where
  "process_commit S clk ch seqno act =
     dbind (dlift (no_pending ch)) (\<lambda>_.
     dbind (dwrap ''failed to prepare execute action channel request''
       (getCommitRequest S clk ch (Some (caActionID act)) (WithFee act) (if WithFee act then Some False else None)))
       (\<lambda>(req, ourPending, theirPending, _).
     dbind (dlift (rwrap ''failed to serialize pending commit message'' (ToCell (svCommitSigned S) (cmSigned req)))) (\<lambda>toSign.
     if \<not> cnVerify (svE S) (OnchainKey (Their ch)) (CellHash (svCells S) toSign) (MsgSignature act)
     then dlift (Inl (Errorf ''expected msg is not equal to actual''))
     else
     let req = (if WeLeft ch then req\<lparr>cmSignatureB := MsgSignature act\<rparr> else req\<lparr>cmSignatureA := MsgSignature act\<rparr>) in
     dbind (dlift (apply_commit S (caActionID act) req toSign ourPending theirPending ch)) (\<lambda>ch.
     dbind (dlift (rwrap ''failed to serialize pending commit message'' (ToCell (svCommitMsg S) req))) (\<lambda>msg.
     let our = sdAddress (Our ch) in
     dret (Some (ch, \<lambda>_.
       dbind (dwrap ''failed to create increment-state task'' (create_task S (clk 2 0) (clk 2 1) ''increment-state'' our
         (''increment-state-'' @ our @ ''-'' @ nat_text (unat seqno)) (IncrementStatesTask our False) None None)) (\<lambda>_.
       dwrap ''failed to create increment-state task'' (create_task S (clk 3 0) (clk 3 1) ''commit-execute'' our
         (''commit-execute-'' @ our @ ''-'' @ hex_encode (CellHash (svCells S) toSign)) (CommitExecuteTask our msg) None None)))))))))"

text \<open>The peer rents capacity from us: bounded duration and amount, and a fee it can pay.\<close>

definition rent_checks :: "gtime \<Rightarrow> CoinConfig \<Rightarrow> gtime \<Rightarrow> int \<Rightarrow> unit res" where
  "rent_checks now cc till diffAmount =
     (if 366 * 24 * 3600 * 1000000000 < time_sub till now then Inl (Errorf ''duration too long'')
      else if diffAmount \<le> 0 then Inl (Errorf ''resulting topup amount must be positive'')
      else if MaxCapacityToRentPerTx (VirtualTunnelConfig cc) < diffAmount then Inl (Errorf ''capacity to rent is too big'')
      else Inr ())"

definition process_rent ::
  "('b, 's, 'c, 'm, 'd, 't, 'j) svc \<Rightarrow> (nat \<Rightarrow> nat \<Rightarrow> gtime) \<Rightarrow> ('m, 'c) Channel \<Rightarrow> RentCapacityAction \<Rightarrow>
   ('d, 't, ('d, 't, 'm, 'c) update) dbm" where
  "process_rent S clk ch act =
     dbind (dlift (rwrap ''failed to resolve balance type'' (ResolveBalanceType S (hex_encode (rcBalanceID act))))) (\<lambda>cc.
     dbind (dlift (rwrap ''failed to create send action''
       (NewSendActionFromBalanceID (svParseAddr S) cc (sdAddress (SideA ch)) (sdAddress (SideB ch))))) (\<lambda>a.
     dbind (dlift (load_or_empty S ''failed to load action state'' a (Their ch))) (\<lambda>(aState, saveAction).
     let amount = SetBytes (rcAmount act); till = unix (sint (rcTill act));
         (used, amountBefore) = (case LockedDeposits (Our ch) (BalanceID cc) of
           Some ld \<Rightarrow> if clk 0 0 < ldTill ld then (ldUsed ld, ldAmount ld) else (0, 0)
         | None \<Rightarrow> (0, 0)) in
     dbind (dlift (rent_checks (clk 1 0) cc till (amount - amountBefore))) (\<lambda>_.
     dbind (dlift (CalcDepositFee (clk 2 0) ch cc amount till False)) (\<lambda>totalFee.
     if totalFee \<le> 0 then dlift (Inl (Errorf ''payment not needed, capacity is already enough'')) else
     dbind (dwrap ''failed to calc their balance'' (calc_balance S (clk 3) ch True)) (\<lambda>theirBalances.
     case theirBalances (BalanceID cc) of None \<Rightarrow> dlift (Inl (Errorf ''their balance have no fee coin''))
     | Some b \<Rightarrow>
     if Available (Some b) + ConditionalPending b < totalFee
     then dlift (Inl (Errorf ''not enough locked+balance for fee to rent''))
     else
     dbind (dlift (pay_fee S a totalFee aState (Their ch))) (\<lambda>their.
     let our = (Our ch)\<lparr>LockedDeposits := (LockedDeposits (Our ch))(BalanceID cc \<mapsto>
           \<lparr>ldAmount = amount, ldTill = till, ldUsed = used\<rparr>)\<rparr> in
     dbind (dwhen saveAction (dwrap ''failed to save action'' (save_action S a))) (\<lambda>_.
     dret (Some (ch\<lparr>Our := our, Their := their\<rparr>, \<lambda>ch.
       dbind (dlift (rwrap ''failed to marshal event data''
         (svEventData S (RentCapData (BalanceID cc) (int_text amount) (int_text totalFee) (unix_of till))))) (\<lambda>data.
       dwrap ''failed to create channel our cap rent event''
         (create_event S ch (clk 4 0) ChannelHistoryActionOurCapacityRented data))))))))))))"

section \<open>Adding a conditional\<close>

text \<open>The action of a new conditional is not stored yet: the resolver then knows it on top of the service.\<close>

definition add_resolver :: "('b, 's, 'c, 'm, 'd, 't, 'j) svc \<Rightarrow> action option \<Rightarrow> ('d, 't) executor \<Rightarrow> FullResolver" where
  "add_resolver S newAction e = (case newAction of None \<Rightarrow> svcResolver S e | Some a \<Rightarrow> tmpFullResolver S [a] e)"

definition add_new_action ::
  "('b, 's, 'c, 'm, 'd, 't, 'j) svc \<Rightarrow> ('m, 'c) Channel \<Rightarrow> 'c option \<Rightarrow> (action option \<times> ('m, 'c) Channel) res" where
  "add_new_action S ch code = (case code of None \<Rightarrow> Inr (None, ch)
     | Some c \<Rightarrow> (case addActionToChannel S ch c of
         Inr (a, ch') \<Rightarrow> Inr (Some a, ch')
       | Inl err \<Rightarrow> if errors_is err ErrActionAlreadyExists then Inr (None, ch)
           else Inl (wrapf ''failed to add action to channel'' err)))"

definition safe_deadline :: "('b, 's, 'c, 'm, 'd, 't, 'j) svc \<Rightarrow> ('m, 'c) Channel \<Rightarrow> 'c conditional \<Rightarrow> gtime" where
  "safe_deadline S ch cond = Cond_GetDeadline cond +
     i64 (- (i64 (SafeOnchainClosePeriod ch + MinSafeVirtualChannelTimeoutSec S)) * 1000000000)"

definition removeAfterTimeout ::
  "('b, 's, 'c, 'm, 'd, 't, 'j) svc \<Rightarrow> (nat \<Rightarrow> gtime) \<Rightarrow> ('m, 'c) Channel \<Rightarrow> 'c conditional \<Rightarrow> ('d, 't, unit) dbm" where
  "removeAfterTimeout S clk ch cond = dwrap ''failed to create remove-cond task''
     (create_task S (clk 0) (clk 1) ''remove-cond'' (sdAddress (Our ch))
       (''remove-cond-'' @ b64_encode (Cond_GetKey cond) @ ''-timeout'') (RemoveConditionalTask (Cond_GetKey cond))
       (Some (unix (i64 (unix_of (Cond_GetDeadline cond) + 1)))) None)"

definition meta_side ::
  "('b, 's, 'c, 'm, 'd, 't, 'j) svc \<Rightarrow> ('m, 'c) Channel \<Rightarrow> 'c conditional \<Rightarrow> 'c \<Rightarrow> bytes \<Rightarrow> bytes \<Rightarrow> 'c ConditionalMetaSide" where
  "meta_side S ch cond code sender linked = \<lparr>cmChannelAddress = sdAddress (Our ch), cmConditional = Some code,
     UncooperativeDeadline = Cond_GetDeadline cond, SafeDeadline = safe_deadline S ch cond, SenderKey = sender, LinkedKey = linked\<rparr>"

definition new_meta ::
  "bytes \<Rightarrow> 'c ConditionalMetaSide option \<Rightarrow> 'c ConditionalMetaSide option \<Rightarrow> 'j option \<Rightarrow> gtime \<Rightarrow> gtime \<Rightarrow> ('c, 'j) ConditionalMeta" where
  "new_meta key inc ou special created updated = \<lparr>cmKey = key, cmStatus = ConditionalStateActive, Incoming = inc, Outgoing = ou,
     LastKnownResolve = None, FinalDestination = [], SpecialDetails = special, cmCreatedAt = created, cmUpdatedAt = updated\<rparr>"

text \<open>A key may be used only once.\<close>

definition unused_key :: "('b, 's, 'c, 'm, 'd, 't, 'j) svc \<Rightarrow> bytes \<Rightarrow> ('d, 't, unit) dbm" where
  "unused_key S key = dbind (dwrap ''failed to load virtual channel meta'' (find_meta S key)) (\<lambda>m.
     dlift (if m \<noteq> None then Inl (Errorf ''this conditional key was already used before'') else Inr ()))"

text \<open>A derivative: its linked conditional goes to our side, and both get their metadata.\<close>

definition add_derivative ::
  "('b, 's, 'c, 'm, 'd, 't, 'j) svc \<Rightarrow> (nat \<Rightarrow> nat \<Rightarrow> gtime) \<Rightarrow> ('m, 'c) Channel \<Rightarrow> 'c AddConditionalAction \<Rightarrow> 'c AddConditionalInstruction \<Rightarrow>
   'c ConditionalResolvable \<Rightarrow> 'c \<Rightarrow> ('d, 't, ('d, 't, 'm, 'c) update) dbm" where
  "add_derivative S clk ch data instr res srz =
     (if \<not> crIsInitiator res then dlift (Inl (Errorf ''resolvable condition must be initiated by proposer side''))
      else
      dbind (dlift (rwrap ''failed to build linked derivative condition'' (buildLinkedDerivativeConditional (svT S) res))) (\<lambda>linked.
      dbind (unused_key S (crKey linked)) (\<lambda>_.
      dbind (dlift (rwrap ''failed to add linked derivative condition'' (ensureConditionalOnSide S (Our ch) (RCond linked)))) (\<lambda>(_, our).
      dbind (dlift (rwrap ''failed to init linked derivative action state'' (ensureActionStateOnSide S our (crAction linked)))) (\<lambda>(added, our).
      dbind (dwhen added (dwrap ''failed to save linked derivative action'' (save_action S (crAction linked)))) (\<lambda>_.
      dbind (dlift (if derivativesHedgingEnabled S
        then rwrap ''derivative hedge webhook rejected order'' (requestDerivativeHedgeOpen S (clk 2 0) (ch\<lparr>Our := our\<rparr>) res linked)
        else Inr ())) (\<lambda>_.
      dret (Some (ch\<lparr>Our := our\<rparr>, \<lambda>ch.
        dbind (dlift (buildDerivativeMetaAny S (crDetails res) (aiDetails instr))) (\<lambda>special.
        let meta = new_meta (crKey res) (Some (meta_side S ch (RCond res) srz (InstructionKey data) (crKey linked))) None
          (Some special) (clk 3 0) (clk 3 1) in
        dbind (dwrap ''failed to create virtual channel meta'' (CreateVirtualChannelMeta (svL S) (svMetaJ S) meta)) (\<lambda>_.
        dbind (dlift (RS_Serialize (ceRS (svC S)) linked)) (\<lambda>lsrz.
        dbind (dlift (buildDerivativeMetaAny S (crDetails linked) (aiDetails instr))) (\<lambda>lspecial.
        dbind (dwrap ''failed to create linked virtual channel meta'' (CreateVirtualChannelMeta (svL S) (svMetaJ S)
          (new_meta (crKey linked) None (Some (meta_side S ch (RCond res) lsrz (InstructionKey data) (crKey res)))
            (Some lspecial) (clk 3 2) (clk 3 3)))) (\<lambda>_.
        push_event S ''failed to push virtual channel open event'' VirtualChannelEventTypeOpen meta))))))))))))))"

text \<open>
  The channel to tunnel through: the first with enough balance, else the one with the lowest score,
  which is the most credited one.
\<close>

fun pick_target ::
  "('b, 's, 'c, 'm, 'd, 't, 'j) svc \<Rightarrow> (nat \<Rightarrow> nat \<Rightarrow> gtime) \<Rightarrow> 'c conditional \<Rightarrow> 'c option \<Rightarrow> ('m, 'c) Channel list \<Rightarrow> nat \<Rightarrow>
   (('m, 'c) Channel \<times> int) option \<Rightarrow> ('d, 't, ('m, 'c) Channel option) dbm" where
  "pick_target S clk cond details [] n best = dret (map_option fst best)"
| "pick_target S clk cond details (ch # chs) n best =
     (if chStatus ch \<noteq> ChannelStateActive then pick_target S clk cond details chs (n + 1) best
      else dbind (dwrap ''failed to calc our channel balance'' (calc_balance S (clk n) ch False)) (\<lambda>bals.
        dbind (dlift (rwrap ''failed to check target'' (Cond_ScoreTunnelTarget (svC S) cond details bals))) (\<lambda>score.
        if 0 \<le> score then dret (Some ch)
        else pick_target S clk cond details chs (n + 1)
          (if (case best of None \<Rightarrow> True | Some (_, lowest) \<Rightarrow> score < lowest) then Some (ch, score) else best))))"

text \<open>We are a hop: the next conditional is prepared and sent on by a task, once the state is stored.\<close>

definition add_tunnel ::
  "('b, 's, 'c, 'm, 'd, 't, 'j) svc \<Rightarrow> (nat \<Rightarrow> nat \<Rightarrow> gtime) \<Rightarrow> ('m, 'c) Channel \<Rightarrow> 'c AddConditionalAction \<Rightarrow> 'c AddConditionalInstruction \<Rightarrow>
   'c conditional \<Rightarrow> 'c \<Rightarrow> ('d, 't, ('d, 't, 'm, 'c) update) dbm" where
  "add_tunnel S clk ch data instr cond srz =
     (if i64 (unix_of (Cond_GetDeadline cond) - i64 (SafeOnchainClosePeriod ch + MinSafeVirtualChannelTimeoutSec S)) < NextDeadline instr
      then dlift (Inl (Errorf ''next deadline too late (not enough safety gap)''))
      else
      dbind (dwrap ''failed to get target channel'' (GetChannels (svL S) (svChannelJ S) (Some (NextTarget instr)) ChannelStateAny)) (\<lambda>chs.
      if chs = [] then dlift (Inl (Errorf ''destination channel is not belongs to this node''))
      else
      dbind (pick_target S (\<lambda>n. clk (n + 10)) cond (aiDetails instr) chs 0 None) (\<lambda>picked.
      case picked of None \<Rightarrow> dlift (Inl (Errorf ''no active channel to tunnel requested capacity''))
      | Some target \<Rightarrow>
      dbind (dlift (MustParseAddr S (sdAddress (Our target)))) (\<lambda>ourAddr.
      dbind (dlift (MustParseAddr S (sdAddress (Their target)))) (\<lambda>theirAddr.
      let (a, b) = (if WeLeft target then (ourAddr, theirAddr) else (theirAddr, ourAddr)) in
      dbind (dlift (rwrap ''failed to prepare next action'' (Action_PrepareNext (Cond_GetAction cond) (Some a) (Some b)))) (\<lambda>nextAction.
      let nextDeadline = unix (NextDeadline instr) in
      dbind (dlift (case aiDetails instr of None \<Rightarrow> Inl (Panic ''nil pointer dereference'')
        | Some dc \<Rightarrow> rwrap ''failed to prepare next conditional'' (Cond_PrepareNext (svC S) cond dc nextAction nextDeadline))) (\<lambda>nextCond.
      dbind (dlift (IDCell S nextAction)) (\<lambda>aid.
      dbind (dlift (find_value S ''failed to load next action state'' (adActionStates (sdData (Our target))) aid)) (\<lambda>st.
      dbind (dlift (if st \<noteq> None then Inr (NewActionCode data)
        else rbind (Action_Serialize (svA S) nextAction) (\<lambda>c. Inr (Some c)))) (\<lambda>code.
      dbind (dlift (Cond_Serialize (svC S) nextCond)) (\<lambda>nsrz.
      let senderKey = InstructionKey data;
          data = data\<lparr>NewActionCode := code, InstructionKey := NextInstructionKey instr, acConditional := nsrz\<rparr> in
      dret (Some (ch, \<lambda>ch.
        dbind (dwrap ''failed to create open-virtual task'' (create_task S (clk 4 0) (clk 4 1) ''create-send-conditional''
          (sdAddress (Our target)) (''create-send-conditional-'' @ b64_encode (Cond_GetKey cond))
          (AddConditionalTask senderKey [] (sdAddress (Our ch)) (CellHash (svCells S) srz) (sdAddress (Our target)) (NextDeadline instr) data)
          None (Some nextDeadline))) (\<lambda>_.
        removeAfterTimeout S (clk 5) ch cond))))))))))))))"

text \<open>We are the destination: the metadata is created, and a final state is closed at once.\<close>

definition add_final ::
  "('b, 's, 'c, 'm, 'd, 't, 'j) svc \<Rightarrow> (nat \<Rightarrow> nat \<Rightarrow> gtime) \<Rightarrow> 'c AddConditionalAction \<Rightarrow> 'c AddConditionalInstruction \<Rightarrow>
   'c conditional \<Rightarrow> 'c \<Rightarrow> ('d, 't, 'm, 'c) on_success" where
  "add_final S clk data instr cond srz ch =
     (let meta = new_meta (Cond_GetKey cond) (Some (meta_side S ch cond srz (InstructionKey data) [])) None None (clk 4 0) (clk 4 1) in
      dbind (case FinalState instr of
          Some fs \<Rightarrow>
            dbind (dlift (rwrap ''failed to add channel condition resolve'' (AddKnownResolve (svC S) (clk 4 2) meta cond fs False))) (\<lambda>meta.
            dbind (dwrap ''failed to create close-next-virtual task'' (create_task S (clk 5 0) (clk 5 1) ''close-next-virtual''
              (sdAddress (Our ch)) (''close-next-'' @ b64_encode (Cond_GetKey cond)) (CloseNextVirtualTask (Cond_GetKey cond))
              None (Some (Cond_GetDeadline cond)))) (\<lambda>_. dret meta))
        | None \<Rightarrow> dbind (removeAfterTimeout S (clk 5) ch cond) (\<lambda>_. dret meta)) (\<lambda>meta.
      dbind (dwrap ''failed to update virtual channel meta'' (CreateVirtualChannelMeta (svL S) (svMetaJ S) meta)) (\<lambda>_.
      if FinalState instr = None
      then push_event S ''failed to push virtual channel close event'' VirtualChannelEventTypeOpen meta else dret ())))"

text \<open>What a new conditional must satisfy, beside its instruction.\<close>

definition acceptable_cond ::
  "('b, 's, 'c, 'm, 'd, 't, 'j) svc \<Rightarrow> gtime \<Rightarrow> 'c conditional \<Rightarrow> unit res" where
  "acceptable_cond S now cond =
     rbind (rwrap ''failed to validate condition'' (Cond_ValidateOnAdd now cond)) (\<lambda>_.
     rbind (case cond of RCond _ \<Rightarrow> if \<not> AcceptingDerivatives S then Inl (Errorf ''derivatives are not accepted on this node'') else Inr ()
       | VCond _ \<Rightarrow> Inr ()) (\<lambda>_.
     validateIncomingAction S (Cond_GetAction cond)))"

definition process_add ::
  "('b, 's, 'c, 'm, 'd, 't, 'j) svc \<Rightarrow> (nat \<Rightarrow> nat \<Rightarrow> gtime) \<Rightarrow> ('m, 'c) Channel \<Rightarrow> 'c AddConditionalAction \<Rightarrow>
   ('d, 't, ('d, 't, 'm, 'c) update) dbm" where
  "process_add S clk ch data =
     dbind (dlift (add_new_action S ch (NewActionCode data))) (\<lambda>(newAction, ch).
     let resolver = add_resolver S newAction in
     dbind (dask (\<lambda>e. rwrap ''failed to decode updated conditional''
       (CodeToConditional (svC S) (ResolveAction (resolver e)) (acConditional data)))) (\<lambda>cond.
     dbind (dlift (Cond_Serialize (svC S) cond)) (\<lambda>srz.
     let hash = CellHash (svCells S) srz in
     if CellHash (svCells S) (acConditional data) \<noteq> hash then dlift (Inl (Errorf ''incorrect conditional''))
     else if safe_margin (clk 0 0) ch cond < MinSafeVirtualChannelTimeoutSec S
     then dlift (Inl (Errorf ''safe conditional deadline is less than acceptable''))
     else
     dbind (dtry (dask (\<lambda>e. FindConditional (svC S) (svD S) (adConditionals (sdData (Their ch))) hash (ResolveAction (resolver e))))) (\<lambda>found.
     case found of
       Inr _ \<Rightarrow> dret (Some (ch, \<lambda>_. dret ()))
     | Inl err \<Rightarrow>
     if \<not> errors_is err PayErrNotFound then dlift (Inl (wrapf ''failed to lookup conditional in their prev state'' err))
     else
     dbind (dlift (acceptable_cond S (clk 1 0) cond)) (\<lambda>_.
     dbind (unused_key S (Cond_GetKey cond)) (\<lambda>_.
     dbind (dlift (id_cell (svCells S) hash)) (\<lambda>i.
     dbind (dlift (rwrap ''failed to settle condition with index'' (side_set_cond S i srz (Their ch)))) (\<lambda>their.
     let ch = ch\<lparr>Their := their\<rparr> in
     dbind (dask (\<lambda>e. rwrap ''failed to calc other side balance'' (CalcBalance (svE S) (resolver e) (clk 9) ch True))) (\<lambda>theirBalance.
     dbind (dask (\<lambda>e. rwrap ''failed to decrypt instruction''
       (DecryptOurInstruction (svC S) (svT S) data (svKey S) (InstructionKey data) (ResolveAction (resolver e))))) (\<lambda>instr.
     if ExpectedDeadline instr \<noteq> unix_of (Cond_GetDeadline cond) then dlift (Inl (Errorf ''incorrect deadline''))
     else
     let isFinalDest = (NextTarget instr = svPub S) in
     dbind (dlift (rwrap ''failed to check instruction''
       (Cond_CheckInstruction (svC S) cond (aiDetails instr) isFinalDest theirBalance (FinalState instr)))) (\<lambda>_.
     dbind (dwhen (newAction \<noteq> None) (dwrap ''failed to save action'' (save_action S (Cond_GetAction cond)))) (\<lambda>_.
     case cond of
       RCond res \<Rightarrow> add_derivative S clk ch data instr res srz
     | VCond _ \<Rightarrow>
       if \<not> isFinalDest then add_tunnel S clk ch data instr cond srz
       else dret (Some (ch, add_final S clk data instr cond srz))))))))))))))"

section \<open>Processing a proposal\<close>

definition process_update ::
  "('b, 's, 'c, 'm, 'd, 't, 'j) svc \<Rightarrow> (nat \<Rightarrow> nat \<Rightarrow> gtime) \<Rightarrow> (int \<Rightarrow> bool) \<Rightarrow> ('m, 'c) Channel \<Rightarrow> uint64 \<Rightarrow> 'c transport_action \<Rightarrow>
   ('d, 't, ('d, 't, 'm, 'c) update) dbm" where
  "process_update S clk cancelled ch seqno action = (case action of
     RemoveAction _ \<Rightarrow> dlift (Inl (Errorf ''not implemented''))
   | IncrementStates want \<Rightarrow> dret (Some (ch, process_increment S clk ch seqno want))
   | RemoveConditional i \<Rightarrow> process_remove S clk cancelled ch i
   | ExecuteConditional i state \<Rightarrow> process_execute S clk ch i state
   | CommitVirtual i updated \<Rightarrow> process_commit_virtual S ch i updated
   | AddConditional data \<Rightarrow> process_add S clk ch data
   | Swap act \<Rightarrow> process_swap S clk ch act
   | CooperativeCommit act \<Rightarrow> process_commit S clk ch seqno act
   | RentCapacity act \<Rightarrow> process_rent S clk ch act
   | _ \<Rightarrow> dlift (Inl (Errorf ''unexpected action type'')))"

text \<open>The resulting hashes must be the proposed ones.\<close>

definition check_hashes :: "('b, 's, 'c, 'm, 'd, 't, 'j) svc \<Rightarrow> ('m, 'c) Channel \<Rightarrow> StateBody \<Rightarrow> unit res" where
  "check_hashes S ch body =
     (let our = side_hashes S (Our ch); their = side_hashes S (Their ch);
          (ourP, theirP) = (if WeLeft ch then (sbA body, sbB body) else (sbB body, sbA body)) in
      if ConditionalsHash their \<noteq> ConditionalsHash theirP then Inl (Errorf ''incorrect their resulting conditionals hash'')
      else if ActionStatesHash their \<noteq> ActionStatesHash theirP then Inl (Errorf ''incorrect their resulting actions hash'')
      else if ConditionalsHash our \<noteq> ConditionalsHash ourP then Inl (Errorf ''incorrect our resulting conditionals hash'')
      else if ActionStatesHash our \<noteq> ActionStatesHash ourP then Inl (Errorf ''incorrect our resulting actions hash'')
      else Inr ())"

text \<open>Our signature over the proposed body completes the state.\<close>

definition countersign ::
  "('b, 's, 'c, 'm, 'd, 't, 'j) svc \<Rightarrow> ('m, 'c) Channel \<Rightarrow> StateBodySigned \<Rightarrow> StateBodySigned res" where
  "countersign S ch st = rbind (rwrap ''failed to serialize our state for signing'' (sign_body S (sbBody st))) (\<lambda>sig.
     Inr (if WeLeft ch then st\<lparr>SignatureA := sig\<rparr> else st\<lparr>SignatureB := sig\<rparr>))"

text \<open>
  A proposal with the stored sequence number is a redelivery: it is answered with the stored state
  when that state verifies with the signature of the proposal.
\<close>

definition redelivery ::
  "('b, 's, 'c, 'm, 'd, 't, 'j) svc \<Rightarrow> ('m, 'c) Channel \<Rightarrow> StateBodySigned \<Rightarrow> StateBodySigned \<Rightarrow> StateBodySigned res" where
  "redelivery S ch current proposed = (let st = take_signature ch current proposed in
     rbind (rwrap ''inconsistent state, seqno with different content was already committed''
       (StateBodySigned_Verify (svE S) st (Some (OnchainKey (SideA ch))) (Some (OnchainKey (SideB ch))))) (\<lambda>_. Inr st))"

definition check_proposal ::
  "('b, 's, 'c, 'm, 'd, 't, 'j) svc \<Rightarrow> bytes \<Rightarrow> ('m, 'c) Channel \<Rightarrow> StateBodySigned \<Rightarrow> StateBodySigned res" where
  "check_proposal S key ch proposed =
     (if chStatus ch = ChannelStateInactive then Inl (Errorf ''channel is not active'')
      else if \<not> AcceptingActions ch then Inl (Errorf ''channel is currently not accepting new actions'')
      else if key \<noteq> OnchainKey (Their ch) then Inl (Errorf ''incorrect channel key'')
      else rbind (LoadSignedState (svE S) ch) (\<lambda>current.
        let theirKey = Some (OnchainKey (Their ch)); (keyA, keyB) = (if WeLeft ch then (None, theirKey) else (theirKey, None)) in
        rbind (rwrap ''failed to verify passed state'' (StateBodySigned_Verify (svE S) proposed keyA keyB)) (\<lambda>_. Inr current)))"

definition process_acquired ::
  "('b, 's, 'c, 'm, 'd, 't, 'j) svc \<Rightarrow> (nat \<Rightarrow> nat \<Rightarrow> gtime) \<Rightarrow> (int \<Rightarrow> bool) \<Rightarrow> int \<Rightarrow> bytes \<Rightarrow> StateBodySigned \<Rightarrow>
   'c transport_action \<Rightarrow> bool \<Rightarrow> ('m, 'c) Channel \<Rightarrow> ('d, 't, StateBodySigned) dbm" where
  "process_acquired S clk cancelled now key proposed action fromWeb ch =
     dbind (dlift (check_proposal S key ch proposed)) (\<lambda>current.
     if sbSeqno (sbBody proposed) = sbSeqno (sbBody current) then dlift (redelivery S ch current proposed)
     else if sbSeqno (sbBody proposed) \<noteq> sbSeqno (sbBody current) + 1 then dlift (Inl (Errorf ''incorrect state seqno''))
     else
     dbind (process_update S clk cancelled ch (sbSeqno (sbBody proposed)) action) (\<lambda>upd.
     let (ch, toExecute) = (case upd of None \<Rightarrow> (ch, \<lambda>_. dret ()) | Some x \<Rightarrow> x) in
     dbind (dlift (check_hashes S ch (sbBody proposed))) (\<lambda>_.
     dbind (dlift (countersign S ch proposed)) (\<lambda>signed.
     dbind (dlift (rwrap ''failed to serialize new state'' (ToCell (cnSigned (svE S)) signed))) (\<lambda>newState.
     let ch = ch\<lparr>SignedState := Some newState, WebPeer := fromWeb\<rparr> in
     dbind (Transaction (svL S) (
       dbind (toExecute ch) (\<lambda>_.
       dwrap ''failed to update channel in db'' (UpdateChannel (svL S) (svChannelJ S) (svOnChannel S) now ch)))) (\<lambda>_.
     dret signed))))))"

text \<open>
  \<open>ProcessAction\<close>. \<open>lock\<close> is the outcome of \<open>AcquireChannel\<close>'s lock on the stored channel, a matter of
  the lock table.
\<close>

definition ProcessAction ::
  "('b, 's, 'c, 'm, 'd, 't, 'j) svc \<Rightarrow> (nat \<Rightarrow> nat \<Rightarrow> gtime) \<Rightarrow> (int \<Rightarrow> bool) \<Rightarrow> int \<Rightarrow> (('m, 'c) Channel \<Rightarrow> unit res) \<Rightarrow> bytes \<Rightarrow>
   string \<Rightarrow> StateBodySigned \<Rightarrow> 'c transport_action \<Rightarrow> bool \<Rightarrow> ('d, 't, StateBodySigned) dbm" where
  "ProcessAction S clk cancelled now lock key addr proposed action fromWeb =
     dbind (dcatch (dbind (GetChannel (svL S) (svChannelJ S) addr) (\<lambda>ch. dlift (rbind (lock ch) (\<lambda>_. Inr ch))))
       (\<lambda>err. dlift (Inl (if errors_is err ErrChannelBusy then ErrChannelIsBusy else wrapf ''failed to acquire channel lock'' err))))
     (process_acquired S clk cancelled now key proposed action fromWeb)"

text \<open>
  The \<open>ProposeAction\<close> query of the transport: an authenticated peer's proposal is parsed, processed, and
  answered with the countersigned state or with the text of the error. \<open>process\<close> is the service's
  \<open>ProcessAction\<close>, \<open>err_text\<close> renders an error.
\<close>

definition handle_ProposeAction ::
  "('b, 's, 'c, 'm) chan_env \<Rightarrow> (gerror \<Rightarrow> string) \<Rightarrow> (bytes \<Rightarrow> StateBodySigned \<Rightarrow> ('d, 't, StateBodySigned) dbm) \<Rightarrow>
   bytes option \<Rightarrow> 'c \<Rightarrow> ('d, 't, 'c ProposalDecision) dbm" where
  "handle_ProposeAction E err_text process authKey cell = (case authKey of
     None \<Rightarrow> dlift (Inl (Errorf ''not authorized''))
   | Some key \<Rightarrow> dbind (dlift (case LoadState (cnL E) (cnSigned E) cell of
       Inl _ \<Rightarrow> Inl (Errorf ''failed to parse channel state'') | Inr state \<Rightarrow> Inr state)) (\<lambda>state.
     dbind (dtry (process key state)) (\<lambda>updateProof. case updateProof of
       Inl err \<Rightarrow> dret \<lparr>Agreed = False, Reason = err_text err, pdSignedState = None\<rparr>
     | Inr st \<Rightarrow> dbind (dlift (rwrap ''failed to serialize state cell'' (ToCell (cnSigned E) st))) (\<lambda>updCell.
         dret \<lparr>Agreed = True, Reason = [], pdSignedState = Some updCell\<rparr>))))"

end
