(* ===== verification/Programs.thy ===== *)
theory Programs
  imports Service
begin

text \<open>
  Reasoning about database programs. Success of a program is inverted step by step (\<open>run_inv\<close>), and
  \<open>touches A f\<close> says that \<open>f\<close> stays on its executor and writes only keys in \<open>A\<close>; it is closed under
  every combinator, so it follows for a whole operation from its single writes.
\<close>

named_theorems run_inv
named_theorems touch

section \<open>Success\<close>

lemma rbind_Inr_iff [run_inv]: "rbind m f = Inr y \<longleftrightarrow> (\<exists>x. m = Inr x \<and> f x = Inr y)"
  by (cases m) auto

lemma rwrap_Inr_iff [run_inv]: "rwrap msg r = Inr y \<longleftrightarrow> r = Inr y"
  by (cases r) auto

lemma dbind_Inr [run_inv]: "dbind m f e = (Inr y, e') \<longleftrightarrow> (\<exists>x e1. m e = (Inr x, e1) \<and> f x e1 = (Inr y, e'))"
  by (auto simp: dbind_def split: prod.splits sum.splits)

lemma dlift_Inr [run_inv]: "dlift r e = (Inr y, e') \<longleftrightarrow> r = Inr y \<and> e' = e"
  by (auto simp: dlift_def)

lemma dret_Inr [run_inv]: "dret x e = (Inr y, e') \<longleftrightarrow> x = y \<and> e' = e"
  by (auto simp: dret_def)

lemma dask_Inr [run_inv]: "dask f e = (Inr y, e') \<longleftrightarrow> f e = Inr y \<and> e' = e"
  by (auto simp: dask_def)

lemma dwrap_Inr [run_inv]: "dwrap msg m e = (Inr y, e') \<longleftrightarrow> m e = (Inr y, e')"
  by (auto simp: dwrap_def run_inv split: prod.splits)

lemma dtry_Inr [run_inv]: "dtry m e = (Inr y, e') \<longleftrightarrow>
    (\<exists>x. m e = (Inr x, e') \<and> y = Inr x) \<or> (\<exists>err. m e = (Inl err, e') \<and> \<not> is_panic err \<and> y = Inl err)"
  by (auto simp: dtry_def split: prod.splits sum.splits)

lemma dcatch_raise_Inr [run_inv]: "dcatch m (\<lambda>err. dlift (Inl (h err))) e = (Inr y, e') \<longleftrightarrow> m e = (Inr y, e')"
  by (auto simp: dcatch_def dlift_def split: prod.splits sum.splits)

lemma dwhen_Inr [run_inv]: "dwhen c m e = (Inr y, e') \<longleftrightarrow> (if c then m e = (Inr y, e') else e' = e)"
  by (auto simp: dwhen_def dret_def)

text \<open>\<open>gives Q f\<close>: whatever \<open>f\<close> returns satisfies \<open>Q\<close>.\<close>

named_theorems give

definition gives :: "('a \<Rightarrow> bool) \<Rightarrow> ('d, 't, 'a) dbm \<Rightarrow> bool" where
  "gives Q f \<longleftrightarrow> (\<forall>e y e'. f e = (Inr y, e') \<longrightarrow> Q y)"

lemma givesD: "gives Q f \<Longrightarrow> f e = (Inr y, e') \<Longrightarrow> Q y"
  by (auto simp: gives_def)

lemma gives_ret [give]: "Q x \<Longrightarrow> gives Q (dret x)"
  by (simp add: gives_def run_inv)

lemma gives_lift [give]: "(\<And>y. r = Inr y \<Longrightarrow> Q y) \<Longrightarrow> gives Q (dlift r)"
  by (simp add: gives_def run_inv)

lemma gives_bind [give]: "(\<And>x e e'. m e = (Inr x, e') \<Longrightarrow> gives Q (f x)) \<Longrightarrow> gives Q (dbind m f)"
  unfolding gives_def by (simp add: run_inv) blast

lemma gives_wrap [give]: "gives Q m \<Longrightarrow> gives Q (dwrap msg m)"
  by (simp add: gives_def run_inv)

lemma gives_if [give]: "(c \<Longrightarrow> gives Q f) \<Longrightarrow> (\<not> c \<Longrightarrow> gives Q g) \<Longrightarrow> gives Q (if c then f else g)"
  by simp

lemma gives_let [give]: "gives Q (f v) \<Longrightarrow> gives Q (let x = v in f x)"
  by (simp add: Let_def)

lemma gives_option [give]:
  "(x = None \<Longrightarrow> gives Q f) \<Longrightarrow> (\<And>y. x = Some y \<Longrightarrow> gives Q (g y)) \<Longrightarrow> gives Q (case x of None \<Rightarrow> f | Some y \<Rightarrow> g y)"
  by (cases x) auto

lemma gives_sum [give]:
  "(\<And>y. x = Inl y \<Longrightarrow> gives Q (f y)) \<Longrightarrow> (\<And>y. x = Inr y \<Longrightarrow> gives Q (g y)) \<Longrightarrow>
   gives Q (case x of Inl y \<Rightarrow> f y | Inr y \<Rightarrow> g y)"
  by (cases x) auto

lemma gives_prod [give]: "(\<And>y z. x = (y, z) \<Longrightarrow> gives Q (f y z)) \<Longrightarrow> gives Q (case x of (y, z) \<Rightarrow> f y z)"
  by (cases x) auto

lemma gives_cond [give]:
  "(\<And>y. x = VCond y \<Longrightarrow> gives Q (f y)) \<Longrightarrow> (\<And>y. x = RCond y \<Longrightarrow> gives Q (g y)) \<Longrightarrow>
   gives Q (case x of VCond y \<Rightarrow> f y | RCond y \<Rightarrow> g y)"
  by (cases x) auto

lemma gives_simps: "gives Q (dret x) \<longleftrightarrow> Q x" "gives Q (dlift (Inl err))"
  by (simp_all add: gives_def run_inv)

section \<open>Writes\<close>

primrec op_key :: "batch_op \<Rightarrow> bytes" where
  "op_key (BPut k v) = k"
| "op_key (BDelete k) = k"

lemma apply_batch_other: "\<forall>w \<in> set b. op_key w \<noteq> k \<Longrightarrow> omap_ok m \<Longrightarrow> map_of (apply_batch b m) k = map_of m k"
proof (induction b arbitrary: m)
  case (Cons w b)
  then have "map_of (apply_batch b (apply_op w m)) k = map_of (apply_op w m) k" by (cases w) auto
  with Cons.prems show ?case by (cases w) auto
qed simp

context leveldb_laws
begin

fun frame :: "(bytes \<Rightarrow> bool) \<Rightarrow> ('d, 's) executor \<Rightarrow> ('d, 's) executor \<Rightarrow> bool" where
  "frame A (OnDB d) (OnDB d') \<longleftrightarrow> (\<forall>k. \<not> A k \<longrightarrow> map_of (view d') k = map_of (view d) k)"
| "frame A (OnTx d s b) (OnTx d' s' b') \<longleftrightarrow> d' = d \<and> s' = s \<and> (\<exists>c. b' = b @ c \<and> (\<forall>w \<in> set c. A (op_key w)))"
| "frame A _ _ \<longleftrightarrow> False"

lemma frame_refl [simp]: "frame A e e"
  by (cases e) auto

lemma frame_trans [trans]: "frame A e e' \<Longrightarrow> frame A e' e'' \<Longrightarrow> frame A e e''"
  by (cases e; cases e'; cases e'') auto

definition touches :: "(bytes \<Rightarrow> bool) \<Rightarrow> ('d, 's, 'a) dbm \<Rightarrow> bool" where
  "touches A f \<longleftrightarrow> (\<forall>e. frame A e (snd (f e)))"

lemma touchesD: "touches A f \<Longrightarrow> f e = (r, e') \<Longrightarrow> frame A e e'"
  by (metis touches_def snd_conv)

lemma touchesI: "(\<And>e r e'. f e = (r, e') \<Longrightarrow> frame A e e') \<Longrightarrow> touches A f"
  by (metis touches_def surjective_pairing)

lemma touches_db:
  assumes "touches A f"
  obtains r d' where "f (OnDB d) = (r, OnDB d')" "\<And>k. \<not> A k \<Longrightarrow> map_of (view d') k = map_of (view d) k"
proof (cases "f (OnDB d)")
  case (Pair r e)
  with touchesD [OF assms Pair] that show ?thesis by (cases e) auto
qed

lemma touches_tx:
  assumes "touches A f"
  obtains r b' where "f (OnTx d s b) = (r, OnTx d s (b @ b'))" "\<forall>w \<in> set b'. A (op_key w)"
proof (cases "f (OnTx d s b)")
  case (Pair r e)
  with touchesD [OF assms Pair] that show ?thesis by (cases e) auto
qed

lemma touches_pure [touch]: "touches A (dret x)" "touches A (dlift r)" "touches A (dask g)"
  by (simp_all add: touches_def dret_def dlift_def dask_def)

lemma touches_read [touch]:
  "touches A (Executor_Get L k)" "touches A (Executor_Has L k)" "touches A (NewIterator L p fwd)"
  by (simp_all add: touches_def)

lemma touches_put [touch]: "A k \<Longrightarrow> touches A (Executor_Put L k v)"
proof (rule touchesI)
  fix e r e' assume k: "A k" "Executor_Put L k v e = (r, e')"
  show "frame A e e'"
  proof (cases e)
    case (OnDB d)
    with k db_put [of d k v] view_ok [of d] show ?thesis
      by (cases "DbPut L d k v") (auto simp: Executor_Put.simps)
  qed (use k in auto)
qed

lemma touches_delete [touch]: "A k \<Longrightarrow> touches A (Executor_Delete L k)"
proof (rule touchesI)
  fix e r e' assume k: "A k" "Executor_Delete L k e = (r, e')"
  show "frame A e e'"
  proof (cases e)
    case (OnDB d)
    with k db_delete [of d k] view_ok [of d] show ?thesis
      by (cases "DbDelete L d k") (auto simp: Executor_Delete.simps)
  qed (use k in auto)
qed

lemma touches_bind [touch]:
  assumes "touches A m" "\<And>x. touches A (f x)"
  shows "touches A (dbind m f)"
proof (rule touchesI)
  fix e r e' assume run: "dbind m f e = (r, e')"
  obtain q e1 where m: "m e = (q, e1)" by fastforce
  show "frame A e e'"
    using run m touchesD [OF assms(1) m] touchesD [OF assms(2)]
    by (cases q) (auto simp: dbind_def intro: frame_trans)
qed

lemma touches_catch [touch]:
  assumes "touches A m" "\<And>err. touches A (h err)"
  shows "touches A (dcatch m h)"
proof (rule touchesI)
  fix e r e' assume run: "dcatch m h e = (r, e')"
  obtain q e1 where m: "m e = (q, e1)" by fastforce
  show "frame A e e'"
    using run m touchesD [OF assms(1) m] touchesD [OF assms(2)]
    by (cases q) (auto simp: dcatch_def intro: frame_trans)
qed

lemma touches_wrap [touch]: "touches A m \<Longrightarrow> touches A (dwrap msg m)"
  by (rule touchesI) (auto simp: dwrap_def split: prod.splits dest: touchesD)

lemma touches_try [touch]: "touches A m \<Longrightarrow> touches A (dtry m)"
  by (rule touchesI) (auto simp: dtry_def split: prod.splits sum.splits dest: touchesD)

lemma touches_when [touch]: "touches A m \<Longrightarrow> touches A (dwhen c m)"
  by (simp add: dwhen_def touches_pure)

text \<open>A transaction commits a batch on keys in \<open>A\<close>, or nothing.\<close>

lemma touches_transaction [touch]:
  assumes "touches A f"
  shows "touches A (Transaction L f)"
proof (rule touchesI)
  fix e r e' assume run: "Transaction L f e = (r, e')"
  show "frame A e e'"
  proof (cases e)
    case (OnDB d)
    obtain q b where f: "f (OnTx d (snap d) []) = (q, OnTx d (snap d) b)" "\<forall>w \<in> set b. A (op_key w)"
      using touches_tx [OF assms, of d "snap d" "[]"] by auto
    then have "map_of (apply_batch b (view d)) k = map_of (view d) k" if "\<not> A k" for k
      using that view_ok by (intro apply_batch_other) auto
    with f(1) run OnDB show ?thesis by (cases q) (auto simp: tx_run db_write(2))
  next
    case (OnTx d s b)
    with run touchesD [OF assms] show ?thesis by auto
  qed
qed

lemma touches_if [touch]: "(c \<Longrightarrow> touches A f) \<Longrightarrow> (\<not> c \<Longrightarrow> touches A g) \<Longrightarrow> touches A (if c then f else g)"
  by simp

lemma touches_let [touch]: "touches A (f v) \<Longrightarrow> touches A (let x = v in f x)"
  by (simp add: Let_def)

lemma touches_option [touch]:
  "touches A f \<Longrightarrow> (\<And>y. x = Some y \<Longrightarrow> touches A (g y)) \<Longrightarrow> touches A (case x of None \<Rightarrow> f | Some y \<Rightarrow> g y)"
  by (cases x) auto

lemma touches_sum [touch]:
  "(\<And>y. touches A (f y)) \<Longrightarrow> (\<And>y. touches A (g y)) \<Longrightarrow> touches A (case x of Inl y \<Rightarrow> f y | Inr y \<Rightarrow> g y)"
  by (cases x) auto

lemma touches_prod [touch]: "(\<And>y z. x = (y, z) \<Longrightarrow> touches A (f y z)) \<Longrightarrow> touches A (case x of (y, z) \<Rightarrow> f y z)"
  by (cases x) auto

lemma touches_bool [touch]: "touches A f \<Longrightarrow> touches A g \<Longrightarrow> touches A (case x of True \<Rightarrow> f | False \<Rightarrow> g)"
  by (cases x) auto

lemma touches_cond [touch]:
  "(\<And>y. touches A (f y)) \<Longrightarrow> (\<And>y. touches A (g y)) \<Longrightarrow> touches A (case x of VCond y \<Rightarrow> f y | RCond y \<Rightarrow> g y)"
  by (cases x) auto

end

end
