(* ===== verification/ProcessLaws.thy ===== *)
theory ProcessLaws
  imports Process Programs
begin

text \<open>
  What the protocol steps write. Every step of a proposal, on either side, works beside the stored
  channels: only the final \<open>UpdateChannel\<close> writes one.
\<close>

section \<open>Keys\<close>

definition other_key :: "bytes \<Rightarrow> bool" where
  "other_key k \<longleftrightarrow> \<not> prefix ''ch:'' k"

lemma other_keys [simp]:
  "other_key (task_key i)" "other_key (getTaskIndexKey t pool)" "other_key (virtualChannelMetaKey k)"
  "other_key (activeSpecialMetaIndexKey k)" "other_key (action_code_key h)" "other_key (getChannelHistoryIndexKey ch at' typ)"
  "other_key (pending_prefix a @ x)"
  by (simp_all add: other_key_def task_key_def getTaskIndexKey_def index_prefix_def virtualChannelMetaKey_def
      activeSpecialMetaIndexKey_def vchActiveSpecialMetasPrefix_def action_code_key_def getChannelHistoryIndexKey_def
      history_prefix_def pending_prefix_def)

lemma channel_key_not_other [simp]: "\<not> other_key (channel_key a)"
  by (simp add: other_key_def channel_key_def)

section \<open>The node\<close>

text \<open>
  A node: its database obeys the LevelDB contract, and the callbacks of the embedding program
  (webhook, channel and history callbacks) do not write channels.
\<close>

locale node = leveldb_laws "svL S" view sview snap
  for S :: "('b, 's, 'c, 'm, 'd, 't, 'j) svc"
    and view :: "'d \<Rightarrow> (bytes, bytes) omap"
    and sview :: "'t \<Rightarrow> (bytes, bytes) omap"
    and snap :: "'d \<Rightarrow> 't" +
  assumes webhook: "svWebhook S = Some push \<Longrightarrow> touches other_key (push ev meta)"
    and history_cb: "svOnHistory S = Some f \<Longrightarrow> frame other_key e (f ch item e)"
    and channel_cb: "svOnChannel S = Some g \<Longrightarrow> frame other_key e (g ch changed e)"
begin

lemma touches_put_once [touch]:
  "A key \<Longrightarrow> touches A after \<Longrightarrow> touches A (put_once (svL S) key data after)"
  unfolding put_once_def by (intro touch)

lemma touches_get_json [touch]: "touches A (get_json (svL S) J key)"
  unfolding get_json_def by (intro touch)

lemma touches_channel_reads [touch]: "touches A (GetChannel (svL S) J addr)" "touches A (GetChannels (svL S) J key st)"
  unfolding GetChannel_def GetChannels_def by (intro touch)+

lemma touches_meta_read [touch]: "touches A (GetVirtualChannelMeta (svL S) J key)" "touches A (load_meta (svL S) J key)"
  unfolding GetVirtualChannelMeta_def load_meta_def by (intro touch)+

lemma touches_sync [touch]: "touches other_key (syncActiveSpecialMetasIndex (svL S) J prev new)"
  unfolding syncActiveSpecialMetasIndex_def by (intro touch) simp_all

lemma touches_store_meta [touch]: "touches other_key (store_meta (svL S) J prev new)"
  unfolding store_meta_def by (intro touch) simp_all

lemma touches_meta_write [touch]:
  "touches other_key (CreateVirtualChannelMeta (svL S) J meta)" "touches other_key (UpdateVirtualChannelMeta (svL S) J meta)"
  "touches other_key (ClosePairMeta (svL S) J now key st)"
  unfolding CreateVirtualChannelMeta_def UpdateVirtualChannelMeta_def ClosePairMeta_def by (intro touch; simp)+

lemma touches_task [touch]: "touches other_key (create_task S now1 now2 typ queue i payload after till)"
  unfolding create_task_def CreateTask_def createTask_def by (intro touch) simp_all

lemma touches_event [touch]: "touches other_key (create_event S ch at' typ data)"
proof -
  have "touches other_key (run_cb (svOnHistory S) ch item)" for item
    by (rule touchesI) (auto simp: run_cb_def history_cb split: option.splits)
  then show ?thesis unfolding create_event_def CreateChannelEvent_def by (intro touch) simp_all
qed

lemma touches_push [touch]: "touches other_key (push_event S msg ev meta)"
  unfolding push_event_def by (intro touch webhook)

lemma touches_actions [touch]: "touches other_key (save_action S a)" "touches A (stored_action S i)"
  unfolding save_action_def stored_action_def CreateActionCode_def GetActionCode_def by (intro touch; simp)+

lemma touches_lookups [touch]:
  "touches A (code_to_cond S code)" "touches A (find_cond S m i)" "touches A (calc_balance S clk ch isTheir)"
  "touches A (find_meta S key)" "touches A (lookup_cond S m i)" "touches A (GetActiveChannel S addr)"
  unfolding code_to_cond_def find_cond_def calc_balance_def find_meta_def lookup_cond_def GetActiveChannel_def
  by (intro touch)+

lemma touches_order_meta [touch]: "touches A (resolveDerivativeOrderMeta S meta)"
  unfolding resolveDerivativeOrderMeta_def by (intro touch)

lemma touches_hedge [touch]: "touches other_key (scheduleDerivativeHedgeClose S clk meta st)"
  unfolding scheduleDerivativeHedgeClose_def buildDerivativeHedgeCloseWebhook_def by (intro touch)

lemma touches_refresh [touch]: "touches other_key (refreshIncomingDerivativeMeta S now cancelled key)"
  unfolding refreshIncomingDerivativeMeta_def by (intro touch)

lemma touches_removable [touch]: "touches other_key (removable S now cancelled cond meta)"
  unfolding removable_def ensureDerivativeRemovable_def by (intro touch)

lemma touches_close [touch]: "touches other_key (closeConditional S clk meta)"
  unfolding closeConditional_def by (intro touch)

lemma touches_commit_request [touch]: "touches A (getCommitRequest S ck ch i ex fee)"
  unfolding getCommitRequest_def prepare_side_def by (intro touch)

lemma touches_check_funds [touch]: "touches A (check_funds S clk acts ch isTheir cc)"
  unfolding check_funds_def by (intro touch)

lemma touches_linked [touch]: "touches A (linked_outgoing S ch meta)" "touches A (linked_incoming S ch meta)"
  unfolding linked_outgoing_def linked_incoming_def by (intro touch)+

end

section \<open>Frames\<close>

text \<open>
  An update changes the dictionaries, the locked deposits and the pending transfers of the sides, and
  the pending commit; the identity of the channel stays.
\<close>

definition same_side :: "'m Side \<Rightarrow> 'm Side \<Rightarrow> bool" where
  "same_side s s' \<longleftrightarrow> s' = s\<lparr>sdData := sdData s', LockedDeposits := LockedDeposits s',
     PendingOnchainTransfers := PendingOnchainTransfers s'\<rparr>"

definition same_chan :: "('m, 'c) Channel \<Rightarrow> ('m, 'c) Channel \<Rightarrow> bool" where
  "same_chan ch ch' \<longleftrightarrow> same_side (Our ch) (Our ch') \<and> same_side (Their ch) (Their ch') \<and>
     ch' = ch\<lparr>Our := Our ch', Their := Their ch', chPendingCommit := chPendingCommit ch'\<rparr>"

lemma same_side_refl [simp]: "same_side s s"
  by (simp add: same_side_def)

lemma same_side_trans: "same_side s s' \<Longrightarrow> same_side s' s'' \<Longrightarrow> same_side s s''"
  by (cases s; cases s'; cases s'') (simp add: same_side_def)

lemma same_chan_refl [simp]: "same_chan ch ch"
  by (simp add: same_chan_def)

lemma same_chan_trans: "same_chan ch ch' \<Longrightarrow> same_chan ch' ch'' \<Longrightarrow> same_chan ch ch''"
  by (cases ch; cases ch'; cases ch'') (auto simp: same_chan_def intro: same_side_trans)

lemma same_sideD:
  assumes "same_side s s'"
  shows "sdAddress s' = sdAddress s" "OnchainKey s' = OnchainKey s" "LatestCommitedSeqno s' = LatestCommitedSeqno s"
  using assms by (cases s; cases s'; simp add: same_side_def)+

lemma same_chanD:
  assumes "same_chan ch ch'"
  shows "sdAddress (Our ch') = sdAddress (Our ch)" "OnchainKey (Our ch') = OnchainKey (Our ch)"
    "OnchainKey (Their ch') = OnchainKey (Their ch)" "sdAddress (Their ch') = sdAddress (Their ch)"
    "WeLeft ch' = WeLeft ch" "DBVersion ch' = DBVersion ch" "chID ch' = chID ch" "chStatus ch' = chStatus ch"
    "AcceptingActions ch' = AcceptingActions ch"
  using assms same_sideD by (cases ch; cases ch'; fastforce simp: same_chan_def)+

lemma same_chan_upd [simp]:
  "same_chan ch (ch\<lparr>Our := our, Their := their\<rparr>) \<longleftrightarrow> same_side (Our ch) our \<and> same_side (Their ch) their"
  "same_chan ch (ch\<lparr>Their := their, Our := our\<rparr>) \<longleftrightarrow> same_side (Our ch) our \<and> same_side (Their ch) their"
  "same_chan ch (ch\<lparr>Our := our\<rparr>) \<longleftrightarrow> same_side (Our ch) our"
  "same_chan ch (ch\<lparr>Their := their\<rparr>) \<longleftrightarrow> same_side (Their ch) their"
  "same_chan ch (ch\<lparr>Our := our, Their := their, chPendingCommit := p\<rparr>) \<longleftrightarrow> same_side (Our ch) our \<and> same_side (Their ch) their"
  by (cases ch; auto simp: same_chan_def)+

lemma same_side_locked [simp]: "same_side s (s\<lparr>LockedDeposits := l\<rparr>)"
  by (cases s) (simp add: same_side_def)

named_theorems framed

lemma side_ops_frame [framed]:
  "side_set_action S k v s = Inr s' \<Longrightarrow> same_side s s'" "side_set_cond S k v s = Inr s' \<Longrightarrow> same_side s s'"
  "side_del_cond S k s = Inr s' \<Longrightarrow> same_side s s'"
  by (auto simp: side_set_action_def side_set_cond_def side_del_cond_def set_action_state_def set_conditionals_def
      same_side_def run_inv)

lemma set_locked_frame [simp]: "same_side s (set_locked l s)" "same_side s s' \<Longrightarrow> same_side s (set_locked l s')"
  by (cases s; auto simp: set_locked_def same_side_def split: option.splits)
     (cases s'; auto simp: set_locked_def same_side_def split: option.splits)

lemma set_locked_from [framed]: "same_side (set_locked l s) s' \<Longrightarrow> same_side s s'"
  using same_side_trans set_locked_frame(1) by blast

lemma execute_frame [framed]:
  "execute_main S cond r s = Inr (old, new, s') \<Longrightarrow> same_side s s'"
  "execute_linked S cond r s = Inr (st, s') \<Longrightarrow> same_side s s'"
  "settle_linked S linked r s = Inr (st, s') \<Longrightarrow> same_side s s'"
proof -
  show "execute_main S cond r s = Inr (old, new, s') \<Longrightarrow> same_side s s'"
    by (auto simp: execute_main_def run_inv split: prod.splits dest!: framed)
  show *: "execute_linked S cond r s = Inr (st, s') \<Longrightarrow> same_side s s'" for cond st s'
    by (auto simp: execute_linked_def run_inv split: prod.splits option.splits dest!: framed
       )
  show "settle_linked S linked r s = Inr (st, s') \<Longrightarrow> same_side s s'"
    by (auto simp: settle_linked_def run_inv split: prod.splits option.splits dest!: framed * intro: same_side_trans)
qed

lemma commit_side_frame [framed]: "commit_side S idx cond upd old s = Inr s' \<Longrightarrow> same_side s s'"
  by (auto simp: commit_side_def run_inv split: prod.splits dest!: framed intro: same_side_trans)

lemma pay_fee_frame [framed]: "pay_fee S a fee st s = Inr s' \<Longrightarrow> same_side s s'"
  by (auto simp: pay_fee_def run_inv dest!: framed)

lemma swap_sides_frame [framed]: "swap_sides S a x b y ch = Inr (n, m, ch') \<Longrightarrow> same_chan ch ch'"
  by (auto simp: swap_sides_def add_coins_def run_inv split: prod.splits dest!: framed
     )

lemma ensure_frame [framed]:
  "ensureConditionalOnSide S s cond = Inr (b, s') \<Longrightarrow> same_side s s'"
  "ensureActionStateOnSide S s a = Inr (b, s') \<Longrightarrow> same_side s s'"
  by (auto simp: ensureConditionalOnSide_def ensureActionStateOnSide_def run_inv split: if_splits dest!: framed)

lemma add_linked_frame [framed]: "add_linked S cond s = Inr (l, s') \<Longrightarrow> same_side s s'"
  by (auto simp: add_linked_def run_inv split: conditional.splits prod.splits dest!: framed intro: same_side_trans)

lemma set_committed_frame [framed]: "set_committed S msg aid st s = Inr s' \<Longrightarrow> same_side s s'"
  by (cases st) (auto simp: set_committed_def run_inv dest!: framed)

lemma add_pending_frame: "same_side s s' \<Longrightarrow> same_side s (add_pending k p s')"
  by (cases s; cases s'; cases p) (auto simp: add_pending_def same_side_def)

lemma apply_commit_frame [framed]: "apply_commit S i req msg p q ch = Inr ch' \<Longrightarrow> same_chan ch ch'"
  by (cases "csAction (cmSigned req)"; cases "WeLeft ch")
    (auto simp: apply_commit_def run_inv Let_def dest!: framed intro: add_pending_frame)

lemma add_new_action_frame [framed]: "add_new_action S ch code = Inr (a, ch') \<Longrightarrow> same_chan ch ch'"
  by (auto simp: add_new_action_def addActionToChannel_def run_inv split: option.splits if_splits sum.splits dest!: framed)

section \<open>Updates\<close>

lemmas update_ends = same_side_trans same_chan_trans

context node
begin

definition upd_ok :: "('m, 'c) Channel \<Rightarrow> ('d, 't, 'm, 'c) update \<Rightarrow> bool" where
  "upd_ok ch upd \<longleftrightarrow> (case upd of None \<Rightarrow> True | Some (ch', f) \<Rightarrow> same_chan ch ch' \<and> (\<forall>x. touches other_key (f x)))"

lemma upd_ok_simps [simp]:
  "upd_ok ch None" "upd_ok ch (Some (ch', f)) \<longleftrightarrow> same_chan ch ch' \<and> (\<forall>x. touches other_key (f x))"
  by (simp_all add: upd_ok_def)

lemma propose_add_ok: "gives (upd_ok ch) (propose_add S clk ch act cond)" "touches other_key (propose_add S clk ch act cond)"
proof -
  show "gives (upd_ok ch) (propose_add S clk ch act cond)"
    unfolding propose_add_def by (intro give; auto simp: run_inv split: if_splits option.splits dest!: framed intro: same_side_trans intro!: touch)
  show "touches other_key (propose_add S clk ch act cond)"
    unfolding propose_add_def by (intro touch)
qed

lemma propose_commit_virtual_ok: "gives (upd_ok ch) (propose_commit_virtual S ch i u)" "touches A (propose_commit_virtual S ch i u)"
proof -
  show "gives (upd_ok ch) (propose_commit_virtual S ch i u)"
    unfolding propose_commit_virtual_def by (intro give; auto simp: run_inv split: if_splits option.splits dest!: framed intro: same_side_trans intro!: touch)
  show "touches A (propose_commit_virtual S ch i u)"
    unfolding propose_commit_virtual_def by (intro touch)
qed

lemma propose_remove_ok: "gives (upd_ok ch) (propose_remove S clk cancelled ch i)" "touches other_key (propose_remove S clk cancelled ch i)"
proof -
  show "gives (upd_ok ch) (propose_remove S clk cancelled ch i)"
    unfolding propose_remove_def by (intro give; auto simp: run_inv split: if_splits option.splits dest!: framed intro: same_side_trans intro!: touch)
  show "touches other_key (propose_remove S clk cancelled ch i)"
    unfolding propose_remove_def by (intro touch)
qed

lemma propose_execute_ok: "gives (upd_ok ch) (propose_execute S clk ch i st meta)" "touches other_key (propose_execute S clk ch i st meta)"
proof -
  show "gives (upd_ok ch) (propose_execute S clk ch i st meta)"
    unfolding propose_execute_def by (intro give; auto simp: run_inv split: if_splits option.splits dest!: framed intro: same_side_trans intro!: touch)
  show "touches other_key (propose_execute S clk ch i st meta)"
    unfolding propose_execute_def by (intro touch)
qed

lemma propose_rent_ok: "gives (upd_ok ch) (propose_rent S clk ch act)" "touches other_key (propose_rent S clk ch act)"
proof -
  show "gives (upd_ok ch) (propose_rent S clk ch act)"
    unfolding propose_rent_def by (intro give; auto simp: run_inv split: if_splits option.splits dest!: framed intro: same_side_trans intro!: touch)
  show "touches other_key (propose_rent S clk ch act)"
    unfolding propose_rent_def by (intro touch)
qed

lemma propose_commit_ok: "gives (upd_ok ch) (propose_commit S clk ch act)" "touches other_key (propose_commit S clk ch act)"
proof -
  show "gives (upd_ok ch) (propose_commit S clk ch act)"
    unfolding propose_commit_def by (intro give; auto simp: run_inv split: if_splits option.splits dest!: framed intro: same_side_trans intro!: touch)
  show "touches other_key (propose_commit S clk ch act)"
    unfolding propose_commit_def by (intro touch)
qed

lemma propose_swap_ok: "gives (upd_ok ch) (propose_swap S clk ch act)" "touches other_key (propose_swap S clk ch act)"
proof -
  show "gives (upd_ok ch) (propose_swap S clk ch act)"
    unfolding propose_swap_def by (intro give; auto simp: run_inv split: if_splits option.splits dest!: framed intro: same_side_trans intro!: touch)
  show "touches other_key (propose_swap S clk ch act)"
    unfolding propose_swap_def by (intro touch)
qed

lemma touches_after_execute [touch]: "touches other_key (after_execute S clk meta data ch)"
  unfolding after_execute_def executed_meta_def by (intro touch)

lemma process_remove_ok: "gives (upd_ok ch) (process_remove S clk cancelled ch i)" "touches other_key (process_remove S clk cancelled ch i)"
proof -
  show "gives (upd_ok ch) (process_remove S clk cancelled ch i)"
    unfolding process_remove_def by (intro give; auto simp: run_inv split: if_splits option.splits dest!: framed intro: same_side_trans intro!: touch)
  show "touches other_key (process_remove S clk cancelled ch i)"
    unfolding process_remove_def by (intro touch)
qed

lemma process_commit_virtual_ok: "gives (upd_ok ch) (process_commit_virtual S ch i u)" "touches A (process_commit_virtual S ch i u)"
proof -
  show "gives (upd_ok ch) (process_commit_virtual S ch i u)"
    unfolding process_commit_virtual_def by (intro give; auto simp: run_inv split: if_splits option.splits dest!: framed intro: same_side_trans intro!: touch)
  show "touches A (process_commit_virtual S ch i u)"
    unfolding process_commit_virtual_def by (intro touch)
qed

lemma process_execute_ok: "gives (upd_ok ch) (process_execute S clk ch i st)" "touches other_key (process_execute S clk ch i st)"
proof -
  show "gives (upd_ok ch) (process_execute S clk ch i st)"
    unfolding process_execute_def by (intro give; auto simp: run_inv split: if_splits option.splits dest!: framed intro: same_side_trans intro!: touch)
  show "touches other_key (process_execute S clk ch i st)"
    unfolding process_execute_def by (intro touch)
qed

lemma process_swap_ok: "gives (upd_ok ch) (process_swap S clk ch act)" "touches other_key (process_swap S clk ch act)"
proof -
  show "gives (upd_ok ch) (process_swap S clk ch act)"
    unfolding process_swap_def by (intro give; auto simp: run_inv split: if_splits option.splits dest!: framed intro: same_side_trans intro!: touch)
  show "touches other_key (process_swap S clk ch act)"
    unfolding process_swap_def by (intro touch)
qed

lemma process_commit_ok: "gives (upd_ok ch) (process_commit S clk ch n act)" "touches other_key (process_commit S clk ch n act)"
proof -
  show "gives (upd_ok ch) (process_commit S clk ch n act)"
    unfolding process_commit_def by (intro give; auto simp: run_inv split: if_splits option.splits dest!: framed intro: same_side_trans intro!: touch)
  show "touches other_key (process_commit S clk ch n act)"
    unfolding process_commit_def by (intro touch)
qed

lemma process_rent_ok: "gives (upd_ok ch) (process_rent S clk ch act)" "touches other_key (process_rent S clk ch act)"
proof -
  show "gives (upd_ok ch) (process_rent S clk ch act)"
    unfolding process_rent_def by (intro give; auto simp: run_inv split: if_splits option.splits dest!: framed intro: same_side_trans intro!: touch)
  show "touches other_key (process_rent S clk ch act)"
    unfolding process_rent_def by (intro touch)
qed

lemma touches_add_final [touch]: "touches other_key (add_final S clk data instr cond srz ch)"
  unfolding add_final_def removeAfterTimeout_def by (intro touch)

lemma touches_timeout [touch]: "touches other_key (removeAfterTimeout S ck ch cond)"
  unfolding removeAfterTimeout_def by (intro touch)

lemma touches_unused [touch]: "touches A (unused_key S key)"
  unfolding unused_key_def by (intro touch)

lemma touches_pick [touch]: "touches A (pick_target S clk cond details chs n best)"
proof (induction chs arbitrary: n best)
  case (Cons ch chs)
  show ?case unfolding pick_target.simps by (intro touch Cons)
qed (auto intro: touch)

lemma add_derivative_ok: "gives (upd_ok ch) (add_derivative S clk ch data instr res srz)" "touches other_key (add_derivative S clk ch data instr res srz)"
proof -
  show "gives (upd_ok ch) (add_derivative S clk ch data instr res srz)"
    unfolding add_derivative_def by (intro give; auto simp: run_inv split: if_splits option.splits dest!: framed intro: same_side_trans intro!: touch)
  show "touches other_key (add_derivative S clk ch data instr res srz)"
    unfolding add_derivative_def by (intro touch)
qed

lemma add_tunnel_ok: "gives (upd_ok ch) (add_tunnel S clk ch data instr cond srz)" "touches other_key (add_tunnel S clk ch data instr cond srz)"
proof -
  show "gives (upd_ok ch) (add_tunnel S clk ch data instr cond srz)"
    unfolding add_tunnel_def by (intro give; auto simp: run_inv split: if_splits option.splits dest!: framed intro: same_side_trans intro!: touch)
  show "touches other_key (add_tunnel S clk ch data instr cond srz)"
    unfolding add_tunnel_def by (intro touch)
qed

lemma upd_ok_from: "same_chan ch ch' \<Longrightarrow> gives (upd_ok ch') f \<Longrightarrow> gives (upd_ok ch) f"
  unfolding gives_def upd_ok_def using same_chan_trans by (fastforce split: option.splits)

lemma process_add_ok: "gives (upd_ok ch) (process_add S clk ch data)" "touches other_key (process_add S clk ch data)"
proof -
  show "gives (upd_ok ch) (process_add S clk ch data)"
    unfolding process_add_def
    by (intro give upd_ok_from [OF _ add_derivative_ok(1)] upd_ok_from [OF _ add_tunnel_ok(1)];
        auto simp: run_inv split: if_splits dest!: framed intro: same_side_trans same_chan_trans intro!: touch)
  show "touches other_key (process_add S clk ch data)"
    unfolding process_add_def by (intro touch add_derivative_ok(2) add_tunnel_ok(2))
qed

lemma propose_update_ok:
  "gives (upd_ok ch) (propose_update S clk cancelled ch action details)"
  "touches other_key (propose_update S clk cancelled ch action details)"
proof -
  show "gives (upd_ok ch) (propose_update S clk cancelled ch action details)"
    by (cases action; cases details)
      (simp_all add: propose_update_def propose_add_ok propose_commit_virtual_ok propose_remove_ok propose_execute_ok
        propose_rent_ok propose_commit_ok propose_swap_ok gives_simps upd_ok_simps touches_pure)
  show "touches other_key (propose_update S clk cancelled ch action details)"
    by (cases action; cases details)
      (simp_all add: propose_update_def propose_add_ok propose_commit_virtual_ok propose_remove_ok propose_execute_ok
        propose_rent_ok propose_commit_ok propose_swap_ok touches_pure)
qed

lemma process_update_ok:
  "gives (upd_ok ch) (process_update S clk cancelled ch n action)"
  "touches other_key (process_update S clk cancelled ch n action)"
proof -
  have inc: "touches other_key (process_increment S clk ch n w x)" for w x
    unfolding process_increment_def by (intro touch)
  show "gives (upd_ok ch) (process_update S clk cancelled ch n action)"
    by (cases action)
      (simp_all add: process_update_def process_add_ok process_commit_virtual_ok process_remove_ok process_execute_ok
        process_rent_ok process_commit_ok process_swap_ok gives_simps upd_ok_simps touches_pure inc)
  show "touches other_key (process_update S clk cancelled ch n action)"
    by (cases action)
      (simp_all add: process_update_def process_add_ok process_commit_virtual_ok process_remove_ok process_execute_ok
        process_rent_ok process_commit_ok process_swap_ok touches_pure)
qed

end

end
