(* ===== verification/Agreement.thy ===== *)
theory Agreement
  imports ProcessLaws
begin

text \<open>
  The two sides of an update, end to end: \<open>proposeAction\<close> on the proposer, \<open>ProcessAction\<close> on its peer.
  What each writes to its channel table, that a failure writes nothing there, and that every stored
  channel stays covered by a state signed by both sides.
\<close>

declare dbm_simps [simp del] svm_simps [simp del]

section \<open>What the codecs keep\<close>

text \<open>A value that could be written is read back.\<close>

definition json_rt :: "'a json \<Rightarrow> bool" where
  "json_rt J \<longleftrightarrow> (\<forall>x d. Marshal J x = Inr d \<longrightarrow> Unmarshal J d = Inr x)"

definition codec_rt :: "('b, 's, 'c) cell_lib \<Rightarrow> ('s, 'c, 'v) codec \<Rightarrow> bool" where
  "codec_rt L C \<longleftrightarrow> (\<forall>v c. ToCell C v = Inr c \<longrightarrow> LoadState L C c = Inr v)"

definition stored_channel :: "('m, 'c) Channel json \<Rightarrow> (bytes, bytes) omap \<Rightarrow> string \<Rightarrow> ('m, 'c) Channel option" where
  "stored_channel J m a = (case map_of m (channel_key a) of None \<Rightarrow> None | Some data \<Rightarrow>
     (case Unmarshal J data of Inl _ \<Rightarrow> None | Inr ch \<Rightarrow> Some ch))"

lemma channel_key_inj [simp]: "channel_key a = channel_key b \<longleftrightarrow> a = b"
  by (simp add: channel_key_def)

section \<open>Writing the channel\<close>

lemma batch_one_channel:
  assumes "\<forall>w \<in> set b1 \<union> set b2. other_key (op_key w)" "omap_ok m"
  shows "map_of (apply_batch (b1 @ BPut (channel_key a) data # b2) m) (channel_key a') =
    (if a' = a then Some data else map_of m (channel_key a'))"
proof -
  have other: "\<forall>w \<in> set b. op_key w \<noteq> channel_key x" if "set b \<subseteq> set b1 \<union> set b2" for b x
    using assms(1) that by (metis channel_key_not_other subsetD)
  show ?thesis
    using assms(2) by (simp add: apply_batch_other [OF other])
qed

context node
begin

abbreviation "J \<equiv> svChannelJ S"

lemma get_channel [run_inv]:
  "GetChannel (svL S) J a e = (Inr ch, e') \<longleftrightarrow> e' = e \<and> stored_channel J (reads e) a = Some ch"
  by (auto simp: GetChannel_def get_json_def run_inv dcatch_def dlift_def lookup_res_def stored_channel_def
      split: option.splits if_splits sum.splits)

lemma update_channel_tx:
  assumes "UpdateChannel (svL S) J (svOnChannel S) now ch (OnTx d s b) = (Inr ch', e')"
  shows "\<exists>data c. ch' = ch\<lparr>DBVersion := now\<rparr> \<and> Marshal J ch' = Inr data \<and>
    e' = OnTx d s (b @ BPut (channel_key (sdAddress (Our ch))) data # c) \<and> (\<forall>w \<in> set c. other_key (op_key w))"
proof -
  obtain cur data where r: "GetChannel (svL S) J (sdAddress (Our ch)) (OnTx d s b) = (Inr cur, OnTx d s b)"
      "ch' = ch\<lparr>DBVersion := now\<rparr>" "Marshal J ch' = Inr data"
      "run_cb (svOnChannel S) ch' (chStatus cur \<noteq> chStatus ch')
         (OnTx d s (b @ [BPut (channel_key (sdAddress (Our ch))) data])) = (Inr (), e')"
    using assms by (auto simp: UpdateChannel_def Let_def run_inv split: if_splits)
  have "touches other_key (run_cb (svOnChannel S) ch' x)" for x
    by (rule touchesI) (auto simp: run_cb_def channel_cb split: option.splits)
  from touchesD [OF this r(4)] r(2,3) show ?thesis by (cases e') auto
qed

text \<open>A transaction that updates one channel between steps beside the channels.\<close>

lemma commit_channel:
  assumes "Transaction (svL S) f (OnDB d) = (Inr x, e')"
    "f (OnTx d (snap d) []) = (Inr x, OnTx d (snap d) (b1 @ BPut (channel_key a) data # b2))"
    "\<forall>w \<in> set b1 \<union> set b2. other_key (op_key w)"
  shows "\<exists>d'. e' = OnDB d' \<and> (\<forall>a'. map_of (view d') (channel_key a') =
    (if a' = a then Some data else map_of (view d) (channel_key a')))"
  using assms(1,2) batch_one_channel [OF assms(3) view_ok] by (auto simp: tx_run db_write)

lemma frame_channels: "frame other_key (OnDB d) e' \<Longrightarrow>
    \<exists>d'. e' = OnDB d' \<and> (\<forall>a. map_of (view d') (channel_key a) = map_of (view d) (channel_key a))"
  by (cases e') auto

text \<open>\<open>rolls f\<close>: when \<open>f\<close> fails on the database, no channel was written.\<close>

definition rolls :: "('d, 't, 'a) dbm \<Rightarrow> bool" where
  "rolls f \<longleftrightarrow> (\<forall>d err e'. f (OnDB d) = (Inl err, e') \<longrightarrow> frame other_key (OnDB d) e')"

lemma rolls_touches: "touches other_key f \<Longrightarrow> rolls f"
  by (auto simp: rolls_def dest: touchesD)

lemma rolls_transaction: "rolls (Transaction (svL S) f)"
  by (auto simp: rolls_def tx_run split: prod.splits sum.splits)

lemma rolls_bind: "touches other_key m \<Longrightarrow> (\<And>x. rolls (f x)) \<Longrightarrow> rolls (dbind m f)"
  unfolding rolls_def dbind_def
  by (auto split: prod.splits sum.splits dest: touchesD frame_channels)
     (metis touchesD frame_trans frame_channels)+

lemma rolls_ret: "rolls m \<Longrightarrow> rolls (dbind m (\<lambda>x. dret (f x)))"
  by (auto simp: rolls_def dbind_def dret_def split: prod.splits sum.splits)

lemma process_fresh:
  assumes "process_acquired S clk cancelled now key proposed action fromWeb ch (OnDB d) = (Inr st, e')"
    "check_proposal S key ch proposed = Inr current" "sbSeqno (sbBody proposed) \<noteq> sbSeqno (sbBody current)"
  obtains d' ch' data c where "e' = OnDB d'" "sbSeqno (sbBody proposed) = sbSeqno (sbBody current) + 1" "same_chan ch ch'"
    "check_hashes S ch' (sbBody proposed) = Inr ()" "countersign S ch' proposed = Inr st"
    "ToCell (cnSigned (svE S)) st = Inr c"
    "Marshal J (ch'\<lparr>SignedState := Some c, WebPeer := fromWeb, DBVersion := now\<rparr>) = Inr data"
    "\<And>a. map_of (view d') (channel_key a) =
      (if a = sdAddress (Our ch) then Some data else map_of (view d) (channel_key a))"
proof -
  obtain upd e1 ch' f c where r: "sbSeqno (sbBody proposed) = sbSeqno (sbBody current) + 1"
      "process_update S clk cancelled ch (sbSeqno (sbBody proposed)) action (OnDB d) = (Inr upd, e1)"
      "(ch', f) = (case upd of None \<Rightarrow> (ch, \<lambda>_. dret ()) | Some x \<Rightarrow> x)"
      "check_hashes S ch' (sbBody proposed) = Inr ()" "countersign S ch' proposed = Inr st"
      "ToCell (cnSigned (svE S)) st = Inr c"
      "\<exists>x. Transaction (svL S) (dbind (f (ch'\<lparr>SignedState := Some c, WebPeer := fromWeb\<rparr>)) (\<lambda>_.
         dwrap ''failed to update channel in db'' (UpdateChannel (svL S) J (svOnChannel S) now
           (ch'\<lparr>SignedState := Some c, WebPeer := fromWeb\<rparr>)))) e1 = (Inr x, e')"
  proof -
    obtain upd e1 where u: "process_update S clk cancelled ch (sbSeqno (sbBody proposed)) action (OnDB d) = (Inr upd, e1)"
      using assms by (auto simp: process_acquired_def run_inv split: if_splits)
    obtain ch' f where p: "(case upd of None \<Rightarrow> (ch, \<lambda>_. dret ()) | Some x \<Rightarrow> x) = (ch', f)" by fastforce
    show thesis
      using assms u p that [of upd e1 ch' f]
      by (auto simp: process_acquired_def run_inv Let_def split: if_splits)
  qed
  have f: "same_chan ch ch'" "touches other_key (f x)" for x
    using givesD [OF process_update_ok(1) r(2)] r(3) by (auto simp: touches_pure split: option.splits)
  from frame_channels [OF touchesD [OF process_update_ok(2) r(2)]] obtain d1 where d1: "e1 = OnDB d1"
      "\<And>a. map_of (view d1) (channel_key a) = map_of (view d) (channel_key a)" by auto
  define ch2 where "ch2 = ch'\<lparr>SignedState := Some c, WebPeer := fromWeb\<rparr>"
  define body where "body = dbind (f ch2) (\<lambda>_. dwrap ''failed to update channel in db'' (UpdateChannel (svL S) J (svOnChannel S) now ch2))"
  obtain x where t: "Transaction (svL S) body (OnDB d1) = (Inr x, e')" using r(7) d1(1) by (auto simp: body_def ch2_def)
  then obtain e2 where b: "body (OnTx d1 (snap d1) []) = (Inr x, e2)" by (auto simp: tx_run split: prod.splits sum.splits)
  obtain q b1 where g: "f ch2 (OnTx d1 (snap d1) []) = (q, OnTx d1 (snap d1) b1)" "\<forall>w \<in> set b1. other_key (op_key w)"
    using touches_tx [OF f(2), of ch2 d1 "snap d1" "[]"] by auto
  with b have b1: "UpdateChannel (svL S) J (svOnChannel S) now ch2 (OnTx d1 (snap d1) b1) = (Inr x, e2)"
    by (auto simp: body_def run_inv)
  obtain data b2 where u: "x = ch2\<lparr>DBVersion := now\<rparr>" "Marshal J x = Inr data"
      "e2 = OnTx d1 (snap d1) (b1 @ BPut (channel_key (sdAddress (Our ch2))) data # b2)" "\<forall>w \<in> set b2. other_key (op_key w)"
    using update_channel_tx [OF b1] by blast
  have "sdAddress (Our ch2) = sdAddress (Our ch)" using same_chanD(1) [OF f(1)] by (simp add: ch2_def)
  with commit_channel [OF t b [unfolded u(3)]] g(2) u(4) obtain d' where d': "e' = OnDB d'"
      "\<And>a. map_of (view d') (channel_key a) = (if a = sdAddress (Our ch) then Some data else map_of (view d1) (channel_key a))"
    by auto
  show thesis
    by (rule that [of d' ch' c data]) (use r f d1 d' u in \<open>auto simp: ch2_def\<close>)
qed

lemma process_rolls: "rolls (process_acquired S clk cancelled now key proposed action fromWeb ch)"
  unfolding process_acquired_def Let_def
  by (intro rolls_bind touches_pure process_update_ok rolls_ret rolls_transaction)
    (auto intro!: rolls_bind touches_pure process_update_ok rolls_ret rolls_transaction intro: rolls_touches split: prod.splits)

lemma ProcessAction_rolls: "rolls (ProcessAction S clk cancelled now lock key addr proposed action fromWeb)"
  unfolding ProcessAction_def by (intro rolls_bind process_rolls touch)

lemma ProcessAction_cases:
  assumes "ProcessAction S clk cancelled now lock key addr proposed action fromWeb (OnDB d) = (Inr st, e')"
  obtains ch where "stored_channel J (view d) addr = Some ch"
    "process_acquired S clk cancelled now key proposed action fromWeb ch (OnDB d) = (Inr st, e')"
  using assms by (auto simp: ProcessAction_def run_inv)

lemma touches_bind_lift: "(\<And>x. r = Inr x \<Longrightarrow> touches A (f x)) \<Longrightarrow> touches A (dbind (dlift r) f)"
  by (cases r) (simp_all add: touches_def dbind_def dlift_def)

lemma touches_bind_iter:
  assumes "\<And>kvs. \<forall>kv \<in> set kvs. prefix p (fst kv) \<Longrightarrow> touches A (f (kvs, None))"
  shows "touches A (dbind (NewIterator (svL S) p fwd) f)"
proof -
  have "\<forall>kv \<in> set (iter_order fwd (with_prefix p (reads e))). prefix p (fst kv)" for e
    by (auto simp: iter_order_def with_prefix_def)
  with assms show ?thesis by (auto simp: touches_def dbind_def)
qed

lemma saved_key: "getSavedChannelStateKey E ch body = Inr k \<Longrightarrow> other_key k"
  by (auto simp: getSavedChannelStateKey_def run_inv)

lemma touches_cleanup: "\<forall>kv \<in> set kvs. other_key (fst kv) \<Longrightarrow> touches other_key (cleanup_loop (svL S) k kvs)"
  by (induction kvs) (auto intro!: touch)

lemma touches_pending [touch]:
  "touches other_key (SaveChannelPendingState (svL S) P E ch body)"
  "touches other_key (CleanupChannelPendingStates (svL S) E ch body)"
proof -
  have pre: "prefix (pending_prefix a) k \<Longrightarrow> other_key k" for a k
    by (auto simp: prefix_def)
  show "touches other_key (SaveChannelPendingState (svL S) P E ch body)"
    unfolding SaveChannelPendingState_def Let_def by (intro touches_bind_lift touch) (rule saved_key)
  show "touches other_key (CleanupChannelPendingStates (svL S) E ch body)"
    unfolding CleanupChannelPendingStates_def Let_def
    by (intro touches_bind_lift touches_transaction touches_bind touches_wrap touches_delete touches_bind_iter)
      (auto simp: run_inv intro: saved_key touches_cleanup pre)
qed

lemma update_our_ok:
  assumes "updateOurStateWithAction S clk cancelled ch0 action details e = (Inr (ch, f, st), e')"
  shows "touches other_key (f x)" "same_chan ch0 ch" "frame other_key e e'"
    "\<exists>cur body. LoadSignedState (svE S) ch0 = Inr cur \<and> sign_state S ch body = Inr st \<and>
       (body = next_body S ch (sbBody cur) \<or> ch = ch0 \<and> body = sbBody cur)"
proof -
  obtain cur upd e1 where r: "LoadSignedState (svE S) ch0 = Inr cur"
      "propose_update S clk cancelled ch0 action details e = (Inr upd, e1)"
      "(let (ch', onSuccess, body) = (case upd of None \<Rightarrow> (ch0, \<lambda>_. dret (), sbBody cur)
         | Some (ch', f) \<Rightarrow> (ch', f, next_body S ch' (sbBody cur))) in
       dbind (dlift (sign_state S ch' body)) (\<lambda>st. dret (ch', onSuccess, st))) e1 = (Inr (ch, f, st), e')"
    using assms by (auto simp: updateOurStateWithAction_def run_inv)
  then have e: "e' = e1" "(case upd of None \<Rightarrow> ch = ch0 \<and> f = (\<lambda>_. dret ()) \<and> sign_state S ch (sbBody cur) = Inr st
      | Some x \<Rightarrow> x = (ch, f) \<and> sign_state S ch (next_body S ch (sbBody cur)) = Inr st)"
    by (auto simp: run_inv Let_def split: option.splits)
  with givesD [OF propose_update_ok(1) r(2)] show "touches other_key (f x)" "same_chan ch0 ch"
    by (auto simp: touches_pure split: option.splits)
  show "frame other_key e e'" using touchesD [OF propose_update_ok(2) r(2)] e(1) by simp
  show "\<exists>cur body. LoadSignedState (svE S) ch0 = Inr cur \<and> sign_state S ch body = Inr st \<and>
       (body = next_body S ch (sbBody cur) \<or> ch = ch0 \<and> body = sbBody cur)"
    using r(1) e(2) by (cases upd) auto
qed

text \<open>A transaction that updates a channel and goes on beside the channels stores the channel.\<close>

lemma commit_update:
  assumes "Transaction (svL S) (dbind (dwrap m (UpdateChannel (svL S) J (svOnChannel S) now ch)) g) (OnDB d) = (Inr u, e')"
    "\<And>x. touches other_key (g x)"
  shows "\<exists>d' data. e' = OnDB d' \<and> Marshal J (ch\<lparr>DBVersion := now\<rparr>) = Inr data \<and> (\<forall>a. map_of (view d') (channel_key a) =
    (if a = sdAddress (Our ch) then Some data else map_of (view d) (channel_key a)))"
proof -
  define t where "t = dbind (dwrap m (UpdateChannel (svL S) J (svOnChannel S) now ch)) g"
  have run: "Transaction (svL S) t (OnDB d) = (Inr u, e')" using assms(1) by (simp add: t_def)
  then obtain e1 where t: "t (OnTx d (snap d) []) = (Inr u, e1)" by (auto simp: tx_run split: prod.splits sum.splits)
  then obtain c e2 where r: "UpdateChannel (svL S) J (svOnChannel S) now ch (OnTx d (snap d) []) = (Inr c, e2)"
      "g c e2 = (Inr u, e1)" by (auto simp: t_def run_inv)
  obtain data b1 where b: "c = ch\<lparr>DBVersion := now\<rparr>" "Marshal J c = Inr data"
      "e2 = OnTx d (snap d) (BPut (channel_key (sdAddress (Our ch))) data # b1)" "\<forall>w \<in> set b1. other_key (op_key w)"
    using update_channel_tx [OF r(1)] by auto
  from touchesD [OF assms(2) r(2)] b obtain b2 where
    e1: "e1 = OnTx d (snap d) ([] @ BPut (channel_key (sdAddress (Our ch))) data # (b1 @ b2))"
    and "\<forall>w \<in> set [] \<union> set (b1 @ b2). other_key (op_key w)"
    by (cases e1) auto
  from commit_channel [OF run t [unfolded e1] this(2)] b show ?thesis by blast
qed

lemma propose_fresh:
  assumes "proposeAction S clk cancelled now peer addr action details (OnDB d) = (Inr (), e')"
  obtains d' ch0 ch cur body state toSend res st c data where "e' = OnDB d'"
    "stored_channel J (view d) addr = Some ch0" "same_chan ch0 ch" "LoadSignedState (svE S) ch0 = Inr cur"
    "sign_state S ch body = Inr state" "body = next_body S ch (sbBody cur) \<or> ch = ch0 \<and> body = sbBody cur"
    "ToCell (cnSigned (svE S)) state = Inr toSend" "peer toSend action = Inr res" "accept_answer S ch state res = Inr st"
    "ToCell (cnSigned (svE S)) st = Inr c" "Marshal J (ch\<lparr>SignedState := Some c, DBVersion := now\<rparr>) = Inr data"
    "\<forall>a. map_of (view d') (channel_key a) = (if a = sdAddress (Our ch0) then Some data else map_of (view d) (channel_key a))"
proof -
  obtain ch0 ch f state e1 e2 toSend res st c where r: "stored_channel J (view d) addr = Some ch0"
      "updateOurStateWithAction S clk cancelled ch0 action details (OnDB d) = (Inr (ch, f, state), e1)"
      "SaveChannelPendingState (svL S) (svPendingJ S) (svE S) ch (sbBody state) e1 = (Inr (), e2)"
      "ToCell (cnSigned (svE S)) state = Inr toSend" "peer toSend action = Inr res" "accept_answer S ch state res = Inr st"
      "ToCell (cnSigned (svE S)) st = Inr c"
      "Transaction (svL S) (dbind (dwrap ''failed to update channel in db''
         (UpdateChannel (svL S) J (svOnChannel S) now (ch\<lparr>SignedState := Some c\<rparr>))) (\<lambda>x.
         dbind (dwrap ''failed to delete pending state'' (CleanupChannelPendingStates (svL S) (svE S) x (sbBody state))) (\<lambda>_.
         dwrap ''failed to execute on success in tx'' (f x)))) e2 = (Inr (), e')"
    using assms by (auto simp: proposeAction_def run_inv)
  note u = update_our_ok [OF r(2)]
  from frame_trans [OF u(3) touchesD [OF touches_pending(1) r(3)]] obtain d1 where d1: "e2 = OnDB d1"
      "\<And>a. map_of (view d1) (channel_key a) = map_of (view d) (channel_key a)" using frame_channels by blast
  have "touches other_key (dbind (dwrap ''failed to delete pending state'' (CleanupChannelPendingStates (svL S) (svE S) x (sbBody state)))
      (\<lambda>_. dwrap ''failed to execute on success in tx'' (f x)))" for x
    by (intro touch u(1))
  from commit_update [OF r(8) [unfolded d1(1)] this] obtain d' data where d': "e' = OnDB d'"
      "Marshal J (ch\<lparr>SignedState := Some c, DBVersion := now\<rparr>) = Inr data"
      "\<And>a. map_of (view d') (channel_key a) = (if a = sdAddress (Our ch) then Some data else map_of (view d1) (channel_key a))"
    by auto
  obtain cur body where "LoadSignedState (svE S) ch0 = Inr cur" "sign_state S ch body = Inr state"
      "body = next_body S ch (sbBody cur) \<or> ch = ch0 \<and> body = sbBody cur" using u(4) by blast
  then show thesis
    using same_chanD(1) [OF u(2)] r(1,4-7) d' d1(2) u(2) by (intro that) auto
qed

lemma propose_rolls: "rolls (proposeAction S clk cancelled now peer addr action details)"
proof -
  have "touches other_key (updateOurStateWithAction S clk cancelled ch action details)" for ch
    unfolding updateOurStateWithAction_def by (intro touch propose_update_ok)
  then show ?thesis
    unfolding proposeAction_def case_prod_beta by (intro rolls_bind rolls_transaction touch)
qed

end

section \<open>Signed states\<close>

text \<open>
  A channel is synced when its dictionaries hash to its latest state, and that state carries valid
  signatures of both sides: it can be enforced on-chain.
\<close>

definition synced :: "('b, 's, 'c, 'm, 'd, 't, 'j) svc \<Rightarrow> ('m, 'c) Channel \<Rightarrow> bool" where
  "synced S ch \<longleftrightarrow> (\<exists>st. LoadSignedState (svE S) ch = Inr st \<and>
     sbA (sbBody st) = side_hashes S (SideA ch) \<and> sbB (sbBody st) = side_hashes S (SideB ch) \<and>
     (SignedState ch \<noteq> None \<longrightarrow>
       StateBodySigned_Verify (svE S) st (Some (OnchainKey (SideA ch))) (Some (OnchainKey (SideB ch))) = Inr ()))"

definition channels_synced :: "('b, 's, 'c, 'm, 'd, 't, 'j) svc \<Rightarrow> (bytes, bytes) omap \<Rightarrow> bool" where
  "channels_synced S m \<longleftrightarrow> (\<forall>a ch. stored_channel (svChannelJ S) m a = Some ch \<longrightarrow>
     sdAddress (Our ch) = a \<and> OnchainKey (Our ch) = svPub S \<and> synced S ch)"

lemma check_hashes_iff: "check_hashes S ch body = Inr () \<longleftrightarrow>
    sbA body = side_hashes S (SideA ch) \<and> sbB body = side_hashes S (SideB ch)"
  by (cases "sbA body"; cases "sbB body") (auto simp: check_hashes_def SideA_def SideB_def side_hashes_def Let_def)

lemma next_body_sides: "sbA (next_body S ch b) = side_hashes S (SideA ch)" "sbB (next_body S ch b) = side_hashes S (SideB ch)"
  by (simp_all add: next_body_def SideA_def SideB_def Let_def)

lemma verify_both: "StateBodySigned_Verify E st (Some a) (Some b) = Inr () \<longleftrightarrow>
    (\<exists>c. ToCell (cnBody E) (sbBody st) = Inr c \<and> cnVerify E a (CellHash (cnL E) c) (SignatureA st) \<and>
       cnVerify E b (CellHash (cnL E) c) (SignatureB st))"
  by (auto simp: StateBodySigned_Verify_def check_side_def run_inv)

lemma verify_one:
  "StateBodySigned_Verify E st (Some a) None = Inr () \<longleftrightarrow>
    (\<exists>c. ToCell (cnBody E) (sbBody st) = Inr c \<and> cnVerify E a (CellHash (cnL E) c) (SignatureA st) \<and> SignatureB st = zeros 64)"
  "StateBodySigned_Verify E st None (Some b) = Inr () \<longleftrightarrow>
    (\<exists>c. ToCell (cnBody E) (sbBody st) = Inr c \<and> cnVerify E b (CellHash (cnL E) c) (SignatureB st) \<and> SignatureA st = zeros 64)"
  by (auto simp: StateBodySigned_Verify_def check_side_def run_inv)

text \<open>A node that can sign: its key pair works, and its stored channels and states are read back.\<close>

locale signing_node = node S view sview snap
  for S :: "('b, 's, 'c, 'm, 'd, 't, 'j) svc"
    and view :: "'d \<Rightarrow> (bytes, bytes) omap"
    and sview :: "'t \<Rightarrow> (bytes, bytes) omap"
    and snap :: "'d \<Rightarrow> 't" +
  assumes signs: "cnVerify (svE S) (svPub S) h (svSign S (svKey S) h)"
    and channel_json: "json_rt (svChannelJ S)"
    and signed_codec: "codec_rt (cnL (svE S)) (cnSigned (svE S))"
begin

lemma stored_written: "Marshal J ch = Inr data \<Longrightarrow> map_of m (channel_key a) = Some data \<Longrightarrow> stored_channel J m a = Some ch"
  using channel_json by (auto simp: stored_channel_def json_rt_def)

definition verified :: "('m, 'c) Channel \<Rightarrow> StateBodySigned \<Rightarrow> bool" where
  "verified ch proposed \<longleftrightarrow> (if WeLeft ch then StateBodySigned_Verify (svE S) proposed None (Some (OnchainKey (Their ch))) = Inr ()
     else StateBodySigned_Verify (svE S) proposed (Some (OnchainKey (Their ch))) None = Inr ())"

lemma check_proposal_verified: "check_proposal S key ch proposed = Inr cur \<longleftrightarrow> chStatus ch \<noteq> ChannelStateInactive \<and>
    AcceptingActions ch \<and> key = OnchainKey (Their ch) \<and> LoadSignedState (svE S) ch = Inr cur \<and> verified ch proposed"
  by (auto simp: check_proposal_def verified_def run_inv Let_def)

lemma countersign_verifies:
  assumes "countersign S ch proposed = Inr st" "verified ch proposed" "OnchainKey (Our ch) = svPub S"
  shows "sbBody st = sbBody proposed" "take_signature ch st proposed = st"
    "StateBodySigned_Verify (svE S) st (Some (OnchainKey (SideA ch))) (Some (OnchainKey (SideB ch))) = Inr ()"
proof -
  show "sbBody st = sbBody proposed"
    using assms(1) by (auto simp: countersign_def run_inv)
  show "take_signature ch st proposed = st"
    using assms(1) by (cases "WeLeft ch") (auto simp: countersign_def take_signature_def run_inv)
  show "StateBodySigned_Verify (svE S) st (Some (OnchainKey (SideA ch))) (Some (OnchainKey (SideB ch))) = Inr ()"
    using assms signs by (cases "WeLeft ch")
      (auto simp: countersign_def sign_body_def run_inv verify_both verify_one verified_def SideA_def SideB_def)
qed

lemma answer_verifies:
  assumes "sign_state S ch body = Inr state" "accept_answer S ch state res = Inr st" "OnchainKey (Our ch) = svPub S"
  shows "sbBody st = body" "StateBodySigned_Verify (svE S) st (Some (OnchainKey (SideA ch))) (Some (OnchainKey (SideB ch))) = Inr ()"
proof -
  from assms show "sbBody st = body"
    by (auto simp: sign_state_def accept_answer_def take_signature_def run_inv split: if_splits option.splits)
  from assms signs show "StateBodySigned_Verify (svE S) st (Some (OnchainKey (SideA ch))) (Some (OnchainKey (SideB ch))) = Inr ()"
    by (cases "WeLeft ch")
      (auto simp: sign_state_def sign_body_def accept_answer_def take_signature_def run_inv verify_both SideA_def SideB_def
        split: if_splits option.splits)
qed

text \<open>Writing a channel with a verified state over its own hashes keeps the table synced.\<close>

lemma synced_written:
  assumes "ToCell (cnSigned (svE S)) st = Inr c" "SignedState ch = Some c"
    "sbA (sbBody st) = side_hashes S (SideA ch)" "sbB (sbBody st) = side_hashes S (SideB ch)"
    "StateBodySigned_Verify (svE S) st (Some (OnchainKey (SideA ch))) (Some (OnchainKey (SideB ch))) = Inr ()"
  shows "synced S ch" "LoadSignedState (svE S) ch = Inr st"
proof -
  show l: "LoadSignedState (svE S) ch = Inr st"
    using assms(1,2) signed_codec by (simp add: LoadSignedState_def codec_rt_def)
  show "synced S ch" using assms l by (auto simp: synced_def)
qed

lemma channels_synced_upd:
  assumes "channels_synced S (view d)" "Marshal J ch = Inr data" "sdAddress (Our ch) = a" "OnchainKey (Our ch) = svPub S" "synced S ch"
    "\<And>a'. map_of (view d') (channel_key a') = (if a' = a then Some data else map_of (view d) (channel_key a'))"
  shows "channels_synced S (view d')"
  using assms stored_written [OF assms(2), of "view d'" a]
  by (auto simp: channels_synced_def stored_channel_def split: if_splits option.splits)

lemma same_channels_synced:
  "channels_synced S (view d) \<Longrightarrow> (\<And>a. map_of (view d') (channel_key a) = map_of (view d) (channel_key a)) \<Longrightarrow> channels_synced S (view d')"
  by (simp add: channels_synced_def stored_channel_def)

text \<open>A fresh proposal that is accepted.\<close>

lemma accepted_fresh:
  assumes "channels_synced S (view d)" "stored_channel J (view d) addr = Some ch"
    "process_acquired S clk cancelled now key proposed action fromWeb ch (OnDB d) = (Inr st, e')"
    "check_proposal S key ch proposed = Inr cur" "sbSeqno (sbBody proposed) \<noteq> sbSeqno (sbBody cur)"
  obtains d' ch' where "e' = OnDB d'" "channels_synced S (view d')" "stored_channel J (view d') addr = Some ch'"
    "LoadSignedState (svE S) ch' = Inr st" "sbBody st = sbBody proposed" "take_signature ch' st proposed = st"
    "check_proposal S key ch' proposed = Inr st" "synced S ch'" "SignedState ch' \<noteq> None"
    "sbSeqno (sbBody proposed) = sbSeqno (sbBody cur) + 1"
proof -
  have inv: "sdAddress (Our ch) = addr" "OnchainKey (Our ch) = svPub S" using assms(1,2) by (auto simp: channels_synced_def)
  obtain d' ch1 data c where r: "e' = OnDB d'" "sbSeqno (sbBody proposed) = sbSeqno (sbBody cur) + 1" "same_chan ch ch1"
      "check_hashes S ch1 (sbBody proposed) = Inr ()" "countersign S ch1 proposed = Inr st"
      "ToCell (cnSigned (svE S)) st = Inr c"
      "Marshal J (ch1\<lparr>SignedState := Some c, WebPeer := fromWeb, DBVersion := now\<rparr>) = Inr data"
      "\<And>a. map_of (view d') (channel_key a) = (if a = sdAddress (Our ch) then Some data else map_of (view d) (channel_key a))"
    using process_fresh [OF assms(3-5)] by metis
  define ch' where "ch' = ch1\<lparr>SignedState := Some c, WebPeer := fromWeb, DBVersion := now\<rparr>"
  note f = same_chanD [OF r(3)]
  have k: "WeLeft ch' = WeLeft ch" "SideA ch' = SideA ch1" "SideB ch' = SideB ch1" "OnchainKey (Our ch') = svPub S"
      "OnchainKey (Their ch') = OnchainKey (Their ch)" "sdAddress (Our ch') = addr"
    using f inv by (simp_all add: ch'_def SideA_def SideB_def)
  have v: "verified ch' proposed"
    using assms(4) k by (auto simp: check_proposal_verified verified_def)
  have "countersign S ch' proposed = Inr st" using r(5) by (simp add: countersign_def ch'_def)
  note cs = countersign_verifies [OF this v k(4)]
  have "SignedState ch' = Some c" "sbA (sbBody st) = side_hashes S (SideA ch')" "sbB (sbBody st) = side_hashes S (SideB ch')"
    using r(4) cs(1) k by (simp_all add: ch'_def check_hashes_iff)
  note sy = synced_written [OF r(6) this cs(3)]
  show thesis
  proof (rule that [OF r(1)])
    show "channels_synced S (view d')"
      using channels_synced_upd [OF assms(1) r(7) _ _ _ r(8)] k sy inv by (simp add: ch'_def)
    show "stored_channel J (view d') addr = Some ch'"
      using stored_written [OF r(7), of "view d'" addr] r(8) inv by (simp add: ch'_def)
    show "check_proposal S key ch' proposed = Inr st"
      using assms(4) sy(2) v f by (simp add: check_proposal_verified ch'_def)
  qed (use sy cs r(2) in \<open>auto simp: ch'_def\<close>)
qed

lemma redelivered:
  assumes "process_acquired S clk cancelled now key proposed action fromWeb ch e = (Inr st, e')"
    "check_proposal S key ch proposed = Inr cur" "sbSeqno (sbBody proposed) = sbSeqno (sbBody cur)"
  shows "e' = e" "sbBody st = sbBody cur"
  using assms by (auto simp: process_acquired_def redelivery_def take_signature_def run_inv Let_def)

text \<open>Whatever was answered, the answered state has the body of the stored one.\<close>

lemma accepted:
  assumes "channels_synced S (view d)"
    "ProcessAction S clk cancelled now lock key addr proposed action fromWeb (OnDB d) = (Inr st, e')"
  obtains d' ch' st' where "e' = OnDB d'" "channels_synced S (view d')" "stored_channel J (view d') addr = Some ch'"
    "LoadSignedState (svE S) ch' = Inr st'" "sbBody st' = sbBody st" "synced S ch'"
proof -
  from ProcessAction_cases [OF assms(2)] obtain ch where ch: "stored_channel J (view d) addr = Some ch"
    "process_acquired S clk cancelled now key proposed action fromWeb ch (OnDB d) = (Inr st, e')" .
  then obtain cur where cur: "check_proposal S key ch proposed = Inr cur" by (auto simp: process_acquired_def run_inv)
  show thesis
  proof (cases "sbSeqno (sbBody proposed) = sbSeqno (sbBody cur)")
    case True
    from redelivered [OF ch(2) cur True] cur ch(1) assms(1) that show thesis
      by (auto simp: check_proposal_verified channels_synced_def)
  next
    case False
    from accepted_fresh [OF assms(1) ch cur False] that show thesis by metis
  qed
qed

lemma proposed:
  assumes "channels_synced S (view d)" "proposeAction S clk cancelled now peer addr action details (OnDB d) = (Inr (), e')"
  obtains d' ch' st toSend state res where "e' = OnDB d'" "channels_synced S (view d')" "stored_channel J (view d') addr = Some ch'"
    "LoadSignedState (svE S) ch' = Inr st" "synced S ch'" "SignedState ch' \<noteq> None"
    "LoadState (cnL (svE S)) (cnSigned (svE S)) toSend = Inr state" "sbBody state = sbBody st"
    "peer toSend action = Inr res" "\<exists>ch. accept_answer S ch state res = Inr st"
proof -
  from propose_fresh [OF assms(2)] obtain d' ch0 ch cur body state toSend res st c data where r: "e' = OnDB d'"
    "stored_channel J (view d) addr = Some ch0" "same_chan ch0 ch" "LoadSignedState (svE S) ch0 = Inr cur"
    "sign_state S ch body = Inr state" "body = next_body S ch (sbBody cur) \<or> ch = ch0 \<and> body = sbBody cur"
    "ToCell (cnSigned (svE S)) state = Inr toSend" "peer toSend action = Inr res" "accept_answer S ch state res = Inr st"
    "ToCell (cnSigned (svE S)) st = Inr c" "Marshal J (ch\<lparr>SignedState := Some c, DBVersion := now\<rparr>) = Inr data"
    "\<forall>a. map_of (view d') (channel_key a) = (if a = sdAddress (Our ch0) then Some data else map_of (view d) (channel_key a))" .
  have inv: "sdAddress (Our ch0) = addr" "OnchainKey (Our ch0) = svPub S" "synced S ch0"
    using assms(1) r(2) by (auto simp: channels_synced_def)
  define ch' where "ch' = ch\<lparr>SignedState := Some c, DBVersion := now\<rparr>"
  have k: "SideA ch' = SideA ch" "SideB ch' = SideB ch" "OnchainKey (Our ch') = svPub S" "sdAddress (Our ch') = addr"
      "OnchainKey (Our ch) = svPub S"
    using same_chanD [OF r(3)] inv by (simp_all add: ch'_def SideA_def SideB_def)
  note an = answer_verifies [OF r(5,9) k(5)]
  have h: "sbA body = side_hashes S (SideA ch)" "sbB body = side_hashes S (SideB ch)"
    using r(4,6) inv(3) by (auto simp: next_body_sides synced_def)
  have "SignedState ch' = Some c" by (simp add: ch'_def)
  note sy = synced_written [OF r(10) this, unfolded an(1) k(1,2), OF h an(2)]
  show thesis
  proof (rule that [OF r(1)])
    show "channels_synced S (view d')"
      using channels_synced_upd [OF assms(1) r(11) _ _ _ r(12) [rule_format]] k sy inv by (simp add: ch'_def)
    show "stored_channel J (view d') addr = Some ch'"
      using stored_written [OF r(11), of "view d'" addr] r(12) inv by (simp add: ch'_def)
    show "LoadState (cnL (svE S)) (cnSigned (svE S)) toSend = Inr state"
      using signed_codec r(7) by (simp add: codec_rt_def)
    show "sbBody state = sbBody st" using r(5) an(1) by (auto simp: sign_state_def run_inv)
  qed (use sy r(8,9) in \<open>auto simp: ch'_def\<close>)
qed

text \<open>A proposal to increment, signed by the peer over the hashes of the channel, is always accepted.\<close>

lemma increment_accepted:
  assumes "stored_channel J (view d) addr = Some ch" "sdAddress (Our ch) = addr" "lock ch = Inr ()"
    "check_proposal S key ch proposed = Inr cur" "sbSeqno (sbBody proposed) = sbSeqno (sbBody cur) + 1"
    "check_hashes S ch (sbBody proposed) = Inr ()" "countersign S ch proposed = Inr st" "ToCell (cnSigned (svE S)) st = Inr c"
    "Marshal J (ch\<lparr>SignedState := Some c, WebPeer := fromWeb, DBVersion := now\<rparr>) = Inr data"
  shows "\<exists>d'. ProcessAction S clk cancelled now lock key addr proposed (IncrementStates False) fromWeb (OnDB d) = (Inr st, OnDB d')"
proof -
  let ?c = "ch\<lparr>SignedState := Some c, WebPeer := fromWeb\<rparr>"
  have "sbSeqno (sbBody proposed) \<noteq> sbSeqno (sbBody cur)" using assms(5) by simp
  moreover obtain e' where "UpdateChannel (svL S) J (svOnChannel S) now ?c (OnTx d (snap d) []) = (Inr (?c\<lparr>DBVersion := now\<rparr>), e')"
    using assms(1,2,9) by (auto simp: UpdateChannel_def Let_def run_inv run_cb_def)
  then have "\<exists>d'. Transaction (svL S) (dbind (dret ()) (\<lambda>_. dwrap ''failed to update channel in db''
      (UpdateChannel (svL S) J (svOnChannel S) now ?c))) (OnDB d) = (Inr (?c\<lparr>DBVersion := now\<rparr>), OnDB d')"
    by (simp add: tx_run dbind_def dret_def dwrap_def)
  ultimately show ?thesis
    using assms by (auto simp: ProcessAction_def process_acquired_def process_update_def process_increment_def run_inv)
qed

lemma redelivered_same:
  assumes "channels_synced S (view d)"
    and "ProcessAction S clk cancelled now lock key addr proposed action fromWeb (OnDB d) = (Inr st, OnDB d')"
    and "stored_channel J (view d) addr = Some ch" "LoadSignedState (svE S) ch = Inr cur"
    and "sbSeqno (sbBody proposed) \<noteq> sbSeqno (sbBody cur)" "\<And>x. lock' x = Inr ()"
  shows "ProcessAction S clk' cancelled' now' lock' key addr proposed action' fromWeb' (OnDB d') = (Inr st, OnDB d')"
proof -
  have run: "process_acquired S clk cancelled now key proposed action fromWeb ch (OnDB d) = (Inr st, OnDB d')"
    using ProcessAction_cases [OF assms(2)] assms(3) by (metis option.inject)
  then have "check_proposal S key ch proposed = Inr cur"
    using assms(4) by (auto simp: process_acquired_def run_inv check_proposal_verified)
  from accepted_fresh [OF assms(1,3) run this assms(5)] obtain ch' where c: "channels_synced S (view d')"
      "stored_channel J (view d') addr = Some ch'" "sbBody st = sbBody proposed" "take_signature ch' st proposed = st"
      "check_proposal S key ch' proposed = Inr st" "synced S ch'" "SignedState ch' \<noteq> None" "LoadSignedState (svE S) ch' = Inr st"
    by (metis executor.inject(1))
  then have "redelivery S ch' st proposed = Inr st" by (auto simp: redelivery_def synced_def)
  with c show ?thesis
    by (auto simp: ProcessAction_def process_acquired_def run_inv assms(6))
qed

lemma ProcessAction_synced:
  assumes "channels_synced S (view d)"
    "ProcessAction S clk cancelled now lock key addr proposed action fromWeb (OnDB d) = (r, e')"
  shows "\<exists>d'. e' = OnDB d' \<and> channels_synced S (view d')"
proof (cases r)
  case (Inl err)
  with assms(2) ProcessAction_rolls have "frame other_key (OnDB d) e'" unfolding rolls_def by blast
  with frame_channels same_channels_synced [OF assms(1)] show ?thesis by metis
next
  case (Inr st)
  with accepted [OF assms(1) assms(2) [unfolded Inr]] show ?thesis by metis
qed

lemma proposeAction_synced:
  assumes "channels_synced S (view d)" "proposeAction S clk cancelled now peer addr action details (OnDB d) = (r, e')"
  shows "\<exists>d'. e' = OnDB d' \<and> channels_synced S (view d')"
proof (cases r)
  case (Inl err)
  with assms(2) propose_rolls have "frame other_key (OnDB d) e'" unfolding rolls_def by blast
  with frame_channels same_channels_synced [OF assms(1)] show ?thesis by metis
next
  case (Inr u)
  then have "r = Inr ()" by (cases u) simp
  with proposed [OF assms(1) assms(2) [unfolded this]] show ?thesis by metis
qed

end

section \<open>Answers\<close>

lemma handler_agreed:
  assumes "handle_ProposeAction E err_text process (Some key) cell e = (Inr res, e')" "Agreed res"
  shows "\<exists>state st c. LoadState (cnL E) (cnSigned E) cell = Inr state \<and> process key state e = (Inr st, e') \<and>
    ToCell (cnSigned E) st = Inr c \<and> pdSignedState res = Some c"
  using assms by (cases "LoadState (cnL E) (cnSigned E) cell") (auto simp: handle_ProposeAction_def run_inv)

lemma answer_accepted: "accept_answer S ch state res = Inr st \<Longrightarrow> \<exists>c theirs cb cb'. Agreed res \<and> pdSignedState res = Some c \<and>
    LoadState (cnL (svE S)) (cnSigned (svE S)) c = Inr theirs \<and> ToCell (cnBody (svE S)) (sbBody state) = Inr cb \<and>
    ToCell (cnBody (svE S)) (sbBody theirs) = Inr cb' \<and> CellHash (cnL (svE S)) cb = CellHash (cnL (svE S)) cb'"
  by (auto simp: accept_answer_def run_inv split: if_splits option.splits)

end
