(* ===== verification/AgreementProps.thy ===== *)
theory AgreementProps
  imports Agreement ChannelLaws MetaLaws
begin

text \<open>
  Properties of the update protocol, and two sample nodes with a channel between them on which they
  are applied.
\<close>

section \<open>Samples\<close>

text \<open>Two nodes with a channel between them; their codecs cover the values of the sample run.\<close>

lemma table_codec_rt: "codec_rt (ton_cells h) (table_codec xs)"
proof -
  have "LoadState (ton_cells h) (table_codec xs) (ex_code i) = Inr (xs ! i)" if "i < min 8 (length xs)" for i
    using that by (simp add: LoadState_def table_codec_def ton_cells_def ex_code_def t_take_def bits_nat_nat_bits)
  with table_codec_cell show ?thesis unfolding codec_rt_def by metis
qed

lemma table_json_rt: "json_rt (table_json xs)"
  by (auto simp: json_rt_def table_json_def find_Some_iff split: option.splits)

definition any_json :: "'a json" where
  "any_json = \<lparr>Marshal = (\<lambda>_. Inr []), Unmarshal = (\<lambda>_. Inl (Errorf ''unsupported''))\<rparr>"

definition ex_pub :: "bool \<Rightarrow> bytes" where
  "ex_pub left = replicate 32 (if left then CHR ''a'' else CHR ''b'')"

definition ex_body :: "uint64 \<Rightarrow> StateBody" where
  "ex_body n = \<lparr>sbChannelID = zeros 16, sbSeqno = n, sbA = empty_side, sbB = empty_side\<rparr>"

definition ex_foreign_body :: StateBody where
  "ex_foreign_body = (ex_body 1)\<lparr>sbChannelID := []\<rparr>"

definition ex_bodies :: "StateBody list" where
  "ex_bodies = [ex_body 0, ex_body 1, ex_foreign_body]"

definition ex_sig :: "bool \<Rightarrow> bytes" where
  "ex_sig left = ex_pub left @ be_put 32 2"

definition ex_proposed :: StateBodySigned where
  "ex_proposed = \<lparr>SignatureA = ex_sig True, SignatureB = zeros 64, sbBody = ex_body 1\<rparr>"

definition ex_agreed :: StateBodySigned where
  "ex_agreed = \<lparr>SignatureA = ex_sig True, SignatureB = ex_sig False, sbBody = ex_body 1\<rparr>"

definition ex_foreign :: "bool \<Rightarrow> StateBodySigned" where
  "ex_foreign signed_by_both = \<lparr>SignatureA = ex_pub True @ be_put 32 3,
     SignatureB = (if signed_by_both then ex_pub False @ be_put 32 3 else zeros 64), sbBody = ex_foreign_body\<rparr>"

definition ex_states :: "StateBodySigned list" where
  "ex_states = [ex_proposed, ex_agreed, ex_foreign False, ex_foreign True]"

definition ex_node_side :: "bool \<Rightarrow> tdict Side" where
  "ex_node_side left = (ex_side (if left then ''a'' else ''b'') 100 [])\<lparr>OnchainKey := ex_pub left\<rparr>"

definition ex_node_channel :: "bool \<Rightarrow> (tdict, tcell) Channel" where
  "ex_node_channel left = ex_channel\<lparr>WeLeft := left, Our := ex_node_side left, Their := ex_node_side (\<not> left)\<rparr>"

definition ex_next_channel :: "bool \<Rightarrow> (tdict, tcell) Channel" where
  "ex_next_channel left = (ex_node_channel left)\<lparr>SignedState := Some (ex_code 1), DBVersion := 5\<rparr>"

definition ex_foreign_channel :: "bool \<Rightarrow> (tdict, tcell) Channel" where
  "ex_foreign_channel left = (ex_node_channel left)\<lparr>SignedState := Some (ex_code 3), DBVersion := 5\<rparr>"

definition ex_channels :: "bool \<Rightarrow> (tdict, tcell) Channel list" where
  "ex_channels left = [ex_node_channel left, ex_next_channel left, ex_foreign_channel left]"

definition ex_node_env :: "(tdata, tdata, tcell, tdict) chan_env" where
  "ex_node_env = ex_chan_env\<lparr>cnSigned := table_codec ex_states, cnBody := table_codec ex_bodies\<rparr>"

definition ex_svc :: "bool \<Rightarrow> (tdata, tdata, tcell, tdict, mem, msnap, unit) svc" where
  "ex_svc left = \<lparr>svE = ex_node_env, svT = \<lparr>tlK = \<lparr>SharedKey = (\<lambda>_ _. Inl (Errorf ''unsupported'')),
       BuildSharedCipher = (\<lambda>_ _. Inl (Errorf ''unsupported'')), PublicKey = (\<lambda>k. k), ToBOC = (\<lambda>_. []),
       FromBOC = (\<lambda>_. Inl (Errorf ''unsupported''))\<rparr>, tlSha256 = (\<lambda>_. zeros 32),
       tlInstruction = (\<lambda>_. Inl (Errorf ''unsupported'')), tlParseInstruction = (\<lambda>_. Inl (Errorf ''unsupported'')),
       tlInstructions = (\<lambda>_. Inl (Errorf ''unsupported'')), tlSign = (\<lambda>k m. k @ m), tlVerify = (\<lambda>k m s. s = k @ m)\<rparr>,
     svL = mem_db, svChannelJ = table_json (ex_channels left), svMetaJ = ex_meta_json,
     svDJ = \<lparr>djAny = (\<lambda>_. Inl (Errorf ''unsupported'')), djDetails = (\<lambda>_. Inl (Errorf ''unsupported'')), djPack = (\<lambda>_. ())\<rparr>,
     svHistoryJ = any_json, svPendingJ = any_json, svTaskJ = any_json, svCodeJ = any_json,
     svPayload = (\<lambda>_. Inr []), svEventData = (\<lambda>_. Inr []), svCommitSigned = no_codec, svCommitMsg = no_codec,
     svOnChannel = None, svOnHistory = None, svOnSwap = None, svWebhook = None, svHedgeSend = (\<lambda>_. Inr ()),
     svToBOC = (\<lambda>_. []), WebhookURL = [], svKey = ex_pub left, svPub = ex_pub left, svSign = (\<lambda>k m. k @ m),
     svKnown = [], svParseAddr = (\<lambda>_. Inr []), svAmount = (\<lambda>_ _. []), MinSafeVirtualChannelTimeoutSec = 0,
     AcceptingDerivatives = False, AllowOnTheirSide = False\<rparr>"

definition ex_node_db :: "bool \<Rightarrow> mem" where
  "ex_node_db left = [BPut (channel_key (if left then ''a'' else ''b'')) []]"

lemma ex_svc_sel [simp]:
  "svL (ex_svc left) = mem_db" "svE (ex_svc left) = ex_node_env" "svOnChannel (ex_svc left) = None"
  "svOnHistory (ex_svc left) = None" "svWebhook (ex_svc left) = None" "svPub (ex_svc left) = ex_pub left"
  "svSign (ex_svc left) = (\<lambda>k m. k @ m)" "svKey (ex_svc left) = ex_pub left"
  "svChannelJ (ex_svc left) = table_json (ex_channels left)"
  "svPendingJ (ex_svc left) = any_json" "svParseAddr (ex_svc left) = (\<lambda>_. Inr [])"
  by (simp_all add: ex_svc_def)

lemma ex_node_env_sel [simp]:
  "cnC ex_node_env = ex_cond_env None" "cnD ex_node_env = ton_dict" "cnSigned ex_node_env = table_codec ex_states"
  "cnBody ex_node_env = table_codec ex_bodies" "cnVerify ex_node_env = (\<lambda>k m s. s = k @ m)"
  by (simp_all add: ex_node_env_def, simp_all add: ex_chan_env_def)

interpretation ex_node: signing_node "ex_svc left" mem_view msnap_view Snap for left
proof (intro signing_node.intro node.intro signing_node_axioms.intro node_axioms.intro)
  show "leveldb_laws (svL (ex_svc left)) mem_view msnap_view Snap" using mem.leveldb_laws_axioms by simp
qed (simp_all add: table_json_rt table_codec_rt)

lemma ex_node_stored [simp]:
  "stored_channel (table_json (ex_channels left)) (mem_view (ex_node_db left)) a =
     (if a = (if left then ''a'' else ''b'') then Some (ex_node_channel left) else None)"
  by (simp add: stored_channel_def ex_node_db_def mem_view_def table_json_def ex_channels_def)

lemma ex_node_sel [simp]:
  "OnchainKey (ex_node_side left) = ex_pub left" "WeLeft (ex_node_channel left) = left" "Our (ex_node_channel left) = ex_node_side left"
  "Their (ex_node_channel left) = ex_node_side (\<not> left)" "SignedState (ex_node_channel left) = None"
  "sdAddress (ex_node_side left) = (if left then ''a'' else ''b'')" "chID (ex_node_channel left) = zeros 16"
  "LatestCommitedSeqno (ex_node_side left) = 0" "chStatus (ex_node_channel left) = ChannelStateActive"
  "AcceptingActions (ex_node_channel left)" "DBVersion (ex_node_channel left) = 1" "WebPeer (ex_node_channel left) = False"
  "side_hashes (ex_svc x) (ex_node_side left) = empty_side"
  by (simp_all add: ex_node_side_def ex_node_channel_def side_hashes_def dict_hash_def empty_side_def ton_dict_def,
      simp_all add: ex_side_def ex_channel_def)

lemma ex_node_load [simp]: "LoadSignedState ex_node_env (ex_node_channel left) =
    Inr \<lparr>SignatureA = zeros 64, SignatureB = zeros 64, sbBody = ex_body 0\<rparr>"
  by (simp add: LoadSignedState_def ex_body_def)

lemma ex_node_synced: "channels_synced (ex_svc left) (mem_view (ex_node_db left))"
proof -
  have "synced (ex_svc left) (ex_node_channel left)"
    by (simp add: synced_def SideA_def SideB_def ex_body_def)
  then show ?thesis by (cases left) (simp_all add: channels_synced_def)
qed

lemma ex_signed [simp]: "ex_pub left @ x \<noteq> zeros 64" "zeros 64 \<noteq> ex_pub left @ x"
proof -
  have "hd (ex_pub left @ x) \<noteq> hd (zeros 64)" by (simp add: ex_pub_def hd_append zeros_def char_of_def)
  then show "ex_pub left @ x \<noteq> zeros 64" "zeros 64 \<noteq> ex_pub left @ x" by metis+
qed

lemma ex_codes [simp]:
  "ToCell (table_codec ex_bodies) (ex_body 1) = Inr (ex_code 1)"
  "ToCell (table_codec ex_states) ex_agreed = Inr (ex_code 1)" "ToCell (table_codec ex_states) ex_proposed = Inr (ex_code 0)"
  "CellHash (ton_cells ex_hash) (ex_code (Suc 0)) = be_put 32 2"
proof -
  show "ToCell (table_codec ex_bodies) (ex_body 1) = Inr (ex_code 1)"
    by (simp add: table_codec_def ex_bodies_def ex_body_def upt_conv_Cons)
  show "ToCell (table_codec ex_states) ex_agreed = Inr (ex_code 1)" "ToCell (table_codec ex_states) ex_proposed = Inr (ex_code 0)"
    by (simp_all add: table_codec_def ex_states_def ex_agreed_def ex_proposed_def ex_sig_def upt_conv_Cons)
  show "CellHash (ton_cells ex_hash) (ex_code (Suc 0)) = be_put 32 2"
    by (simp add: ton_cells_def ex_code_def bits_nat_nat_bits) (simp add: numeral_2_eq_2)
qed

lemma mem_tx [simp]: "Transaction mem_db f (OnDB d) = (case f (OnTx d (Snap d) []) of
    (Inl err, _) \<Rightarrow> (Inl err, OnDB d) | (Inr x, tx) \<Rightarrow> (Inr x, OnDB (d @ tx_batch tx)))"
proof -
  have "snd (DbWrite mem_db d b) = d @ b" for b by (simp add: mem_db_def)
  then show ?thesis by (simp add: mem.tx_run split: prod.splits sum.splits)
qed

lemma ex_get [simp]: "GetChannel mem_db J a e = (case stored_channel J (mem.reads e) a of
    Some ch \<Rightarrow> (Inr ch, e) | None \<Rightarrow> GetChannel mem_db J a e)"
  by (auto simp: GetChannel_def get_json_def dcatch_def dbind_def dlift_def lookup_res_def stored_channel_def split: option.splits sum.splits)

lemma ex_update [simp]:
  assumes "stored_channel (table_json (ex_channels left)) (msnap_view s) (if left then ''a'' else ''b'') =
    Some (ex_node_channel left)"
  shows "UpdateChannel mem_db (table_json (ex_channels left)) None 5 ((ex_node_channel left)\<lparr>SignedState := Some (ex_code (Suc 0))\<rparr>)
    (OnTx d s b) =
   (Inr (ex_next_channel left), OnTx d s (b @ [BPut (channel_key (if left then ''a'' else ''b'')) ''1'']))"
proof -
  have "(ex_node_channel left)\<lparr>SignedState := Some (ex_code (Suc 0)), DBVersion := 5\<rparr> = ex_next_channel left"
    by (simp add: ex_next_channel_def)
  moreover have "ex_node_channel left \<noteq> ex_next_channel left"
    using ex_node_sel(11) [of left] by (auto simp: ex_next_channel_def dest: arg_cong [where f = DBVersion])
  then have "Marshal (table_json (ex_channels left)) (ex_next_channel left) = Inr ''1''"
    by (simp add: table_json_def ex_channels_def upt_conv_Cons)
  ultimately show ?thesis using assms by (cases left) (simp_all add: UpdateChannel_def Let_def run_cb_def)
qed

lemma ex_keep [simp]: "(ex_node_channel left)\<lparr>SignedState := s, WebPeer := False\<rparr> = (ex_node_channel left)\<lparr>SignedState := s\<rparr>"
  "sbBody ex_proposed = ex_body 1" "sbSeqno (ex_body n) = n"
  by (simp_all add: ex_node_channel_def ex_proposed_def ex_body_def) (simp add: ex_channel_def)

lemma ex_check: "check_proposal (ex_svc False) (ex_pub True) (ex_node_channel False) ex_proposed =
    Inr \<lparr>SignatureA = zeros 64, SignatureB = zeros 64, sbBody = ex_body 0\<rparr>"
  by (simp add: check_proposal_def ex_proposed_def StateBodySigned_Verify_def check_side_def ex_sig_def)

lemma ex_hashes: "check_hashes (ex_svc x) (ex_node_channel left) (ex_body 1) = Inr ()"
  by (simp add: check_hashes_iff SideA_def SideB_def ex_body_def)

lemma ex_countersign: "countersign (ex_svc False) (ex_node_channel False) ex_proposed = Inr ex_agreed"
  by (simp add: countersign_def sign_body_def ex_proposed_def ex_agreed_def ex_sig_def)

lemma ex_process: "ProcessAction (ex_svc False) clk cancelled 5 (\<lambda>_. Inr ()) (ex_pub True) ''b'' ex_proposed (IncrementStates False) False
    (OnDB (ex_node_db False)) = (Inr ex_agreed, OnDB (ex_node_db False @ [BPut (channel_key ''b'') ''1'']))"
  by (simp add: ProcessAction_def process_acquired_def ex_check process_update_def process_increment_def ex_hashes ex_countersign)

abbreviation ex_service :: "(nat \<Rightarrow> nat \<Rightarrow> gtime) \<Rightarrow> (int \<Rightarrow> bool) \<Rightarrow> tcell transport_action \<Rightarrow> bytes \<Rightarrow> StateBodySigned \<Rightarrow>
   (mem, msnap, StateBodySigned) dbm" where
  "ex_service clk cancelled act \<equiv> (\<lambda>key st. ProcessAction (ex_svc False) clk cancelled 5 (\<lambda>_. Inr ()) key ''b'' st act False)"

lemma ex_handle: "handle_ProposeAction ex_node_env err_text (ex_service clk cancelled (IncrementStates False)) (Some (ex_pub True)) (ex_code 0) (OnDB (ex_node_db False)) = (Inr \<lparr>Agreed = True, Reason = [], pdSignedState = Some (ex_code 1)\<rparr>,
      OnDB (ex_node_db False @ [BPut (channel_key ''b'') ''1'']))"
proof -
  have "LoadState (ton_cells ex_hash) (table_codec ex_states) (ex_code 0) = Inr ex_proposed"
    using table_codec_rt [of ex_hash ex_states] unfolding codec_rt_def by simp
  then show ?thesis by (simp add: handle_ProposeAction_def ex_process dtry_def)
qed

lemma ex_cleanup: "\<exists>b'. cleanup_loop mem_db k kvs (OnTx d s b) = (Inr (), OnTx d s b')"
  by (induction kvs arbitrary: b) auto

lemma ex_cleanup_pending: "\<exists>b'. CleanupChannelPendingStates mem_db ex_node_env ch (ex_body 1) (OnTx d s b) = (Inr (), OnTx d s b')"
  using ex_cleanup by (simp add: CleanupChannelPendingStates_def getSavedChannelStateKey_def Let_def)

lemma ex_accept: "accept_answer (ex_svc True) (ex_node_channel True) ex_proposed
    \<lparr>Agreed = True, Reason = [], pdSignedState = Some (ex_code (Suc 0))\<rparr> = Inr ex_agreed"
proof -
  have "LoadState (ton_cells ex_hash) (table_codec ex_states) (ex_code (Suc 0)) = Inr ex_agreed"
    using table_codec_rt [of ex_hash ex_states] unfolding codec_rt_def by simp
  moreover have "StateBodySigned_Verify ex_node_env ex_agreed (Some (ex_pub True)) (Some (ex_pub False)) = Inr ()" "sbBody ex_agreed = ex_body 1"
    by (simp_all add: verify_both ex_agreed_def ex_sig_def)
  moreover have "take_signature (ex_node_channel True) ex_proposed ex_agreed = ex_agreed"
    by (simp add: take_signature_def ex_agreed_def ex_proposed_def)
  ultimately show ?thesis by (simp add: accept_answer_def SideA_def SideB_def)
qed

lemma ex_propose: "\<exists>d. proposeAction (ex_svc True) clk cancelled 5
    (\<lambda>cell act. fst (handle_ProposeAction ex_node_env err_text (ex_service clk cancelled act) (Some (ex_pub True)) cell (OnDB (ex_node_db False)))) ''a'' (IncrementStates False) NoDetails (OnDB (ex_node_db True)) = (Inr (), OnDB d)"
proof -
  have n: "next_body (ex_svc True) (ex_node_channel True) (ex_body 0) = ex_body 1"
    by (simp add: next_body_def ex_body_def)
  have s: "sign_state (ex_svc True) (ex_node_channel True) (ex_body 1) = Inr ex_proposed"
    by (simp add: sign_state_def sign_body_def ex_proposed_def ex_sig_def)
  let ?k = "pending_prefix ''a'' @ seqno_bytes 1 @ be_put 32 2"
  have st: "stored_channel (table_json (ex_channels True)) (mem_view (ex_node_db True @ [BPut ?k []])) ''a'' =
      Some (ex_node_channel True)"
    using ex_node_stored [of True "''a''"] by (simp add: stored_channel_def mem_view_def pending_prefix_def channel_key_def)
  have sv: "SaveChannelPendingState mem_db any_json ex_node_env (ex_node_channel True) (ex_body 1) (OnDB (ex_node_db True)) =
      (Inr (), OnDB (ex_node_db True @ [BPut ?k []]))"
    by (simp add: SaveChannelPendingState_def getSavedChannelStateKey_def put_once_def any_json_def ex_node_db_def mem_view_def
        pending_prefix_def channel_key_def)
  let ?d = "ex_node_db True @ [BPut ?k []]"
  obtain b where c: "CleanupChannelPendingStates mem_db ex_node_env (ex_next_channel True) (ex_body 1)
      (OnTx ?d (Snap ?d) [BPut (channel_key ''a'') ''1'']) = (Inr (), OnTx ?d (Snap ?d) b)"
    using ex_cleanup_pending by blast
  show ?thesis
    by (simp add: proposeAction_def MustParseAddr_def c updateOurStateWithAction_def propose_update_def n s ex_handle ex_accept sv st)
qed

definition ex_peer :: "tcell \<Rightarrow> tcell transport_action \<Rightarrow> tcell ProposalDecision res" where
  "ex_peer cell act = fst (handle_ProposeAction (svE (ex_svc False)) (\<lambda>_. []) (ex_service (\<lambda>_ _. 0) (\<lambda>_. False) act) (Some (ex_pub True)) cell (OnDB (ex_node_db False)))"

lemma ex_peer_propose: "\<exists>d'. proposeAction (ex_svc True) (\<lambda>_ _. 0) (\<lambda>_. False) 5 ex_peer ''a'' (IncrementStates False) NoDetails
    (OnDB (ex_node_db True)) = (Inr (), OnDB d')"
proof -
  have "ex_peer = (\<lambda>cell act. fst (handle_ProposeAction ex_node_env (\<lambda>_. []) (ex_service (\<lambda>_ _. 0) (\<lambda>_. False) act) (Some (ex_pub True)) cell (OnDB (ex_node_db False))))"
    by (intro ext) (simp add: ex_peer_def)
  with ex_propose show ?thesis by metis
qed

lemma ex_distinct [simp]: "zeros 16 \<noteq> []" "[] \<noteq> zeros 16" "ex_code (Suc 0) \<noteq> ex_code 3" "ex_code 3 \<noteq> ex_code (Suc 0)" "ex_foreign_body \<noteq> ex_body n" "ex_body n \<noteq> ex_foreign_body"
proof -
  show z: "zeros 16 \<noteq> []" "[] \<noteq> zeros 16" by (simp_all add: zeros_def)
  show "ex_code (Suc 0) \<noteq> ex_code 3" "ex_code 3 \<noteq> ex_code (Suc 0)" by code_simp+
  show "ex_foreign_body \<noteq> ex_body n" "ex_body n \<noteq> ex_foreign_body" using z by (auto simp: ex_foreign_body_def ex_body_def)
qed

lemma ex_body_hash:
  assumes "ToCell (table_codec ex_bodies) x = Inr c" "ToCell (table_codec ex_bodies) y = Inr c'"
    "CellHash (ton_cells ex_hash) c = CellHash (ton_cells ex_hash) c'"
  shows "x = y"
proof -
  have "be_put 32 (Suc i) = be_put 32 (Suc j) \<Longrightarrow> i = j" if "i < 8" "j < 8" for i j
  proof -
    assume "be_put 32 (Suc i) = be_put 32 (Suc j)"
    moreover have "Suc i < 256 ^ 32" "Suc j < 256 ^ 32" using that by simp_all
    ultimately show "i = j" by (metis be_get_put nat.inject)
  qed
  moreover have "CellHash (ton_cells ex_hash) (ex_code i) = be_put 32 (Suc i)" if "i < 8" for i
    using that by (simp add: ton_cells_def ex_code_def bits_nat_nat_bits)
  ultimately show ?thesis using assms table_codec_cell by (metis min_less_iff_conj)
qed

lemma ex_foreign_sel [simp]: "sbBody (ex_foreign x) = ex_foreign_body" "sbSeqno ex_foreign_body = 1" "sbChannelID ex_foreign_body = []"
  "sbA ex_foreign_body = empty_side" "sbB ex_foreign_body = empty_side"
  by (simp_all add: ex_foreign_def ex_foreign_body_def ex_body_def)

lemma ex_foreign_code [simp]: "ToCell (table_codec ex_bodies) ex_foreign_body = Inr (ex_code 2)"
  "ToCell (table_codec ex_states) (ex_foreign True) = Inr (ex_code 3)" "CellHash (ton_cells ex_hash) (ex_code 2) = be_put 32 3"
proof -
  show "ToCell (table_codec ex_bodies) ex_foreign_body = Inr (ex_code 2)"
    by (simp add: table_codec_def ex_bodies_def upt_conv_Cons) (simp add: numeral_2_eq_2)
  have "ex_proposed \<noteq> ex_foreign True" "ex_agreed \<noteq> ex_foreign True" "ex_foreign False \<noteq> ex_foreign True"
    by (simp_all add: ex_proposed_def ex_agreed_def ex_foreign_def)
  then show "ToCell (table_codec ex_states) (ex_foreign True) = Inr (ex_code 3)"
    by (simp add: table_codec_def ex_states_def upt_conv_Cons) (simp add: numeral_3_eq_3)
  show "CellHash (ton_cells ex_hash) (ex_code 2) = be_put 32 3"
    by (simp add: ton_cells_def ex_code_def bits_nat_nat_bits)
qed

lemma ex_foreign_check: "check_proposal (ex_svc False) (ex_pub True) (ex_node_channel False) (ex_foreign False) =
    Inr \<lparr>SignatureA = zeros 64, SignatureB = zeros 64, sbBody = ex_body 0\<rparr>"
  by (simp add: check_proposal_def StateBodySigned_Verify_def check_side_def) (simp add: ex_foreign_def)

lemma ex_foreign_countersign: "countersign (ex_svc False) (ex_node_channel False) (ex_foreign False) = Inr (ex_foreign True)"
  by (simp add: countersign_def sign_body_def) (simp add: ex_foreign_def)

lemma ex_foreign_runs: "check_hashes (ex_svc x) (ex_node_channel left) ex_foreign_body = Inr ()"
  "Marshal (table_json (ex_channels left)) ((ex_node_channel left)\<lparr>SignedState := Some (ex_code 3), DBVersion := 5\<rparr>) = Inr ''11''"
  "(ex_node_channel left)\<lparr>SignedState := s, WebPeer := False, DBVersion := n\<rparr> = (ex_node_channel left)\<lparr>SignedState := s, DBVersion := n\<rparr>"
proof -
  show "check_hashes (ex_svc x) (ex_node_channel left) ex_foreign_body = Inr ()"
    by (simp add: check_hashes_iff SideA_def SideB_def)
  have "ex_foreign_channel left \<noteq> ex_node_channel left" "ex_foreign_channel left \<noteq> ex_next_channel left"
    using ex_node_sel(5) [of left] by (auto simp: ex_foreign_channel_def ex_next_channel_def dest!: arg_cong [where f = SignedState])
  then have "Marshal (table_json (ex_channels left)) (ex_foreign_channel left) = Inr ''11''"
    by (auto simp: table_json_def ex_channels_def upt_conv_Cons numeral_2_eq_2)
  then show "Marshal (table_json (ex_channels left)) ((ex_node_channel left)\<lparr>SignedState := Some (ex_code 3), DBVersion := 5\<rparr>) = Inr ''11''"
    by (simp add: ex_foreign_channel_def)
qed (simp add: ex_node_channel_def, simp add: ex_channel_def)

section \<open>Properties\<close>

text \<open>C17: A rejected proposal leaves every stored channel as it was: whatever check fails, on either
  layer, and whatever was already prepared for the action.\<close>

theorem rejected_proposal_changes_nothing:
  assumes "node S view sview snap"
    and "ProcessAction S clk cancelled now lock key addr proposed action fromWeb (OnDB d) = (Inl err, e')"
  shows "\<exists>d'. e' = OnDB d' \<and> (\<forall>a. stored_channel (svChannelJ S) (view d') a = stored_channel (svChannelJ S) (view d) a)"
proof -
  have "leveldb_laws.frame view other_key (OnDB d) e'"
    using node.ProcessAction_rolls [OF assms(1)] assms(2) unfolding node.rolls_def [OF assms(1)] by blast
  with node.frame_channels [OF assms(1)] show ?thesis by (fastforce simp: stored_channel_def)
qed

theorem rejected_proposal_changes_nothing_witness:
  "\<exists>err d'. ProcessAction (ex_svc False) (\<lambda>_ _. 0) (\<lambda>_. False) 5 (\<lambda>_. Inr ()) (ex_pub False) ''b'' ex_proposed (IncrementStates False) False
     (OnDB (ex_node_db False)) = (Inl err, OnDB d') \<and>
   (\<forall>a. stored_channel (svChannelJ (ex_svc False)) (mem_view d') a = stored_channel (svChannelJ (ex_svc False)) (mem_view (ex_node_db False)) a)"
proof -
  have "ex_pub False \<noteq> ex_pub True" by (simp add: ex_pub_def)
  then have "\<exists>err e'. ProcessAction (ex_svc False) (\<lambda>_ _. 0) (\<lambda>_. False) 5 (\<lambda>_. Inr ()) (ex_pub False) ''b'' ex_proposed (IncrementStates False) False
      (OnDB (ex_node_db False)) = (Inl err, e')"
    by (simp add: ProcessAction_def process_acquired_def check_proposal_def)
  with rejected_proposal_changes_nothing [OF ex_node.node_axioms [of False], of "\<lambda>_ _. 0" "\<lambda>_. False" 5 "\<lambda>_. Inr ()" "ex_pub False" "''b''"
      ex_proposed "IncrementStates False" False "ex_node_db False"]
  show ?thesis by blast
qed

text \<open>C2: The dictionaries of every stored channel stay covered by a state signed by both sides: handling
  a proposal, accepted or not, keeps all channels synced.\<close>

theorem proposals_keep_channels_synced:
  assumes "signing_node S view sview snap" "channels_synced S (view d)"
    and "ProcessAction S clk cancelled now lock key addr proposed action fromWeb (OnDB d) = (r, e')"
  shows "\<exists>d'. e' = OnDB d' \<and> channels_synced S (view d')"
  by (rule signing_node.ProcessAction_synced [OF assms])

theorem proposals_keep_channels_synced_witness:
  "\<exists>d'. ProcessAction (ex_svc False) (\<lambda>_ _. 0) (\<lambda>_. False) 5 (\<lambda>_. Inr ()) (ex_pub True) ''b'' ex_proposed (IncrementStates False) False
     (OnDB (ex_node_db False)) = (Inr ex_agreed, OnDB d') \<and> channels_synced (ex_svc False) (mem_view d')"
  using proposals_keep_channels_synced [OF ex_node.signing_node_axioms ex_node_synced ex_process] ex_process by auto

text \<open>C24: Proposing keeps all channels synced as well, whatever the peer answers.\<close>

theorem proposing_keeps_channels_synced:
  assumes "signing_node S view sview snap" "channels_synced S (view d)"
    and "proposeAction S clk cancelled now peer addr action details (OnDB d) = (r, e')"
  shows "\<exists>d'. e' = OnDB d' \<and> channels_synced S (view d')"
  by (rule signing_node.proposeAction_synced [OF assms])

theorem proposing_keeps_channels_synced_witness:
  "\<exists>d'. proposeAction (ex_svc True) (\<lambda>_ _. 0) (\<lambda>_. False) 5 ex_peer ''a'' (IncrementStates False) NoDetails (OnDB (ex_node_db True)) =
     (Inr (), OnDB d') \<and> channels_synced (ex_svc True) (mem_view d')"
proof -
  obtain d' where d: "proposeAction (ex_svc True) (\<lambda>_ _. 0) (\<lambda>_. False) 5 ex_peer ''a'' (IncrementStates False) NoDetails (OnDB (ex_node_db True)) =
      (Inr (), OnDB d')"
    using ex_peer_propose by blast
  from proposing_keeps_channels_synced [OF ex_node.signing_node_axioms ex_node_synced d] d show ?thesis by auto
qed

text \<open>C1: Two nodes that run an update agree: once the proposer succeeds against a peer that handles its
  proposal, both store a state with the same body, and the hashes of each side's dictionaries are the
  same on both nodes.\<close>

theorem update_agreed:
  assumes "signing_node S1 view1 sview1 snap1" "channels_synced S1 (view1 d1)"
    and "signing_node S2 view2 sview2 snap2" "channels_synced S2 (view2 d2)"
    and same_lib: "cnSigned (svE S2) = cnSigned (svE S1)" "cnL (svE S2) = cnL (svE S1)"
    and no_collision: "\<And>x y c c'. ToCell (cnBody (svE S1)) x = Inr c \<Longrightarrow> ToCell (cnBody (svE S1)) y = Inr c' \<Longrightarrow>
      CellHash (cnL (svE S1)) c = CellHash (cnL (svE S1)) c' \<Longrightarrow> x = y"
    and run: "proposeAction S1 clk1 cancelled1 now1
        (\<lambda>cell act. fst (handle_ProposeAction (svE S2) err_text (\<lambda>key st. ProcessAction S2 clk2 cancelled2 now2 lock key addr2 st act web)
        (Some key) cell (OnDB d2)))
        addr1 action details (OnDB d1) = (Inr (), e1)"
  shows "\<exists>d1' ch1 st1 cell d2' ch2 st2. e1 = OnDB d1' \<and> stored_channel (svChannelJ S1) (view1 d1') addr1 = Some ch1 \<and>
    snd (handle_ProposeAction (svE S2) err_text (\<lambda>key st. ProcessAction S2 clk2 cancelled2 now2 lock key addr2 st action web)
        (Some key) cell (OnDB d2)) = OnDB d2' \<and>
    stored_channel (svChannelJ S2) (view2 d2') addr2 = Some ch2 \<and>
    LoadSignedState (svE S1) ch1 = Inr st1 \<and> LoadSignedState (svE S2) ch2 = Inr st2 \<and> sbBody st1 = sbBody st2 \<and>
    side_hashes S1 (SideA ch1) = side_hashes S2 (SideA ch2) \<and> side_hashes S1 (SideB ch1) = side_hashes S2 (SideB ch2)"
proof -
  let ?H = "\<lambda>cell. handle_ProposeAction (svE S2) err_text (\<lambda>key st. ProcessAction S2 clk2 cancelled2 now2 lock key addr2 st action web)
        (Some key) cell (OnDB d2)"
  from signing_node.proposed [OF assms(1,2) run] obtain d1' ch1 st1 toSend state res where p: "e1 = OnDB d1'"
      "stored_channel (svChannelJ S1) (view1 d1') addr1 = Some ch1" "LoadSignedState (svE S1) ch1 = Inr st1" "synced S1 ch1"
      "LoadState (cnL (svE S1)) (cnSigned (svE S1)) toSend = Inr state" "sbBody state = sbBody st1"
      "fst (?H toSend) = Inr res" "\<exists>ch. accept_answer S1 ch state res = Inr st1" by metis
  from p(8) answer_accepted obtain c theirs cb cb' where ans: "Agreed res" "pdSignedState res = Some c"
      "LoadState (cnL (svE S1)) (cnSigned (svE S1)) c = Inr theirs" "ToCell (cnBody (svE S1)) (sbBody state) = Inr cb"
      "ToCell (cnBody (svE S1)) (sbBody theirs) = Inr cb'" "CellHash (cnL (svE S1)) cb = CellHash (cnL (svE S1)) cb'"
    by metis
  then have same: "sbBody theirs = sbBody st1" using no_collision p(6) by metis
  obtain e2 where h: "?H toSend = (Inr res, e2)" using p(7) by (cases "?H toSend") auto
  from handler_agreed [OF h ans(1)] ans(2) obtain state' st where
      st: "ProcessAction S2 clk2 cancelled2 now2 lock key addr2 state' action web (OnDB d2) = (Inr st, e2)"
      "ToCell (cnSigned (svE S2)) st = Inr c" by auto
  then have "theirs = st" using ans(3) signing_node.signed_codec [OF assms(3)] same_lib by (auto simp: codec_rt_def)
  moreover from signing_node.accepted [OF assms(3,4) st(1)] obtain d2' ch2 st2 where "e2 = OnDB d2'"
      "stored_channel (svChannelJ S2) (view2 d2') addr2 = Some ch2" "LoadSignedState (svE S2) ch2 = Inr st2"
      "sbBody st2 = sbBody st" "synced S2 ch2" by metis
  moreover from this p(3,4) same \<open>theirs = st\<close>
  have "side_hashes S1 (SideA ch1) = side_hashes S2 (SideA ch2)" "side_hashes S1 (SideB ch1) = side_hashes S2 (SideB ch2)"
    by (auto simp: synced_def)
  ultimately show ?thesis using p(1-3) same h by (metis snd_conv)
qed

theorem update_agreed_witness:
  "\<exists>d1' ch1 st1 cell d2' ch2 st2. proposeAction (ex_svc True) (\<lambda>_ _. 0) (\<lambda>_. False) 5 ex_peer ''a'' (IncrementStates False) NoDetails
      (OnDB (ex_node_db True)) = (Inr (), OnDB d1') \<and>
    stored_channel (svChannelJ (ex_svc True)) (mem_view d1') ''a'' = Some ch1 \<and>
    snd (handle_ProposeAction (svE (ex_svc False)) (\<lambda>_. []) (ex_service (\<lambda>_ _. 0) (\<lambda>_. False) (IncrementStates False)) (Some (ex_pub True)) cell (OnDB (ex_node_db False))) = OnDB d2' \<and>
    stored_channel (svChannelJ (ex_svc False)) (mem_view d2') ''b'' = Some ch2 \<and>
    LoadSignedState (svE (ex_svc True)) ch1 = Inr st1 \<and> LoadSignedState (svE (ex_svc False)) ch2 = Inr st2 \<and> sbBody st1 = sbBody st2 \<and>
    side_hashes (ex_svc True) (SideA ch1) = side_hashes (ex_svc False) (SideA ch2) \<and>
    side_hashes (ex_svc True) (SideB ch1) = side_hashes (ex_svc False) (SideB ch2)"
proof -
  obtain d' where d: "proposeAction (ex_svc True) (\<lambda>_ _. 0) (\<lambda>_. False) 5 ex_peer ''a'' (IncrementStates False) NoDetails (OnDB (ex_node_db True)) =
      (Inr (), OnDB d')"
    using ex_peer_propose by blast
  have env: "svE (ex_svc False) = svE (ex_svc True)" by simp
  from update_agreed [OF ex_node.signing_node_axioms ex_node_synced ex_node.signing_node_axioms ex_node_synced _ _ _
      d [unfolded ex_peer_def], unfolded env] ex_body_hash d
  show ?thesis by (simp add: env)
qed

text \<open>C25: A lost answer does no harm: proposing the same state again after it was accepted gives the same
  countersigned state and changes nothing.\<close>

theorem redelivered_proposal_same_answer:
  assumes "signing_node S view sview snap" "channels_synced S (view d)"
    and "ProcessAction S clk cancelled now lock key addr proposed action fromWeb (OnDB d) = (Inr st, OnDB d')"
    and "stored_channel (svChannelJ S) (view d) addr = Some ch" "LoadSignedState (svE S) ch = Inr cur"
    and "sbSeqno (sbBody proposed) \<noteq> sbSeqno (sbBody cur)"
    and "\<And>x. lock' x = Inr ()"
  shows "ProcessAction S clk' cancelled' now' lock' key addr proposed action' fromWeb' (OnDB d') = (Inr st, OnDB d')"
  by (rule signing_node.redelivered_same [OF assms])

theorem redelivered_proposal_same_answer_witness:
  "\<exists>d'. ProcessAction (ex_svc False) (\<lambda>_ _. 0) (\<lambda>_. False) 5 (\<lambda>_. Inr ()) (ex_pub True) ''b'' ex_proposed (IncrementStates False) False
     (OnDB (ex_node_db False)) = (Inr ex_agreed, OnDB d') \<and>
   ProcessAction (ex_svc False) (\<lambda>_ _. 1) (\<lambda>_. False) 6 (\<lambda>_. Inr ()) (ex_pub True) ''b'' ex_proposed (IncrementStates False) False
     (OnDB d') = (Inr ex_agreed, OnDB d')"
proof -
  have "stored_channel (svChannelJ (ex_svc False)) (mem_view (ex_node_db False)) ''b'' = Some (ex_node_channel False)"
      "LoadSignedState (svE (ex_svc False)) (ex_node_channel False) = Inr \<lparr>SignatureA = zeros 64, SignatureB = zeros 64, sbBody = ex_body 0\<rparr>"
      "sbSeqno (sbBody ex_proposed) \<noteq> sbSeqno (sbBody \<lparr>SignatureA = zeros 64, SignatureB = zeros 64, sbBody = ex_body 0\<rparr>)"
    by simp_all
  from redelivered_proposal_same_answer [where lock' = "\<lambda>_. Inr ()", OF ex_node.signing_node_axioms ex_node_synced ex_process this]
  show ?thesis using ex_process by blast
qed

text \<open>C36: The channel identifier of a proposal is never compared with the channel's own. A proposal over
  a foreign channel identifier, otherwise in order, is countersigned and becomes the latest state of
  the channel.\<close>

theorem foreign_channel_id_countersigned:
  assumes "signing_node S view sview snap" "stored_channel (svChannelJ S) (view d) addr = Some ch"
    and "sdAddress (Our ch) = addr" "lock ch = Inr ()"
    and "check_proposal S key ch proposed = Inr cur" "sbSeqno (sbBody proposed) = sbSeqno (sbBody cur) + 1"
    and "check_hashes S ch (sbBody proposed) = Inr ()" "countersign S ch proposed = Inr st"
    and "ToCell (cnSigned (svE S)) st = Inr c"
    and "Marshal (svChannelJ S) (ch\<lparr>SignedState := Some c, WebPeer := fromWeb, DBVersion := now\<rparr>) = Inr data"
    and "sbChannelID (sbBody proposed) \<noteq> chID ch"
  shows "\<exists>d'. ProcessAction S clk cancelled now lock key addr proposed (IncrementStates False) fromWeb (OnDB d) = (Inr st, OnDB d') \<and>
    sbChannelID (sbBody st) \<noteq> chID ch"
proof -
  have "sbBody st = sbBody proposed" using assms(8) by (auto simp: countersign_def run_inv)
  with signing_node.increment_accepted [where lock = lock, OF assms(1-10)] assms(11) show ?thesis by simp
qed

theorem foreign_channel_id_countersigned_witness:
  "\<exists>d'. ProcessAction (ex_svc False) (\<lambda>_ _. 0) (\<lambda>_. False) 5 (\<lambda>_. Inr ()) (ex_pub True) ''b'' (ex_foreign False) (IncrementStates False) False
     (OnDB (ex_node_db False)) = (Inr (ex_foreign True), OnDB d') \<and> sbChannelID (sbBody (ex_foreign True)) \<noteq> chID (ex_node_channel False)"
  by (rule foreign_channel_id_countersigned [where lock = "\<lambda>_. Inr ()" and data = "''11''", OF ex_node.signing_node_axioms [of False] _ _ _ ex_foreign_check _ _
        ex_foreign_countersign]) (simp_all add: ex_foreign_runs, rule ex_foreign_runs(2))

end
