(* ===== verification/Locks.thy ===== *)
theory Locks
  imports ChannelTypes "HOL-Library.Multiset"
begin

text \<open>
  Channel locks: \<open>AcquireChannel\<close>, \<open>ProcessExternalChannelLock\<close> and \<open>ProcessIsChannelLocked\<close> of
  \<^verbatim>\<open>tonpayments/service.go\<close>. A node works on a channel only while it holds the channel's lock; the left
  side is the lock master, the right side asks it first. The lock table and the external lock of a
  peer are the state; a returned unlock function is a value, since what matters is which lock it
  releases. Unlocking a mutex that is not locked is a fatal error in Go, here a panic.
\<close>

section \<open>State\<close>

type_synonym int64 = "64 word"

record channelLock =
  clId :: int64
  clHeld :: bool

datatype unlock = UnlockNothing | UnlockLocal string | UnlockRemote string int64

text \<open>
  The goroutine that watches an external lock: the address and the identifier of the lock and its
  unlock function, which the goroutine captures; \<open>wtClosed\<close> is its closed channel, \<open>wtAsking\<close> that its
  question to the peer is on the way, \<open>wtDone\<close> that it has returned.
\<close>

record watcher =
  wtAddr :: string
  wtId :: int64
  wtUnlock :: unlock
  wtClosed :: bool
  wtAsking :: bool
  wtDone :: bool

text \<open>\<open>externalLock\<close> holds the unlock function of a watched lock: the position of its watcher.\<close>

record lockTable =
  channelLocks :: "string \<Rightarrow> channelLock option"
  externalLock :: "nat option"
  lockWatchers :: "watcher list"

record Decision =
  dcAgreed :: bool
  dcReason :: string
  dcSignature :: bytes

definition no_locks :: lockTable where
  "no_locks = \<lparr>channelLocks = Map.empty, externalLock = None, lockWatchers = []\<rparr>"

section \<open>Unlocking\<close>

definition mx_unlock :: "string \<Rightarrow> lockTable \<Rightarrow> lockTable res" where
  "mx_unlock addr st = (case channelLocks st addr of
     None \<Rightarrow> Inl (Panic ''nil pointer dereference'')
   | Some l \<Rightarrow> if clHeld l then Inr (st\<lparr>channelLocks := (channelLocks st)(addr \<mapsto> l\<lparr>clHeld := False\<rparr>)\<rparr>)
       else Inl (Panic ''sync: unlock of unlocked mutex''))"

text \<open>The answer of the peer to a release is only logged.\<close>

fun run_unlock :: "unlock \<Rightarrow> lockTable \<Rightarrow> lockTable res" where
  "run_unlock UnlockNothing st = Inr st"
| "run_unlock (UnlockLocal addr) st = mx_unlock addr st"
| "run_unlock (UnlockRemote addr _) st = mx_unlock addr st"

section \<open>Acquiring\<close>

text \<open>
  \<open>acquire_begin\<close> is \<open>AcquireChannel\<close> up to the request to the lock master, all of it under \<open>lockerMx\<close>:
  the channel is read by \<open>get\<close>, its mutex is tried, the identifier of the lock is noted (the clock read
  \<open>now\<close> when the caller gives none). The third component is the unlock function of a lock that is
  granted at once, and \<open>None\<close> when the right side has to ask: \<open>lockerMx\<close> is then released, and the
  mutex of the channel stays locked while the request is on the way.
\<close>

definition acquire_begin ::
  "(string \<Rightarrow> ('m, 'c) Channel res) \<Rightarrow> gtime \<Rightarrow> string \<Rightarrow> int64 option \<Rightarrow>
   lockTable \<Rightarrow> (('m, 'c) Channel \<times> int64 \<times> unlock option) res \<times> lockTable" where
  "acquire_begin get now addr i st = (case get addr of Inl err \<Rightarrow> (Inl err, st)
   | Inr channel \<Rightarrow>
     let a = sdAddress (Our channel);
         l = (case channelLocks st a of None \<Rightarrow> \<lparr>clId = 0, clHeld = False\<rparr> | Some l \<Rightarrow> l);
         put = (\<lambda>l. st\<lparr>channelLocks := (channelLocks st)(a \<mapsto> l)\<rparr>) in
     if clHeld l then (if i = Some (clId l) then Inr (channel, clId l, Some UnlockNothing) else Inl ErrChannelBusy, put l)
     else
     let lockID = (case i of None \<Rightarrow> of_int now | Some i \<Rightarrow> i) in
     (Inr (channel, lockID, if WeLeft channel \<or> sint lockID < 0 then Some (UnlockLocal a) else None),
      put \<lparr>clId = lockID, clHeld = True\<rparr>))"

text \<open>The rest of \<open>AcquireChannel\<close>, when the answer \<open>r\<close> of the lock master is there.\<close>

definition acquire_finish :: "string \<Rightarrow> int64 \<Rightarrow> Decision res \<Rightarrow> lockTable \<Rightarrow> unlock res \<times> lockTable" where
  "acquire_finish a lockID r st =
     (let freed = (\<lambda>err. case mx_unlock a st of Inl panic \<Rightarrow> (Inl panic, st) | Inr st' \<Rightarrow> (Inl err, st')) in
      case r of Inl err \<Rightarrow> freed err
      | Inr d \<Rightarrow> if \<not> dcAgreed d then freed ErrChannelBusy else (Inr (UnlockRemote a lockID), st))"

text \<open>
  The whole call, with \<open>request ch id lock\<close> the peer's decision, when nothing else touches the lock
  table in between; the runs below take the two parts as separate steps.
\<close>

definition AcquireChannel ::
  "(string \<Rightarrow> ('m, 'c) Channel res) \<Rightarrow> (('m, 'c) Channel \<Rightarrow> int64 \<Rightarrow> bool \<Rightarrow> Decision res) \<Rightarrow> gtime \<Rightarrow> string \<Rightarrow> int64 option \<Rightarrow>
   lockTable \<Rightarrow> (('m, 'c) Channel \<times> int64 \<times> unlock) res \<times> lockTable" where
  "AcquireChannel get request now addr i st = (case acquire_begin get now addr i st of
     (Inl err, st) \<Rightarrow> (Inl err, st)
   | (Inr (channel, lockID, Some u), st) \<Rightarrow> (Inr (channel, lockID, u), st)
   | (Inr (channel, lockID, None), st) \<Rightarrow>
       (case acquire_finish (sdAddress (Our channel)) lockID (request channel lockID True) st of
          (Inl err, st) \<Rightarrow> (Inl err, st)
        | (Inr u, st) \<Rightarrow> (Inr (channel, lockID, u), st)))"

text \<open>\<open>ProcessAction\<close> locks under the negated identifier of the proposal.\<close>

definition acquire_for_proposal ::
  "(string \<Rightarrow> ('m, 'c) Channel res) \<Rightarrow> (('m, 'c) Channel \<Rightarrow> int64 \<Rightarrow> bool \<Rightarrow> Decision res) \<Rightarrow> gtime \<Rightarrow> string \<Rightarrow> int64 \<Rightarrow>
   lockTable \<Rightarrow> (('m, 'c) Channel \<times> int64 \<times> unlock) res \<times> lockTable" where
  "acquire_for_proposal get request now addr lockId = AcquireChannel get request now addr (Some (- lockId))"

section \<open>External locks\<close>

definition peer_channel ::
  "(string \<Rightarrow> ('m, 'c) Channel res) \<Rightarrow> bytes \<Rightarrow> string \<Rightarrow> int64 \<Rightarrow> ('m, 'c) Channel res" where
  "peer_channel get key addr i =
     (if sint i \<le> 0 then Inl (Errorf ''id must be positive'')
      else rbind (rwrap ''failed to get channel'' (get addr)) (\<lambda>channel.
        if OnchainKey (Their channel) \<noteq> key then Inl (Errorf ''unauthorized channel'') else Inr channel))"

text \<open>\<open>externalLock()\<close>: unlock, then close the channel of the watcher.\<close>

definition call_external :: "nat \<Rightarrow> lockTable \<Rightarrow> lockTable res" where
  "call_external n st = rbind (run_unlock (wtUnlock (lockWatchers st ! n)) st) (\<lambda>st.
     if wtClosed (lockWatchers st ! n) then Inl (Panic ''close of closed channel'')
     else Inr (st\<lparr>lockWatchers := (lockWatchers st)[n := (lockWatchers st ! n)\<lparr>wtClosed := True\<rparr>]\<rparr>))"

definition ProcessExternalChannelLock ::
  "(string \<Rightarrow> ('m, 'c) Channel res) \<Rightarrow> (('m, 'c) Channel \<Rightarrow> int64 \<Rightarrow> bool \<Rightarrow> Decision res) \<Rightarrow> gtime \<Rightarrow> bytes \<Rightarrow> string \<Rightarrow> int64 \<Rightarrow>
   bool \<Rightarrow> lockTable \<Rightarrow> unit res \<times> lockTable" where
  "ProcessExternalChannelLock get request now key addr i lock st = (case peer_channel get key addr i of
     Inl err \<Rightarrow> (Inl err, st)
   | Inr channel \<Rightarrow>
     if \<not> WeLeft channel then (Inl (Errorf ''not a lock master''), st)
     else if \<not> lock then (case externalLock st of
         None \<Rightarrow> (Inr (), st)
       | Some n \<Rightarrow> let st = st\<lparr>externalLock := None\<rparr> in
           case call_external n st of Inl err \<Rightarrow> (Inl err, st) | Inr st' \<Rightarrow> (Inr (), st'))
     else if externalLock st \<noteq> None then (Inl ErrChannelIsBusy, st)
     else (case AcquireChannel get request now (sdAddress (Our channel)) (Some (- i)) st of
         (Inl err, st') \<Rightarrow> (Inl err, st')
       | (Inr (_, _, u), st') \<Rightarrow> (Inr (), st'\<lparr>externalLock := Some (length (lockWatchers st')),
           lockWatchers := lockWatchers st' @ [\<lparr>wtAddr = sdAddress (Our channel), wtId = - i, wtUnlock = u, wtClosed = False, wtAsking = False, wtDone = False\<rparr>]\<rparr>)))"

text \<open>
  The watcher of an external lock wakes up every five seconds while its channel is open and asks the
  peer; when the peer says that it does not hold the lock any more, the lock is released. An error and
  a refusal start the next round.
\<close>

definition watcher_wake :: "nat \<Rightarrow> lockTable \<Rightarrow> lockTable" where
  "watcher_wake n st = (let w = lockWatchers st ! n in
     if n < length (lockWatchers st) \<and> \<not> wtClosed w \<and> \<not> wtAsking w \<and> \<not> wtDone w
     then st\<lparr>lockWatchers := (lockWatchers st)[n := w\<lparr>wtAsking := True\<rparr>]\<rparr> else st)"

definition watcher_answer :: "nat \<Rightarrow> Decision res \<Rightarrow> lockTable \<Rightarrow> lockTable res" where
  "watcher_answer n answer st = (let w = lockWatchers st ! n;
       retry = st\<lparr>lockWatchers := (lockWatchers st)[n := w\<lparr>wtAsking := False\<rparr>]\<rparr> in
     if \<not> (n < length (lockWatchers st) \<and> wtAsking w \<and> \<not> wtDone w) then Inr st
     else (case answer of Inl _ \<Rightarrow> Inr retry
     | Inr r \<Rightarrow> if \<not> dcAgreed r then Inr retry
         else run_unlock (wtUnlock w) (st\<lparr>externalLock := None,
           lockWatchers := (lockWatchers st)[n := w\<lparr>wtAsking := False, wtDone := True\<rparr>]\<rparr>)))"

definition ProcessIsChannelLocked ::
  "(string \<Rightarrow> ('m, 'c) Channel res) \<Rightarrow> bytes \<Rightarrow> string \<Rightarrow> int64 \<Rightarrow> lockTable \<Rightarrow> unit res" where
  "ProcessIsChannelLocked get key addr i st = rbind (peer_channel get key addr i) (\<lambda>channel.
     case channelLocks st (sdAddress (Our channel)) of
       None \<Rightarrow> Inr ()
     | Some l \<Rightarrow> if clId l \<noteq> - i \<or> \<not> clHeld l then Inr () else Inl (Errorf ''still locked''))"

section \<open>Runs\<close>

text \<open>
  A node with many tasks: the lock table, and the calls of \<open>AcquireChannel\<close> that are still going on.
  \<open>Requesting a i\<close> waits for the answer of the lock master; \<open>Using a i u\<close> got the lock of the channel at
  \<open>a\<close> with identifier \<open>i\<close> and has not called the unlock function \<open>u\<close> yet. A call that entered a lock
  already held, under its identifier, has \<open>UnlockNothing\<close>.
\<close>

datatype lockUse = Requesting string int64 | Using string int64 unlock

text \<open>
  Tasks acquire and release in any order, answers of lock masters come in at any time, peers lock and
  unlock, and watchers wake up and get their answers. \<open>stale\<close> says whether a watcher may still release
  on the word of the peer after the peer itself has released the lock it watches, which is what the
  code does when the answer was on the way; without it only watchers of the current external lock do.
\<close>

inductive lock_step ::
  "(string \<Rightarrow> ('m, 'c) Channel res) \<Rightarrow> bool \<Rightarrow> lockTable \<times> lockUse list \<Rightarrow> lockTable \<times> lockUse list \<Rightarrow> bool"
  for get :: "string \<Rightarrow> ('m, 'c) Channel res" and stale :: bool
where
  acquired: "acquire_begin get now addr i st = (Inr (ch, lockID, Some u), st') \<Longrightarrow>
    lock_step get stale (st, us) (st', Using (sdAddress (Our ch)) lockID u # us)"
| refused: "acquire_begin get now addr i st = (Inl err, st') \<Longrightarrow> lock_step get stale (st, us) (st', us)"
| requested: "acquire_begin get now addr i st = (Inr (ch, lockID, None), st') \<Longrightarrow>
    lock_step get stale (st, us) (st', Requesting (sdAddress (Our ch)) lockID # us)"
| agreed: "Requesting a lockID \<in> set us \<Longrightarrow> acquire_finish a lockID r st = (Inr u, st') \<Longrightarrow>
    lock_step get stale (st, us) (st', Using a lockID u # remove1 (Requesting a lockID) us)"
| disagreed: "Requesting a lockID \<in> set us \<Longrightarrow> acquire_finish a lockID r st = (Inl err, st') \<Longrightarrow>
    lock_step get stale (st, us) (st', remove1 (Requesting a lockID) us)"
| released: "Using a lockID u \<in> set us \<Longrightarrow> run_unlock u st = Inr st' \<Longrightarrow>
    lock_step get stale (st, us) (st', remove1 (Using a lockID u) us)"
| external: "ProcessExternalChannelLock get request now key addr i lock st = (r, st') \<Longrightarrow> lock_step get stale (st, us) (st', us)"
| wake: "lock_step get stale (st, us) (watcher_wake n st, us)"
| answer: "watcher_answer n r st = Inr st' \<Longrightarrow>
    stale \<or> \<not> wtClosed (lockWatchers st ! n) \<or> (\<exists>err. r = Inl err) \<or> (\<exists>d. r = Inr d \<and> \<not> dcAgreed d) \<Longrightarrow>
    lock_step get stale (st, us) (st', us)"

inductive_cases lock_stepE: "lock_step get stale (st, us) s'"

end
