(* ===== verification/LockLaws.thy ===== *)
theory LockLaws
  imports Locks
begin

text \<open>
  What the channel locks guarantee: as long as no stale watcher releases a lock, every held lock has one
  owner, the table shows the owner's identifier, whoever comes meanwhile is let in only under that
  identifier, and releases go through. A stale watcher can break the exclusion; and neither the owner
  of the external lock nor the sign of a proposal's lock identifier is checked.
\<close>

section \<open>Owners\<close>

fun unlock_addr :: "unlock \<Rightarrow> string option" where
  "unlock_addr UnlockNothing = None"
| "unlock_addr (UnlockLocal a) = Some a"
| "unlock_addr (UnlockRemote a _) = Some a"

text \<open>The address whose mutex a call has locked, and the identifier it has locked it with. A call that
  entered a lock already held owns nothing.\<close>

fun use_addr :: "lockUse \<Rightarrow> string option" where
  "use_addr (Requesting a i) = Some a"
| "use_addr (Using a i u) = unlock_addr u"

fun use_id :: "lockUse \<Rightarrow> int64" where
  "use_id (Requesting a i) = i"
| "use_id (Using a i u) = i"

definition holders :: "string \<Rightarrow> lockUse list \<Rightarrow> nat" where
  "holders a us = length (filter (\<lambda>u. use_addr u = Some a) us)"

definition owner_ids :: "string \<Rightarrow> lockUse list \<Rightarrow> int64 multiset" where
  "owner_ids a us = mset (map use_id (filter (\<lambda>u. use_addr u = Some a) us))"

lemma holders_simps [simp]:
  "holders a [] = 0" "holders a (u # us) = (if use_addr u = Some a then 1 else 0) + holders a us"
  by (simp_all add: holders_def)

lemma owner_ids_simps [simp]:
  "owner_ids a [] = {#}" "owner_ids a (u # us) = (if use_addr u = Some a then {#use_id u#} else {#}) + owner_ids a us"
  "owner_ids a (us @ vs) = owner_ids a us + owner_ids a vs"
  by (simp_all add: owner_ids_def)

lemma holders_size: "holders a us = size (owner_ids a us)"
  by (induction us) simp_all

lemma owner_ids_remove1:
  "u \<in> set us \<Longrightarrow> owner_ids a us = (if use_addr u = Some a then {#use_id u#} else {#}) + owner_ids a (remove1 u us)"
  by (induction us) auto

lemma owner_ids_mem: "u \<in> set us \<Longrightarrow> use_addr u = Some a \<Longrightarrow> use_id u \<in># owner_ids a us"
  by (auto simp: owner_ids_def)

definition held_ids :: "lockTable \<Rightarrow> string \<Rightarrow> int64 multiset" where
  "held_ids st a = (case channelLocks st a of None \<Rightarrow> {#} | Some l \<Rightarrow> if clHeld l then {#clId l#} else {#})"

lemma held_ids_upd [simp]: "held_ids (st\<lparr>externalLock := x\<rparr>) = held_ids st" "held_ids (st\<lparr>lockWatchers := y\<rparr>) = held_ids st"
  by (simp_all add: held_ids_def fun_eq_iff)

lemma held_ids_put [simp]: "held_ids (st\<lparr>channelLocks := (channelLocks st)(b \<mapsto> l)\<rparr>) a =
    (if a = b then if clHeld l then {#clId l#} else {#} else held_ids st a)"
  by (simp add: held_ids_def)

lemma held_ids_mem: "i \<in># held_ids st a \<Longrightarrow> channelLocks st a = Some \<lparr>clId = i, clHeld = True\<rparr>"
  by (auto simp: held_ids_def split: option.splits if_splits intro: channelLock.equality)

lemma held_ids_size: "size (held_ids st a) \<le> 1"
  by (simp add: held_ids_def split: option.split)

text \<open>The external lock counts as a use of its watcher.\<close>

definition external_uses :: "lockTable \<Rightarrow> lockUse list" where
  "external_uses st = (case externalLock st of None \<Rightarrow> []
     | Some n \<Rightarrow> [Using (wtAddr (lockWatchers st ! n)) (wtId (lockWatchers st ! n)) (wtUnlock (lockWatchers st ! n))])"

lemma external_uses_simps [simp]: "external_uses (st\<lparr>externalLock := None\<rparr>) = []"
  "external_uses (st\<lparr>channelLocks := m\<rparr>) = external_uses st"
  by (simp_all add: external_uses_def cong: option.case_cong)

lemma external_uses_cong: "externalLock st' = externalLock st \<Longrightarrow> lockWatchers st' = lockWatchers st \<Longrightarrow> external_uses st' = external_uses st"
  by (simp add: external_uses_def split: option.split)

text \<open>Every held lock has exactly one owner and shows its identifier, and the watcher of the external
  lock is the only one that is still open.\<close>

definition watchers_ok :: "lockTable \<Rightarrow> bool" where
  "watchers_ok st \<longleftrightarrow> (\<forall>n. externalLock st = Some n \<longleftrightarrow>
     n < length (lockWatchers st) \<and> \<not> wtClosed (lockWatchers st ! n) \<and> \<not> wtDone (lockWatchers st ! n))"

fun exclusive :: "lockTable \<times> lockUse list \<Rightarrow> bool" where
  "exclusive (st, us) \<longleftrightarrow> (\<forall>a. owner_ids a (us @ external_uses st) = held_ids st a) \<and> watchers_ok st"

lemma exclusiveD:
  assumes "exclusive (st, us)" "x \<in> set (us @ external_uses st)" "use_addr x = Some a"
  shows "channelLocks st a = Some \<lparr>clId = use_id x, clHeld = True\<rparr>"
  using assms owner_ids_mem [OF assms(2,3)] by (intro held_ids_mem) simp

lemma holders_le: "exclusive (st, us) \<Longrightarrow> holders a (us @ external_uses st) \<le> 1"
  using held_ids_size [of st a] by (simp add: holders_size)

section \<open>Single operations\<close>

lemma mx_unlock_Inr: "mx_unlock a st = Inr st' \<longleftrightarrow> (\<exists>l. channelLocks st a = Some l \<and> clHeld l \<and>
    st' = st\<lparr>channelLocks := (channelLocks st)(a \<mapsto> l\<lparr>clHeld := False\<rparr>)\<rparr>)"
  by (auto simp: mx_unlock_def split: option.splits)

lemma run_unlock_addr: "run_unlock u st = (case unlock_addr u of None \<Rightarrow> Inr st | Some a \<Rightarrow> mx_unlock a st)"
  by (cases u) simp_all

lemma run_unlock_frame: "run_unlock u st = Inr st' \<Longrightarrow> lockWatchers st' = lockWatchers st"
  by (auto simp: run_unlock_addr mx_unlock_Inr split: option.splits)

lemma run_unlock_watchers: "run_unlock u (st\<lparr>lockWatchers := ws\<rparr>) =
    (case run_unlock u st of Inl err \<Rightarrow> Inl err | Inr st' \<Rightarrow> Inr (st'\<lparr>lockWatchers := ws\<rparr>))"
  by (simp add: run_unlock_addr mx_unlock_def split: option.split)

lemma watchers_ok_cong: "externalLock st' = externalLock st \<Longrightarrow> lockWatchers st' = lockWatchers st \<Longrightarrow> watchers_ok st' = watchers_ok st"
  by (simp add: watchers_ok_def)

text \<open>An owner that releases leaves the lock free.\<close>

lemma exclusive_mx_unlock:
  assumes "owner_ids a us + {#i#} = held_ids st a" "\<And>b. b \<noteq> a \<Longrightarrow> owner_ids b us = held_ids st b"
  obtains st' where "mx_unlock a st = Inr st'" "\<And>b. owner_ids b us = held_ids st' b"
    "externalLock st' = externalLock st" "lockWatchers st' = lockWatchers st"
proof -
  have i: "i \<in># held_ids st a" by (simp flip: assms(1))
  have c: "channelLocks st a = Some \<lparr>clId = i, clHeld = True\<rparr>" using held_ids_mem [OF i] .
  have "owner_ids a us = {#}" using assms(1) held_ids_size [of st a] by (simp add: held_ids_def c)
  with c assms(2) show thesis
    by (intro that [of "st\<lparr>channelLocks := (channelLocks st)(a \<mapsto> \<lparr>clId = i, clHeld = False\<rparr>)\<rparr>"]) (simp_all add: mx_unlock_def)
qed

lemma exclusive_release:
  assumes "exclusive (st, us)" "x \<in> set us" "use_addr x = Some a"
  obtains st' where "mx_unlock a st = Inr st'" "exclusive (st', remove1 x us)"
proof -
  have eq: "owner_ids b (us @ external_uses st) = held_ids st b" for b using assms(1) by simp
  have a: "owner_ids a (remove1 x us @ external_uses st) + {#use_id x#} = held_ids st a"
    using eq [of a] owner_ids_remove1 [OF assms(2), of a] assms(3) by simp
  have b: "owner_ids b (remove1 x us @ external_uses st) = held_ids st b" if "b \<noteq> a" for b
    using eq [of b] owner_ids_remove1 [OF assms(2), of b] assms(3) that by simp
  from exclusive_mx_unlock [OF a b] obtain st' where st': "mx_unlock a st = Inr st'"
    "\<And>b. owner_ids b (remove1 x us @ external_uses st) = held_ids st' b"
    "externalLock st' = externalLock st" "lockWatchers st' = lockWatchers st" by blast
  with assms(1) external_uses_cong [OF st'(3,4)] watchers_ok_cong [OF st'(3,4)] show thesis
    by (intro that [OF st'(1)]) simp
qed

text \<open>The external lock is taken back: its watcher is done or closed, and its lock free.\<close>

lemma exclusive_external_release:
  assumes "exclusive (st, us)" "externalLock st = Some n" "wtUnlock w = wtUnlock (lockWatchers st ! n)" "wtClosed w \<or> wtDone w"
  obtains st' where "run_unlock (wtUnlock w) (st\<lparr>externalLock := None, lockWatchers := (lockWatchers st)[n := w]\<rparr>) = Inr st'"
    "exclusive (st', us)"
proof -
  let ?s = "st\<lparr>externalLock := None, lockWatchers := (lockWatchers st)[n := w]\<rparr>" and ?o = "lockWatchers st ! n"
  have n: "n < length (lockWatchers st)" using assms(1,2) by (auto simp: watchers_ok_def)
  have e: "external_uses st = [Using (wtAddr ?o) (wtId ?o) (wtUnlock ?o)]" using assms(2) by (simp add: external_uses_def)
  have ok: "watchers_ok ?s"
    using assms n by (auto simp: watchers_ok_def nth_list_update)
  show thesis
  proof (cases "unlock_addr (wtUnlock w)")
    case None
    with assms(1,3) e ok show thesis by (intro that [of ?s]) (auto simp: run_unlock_addr external_uses_def)
  next
    case (Some a)
    have eq: "owner_ids b (us @ external_uses st) = held_ids st b" for b using assms(1) by simp
    have x: "owner_ids a us + {#wtId ?o#} = held_ids ?s a" using eq [of a] Some assms(3) e by (simp add: add.commute)
    have y: "owner_ids b us = held_ids ?s b" if "b \<noteq> a" for b using eq [of b] Some assms(3) e that by simp
    from exclusive_mx_unlock [OF x y] obtain st' where st': "mx_unlock a ?s = Inr st'" "\<And>b. owner_ids b us = held_ids st' b"
      "externalLock st' = externalLock ?s" "lockWatchers st' = lockWatchers ?s" by blast
    with ok watchers_ok_cong [OF st'(3,4)] Some show thesis
      by (intro that [of st']) (auto simp: run_unlock_addr external_uses_def)
  qed
qed

section \<open>Every step keeps the exclusion\<close>

lemma acquire_begin_frame:
  "acquire_begin get now addr i st = (r, st') \<Longrightarrow> externalLock st' = externalLock st \<and> lockWatchers st' = lockWatchers st"
  by (auto simp: acquire_begin_def Let_def split: sum.splits if_splits option.splits)

lemma acquire_begin_ids:
  assumes "acquire_begin get now addr i st = (r, st')"
  shows "held_ids st' a = held_ids st a +
    (case r of Inr (ch, lockID, ux) \<Rightarrow> if ux \<noteq> Some UnlockNothing \<and> sdAddress (Our ch) = a then {#lockID#} else {#} | Inl _ \<Rightarrow> {#})"
  using assms by (auto simp: acquire_begin_def Let_def held_ids_def split: sum.splits if_splits option.splits)

lemma acquire_begin_unlock:
  "acquire_begin get now addr i st = (Inr (ch, lockID, Some u), st') \<Longrightarrow> u = UnlockNothing \<or> u = UnlockLocal (sdAddress (Our ch))"
  by (auto simp: acquire_begin_def Let_def split: sum.splits if_splits option.splits)

lemma exclusive_begin:
  assumes "exclusive (st, us)" "acquire_begin get now addr i st = (r, st')"
  shows "exclusive (st', (case r of Inl _ \<Rightarrow> us | Inr (ch, lockID, None) \<Rightarrow> Requesting (sdAddress (Our ch)) lockID # us
    | Inr (ch, lockID, Some u) \<Rightarrow> Using (sdAddress (Our ch)) lockID u # us))"
proof -
  note f = acquire_begin_frame [OF assms(2)]
  have e: "external_uses st' = external_uses st" "watchers_ok st' = watchers_ok st"
    using f by (auto intro!: external_uses_cong watchers_ok_cong)
  have eq: "owner_ids a us + owner_ids a (external_uses st) = held_ids st a" for a using assms(1) by simp
  show ?thesis
  proof (cases r)
    case (Inl err)
    with acquire_begin_ids [OF assms(2)] assms(1) e show ?thesis by simp
  next
    case (Inr q)
    obtain ch lockID ux where q: "q = (ch, lockID, ux)" by (cases q)
    have h: "held_ids st' a = (if ux \<noteq> Some UnlockNothing \<and> sdAddress (Our ch) = a then {#lockID#} else {#}) +
        (owner_ids a us + owner_ids a (external_uses st))" for a
      unfolding eq acquire_begin_ids [OF assms(2), of a] Inr q by (simp add: add.commute)
    have w: "watchers_ok st'" using assms(1) e by simp
    show ?thesis
    proof (cases ux)
      case None
      with Inr q w show ?thesis by (simp add: h e)
    next
      case (Some u)
      with acquire_begin_unlock assms(2) Inr q have "u = UnlockNothing \<or> u = UnlockLocal (sdAddress (Our ch))" by blast
      with Some Inr q w show ?thesis by (elim disjE) (simp_all add: h e)
    qed
  qed
qed

lemma exclusive_finish:
  assumes "exclusive (st, us)" "Requesting a lockID \<in> set us" "acquire_finish a lockID r st = (q, st')"
  shows "exclusive (st', (case q of Inl _ \<Rightarrow> remove1 (Requesting a lockID) us
    | Inr u \<Rightarrow> Using a lockID u # remove1 (Requesting a lockID) us))"
proof (cases "\<exists>u. q = Inr u")
  case True
  then have "q = Inr (UnlockRemote a lockID)" "st' = st"
    using assms(3) by (auto simp: acquire_finish_def Let_def split: sum.splits if_splits)
  with assms(1) owner_ids_remove1 [OF assms(2)] show ?thesis by (auto split: if_splits)
next
  case False
  obtain s1 where s1: "mx_unlock a st = Inr s1" "exclusive (s1, remove1 (Requesting a lockID) us)"
    by (rule exclusive_release [OF assms(1,2)]) simp
  with assms(3) False show ?thesis by (auto simp: acquire_finish_def Let_def split: sum.splits if_splits)
qed

lemma list_update_same: "f w = f (xs ! n) \<Longrightarrow> f (xs[n := w] ! a) = f (xs ! a)"
  by (cases "n < length xs"; cases "n = a") (auto simp: list_update_beyond)

text \<open>A watcher that only asks or waits changes nothing the exclusion rests on.\<close>

lemma exclusive_asking:
  assumes "exclusive (st, us)"
  shows "exclusive (st\<lparr>lockWatchers := (lockWatchers st)[n := (lockWatchers st ! n)\<lparr>wtAsking := b\<rparr>]\<rparr>, us)"
proof -
  let ?ws = "(lockWatchers st)[n := (lockWatchers st ! n)\<lparr>wtAsking := b\<rparr>]"
  have same: "wtAddr (?ws ! k) = wtAddr (lockWatchers st ! k)" "wtId (?ws ! k) = wtId (lockWatchers st ! k)"
    "wtUnlock (?ws ! k) = wtUnlock (lockWatchers st ! k)" "wtClosed (?ws ! k) = wtClosed (lockWatchers st ! k)"
    "wtDone (?ws ! k) = wtDone (lockWatchers st ! k)" for k
    by (rule list_update_same, simp)+
  have "external_uses (st\<lparr>lockWatchers := ?ws\<rparr>) = external_uses st"
    by (simp add: external_uses_def same Let_def split: option.split)
  moreover have "watchers_ok (st\<lparr>lockWatchers := ?ws\<rparr>) = watchers_ok st" by (simp add: watchers_ok_def same)
  ultimately show ?thesis using assms by simp
qed

lemma exclusive_handover:
  assumes "exclusive (st, Using a i u # us)" "externalLock st = None"
  shows "exclusive (st\<lparr>externalLock := Some (length (lockWatchers st)),
    lockWatchers := lockWatchers st @ [\<lparr>wtAddr = a, wtId = i, wtUnlock = u, wtClosed = False, wtAsking = False, wtDone = False\<rparr>]\<rparr>, us)"
proof -
  have eq: "held_ids st b = (if unlock_addr u = Some b then {#i#} else {#}) + owner_ids b us" for b
    using assms by (auto simp: external_uses_def split: if_split_asm)
  have "watchers_ok (st\<lparr>externalLock := Some (length (lockWatchers st)), lockWatchers := lockWatchers st @
      [\<lparr>wtAddr = a, wtId = i, wtUnlock = u, wtClosed = False, wtAsking = False, wtDone = False\<rparr>]\<rparr>)"
    using assms by (auto simp: watchers_ok_def nth_append less_Suc_eq)
  then show ?thesis by (simp add: external_uses_def eq)
qed

text \<open>A lock under a negated positive identifier never asks the lock master.\<close>

lemma negative_begins: "acquire_begin get now addr (Some j) st = (Inr (ch, lockID, ux), st') \<Longrightarrow> sint j < 0 \<Longrightarrow> \<exists>u. ux = Some u \<and> lockID = j"
  by (auto simp: acquire_begin_def Let_def split: sum.splits if_splits option.splits)

lemma sint_neg: "0 < sint (i :: int64) \<Longrightarrow> sint (- i) < 0"
  using sint_ge [of i] sint_lt [of i] by (simp add: sint_word_ariths signed_take_bit_int_eq_self)

lemma exclusive_external:
  assumes "exclusive (st, us)" "ProcessExternalChannelLock get request now key addr i lock st = (r, st')"
  shows "exclusive (st', us)"
proof (cases "peer_channel get key addr i")
  case (Inr ch)
  then have neg: "sint (- i) < 0" by (auto simp: peer_channel_def not_le intro: sint_neg split: if_splits)
  show ?thesis
  proof (cases "WeLeft ch \<and> lock \<and> externalLock st = None")
    case True
    obtain q st1 where a: "acquire_begin get now (sdAddress (Our ch)) (Some (- i)) st = (q, st1)" by fastforce
    have n: "externalLock st1 = None" using acquire_begin_frame [OF a] True by simp
    show ?thesis
    proof (cases q)
      case (Inl err)
      then show ?thesis using assms(2) True Inr a exclusive_begin [OF assms(1) a]
        by (simp add: ProcessExternalChannelLock_def AcquireChannel_def)
    next
      case q: (Inr p)
      obtain ch' u where p: "p = (ch', - i, Some u)" using negative_begins [of get now] a q neg by (cases p) fastforce
      have "exclusive (st1, Using (sdAddress (Our ch')) (- i) u # us)" using exclusive_begin [OF assms(1) a] q p by simp
      then have "exclusive (st1, Using (sdAddress (Our ch)) (- i) u # us)" by (auto split: if_split_asm)
      from exclusive_handover [OF this n] show ?thesis
        using assms(2) True Inr a q p by (simp add: ProcessExternalChannelLock_def AcquireChannel_def del: exclusive.simps)
    qed
  next
    case False
    show ?thesis
    proof (cases "\<exists>n. WeLeft ch \<and> \<not> lock \<and> externalLock st = Some n")
      case True
      then obtain n where n: "WeLeft ch" "\<not> lock" "externalLock st = Some n" by blast
      let ?w = "(lockWatchers st ! n)\<lparr>wtClosed := True\<rparr>"
      obtain st2 where "run_unlock (wtUnlock ?w) (st\<lparr>externalLock := None, lockWatchers := (lockWatchers st)[n := ?w]\<rparr>) = Inr st2"
        "exclusive (st2, us)" by (rule exclusive_external_release [OF assms(1) n(3), of ?w]) auto
      then obtain st3 where "run_unlock (wtUnlock ?w) (st\<lparr>externalLock := None\<rparr>) = Inr st3"
        "exclusive (st3\<lparr>lockWatchers := (lockWatchers st)[n := ?w]\<rparr>, us)"
        by (auto simp: run_unlock_watchers split: sum.splits)
      moreover have "\<not> wtClosed (lockWatchers st ! n)" using assms(1) n(3) by (auto simp: watchers_ok_def)
      ultimately show ?thesis using assms(2) n Inr
        by (simp add: ProcessExternalChannelLock_def call_external_def run_unlock_frame del: exclusive.simps)
    next
      case no: False
      with False show ?thesis using assms Inr
        by (cases "externalLock st") (auto simp: ProcessExternalChannelLock_def simp del: exclusive.simps split: if_splits)
    qed
  qed
qed (use assms in \<open>simp add: ProcessExternalChannelLock_def\<close>)

lemma exclusive_answer:
  assumes "exclusive (st, us)" "watcher_answer n r st = Inr st'"
    "\<not> wtClosed (lockWatchers st ! n) \<or> (\<exists>err. r = Inl err) \<or> (\<exists>d. r = Inr d \<and> \<not> dcAgreed d)"
  shows "exclusive (st', us)"
proof (cases "n < length (lockWatchers st) \<and> wtAsking (lockWatchers st ! n) \<and> \<not> wtDone (lockWatchers st ! n) \<and> (\<exists>d. r = Inr d \<and> dcAgreed d)")
  case True
  let ?w = "(lockWatchers st ! n)\<lparr>wtAsking := False, wtDone := True\<rparr>"
  have x: "externalLock st = Some n" using assms(1,3) True by (auto simp: watchers_ok_def)
  obtain st2 where "run_unlock (wtUnlock ?w) (st\<lparr>externalLock := None, lockWatchers := (lockWatchers st)[n := ?w]\<rparr>) = Inr st2"
    "exclusive (st2, us)" by (rule exclusive_external_release [OF assms(1) x, of ?w]) auto
  with assms(2) True show ?thesis by (auto simp: watcher_answer_def Let_def simp del: exclusive.simps)
next
  case False
  with assms(1,2) exclusive_asking [OF assms(1), of n False] show ?thesis
    by (auto simp: watcher_answer_def Let_def simp del: exclusive.simps split: if_splits sum.splits)
qed

lemma exclusive_step: "lock_step get False s s' \<Longrightarrow> exclusive s \<Longrightarrow> exclusive s'"
proof (induction rule: lock_step.induct)
  case (acquired now addr i st ch lockID u st' us)
  from exclusive_begin [OF acquired(2,1)] show ?case by simp
next
  case (refused now addr i st err st' us)
  from exclusive_begin [OF refused(2,1)] show ?case by simp
next
  case (requested now addr i st ch lockID st' us)
  from exclusive_begin [OF requested(2,1)] show ?case by simp
next
  case (agreed a lockID us r st u st')
  from exclusive_finish [OF agreed(3,1,2)] show ?case by simp
next
  case (disagreed a lockID us r st err st')
  from exclusive_finish [OF disagreed(3,1,2)] show ?case by simp
next
  case (released a lockID u us st st')
  show ?case
  proof (cases "unlock_addr u")
    case None
    with released owner_ids_remove1 [OF released(1)] show ?thesis by (auto simp: run_unlock_addr)
  next
    case (Some b)
    with released(2) exclusive_release [OF released(3,1), of b] show ?thesis by (auto simp: run_unlock_addr simp del: exclusive.simps)
  qed
next
  case (external request now key addr i lock st r st' us)
  show ?case by (rule exclusive_external [OF external(2,1)])
next
  case (wake st us n)
  then show ?case using exclusive_asking [of st us n True] by (auto simp: watcher_wake_def Let_def simp del: exclusive.simps)
next
  case (answer n r st st' us)
  then show ?case by (intro exclusive_answer [of st us n r st']) auto
qed

lemma exclusive_reach: "(lock_step get False)\<^sup>*\<^sup>* (no_locks, []) s \<Longrightarrow> exclusive s"
proof (induction rule: rtranclp_induct)
  case base
  show ?case by (simp add: no_locks_def external_uses_def held_ids_def watchers_ok_def)
qed (rule exclusive_step)

section \<open>Samples\<close>

definition lock_channel :: "bool \<Rightarrow> (unit, unit) Channel" where
  "lock_channel left = (let side = \<lparr>sdAddress = ''a'', OnchainBalances = [], OnchainKey = [], sdData = \<lparr>adConditionals = (), adActionStates = ()\<rparr>,
       LockedDeposits = Map.empty, PendingOnchainTransfers = [], LatestProcessedLT = 0, LatestWalletSeqno = 0, LatestCommitedSeqno = 0,
       LastProcessedTxAt = 0, ActiveOnchain = True, IsSettlementFinalized = False\<rparr> in
     \<lparr>chID = [], chStatus = ChannelStateActive, WeLeft = left, SafeOnchainClosePeriod = 0, AcceptingActions = True, WebPeer = False,
       UrgentForUs = False, UncoopCloseStarted = False, SignedState = None, Our = side, Their = side, InitAt = 0, chCreatedAt = 0,
       CodeHash = [], InitMessageBody = None, InitialData = None, chPendingCommit = None, DBVersion = 0\<rparr>)"

lemma lock_channel_sel [simp]: "sdAddress (Our (lock_channel left)) = ''a''" "WeLeft (lock_channel left) = left"
  "OnchainKey (Their (lock_channel left)) = []"
  by (simp_all add: lock_channel_def Let_def)

definition no_request :: "('m, 'c) Channel \<Rightarrow> int64 \<Rightarrow> bool \<Rightarrow> Decision res" where
  "no_request ch i lock = Inl (Errorf ''not connected'')"

section \<open>Properties\<close>



text \<open>C38: The watcher of an external lock can break the exclusion. Its question to the peer may be on the
  way while the peer unlocks and a task takes the lock; the answer then releases the lock of that
  task, and a second task enters.\<close>

theorem stale_watcher_breaks_exclusion:
  assumes "get addr = Inr ch" "WeLeft ch" "sdAddress (Our ch) = addr"
  shows "\<exists>st us. (lock_step get True)\<^sup>*\<^sup>* (no_locks, []) (st, us) \<and> holders addr us = 2"
proof -
  let ?key = "OnchainKey (Their ch)" and ?u = "\<lambda>i. Using addr i (UnlockLocal addr)" and ?w = "\<lambda>c asking d. \<lparr>wtAddr = addr, wtId = - 1, wtUnlock = UnlockLocal addr, wtClosed = c, wtAsking = asking, wtDone = d\<rparr>"
  let ?s = "\<lambda>i h x c asking d. \<lparr>channelLocks = [addr \<mapsto> \<lparr>clId = i, clHeld = h\<rparr>], externalLock = x, lockWatchers = [?w c asking d]\<rparr>"
  have run: "(lock_step get True)\<^sup>*\<^sup>* s t" if "lock_step get True s s'" "(lock_step get True)\<^sup>*\<^sup>* s' t" for s s' t
    using that by (rule converse_rtranclp_into_rtranclp)
  have 1: "lock_step get True (no_locks, []) (?s (- 1) True (Some 0) False False False, [])"
    by (rule lock_step.external [where request = no_request and now = 0 and key = ?key and addr = addr and i = 1 and lock = True and r = "Inr ()"])
      (simp add: ProcessExternalChannelLock_def peer_channel_def AcquireChannel_def acquire_begin_def no_locks_def Let_def assms)
  have 2: "lock_step get True (?s (- 1) True (Some 0) False False False, []) (?s (- 1) True (Some 0) False True False, [])"
    using lock_step.wake [of get True "?s (- 1) True (Some 0) False False False" "[]" 0] by (simp add: watcher_wake_def)
  have 3: "lock_step get True (?s (- 1) True (Some 0) False True False, []) (?s (- 1) False None True True False, [])"
    by (rule lock_step.external [where request = no_request and now = 0 and key = ?key and addr = addr and i = 1 and lock = False and r = "Inr ()"])
      (simp add: ProcessExternalChannelLock_def peer_channel_def call_external_def mx_unlock_def assms)
  have 4: "lock_step get True (?s (- 1) False None True True False, []) (?s 7 True None True True False, [?u 7])"
    by (rule lock_step.acquired [where now = 7 and addr = addr and i = None and ch = ch and lockID = 7, unfolded assms(3)])
      (simp add: acquire_begin_def Let_def assms)
  have 5: "lock_step get True (?s 7 True None True True False, [?u 7]) (?s 7 False None True False True, [?u 7])"
    by (rule lock_step.answer [where n = 0 and r = "Inr \<lparr>dcAgreed = True, dcReason = [], dcSignature = []\<rparr>"]) (simp_all add: watcher_answer_def mx_unlock_def)
  have 6: "lock_step get True (?s 7 False None True False True, [?u 7]) (?s 8 True None True False True, [?u 8, ?u 7])"
    by (rule lock_step.acquired [where now = 8 and addr = addr and i = None and ch = ch and lockID = 8, unfolded assms(3)])
      (simp add: acquire_begin_def Let_def assms)
  have "(lock_step get True)\<^sup>*\<^sup>* (no_locks, []) (?s 8 True None True False True, [?u 8, ?u 7])"
    by (intro run [OF 1] run [OF 2] run [OF 3] run [OF 4] run [OF 5] run [OF 6]) simp
  moreover have "holders addr [?u 8, ?u 7] = 2" by simp
  ultimately show ?thesis by blast
qed

theorem stale_watcher_breaks_exclusion_witness:
  "\<exists>st us. (lock_step (\<lambda>_. Inr (lock_channel True)) True)\<^sup>*\<^sup>* (no_locks, []) (st, us) \<and> holders ''a'' us = 2"
  by (rule stale_watcher_breaks_exclusion [where ch = "lock_channel True"]) simp_all

text \<open>C39: The lock identifier of a proposal is negated so that it does not collide with our own locks, but
  its sign is not checked: a peer that sends the negated identifier of a lock of ours, which it knows
  from our own proposals, is let in while we hold the lock.\<close>

theorem negated_lock_id_enters:
  assumes "get addr = Inr ch" "channelLocks st (sdAddress (Our ch)) = Some l" "clHeld l"
  shows "acquire_for_proposal get request now addr (- clId l) st = (Inr (ch, clId l, UnlockNothing), st)"
proof -
  have "(channelLocks st)(sdAddress (Our ch) \<mapsto> l) = channelLocks st" using assms(2) by auto
  with assms show ?thesis by (simp add: acquire_for_proposal_def AcquireChannel_def acquire_begin_def)
qed

theorem negated_lock_id_enters_witness:
  "acquire_for_proposal (\<lambda>_. Inr (lock_channel False)) no_request 0 ''a'' (- 7)
     \<lparr>channelLocks = [''a'' \<mapsto> \<lparr>clId = 7, clHeld = True\<rparr>], externalLock = None, lockWatchers = []\<rparr> =
   (Inr (lock_channel False, 7, UnlockNothing),
     \<lparr>channelLocks = [''a'' \<mapsto> \<lparr>clId = 7, clHeld = True\<rparr>], externalLock = None, lockWatchers = []\<rparr>)"
  using negated_lock_id_enters [of "\<lambda>_. Inr (lock_channel False)" "''a''" "lock_channel False"
      "\<lparr>channelLocks = [''a'' \<mapsto> \<lparr>clId = 7, clHeld = True\<rparr>], externalLock = None, lockWatchers = []\<rparr>" "\<lparr>clId = 7, clHeld = True\<rparr>"]
  by simp

text \<open>The external lock is one for all channels: an unlock request for any channel releases it.\<close>

lemma foreign_unlock_releases:
  assumes "get addr = Inr ch" "WeLeft ch" "0 < sint i" "externalLock st = Some n" "\<not> wtClosed (lockWatchers st ! n)"
    "wtUnlock (lockWatchers st ! n) = UnlockLocal other" "channelLocks st other = Some l" "clHeld l"
  shows "\<exists>st'. ProcessExternalChannelLock get request now (OnchainKey (Their ch)) addr i False st = (Inr (), st') \<and> held_ids st' other = {#}"
proof -
  from assms(7,8) have "mx_unlock other (st\<lparr>externalLock := None\<rparr>) =
      Inr (st\<lparr>externalLock := None, channelLocks := (channelLocks st)(other \<mapsto> l\<lparr>clHeld := False\<rparr>)\<rparr>)"
    by (simp add: mx_unlock_def)
  with assms(1-6) show ?thesis
    by (simp add: ProcessExternalChannelLock_def peer_channel_def call_external_def Let_def held_ids_def)
qed

end
