(* ===== verification/Sessions.thy ===== *)
theory Sessions
  imports Process Locks
begin

text \<open>
  Connections between nodes: \<^verbatim>\<open>tonpayments/transport/transport.go\<close>. A connected peer proves that it owns
  its channel key by a signature over both network identities and a fresh time; only then are its
  queries served. Peers are pointers, so the state has a store of them beside the index by key. The
  network provider, the TL hash and the signatures are parameters; the service is the interface the
  transport calls.
\<close>

section \<open>State\<close>

record Peer =
  peerID :: bytes
  AuthKey :: "bytes option"

record Transport =
  peerAt :: "nat \<Rightarrow> Peer"
  peersByKey :: "bytes \<Rightarrow> nat option"
  urgentPeers :: "bytes \<Rightarrow> bool"

text \<open>\<open>authHash a b t\<close> is the TL hash of the message to sign.\<close>

record net_env =
  ourID :: bytes
  channelKey :: bytes
  channelPub :: bytes
  authHash :: "bytes \<Rightarrow> bytes \<Rightarrow> int \<Rightarrow> bytes res"
  netVerify :: "bytes \<Rightarrow> bytes \<Rightarrow> bytes \<Rightarrow> bool"
  netSign :: "bytes \<Rightarrow> bytes \<Rightarrow> bytes"

record Authenticate =
  auKey :: bytes
  auTimestamp :: int
  auSignature :: bytes

section \<open>Authentication\<close>

text \<open>The peer registers under its key; its previous record goes.\<close>

definition register_peer :: "nat \<Rightarrow> bytes \<Rightarrow> Transport \<Rightarrow> Transport" where
  "register_peer p key t =
     (let idx = (case AuthKey (peerAt t p) of None \<Rightarrow> peersByKey t | Some old \<Rightarrow> (peersByKey t)(old := None)) in
      t\<lparr>peerAt := (peerAt t)(p := (peerAt t p)\<lparr>AuthKey := Some key\<rparr>), peersByKey := idx(key \<mapsto> p)\<rparr>)"

definition handle_Authenticate ::
  "net_env \<Rightarrow> (nat \<Rightarrow> gtime) \<Rightarrow> nat \<Rightarrow> Authenticate \<Rightarrow> Transport \<Rightarrow> Authenticate res \<times> Transport" where
  "handle_Authenticate N clk p q t =
     (if auTimestamp q < unix_of (clk 0 - 30 * 1000000000) \<or> unix_of (clk 1) < auTimestamp q
      then (Inl (Errorf ''outdated auth data''), t)
      else case rwrap ''failed to hash their auth data'' (authHash N (peerID (peerAt t p)) (ourID N) (auTimestamp q)) of
        Inl err \<Rightarrow> (Inl err, t)
      | Inr authData \<Rightarrow>
        if \<not> netVerify N (auKey q) authData (auSignature q) then (Inl (Errorf ''incorrect signature''), t)
        else let t = (if auKey q \<noteq> (case AuthKey (peerAt t p) of None \<Rightarrow> [] | Some k \<Rightarrow> k) then register_peer p (auKey q) t else t) in
          (rbind (rwrap ''failed to hash our auth data'' (authHash N (ourID N) (peerID (peerAt t p)) (auTimestamp q))) (\<lambda>authData.
             Inr \<lparr>auKey = channelPub N, auTimestamp = auTimestamp q, auSignature = netSign N (channelKey N) authData\<rparr>), t))"

text \<open>Our side of the handshake. \<open>query\<close> delivers the message and returns the peer's answer.\<close>

definition auth ::
  "net_env \<Rightarrow> gtime \<Rightarrow> (Authenticate \<Rightarrow> Authenticate res) \<Rightarrow> nat \<Rightarrow> Transport \<Rightarrow> unit res \<times> Transport" where
  "auth N now query p t = (let ts = unix_of now in
     case (rbind (rwrap ''failed to hash our auth data'' (authHash N (ourID N) (peerID (peerAt t p)) ts)) (\<lambda>authData.
       rbind (rwrap ''failed to request auth'' (query \<lparr>auKey = channelPub N, auTimestamp = ts, auSignature = netSign N (channelKey N) authData\<rparr>)) (\<lambda>res.
       rbind (rwrap ''failed to hash their auth data'' (authHash N (peerID (peerAt t p)) (ourID N) ts)) (\<lambda>authData.
       if \<not> netVerify N (auKey res) authData (auSignature res) then Inl (Errorf ''incorrect response signature'') else Inr res)))) of
       Inl err \<Rightarrow> (Inl err, t)
     | Inr res \<Rightarrow> (Inr (), register_peer p (auKey res) t))"

definition handleDisconnect :: "nat \<Rightarrow> Transport \<Rightarrow> Transport" where
  "handleDisconnect p t = (let key = (case AuthKey (peerAt t p) of None \<Rightarrow> [] | Some k \<Rightarrow> k) in
     if peersByKey t key = Some p then t\<lparr>peersByKey := (peersByKey t)(key := None)\<rparr> else t)"

section \<open>Queries to peers\<close>

text \<open>\<open>connect\<close> is the network provider: it returns the connected peer.\<close>

definition preparePeer ::
  "net_env \<Rightarrow> gtime \<Rightarrow> (bytes \<Rightarrow> nat res) \<Rightarrow> (nat \<Rightarrow> Authenticate \<Rightarrow> Authenticate res) \<Rightarrow> bytes \<Rightarrow> bool \<Rightarrow> Transport \<Rightarrow> nat res \<times> Transport" where
  "preparePeer N now connect query key conn t =
     (if key = channelPub N then (Inl (Errorf ''cannot connect to ourself''), t)
      else case (case peersByKey t key of Some p \<Rightarrow> Inr p
        | None \<Rightarrow> if \<not> conn then Inl (Errorf ''not connected'') else rwrap ''failed to connect to peer'' (connect key)) of
        Inl err \<Rightarrow> (Inl err, t)
      | Inr p \<Rightarrow> if AuthKey (peerAt t p) \<noteq> None then (Inr p, t)
          else (case auth N now (query p) p t of
            (Inl err, t) \<Rightarrow> (Inl (wrapf ''failed to auth peer'' err), t) | (Inr _, t) \<Rightarrow> (Inr p, t)))"

text \<open>\<open>send p\<close> is the connection of the peer: it delivers the request and returns the response.\<close>

definition doQuery ::
  "net_env \<Rightarrow> gtime \<Rightarrow> (bytes \<Rightarrow> nat res) \<Rightarrow> (nat \<Rightarrow> Authenticate \<Rightarrow> Authenticate res) \<Rightarrow> (nat \<Rightarrow> 'q \<Rightarrow> 'r res) \<Rightarrow> bytes \<Rightarrow> 'q \<Rightarrow> bool \<Rightarrow>
   Transport \<Rightarrow> 'r res \<times> Transport" where
  "doQuery N now connect query send key req conn t = (case preparePeer N now connect query key conn t of
     (Inl err, t) \<Rightarrow> (Inl (wrapf ''failed to prepare peer'' err), t)
   | (Inr p, t) \<Rightarrow> (rwrap ''failed to make request'' (send p req), t))"

section \<open>Urgent peers\<close>

definition Transport_AddUrgentPeer :: "bytes \<Rightarrow> Transport \<Rightarrow> Transport" where
  "Transport_AddUrgentPeer key t = (if urgentPeers t key then t else t\<lparr>urgentPeers := (urgentPeers t)(key := True)\<rparr>)"

definition Transport_RemoveUrgentPeer :: "bytes \<Rightarrow> Transport \<Rightarrow> Transport" where
  "Transport_RemoveUrgentPeer key t = (if urgentPeers t key then t\<lparr>urgentPeers := (urgentPeers t)(key := False)\<rparr> else t)"

text \<open>The next wait and timeout of the pinger, in seconds.\<close>

definition ping_next :: "bool \<Rightarrow> nat \<times> nat" where
  "ping_next ok = (if ok then (10, 7) else (3, 10))"

text \<open>The service counts its reasons to keep a peer connected.\<close>

definition Service_AddUrgentPeer :: "bytes \<Rightarrow> (bytes \<Rightarrow> int) \<times> Transport \<Rightarrow> (bytes \<Rightarrow> int) \<times> Transport" where
  "Service_AddUrgentPeer peer s = (case s of (refs, t) \<Rightarrow>
     (refs(peer := refs peer + 1), if refs peer = 0 then Transport_AddUrgentPeer peer t else t))"

definition Service_RemoveUrgentPeer :: "bytes \<Rightarrow> (bytes \<Rightarrow> int) \<times> Transport \<Rightarrow> (bytes \<Rightarrow> int) \<times> Transport" where
  "Service_RemoveUrgentPeer peer s = (case s of (refs, t) \<Rightarrow>
     (refs(peer := if 1 < refs peer then refs peer - 1 else 0), if refs peer = 1 then Transport_RemoveUrgentPeer peer t else t))"

definition loadUrgentPeers :: "('m, 'c) Channel list \<Rightarrow> (bytes \<Rightarrow> int) \<times> Transport \<Rightarrow> (bytes \<Rightarrow> int) \<times> Transport" where
  "loadUrgentPeers chs s = fold (\<lambda>ch s. if UrgentForUs ch then Service_AddUrgentPeer (OnchainKey (Their ch)) s else s) chs s"

definition urgent_callback :: "('m, 'c) Channel \<Rightarrow> bool \<Rightarrow> (bytes \<Rightarrow> int) \<times> Transport \<Rightarrow> (bytes \<Rightarrow> int) \<times> Transport" where
  "urgent_callback ch statusChanged s = (if UrgentForUs ch \<and> statusChanged
     then (if chStatus ch = ChannelStateActive then Service_AddUrgentPeer (OnchainKey (Their ch)) s
       else Service_RemoveUrgentPeer (OnchainKey (Their ch)) s)
     else s)"

section \<open>Handling queries\<close>

record ProposeChannelConfig =
  pcReplicateAttachAmount :: bytes
  pcQuarantineDuration :: uint32
  pcActionsExecuteDuration :: uint32
  pcConditionalCloseDuration :: uint32
  pcNodeVersion :: uint32
  pcCodeHash :: bytes

text \<open>The configuration the service was started with, and the known channel codes by hash.\<close>

record channel_cfg =
  ccCodeHashes :: "bytes list"
  ccAttach :: int
  ccQuarantine :: uint32
  ccConditionalClose :: uint32
  ccActions :: uint32

definition ReviewChannelConfig :: "channel_cfg \<Rightarrow> ProposeChannelConfig \<Rightarrow> unit res" where
  "ReviewChannelConfig cfg prop =
     (if pcCodeHash prop \<notin> set (ccCodeHashes cfg) then Inl (Errorf ''payment channel code is unknown'')
      else if pcQuarantineDuration prop \<noteq> ccQuarantine cfg \<or> pcConditionalCloseDuration prop \<noteq> ccConditionalClose cfg \<or>
        pcActionsExecuteDuration prop \<noteq> ccActions cfg \<or> SetBytes (pcReplicateAttachAmount prop) \<noteq> ccAttach cfg
      then Inl (Errorf ''ecpected different channel config'') else Inr ())"

datatype 'c query =
    QPing int
  | QAuthenticate Authenticate
  | QRequestChannelLock int64 bytes bool
  | QIsChannelUnlocked int64 bytes
  | QProposeChannelConfig ProposeChannelConfig
  | QProposeAction int64 bytes "'c transport_action" 'c
  | QRequestAction bytes "'c transport_action"
  | QOpenChannelOffchain bytes 'c uint32
  | QUnknown

datatype 'c response =
    RPong int
  | RAuthenticate Authenticate
  | RDecision Decision
  | RConfigDecision bool string
  | RProposal "'c ProposalDecision"
  | ROpenChannel bytes bytes string

text \<open>The service as the transport sees it; \<open>'o\<close> is the channel open configuration.\<close>

record ('d, 't, 'c, 'o) transport_svc =
  tsReview :: "ProposeChannelConfig \<Rightarrow> unit res"
  tsProcessAction :: "bytes \<Rightarrow> int64 \<Rightarrow> bytes \<Rightarrow> StateBodySigned \<Rightarrow> 'c transport_action \<Rightarrow> bool \<Rightarrow> ('d, 't, StateBodySigned) dbm"
  tsActionRequest :: "bytes \<Rightarrow> bytes \<Rightarrow> 'c transport_action \<Rightarrow> ('d, 't, bytes) dbm"
  tsExternalLock :: "bytes \<Rightarrow> bytes \<Rightarrow> int64 \<Rightarrow> bool \<Rightarrow> ('d, 't, unit) dbm"
  tsIsLocked :: "bytes \<Rightarrow> bytes \<Rightarrow> int64 \<Rightarrow> ('d, 't, unit) dbm"
  tsOpenChannel :: "'o \<Rightarrow> bytes \<Rightarrow> bytes \<Rightarrow> bool \<Rightarrow> bool \<Rightarrow> ('d, 't, bytes \<times> bytes) dbm"

definition authorized :: "bytes option \<Rightarrow> (bytes \<Rightarrow> ('d, 't, 'a) dbm) \<Rightarrow> ('d, 't, 'a) dbm" where
  "authorized key f = (case key of None \<Rightarrow> dlift (Inl (Errorf ''not authorized'')) | Some k \<Rightarrow> f k)"

text \<open>A lock request is agreed when no reason against it was given.\<close>

definition lock_decision :: "(gerror \<Rightarrow> string) \<Rightarrow> ('d, 't, unit) dbm \<Rightarrow> ('d, 't, 'c response) dbm" where
  "lock_decision err_text m = dbind (dtry m) (\<lambda>r.
     let reason = (case r of Inl err \<Rightarrow> err_text err | Inr _ \<Rightarrow> []) in
     dret (RDecision \<lparr>dcAgreed = (reason = []), dcReason = reason, dcSignature = []\<rparr>))"

definition serve ::
  "('b, 's, 'c, 'm) chan_env \<Rightarrow> ('s, 'c, 'o) codec \<Rightarrow> (gerror \<Rightarrow> string) \<Rightarrow> ('d, 't, 'c, 'o) transport_svc \<Rightarrow> bool \<Rightarrow> bytes option \<Rightarrow>
   'c query \<Rightarrow> ('d, 't, 'c response) dbm" where
  "serve E openC err_text svc web authKey msg = (case msg of
     QPing v \<Rightarrow> dret (RPong v)
   | QRequestChannelLock i addr lock \<Rightarrow> authorized authKey (\<lambda>key. lock_decision err_text (tsExternalLock svc key addr i lock))
   | QIsChannelUnlocked i addr \<Rightarrow> authorized authKey (\<lambda>key. lock_decision err_text (tsIsLocked svc key addr i))
   | QProposeChannelConfig cfg \<Rightarrow> dret (case tsReview svc cfg of
       Inr _ \<Rightarrow> RConfigDecision True [] | Inl err \<Rightarrow> RConfigDecision False (err_text err))
   | QProposeAction i addr action cell \<Rightarrow>
       dbind (handle_ProposeAction E err_text (\<lambda>key st. tsProcessAction svc key i addr st action web) authKey cell) (\<lambda>d. dret (RProposal d))
   | QRequestAction addr action \<Rightarrow> authorized authKey (\<lambda>key. dbind (dtry (tsActionRequest svc key addr action)) (\<lambda>r. dret (RDecision
       (case r of Inl err \<Rightarrow> \<lparr>dcAgreed = False, dcReason = err_text err, dcSignature = []\<rparr>
        | Inr sig \<Rightarrow> \<lparr>dcAgreed = True, dcReason = [], dcSignature = sig\<rparr>))))
   | QOpenChannelOffchain codeHash cell _ \<Rightarrow> authorized authKey (\<lambda>key.
       dbind (dlift (case LoadState (cnL E) openC cell of Inl _ \<Rightarrow> Inl (Errorf ''failed to parse channel open config'') | Inr c \<Rightarrow> Inr c)) (\<lambda>ctr.
       dbind (dtry (tsOpenChannel svc ctr codeHash key False web)) (\<lambda>r. dret
         (case r of Inl err \<Rightarrow> ROpenChannel (zeros 32) [] (err_text err) | Inr (addr, sig) \<Rightarrow> ROpenChannel addr sig []))))
   | _ \<Rightarrow> dlift (Inl (Errorf ''unknown query'')))"

definition handleQuery ::
  "net_env \<Rightarrow> (nat \<Rightarrow> gtime) \<Rightarrow> ('b, 's, 'c, 'm) chan_env \<Rightarrow> ('s, 'c, 'o) codec \<Rightarrow> (gerror \<Rightarrow> string) \<Rightarrow> ('d, 't, 'c, 'o) transport_svc \<Rightarrow>
   bool \<Rightarrow> nat \<Rightarrow> 'c query \<Rightarrow> Transport \<Rightarrow> ('d, 't) executor \<Rightarrow> 'c response res \<times> Transport \<times> ('d, 't) executor" where
  "handleQuery N clk E openC err_text svc web p msg t e = (case msg of
     QAuthenticate q \<Rightarrow> (case handle_Authenticate N clk p q t of (r, t) \<Rightarrow> (rbind r (\<lambda>a. Inr (RAuthenticate a)), t, e))
   | _ \<Rightarrow> (case serve E openC err_text svc web (AuthKey (peerAt t p)) msg e of (r, e) \<Rightarrow> (r, t, e)))"

section \<open>Requests\<close>

text \<open>The requests of the service, over \<open>ask key req connect\<close>, the query to the peer with that key.\<close>

type_synonym 'c ask = "bytes \<Rightarrow> 'c query \<Rightarrow> bool \<Rightarrow> 'c response res"

fun as_decision :: "'c response \<Rightarrow> Decision res" where
  "as_decision (RDecision d) = Inr d"
| "as_decision _ = Inl (Errorf ''unexpected response'')"

fun as_proposal :: "'c response \<Rightarrow> 'c ProposalDecision res" where
  "as_proposal (RProposal d) = Inr d"
| "as_proposal _ = Inl (Errorf ''unexpected response'')"

definition Transport_ProposeChannelConfig :: "'c ask \<Rightarrow> bytes \<Rightarrow> ProposeChannelConfig \<Rightarrow> unit res" where
  "Transport_ProposeChannelConfig ask key prop =
     rbind (rwrap ''failed to make request'' (ask key (QProposeChannelConfig prop) True)) (\<lambda>r. case r of
       RConfigDecision ok reason \<Rightarrow> if ok then Inr () else Inl (Errorf ''rejected'')
     | _ \<Rightarrow> Inl (Errorf ''failed to make request''))"

definition Transport_RequestChannelLock :: "'c ask \<Rightarrow> bytes \<Rightarrow> bytes \<Rightarrow> int64 \<Rightarrow> bool \<Rightarrow> Decision res" where
  "Transport_RequestChannelLock ask key channel i lock =
     rwrap ''failed to request lock'' (rbind (ask key (QRequestChannelLock i channel lock) False) as_decision)"

definition Transport_IsChannelUnlocked :: "'c ask \<Rightarrow> bytes \<Rightarrow> bytes \<Rightarrow> int64 \<Rightarrow> Decision res" where
  "Transport_IsChannelUnlocked ask key channel i =
     rwrap ''failed to request lock status'' (rbind (ask key (QIsChannelUnlocked i channel) False) as_decision)"

definition Transport_ProposeAction ::
  "'c ask \<Rightarrow> int64 \<Rightarrow> bytes \<Rightarrow> bytes \<Rightarrow> 'c \<Rightarrow> 'c transport_action \<Rightarrow> 'c ProposalDecision res" where
  "Transport_ProposeAction ask lockId channelAddr key state action =
     rwrap ''failed to make request'' (rbind (ask key (QProposeAction lockId channelAddr action state) False) as_proposal)"

definition Transport_RequestAction :: "'c ask \<Rightarrow> bytes \<Rightarrow> bytes \<Rightarrow> 'c transport_action \<Rightarrow> Decision res" where
  "Transport_RequestAction ask channelAddr key action =
     rwrap ''failed to make request'' (rbind (ask key (QRequestAction channelAddr action) False) as_decision)"

definition OpenOffchainChannel ::
  "'c ask \<Rightarrow> ('s, 'c, 'o) codec \<Rightarrow> uint32 \<Rightarrow> bytes \<Rightarrow> bytes \<Rightarrow> 'o \<Rightarrow> (bytes \<times> bytes) res" where
  "OpenOffchainChannel ask openC version key codeHash cfg =
     rbind (rwrap ''failed to serialize config to cell'' (ToCell openC cfg)) (\<lambda>cl.
     rbind (rwrap ''failed to make request'' (ask key (QOpenChannelOffchain codeHash cl version) False)) (\<lambda>r. case r of
       ROpenChannel addr sig reason \<Rightarrow>
         if reason \<noteq> [] then Inl (Errorf ''failed to open channel'')
         else if length sig \<noteq> 64 then Inl (Errorf ''invalid signature size'')
         else Inr (addr, sig)
     | _ \<Rightarrow> Inl (Errorf ''failed to make request'')))"

end
