(* ===== verification/SessionLaws.thy ===== *)
theory SessionLaws
  imports Sessions
begin

text \<open>
  What a session guarantees: in every reachable state of the transport, a peer that counts as
  authenticated for a key has presented a signature of that key over both network identities, and the
  index by key leads to such a peer. Urgent peers are pinged exactly while someone needs them.
\<close>

section \<open>Runs\<close>

text \<open>New connections, handshakes of either side, and disconnects, in any order.\<close>

inductive session_step :: "net_env \<Rightarrow> Transport \<Rightarrow> Transport \<Rightarrow> bool" for N :: net_env where
  connected: "\<forall>k. peersByKey t k \<noteq> Some p \<Longrightarrow> session_step N t (t\<lparr>peerAt := (peerAt t)(p := \<lparr>peerID = i, AuthKey = None\<rparr>)\<rparr>)"
| asked: "handle_Authenticate N clk p q t = (r, t') \<Longrightarrow> session_step N t t'"
| asking: "preparePeer N now connect query key conn t = (r', t') \<Longrightarrow> session_step N t t'"
| disconnected: "session_step N t (handleDisconnect p t)"

definition no_peers :: "Transport \<Rightarrow> bool" where
  "no_peers t \<longleftrightarrow> (\<forall>p. AuthKey (peerAt t p) = None) \<and> peersByKey t = Map.empty"

definition proved_key :: "net_env \<Rightarrow> Peer \<Rightarrow> bytes \<Rightarrow> bool" where
  "proved_key N peer k \<longleftrightarrow> (\<exists>ts h sig. authHash N (peerID peer) (ourID N) ts = Inr h \<and> netVerify N k h sig)"

definition sessions_ok :: "net_env \<Rightarrow> Transport \<Rightarrow> bool" where
  "sessions_ok N t \<longleftrightarrow> (\<forall>k p. peersByKey t k = Some p \<longrightarrow> AuthKey (peerAt t p) = Some k) \<and>
     (\<forall>p k. AuthKey (peerAt t p) = Some k \<longrightarrow> proved_key N (peerAt t p) k)"

lemma proved_keyI: "authHash N (peerID peer) (ourID N) ts = Inr h \<Longrightarrow> netVerify N k h sig \<Longrightarrow> proved_key N peer k"
  by (auto simp: proved_key_def)

lemma register_peer_ok:
  assumes "sessions_ok N t" "proved_key N (peerAt t p) key"
  shows "sessions_ok N (register_peer p key t)"
  using assms unfolding sessions_ok_def register_peer_def
  by (auto simp: Let_def proved_key_def split: option.splits if_splits)

lemma auth_ok:
  assumes "sessions_ok N t" "auth N now query p t = (r, t')"
  shows "sessions_ok N t'"
  using assms
  by (auto simp: auth_def Let_def rbind_def rwrap_def split: sum.splits if_splits intro!: register_peer_ok [OF assms(1)] intro: proved_keyI)

lemma handle_Authenticate_ok:
  assumes "sessions_ok N t" "handle_Authenticate N clk p q t = (r, t')"
  shows "sessions_ok N t'"
  using assms
  by (auto simp: handle_Authenticate_def Let_def rwrap_def split: sum.splits if_splits intro!: register_peer_ok [OF assms(1)] intro: proved_keyI)

lemma auth_state: "(case a of (Inl err, t) \<Rightarrow> (Inl (f err), t) | (Inr _, t) \<Rightarrow> (Inr p, t)) = (r, t') \<Longrightarrow> snd a = t'"
  by (cases a; cases "fst a") auto

lemma preparePeer_cases:
  "preparePeer N now connect query key conn t = (r, t') \<Longrightarrow> t' = t \<or> (\<exists>p. t' = snd (auth N now (query p) p t))"
  unfolding preparePeer_def by (auto split: if_split_asm sum.split_asm dest!: auth_state)

lemma session_step_ok: "session_step N t t' \<Longrightarrow> sessions_ok N t \<Longrightarrow> sessions_ok N t'"
proof (induction rule: session_step.induct)
  case (connected t p i)
  then show ?case by (auto simp: sessions_ok_def split: if_splits)
next
  case (asked clk p q t r t')
  then show ?case by (blast intro: handle_Authenticate_ok)
next
  case (asking now connect query key conn t r' t')
  have "sessions_ok N (snd (auth N now (query p) p t))" for p
    using asking(2) by (rule auth_ok) (rule prod.collapse [symmetric])
  with preparePeer_cases [OF asking(1)] asking(2) show ?case by blast
next
  case (disconnected t p)
  then have "sessions_ok N (t\<lparr>peersByKey := (peersByKey t)(k := None)\<rparr>)" for k by (simp add: sessions_ok_def)
  with disconnected show ?case by (simp add: handleDisconnect_def Let_def)
qed

section \<open>Urgent peers\<close>

inductive urgent_step :: "(bytes \<Rightarrow> int) \<times> Transport \<Rightarrow> (bytes \<Rightarrow> int) \<times> Transport \<Rightarrow> bool" where
  "urgent_step s (Service_AddUrgentPeer peer s)"
| "urgent_step s (Service_RemoveUrgentPeer peer s)"

lemma urgent_refs_exact:
  "urgent_step\<^sup>*\<^sup>* (\<lambda>_. 0, t0) (refs, t) \<Longrightarrow> \<forall>k. \<not> urgentPeers t0 k \<Longrightarrow> 0 \<le> refs k \<and> (urgentPeers t k \<longleftrightarrow> 0 < refs k)"
proof (induction "(refs, t)" arbitrary: refs t k rule: rtranclp_induct)
  case (step s)
  obtain refs1 t1 where s: "s = (refs1, t1)" by fastforce
  with step.hyps(3) step.prems have ih: "0 \<le> refs1 k \<and> (urgentPeers t1 k \<longleftrightarrow> 0 < refs1 k)" for k by blast
  from step.hyps(2) show ?case
  proof (cases rule: urgent_step.cases)
    case (1 peer)
    with ih [of k] ih [of peer] show ?thesis
      by (simp add: s Service_AddUrgentPeer_def Transport_AddUrgentPeer_def split: if_splits)
  next
    case (2 peer)
    with ih [of k] ih [of peer] show ?thesis
      by (simp add: s Service_RemoveUrgentPeer_def Transport_RemoveUrgentPeer_def split: if_splits)
  qed
qed simp

section \<open>Samples\<close>

definition ex_net :: net_env where
  "ex_net = \<lparr>ourID = ''n'', channelKey = ''k'', channelPub = ''k'', authHash = (\<lambda>a b ts. Inr (a @ b)),
     netVerify = (\<lambda>k h s. s = k @ h), netSign = (\<lambda>k h. k @ h)\<rparr>"

definition ex_transport :: Transport where
  "ex_transport = \<lparr>peerAt = (\<lambda>_. \<lparr>peerID = ''p'', AuthKey = None\<rparr>), peersByKey = Map.empty, urgentPeers = (\<lambda>_. False)\<rparr>"

section \<open>Properties\<close>

text \<open>C9: Whoever a query is served for has proved its key. In every state the transport can reach, a peer
  that is registered under a key, or counts as authenticated for it, presented a valid signature of
  that key over its own and our network identity.\<close>

theorem sessions_authenticated:
  assumes "(session_step N)\<^sup>*\<^sup>* t0 t" "no_peers t0"
  shows "(\<forall>k p. peersByKey t k = Some p \<longrightarrow> AuthKey (peerAt t p) = Some k) \<and>
    (\<forall>p k. AuthKey (peerAt t p) = Some k \<longrightarrow> (\<exists>ts h sig. authHash N (peerID (peerAt t p)) (ourID N) ts = Inr h \<and> netVerify N k h sig))"
proof -
  have "sessions_ok N t"
    using assms
  proof (induction rule: rtranclp_induct)
    case base
    then show ?case by (simp add: no_peers_def sessions_ok_def)
  qed (blast intro: session_step_ok)
  then show ?thesis by (simp add: sessions_ok_def proved_key_def)
qed

theorem sessions_authenticated_witness:
  "\<exists>t. (session_step ex_net)\<^sup>*\<^sup>* ex_transport t \<and> peersByKey t ''q'' = Some 3 \<and> AuthKey (peerAt t 3) = Some ''q'' \<and>
     (\<exists>ts h sig. authHash ex_net (peerID (peerAt t 3)) (ourID ex_net) ts = Inr h \<and> netVerify ex_net ''q'' h sig)"
proof -
  let ?q = "\<lparr>auKey = ''q'', auTimestamp = 7, auSignature = ''qpn''\<rparr>"
  have "\<exists>r t. handle_Authenticate ex_net (\<lambda>_. unix 8) 3 ?q ex_transport = (r, t) \<and> peersByKey t ''q'' = Some 3"
    by (simp add: handle_Authenticate_def register_peer_def ex_net_def ex_transport_def unix_def unix_of_def Let_def)
  then obtain t where t: "(session_step ex_net)\<^sup>*\<^sup>* ex_transport t" "peersByKey t ''q'' = Some 3"
    using session_step.asked by blast
  have "no_peers ex_transport" by (simp add: no_peers_def ex_transport_def)
  from sessions_authenticated [OF t(1) this] t show ?thesis by blast
qed

end
