(* ===== verification/Contract.thy ===== *)
theory Contract
  imports Service
begin

text \<open>
  The client of the channel contract, \<^verbatim>\<open>pkg/payments/channel.go\<close>, with the message structures of
  \<^verbatim>\<open>pkg/payments/types.go\<close>: verification of a contract by its address, the phases of a
  closure, the signed messages a side sends, and the list of outgoing wallet messages. The TL-B layout
  of a structure is derived by the TON library from field tags, so a codec is a parameter; the account
  state of the chain is an argument.
\<close>

section \<open>Message structures\<close>

record ClosingConfig =
  QuarantineDuration :: uint32
  ConditionalCloseDuration :: uint32
  ActionsDuration :: uint32
  ReplicationMessageAttachAmount :: int

record QuarantinedState =
  qsSeqno :: uint64
  qsTheirState :: "StateSide option"
  QuarantineStarts :: uint32
  CommittedByOwner :: bool
  OurSettlementFinalized :: bool
  ActionsToExecuteHash :: bytes

record ChannelStorageData =
  stIsA :: bool
  Initialized :: bool
  CommittedSeqno :: uint64
  WalletSeqno :: uint32
  stKeyA :: bytes
  stKeyB :: bytes
  stChannelID :: bytes
  stClosingConfig :: ClosingConfig
  PartyAddress :: "address option"
  Quarantine :: "QuarantinedState option"

text \<open>The signed parts of the messages; the envelope adds one signature or two.\<close>

record InitSigned =
  isChannelID :: bytes
  isSeqno :: uint64

record 'c ExternalSigned =
  esChannelID :: bytes
  esSideA :: bool
  esValidUntil :: uint32
  esWalletSeqno :: uint32
  esOutActions :: "'c option"

record CloseSigned =
  clChannelID :: bytes
  clSeqno :: uint64
  clFromA :: bool

record UncoopSigned =
  ucChannelID :: bytes
  ucState :: "StateBodySigned option"

record ('m, 'c) SettleSigned =
  ssChannelID :: bytes
  ssExpectedSender :: "address option"
  ssWalletSeqno :: uint32
  ssToSettle :: 'm
  ssConditionalsProof :: 'c
  ssActionsInputProof :: 'c

record FinalizeSigned =
  fsChannelID :: bytes
  fsWalletSeqno :: uint32
  fsActionsInputHash :: bytes

record 'c ExecuteSigned =
  xsChannelID :: bytes
  xsAction :: 'c
  xsOurActionsInputProof :: 'c
  xsTheirActionsInputProof :: "'c option"

text \<open>A message signed by its owner, and one signed by both sides.\<close>

record 'v single_msg =
  msSignature :: bytes
  msSigned :: 'v

record 'v double_msg =
  dmSignatureA :: bytes
  dmSignatureB :: bytes
  dmSigned :: 'v

record 'c ProxySigned =
  pxChannelID :: bytes
  pxWalletSeqno :: uint32
  pxMsg :: "'c ExecuteSigned single_msg"

text \<open>The fields of an internal message the program reads, and a wallet message.\<close>

record ('m, 'c) InternalMessage =
  imDstAddr :: address
  imAmount :: int
  imExtraCurrencies :: 'm
  imBody :: 'c

record ('m, 'c) WalletMessage =
  wmMode :: "8 word"
  wmInternal :: "('m, 'c) InternalMessage option"

section \<open>Client environment\<close>

text \<open>
  A codec pair of a message: how its signed part and the whole message are written.
  \<open>ctPublic\<close> is the public key of a private key.
\<close>

record ('s, 'c, 'v, 'w) msg_codec =
  mcSigned :: "('s, 'c, 'v) codec"
  mcMsg :: "('s, 'c, 'w) codec"

record ('b, 's, 'c, 'm) contract_env =
  ctL :: "('b, 's, 'c) cell_lib"
  ctPublic :: "bytes \<Rightarrow> bytes"
  ctSign :: "bytes \<Rightarrow> bytes \<Rightarrow> bytes"
  ctVerify :: "bytes \<Rightarrow> bytes \<Rightarrow> bytes \<Rightarrow> bool"
  PaymentChannelCodes :: "'c list"
  ctStorage :: "('s, 'c, ChannelStorageData) codec"
  ctStateInit :: "('s, 'c, 'c \<times> 'c) codec"
  ctInternal :: "('s, 'c, ('m, 'c) InternalMessage) codec"
  ctInit :: "('s, 'c, InitSigned, InitSigned double_msg) msg_codec"
  ctExternal :: "('s, 'c, 'c ExternalSigned, 'c ExternalSigned double_msg) msg_codec"
  ctOwner :: "('s, 'c, 'c ExternalSigned, 'c ExternalSigned single_msg) msg_codec"
  ctCommit :: "('s, 'c, 'c CooperativeCommitSigned, 'c CooperativeCommitSigned double_msg) msg_codec"
  ctClose :: "('s, 'c, CloseSigned, CloseSigned double_msg) msg_codec"
  ctUncoop :: "('s, 'c, UncoopSigned, UncoopSigned single_msg) msg_codec"
  ctSettle :: "('s, 'c, ('m, 'c) SettleSigned, ('m, 'c) SettleSigned single_msg) msg_codec"
  ctFinalize :: "('s, 'c, FinalizeSigned, FinalizeSigned single_msg) msg_codec"
  ctExecute :: "('s, 'c, 'c ExecuteSigned, 'c ExecuteSigned single_msg) msg_codec"
  ctProxy :: "('s, 'c, 'c ProxySigned, 'c ProxySigned single_msg) msg_codec"

datatype ContractStatus = ChannelStatusUninitialized | ChannelStatusOpen | ChannelStatusClosureStarted
  | ChannelStatusSettlingConditionals | ChannelStatusExecutingActions | ChannelStatusAwaitingFinalization

record 'c ChannelContract =
  coStatus :: ContractStatus
  coStorage :: ChannelStorageData
  coContractCode :: 'c
  coAddress :: address

section \<open>Reading a contract\<close>

text \<open>\<open>calcState\<close>: the phase of a closure at the second \<open>now\<close>; all sums are of 32-bit values in \<open>int64\<close>.\<close>

definition calcState :: "int \<Rightarrow> ChannelStorageData \<Rightarrow> ContractStatus" where
  "calcState now st = (if \<not> Initialized st then ChannelStatusUninitialized
     else case Quarantine st of None \<Rightarrow> ChannelStatusOpen
     | Some q \<Rightarrow>
       let cfg = stClosingConfig st;
           quarantineEnds = uint (QuarantineStarts q) + uint (QuarantineDuration cfg) in
       if now < quarantineEnds then ChannelStatusClosureStarted
       else if qsTheirState q \<noteq> None \<and> now < quarantineEnds + uint (ConditionalCloseDuration cfg)
       then ChannelStatusSettlingConditionals
       else if qsTheirState q \<noteq> None \<and> now < quarantineEnds + uint (ConditionalCloseDuration cfg) + uint (ActionsDuration cfg)
       then ChannelStatusExecutingActions
       else ChannelStatusAwaitingFinalization)"

text \<open>The storage a contract is deployed with, and the address it gets from code and storage.\<close>

definition initial_storage :: "bool \<Rightarrow> ChannelStorageData \<Rightarrow> ChannelStorageData" where
  "initial_storage isA st = \<lparr>stIsA = isA, Initialized = False, CommittedSeqno = 0, WalletSeqno = 0,
     stKeyA = stKeyA st, stKeyB = stKeyB st, stChannelID = stChannelID st, stClosingConfig = stClosingConfig st,
     PartyAddress = None, Quarantine = None\<rparr>"

definition deployed_address :: "('b, 's, 'c, 'm) contract_env \<Rightarrow> 'c \<Rightarrow> ChannelStorageData \<Rightarrow> address res" where
  "deployed_address E code st =
     rbind (rwrap ''failed to serialize storage data'' (ToCell (ctStorage E) st)) (\<lambda>data.
     rbind (rwrap ''failed to serialize state init'' (ToCell (ctStateInit E) (code, data))) (\<lambda>si.
     Inr (CellHash (ctL E) si)))"

definition known_code :: "('b, 's, 'c, 'm) contract_env \<Rightarrow> 'c \<Rightarrow> 'c option" where
  "known_code E code = first_some (\<lambda>h. if CellHash (ctL E) code = CellHash (ctL E) h then Some h else None) (PaymentChannelCodes E)"

definition ParseChannel :: "('b, 's, 'c, 'm) contract_env \<Rightarrow> int \<Rightarrow> address \<Rightarrow> 'c \<Rightarrow> 'c \<Rightarrow> bool \<Rightarrow> 'c ChannelContract res" where
  "ParseChannel E now addr code data verify =
     rbind (if verify then (case known_code E code of None \<Rightarrow> Inl ErrVerificationNotPassed | Some h \<Rightarrow> Inr h) else Inr code) (\<lambda>code.
     rbind (rwrap ''failed to load storage'' (tlb_Parse (ctL E) (ctStorage E) data)) (\<lambda>st.
     rbind (if \<not> verify then Inr () else
       rbind (deployed_address E code (initial_storage (stIsA st) st)) (\<lambda>a.
         if a \<noteq> addr then Inl ErrVerificationNotPassed else Inr ())) (\<lambda>_.
     Inr \<lparr>coStatus = calcState now st, coStorage = st, coContractCode = code, coAddress = addr\<rparr>)))"

record ('m, 'c) account =
  acBalance :: int
  acExtraCurrencies :: 'm
  acHasState :: bool
  acIsActive :: bool
  acCode :: 'c
  acData :: 'c

definition GetChannelContract ::
  "('b, 's, 'c, 'm) contract_env \<Rightarrow> (address \<Rightarrow> ('m, 'c) account res) \<Rightarrow> int \<Rightarrow> address \<Rightarrow> bool \<Rightarrow> 'c ChannelContract res" where
  "GetChannelContract E getAccount now addr verify =
     rbind (rwrap ''failed to get account'' (getAccount addr)) (\<lambda>acc.
     if \<not> acIsActive acc then Inl (Errorf ''channel account is not active'')
     else ParseChannel E now addr (acCode acc) (acData acc) verify)"

text \<open>A failure to serialise is a panic here.\<close>

definition must :: "'a res \<Rightarrow> 'a res" where
  "must r = (case r of Inl e \<Rightarrow> Inl (Panic ''must'') | Inr x \<Rightarrow> Inr x)"

definition GetPartyAddr :: "('b, 's, 'c, 'm) contract_env \<Rightarrow> 'c ChannelContract \<Rightarrow> address res" where
  "GetPartyAddr E c = must (deployed_address E (coContractCode c) (initial_storage (\<not> stIsA (coStorage c)) (coStorage c)))"

section \<open>Outgoing wallet messages\<close>

definition validateMessageFields :: "('m, 'c) WalletMessage list \<Rightarrow> unit res" where
  "validateMessageFields messages = (if 255 < length messages then Inl (Errorf ''max 255 messages allowed for v5'')
     else if \<exists>x \<in> set messages. wmInternal x = None then Inl (Errorf ''internal message cannot be nil'') else Inr ())"

text \<open>One node of the list: the previous list, the action tag, the mode and the message.\<close>

definition pack_node :: "('b, 's, 'c, 'm) contract_env \<Rightarrow> ('m, 'c) WalletMessage \<Rightarrow> 'c \<Rightarrow> 'c res" where
  "pack_node E x prev = (case wmInternal x of None \<Rightarrow> Inl (Panic ''nil pointer dereference'')
   | Some im \<Rightarrow> rbind (ToCell (ctInternal E) im) (\<lambda>outMsg.
     end_cell (ctL E) (build (ctL E) [st_ref (ctL E) (Inr prev), st_builder (ctL E)
       (build (ctL E) [st_uint (ctL E) 0x0ec3c86d 32, st_uint (ctL E) (unat (wmMode x)) 8, st_ref (ctL E) (Inr outMsg)])])))"

definition PackOutActions :: "('b, 's, 'c, 'm) contract_env \<Rightarrow> ('m, 'c) WalletMessage list \<Rightarrow> 'c res" where
  "PackOutActions E messages = rbind (validateMessageFields messages) (\<lambda>_.
     rfold (pack_node E) messages (EndCell (ctL E) (BeginCell (ctL E))))"

text \<open>
  The loop of \<open>UnpackOutActions\<close> walks the list from its last message. One round ends the loop at
  the empty cell, or gives a message and the cell to go on with; the loop itself may run forever on a
  library whose cells are not well-founded, so its result is an option.
\<close>

definition unpack_round :: "('b, 's, 'c, 'm) contract_env \<Rightarrow> 'c \<Rightarrow> (('m, 'c) WalletMessage \<times> 'c) option res" where
  "unpack_round E c = (let L = ctL E; sl = BeginParse L c in
     if BitsLeft L sl = 0 \<and> RefsNum L sl = 0 then Inr None
     else rbind (rwrap ''failed to load prev ref'' (LoadRef L sl)) (\<lambda>(prev, sl).
       rbind (rwrap ''failed to load action tag'' (LoadUInt L sl 32)) (\<lambda>(tag, sl).
       if tag \<noteq> 0x0ec3c86d then Inl (Errorf ''unsupported out action tag'')
       else rbind (rwrap ''failed to load mode'' (LoadUInt L sl 8)) (\<lambda>(mode, sl).
         rbind (rwrap ''failed to load out_msg ref'' (LoadRef L sl)) (\<lambda>(outMsgRef, sl).
         rbind (rwrap ''failed to parse internal message'' (LoadFromCell (ctInternal E) outMsgRef)) (\<lambda>(im, _).
         Inr (Some (\<lparr>wmMode = of_nat mode, wmInternal = Some im\<rparr>, MustToCell L prev))))))))"

partial_function (option) unpack_loop ::
  "('b, 's, 'c, 'm) contract_env \<Rightarrow> 'c \<Rightarrow> ('m, 'c) WalletMessage list \<Rightarrow> ('m, 'c) WalletMessage list res option" where
  "unpack_loop E c resRev = (case unpack_round E c of
     Inl e \<Rightarrow> Some (Inl e)
   | Inr None \<Rightarrow> Some (Inr (rev resRev))
   | Inr (Some (x, c')) \<Rightarrow> unpack_loop E c' (resRev @ [x]))"

declare unpack_loop.simps [code]

definition UnpackOutActions ::
  "('b, 's, 'c, 'm) contract_env \<Rightarrow> 'c option \<Rightarrow> ('m, 'c) WalletMessage list res option" where
  "UnpackOutActions E out = (case out of None \<Rightarrow> Some (Inr []) | Some c \<Rightarrow> unpack_loop E c [])"

section \<open>Signing\<close>

definition toSignature :: "('b, 's, 'c, 'm) contract_env \<Rightarrow> ('s, 'c, 'v) codec \<Rightarrow> 'v \<Rightarrow> bytes \<Rightarrow> bytes res" where
  "toSignature E C v key = rbind (rwrap ''failed to serialize body to sign'' (ToCell C v)) (\<lambda>c.
     Inr (ctSign E key (CellHash (ctL E) c)))"

text \<open>The key of the owner of a contract, and a message signed by it.\<close>

definition owner_key :: "ChannelStorageData \<Rightarrow> bytes" where
  "owner_key st = (if stIsA st then stKeyA st else stKeyB st)"

definition owner_sign ::
  "('b, 's, 'c, 'm) contract_env \<Rightarrow> ChannelStorageData \<Rightarrow> bytes \<Rightarrow> ('s, 'c, 'v) codec \<Rightarrow> 'v \<Rightarrow> 'v single_msg res" where
  "owner_sign E st ourKey C v = (if ctPublic E ourKey \<noteq> owner_key st then Inl (Errorf ''our key is not match'')
     else rbind (rwrap ''failed to sign data'' (toSignature E C v ourKey)) (\<lambda>sig. Inr \<lparr>msSignature = sig, msSigned = v\<rparr>))"

definition owner_message ::
  "('b, 's, 'c, 'm) contract_env \<Rightarrow> ChannelStorageData \<Rightarrow> bytes \<Rightarrow> ('s, 'c, 'v, 'v single_msg) msg_codec \<Rightarrow> 'v \<Rightarrow> 'c res" where
  "owner_message E st ourKey C v = rbind (owner_sign E st ourKey (mcSigned C) v) (\<lambda>msg.
     rwrap ''failed to serialize message'' (ToCell (mcMsg C) msg))"

text \<open>
  \<open>prepareDoubleSignedMessage\<close>: sign, verify the signature of the other side when there is one, and
  place both. The result is the new signature with the signatures of A and B.
\<close>

definition check_their_sig ::
  "('b, 's, 'c, 'm) contract_env \<Rightarrow> ('s, 'c, 'v) codec \<Rightarrow> 'v \<Rightarrow> bytes \<Rightarrow> bytes option \<Rightarrow> unit res" where
  "check_their_sig E C v theirKey theirSig = (case theirSig of None \<Rightarrow> Inr ()
   | Some s \<Rightarrow> rbind (rwrap ''failed to serialize signed'' (ToCell C v)) (\<lambda>cl.
     if \<not> ctVerify E theirKey (CellHash (ctL E) cl) s then Inl (Errorf ''their signature is not match'') else Inr ()))"

definition sig_or_zero :: "bytes option \<Rightarrow> bytes" where
  "sig_or_zero s = (case s of None \<Rightarrow> zeros 64 | Some x \<Rightarrow> if length x = 0 then zeros 64 else x)"

definition prepareDoubleSignedMessage ::
  "('b, 's, 'c, 'm) contract_env \<Rightarrow> ChannelStorageData \<Rightarrow> bytes \<Rightarrow> bytes option \<Rightarrow> ('s, 'c, 'v) codec \<Rightarrow> 'v \<Rightarrow>
   (bytes \<times> 'v double_msg) res" where
  "prepareDoubleSignedMessage E st ourKey theirSig C v =
     rbind (rwrap ''failed to sign data'' (toSignature E C v ourKey)) (\<lambda>sig.
     let weA = (ctPublic E ourKey = stKeyA st); theirKey = (if weA then stKeyB st else stKeyA st) in
     if \<not> weA \<and> ctPublic E ourKey \<noteq> stKeyB st then Inl (Errorf ''our key is not match'')
     else rbind (check_their_sig E C v theirKey theirSig) (\<lambda>_.
       let theirs = sig_or_zero theirSig; (sa, sb) = (if weA then (sig, theirs) else (theirs, sig)) in
       Inr (sig, \<lparr>dmSignatureA = sa, dmSignatureB = sb, dmSigned = v\<rparr>)))"

definition double_message ::
  "('b, 's, 'c, 'm) contract_env \<Rightarrow> ChannelStorageData \<Rightarrow> bytes \<Rightarrow> bytes option \<Rightarrow>
   ('s, 'c, 'v, 'v double_msg) msg_codec \<Rightarrow> 'v \<Rightarrow> ('c \<times> bytes) res" where
  "double_message E st ourKey theirSig C v =
     rbind (rwrap ''failed to prepare double signed message'' (prepareDoubleSignedMessage E st ourKey theirSig (mcSigned C) v)) (\<lambda>(sig, msg).
     rbind (rwrap ''failed to serialize message'' (ToCell (mcMsg C) msg)) (\<lambda>body. Inr (body, sig)))"

section \<open>The messages\<close>

text \<open>
  \<open>GetDeployAsyncChannelParams\<close>: the initial storage and the double signed init message of a channel.
\<close>

definition GetDeployAsyncChannelParams ::
  "('b, 's, 'c, 'm) contract_env \<Rightarrow> bytes \<Rightarrow> bool \<Rightarrow> uint64 \<Rightarrow> bytes \<Rightarrow> bytes \<Rightarrow> bytes option \<Rightarrow> ClosingConfig \<Rightarrow>
   ('c \<times> 'c \<times> bytes) res" where
  "GetDeployAsyncChannelParams E channelId isA seqno ourKey theirKey theirSig cfg =
     (if length channelId \<noteq> 16 then Inl (Errorf ''channelId len should be 16 bytes'')
      else
      let our = ctPublic E ourKey; (a, b) = (if isA then (our, theirKey) else (theirKey, our)) in
      rbind (rwrap ''failed to serialize storage data'' (ToCell (ctStorage E)
        \<lparr>stIsA = isA, Initialized = False, CommittedSeqno = 0, WalletSeqno = 0, stKeyA = a, stKeyB = b,
         stChannelID = channelId, stClosingConfig = cfg, PartyAddress = None, Quarantine = None\<rparr>)) (\<lambda>data.
      let signed = \<lparr>isChannelID = channelId, isSeqno = seqno\<rparr> in
      rbind (rwrap ''failed to sign data'' (toSignature E (mcSigned (ctInit E)) signed ourKey)) (\<lambda>sig.
      rbind (check_their_sig E (mcSigned (ctInit E)) signed theirKey theirSig) (\<lambda>_.
      let theirs = sig_or_zero theirSig; (sa, sb) = (if isA then (sig, theirs) else (theirs, sig)) in
      rbind (rwrap ''failed to serialize message'' (ToCell (mcMsg (ctInit E))
        \<lparr>dmSignatureA = sa, dmSignatureB = sb, dmSigned = signed\<rparr>)) (\<lambda>body. Inr (body, data, sig))))))"

definition external_signed :: "ChannelStorageData \<Rightarrow> uint32 \<Rightarrow> 'c \<Rightarrow> 'c ExternalSigned" where
  "external_signed st validUntil out = \<lparr>esChannelID = stChannelID st, esSideA = stIsA st, esValidUntil = validUntil,
     esWalletSeqno = WalletSeqno st, esOutActions = Some out\<rparr>"

definition PrepareDoubleExternalMessage ::
  "('b, 's, 'c, 'm) contract_env \<Rightarrow> 'c ChannelContract \<Rightarrow> bytes \<Rightarrow> bytes option \<Rightarrow> ('m, 'c) WalletMessage list \<Rightarrow> uint32 \<Rightarrow> ('c \<times> bytes) res" where
  "PrepareDoubleExternalMessage E c ourKey theirSig messages validUntil = (let st = coStorage c in
     if \<not> Initialized st then Inl (Errorf ''channel is in owner sign mode'')
     else rbind (rwrap ''failed to pack out actions'' (PackOutActions E messages)) (\<lambda>out.
       double_message E st ourKey theirSig (ctExternal E) (external_signed st validUntil out)))"

definition PrepareOwnerExternalMessage ::
  "('b, 's, 'c, 'm) contract_env \<Rightarrow> 'c ChannelContract \<Rightarrow> bytes \<Rightarrow> ('m, 'c) WalletMessage list \<Rightarrow> uint32 \<Rightarrow> 'c res" where
  "PrepareOwnerExternalMessage E c ourKey messages validUntil = (let st = coStorage c in
     if Initialized st then Inl (Errorf ''channel is in double sign mode'')
     else rbind (rwrap ''failed to pack out actions'' (PackOutActions E messages)) (\<lambda>out.
       owner_message E st ourKey (ctOwner E) (external_signed st validUntil out)))"

definition PrepareUncoopCloseMessage ::
  "('b, 's, 'c, 'm) contract_env \<Rightarrow> 'c ChannelContract \<Rightarrow> bytes \<Rightarrow> StateBodySigned option \<Rightarrow> 'c res" where
  "PrepareUncoopCloseMessage E c ourKey state = owner_message E (coStorage c) ourKey (ctUncoop E)
     \<lparr>ucChannelID = stChannelID (coStorage c), ucState = state\<rparr>"

definition PrepareSettleMessage ::
  "('b, 's, 'c, 'm) contract_env \<Rightarrow> 'c ChannelContract \<Rightarrow> bytes \<Rightarrow> 'm \<Rightarrow> 'c \<Rightarrow> 'c \<Rightarrow> address option \<Rightarrow> 'c res" where
  "PrepareSettleMessage E c ourKey toSettle condProof actProof sender = owner_message E (coStorage c) ourKey (ctSettle E)
     \<lparr>ssChannelID = stChannelID (coStorage c), ssExpectedSender = sender, ssWalletSeqno = WalletSeqno (coStorage c),
      ssToSettle = toSettle, ssConditionalsProof = condProof, ssActionsInputProof = actProof\<rparr>"

definition PrepareFinalizeSettleMessage ::
  "('b, 's, 'c, 'm) contract_env \<Rightarrow> 'c ChannelContract \<Rightarrow> bytes \<Rightarrow> bytes \<Rightarrow> 'c res" where
  "PrepareFinalizeSettleMessage E c ourKey actionsHash = owner_message E (coStorage c) ourKey (ctFinalize E)
     \<lparr>fsChannelID = stChannelID (coStorage c), fsWalletSeqno = WalletSeqno (coStorage c), fsActionsInputHash = actionsHash\<rparr>"

definition execute_signed :: "ChannelStorageData \<Rightarrow> 'c \<Rightarrow> 'c \<Rightarrow> 'c option \<Rightarrow> 'c ExecuteSigned" where
  "execute_signed st act ourProof theirProof = \<lparr>xsChannelID = stChannelID st, xsAction = act,
     xsOurActionsInputProof = ourProof, xsTheirActionsInputProof = theirProof\<rparr>"

definition PrepareExecuteActionsMessage ::
  "('b, 's, 'c, 'm) contract_env \<Rightarrow> 'c ChannelContract \<Rightarrow> bytes \<Rightarrow> 'c \<Rightarrow> 'c \<Rightarrow> 'c option \<Rightarrow> 'c res" where
  "PrepareExecuteActionsMessage E c ourKey act ourProof theirProof =
     owner_message E (coStorage c) ourKey (ctExecute E) (execute_signed (coStorage c) act ourProof theirProof)"

definition PrepareProxyExecuteActionsMessage ::
  "('b, 's, 'c, 'm) contract_env \<Rightarrow> 'c ChannelContract \<Rightarrow> bytes \<Rightarrow> 'c \<Rightarrow> 'c \<Rightarrow> 'c option \<Rightarrow> 'c res" where
  "PrepareProxyExecuteActionsMessage E c ourKey act ourProof theirProof =
     rbind (owner_sign E (coStorage c) ourKey (mcSigned (ctExecute E)) (execute_signed (coStorage c) act ourProof theirProof)) (\<lambda>aMsg.
     owner_message E (coStorage c) ourKey (ctProxy E)
       \<lparr>pxChannelID = stChannelID (coStorage c), pxWalletSeqno = WalletSeqno (coStorage c), pxMsg = aMsg\<rparr>)"

definition PrepareCoopCommitMessage ::
  "('b, 's, 'c, 'm) contract_env \<Rightarrow> 'c ChannelContract \<Rightarrow> bytes \<Rightarrow> bytes option \<Rightarrow> uint64 \<Rightarrow> 'c CooperativeCommitAct option \<Rightarrow> bool \<Rightarrow> ('c \<times> bytes) res" where
  "PrepareCoopCommitMessage E c ourKey theirSig seqno act fromA =
     double_message E (coStorage c) ourKey theirSig (ctCommit E)
       \<lparr>csBody = \<lparr>ccChannelID = stChannelID (coStorage c), ccSeqno = seqno, ccFromA = fromA\<rparr>, csAction = act\<rparr>"

definition PrepareCoopCloseMessage ::
  "('b, 's, 'c, 'm) contract_env \<Rightarrow> 'c ChannelContract \<Rightarrow> bytes \<Rightarrow> bytes option \<Rightarrow> uint64 \<Rightarrow> bool \<Rightarrow> ('c \<times> bytes) res" where
  "PrepareCoopCloseMessage E c ourKey theirSig seqno fromA =
     double_message E (coStorage c) ourKey theirSig (ctClose E)
       \<lparr>clChannelID = stChannelID (coStorage c), clSeqno = seqno, clFromA = fromA\<rparr>"

end
