(* ===== verification/Requests.thy ===== *)
theory Requests
  imports Updates Contract
begin

text \<open>
  Requests of the peer that end in a transaction signed by both sides: the validation of the outgoing
  messages of a double signed wallet transaction and the cooperative close request
  (\<^verbatim>\<open>tonpayments/api.go\<close>), and \<open>ProcessActionRequest\<close> (\<^verbatim>\<open>tonpayments/process.go\<close>).
\<close>

section \<open>Environment\<close>

record 'c TransferPayload =
  tpQueryID :: uint64
  tpAmount :: int
  tpDestination :: "address option"
  tpResponseDestination :: "address option"
  tpCustomPayload :: "'c option"
  tpForwardTONAmount :: int
  tpForwardPayload :: 'c

record 'c BurnPayload =
  bpQueryID :: uint64
  bpAmount :: int
  bpResponseDestination :: "address option"
  bpCustomPayload :: "'c option"

text \<open>\<open>rqVarUInt\<close> is \<open>LoadVarUInt\<close> of a slice; the client reads the cells of the service.\<close>

record ('b, 's, 'c, 'm) req_env =
  rqC :: "('b, 's, 'c, 'm) contract_env"
  rqTransfer :: "('s, 'c, 'c TransferPayload) codec"
  rqBurn :: "('s, 'c, 'c BurnPayload) codec"
  rqVarUInt :: "'s \<Rightarrow> nat \<Rightarrow> int res"

text \<open>A call that does not return is no result; unpacking always returns, so this branch is never taken.\<close>

definition returning :: "'a res option \<Rightarrow> 'a res" where
  "returning r = (case r of None \<Rightarrow> Inl (Panic ''does not return'') | Some x \<Rightarrow> x)"

definition must_load :: "'a res \<Rightarrow> 'a res" where
  "must_load r = (case r of Inl _ \<Rightarrow> Inl (Panic ''not enough data'') | Inr x \<Rightarrow> Inr x)"

section \<open>Outgoing messages\<close>

text \<open>The loop state: balances as they are spent, the amounts of the transfer, and the coins short on-chain.\<close>

record spending =
  spBalances :: balances
  spAmounts :: "(string \<times> int) list"
  spLow :: "string list"

definition add_amount :: "string \<Rightarrow> int \<Rightarrow> (string \<times> int) list \<Rightarrow> (string \<times> int) list" where
  "add_amount i amt xs = AList.update i (case map_of xs i of Some p \<Rightarrow> p + amt | None \<Rightarrow> amt) xs"

text \<open>
  Take an amount and a reserve from the on-chain balance of a coin: refused when it would leave a debt,
  noted when the contract does not hold enough.
\<close>

definition spend :: "string \<Rightarrow> string \<Rightarrow> string \<Rightarrow> int \<Rightarrow> int \<Rightarrow> spending \<Rightarrow> spending res" where
  "spend err i pid amt reserve sp = (case spBalances sp i of None \<Rightarrow> Inr sp
   | Some b \<Rightarrow> let b = b\<lparr>Onchain := Onchain b - amt - reserve\<rparr> in
     if Available (Some b) < 0 then Inl (Errorf err)
     else Inr \<lparr>spBalances = (spBalances sp)(i \<mapsto> b), spAmounts = add_amount pid amt (spAmounts sp),
       spLow = (if Onchain b < 0 then pid # spLow sp else spLow sp)\<rparr>)"

definition spend_extra :: "('b, 's, 'c, 'm, 'd, 't, 'j) svc \<Rightarrow> ('b, 's, 'c, 'm) req_env \<Rightarrow> 's \<times> 's \<Rightarrow> spending \<Rightarrow> spending res" where
  "spend_extra S Q kv sp = rbind (must_load (LoadUInt (svCells S) (fst kv) 32)) (\<lambda>(k, _).
     let i = GetECBalanceID (of_nat k) in
     if spBalances sp i = None then Inr sp
     else rbind (must_load (rqVarUInt Q (snd kv) 32)) (\<lambda>amt. spend ''too few available ec balance'' i i amt 0 sp))"

definition spend_extras :: "('b, 's, 'c, 'm, 'd, 't, 'j) svc \<Rightarrow> ('b, 's, 'c, 'm) req_env \<Rightarrow> 'm \<Rightarrow> spending \<Rightarrow> spending res" where
  "spend_extras S Q extra sp = (if DictIsEmpty (svD S) extra then Inr sp
     else rbind (rwrap ''failed to load all ec'' (LoadAll (svD S) extra)) (\<lambda>ecs. rfold (spend_extra S Q) ecs sp))"

text \<open>A message to a jetton wallet of the contract must be a transfer or a burn.\<close>

definition jetton_amount :: "('b, 's, 'c, 'm, 'd, 't, 'j) svc \<Rightarrow> ('b, 's, 'c, 'm) req_env \<Rightarrow> 'c \<Rightarrow> int res" where
  "jetton_amount S Q payload = (let body = BeginParse (svCells S) payload in
     rbind (if 32 \<le> BitsLeft (svCells S) body
       then rbind (rwrap ''failed to load preload op bits'' (LoadUInt (svCells S) body 32)) (\<lambda>(v, _). Inr v) else Inr 0) (\<lambda>pfx.
     if pfx = 0xf8a7ea5 then
       rbind (rwrap ''failed to load jetton transfer payload'' (LoadFromCell (rqTransfer Q) body)) (\<lambda>(tr, _). Inr (tpAmount tr))
     else if pfx = 0x595f07bc then
       rbind (rwrap ''failed to load jetton burn payload'' (LoadFromCell (rqBurn Q) body)) (\<lambda>(bu, _). Inr (bpAmount bu))
     else Inl (Errorf ''unsupported jetton transaction for double signing'')))"

definition spend_jetton ::
  "('b, 's, 'c, 'm, 'd, 't, 'j) svc \<Rightarrow> ('b, 's, 'c, 'm) req_env \<Rightarrow> (string \<rightharpoonup> string) \<Rightarrow> ('m, 'c) InternalMessage \<Rightarrow> spending \<Rightarrow> spending res" where
  "spend_jetton S Q jettons im sp = (case jettons (hex_encode (imDstAddr im)) of None \<Rightarrow> Inr sp
   | Some i \<Rightarrow> (case spBalances sp i of None \<Rightarrow> Inr sp
     | Some b \<Rightarrow> rbind (jetton_amount S Q (imBody im)) (\<lambda>amt.
         spend ''too few available jetton balance'' i (BalanceID (BalCoinConfig b)) amt 0 sp)))"

definition validate_message ::
  "('b, 's, 'c, 'm, 'd, 't, 'j) svc \<Rightarrow> ('b, 's, 'c, 'm) req_env \<Rightarrow> (string \<rightharpoonup> string) \<Rightarrow> address \<Rightarrow> ('m, 'c) WalletMessage \<Rightarrow>
   spending \<Rightarrow> spending res" where
  "validate_message S Q jettons otherAddr x sp = (case wmInternal x of None \<Rightarrow> Inl (Panic ''nil pointer dereference'')
   | Some im \<Rightarrow>
     if imDstAddr im = otherAddr then Inl (Errorf ''direct transactions to party contract are not allowed, use commits'')
     else if 3 < wmMode x then Inl (Errorf ''message mode is not allowed'')
     else
       rbind (spend ''too few available ton balance'' GetTONBalanceID GetTONBalanceID (imAmount im) 100000000 sp) (\<lambda>sp.
       rbind (spend_extras S Q (imExtraCurrencies im) sp) (\<lambda>sp.
       spend_jetton S Q jettons im sp)))"

text \<open>
  The jetton wallets of the side, by the hex form of their address; the coins are visited in the order
  of the configuration, which only matters when two jettons share a wallet.
\<close>

definition add_wallet ::
  "('b, 's, 'c, 'm, 'd, 't, 'j) svc \<Rightarrow> string \<Rightarrow> balances \<Rightarrow> CoinConfig \<Rightarrow> (string \<rightharpoonup> string) \<Rightarrow> (string \<rightharpoonup> string) res" where
  "add_wallet S side bals cc jettons = (case bals (BalanceID cc) of None \<Rightarrow> Inr jettons
   | Some info \<Rightarrow> (case CoinJettonClient (BalCoinConfig info) of None \<Rightarrow> Inr jettons
     | Some jc \<Rightarrow> rbind (MustParseAddr S side) (\<lambda>addr.
         rbind (rwrap ''failed to get jetton wallet address'' (GetWalletAddress jc (Some addr))) (\<lambda>wa.
         Inr (jettons(hex_encode wa \<mapsto> BalanceID cc))))))"

definition validateOutMessages ::
  "('b, 's, 'c, 'm, 'd, 't, 'j) svc \<Rightarrow> ('b, 's, 'c, 'm) req_env \<Rightarrow> (nat \<Rightarrow> gtime) \<Rightarrow> ('m, 'c) Channel \<Rightarrow> 'c option \<Rightarrow> bool \<Rightarrow>
   ('d, 't, PendingMessageInfo option \<times> string list) dbm" where
  "validateOutMessages S Q clk ch out isTheir =
     dbind (dlift (rwrap ''failed to unpack out-actions'' (returning (UnpackOutActions (rqC Q) out)))) (\<lambda>msgs.
     if msgs = [] then dlift (Inl (Errorf ''no messages''))
     else dbind (calc_balance S clk ch isTheir) (\<lambda>bals.
       let (side, other) = (if isTheir then (Their ch, Our ch) else (Our ch, Their ch)) in
       dbind (dlift (rfold (add_wallet S (sdAddress side) bals) (map snd (svKnown S)) Map.empty)) (\<lambda>jettons.
       dbind (dlift (MustParseAddr S (sdAddress other))) (\<lambda>otherAddr.
       dbind (dlift (rfold (validate_message S Q jettons otherAddr) msgs \<lparr>spBalances = bals, spAmounts = [], spLow = []\<rparr>)) (\<lambda>sp.
       dret (if spLow sp \<noteq> [] then (None, spLow sp)
         else (Some \<lparr>pmAmounts = spAmounts sp, CompletionBodyPrefix = [], CompletionAddress = [], LimitDepth = 4\<rparr>, [])))))))"

section \<open>Cooperative close request\<close>

text \<open>Every conditional is expired and every action state may be dropped.\<close>

definition cond_expired :: "('b, 's, 'c, 'm, 'd, 't, 'j) svc \<Rightarrow> gtime \<times> 's \<Rightarrow> ('d, 't, unit) dbm" where
  "cond_expired S x = dbind (dcatch (code_to_cond S (MustToCell (svCells S) (snd x)))
       (\<lambda>err. dlift (Inl (if is_panic err then err else Errorf ''failed to patse state of one of virtual channels'')))) (\<lambda>c.
     if fst x < Cond_GetDeadline c then dlift (Inl (Errorf ''conditionals should be resolved before cooperative close'')) else dret ())"

definition action_removable :: "('b, 's, 'c, 'm, 'd, 't, 'j) svc \<Rightarrow> string \<Rightarrow> string \<Rightarrow> uint64 \<Rightarrow> 's \<times> 's \<Rightarrow> ('d, 't, unit) dbm" where
  "action_removable S m1 m2 seqno kv = dbind (dlift (dict_key (svCells S) (fst kv))) (\<lambda>i.
     dbind (dwrap m1 (stored_action S i)) (\<lambda>act.
     dbind (dlift (Action_CheckCanRemove (svA S) act seqno (MustToCell (svCells S) (snd kv)))) (\<lambda>can.
     if \<not> can then dlift (Inl (Errorf m2)) else dret ())))"

primrec dfor :: "('a \<Rightarrow> ('d, 't, unit) dbm) \<Rightarrow> 'a list \<Rightarrow> ('d, 't, unit) dbm" where
  "dfor f [] = dret ()"
| "dfor f (x # xs) = dbind (f x) (\<lambda>_. dfor f xs)"

definition getCooperativeCloseRequest ::
  "('b, 's, 'c, 'm, 'd, 't, 'j) svc \<Rightarrow> ('b, 's, 'c, 'm) req_env \<Rightarrow> (nat \<Rightarrow> gtime) \<Rightarrow> ('m, 'c) Channel \<Rightarrow> bool \<Rightarrow>
   ('d, 't, CloseSigned double_msg \<times> 'c \<times> bytes) dbm" where
  "getCooperativeCloseRequest S Q clk ch fromA =
     (if PendingOnchainTransfers (Our ch) \<noteq> [] then dlift (Inl (Errorf ''some our transfers are pending''))
      else if PendingOnchainTransfers (Their ch) \<noteq> [] then dlift (Inl (Errorf ''some their transfers are pending''))
      else
      dbind (dlift (rwrap ''failed to load our cond dict'' (LoadAll (svD S) (adConditionals (sdData (Our ch)))))) (\<lambda>allOur.
      dbind (dfor (cond_expired S) (at_times clk 0 allOur)) (\<lambda>_.
      dbind (dlift (rwrap ''failed to load their cond dict'' (LoadAll (svD S) (adConditionals (sdData (Their ch)))))) (\<lambda>allTheir.
      dbind (dfor (cond_expired S) (at_times clk (length allOur) allTheir)) (\<lambda>_.
      dbind (dlift (rwrap ''failed to load our actions dict'' (LoadAll (svD S) (adActionStates (sdData (Our ch)))))) (\<lambda>ourAct.
      dbind (dfor (action_removable S ''failed to resolve our action'' ''our action cannot be removed, state requires commit''
        (LatestCommitedSeqno (Our ch))) ourAct) (\<lambda>_.
      dbind (dlift (rwrap ''failed to load our actions dict'' (LoadAll (svD S) (adActionStates (sdData (Their ch)))))) (\<lambda>theirAct.
      dbind (dfor (action_removable S ''failed to resolve their action'' ''their action cannot be removed, state requires commit''
        (LatestCommitedSeqno (Their ch))) theirAct) (\<lambda>_.
      dbind (dlift (LoadSignedState (svE S) ch)) (\<lambda>st.
      let signed = \<lparr>clChannelID = chID ch, clSeqno = sbSeqno (sbBody st) + 1, clFromA = fromA\<rparr> in
      dbind (dlift (rwrap ''failed to serialize body to cell'' (ToCell (mcSigned (ctClose (rqC Q))) signed))) (\<lambda>dataCell.
      let signature = svSign S (svKey S) (CellHash (svCells S) dataCell);
          (sa, sb) = (if WeLeft ch then (signature, zeros 64) else (zeros 64, signature)) in
      dret (\<lparr>dmSignatureA = sa, dmSignatureB = sb, dmSigned = signed\<rparr>, dataCell, signature))))))))))))"

section \<open>Processing a request\<close>

definition update_channel :: "('b, 's, 'c, 'm, 'd, 't, 'j) svc \<Rightarrow> gtime \<Rightarrow> ('m, 'c) Channel \<Rightarrow> ('d, 't, ('m, 'c) Channel) dbm" where
  "update_channel S now ch = dwrap ''failed to update channel'' (UpdateChannel (svL S) (svChannelJ S) (svOnChannel S) now ch)"

text \<open>The checks of a wallet transaction before its messages are looked at.\<close>

definition check_transaction :: "gtime \<Rightarrow> ('m, 'c) Channel \<Rightarrow> 'c ExternalSigned \<Rightarrow> unit res" where
  "check_transaction now ch req =
     (if esChannelID req \<noteq> chID ch then Inl (Errorf ''channel id is not match'')
      else if esSideA req = WeLeft ch then Inl (Errorf ''execute action must be applied to other side'')
      else if uint (esValidUntil req) < unix_of (now + unix 90) then Inl (Errorf ''execute action must have at least 90 seconds ttl'')
      else if esWalletSeqno req \<noteq> LatestWalletSeqno (Their ch) then Inl (Errorf ''to execute action must use last wallet seqno'')
      else Inr ())"

definition sign_transaction ::
  "('b, 's, 'c, 'm, 'd, 't, 'j) svc \<Rightarrow> bool \<Rightarrow> 'c \<Rightarrow> 'c ExternalSigned double_msg \<Rightarrow> 'c ExternalSigned double_msg" where
  "sign_transaction S weLeft toSign req = (let sig = svSign S (svKey S) (CellHash (svCells S) toSign) in
     if weLeft then req\<lparr>dmSignatureA := sig\<rparr> else req\<lparr>dmSignatureB := sig\<rparr>)"

text \<open>The transfer becomes pending and the transaction is queued for sending, at once or not at all.\<close>

definition store_transaction ::
  "('b, 's, 'c, 'm, 'd, 't, 'j) svc \<Rightarrow> (nat \<Rightarrow> gtime) \<Rightarrow> ('m, 'c) Channel \<Rightarrow> uint32 \<Rightarrow> PendingMessageInfo option \<Rightarrow> 'c \<Rightarrow> ('d, 't, bytes) dbm" where
  "store_transaction S clk ch seqno p msg = dwrap ''failed to execute db transaction'' (Transaction (svL S) (
     dbind (update_channel S (clk 1) (ch\<lparr>Their := add_pending (pendingIDWallet seqno) p (Their ch)\<rparr>)) (\<lambda>_.
     dbind (dwrap ''failed to create execute task'' (create_task S (clk 2) (clk 3) ''exec-tx-external'' (sdAddress (Our ch) @ ''-ext-snd'')
       (''exec-tx-external-'' @ sdAddress (Their ch) @ ''-seq-'' @ nat_text (unat seqno))
       (ExecuteExternalTxTask (sdAddress (Our ch)) False msg seqno) None None)) (\<lambda>_. dret []))))"

definition process_transaction ::
  "('b, 's, 'c, 'm, 'd, 't, 'j) svc \<Rightarrow> ('b, 's, 'c, 'm) req_env \<Rightarrow> (nat \<Rightarrow> gtime) \<Rightarrow> ('m, 'c) Channel \<Rightarrow> 'c \<Rightarrow> ('d, 't, bytes) dbm" where
  "process_transaction S Q clk ch externalBody =
     dbind (dlift (rwrap ''failed to serialize message request'' (tlb_Parse (svCells S) (mcMsg (ctExternal (rqC Q))) externalBody))) (\<lambda>req.
     dbind (dlift (check_transaction (clk 0) ch (dmSigned req))) (\<lambda>_.
     let seqno = esWalletSeqno (dmSigned req) in
     if map_of (PendingOnchainTransfers (Their ch)) (pendingIDWallet seqno) \<noteq> None then dret []
     else if PendingOnchainTransfers (Their ch) \<noteq> [] then dlift (Inl (Errorf ''to execute action must be no pending onchain transfers''))
     else
     dbind (dlift (rwrap ''failed to serialize to sign'' (ToCell (mcSigned (ctExternal (rqC Q))) (dmSigned req)))) (\<lambda>toSign.
     if \<not> cnVerify (svE S) (OnchainKey (Their ch)) (CellHash (svCells S) toSign) (if WeLeft ch then dmSignatureB req else dmSignatureA req)
     then dlift (Inl (Errorf ''invalid signature''))
     else
     dbind (dwrap ''failed to validate out messages'' (validateOutMessages S Q (\<lambda>i. clk (i + 4)) ch (esOutActions (dmSigned req)) True)) (\<lambda>(p, low).
     if low \<noteq> [] then dlift (Inl (Errorf ''not enough onchain balance''))
     else dbind (dlift (rwrap ''failed to serialize msg'' (ToCell (mcMsg (ctExternal (rqC Q))) (sign_transaction S (WeLeft ch) toSign req)))) (\<lambda>msg.
     store_transaction S clk ch seqno p msg)))))"

definition process_close ::
  "('b, 's, 'c, 'm, 'd, 't, 'j) svc \<Rightarrow> ('b, 's, 'c, 'm) req_env \<Rightarrow> (nat \<Rightarrow> gtime) \<Rightarrow> ('m, 'c) Channel \<Rightarrow> 'c \<Rightarrow> ('d, 't, bytes) dbm" where
  "process_close S Q clk ch request =
     dbind (dlift (rwrap ''failed to serialize their close channel request'' (tlb_Parse (svCells S) (mcMsg (ctClose (rqC Q))) request))) (\<lambda>req.
     dbind (dwrap ''failed to prepare close channel request'' (getCooperativeCloseRequest S Q (\<lambda>i. clk (i + 1)) ch (\<not> WeLeft ch))) (\<lambda>(_, dataCell, ourSignature).
     if \<not> cnVerify (svE S) (OnchainKey (Their ch)) (CellHash (svCells S) dataCell) (if WeLeft ch then dmSignatureB req else dmSignatureA req)
     then dlift (Inl (Errorf ''incorrect party signature''))
     else dbind (update_channel S (clk 0) (ch\<lparr>AcceptingActions := False\<rparr>)) (\<lambda>_. dret ourSignature)))"

definition ProcessActionRequest ::
  "('b, 's, 'c, 'm, 'd, 't, 'j) svc \<Rightarrow> ('b, 's, 'c, 'm) req_env \<Rightarrow> (nat \<Rightarrow> gtime) \<Rightarrow> bytes \<Rightarrow> string \<Rightarrow> 'c transport_action \<Rightarrow> ('d, 't, bytes) dbm" where
  "ProcessActionRequest S Q clk key channelAddr action =
     dbind (dwrap ''failed to get channel'' (GetActiveChannel S channelAddr)) (\<lambda>ch.
     if OnchainKey (Their ch) \<noteq> key then dlift (Inl (Errorf ''unauthorized channel''))
     else if \<not> AcceptingActions ch then dlift (Inl (Errorf ''channel is currently not accepting new actions''))
     else (case action of
       ExecuteTransaction body \<Rightarrow> process_transaction S Q clk ch body
     | CooperativeClose body \<Rightarrow> process_close S Q clk ch body
     | _ \<Rightarrow> dlift (Inl (Errorf ''unexpected action type''))))"

end
