(* ===== verification/Operations.thy ===== *)
theory Operations
  imports Requests Sessions
begin

text \<open>
  Operations of the service on channels and conditionals: what the API and the chain scanner ask for.
  \<^verbatim>\<open>tonpayments/api.go\<close> and the channel operations of \<^verbatim>\<open>tonpayments/service.go\<close>. Sending
  a message to the chain returns the message with its destination, so that statements can be made about it.
\<close>

section \<open>Environment\<close>

text \<open>
  The chain as the service uses it: account states, jetton balances, sending of an external message with
  the hash of the message as answer. \<open>xIntKey\<close> is \<open>LoadValueByIntKey\<close> of a dictionary.
\<close>

record ('s, 'c, 'm) chain_env =
  xAccount :: "address \<Rightarrow> ('m, 'c) account res"
  xJettonBalance :: "CoinConfig \<Rightarrow> address \<Rightarrow> int res"
  xIntKey :: "'m \<Rightarrow> int \<Rightarrow> 's res"
  xSend :: "address \<Rightarrow> 'c \<Rightarrow> bytes res"
  xIsWeb :: bool
  xWallet :: address

text \<open>The service with its configuration; \<open>opEmpty\<close> is an empty dictionary, \<open>opAddr\<close> the text of an address.\<close>

record ('b, 's, 'c, 'm) op_env =
  opQ :: "('b, 's, 'c, 'm) req_env"
  opX :: "('s, 'c, 'm) chain_env"
  opCfg :: channel_cfg
  opBufferTimeToCommit :: uint32
  opEmpty :: 'm
  opAddr :: "address \<Rightarrow> string"

abbreviation opC :: "('b, 's, 'c, 'm) op_env \<Rightarrow> ('b, 's, 'c, 'm) contract_env" where
  "opC P \<equiv> rqC (opQ P)"

definition svc_GetChannel :: "('b, 's, 'c, 'm, 'd, 't, 'j) svc \<Rightarrow> string \<Rightarrow> ('d, 't, ('m, 'c) Channel) dbm" where
  "svc_GetChannel S addr = dwrap ''failed to get channel'' (GetChannel (svL S) (svChannelJ S) addr)"

text \<open>A read that reports a missing record with its own message.\<close>

definition or_missing :: "string \<Rightarrow> string \<Rightarrow> ('d, 't, 'a) dbm \<Rightarrow> ('d, 't, 'a) dbm" where
  "or_missing missing other m = dcatch m (\<lambda>err.
     dlift (Inl (if errors_is err DbErrNotFound then Errorf missing else wrapf other err)))"

definition meta_of :: "('b, 's, 'c, 'm, 'd, 't, 'j) svc \<Rightarrow> bytes \<Rightarrow> ('d, 't, ('c, 'j) ConditionalMeta) dbm" where
  "meta_of S key = or_missing ''virtual channel is not exists'' ''failed to load virtual channel meta''
     (GetVirtualChannelMeta (svL S) (svMetaJ S) key)"

definition unix_text :: "gtime \<Rightarrow> string" where
  "unix_text t = int_text (unix_of t)"

section \<open>Balances of an address\<close>

definition CheckAddrBalance ::
  "('b, 's, 'c, 'm, 'd, 't, 'j) svc \<Rightarrow> ('b, 's, 'c, 'm) op_env \<Rightarrow> address \<Rightarrow> string \<Rightarrow> int \<Rightarrow> unit res" where
  "CheckAddrBalance S P addr balanceId amount =
     rbind (rwrap ''failed to get ton balance'' (xAccount (opX P) addr)) (\<lambda>acc.
     if \<not> acHasState acc then Inl (Errorf ''address is not exists, topup it'')
     else let balance = acBalance acc - 150000000 in
     if balance < 0 then Inl ErrNotEnoughTonBalance
     else if amount \<le> 0 then Inr ()
     else rbind (if balanceId = [] then Inr balance
       else rbind (rwrap ''failed to resolve coin config'' (ResolveCoinConfig S balanceId)) (\<lambda>cc.
         if CoinJettonClient cc \<noteq> None then rwrap ''failed to get jetton balance'' (xJettonBalance (opX P) cc addr)
         else if BalanceID cc \<noteq> GetTONBalanceID then
           (if xIsWeb (opX P) then Inl (Panic ''extra currency is not supported on web'')
            else if DictIsEmpty (svD S) (acExtraCurrencies acc) then Inl (Errorf ''no extra currencies in wallet'')
            else rbind (GetECFromBalanceID (BalanceID cc)) (\<lambda>ec.
              rbind (rwrap ''failed to get extra currency value'' (xIntKey (opX P) (acExtraCurrencies acc) (uint ec))) (\<lambda>val.
              rwrap ''failed to parse extra currency value'' (rqVarUInt (opQ P) val 32))))
         else Inr balance)) (\<lambda>balance.
       if balance < amount then Inl ErrNotEnoughBalance else Inr ()))"

definition CheckWalletBalance ::
  "('b, 's, 'c, 'm, 'd, 't, 'j) svc \<Rightarrow> ('b, 's, 'c, 'm) op_env \<Rightarrow> string \<Rightarrow> int \<Rightarrow> unit res" where
  "CheckWalletBalance S P balanceId amount = CheckAddrBalance S P (xWallet (opX P)) balanceId amount"

text \<open>Send a message to a contract that can pay for it; the result is what was sent.\<close>

definition send_checked ::
  "('b, 's, 'c, 'm, 'd, 't, 'j) svc \<Rightarrow> ('b, 's, 'c, 'm) op_env \<Rightarrow> string \<Rightarrow> 'c \<Rightarrow> (address \<times> 'c) option res" where
  "send_checked S P addr msg = rbind (MustParseAddr S addr) (\<lambda>a.
     rbind (rwrap ''failed to check balance'' (CheckAddrBalance S P a [] 0)) (\<lambda>_.
     rbind (rwrap ''failed to send external message'' (xSend (opX P) a msg)) (\<lambda>_. Inr (Some (a, msg)))))"

section \<open>Conditionals\<close>

definition CommitVirtualChannel ::
  "('b, 's, 'c, 'm, 'd, 't, 'j) svc \<Rightarrow> (nat \<Rightarrow> gtime) \<Rightarrow> bytes \<Rightarrow> ('d, 't, unit) dbm" where
  "CommitVirtualChannel S clk key = dbind (meta_of S key) (\<lambda>meta. case Outgoing meta of
     None \<Rightarrow> dlift (Inl (Errorf ''virtual channel is not outgoing''))
   | Some ou \<Rightarrow> (case LastKnownResolve meta of None \<Rightarrow> dret ()
     | Some resolve \<Rightarrow>
       dbind (dwrap ''failed to get outgoing channel'' (GetChannel (svL S) (svChannelJ S) (cmChannelAddress ou))) (\<lambda>ch.
       dbind (dlift (code_hash S (cmConditional ou))) (\<lambda>condId.
       dbind (dtry (find_cond S (adConditionals (sdData (Our ch))) condId)) (\<lambda>found. case found of
         Inl err \<Rightarrow> if errors_is err PayErrNotFound then dret () else dlift (Inl (wrapf ''failed to find virtual channel'' err))
       | Inr (_, vch) \<Rightarrow>
         dbind (dlift (rwrap ''failed to prepare commit'' (Cond_PrepareCommit (svC S) vch resolve))) (\<lambda>upd.
         dbind (dlift (Cond_Serialize (svC S) upd)) (\<lambda>u.
         dbind (dlift (Cond_Serialize (svC S) vch)) (\<lambda>v.
         if CellHash (svCells S) u = CellHash (svCells S) v then dret ()
         else dwrap ''failed to create virtual commit task'' (create_task S (clk 0) (clk 1) ''commit-virtual'' (sdAddress (Our ch))
           (''commit-virtual-'' @ b64_encode (Cond_GetKey vch) @ ''-'' @ b64_encode (CellHash (svCells S) resolve))
           (CommitVirtualTask (sdAddress (Our ch)) (Cond_GetKey vch)) None
           (Some (Cond_GetDeadline vch - unix (SafeOnchainClosePeriod ch))))))))))))"

text \<open>\<open>AddConditionalResolve\<close>: the conditional on the side that pays it to us, or on ours for the first node.\<close>

definition resolve_target ::
  "('b, 's, 'c, 'm, 'd, 't, 'j) svc \<Rightarrow> ('c, 'j) ConditionalMeta \<Rightarrow> ('d, 't, 'c conditional option) dbm" where
  "resolve_target S meta =
     dbind (case Incoming meta of
       Some inc \<Rightarrow>
         dbind (or_missing ''onchain channel with source not exists'' ''failed to load channel''
           (GetChannel (svL S) (svChannelJ S) (cmChannelAddress inc))) (\<lambda>ch. dret (adConditionals (sdData (Their ch)), cmConditional inc))
     | None \<Rightarrow> (case Outgoing meta of None \<Rightarrow> dlift (Inl (Panic ''nil pointer dereference''))
       | Some ou \<Rightarrow>
         dbind (or_missing ''onchain channel with target not exists'' ''failed to load channel''
           (GetChannel (svL S) (svChannelJ S) (cmChannelAddress ou))) (\<lambda>ch. dret (adConditionals (sdData (Our ch)), cmConditional ou)))) (\<lambda>(dict, code).
     dbind (dlift (code_hash S code)) (\<lambda>condId.
     dbind (dtry (find_cond S dict condId)) (\<lambda>found. case found of
       Inl err \<Rightarrow> if errors_is err PayErrNotFound then dret None else dlift (Inl (wrapf ''failed to find conditional'' err))
     | Inr (_, cond) \<Rightarrow> dret (Some cond))))"

definition AddConditionalResolve ::
  "('b, 's, 'c, 'm, 'd, 't, 'j) svc \<Rightarrow> (nat \<Rightarrow> gtime) \<Rightarrow> bytes \<Rightarrow> 'c \<Rightarrow> ('d, 't, unit) dbm" where
  "AddConditionalResolve S clk key state = dbind (meta_of S key) (\<lambda>meta.
     if cmStatus meta \<noteq> ConditionalStateActive then dlift (Inl (Errorf ''virtual channel is inactive''))
     else dbind (resolve_target S meta) (\<lambda>co. case co of None \<Rightarrow> dret ()
     | Some cond \<Rightarrow>
       dbind (dlift (rwrap ''failed to add channel condition resolve'' (AddKnownResolve (svC S) (clk 0) meta cond state True))) (\<lambda>meta.
       dwrap ''failed to update meta in db'' (UpdateVirtualChannelMeta (svL S) (svMetaJ S) (meta\<lparr>cmUpdatedAt := clk 1\<rparr>)))))"

definition CloseConditional ::
  "('b, 's, 'c, 'm, 'd, 't, 'j) svc \<Rightarrow> (nat \<Rightarrow> gtime) \<Rightarrow> bytes \<Rightarrow> ('d, 't, unit) dbm" where
  "CloseConditional S clk key = dbind (meta_of S key) (\<lambda>meta. dbind (closeConditional S clk meta) (\<lambda>_. dret ()))"

definition RemoveConditional_op ::
  "('b, 's, 'c, 'm, 'd, 't, 'j) svc \<Rightarrow> (nat \<Rightarrow> gtime) \<Rightarrow> bytes \<Rightarrow> ('d, 't, unit) dbm" where
  "RemoveConditional_op S clk key = dbind (GetVirtualChannelMeta (svL S) (svMetaJ S) key) (\<lambda>meta. case Incoming meta of
     None \<Rightarrow> dlift (Inl (Errorf ''conditional has no incoming channel''))
   | Some inc \<Rightarrow>
     if (case Outgoing meta of None \<Rightarrow> False | Some ou \<Rightarrow> clk 0 \<le> UncooperativeDeadline ou)
     then dlift (Inl (Errorf ''outgoing direction is not timed out yet, not safe''))
     else if cmStatus meta \<noteq> ConditionalStateActive \<and> cmStatus meta \<noteq> ConditionalStatePending
     then dlift (Inl (Errorf ''conditional is not active or pending''))
     else dwrap ''failed to create remove-cond task'' (create_task S (clk 1) (clk 2) ''remove-cond'' (cmChannelAddress inc)
       (''remove-cond-'' @ b64_encode (cmKey meta)) (RemoveConditionalTask (cmKey meta)) None None))"

section \<open>Derivatives\<close>

text \<open>The incoming half of an outgoing derivative; every link must point back.\<close>

definition loadLinkedIncomingDerivativeMeta ::
  "('b, 's, 'c, 'm, 'd, 't, 'j) svc \<Rightarrow> ('c, 'j) ConditionalMeta \<Rightarrow> ('d, 't, ('c, 'j) ConditionalMeta) dbm" where
  "loadLinkedIncomingDerivativeMeta S meta = (case Outgoing meta of
     None \<Rightarrow> dlift (Inl (Errorf ''derivative is not outgoing''))
   | Some ou \<Rightarrow> if length (LinkedKey ou) \<noteq> 32 then dlift (Inl (Errorf ''outgoing derivative has no linked incoming side''))
     else dbind (dwrap ''failed to load linked incoming meta'' (GetVirtualChannelMeta (svL S) (svMetaJ S) (LinkedKey ou))) (\<lambda>linked.
     case Incoming linked of None \<Rightarrow> dlift (Inl (Errorf ''linked derivative meta is not incoming''))
     | Some inc \<Rightarrow>
       if cmConditional inc = None then dlift (Inl (Errorf ''linked incoming derivative conditional is missing''))
       else if length (LinkedKey inc) \<noteq> 32 \<or> LinkedKey inc \<noteq> cmKey meta
       then dlift (Inl (Errorf ''linked incoming derivative does not point back to outgoing meta''))
       else if cmChannelAddress inc \<noteq> cmChannelAddress ou then dlift (Inl (Errorf ''linked incoming derivative channel mismatch''))
       else dret linked))"

text \<open>The resolve of the incoming half: zero when we lose on the outgoing one, its own or the one for the last price otherwise.\<close>

definition incoming_resolve ::
  "('b, 's, 'c, 'm, 'd, 't, 'j) svc \<Rightarrow> 'c conditional \<Rightarrow> 'c \<Rightarrow> ('c, 'j) ConditionalMeta \<Rightarrow> 'c res" where
  "incoming_resolve S cond resolve linked =
     rbind (rwrap ''failed to parse outgoing derivative resolve'' (LoadState (svCells S) (reState (ceRS (svC S))) resolve)) (\<lambda>out.
     if 0 < rsAmount out then rwrap ''failed to build incoming zero resolve''
       (ToCell (reState (ceRS (svC S))) \<lparr>rsKey = cmKey linked, rsAmount = 0, rsAt = rsAt out\<rparr>)
     else (case LastKnownResolve linked of Some r \<Rightarrow> Inr r
     | None \<Rightarrow> (case cond of
         RCond res \<Rightarrow> rwrap ''failed to build incoming derivative resolve'' (buildIncomingDerivativeResolve (ceRS (svC S)) res (cmKey linked))
       | VCond _ \<Rightarrow> Inl (Errorf ''conditional is not derivative resolvable''))))"

definition CloseDerivative ::
  "('b, 's, 'c, 'm, 'd, 't, 'j) svc \<Rightarrow> (nat \<Rightarrow> gtime) \<Rightarrow> bytes \<Rightarrow> ('d, 't, unit) dbm" where
  "CloseDerivative S clk key = dbind (meta_of S key) (\<lambda>meta. case Outgoing meta of
     None \<Rightarrow> dlift (Inl (Errorf ''derivative is not outgoing''))
   | Some ou \<Rightarrow> (case cmConditional ou of None \<Rightarrow> dlift (Inl (Errorf ''outgoing derivative conditional is missing''))
     | Some code \<Rightarrow>
       dbind (loadLinkedIncomingDerivativeMeta S meta) (\<lambda>linked.
       dbind (or_missing ''onchain channel with target is not active'' ''failed to get channel'' (GetActiveChannel S (cmChannelAddress ou))) (\<lambda>ch.
       let condId = CellHash (svCells S) code; our = sdAddress (Our ch) in
       dbind (dtry (find_cond S (adConditionals (sdData (Our ch))) condId)) (\<lambda>found. case found of
         Inl err \<Rightarrow> if errors_is err PayErrNotFound then dret () else dlift (Inl (wrapf ''failed to find derivative virtual channel'' err))
       | Inr (_, cond) \<Rightarrow> (case LastKnownResolve meta of None \<Rightarrow> dlift (Inl ErrNoResolveExists)
         | Some resolve \<Rightarrow>
           dbind (dlift (IDCell S (Cond_GetAction cond))) (\<lambda>aid.
           dbind (dlift (load_value S ''failed to load active channel state'' (adActionStates (sdData (Our ch))) aid)) (\<lambda>actState.
           dbind (dlift (rwrap ''failed to execute conditional'' (Cond_Execute (svC S) cond actState resolve None))) (\<lambda>_.
           dwrap ''failed to execute db tx for close derivative'' (Transaction (svL S) (
             dbind (dwrap ''failed to update channel in db'' (UpdateVirtualChannelMeta (svL S) (svMetaJ S)
               (meta\<lparr>cmStatus := ConditionalStateWantClose, cmUpdatedAt := clk 0\<rparr>))) (\<lambda>_.
             dbind (dlift (incoming_resolve S cond resolve linked)) (\<lambda>inRes.
             dbind (dwrap ''failed to update linked incoming meta'' (UpdateVirtualChannelMeta (svL S) (svMetaJ S)
               (linked\<lparr>LastKnownResolve := Some inRes, cmStatus := ConditionalStateWantClose, cmUpdatedAt := clk 1\<rparr>))) (\<lambda>_.
             dwrap ''failed to create close conditional task'' (create_task S (clk 2) (clk 3) ''close-conditional'' (our @ ''-deriv-close'')
               (''close-conditional-'' @ our @ ''-vc-'' @ b64_encode condId) (CloseConditionalTask (cmKey linked)) None
               (Some (Cond_GetDeadline cond)))))))))))))))))"

section \<open>Channel requests\<close>

definition IncrementStates_op ::
  "('b, 's, 'c, 'm, 'd, 't, 'j) svc \<Rightarrow> (nat \<Rightarrow> gtime) \<Rightarrow> string \<Rightarrow> bool \<Rightarrow> ('d, 't, unit) dbm" where
  "IncrementStates_op S clk addr wantResponse = dbind (dwrap ''failed to get channel'' (GetActiveChannel S addr)) (\<lambda>ch.
     let our = sdAddress (Our ch) in
     dwrap ''failed to create increment-state task'' (create_task S (clk 1) (clk 2) ''increment-state'' our
       (''increment-state-'' @ our @ ''-force-'' @ int_text (clk 0)) (IncrementStatesTask our wantResponse) None None))"

definition RequestUncooperativeClose ::
  "('b, 's, 'c, 'm, 'd, 't, 'j) svc \<Rightarrow> (nat \<Rightarrow> gtime) \<Rightarrow> string \<Rightarrow> ('d, 't, unit) dbm" where
  "RequestUncooperativeClose S clk addr = dbind (dwrap ''failed to get channel'' (svc_GetChannel S addr)) (\<lambda>ch.
     if chStatus ch = ChannelStateInactive then dlift (Inl (Errorf ''channel is already inactive''))
     else let our = sdAddress (Our ch) in
       create_task S (clk 0) (clk 1) ''uncooperative-close'' (our @ ''-uncoop'')
         (''uncooperative-close-'' @ our @ ''-'' @ unix_text (InitAt ch)) (ChannelUncooperativeCloseTask our [] None) None None)"

text \<open>\<open>amount\<close> with \<open>decimals\<close> is the coins value of the call.\<close>

definition TopupChannel ::
  "('b, 's, 'c, 'm, 'd, 't, 'j) svc \<Rightarrow> ('b, 's, 'c, 'm) op_env \<Rightarrow> (nat \<Rightarrow> gtime) \<Rightarrow> ('m, 'c) Channel \<Rightarrow> string \<Rightarrow> int \<Rightarrow> nat \<Rightarrow> bool \<Rightarrow>
   ('d, 't, unit) dbm" where
  "TopupChannel S P clk ch balanceId amount decimals unlock =
     dbind (dlift (rwrap ''failed to resolve coin config'' (ResolveCoinConfig S balanceId))) (\<lambda>_.
     dbind (dlift (rwrap ''failed to check balance'' (CheckWalletBalance S P balanceId amount))) (\<lambda>_.
     let our = sdAddress (Our ch); bls = (case map_of (OnchainBalances (Our ch)) balanceId of Some b \<Rightarrow> b | None \<Rightarrow> 0) in
     create_task S (clk 1) (clk 2) ''topup'' (our @ ''-topup'')
       (''topup-'' @ our @ ''-'' @ int_text bls @ ''-'' @ balanceId @ ''-'' @ unix_text (InitAt ch) @ ''-'' @ unix_text (clk 0))
       (TopupTask our (svAmount S amount decimals) balanceId (InitAt ch) unlock) None None))"

definition requestCommitAction ::
  "('b, 's, 'c, 'm, 'd, 't, 'j) svc \<Rightarrow> ('b, 's, 'c, 'm) op_env \<Rightarrow> (nat \<Rightarrow> nat \<Rightarrow> gtime) \<Rightarrow> ('m, 'c) Channel \<Rightarrow> bytes option \<Rightarrow> ('d, 't, unit) dbm" where
  "requestCommitAction S P clk ch actionId =
     dbind (dlift (MustParseAddr S (sdAddress (Our ch)))) (\<lambda>a.
     dbind (dlift (case CheckAddrBalance S P a [] 0 of
       Inr _ \<Rightarrow> Inr True
     | Inl err \<Rightarrow> if errors_is err ErrNotEnoughTonBalance then Inr False else Inl (wrapf ''failed to check balance'' err))) (\<lambda>ourself.
     dbind (dwrap ''failed to prepare channel commit request''
       (getCommitRequest S clk ch actionId ourself (if ourself then Some True else None))) (\<lambda>_.
     dbind (dlift (LoadSignedState (svE S) ch)) (\<lambda>st.
     let our = sdAddress (Our ch) in
     create_task S (clk 2 0) (clk 2 1) ''commit-action'' (our @ ''-commit-action'')
       (''commit-action-'' @ our @ ''-'' @ unix_text (InitAt ch) @ ''-'' @ nat_text (unat (sbSeqno (sbBody st))))
       (ActionCommitTask our (case actionId of None \<Rightarrow> [] | Some i \<Rightarrow> i) (InitAt ch) (\<not> ourself)) None None))))"

definition RequestCommitAction ::
  "('b, 's, 'c, 'm, 'd, 't, 'j) svc \<Rightarrow> ('b, 's, 'c, 'm) op_env \<Rightarrow> (nat \<Rightarrow> nat \<Rightarrow> gtime) \<Rightarrow> string \<Rightarrow> bytes option \<Rightarrow> ('d, 't, unit) dbm" where
  "RequestCommitAction S P clk addr actionId = dbind (dwrap ''failed to get channel'' (GetActiveChannel S addr)) (\<lambda>ch.
     requestCommitAction S P clk ch actionId)"

text \<open>A failure to schedule the uncooperative close is only logged.\<close>

definition RequestCooperativeClose ::
  "('b, 's, 'c, 'm, 'd, 't, 'j) svc \<Rightarrow> ('b, 's, 'c, 'm) op_env \<Rightarrow> (nat \<Rightarrow> gtime) \<Rightarrow> string \<Rightarrow> ('d, 't, unit) dbm" where
  "RequestCooperativeClose S P clk addr =
     dbind (dwrap ''failed to get channel'' (GetActiveChannel S addr)) (\<lambda>ch.
     dbind (dwrap ''failed to prepare close channel request'' (getCooperativeCloseRequest S (opQ P) (\<lambda>i. clk (i + 6)) ch (WeLeft ch))) (\<lambda>_.
     let our = sdAddress (Our ch) in
     Transaction (svL S) (
       dbind (update_channel S (clk 0) (ch\<lparr>AcceptingActions := False\<rparr>)) (\<lambda>_.
       dbind (dwrap ''failed to create cooperative close task'' (create_task S (clk 1) (clk 2) ''cooperative-close'' our
         (''cooperative-close-'' @ our @ ''-'' @ unix_text (InitAt ch)) (ChannelCooperativeCloseTask our (InitAt ch)) None None)) (\<lambda>_.
       dbind (dtry (create_task S (clk 4) (clk 5) ''uncooperative-close'' (our @ ''-uncoop'')
         (''uncooperative-close-'' @ our @ ''-'' @ unix_text (InitAt ch)) (ChannelUncooperativeCloseTask our [] (Some (InitAt ch)))
         (Some (clk 3 + unix 300)) None)) (\<lambda>_. dret ()))))))"

definition requestSignedMessage ::
  "('b, 's, 'c, 'm, 'd, 't, 'j) svc \<Rightarrow> ('b, 's, 'c, 'm) op_env \<Rightarrow> (nat \<Rightarrow> gtime) \<Rightarrow> ('m, 'c) Channel \<Rightarrow> ('m, 'c) WalletMessage list \<Rightarrow> ('d, 't, unit) dbm" where
  "requestSignedMessage S P clk ch messages =
     (if messages = [] then dlift (Inl (Errorf ''no messages provided''))
      else dbind (dlift (rwrap ''failed to pack actions'' (PackOutActions (opC P) messages))) (\<lambda>packed.
      if PendingOnchainTransfers (Our ch) \<noteq> [] then dlift (Inl (Errorf ''channel already has pending onchain transfer, wait for completion''))
      else let our = sdAddress (Our ch); seqno = LatestWalletSeqno (Our ch) in
        dwrap ''failed to create request-tx-external task'' (create_task S (clk 0) (clk 1) ''request-tx-external'' (our @ ''-tx-external'')
          (''request-tx-external-'' @ our @ ''-'' @ nat_text (unat seqno)) (RequestExternalTxTask our packed seqno) None None)))"

text \<open>
  \<open>requestWithdrawToAddr\<close>: one message with the coin that is withdrawn. \<open>jettonBody\<close> is the transfer payload
  of the random query identifier, \<open>ecs\<close> the dictionary with one extra currency.
\<close>

definition withdraw_message ::
  "('b, 's, 'c, 'm, 'd, 't, 'j) svc \<Rightarrow> ('b, 's, 'c, 'm) op_env \<Rightarrow> ('c TransferPayload \<Rightarrow> 'c res) \<Rightarrow> (uint32 \<Rightarrow> int \<Rightarrow> 'm res) \<Rightarrow> uint64 \<Rightarrow>
   ('m, 'c) Channel \<Rightarrow> address \<Rightarrow> CoinConfig \<Rightarrow> int \<Rightarrow> ('m, 'c) WalletMessage res" where
  "withdraw_message S P jettonBody ecs rnd ch addr cc amount = (let empty = EndCell (svCells S) (BeginCell (svCells S)) in
     case CoinJettonClient cc of
       Some jc \<Rightarrow>
         rbind (rwrap ''failed to build jetton transfer payload'' (rwrap ''failed to convert TransferPayload to cell'' (jettonBody
           \<lparr>tpQueryID = rnd, tpAmount = amount, tpDestination = Some addr, tpResponseDestination = Some addr, tpCustomPayload = None,
            tpForwardTONAmount = 0, tpForwardPayload = empty\<rparr>))) (\<lambda>payload.
         rbind (MustParseAddr S (sdAddress (Our ch))) (\<lambda>a.
         rbind (rwrap ''failed to get jetton wallet address'' (GetWalletAddress jc (Some a))) (\<lambda>jw.
         Inr \<lparr>wmMode = 3, wmInternal = Some \<lparr>imDstAddr = jw, imAmount = 50000000, imExtraCurrencies = opEmpty P, imBody = payload\<rparr>\<rparr>)))
     | None \<Rightarrow>
         if BalanceID cc \<noteq> GetTONBalanceID then
           rbind (GetECFromBalanceID (BalanceID cc)) (\<lambda>ec.
           rbind (rwrap ''failed to set ec amount'' (ecs ec amount)) (\<lambda>extra.
           Inr \<lparr>wmMode = 3, wmInternal = Some \<lparr>imDstAddr = addr, imAmount = 20000000, imExtraCurrencies = extra, imBody = empty\<rparr>\<rparr>))
         else Inr \<lparr>wmMode = 3, wmInternal = Some \<lparr>imDstAddr = addr, imAmount = amount, imExtraCurrencies = opEmpty P, imBody = empty\<rparr>\<rparr>)"

definition requestWithdrawToAddr ::
  "('b, 's, 'c, 'm, 'd, 't, 'j) svc \<Rightarrow> ('b, 's, 'c, 'm) op_env \<Rightarrow> ('c TransferPayload \<Rightarrow> 'c res) \<Rightarrow> (uint32 \<Rightarrow> int \<Rightarrow> 'm res) \<Rightarrow> uint64 \<Rightarrow>
   (nat \<Rightarrow> gtime) \<Rightarrow> ('m, 'c) Channel \<Rightarrow> address \<Rightarrow> CoinConfig \<Rightarrow> int \<Rightarrow> ('d, 't, unit) dbm" where
  "requestWithdrawToAddr S P jettonBody ecs rnd clk ch addr cc amount =
     dbind (dlift (withdraw_message S P jettonBody ecs rnd ch addr cc amount)) (\<lambda>msg. requestSignedMessage S P clk ch [msg])"

definition RequestWithdrawToAddr ::
  "('b, 's, 'c, 'm, 'd, 't, 'j) svc \<Rightarrow> ('b, 's, 'c, 'm) op_env \<Rightarrow> ('c TransferPayload \<Rightarrow> 'c res) \<Rightarrow> (uint32 \<Rightarrow> int \<Rightarrow> 'm res) \<Rightarrow> uint64 \<Rightarrow>
   (nat \<Rightarrow> gtime) \<Rightarrow> string \<Rightarrow> address \<Rightarrow> CoinConfig \<Rightarrow> int \<Rightarrow> ('d, 't, unit) dbm" where
  "RequestWithdrawToAddr S P jettonBody ecs rnd clk channelAddr addr cc amount =
     dbind (dwrap ''failed to get channel'' (svc_GetChannel S channelAddr)) (\<lambda>ch.
     requestWithdrawToAddr S P jettonBody ecs rnd clk ch addr cc amount)"

section \<open>Uncooperative close\<close>

text \<open>The contract of our side as the chain has it now, verified.\<close>

definition onchain_channel ::
  "('b, 's, 'c, 'm, 'd, 't, 'j) svc \<Rightarrow> ('b, 's, 'c, 'm) op_env \<Rightarrow> gtime \<Rightarrow> string \<Rightarrow> 'c ChannelContract res" where
  "onchain_channel S P now addr = rbind (MustParseAddr S addr) (\<lambda>a.
     rwrap ''failed to get onchain channel'' (GetChannelContract (opC P) (xAccount (opX P)) (unix_of now) a True))"

text \<open>The message that starts a closure with our latest state, or challenges the one of the other side.\<close>

definition uncoop_message ::
  "('b, 's, 'c, 'm, 'd, 't, 'j) svc \<Rightarrow> ('b, 's, 'c, 'm) op_env \<Rightarrow> ('m, 'c) Channel \<Rightarrow> 'c res" where
  "uncoop_message S P ch = rbind (LoadSignedState (svE S) ch) (\<lambda>st.
     let signed = \<lparr>ucChannelID = chID ch, ucState = Some st\<rparr> in
     rbind (rwrap ''failed to serialize body to cell'' (ToCell (mcSigned (ctUncoop (opC P))) signed)) (\<lambda>dataCell.
     rwrap ''failed to serialize message to cell'' (ToCell (mcMsg (ctUncoop (opC P)))
       \<lparr>msSignature = svSign S (svKey S) (CellHash (svCells S) dataCell), msSigned = signed\<rparr>)))"

definition startUncooperativeClose ::
  "('b, 's, 'c, 'm, 'd, 't, 'j) svc \<Rightarrow> ('b, 's, 'c, 'm) op_env \<Rightarrow> (nat \<Rightarrow> gtime) \<Rightarrow> string \<Rightarrow> ('d, 't, (address \<times> 'c) option) dbm" where
  "startUncooperativeClose S P clk addr = dbind (dwrap ''failed to get channel'' (svc_GetChannel S addr)) (\<lambda>ch.
     if chStatus ch \<noteq> ChannelStateActive then dlift (Inl (Errorf ''channel is not active''))
     else dbind (update_channel S (clk 0) (ch\<lparr>AcceptingActions := False\<rparr>)) (\<lambda>ch.
       dbind (dlift (onchain_channel S P (clk 1) addr)) (\<lambda>och.
       if coStatus och \<noteq> ChannelStatusOpen then dret None
       else dbind (dlift (uncoop_message S P ch)) (\<lambda>msg. dlift (send_checked S P (sdAddress (Our ch)) msg)))))"

definition challengeChannelState ::
  "('b, 's, 'c, 'm, 'd, 't, 'j) svc \<Rightarrow> ('b, 's, 'c, 'm) op_env \<Rightarrow> gtime \<Rightarrow> string \<Rightarrow> ('d, 't, (address \<times> 'c) option) dbm" where
  "challengeChannelState S P now addr = dbind (dwrap ''failed to get channel'' (GetChannel (svL S) (svChannelJ S) addr)) (\<lambda>ch.
     if chStatus ch = ChannelStateInactive then dret None
     else dbind (dlift (onchain_channel S P now addr)) (\<lambda>och.
       if coStatus och \<in> {ChannelStatusAwaitingFinalization, ChannelStatusUninitialized, ChannelStatusSettlingConditionals} then dret None
       else dbind (dlift (uncoop_message S P ch)) (\<lambda>msg. dlift (send_checked S P (sdAddress (Our ch)) msg))))"

text \<open>\<open>finish\<close> is the serialised message that finishes a closure.\<close>

definition finishUncooperativeChannelClose ::
  "('b, 's, 'c, 'm, 'd, 't, 'j) svc \<Rightarrow> ('b, 's, 'c, 'm) op_env \<Rightarrow> gtime \<Rightarrow> 'c res \<Rightarrow> string \<Rightarrow> ('d, 't, (address \<times> 'c) option) dbm" where
  "finishUncooperativeChannelClose S P now finish addr = dbind (dwrap ''failed to get channel'' (GetChannel (svL S) (svChannelJ S) addr)) (\<lambda>ch.
     dbind (dlift (onchain_channel S P now addr)) (\<lambda>och.
     if coStatus och = ChannelStatusUninitialized then dret None
     else dbind (dlift (rwrap ''failed to serialize message to cell'' finish)) (\<lambda>msg. dlift (send_checked S P (sdAddress (Our ch)) msg))))"

definition executeCooperativeCommit ::
  "('b, 's, 'c, 'm, 'd, 't, 'j) svc \<Rightarrow> ('b, 's, 'c, 'm) op_env \<Rightarrow> 'c CooperativeCommitMsg \<Rightarrow> string \<Rightarrow> (address \<times> 'c) option res" where
  "executeCooperativeCommit S P req addr = rbind (rwrap ''failed to serialize close channel request'' (ToCell (svCommitMsg S) req)) (\<lambda>msg.
     send_checked S P addr msg)"

definition executeCooperativeClose ::
  "('b, 's, 'c, 'm, 'd, 't, 'j) svc \<Rightarrow> ('b, 's, 'c, 'm) op_env \<Rightarrow> CloseSigned double_msg \<Rightarrow> ('m, 'c) Channel \<Rightarrow> (address \<times> 'c) option res" where
  "executeCooperativeClose S P req ch = rbind (rwrap ''failed to serialize close channel request'' (ToCell (mcMsg (ctClose (opC P))) req)) (\<lambda>msg.
     send_checked S P (sdAddress (Our ch)) msg)"

definition executeSignedExternal ::
  "('b, 's, 'c, 'm) op_env \<Rightarrow> 'c \<Rightarrow> address \<Rightarrow> (address \<times> 'c) option res" where
  "executeSignedExternal P msg addr = rbind (rwrap ''failed to send external message'' (xSend (opX P) addr msg)) (\<lambda>_. Inr (Some (addr, msg)))"

section \<open>Opening a channel\<close>

record OpenConfigContainer =
  ocSeqno :: uint64
  ocKeyA :: bytes
  ocKeyB :: bytes
  ocChannelID :: bytes
  ocClosingConfig :: ClosingConfig
  ocInitSignature :: bytes

text \<open>Whether the contract is one of ours with our configuration, whether we are A, and whether it is our side's contract.\<close>

definition verifyChannel :: "channel_cfg \<Rightarrow> bytes \<Rightarrow> ChannelStorageData \<Rightarrow> bool \<times> bool \<times> bool" where
  "verifyChannel cfg pub st = (let isLeft = (stKeyA st = pub); cc = stClosingConfig st in
     if stKeyB st = stKeyA st then (False, False, False)
     else if \<not> isLeft \<and> stKeyB st \<noteq> pub then (False, False, False)
     else if ConditionalCloseDuration cc \<noteq> ccConditionalClose cfg \<or> QuarantineDuration cc \<noteq> ccQuarantine cfg \<or>
       ActionsDuration cc \<noteq> ccActions cfg \<or> ReplicationMessageAttachAmount cc \<noteq> ccAttach cfg then (False, False, False)
     else (True, isLeft, isLeft = stIsA st))"

definition new_side :: "('b, 's, 'c, 'm) op_env \<Rightarrow> string \<Rightarrow> bytes \<Rightarrow> uint64 \<Rightarrow> 'm Side" where
  "new_side P addr key seqno = \<lparr>sdAddress = addr, OnchainBalances = [], OnchainKey = key,
     sdData = \<lparr>adConditionals = opEmpty P, adActionStates = opEmpty P\<rparr>, LockedDeposits = Map.empty, PendingOnchainTransfers = [],
     LatestProcessedLT = 0, LatestWalletSeqno = 0, LatestCommitedSeqno = seqno, LastProcessedTxAt = 0, ActiveOnchain = False,
     IsSettlementFinalized = False\<rparr>"

definition safe_close_period :: "('b, 's, 'c, 'm) op_env \<Rightarrow> ClosingConfig \<Rightarrow> int" where
  "safe_close_period P cc = uint (opBufferTimeToCommit P) + uint (QuarantineDuration cc) + uint (ConditionalCloseDuration cc) + uint (ActionsDuration cc)"

text \<open>The channel as it is stored first; a reopened one keeps its version and creation time.\<close>

definition opened_channel ::
  "('b, 's, 'c, 'm) op_env \<Rightarrow> (nat \<Rightarrow> gtime) \<Rightarrow> OpenConfigContainer \<Rightarrow> bytes \<Rightarrow> bool \<Rightarrow> bool \<Rightarrow> bool \<Rightarrow> 'c \<Rightarrow> 'c \<Rightarrow> address \<Rightarrow> address \<Rightarrow>
   ('m, 'c) Channel option \<Rightarrow> ('m, 'c) Channel" where
  "opened_channel P clk cfg codeHash isLeft urgent web initBody data ourAddr theirAddr prev =
     (let seqno = (case prev of None \<Rightarrow> 0 | Some c \<Rightarrow> max (LatestCommitedSeqno (Our c)) (LatestCommitedSeqno (Their c)));
          (our, their) = (if isLeft then (ocKeyA cfg, ocKeyB cfg) else (ocKeyB cfg, ocKeyA cfg)) in
      \<lparr>chID = ocChannelID cfg, chStatus = ChannelStateActive, WeLeft = isLeft,
       SafeOnchainClosePeriod = safe_close_period P (ocClosingConfig cfg), AcceptingActions = True, WebPeer = web, UrgentForUs = urgent,
       UncoopCloseStarted = False, SignedState = None, Our = new_side P (opAddr P ourAddr) our seqno,
       Their = new_side P (opAddr P theirAddr) their seqno, InitAt = clk 1,
       chCreatedAt = (case prev of None \<Rightarrow> clk 0 | Some c \<Rightarrow> chCreatedAt c), CodeHash = codeHash, InitMessageBody = Some initBody,
       InitialData = Some data, chPendingCommit = None, DBVersion = (case prev of None \<Rightarrow> 0 | Some c \<Rightarrow> DBVersion c)\<rparr>)"

definition find_channel :: "('b, 's, 'c, 'm, 'd, 't, 'j) svc \<Rightarrow> string \<Rightarrow> ('d, 't, ('m, 'c) Channel option) dbm" where
  "find_channel S addr = dbind (dtry (GetChannel (svL S) (svChannelJ S) addr)) (\<lambda>r. case r of
     Inr ch \<Rightarrow> dret (Some ch)
   | Inl err \<Rightarrow> if errors_is err DbErrNotFound then dret None else dlift (Inl err))"

definition set_channel ::
  "('b, 's, 'c, 'm, 'd, 't, 'j) svc \<Rightarrow> gtime \<Rightarrow> bool \<Rightarrow> ('m, 'c) Channel \<Rightarrow> ('d, 't, ('m, 'c) Channel) dbm" where
  "set_channel S now exists ch = dwrap ''failed to set channel in db''
     (if exists then UpdateChannel (svL S) (svChannelJ S) (svOnChannel S) now ch
      else CreateChannel (svL S) (svChannelJ S) (svOnChannel S) now ch)"

definition OpenChannelOffchain ::
  "('b, 's, 'c, 'm, 'd, 't, 'j) svc \<Rightarrow> ('b, 's, 'c, 'm) op_env \<Rightarrow> (nat \<Rightarrow> gtime) \<Rightarrow> OpenConfigContainer \<Rightarrow> bytes \<Rightarrow> bytes \<Rightarrow> bool \<Rightarrow> bool \<Rightarrow>
   ('d, 't, address \<times> bytes) dbm" where
  "OpenChannelOffchain S P clk cfg codeHash authorizedKey urgent web =
     (let isLeft = (ocKeyA cfg = svPub S); theirKey = (if isLeft then ocKeyB cfg else ocKeyA cfg) in
      if \<not> isLeft \<and> ocKeyB cfg \<noteq> svPub S then dlift (Inl (Errorf ''unknown keys''))
      else if theirKey \<noteq> authorizedKey then dlift (Inl (Errorf ''authorized key mismatch''))
      else (case first_some (\<lambda>cd. if CellHash (svCells S) cd = codeHash then Some cd else None) (PaymentChannelCodes (opC P)) of
        None \<Rightarrow> dlift (Inl (Errorf ''unknown payment channel code''))
      | Some code \<Rightarrow>
        if ocSeqno cfg \<noteq> 0 then dlift (Inl (Errorf ''reopen is not supported, assign a new channel''))
        else
        dbind (dlift (rwrap ''failed to get deploy params'' (GetDeployAsyncChannelParams (opC P) (ocChannelID cfg) isLeft (ocSeqno cfg) (svKey S)
          theirKey (Some (ocInitSignature cfg)) (ocClosingConfig cfg)))) (\<lambda>(initBody, data, initSig).
        dbind (dlift (rwrap ''failed to serialize state init'' (ToCell (ctStateInit (opC P)) (code, data)))) (\<lambda>si.
        dbind (dlift (rwrap ''failed to parse channel'' (ParseChannel (opC P) (unix_of (clk 2)) (CellHash (svCells S) si) code data False))) (\<lambda>proposed.
        if \<not> fst (verifyChannel (opCfg P) (svPub S) (coStorage proposed)) then dlift (Inl (Errorf ''verification not passed''))
        else
        dbind (dwrap ''failed to get channel'' (find_channel S (opAddr P (coAddress proposed)))) (\<lambda>prev.
        case (case prev of Some c \<Rightarrow> if chStatus c \<noteq> ChannelStateInactive then Some c else None | None \<Rightarrow> None) of
          Some c \<Rightarrow> dbind (dlift (MustParseAddr S (sdAddress (Our c)))) (\<lambda>a. dret (a, initSig))
        | None \<Rightarrow>
          dbind (dlift (GetPartyAddr (opC P) proposed)) (\<lambda>party.
          let ch = opened_channel P clk cfg codeHash isLeft urgent web initBody data (coAddress proposed) party prev in
          dbind (dwrap ''failed to exec channel db tx'' (Transaction (svL S) (
            dbind (set_channel S (clk 3) (prev \<noteq> None) ch) (\<lambda>_.
            dwhen urgent (dwrap ''failed to create task for incrementing states'' (create_task S (clk 4) (clk 5) ''increment-state'' (sdAddress (Our ch))
              (''exchange-states-'' @ sdAddress (Our ch) @ ''-'' @ unix_text (InitAt ch)) (IncrementStatesTask (sdAddress (Our ch)) True) None None)))))) (\<lambda>_.
          dbind (dlift (MustParseAddr S (sdAddress (Our ch)))) (\<lambda>a. dret (a, initSig))))))))))"

end
