(* ===== verification/ChainUpdates.thy ===== *)
theory ChainUpdates
  imports Operations Propose
begin

text \<open>
  What the service does with the events of the chain scanner: \<open>Start\<close>, \<open>processSideUpdate\<close> and
  \<open>scanSettledConditionals\<close> of \<^verbatim>\<open>tonpayments/service.go\<close>. An event carries a transaction of one of the
  two contracts of a channel and the contract as it is after it. One pass over an event is a database program;
  where the source goes back to \<open>retry\<close> or puts the event back into its queue, the outcome says so.
\<close>

section \<open>Events\<close>

datatype MsgType = MsgTypeInternal | MsgTypeExternalIn | MsgTypeExternalOut

record 'c MsgInfo =
  miType :: MsgType
  miFrom :: string
  miTo :: string
  miMsgHash :: bytes
  miBody :: 'c

record 'c chain_tx =
  txHash :: bytes
  txPrevTxHash :: bytes
  txLT :: uint64
  txPrevTxLT :: uint64
  txAt :: int
  txSuccess :: bool
  txIn :: "'c MsgInfo"
  txOut :: "'c MsgInfo list"

record 'c ChannelUpdatedEvent =
  upTransaction :: "'c chain_tx"
  upLatestChannel :: "'c ChannelContract"

record ConditionalsSettledEvent =
  NewConditionalsHash :: bytes
  NewActionsHash :: bytes

record UncoopCloseReplicateMsg =
  urAt :: uint32
  urState :: "StateBodySigned option"

text \<open>
  The codecs of the two messages, the dictionary a cell holds (\<open>AsDict(256)\<close>) and the webhook queue: its
  effect once the event is accepted, since the source pushes until it is.
\<close>

record ('s, 'c, 'm, 'd, 't) event_env =
  evSettled :: "('s, 'c, ConditionalsSettledEvent) codec"
  evReplicate :: "('s, 'c, UncoopCloseReplicateMsg) codec"
  evAsDict :: "'c \<Rightarrow> 'm"
  evPush :: "(('m, 'c) Channel \<Rightarrow> ('d, 't) executor \<Rightarrow> ('d, 't) executor) option"

abbreviation up_status :: "'c ChannelUpdatedEvent \<Rightarrow> ContractStatus" where
  "up_status u \<equiv> coStatus (upLatestChannel u)"

definition side_at :: "bool \<Rightarrow> ('m, 'c) Channel \<Rightarrow> 'm Side" where
  "side_at isOur ch = (if isOur then Our ch else Their ch)"

definition on_side :: "bool \<Rightarrow> ('m Side \<Rightarrow> 'm Side) \<Rightarrow> ('m, 'c) Channel \<Rightarrow> ('m, 'c) Channel" where
  "on_side isOur f ch = (if isOur then ch\<lparr>Our := f (Our ch)\<rparr> else ch\<lparr>Their := f (Their ch)\<rparr>)"

section \<open>Settled conditionals\<close>

text \<open>The hash of the action states after a settlement, from the first event the contract emitted.\<close>

definition settled_hash ::
  "('b, 's, 'c, 'm, 'd, 't, 'j) svc \<Rightarrow> ('s, 'c, 'm, 'd, 't) event_env \<Rightarrow> 'c chain_tx \<Rightarrow> bytes option" where
  "settled_hash S V tx = first_some (\<lambda>info. if miType info \<noteq> MsgTypeExternalOut then None
     else (case tlb_Parse (svCells S) (evSettled V) (miBody info) of Inl _ \<Rightarrow> None | Inr ev \<Rightarrow> Some (NewActionsHash ev))) (txOut tx)"

definition PeekRef0 :: "('b, 's, 'c) cell_lib \<Rightarrow> 'c \<Rightarrow> 'c res" where
  "PeekRef0 L c = (case CellRefs L c of [] \<Rightarrow> Inl (Errorf ''not enough refs'') | r # _ \<Rightarrow> Inr r)"

text \<open>
  One settled conditional: executed against the action state of the proof and written to the copy of the action
  states. An error skips it. A conditional that the other side settled with us is also resolved and closed
  in the channel it came from.
\<close>

definition settle_item ::
  "('b, 's, 'c, 'm, 'd, 't, 'j) svc \<Rightarrow> bool \<Rightarrow> 'm \<Rightarrow> 'm \<Rightarrow> (nat \<Rightarrow> gtime) \<Rightarrow> 's \<times> 's \<Rightarrow> 'm \<Rightarrow> ('d, 't, 'm) dbm" where
  "settle_item S isOur conds acts clk kv upd = (let state = MustToCell (svCells S) (snd kv) in
     dbind (dtry (
       dbind (dlift (LoadSlice (svCells S) (fst kv) 256)) (\<lambda>(key, _).
       dbind (dlift (id_cell (svCells S) key)) (\<lambda>keyCell.
       dbind (dlift (LoadValue (svD S) conds keyCell)) (\<lambda>code.
       dbind (code_to_cond S (MustToCell (svCells S) code)) (\<lambda>cond.
       dbind (dlift (IDCell S (Cond_GetAction cond))) (\<lambda>aid.
       dbind (dlift (LoadValue (svD S) acts aid)) (\<lambda>act.
       dbind (dlift (Cond_Execute (svC S) cond (MustToCell (svCells S) act) state (Some Map.empty))) (\<lambda>(new, _).
       dbind (dlift (DictSet (svD S) upd aid new)) (\<lambda>upd. dret (cond, upd))))))))))) (\<lambda>r. case r of
         Inl _ \<Rightarrow> dret upd
       | Inr (cond, upd) \<Rightarrow>
         if isOur then dret upd
         else dbind (dtry (AddConditionalResolve S clk (Cond_GetKey cond) state)) (\<lambda>_.
           dbind (dtry (CloseConditional S (\<lambda>i. clk (2 + i)) (Cond_GetKey cond))) (\<lambda>_. dret upd))))"

primrec settle_items ::
  "('b, 's, 'c, 'm, 'd, 't, 'j) svc \<Rightarrow> bool \<Rightarrow> 'm \<Rightarrow> 'm \<Rightarrow> (nat \<Rightarrow> nat \<Rightarrow> gtime) \<Rightarrow> nat \<Rightarrow> ('s \<times> 's) list \<Rightarrow> 'm \<Rightarrow> ('d, 't, 'm) dbm" where
  "settle_items S isOur conds acts clk n [] upd = dret upd"
| "settle_items S isOur conds acts clk n (kv # kvs) upd =
     dbind (settle_item S isOur conds acts (clk n) kv upd) (\<lambda>upd. settle_items S isOur conds acts clk (n + 1) kvs upd)"

text \<open>The states are kept only when they hash to what the contract reported.\<close>

definition scanSettledConditionals ::
  "('b, 's, 'c, 'm, 'd, 't, 'j) svc \<Rightarrow> ('s, 'c, 'm, 'd, 't) event_env \<Rightarrow> (nat \<Rightarrow> nat \<Rightarrow> gtime) \<Rightarrow> ('m, 'c) Channel \<Rightarrow> 'c chain_tx \<Rightarrow>
   ('m, 'c) SettleSigned \<Rightarrow> bool \<Rightarrow> ('d, 't, ('m, 'c) Channel) dbm" where
  "scanSettledConditionals S V clk ch tx settle isOur = (case settled_hash S V tx of None \<Rightarrow> dret ch
   | Some h \<Rightarrow>
     (case rbind (LoadAll (svD S) (ssToSettle settle)) (\<lambda>kvs.
        rbind (PeekRef0 (svCells S) (ssConditionalsProof settle)) (\<lambda>conds.
        rbind (PeekRef0 (svCells S) (ssActionsInputProof settle)) (\<lambda>acts. Inr (kvs, evAsDict V conds, evAsDict V acts)))) of
      Inl _ \<Rightarrow> dret ch
    | Inr (kvs, conds, acts) \<Rightarrow>
      dbind (settle_items S isOur conds acts clk 0 kvs (adActionStates (sdData (side_at (\<not> isOur) ch)))) (\<lambda>upd.
      if h = CellHash (svCells S) (DictAsCell (svD S) upd) then dret (on_side (\<not> isOur) (set_action_state upd) ch) else dret ch)))"

section \<open>A side of the channel moved\<close>

definition closing_event ::
  "('b, 's, 'c, 'm, 'd, 't, 'j) svc \<Rightarrow> ('m, 'c) Channel \<Rightarrow> int \<Rightarrow> ChannelHistoryEventType \<Rightarrow> ('d, 't, unit) dbm" where
  "closing_event S ch at' typ = dwrap (''failed to create channel event '' @ nat_text (event_no typ)) (create_event S ch (unix at') typ [])"

text \<open>A contract that is not open any more stops the channel, and its first closure makes it closing.\<close>

definition side_activity ::
  "('b, 's, 'c, 'm, 'd, 't, 'j) svc \<Rightarrow> bool \<Rightarrow> 'c ChannelUpdatedEvent \<Rightarrow> ('m, 'c) Channel \<Rightarrow> ('d, 't, ('m, 'c) Channel) dbm" where
  "side_activity S isOur upd ch = (let act = (\<lambda>b. on_side isOur (\<lambda>sd. sd\<lparr>ActiveOnchain := b\<rparr>)) in
     if up_status upd = ChannelStatusOpen then dret (act True ch)
     else let ch = ch\<lparr>AcceptingActions := False\<rparr> in
     if up_status upd = ChannelStatusUninitialized then dret (act False ch)
     else if chStatus ch = ChannelStateActive then
       let ch = ch\<lparr>chStatus := ChannelStateClosing\<rparr> in
       dbind (closing_event S ch (txAt (upTransaction upd)) ChannelHistoryActionUncooperativeCloseStarted) (\<lambda>_. dret (act True ch))
     else dret (act True ch))"

text \<open>The times of the closing phases; the sums are 32-bit and wrap.\<close>

definition challengeTill :: "QuarantinedState \<Rightarrow> ClosingConfig \<Rightarrow> gtime" where
  "challengeTill q cc = unix (uint (QuarantineStarts q + QuarantineDuration cc + 1))"

definition settleAt :: "QuarantinedState \<Rightarrow> ClosingConfig \<Rightarrow> gtime" where
  "settleAt q cc = unix (uint (QuarantineStarts q + QuarantineDuration cc + 3))"

definition settleTill :: "QuarantinedState \<Rightarrow> ClosingConfig \<Rightarrow> gtime" where
  "settleTill q cc = settleAt q cc + unix (uint (ConditionalCloseDuration cc))"

definition executeAt :: "QuarantinedState \<Rightarrow> ClosingConfig \<Rightarrow> gtime" where
  "executeAt q cc = unix (uint (QuarantineStarts q + QuarantineDuration cc + ConditionalCloseDuration cc + 3))"

definition executeTill :: "QuarantinedState \<Rightarrow> ClosingConfig \<Rightarrow> gtime" where
  "executeTill q cc = executeAt q cc + unix (uint (ActionsDuration cc))"

definition finalizeAt :: "QuarantinedState \<Rightarrow> ClosingConfig \<Rightarrow> gtime" where
  "finalizeAt q cc = unix (uint (QuarantineStarts q + QuarantineDuration cc + ConditionalCloseDuration cc + ActionsDuration cc + 5))"

text \<open>A task on the channel, identified by the channel and its initialisation.\<close>

definition channel_task ::
  "('b, 's, 'c, 'm, 'd, 't, 'j) svc \<Rightarrow> gtime \<Rightarrow> gtime \<Rightarrow> string \<Rightarrow> string \<Rightarrow> string \<Rightarrow> ('m, 'c) Channel \<Rightarrow> gtime option \<Rightarrow> gtime option \<Rightarrow> ('d, 't, unit) dbm" where
  "channel_task S now1 now2 what typ queue ch after till = dwrap (''failed to create task for '' @ what)
     (create_task S now1 now2 typ (sdAddress (Our ch) @ queue) (typ @ ''-'' @ b64_encode (chID ch) @ ''-'' @ unix_text (InitAt ch))
        (ChannelTask (sdAddress (Our ch))) after till)"

text \<open>The closing phases fall through from the one the contract is in to the last.\<close>

definition phase_finalize ::
  "('b, 's, 'c, 'm, 'd, 't, 'j) svc \<Rightarrow> (nat \<Rightarrow> gtime) \<Rightarrow> QuarantinedState \<Rightarrow> ClosingConfig \<Rightarrow> ('m, 'c) Channel \<Rightarrow> ('d, 't, ('m, 'c) Channel) dbm" where
  "phase_finalize S clk q cc ch = (if UncoopCloseStarted ch then dret ch
     else dbind (channel_task S (clk 0) (clk 1) ''finalizing channel'' ''finalize'' ''-finalize'' ch (Some (finalizeAt q cc)) None) (\<lambda>_.
       dret (ch\<lparr>UncoopCloseStarted := True\<rparr>)))"

definition phase_execute ::
  "('b, 's, 'c, 'm, 'd, 't, 'j) svc \<Rightarrow> (nat \<Rightarrow> gtime) \<Rightarrow> QuarantinedState \<Rightarrow> ClosingConfig \<Rightarrow> ('m, 'c) Channel \<Rightarrow> ('d, 't, ('m, 'c) Channel) dbm" where
  "phase_execute S clk q cc ch = (if UncoopCloseStarted ch then dret ch
     else dbind (channel_task S (clk 2) (clk 3) ''settling actions'' ''settle-act'' ''-settle-act'' ch (Some (executeAt q cc)) (Some (executeTill q cc))) (\<lambda>_.
       phase_finalize S clk q cc ch))"

definition phase_settle ::
  "('b, 's, 'c, 'm, 'd, 't, 'j) svc \<Rightarrow> (nat \<Rightarrow> gtime) \<Rightarrow> QuarantinedState \<Rightarrow> ClosingConfig \<Rightarrow> ('m, 'c) Channel \<Rightarrow> ('d, 't, ('m, 'c) Channel) dbm" where
  "phase_settle S clk q cc ch = (if UncoopCloseStarted ch then dret ch
     else dbind (channel_task S (clk 4) (clk 5) ''settling conditions'' ''settle'' ''-settle'' ch (Some (settleAt q cc)) (Some (settleTill q cc))) (\<lambda>_.
       phase_execute S clk q cc ch))"

text \<open>A closure the other side started with an older state is challenged.\<close>

definition phase_closure ::
  "('b, 's, 'c, 'm, 'd, 't, 'j) svc \<Rightarrow> (nat \<Rightarrow> gtime) \<Rightarrow> QuarantinedState \<Rightarrow> ClosingConfig \<Rightarrow> ('m, 'c) Channel \<Rightarrow> ('d, 't, ('m, 'c) Channel) dbm" where
  "phase_closure S clk q cc ch = (if UncoopCloseStarted ch then dret ch
     else dbind (if CommittedByOwner q then dret ()
       else dbind (dlift (LoadSignedState (svE S) ch)) (\<lambda>st.
         dwhen (qsSeqno q < sbSeqno (sbBody st)) (channel_task S (clk 6) (clk 7) ''challenge'' ''challenge'' ''-chain'' ch None (Some (challengeTill q cc))))) (\<lambda>_.
       phase_settle S clk q cc ch))"

definition our_phase ::
  "('b, 's, 'c, 'm, 'd, 't, 'j) svc \<Rightarrow> (nat \<Rightarrow> gtime) \<Rightarrow> 'c ChannelUpdatedEvent \<Rightarrow> ('m, 'c) Channel \<Rightarrow> ('d, 't, ('m, 'c) Channel) dbm" where
  "our_phase S clk upd ch = (let st = coStorage (upLatestChannel upd); cc = stClosingConfig st;
       closing = (\<lambda>phase. if UncoopCloseStarted ch then dret ch
         else case Quarantine st of None \<Rightarrow> dlift (Inl (Panic ''nil pointer dereference'')) | Some q \<Rightarrow> phase q) in
     case up_status upd of
       ChannelStatusOpen \<Rightarrow> if chStatus ch = ChannelStateActive then dret ch
         else let ch = ch\<lparr>chStatus := ChannelStateActive\<rparr> in
           dbind (dwrap ''failed to create task for exchanging states'' (create_task S (clk 8) (clk 9) ''increment-state'' (sdAddress (Our ch))
             (''exchange-states-'' @ sdAddress (Our ch) @ ''-'' @ unix_text (InitAt ch)) (IncrementStatesTask (sdAddress (Our ch)) True) None None)) (\<lambda>_. dret ch)
     | ChannelStatusClosureStarted \<Rightarrow> closing (\<lambda>q. phase_closure S clk q cc ch)
     | ChannelStatusSettlingConditionals \<Rightarrow> closing (\<lambda>q. phase_settle S clk q cc ch)
     | ChannelStatusExecutingActions \<Rightarrow> closing (\<lambda>q. phase_execute S clk q cc ch)
     | ChannelStatusAwaitingFinalization \<Rightarrow> closing (\<lambda>q. phase_finalize S clk q cc ch)
     | ChannelStatusUninitialized \<Rightarrow>
         dbind (dwhen (chStatus ch \<noteq> ChannelStateInactive) (closing_event S ch (txAt (upTransaction upd)) ChannelHistoryActionClosed)) (\<lambda>_.
         dret (ch\<lparr>chStatus := ChannelStateInactive\<rparr>)))"

text \<open>
  Transfers whose sequence number the contract has now passed are followed until they complete; otherwise the
  on-chain balance is read again.
\<close>

definition follow_pending ::
  "('b, 's, 'c, 'm, 'd, 't, 'j) svc \<Rightarrow> gtime \<Rightarrow> gtime \<Rightarrow> bool \<Rightarrow> 'c chain_tx \<Rightarrow> ('m, 'c) Channel \<Rightarrow> string \<Rightarrow> ('d, 't, unit) dbm" where
  "follow_pending S now1 now2 isOur tx ch k = (let addr = sdAddress (side_at isOur ch) in
     dwrap ''failed creating follow pending task'' (create_task S now1 now2 ''wait-pending-tx-completion'' (addr @ ''-chain-balance'')
       (''wait-pending-tx-completion-'' @ addr @ ''-'' @ k)
       (WaitPendingTxTask (sdAddress (Our ch)) isOur k (miMsgHash (txIn tx)) (unix (txAt tx))) None None))"

definition refresh_balance ::
  "('b, 's, 'c, 'm, 'd, 't, 'j) svc \<Rightarrow> gtime \<Rightarrow> gtime \<Rightarrow> bool \<Rightarrow> 'c chain_tx \<Rightarrow> ('m, 'c) Channel \<Rightarrow> ('d, 't, unit) dbm" where
  "refresh_balance S now1 now2 isOur tx ch = (let addr = sdAddress (side_at isOur ch) in
     dwrap ''failed creating refresh balance task'' (create_task S now1 now2 ''refresh-onchain-balance'' (addr @ ''-chain-balance'')
       (''refresh-onchain-balance-'' @ addr @ ''-'' @ nat_text (unat (txLT tx)))
       (RefreshOnchainBalanceTask (sdAddress (Our ch)) isOur (txAt tx)) None None))"

definition track_transfers ::
  "('b, 's, 'c, 'm, 'd, 't, 'j) svc \<Rightarrow> (nat \<Rightarrow> gtime) \<Rightarrow> bool \<Rightarrow> 'c ChannelUpdatedEvent \<Rightarrow> ('m, 'c) Channel \<Rightarrow> ('d, 't, ('m, 'c) Channel) dbm" where
  "track_transfers S clk isOur upd ch = (if up_status upd \<noteq> ChannelStatusOpen then dret ch
     else let tx = upTransaction upd; st = coStorage (upLatestChannel upd); sd = side_at isOur ch;
       pending = (\<lambda>k. map_of (PendingOnchainTransfers sd) k \<noteq> None);
       ck = pendingIDCommit (CommittedSeqno st); wk = pendingIDWallet (LatestWalletSeqno sd);
       committed = (LatestCommitedSeqno sd < CommittedSeqno st \<and> pending ck);
       executed = (LatestWalletSeqno sd < WalletSeqno st \<and> pending wk);
       ch = (if committed then ch\<lparr>chPendingCommit := None\<rparr> else ch) in
     dbind (dwhen committed (follow_pending S (clk 10) (clk 11) isOur tx ch ck)) (\<lambda>_.
     dbind (dwhen executed (follow_pending S (clk 12) (clk 13) isOur tx ch wk)) (\<lambda>_.
     dbind (dwhen (\<not> committed \<and> \<not> executed) (refresh_balance S (clk 14) (clk 15) isOur tx ch)) (\<lambda>_. dret ch))))"

definition record_update :: "'c ChannelUpdatedEvent \<Rightarrow> 'm Side \<Rightarrow> 'm Side" where
  "record_update upd sd = (let st = coStorage (upLatestChannel upd); tx = upTransaction upd in
     sd\<lparr>IsSettlementFinalized := (case Quarantine st of None \<Rightarrow> False | Some q \<Rightarrow> OurSettlementFinalized q),
        LatestCommitedSeqno := CommittedSeqno st, LatestWalletSeqno := WalletSeqno st, LatestProcessedLT := txLT tx,
        LastProcessedTxAt := unix (txAt tx)\<rparr>)"

definition processSideUpdate ::
  "('b, 's, 'c, 'm, 'd, 't, 'j) svc \<Rightarrow> (nat \<Rightarrow> gtime) \<Rightarrow> bool \<Rightarrow> 'c ChannelUpdatedEvent \<Rightarrow> ('m, 'c) Channel \<Rightarrow> ('d, 't, ('m, 'c) Channel) dbm" where
  "processSideUpdate S clk isOur upd ch =
     dbind (side_activity S isOur upd ch) (\<lambda>ch.
     dbind (if isOur then our_phase S clk upd ch else dret ch) (\<lambda>ch.
     dbind (track_transfers S clk isOur upd ch) (\<lambda>ch. dret (on_side isOur (record_update upd) ch))))"

section \<open>The event loop\<close>

text \<open>
  The other side may have closed with a state we signed and proposed, without ever returning its signature. The
  state in the transaction carries both, and the data that belongs to it was saved before it was proposed.
\<close>

definition recover_pending ::
  "('b, 's, 'c, 'm, 'd, 't, 'j) svc \<Rightarrow> ('m, 'c) Channel \<Rightarrow> StateBodySigned \<Rightarrow> StateBodySigned \<Rightarrow> ('d, 't, ('m, 'c) Channel) dbm" where
  "recover_pending S ch ours st =
     dbind (dtry (dlift (StateBodySigned_Verify (svE S) st (Some (OnchainKey (SideA ch))) (Some (OnchainKey (SideB ch)))))) (\<lambda>v. case v of
       Inl _ \<Rightarrow> dret ch
     | Inr _ \<Rightarrow> (case ToCell (cnBody (svE S)) (sbBody st) of Inl _ \<Rightarrow> dret ch
       | Inr tb \<Rightarrow> (case ToCell (cnBody (svE S)) (sbBody ours) of Inl _ \<Rightarrow> dlift (Inl (Panic ''nil pointer dereference''))
         | Inr ob \<Rightarrow> if CellHash (svCells S) tb = CellHash (svCells S) ob then dret ch
           else dbind (dtry (GetChannelPendingState (svL S) (svPendingJ S) (svE S) ch (sbBody st))) (\<lambda>r. case r of
             Inl _ \<Rightarrow> dret ch
           | Inr ps \<Rightarrow> (case ToCell (cnSigned (svE S)) st of Inl _ \<Rightarrow> dret ch
             | Inr c \<Rightarrow> dret (ch\<lparr>Our := (Our ch)\<lparr>sdData := psOurData ps\<rparr>, Their := (Their ch)\<lparr>sdData := psTheirData ps\<rparr>,
                 SignedState := Some c\<rparr>))))))"

definition recover_state ::
  "('b, 's, 'c, 'm, 'd, 't, 'j) svc \<Rightarrow> ('s, 'c, 'm, 'd, 't) event_env \<Rightarrow> 'c ChannelUpdatedEvent \<Rightarrow> ('m, 'c) Channel \<Rightarrow> ('d, 't, ('m, 'c) Channel) dbm" where
  "recover_state S V upd ch = (let tx = upTransaction upd in
     if \<not> (txSuccess tx \<and> miType (txIn tx) = MsgTypeInternal \<and> up_status upd = ChannelStatusClosureStarted) then dret ch
     else dbind (dlift (LoadSignedState (svE S) ch)) (\<lambda>ours.
       case tlb_Parse (svCells S) (evReplicate V) (miBody (txIn tx)) of Inl _ \<Rightarrow> dret ch
       | Inr msg \<Rightarrow> (case urState msg of None \<Rightarrow> dret ch
         | Some st \<Rightarrow> if sbSeqno (sbBody st) < sbSeqno (sbBody ours) then dret ch else recover_pending S ch ours st)))"

definition scan_settlement ::
  "('b, 's, 'c, 'm, 'd, 't, 'j) svc \<Rightarrow> ('b, 's, 'c, 'm) op_env \<Rightarrow> ('s, 'c, 'm, 'd, 't) event_env \<Rightarrow> (nat \<Rightarrow> nat \<Rightarrow> gtime) \<Rightarrow> bool \<Rightarrow>
   'c ChannelUpdatedEvent \<Rightarrow> ('m, 'c) Channel \<Rightarrow> ('d, 't, ('m, 'c) Channel) dbm" where
  "scan_settlement S P V clk isOur upd ch = (let tx = upTransaction upd in
     if \<not> (txSuccess tx \<and> miType (txIn tx) = MsgTypeExternalIn) then dret ch
     else case tlb_Parse (svCells S) (mcMsg (ctSettle (opC P))) (miBody (txIn tx)) of Inl _ \<Rightarrow> dret ch
     | Inr msg \<Rightarrow> scanSettledConditionals S V clk ch tx (msSigned msg) isOur)"

text \<open>The channel of a contract we see for the first time, or again after its channel was closed.\<close>

definition fresh_channel ::
  "('b, 's, 'c, 'm, 'd, 't, 'j) svc \<Rightarrow> ('b, 's, 'c, 'm) op_env \<Rightarrow> gtime \<Rightarrow> bool \<Rightarrow> 'c ChannelUpdatedEvent \<Rightarrow> address \<Rightarrow> ('m, 'c) Channel option \<Rightarrow>
   ('m, 'c) Channel" where
  "fresh_channel S P now weA upd party prev = (let och = upLatestChannel upd; st = coStorage och;
       (our, their) = (if weA then (stKeyA st, stKeyB st) else (stKeyB st, stKeyA st)) in
     \<lparr>chID = stChannelID st, chStatus = ChannelStateInactive, WeLeft = weA, SafeOnchainClosePeriod = safe_close_period P (stClosingConfig st),
      AcceptingActions = (up_status upd = ChannelStatusOpen), WebPeer = False, UrgentForUs = False, UncoopCloseStarted = False, SignedState = None,
      Our = new_side P (opAddr P (coAddress och)) our 0, Their = new_side P (opAddr P party) their 0, InitAt = unix (txAt (upTransaction upd)),
      chCreatedAt = (case prev of None \<Rightarrow> now | Some c \<Rightarrow> chCreatedAt c), CodeHash = CellHash (svCells S) (coContractCode och),
      InitMessageBody = None, InitialData = None, chPendingCommit = None, DBVersion = (case prev of None \<Rightarrow> 0 | Some c \<Rightarrow> DBVersion c)\<rparr>)"

text \<open>How one pass ends: done, nothing to do, again from the start, or back into the queue after a pause.\<close>

datatype outcome = Done | Skipped | Retry | Requeue

text \<open>The update and the write of the channel are one transaction; the derivatives of a closed channel are finalised after it.\<close>

definition store_update ::
  "('b, 's, 'c, 'm, 'd, 't, 'j) svc \<Rightarrow> (nat \<Rightarrow> nat \<Rightarrow> gtime) \<Rightarrow> bool \<Rightarrow> bool \<Rightarrow> 'c ChannelUpdatedEvent \<Rightarrow> ('m, 'c) Channel \<Rightarrow>
   ('d, 't, ('m, 'c) Channel option) dbm" where
  "store_update S clk isNew isOur upd ch =
     dbind (dtry (Transaction (svL S) (
       dbind (dwrap (if isOur then ''failed to process our side update'' else ''failed to process side update'') (processSideUpdate S (clk 0) isOur upd ch)) (\<lambda>ch'.
       set_channel S (clk 1 0) (\<not> isNew) ch')))) (\<lambda>r. case r of
         Inl _ \<Rightarrow> dret None
       | Inr ch' \<Rightarrow>
         dbind (dtry (if chStatus ch \<noteq> ChannelStateInactive \<and> chStatus ch' = ChannelStateInactive
           then finalizeInactiveChannelDerivatives S (\<lambda>i. clk (2 + i)) ch' else dret ())) (\<lambda>_. dret (Some ch')))"

definition their_update ::
  "('b, 's, 'c, 'm, 'd, 't, 'j) svc \<Rightarrow> ('b, 's, 'c, 'm) op_env \<Rightarrow> ('s, 'c, 'm, 'd, 't) event_env \<Rightarrow> (nat \<Rightarrow> nat \<Rightarrow> nat \<Rightarrow> gtime) \<Rightarrow>
   'c ChannelUpdatedEvent \<Rightarrow> ('m, 'c) Channel option \<Rightarrow> ('d, 't, outcome) dbm" where
  "their_update S P V clk upd channel = (case channel of None \<Rightarrow> dret Requeue
   | Some ch \<Rightarrow>
     if txLT (upTransaction upd) \<le> LatestProcessedLT (Their ch) then dret Skipped
     else dbind (scan_settlement S P V (clk 0) False upd ch) (\<lambda>ch.
       dbind (store_update S (clk 1) False False upd ch) (\<lambda>r. dret (if r = None then Retry else Done))))"

definition our_update ::
  "('b, 's, 'c, 'm, 'd, 't, 'j) svc \<Rightarrow> ('b, 's, 'c, 'm) op_env \<Rightarrow> ('s, 'c, 'm, 'd, 't) event_env \<Rightarrow> (nat \<Rightarrow> nat \<Rightarrow> nat \<Rightarrow> gtime) \<Rightarrow> bool \<Rightarrow>
   'c ChannelUpdatedEvent \<Rightarrow> ('m, 'c) Channel option \<Rightarrow> ('d, 't, outcome) dbm" where
  "our_update S P V clk weA upd channel = (let closed = (case channel of None \<Rightarrow> True | Some c \<Rightarrow> chStatus c = ChannelStateInactive) in
     if closed \<and> up_status upd = ChannelStatusUninitialized then dret Skipped
     else dbind (case channel of
         Some c \<Rightarrow> if \<not> closed then dret c
           else dbind (dlift (GetPartyAddr (opC P) (upLatestChannel upd))) (\<lambda>party. dret (fresh_channel S P (clk 0 0 0) weA upd party channel))
       | None \<Rightarrow> dbind (dlift (GetPartyAddr (opC P) (upLatestChannel upd))) (\<lambda>party. dret (fresh_channel S P (clk 0 0 0) weA upd party channel))) (\<lambda>ch.
     if txLT (upTransaction upd) \<le> LatestProcessedLT (Our ch) then dret Skipped
     else dbind (scan_settlement S P V (clk 1) True upd ch) (\<lambda>ch.
       dbind (recover_state S V upd ch) (\<lambda>ch.
       dbind (store_update S (clk 2) (channel = None) True upd ch) (\<lambda>r. case r of None \<Rightarrow> dret Retry
       | Some ch' \<Rightarrow> (\<lambda>e. (Inr Done, case evPush V of None \<Rightarrow> e | Some push \<Rightarrow> push ch' e)))))))"

definition handle_update ::
  "('b, 's, 'c, 'm, 'd, 't, 'j) svc \<Rightarrow> ('b, 's, 'c, 'm) op_env \<Rightarrow> ('s, 'c, 'm, 'd, 't) event_env \<Rightarrow> (nat \<Rightarrow> nat \<Rightarrow> nat \<Rightarrow> gtime) \<Rightarrow>
   'c ChannelUpdatedEvent \<Rightarrow> ('d, 't, outcome) dbm" where
  "handle_update S P V clk upd = (let och = upLatestChannel upd; (ok, weA, isOur) = verifyChannel (opCfg P) (svPub S) (coStorage och) in
     if \<not> ok then dret Skipped
     else dbind (if isOur then dret (coAddress och) else dlift (GetPartyAddr (opC P) och)) (\<lambda>addr.
       dbind (dtry (find_channel S (opAddr P addr))) (\<lambda>r. case r of Inl _ \<Rightarrow> dret Retry
       | Inr channel \<Rightarrow>
         if (case channel of None \<Rightarrow> True | Some c \<Rightarrow> \<not> ActiveOnchain (Our c) \<and> \<not> ActiveOnchain (Their c)) \<and>
           up_status upd = ChannelStatusUninitialized then dret Skipped
         else if isOur then our_update S P V clk weA upd channel else their_update S P V clk upd channel)))"

definition handle_block :: "('d, 't) leveldb \<Rightarrow> BlockOffset json \<Rightarrow> gtime \<Rightarrow> uint32 \<Rightarrow> ('d, 't, unit) dbm" where
  "handle_block L J now seqno = dbind (dtry (SetBlockOffset L J now seqno)) (\<lambda>_. dret ())"

text \<open>The loop of \<open>retry\<close>: the passes of one event until one does not ask for another; \<open>None\<close> when the passes given are used up.\<close>

fun handle_event ::
  "('b, 's, 'c, 'm, 'd, 't, 'j) svc \<Rightarrow> ('b, 's, 'c, 'm) op_env \<Rightarrow> ('s, 'c, 'm, 'd, 't) event_env \<Rightarrow> (nat \<Rightarrow> nat \<Rightarrow> nat \<Rightarrow> nat \<Rightarrow> gtime) \<Rightarrow> nat \<Rightarrow>
   'c ChannelUpdatedEvent \<Rightarrow> ('d, 't) executor \<Rightarrow> (outcome res \<times> ('d, 't) executor) option" where
  "handle_event S P V clk 0 upd e = None"
| "handle_event S P V clk (Suc n) upd e = (case handle_update S P V (clk n) upd e of
     (Inr Retry, e') \<Rightarrow> handle_event S P V clk n upd e' | r \<Rightarrow> Some r)"

end
