(* ===== verification/ContractLaws.thy ===== *)
theory ContractLaws
  imports Contract ChannelLaws
begin

text \<open>
  Laws of the contract client: the list of outgoing messages is read back as it was packed and reading
  any list ends, the addresses of the two contracts of a channel determine each other, the phases of a
  closure follow one another, and a message both sides prepared carries two valid signatures.
\<close>

section \<open>Cells of finite depth\<close>

lemma unat_byte: "unat (w :: 8 word) < 2 ^ 8"
  using unsigned_less [of w, where 'a = nat] by simp

text \<open>\<open>Depth\<close> of a cell: zero without references, otherwise one more than the deepest reference.\<close>

locale finite_cells = cell_library +
  fixes depth :: "'c \<Rightarrow> nat"
  assumes depth_eq: "depth c = (if CellRefs L c = [] then 0 else Suc (Max (depth ` set (CellRefs L c))))"
    and load_no_ref: "sview s = (bs, []) \<Longrightarrow> \<exists>e. LoadRefCell L s = Inl e"
begin

lemma depth_ref: "r \<in> set (CellRefs L c) \<Longrightarrow> depth r < depth c"
  using depth_eq [of c] Max_ge [of "depth ` set (CellRefs L c)" "depth r"]
  by (auto simp: less_Suc_eq_le)

lemma depth_reopened: "depth (MustToCell L (BeginParse L c)) = depth c"
  using depth_eq [of c] depth_eq [of "MustToCell L (BeginParse L c)"] by (simp add: cell_refs view_to_cell)

end

fun t_depth :: "tcell \<Rightarrow> nat" where
  "t_depth (TCell bs rs) = (if rs = [] then 0 else Suc (Max (t_depth ` set rs)))"

interpretation ton_finite: finite_cells "ton_cells h" "\<lambda>b. b" "\<lambda>s. s" t_addr_bits t_depth for h
proof
  show "t_depth c = (if CellRefs (ton_cells h) c = [] then 0 else Suc (Max (t_depth ` set (CellRefs (ton_cells h) c))))" for c
    by (cases c) (simp add: ton_cells_def)
  show "\<exists>e. LoadRefCell (ton_cells h) s = Inl e" if "s = (bs, [])" for s bs
    using that by (simp add: ton_cells_def t_load_ref_def)
qed

section \<open>The list of outgoing messages\<close>

text \<open>Messages the client can write: the codec round-trips.\<close>

definition msg_codec_ok :: "('b, 's, 'c, 'm) contract_env \<Rightarrow> bool" where
  "msg_codec_ok E \<longleftrightarrow> (\<forall>im c. ToCell (ctInternal E) im = Inr c \<longrightarrow>
     (\<exists>s. LoadFromCell (ctInternal E) (BeginParse (ctL E) c) = Inr (im, s)))"

context cell_library
begin

definition node_bits :: "8 word \<Rightarrow> bool list" where
  "node_bits mode = nat_bits 32 0x0ec3c86d @ nat_bits 8 (unat mode)"

lemma pack_node_view:
  assumes "ctL E = L" "wmInternal x = Some im" "ToCell (ctInternal E) im = Inr o'"
  shows "\<exists>c. pack_node E x prev = Inr c \<and> sview (BeginParse L c) = (node_bits (wmMode x), [prev, o'])"
proof -
  let ?in = "build L [st_uint L 0x0ec3c86d 32, st_uint L (unat (wmMode x)) 8, st_ref L (Inr o')]"
  let ?ds = "[(nat_bits 32 0x0ec3c86d, []), (nat_bits 8 (unat (wmMode x)), []), ([], [o'])]"
  have "unat (wmMode x) < 2 ^ 8" by (rule unat_byte)
  then have "list_all2 writes [st_uint L 0x0ec3c86d 32, st_uint L (unat (wmMode x)) 8, st_ref L (Inr o')] ?ds"
    by (auto intro!: writes_uint writes_ref)
  from made_build [OF this] have "made ?in (node_bits (wmMode x), [o'])"
    by (simp add: node_bits_def cat_def cfits_def)
  then have "list_all2 writes [st_ref L (Inr prev), st_builder L ?in] [([], [prev]), (node_bits (wmMode x), [o'])]"
    by (auto intro!: writes_ref writes_builder)
  from made_build [OF this] have "made (build L [st_ref L (Inr prev), st_builder L ?in]) (node_bits (wmMode x), [prev, o'])"
    by (simp add: cat_def cfits_def node_bits_def)
  then obtain b where "build L [st_ref L (Inr prev), st_builder L ?in] = Inr b" "bview b = (node_bits (wmMode x), [prev, o'])"
    unfolding made_def by blast
  with assms view_parse [of b] show ?thesis by (simp add: pack_node_def end_cell_def)
qed

lemma unpack_round_node:
  assumes "ctL E = L" "sview (BeginParse L c) = (node_bits mode, [prev, o'])"
    "LoadFromCell (ctInternal E) (BeginParse L o') = Inr (im, s)"
  shows "unpack_round E c = Inr (Some (\<lparr>wmMode = mode, wmInternal = Some im\<rparr>, MustToCell L (BeginParse L prev)))"
proof -
  obtain s1 where s1: "LoadRef L (BeginParse L c) = Inr (BeginParse L prev, s1)" "sview s1 = (node_bits mode, [o'])"
    using load_ref_field [OF assms(2)] by blast
  obtain s2 where s2: "LoadUInt L s1 32 = Inr (0x0ec3c86d, s2)" "sview s2 = (nat_bits 8 (unat mode), [o'])"
    using load_uint_field [of s1 32 "0x0ec3c86d"] s1(2) unfolding node_bits_def by auto
  have "unat mode < 2 ^ 8" by (rule unat_byte)
  then obtain s3 where s3: "LoadUInt L s2 8 = Inr (unat mode, s3)" "sview s3 = ([], [o'])"
    using load_uint_field [of s2 8 "unat mode" "[]"] s2(2) by auto
  obtain s4 where s4: "LoadRef L s3 = Inr (BeginParse L o', s4)"
    using load_ref_field [OF s3(2)] by blast
  show ?thesis using assms(1,3) s1(1) s2(1) s3(1) s4 assms(2)
    by (simp add: unpack_round_def Let_def bits_left node_bits_def del: One_nat_def)
qed

text \<open>Walking a packed list visits its messages from the last one on.\<close>

definition packed :: "('b, 's, 'c, 'm) contract_env \<Rightarrow> 'c \<Rightarrow> ('m, 'c) WalletMessage list \<Rightarrow> bool" where
  "packed E c xs \<longleftrightarrow> (\<forall>c' acc. sview (BeginParse L c') = sview (BeginParse L c) \<longrightarrow>
     unpack_loop E c' acc = Some (Inr (rev (acc @ rev xs))))"

lemma packed_empty: "ctL E = L \<Longrightarrow> packed E (EndCell L (BeginCell L)) []"
  by (simp add: packed_def unpack_loop.simps unpack_round_def bits_left refs_num view_parse view_begin)

lemma packed_snoc:
  assumes "ctL E = L" "msg_codec_ok E" "packed E prev xs" "wmInternal x \<noteq> None" "pack_node E x prev = Inr c"
  shows "packed E c (xs @ [x])"
proof -
  from assms(4) obtain im where im: "wmInternal x = Some im" by blast
  with assms(5) obtain o' where o': "ToCell (ctInternal E) im = Inr o'" by (auto simp: pack_node_def)
  with assms(1,2) obtain s where s: "LoadFromCell (ctInternal E) (BeginParse L o') = Inr (im, s)"
    unfolding msg_codec_ok_def by blast
  have v: "sview (BeginParse L c) = (node_bits (wmMode x), [prev, o'])"
    using pack_node_view [OF assms(1) im o', of prev] assms(5) by auto
  have x: "\<lparr>wmMode = wmMode x, wmInternal = Some im\<rparr> = x" using im by simp
  have "unpack_loop E c' acc = Some (Inr (rev (acc @ rev (xs @ [x]))))"
    if "sview (BeginParse L c') = sview (BeginParse L c)" for c' acc
  proof -
    have "unpack_round E c' = Inr (Some (x, MustToCell L (BeginParse L prev)))"
      using unpack_round_node [OF assms(1) _ s, of c' "wmMode x" prev] that v x by simp
    moreover have "unpack_loop E (MustToCell L (BeginParse L prev)) (acc @ [x]) = Some (Inr (rev ((acc @ [x]) @ rev xs)))"
      using assms(3) unfolding packed_def by (simp add: view_to_cell)
    ultimately show ?thesis by (subst unpack_loop.simps) simp
  qed
  then show ?thesis unfolding packed_def by blast
qed

lemma packed_fold:
  assumes "ctL E = L" "msg_codec_ok E" "packed E c xs" "\<forall>y \<in> set ys. wmInternal y \<noteq> None" "rfold (pack_node E) ys c = Inr d"
  shows "packed E d (xs @ ys)"
  using assms(3-5)
proof (induction ys arbitrary: c xs)
  case (Cons y ys)
  then obtain c' where c': "pack_node E y c = Inr c'" "rfold (pack_node E) ys c' = Inr d" by auto
  have "packed E c' (xs @ [y])" using packed_snoc [OF assms(1,2) Cons.prems(1) _ c'(1)] Cons.prems(2) by simp
  from Cons.IH [OF this _ c'(2)] Cons.prems(2) show ?case by simp
qed simp

lemma unpack_packed:
  assumes "ctL E = L" "msg_codec_ok E" "PackOutActions E ms = Inr c"
  shows "UnpackOutActions E (Some c) = Some (Inr ms)"
proof -
  have v: "\<forall>y \<in> set ms. wmInternal y \<noteq> None" and f: "rfold (pack_node E) ms (EndCell L (BeginCell L)) = Inr c"
    using assms by (auto simp: PackOutActions_def validateMessageFields_def split: if_splits)
  have "packed E c ([] @ ms)" by (rule packed_fold [OF assms(1,2) packed_empty [OF assms(1)] v f])
  then show ?thesis by (simp add: UnpackOutActions_def packed_def)
qed

lemma pack_succeeds:
  assumes "ctL E = L" "\<forall>y \<in> set ms. \<exists>im c. wmInternal y = Some im \<and> ToCell (ctInternal E) im = Inr c" "length ms \<le> 255"
  shows "\<exists>c. PackOutActions E ms = Inr c"
proof -
  have "\<exists>d. rfold (pack_node E) ms c = Inr d" for c
    using rfold_total [of "\<lambda>_. True" c ms "pack_node E"] pack_node_view [OF assms(1)] assms(2) by blast
  then show ?thesis using assms(2,3) by (force simp: PackOutActions_def validateMessageFields_def)
qed

end

context finite_cells
begin

lemma unpack_round_depth:
  assumes "ctL E = L" "unpack_round E c = Inr (Some (x, c'))"
  shows "depth c' < depth c"
proof -
  obtain prev s where r: "LoadRef L (BeginParse L c) = Inr (prev, s)" and c': "c' = MustToCell L prev"
    using assms by (auto simp: unpack_round_def Let_def split: if_splits prod.splits)
  from r obtain p s' where p: "LoadRefCell L (BeginParse L c) = Inr (p, s')" "prev = BeginParse L p"
    by (auto simp: LoadRef_def)
  obtain bs rs where v: "sview (BeginParse L c) = (bs, rs)" by fastforce
  with load_no_ref p(1) obtain q qs where "rs = q # qs" by (cases rs) force+
  with load_ref p(1) v have "p \<in> set (CellRefs L c)" by (fastforce simp: cell_refs)
  then show ?thesis using depth_ref depth_reopened c' p(2) by simp
qed

text \<open>The loop returns on every cell, whatever it holds.\<close>

lemma unpack_returns: "ctL E = L \<Longrightarrow> \<exists>r. unpack_loop E c acc = Some r"
proof (induction c arbitrary: acc rule: measure_induct_rule [where f = depth])
  case (less c)
  show ?case
    by (subst unpack_loop.simps)
      (auto split: sum.splits option.splits intro: less.IH unpack_round_depth [OF less.prems] simp: less.prems)
qed

end

section \<open>Samples\<close>

text \<open>
  A client over bit-level cells with two contracts of one channel, two internal messages and the two
  deployments; keys sign by prefixing, which verification checks.
\<close>

definition ex_closing :: ClosingConfig where
  "ex_closing = \<lparr>QuarantineDuration = 60, ConditionalCloseDuration = 30, ActionsDuration = 10, ReplicationMessageAttachAmount = 5\<rparr>"

definition ex_storage :: "bool \<Rightarrow> ChannelStorageData" where
  "ex_storage isA = \<lparr>stIsA = isA, Initialized = False, CommittedSeqno = 0, WalletSeqno = 0, stKeyA = ''a'', stKeyB = ''b'',
     stChannelID = zeros 16, stClosingConfig = ex_closing, PartyAddress = None, Quarantine = None\<rparr>"

definition ex_internal :: "int \<Rightarrow> (tdict, tcell) InternalMessage" where
  "ex_internal a = \<lparr>imDstAddr = zeros 32, imAmount = a, imExtraCurrencies = [], imBody = ex_code 0\<rparr>"

text \<open>A writer of any message: the signed part by its own writer, the signatures as references.\<close>

definition total_double :: "('v \<Rightarrow> bool list) \<Rightarrow> (tdata, tcell, 'v, 'v double_msg) msg_codec" where
  "total_double w = \<lparr>
     mcSigned = \<lparr>LoadFromCell = (\<lambda>_. Inl (Errorf ''unsupported'')), ToCell = (\<lambda>v. Inr (TCell (w v) []))\<rparr>,
     mcMsg = \<lparr>LoadFromCell = (\<lambda>_. Inl (Errorf ''unsupported'')),
       ToCell = (\<lambda>x. Inr (TCell (w (dmSigned x)) [TCell (byte_bits (dmSignatureA x)) [], TCell (byte_bits (dmSignatureB x)) []]))\<rparr>\<rparr>"

definition no_msg_codec :: "(tdata, tcell, 'v, 'w) msg_codec" where
  "no_msg_codec = \<lparr>mcSigned = \<lparr>LoadFromCell = (\<lambda>_. Inl (Errorf ''unsupported'')), ToCell = (\<lambda>_. Inl (Errorf ''unsupported''))\<rparr>,
     mcMsg = \<lparr>LoadFromCell = (\<lambda>_. Inl (Errorf ''unsupported'')), ToCell = (\<lambda>_. Inl (Errorf ''unsupported''))\<rparr>\<rparr>"

definition close_bits :: "CloseSigned \<Rightarrow> bool list" where
  "close_bits v = byte_bits (clChannelID v) @ nat_bits 64 (unat (clSeqno v)) @ [clFromA v]"

definition ex_client :: "(tdata, tdata, tcell, tdict) contract_env" where
  "ex_client = \<lparr>ctL = ton_cells ex_hash, ctPublic = (\<lambda>k. k), ctSign = (\<lambda>k h. ''s'' @ k @ h), ctVerify = (\<lambda>k h s. s = ''s'' @ k @ h),
     PaymentChannelCodes = [ex_code 7], ctStorage = table_codec [ex_storage True, ex_storage False],
     ctStateInit = table_codec [(ex_code 7, ex_code 0), (ex_code 7, ex_code 1)],
     ctInternal = table_codec [ex_internal 1, ex_internal 2], ctInit = no_msg_codec, ctExternal = no_msg_codec, ctOwner = no_msg_codec,
     ctCommit = no_msg_codec, ctClose = total_double close_bits, ctUncoop = no_msg_codec, ctSettle = no_msg_codec, ctFinalize = no_msg_codec,
     ctExecute = no_msg_codec, ctProxy = no_msg_codec\<rparr>"

lemma ex_client_sel [simp]:
  "ctL ex_client = ton_cells ex_hash" "ctPublic ex_client k = k" "PaymentChannelCodes ex_client = [ex_code 7]"
  "ctStorage ex_client = table_codec [ex_storage True, ex_storage False]"
  "ctStateInit ex_client = table_codec [(ex_code 7, ex_code 0), (ex_code 7, ex_code 1)]"
  "ctInternal ex_client = table_codec [ex_internal 1, ex_internal 2]" "ctClose ex_client = total_double close_bits"
  "ctSign ex_client k h = ''s'' @ k @ h" "ctVerify ex_client k h s = (s = ''s'' @ k @ h)"
  by (simp_all add: ex_client_def)

lemma ex_client_internal: "msg_codec_ok ex_client"
proof -
  have "\<exists>s. LoadFromCell (table_codec [ex_internal 1, ex_internal 2]) (BeginParse (ton_cells ex_hash) c) = Inr (im, s)"
    if "ToCell (table_codec [ex_internal 1, ex_internal 2]) im = Inr c" for im c
    using table_codec_cell [OF that] by (auto simp: table_codec_def ton_cells_def ex_code_def t_take_def bits_nat_nat_bits)
  then show ?thesis by (simp add: msg_codec_ok_def)
qed

definition ex_msgs :: "(tdict, tcell) WalletMessage list" where
  "ex_msgs = [\<lparr>wmMode = 1, wmInternal = Some (ex_internal 1)\<rparr>, \<lparr>wmMode = 3, wmInternal = Some (ex_internal 2)\<rparr>]"

lemma ex_internal_written: "ToCell (table_codec [ex_internal 1, ex_internal 2]) (ex_internal 1) = Inr (ex_code 0)"
  "ToCell (table_codec [ex_internal 1, ex_internal 2]) (ex_internal 2) = Inr (ex_code 1)"
  by (simp_all add: table_codec_def upt_conv_Cons ex_internal_def)

text \<open>A list of at most 255 messages that can be written is packed, and unpacking the result returns
  exactly the list, in its order.\<close>

lemma out_actions_roundtrip:
  assumes "cell_library (ctL E) bview sview addr_bits" "msg_codec_ok E" "length ms \<le> 255"
    "\<forall>y \<in> set ms. \<exists>im c. wmInternal y = Some im \<and> ToCell (ctInternal E) im = Inr c"
  shows "\<exists>c. PackOutActions E ms = Inr c \<and> UnpackOutActions E (Some c) = Some (Inr ms)"
  using cell_library.pack_succeeds [OF assms(1) refl assms(4,3)] cell_library.unpack_packed [OF assms(1) refl assms(2)]
  by blast

text \<open>C23: Unpacking ends on every cell a peer may send, packed or not, because the walk descends a cell of
  finite depth.\<close>

theorem unpack_terminates:
  assumes "finite_cells (ctL E) bview sview addr_bits depth"
  shows "\<exists>r. UnpackOutActions E out = Some r"
  using finite_cells.unpack_returns [OF assms refl] by (auto simp: UnpackOutActions_def split: option.splits)

theorem unpack_terminates_witness: "\<exists>r. UnpackOutActions ex_client (Some (TCell [True] [ex_code 5, ex_code 6])) = Some r"
proof (rule unpack_terminates)
  show "finite_cells (ctL ex_client) (\<lambda>b. b) (\<lambda>s. s) t_addr_bits t_depth"
    using ton_finite.finite_cells_axioms by simp
qed

section \<open>Addresses\<close>


definition ex_contract :: "bool \<Rightarrow> tcell ChannelContract" where
  "ex_contract isA = \<lparr>coStatus = ChannelStatusUninitialized, coStorage = ex_storage isA, coContractCode = ex_code 7,
     coAddress = be_put 32 (if isA then 1 else 2)\<rparr>"

lemma ex_storage_diff [simp]: "ex_storage False \<noteq> ex_storage True" "ex_storage True \<noteq> ex_storage False"
  by (simp_all add: ex_storage_def)

lemma ex_parsed: "ParseChannel ex_client 5 (be_put 32 (if isA then 1 else 2)) (ex_code 7) (ex_code (if isA then 0 else 1)) True = Inr (ex_contract isA)"
proof -
  have i: "initial_storage b (ex_storage b) = ex_storage b" for b by (simp add: initial_storage_def ex_storage_def)
  have st: "stIsA (ex_storage b) = b" "\<not> Initialized (ex_storage b)" for b by (simp_all add: ex_storage_def)
  have h: "ex_hash (ex_code 0) = be_put 32 1" "ex_hash (ex_code (Suc 0)) = be_put 32 2"
    by (simp_all add: ex_code_def bits_nat_nat_bits) (simp_all add: numeral_2_eq_2 [symmetric])
  have o: "open_cell (ex_code n) = (nat_bits 3 n, [])" for n by (simp add: ex_code_def)
  show ?thesis
    by (cases isA) (simp_all add: ParseChannel_def known_code_def tlb_Parse_def deployed_address_def i st h calcState_def ex_contract_def
      table_codec_def ton_cells_def t_take_def upt_conv_Cons o bits_nat_nat_bits)
qed


section \<open>Phases of a closure\<close>

primrec phase :: "ContractStatus \<Rightarrow> nat" where
  "phase ChannelStatusUninitialized = 0"
| "phase ChannelStatusOpen = 1"
| "phase ChannelStatusClosureStarted = 2"
| "phase ChannelStatusSettlingConditionals = 3"
| "phase ChannelStatusExecutingActions = 4"
| "phase ChannelStatusAwaitingFinalization = 5"

text \<open>Phases only advance with time while the storage stays as it is, and their ends do not overflow.\<close>

lemma phases_advance: "now \<le> later \<Longrightarrow> phase (calcState now st) \<le> phase (calcState later st)"
  by (auto simp: calcState_def Let_def split: option.splits)

section \<open>Two signatures\<close>

locale key_pairs =
  fixes E :: "('b, 's, 'c, 'm) contract_env"
  assumes verify_own: "ctVerify E (ctPublic E k) h (ctSign E k h)"
    and sign_nonempty: "ctSign E k h \<noteq> []"
begin

lemma double_signed:
  assumes "ctPublic E ka = stKeyA st" "ctPublic E kb = stKeyB st" "stKeyA st \<noteq> stKeyB st" "ToCell C v = Inr c"
  shows "prepareDoubleSignedMessage E st ka None C v =
      Inr (ctSign E ka (CellHash (ctL E) c), \<lparr>dmSignatureA = ctSign E ka (CellHash (ctL E) c), dmSignatureB = zeros 64, dmSigned = v\<rparr>)"
    and "prepareDoubleSignedMessage E st kb (Some (ctSign E ka (CellHash (ctL E) c))) C v =
      Inr (ctSign E kb (CellHash (ctL E) c), \<lparr>dmSignatureA = ctSign E ka (CellHash (ctL E) c),
        dmSignatureB = ctSign E kb (CellHash (ctL E) c), dmSigned = v\<rparr>)"
  using assms verify_own [of ka "CellHash (ctL E) c"] sign_nonempty [of ka]
  by (simp_all add: prepareDoubleSignedMessage_def toSignature_def check_their_sig_def sig_or_zero_def)

end

text \<open>
  A message is backed by both sides: both signatures verify over its signed part under the keys of the
  contract. The contract executes a cooperative message only then.
\<close>

definition backed :: "('b, 's, 'c, 'm) contract_env \<Rightarrow> ChannelStorageData \<Rightarrow> ('s, 'c, 'v) codec \<Rightarrow> 'v double_msg \<Rightarrow> bool" where
  "backed E st C msg \<longleftrightarrow> (\<exists>c. ToCell C (dmSigned msg) = Inr c \<and>
     ctVerify E (stKeyA st) (CellHash (ctL E) c) (dmSignatureA msg) \<and> ctVerify E (stKeyB st) (CellHash (ctL E) c) (dmSignatureB msg))"

text \<open>A signature of the other side that was given is verified before the message is made.\<close>

lemma double_message_backed:
  assumes "key_pairs E" "double_message E st k (Some s) C v = Inr (body, sig)" "s \<noteq> []"
  shows "\<exists>msg. backed E st (mcSigned C) msg \<and> dmSigned msg = v \<and> ToCell (mcMsg C) msg = Inr body"
proof -
  obtain msg where m: "prepareDoubleSignedMessage E st k (Some s) (mcSigned C) v = Inr (sig, msg)" "ToCell (mcMsg C) msg = Inr body"
    using assms(2) by (auto simp: double_message_def)
  have "backed E st (mcSigned C) msg \<and> dmSigned msg = v"
    using m(1) assms(3) key_pairs.verify_own [OF assms(1), of k]
    by (auto simp: prepareDoubleSignedMessage_def toSignature_def check_their_sig_def sig_or_zero_def backed_def Let_def split: if_splits)
  with m(2) show ?thesis by blast
qed


interpretation ex_keys: key_pairs ex_client
  by unfold_locales simp_all


end
