(* ===== verification/RequestLaws.thy ===== *)
theory RequestLaws
  imports Requests AgreementProps ContractLaws
begin

text \<open>
  Laws of the requests: the messages of a wallet transaction the node countersigns are covered by what
  the peer may spend, and while one is pending no other is countersigned.
\<close>

section \<open>Spending\<close>

lemma Available_onchain: "Available (Some (b\<lparr>Onchain := x\<rparr>)) = Available (Some b) - Onchain b + x"
  by (simp add: Available_def Let_def)

definition amount_of :: "(string \<times> int) list \<Rightarrow> string \<Rightarrow> int" where
  "amount_of xs i = (case map_of xs i of Some a \<Rightarrow> a | None \<Rightarrow> 0)"

lemma amount_of_add: "amount_of (add_amount i a xs) j = amount_of xs j + (if j = i then a else 0)"
  "map_of (add_amount i a xs) j \<noteq> None \<longleftrightarrow> j = i \<or> map_of xs j \<noteq> None"
  by (auto simp: amount_of_def add_amount_def update_conv split: option.splits)

text \<open>Every balance is filed under the identifier of its coin.\<close>

definition coins_keyed :: "balances \<Rightarrow> bool" where
  "coins_keyed bals \<longleftrightarrow> (\<forall>i b. bals i = Some b \<longrightarrow> BalanceID (BalCoinConfig b) = i)"

text \<open>
  The loop invariant: every balance is the initial one less the amounts and the reserves \<open>f\<close> so far, and
  a coin that was spent has no debt and, unless one was noted as short, is there on-chain.
\<close>

definition spent :: "balances \<Rightarrow> (string \<Rightarrow> int) \<Rightarrow> spending \<Rightarrow> bool" where
  "spent bals f sp \<longleftrightarrow> (\<forall>i. spBalances sp i =
      map_option (\<lambda>b. b\<lparr>Onchain := Onchain b - amount_of (spAmounts sp) i - f i\<rparr>) (bals i)) \<and>
     (\<forall>i. map_of (spAmounts sp) i \<noteq> None \<longrightarrow> (\<exists>b. spBalances sp i = Some b \<and> 0 \<le> Available (Some b) \<and>
        (spLow sp = [] \<longrightarrow> 0 \<le> Onchain b)))"

lemma spend_spent:
  assumes "spent bals f sp" "spend err i i amt r sp = Inr sp'"
  shows "spent bals (f(i := f i + r)) sp'"
proof (cases "bals i")
  case None
  with assms have "sp' = sp" by (auto simp: spend_def spent_def)
  with assms(1) None show ?thesis by (auto simp: spent_def)
next
  case (Some b0)
  define b where "b = b0\<lparr>Onchain := Onchain b0 - amount_of (spAmounts sp) i - f i\<rparr>"
  define b' where "b' = b\<lparr>Onchain := Onchain b - amt - r\<rparr>"
  have b: "spBalances sp i = Some b" using assms(1) Some by (simp add: spent_def b_def)
  with assms(2) have a: "0 \<le> Available (Some b')" and sp': "spBalances sp' = (spBalances sp)(i \<mapsto> b')"
      "spAmounts sp' = add_amount i amt (spAmounts sp)" "spLow sp' = (if Onchain b' < 0 then i # spLow sp else spLow sp)"
    by (auto simp: spend_def b'_def Let_def split: if_splits)
  show ?thesis
    unfolding spent_def
  proof (intro conjI allI impI)
    fix j
    show "spBalances sp' j = map_option (\<lambda>b. b\<lparr>Onchain := Onchain b - amount_of (spAmounts sp') j - (f(i := f i + r)) j\<rparr>) (bals j)"
      using assms(1) Some by (auto simp: spent_def sp' amount_of_add b'_def b_def)
    assume "map_of (spAmounts sp') j \<noteq> None"
    then have j: "j = i \<or> map_of (spAmounts sp) j \<noteq> None" by (simp only: sp' amount_of_add)
    show "\<exists>b. spBalances sp' j = Some b \<and> 0 \<le> Available (Some b) \<and> (spLow sp' = [] \<longrightarrow> 0 \<le> Onchain b)"
    proof (cases "j = i")
      case False
      with j assms(1) obtain b1 where "spBalances sp j = Some b1" "0 \<le> Available (Some b1)" "spLow sp = [] \<longrightarrow> 0 \<le> Onchain b1"
        unfolding spent_def by blast
      with False show ?thesis by (simp add: sp')
    qed (use a in \<open>simp add: sp'\<close>)
  qed
qed

lemma spent_0: "spent bals f sp \<Longrightarrow> spend err i i amt 0 sp = Inr sp' \<Longrightarrow> spent bals f sp'"
  using spend_spent [of bals f sp err i amt 0 sp'] by simp

lemma spend_extra_spent: "spent bals f sp \<Longrightarrow> spend_extra S Q kv sp = Inr sp' \<Longrightarrow> spent bals f sp'"
  by (auto simp: spend_extra_def Let_def intro: spent_0 split: if_splits prod.splits)

lemma spend_extras_spent: "spent bals f sp \<Longrightarrow> spend_extras S Q m sp = Inr sp' \<Longrightarrow> spent bals f sp'"
  by (auto simp: spend_extras_def intro: spend_extra_spent elim: rfold_inv split: if_splits)

lemma spend_jetton_spent:
  assumes "coins_keyed bals" "spent bals f sp" "spend_jetton S Q jettons im sp = Inr sp'"
  shows "spent bals f sp'"
proof -
  have "BalanceID (BalCoinConfig b) = i" if "spBalances sp i = Some b" for i b
    using assms(1,2) that by (auto simp: coins_keyed_def spent_def)
  with assms(2,3) show ?thesis by (auto simp: spend_jetton_def intro: spent_0 split: option.splits)
qed

text \<open>Each message takes the reserve for its fee from the toncoin balance.\<close>

definition fee_reserve :: int where
  "fee_reserve = 100000000"

lemma message_spent:
  assumes "coins_keyed bals" "spent bals f sp" "validate_message S Q jettons oa x sp = Inr sp'"
  shows "spent bals (f(GetTONBalanceID := f GetTONBalanceID + fee_reserve)) sp'"
proof -
  let ?f = "f(GetTONBalanceID := f GetTONBalanceID + fee_reserve)"
  obtain im sp1 sp2 where r: "spend ''too few available ton balance'' GetTONBalanceID GetTONBalanceID (imAmount im) fee_reserve sp = Inr sp1"
      "spend_extras S Q (imExtraCurrencies im) sp1 = Inr sp2"
      "spend_jetton S Q jettons im sp2 = Inr sp'"
    using assms(3) by (auto simp: validate_message_def fee_reserve_def split: option.splits if_splits)
  have "spent bals ?f sp1" by (rule spend_spent [OF assms(2) r(1)])
  then have "spent bals ?f sp2" by (rule spend_extras_spent [OF _ r(2)])
  then show ?thesis by (rule spend_jetton_spent [OF assms(1) _ r(3)])
qed

lemma messages_spent:
  assumes "coins_keyed bals" "spent bals f sp" "rfold (validate_message S Q jettons oa) xs sp = Inr sp'"
  shows "spent bals (f(GetTONBalanceID := f GetTONBalanceID + int (length xs) * fee_reserve)) sp'"
  using assms(2,3)
proof (induction xs arbitrary: f sp)
  case (Cons x xs)
  then obtain sp1 where r: "validate_message S Q jettons oa x sp = Inr sp1" "rfold (validate_message S Q jettons oa) xs sp1 = Inr sp'" by auto
  let ?T = GetTONBalanceID
  have "(f(?T := f ?T + fee_reserve))(?T := (f(?T := f ?T + fee_reserve)) ?T + int (length xs) * fee_reserve) =
      f(?T := f ?T + int (length (x # xs)) * fee_reserve)"
    by (rule ext) (simp add: algebra_simps)
  with Cons.IH [OF message_spent [OF assms(1) Cons.prems(1) r(1)] r(2)] show ?case by metis
qed (simp add: fun_upd_idem)

declare dbm_simps [simp del] svm_simps [simp del]

lemma validate_runs:
  assumes "validateOutMessages S Q clk ch out isTheir e = (Inr (po, low), e')"
  obtains msgs bals jettons oa sp where "UnpackOutActions (rqC Q) out = Some (Inr msgs)" "msgs \<noteq> []" "e' = e"
    "CalcBalance (svE S) (svcResolver S e) clk ch isTheir = Inr bals"
    "rfold (validate_message S Q jettons oa) msgs \<lparr>spBalances = bals, spAmounts = [], spLow = []\<rparr> = Inr sp"
    "(po, low) = (if spLow sp \<noteq> [] then (None, spLow sp)
      else (Some \<lparr>pmAmounts = spAmounts sp, CompletionBodyPrefix = [], CompletionAddress = [], LimitDepth = 4\<rparr>, []))"
  using assms by (auto simp: validateOutMessages_def calc_balance_def returning_def run_inv Let_def split: if_splits option.splits)


section \<open>One transaction at a time\<close>

lemma tx_blocked: "PendingOnchainTransfers (Their ch) \<noteq> [] \<Longrightarrow> snd (process_transaction S Q clk ch body e) = e"
  by (auto simp: process_transaction_def dbind_def dlift_def dret_def Let_def split: sum.splits)

context node
begin

lemma get_channel_reads: "snd (GetChannel (svL S) J a e) = e"
  by (auto simp: GetChannel_def get_json_def dbind_def dwrap_def dcatch_def dlift_def split: sum.splits prod.splits)

lemma active_channel: "GetActiveChannel S a e = (r, e') \<Longrightarrow> e' = e \<and> (\<forall>ch. r = Inr ch \<longrightarrow> stored_channel J (reads e) a = Some ch)"
  using get_channel_reads [of a e]
  by (cases "GetChannel (svL S) J a e")
    (auto simp: GetActiveChannel_def dbind_def dlift_def dret_def get_channel split: sum.splits if_splits)

lemma active_channel_db: "GetActiveChannel S a (OnDB d) = (Inr ch, e') \<Longrightarrow> e' = OnDB d \<and> stored_channel J (view d) a = Some ch"
  using active_channel by fastforce

lemma request_blocked:
  assumes "stored_channel J (view d) a = Some ch" "PendingOnchainTransfers (Their ch) \<noteq> []"
  shows "snd (ProcessActionRequest S Q clk key a (ExecuteTransaction body) (OnDB d)) = OnDB d"
proof -
  obtain r e where g: "GetActiveChannel S a (OnDB d) = (r, e)" by fastforce
  from active_channel [OF this] assms(1) have "e = OnDB d" "r = Inr ch \<or> (\<exists>err. r = Inl err)" by (cases r; auto)+
  with g tx_blocked [OF assms(2)] show ?thesis
    by (auto simp: ProcessActionRequest_def dbind_def dwrap_def dlift_def)
qed

lemma transaction_fresh:
  assumes "process_transaction S Q clk ch body e0 = (Inr r, e')" "PendingOnchainTransfers (Their ch) = []"
  obtains req :: "'c ExternalSigned double_msg" and po msg e where "check_transaction (clk 0) ch (dmSigned req) = Inr ()"
    "validateOutMessages S Q (\<lambda>i. clk (i + 4)) ch (esOutActions (dmSigned req)) True e0 = (Inr (po, []), e)"
    "store_transaction S clk ch (esWalletSeqno (dmSigned req)) po msg e = (Inr r, e')"
  using assms by (auto simp: process_transaction_def run_inv Let_def simp del: One_nat_def split: if_splits)

lemma transaction_stored:
  assumes "process_transaction S Q clk ch body (OnDB d) = (Inr r, e')"
  shows "PendingOnchainTransfers (Their ch) \<noteq> [] \<and> e' = OnDB d \<or>
    (\<exists>d' data p. e' = OnDB d' \<and>
      Marshal J (ch\<lparr>Their := (Their ch)\<lparr>PendingOnchainTransfers := [(pendingIDWallet (LatestWalletSeqno (Their ch)), p)]\<rparr>, DBVersion := clk 1\<rparr>) = Inr data \<and>
      (\<forall>a. map_of (view d') (channel_key a) = (if a = sdAddress (Our ch) then Some data else map_of (view d) (channel_key a))))"
proof (cases "PendingOnchainTransfers (Their ch) = []")
  case False
  with assms tx_blocked [OF False, of S Q clk body "OnDB d"] show ?thesis by simp
next
  case True
  obtain req :: "'c ExternalSigned double_msg" and po msg e where r: "check_transaction (clk 0) ch (dmSigned req) = Inr ()"
      "validateOutMessages S Q (\<lambda>i. clk (i + 4)) ch (esOutActions (dmSigned req)) True (OnDB d) = (Inr (po, []), e)"
      "store_transaction S clk ch (esWalletSeqno (dmSigned req)) po msg e = (Inr r, e')"
    by (rule transaction_fresh [OF assms True])
  obtain p where p: "e = OnDB d" "po = Some p"
    by (rule validate_runs [OF r(2)]) (auto split: if_splits)
  have seq: "esWalletSeqno (dmSigned req) = LatestWalletSeqno (Their ch)"
    using r(1) by (auto simp: check_transaction_def split: if_splits)
  define k where "k = pendingIDWallet (LatestWalletSeqno (Their ch))"
  define c where "c = ch\<lparr>Their := (Their ch)\<lparr>PendingOnchainTransfers := [(k, p)]\<rparr>\<rparr>"
  have "ch\<lparr>Their := add_pending k (Some p) (Their ch)\<rparr> = c" using True by (simp add: add_pending_def c_def)
  then have t: "Transaction (svL S) (dbind (dwrap ''failed to update channel'' (UpdateChannel (svL S) J (svOnChannel S) (clk 1) c)) (\<lambda>_.
      dbind (dwrap ''failed to create execute task'' (create_task S (clk 2) (clk 3) ''exec-tx-external'' (sdAddress (Our ch) @ ''-ext-snd'')
       (''exec-tx-external-'' @ sdAddress (Their ch) @ ''-seq-'' @ nat_text (unat (LatestWalletSeqno (Their ch))))
       (ExecuteExternalTxTask (sdAddress (Our ch)) False msg (LatestWalletSeqno (Their ch))) None None)) (\<lambda>_. dret []))) (OnDB d) = (Inr r, e')"
    using r(3) by (simp only: store_transaction_def update_channel_def dwrap_Inr p seq k_def [symmetric])
  obtain d' data where "e' = OnDB d'" "Marshal J (c\<lparr>DBVersion := clk 1\<rparr>) = Inr data"
      "\<forall>a. map_of (view d') (channel_key a) = (if a = sdAddress (Our c) then Some data else map_of (view d) (channel_key a))"
    using commit_update [OF t] by (auto intro: touch)
  then show ?thesis by (auto simp: c_def k_def)
qed

end

text \<open>C19: While a double signed wallet transaction of the peer is pending the node countersigns no other: after
  an accepted request the channel holds a pending transfer, and any further request, whatever its body, leaves
  the store as it is until the transfer is taken off.\<close>

theorem one_transaction_pending:
  assumes "signing_node S view sview snap" "stored_channel (svChannelJ S) (view d) addr = Some ch" "sdAddress (Our ch) = addr"
    "ProcessActionRequest S Q clk key addr (ExecuteTransaction body) (OnDB d) = (Inr r, e')"
  shows "\<exists>d' ch'. e' = OnDB d' \<and> stored_channel (svChannelJ S) (view d') addr = Some ch' \<and> PendingOnchainTransfers (Their ch') \<noteq> [] \<and>
    (\<forall>clk2 key2 body2. snd (ProcessActionRequest S Q clk2 key2 addr (ExecuteTransaction body2) (OnDB d')) = OnDB d')"
proof -
  have n: "node S view sview snap" using assms(1) by (rule signing_node.axioms)
  obtain c e where g: "GetActiveChannel S addr (OnDB d) = (Inr c, e)" "process_transaction S Q clk c body e = (Inr r, e')"
    using assms(4) by (auto simp: ProcessActionRequest_def run_inv split: if_splits)
  with node.active_channel_db [OF n g(1)] assms(2) have run: "process_transaction S Q clk ch body (OnDB d) = (Inr r, e')" by auto
  obtain d' ch' where d': "e' = OnDB d'" "stored_channel (svChannelJ S) (view d') addr = Some ch'" "PendingOnchainTransfers (Their ch') \<noteq> []"
    using node.transaction_stored [OF n run] assms(2,3) signing_node.stored_written [OF assms(1)] by fastforce
  with node.request_blocked [OF n d'(2,3)] show ?thesis by blast
qed

section \<open>Samples\<close>

text \<open>A node whose peer asks to send one toncoin message; the channel before and after.\<close>

definition ex_rich_side :: "bool \<Rightarrow> tdict Side" where
  "ex_rich_side left = (ex_node_side left)\<lparr>OnchainBalances := [(GetTONBalanceID, 300000000)], PendingOnchainTransfers := []\<rparr>"

definition ex_agreed_channel :: "(tdict, tcell) Channel" where
  "ex_agreed_channel = (ex_node_channel True)\<lparr>SignedState := Some (ex_code 1), Our := ex_rich_side True, Their := ex_rich_side False\<rparr>"

definition ex_transfer :: PendingMessageInfo where
  "ex_transfer = \<lparr>pmAmounts = [(GetTONBalanceID, 1)], CompletionBodyPrefix = [], CompletionAddress = [], LimitDepth = 4\<rparr>"

definition ex_pending_channel :: "(tdict, tcell) Channel" where
  "ex_pending_channel = ex_agreed_channel\<lparr>Their := (ex_rich_side False)\<lparr>PendingOnchainTransfers := [(pendingIDWallet 0, ex_transfer)]\<rparr>, DBVersion := 5\<rparr>"

definition ex_out :: tcell where
  "ex_out = TCell (nat_bits 32 0x0ec3c86d @ nat_bits 8 1) [TCell [] [], ex_code 0]"

definition ex_tx :: "bool \<Rightarrow> tcell ExternalSigned double_msg" where
  "ex_tx both = \<lparr>dmSignatureA = (if both then ex_pub True @ be_put 32 1 else zeros 64), dmSignatureB = ex_pub False @ be_put 32 1,
     dmSigned = \<lparr>esChannelID = zeros 16, esSideA = False, esValidUntil = 200, esWalletSeqno = 0, esOutActions = Some ex_out\<rparr>\<rparr>"

definition ex_req_env :: "(tdata, tdata, tcell, tdict) req_env" where
  "ex_req_env = \<lparr>rqC = ex_client\<lparr>ctExternal := \<lparr>mcSigned = table_codec [dmSigned (ex_tx True)], mcMsg = table_codec [ex_tx False, ex_tx True]\<rparr>\<rparr>,
     rqTransfer = no_codec, rqBurn = no_codec, rqVarUInt = (\<lambda>_ _. Inl (Errorf ''unsupported''))\<rparr>"

definition ex_req_svc :: "(tdata, tdata, tcell, tdict, mem, msnap, unit) svc" where
  "ex_req_svc = (ex_svc True)\<lparr>svChannelJ := table_json [ex_agreed_channel, ex_pending_channel], svKnown := [(GetTONBalanceID, ex_coin)],
     svParseAddr := (\<lambda>a. Inr a)\<rparr>"

lemma ex_req_svc_sel [simp]:
  "svL ex_req_svc = mem_db" "svE ex_req_svc = ex_node_env" "svOnChannel ex_req_svc = None" "svPub ex_req_svc = ex_pub True"
  "svSign ex_req_svc = (\<lambda>k m. k @ m)" "svKey ex_req_svc = ex_pub True" "svKnown ex_req_svc = [(GetTONBalanceID, ex_coin)]"
  "svChannelJ ex_req_svc = table_json [ex_agreed_channel, ex_pending_channel]" "svParseAddr ex_req_svc = (\<lambda>a. Inr a)"
  "svPayload ex_req_svc = (\<lambda>_. Inr [])" "svTaskJ ex_req_svc = any_json" "svWebhook ex_req_svc = None" "svOnHistory ex_req_svc = None"
  by (simp_all add: ex_req_svc_def) (simp_all add: ex_svc_def)

interpretation ex_req: signing_node ex_req_svc mem_view msnap_view Snap
proof (intro signing_node.intro node.intro signing_node_axioms.intro node_axioms.intro)
  show "leveldb_laws (svL ex_req_svc) mem_view msnap_view Snap" using mem.leveldb_laws_axioms by simp
qed (simp_all add: table_json_rt table_codec_rt)

lemma ex_req_client [simp]: "ctL (rqC ex_req_env) = ton_cells ex_hash" "ctInternal (rqC ex_req_env) = table_codec [ex_internal 1, ex_internal 2]"
  "mcSigned (ctExternal (rqC ex_req_env)) = table_codec [dmSigned (ex_tx True)]"
  "mcMsg (ctExternal (rqC ex_req_env)) = table_codec [ex_tx False, ex_tx True]"
  by (simp_all add: ex_req_env_def)

lemma ex_out_unpacked: "UnpackOutActions (rqC ex_req_env) (Some ex_out) = Some (Inr [\<lparr>wmMode = 1, wmInternal = Some (ex_internal 1)\<rparr>])"
proof (rule ton.unpack_packed)
  show "msg_codec_ok (rqC ex_req_env)" using ex_client_internal by (simp add: msg_codec_ok_def)
  show "PackOutActions (rqC ex_req_env) [\<lparr>wmMode = 1, wmInternal = Some (ex_internal 1)\<rparr>] = Inr ex_out"
    by (simp add: PackOutActions_def validateMessageFields_def pack_node_def ex_internal_written build_def end_cell_def st_ref_def st_builder_def
      st_uint_def ex_out_def ton_cells_def t_append_def cat_def close_cell_def del: One_nat_def)
qed simp

declare dbm_simps [simp] svm_simps [simp]

lemma ex_req_balance: "CalcBalance ex_node_env (svcResolver ex_req_svc e) clk ex_agreed_channel True = Inr [GetTONBalanceID \<mapsto> ex_bal 300000000]"
  by (simp add: CalcBalance_def svcResolver_def ex_agreed_channel_def ex_rich_side_def ex_node_side_def ex_side_def known_balances_def set_onchain_def
      ton_dict_def at_times_def ex_bal_def)

lemma ex_rich_sel [simp]: "sdAddress (ex_rich_side left) = (if left then ''a'' else ''b'')" "LatestWalletSeqno (ex_rich_side left) = 0"
  "OnchainKey (ex_rich_side left) = ex_pub left" "PendingOnchainTransfers (ex_rich_side left) = []"
  by (simp_all add: ex_rich_side_def ex_node_side_def) (simp_all add: ex_side_def)

lemma ex_agreed_sel [simp]: "Our ex_agreed_channel = ex_rich_side True" "Their ex_agreed_channel = ex_rich_side False"
  "chID ex_agreed_channel = zeros 16" "WeLeft ex_agreed_channel" "chStatus ex_agreed_channel = ChannelStateActive"
  "AcceptingActions ex_agreed_channel" "SignedState ex_agreed_channel = Some (ex_code 1)" "DBVersion ex_agreed_channel = 1"
  by (simp_all add: ex_agreed_channel_def)

lemma ex_validated: "validateOutMessages ex_req_svc ex_req_env clk ex_agreed_channel (Some ex_out) True (OnDB d) = (Inr (Some ex_transfer, []), OnDB d)"
proof -
  have z: "zeros 32 \<noteq> ''a''" by (auto dest!: arg_cong [where f = length])
  have "validate_message ex_req_svc ex_req_env Map.empty ''a'' \<lparr>wmMode = 1, wmInternal = Some (ex_internal 1)\<rparr>
      \<lparr>spBalances = [GetTONBalanceID \<mapsto> ex_bal 300000000], spAmounts = [], spLow = []\<rparr> =
    Inr \<lparr>spBalances = [GetTONBalanceID \<mapsto> ex_bal 199999999], spAmounts = [(GetTONBalanceID, 1)], spLow = []\<rparr>"
    by (simp add: validate_message_def ex_internal_def z spend_def Available_def add_amount_def spend_extras_def spend_jetton_def ton_dict_def ex_bal_def
      NewBalanceInfo_def)
  then show ?thesis
    by (simp add: validateOutMessages_def ex_out_unpacked returning_def calc_balance_def ex_req_balance MustParseAddr_def add_wallet_def ex_transfer_def
      dask_def ex_bal_def NewBalanceInfo_def)
qed


lemma ex_req_stored: "stored_channel (table_json [ex_agreed_channel, ex_pending_channel]) (mem_view (ex_node_db True)) ''a'' = Some ex_agreed_channel"
  by (simp add: stored_channel_def ex_node_db_def mem_view_def table_json_def)

lemma ex_req_active: "GetActiveChannel ex_req_svc ''a'' (OnDB (ex_node_db True)) = (Inr ex_agreed_channel, OnDB (ex_node_db True))"
proof -
  have "LoadState (ton_cells ex_hash) (table_codec ex_states) (ex_code (Suc 0)) = Inr ex_agreed"
    using table_codec_rt [of ex_hash ex_states] unfolding codec_rt_def by simp
  then have "LoadSignedState ex_node_env ex_agreed_channel = Inr ex_agreed" by (simp add: LoadSignedState_def)
  then show ?thesis by (simp add: GetActiveChannel_def ex_req_stored StateBodySigned_IsEmpty_def ex_agreed_def ex_sig_def)
qed

lemma ex_store: "\<exists>d'. store_transaction ex_req_svc clk ex_agreed_channel 0 (Some ex_transfer) msg (OnDB (ex_node_db True)) = (Inr [], OnDB d')"
  if "clk 1 = 5"
proof -
  let ?d = "ex_node_db True"
  have c: "ex_agreed_channel\<lparr>Their := add_pending (pendingIDWallet 0) (Some ex_transfer) (ex_rich_side False), DBVersion := 5\<rparr> = ex_pending_channel"
    by (simp add: ex_pending_channel_def add_pending_def)
  have n: "ex_agreed_channel \<noteq> ex_pending_channel"
  proof
    assume "ex_agreed_channel = ex_pending_channel"
    then have "DBVersion ex_agreed_channel = DBVersion ex_pending_channel" by (rule arg_cong)
    then show False by (simp add: ex_pending_channel_def)
  qed
  have u: "UpdateChannel mem_db (table_json [ex_agreed_channel, ex_pending_channel]) None 5
      (ex_agreed_channel\<lparr>Their := add_pending (pendingIDWallet 0) (Some ex_transfer) (ex_rich_side False)\<rparr>) (OnTx ?d (Snap ?d) []) =
      (Inr ex_pending_channel, OnTx ?d (Snap ?d) [BPut (channel_key ''a'') ''1''])"
    using n ex_req_stored by (simp add: UpdateChannel_def Let_def c run_cb_def table_json_def upt_conv_Cons)
  have t: "\<exists>b'. createTask mem_db any_json task pool (OnTx ?d (Snap ?d) b) = (Inr (), OnTx ?d (Snap ?d) b') \<or>
      createTask mem_db any_json task pool (OnTx ?d (Snap ?d) b) = (Inl DbErrAlreadyExists, OnTx ?d (Snap ?d) b')" for task pool b
    by (simp add: createTask_def any_json_def)
  have k: "\<exists>b'. create_task ex_req_svc n1 n2 ty q i pl af ti (OnTx ?d (Snap ?d) b) = (Inr (), OnTx ?d (Snap ?d) b')" for n1 n2 ty q i pl af ti b
    using t [of "new_task n1 n2 ty q i [] af ti" "''pn''" b] by (auto simp: create_task_def CreateTask_def)
  obtain b' where "create_task ex_req_svc (clk 2) (clk 3) ''exec-tx-external'' ''a-ext-snd'' (''exec-tx-external-b-seq-'' @ nat_text 0)
      (ExecuteExternalTxTask ''a'' False msg 0) None None (OnTx ?d (Snap ?d) [BPut (channel_key ''a'') ''1'']) = (Inr (), OnTx ?d (Snap ?d) b')"
    using k by blast
  then show ?thesis using that u by (simp add: store_transaction_def update_channel_def)
qed

lemma ex_request: "\<exists>d'. ProcessActionRequest ex_req_svc ex_req_env (\<lambda>i. if i = 1 then 5 else 0) (ex_pub False) ''a'' (ExecuteTransaction (ex_code 0))
    (OnDB (ex_node_db True)) = (Inr [], OnDB d')"
proof -
  have p: "tlb_Parse (ton_cells ex_hash) (table_codec [ex_tx False, ex_tx True]) (ex_code 0) = Inr (ex_tx False)"
    by (simp add: tlb_Parse_def table_codec_def ton_cells_def ex_code_def t_take_def bits_nat_nat_bits)
  have c: "check_transaction 0 ex_agreed_channel (dmSigned (ex_tx False)) = Inr ()"
    by (simp add: check_transaction_def ex_tx_def unix_def unix_of_def)
  have tx: "dmSigned (ex_tx True) = dmSigned (ex_tx False)" "dmSignatureB (ex_tx False) = ex_pub False @ be_put 32 1"
    "esOutActions (dmSigned (ex_tx False)) = Some ex_out" "esWalletSeqno (dmSigned (ex_tx False)) = 0"
    by (simp_all add: ex_tx_def)
  have w: "ToCell (table_codec [dmSigned (ex_tx False)]) (dmSigned (ex_tx False)) = Inr (ex_code 0)"
    by (simp add: table_codec_def)
  have h: "CellHash (ton_cells ex_hash) (ex_code 0) = be_put 32 1"
    by (simp add: ton_cells_def ex_code_def bits_nat_nat_bits)
  have sg: "sign_transaction ex_req_svc True (ex_code 0) (ex_tx False) = ex_tx True"
    by (simp add: sign_transaction_def h) (simp add: ex_tx_def)
  have "ex_tx False \<noteq> ex_tx True" by (simp add: ex_tx_def)
  then have m: "ToCell (table_codec [ex_tx False, ex_tx True]) (ex_tx True) = Inr (ex_code 1)"
    by (simp add: table_codec_def upt_conv_Cons)
  show ?thesis
    using ex_store [of "\<lambda>i. if i = 1 then 5 else 0" "ex_code 1"]
    by (simp add: ProcessActionRequest_def ex_req_active process_transaction_def p c tx w h sg m ex_validated)
qed

theorem one_transaction_pending_witness:
  "\<exists>d' ch'. stored_channel (svChannelJ ex_req_svc) (mem_view d') ''a'' = Some ch' \<and> PendingOnchainTransfers (Their ch') \<noteq> [] \<and>
    (\<forall>clk2 key2 body2. snd (ProcessActionRequest ex_req_svc ex_req_env clk2 key2 ''a'' (ExecuteTransaction body2) (OnDB d')) = OnDB d')"
proof -
  obtain d' where "ProcessActionRequest ex_req_svc ex_req_env (\<lambda>i. if i = 1 then 5 else 0) (ex_pub False) ''a'' (ExecuteTransaction (ex_code 0))
    (OnDB (ex_node_db True)) = (Inr [], OnDB d')" using ex_request by blast
  from one_transaction_pending [OF ex_req.signing_node_axioms _ _ this] ex_req_stored show ?thesis by auto
qed

end
