(* ===== verification/ChainLaws.thy ===== *)
theory ChainLaws
  imports ChainUpdates RequestLaws
begin

text \<open>
  The event loop of the service against the chain: a side update refines an abstract channel lifecycle, the
  tasks of a closure fall into the phases the contract is in at their time, a repeated transaction is ignored,
  a state the other side enforced without answering is recovered, and every stored channel stays covered by
  a state of both sides.
\<close>

declare dbm_simps [simp del] svm_simps [simp del]

section \<open>Lifecycle\<close>

text \<open>What other components see of a channel's life.\<close>

record lifecycle =
  lcStatus :: ChannelStatus
  lcAccepting :: bool
  lcScheduled :: bool
  lcOur :: bool
  lcTheir :: bool

definition lifecycle_of :: "('m, 'c) Channel \<Rightarrow> lifecycle" where
  "lifecycle_of ch = \<lparr>lcStatus = chStatus ch, lcAccepting = AcceptingActions ch, lcScheduled = UncoopCloseStarted ch,
     lcOur = ActiveOnchain (Our ch), lcTheir = ActiveOnchain (Their ch)\<rparr>"

definition closing_status :: "ContractStatus \<Rightarrow> bool" where
  "closing_status st \<longleftrightarrow> st \<noteq> ChannelStatusOpen \<and> st \<noteq> ChannelStatusUninitialized"

text \<open>
  The specification, one rule per event: our contract opens the channel and closes it, a closure of
  either contract stops the actions for good, and only a closure of ours schedules its phases.
\<close>

inductive lifecycle_step :: "bool \<Rightarrow> ContractStatus \<Rightarrow> lifecycle \<Rightarrow> lifecycle \<Rightarrow> bool" where
  our_open: "lifecycle_step True ChannelStatusOpen l (l\<lparr>lcStatus := ChannelStateActive, lcOur := True\<rparr>)"
| their_open: "lifecycle_step False ChannelStatusOpen l (l\<lparr>lcTheir := True\<rparr>)"
| our_closing: "closing_status st \<Longrightarrow> lifecycle_step True st l (l\<lparr>lcStatus :=
     (if lcStatus l = ChannelStateActive then ChannelStateClosing else lcStatus l), lcAccepting := False, lcScheduled := True, lcOur := True\<rparr>)"
| their_closing: "closing_status st \<Longrightarrow> lifecycle_step False st l (l\<lparr>lcStatus :=
     (if lcStatus l = ChannelStateActive then ChannelStateClosing else lcStatus l), lcAccepting := False, lcTheir := True\<rparr>)"
| our_closed: "lifecycle_step True ChannelStatusUninitialized l (l\<lparr>lcStatus := ChannelStateInactive, lcAccepting := False, lcOur := False\<rparr>)"
| their_closed: "lifecycle_step False ChannelStatusUninitialized l (l\<lparr>lcAccepting := False, lcTheir := False\<rparr>)"

inductive_simps lifecycle_step_open [simp]: "lifecycle_step isOur ChannelStatusOpen l l'"
inductive_simps lifecycle_step_closed [simp]: "lifecycle_step isOur ChannelStatusUninitialized l l'"

inductive lifecycle_run :: "(bool \<times> ContractStatus) list \<Rightarrow> lifecycle \<Rightarrow> lifecycle \<Rightarrow> bool" where
  run_none: "lifecycle_run [] l l"
| run_step: "lifecycle_step isOur st l l1 \<Longrightarrow> lifecycle_run evs l1 l2 \<Longrightarrow> lifecycle_run ((isOur, st) # evs) l l2"

text \<open>A channel that is closing, or whose closure is scheduled, takes no actions.\<close>

definition lifecycle_ok :: "lifecycle \<Rightarrow> bool" where
  "lifecycle_ok l \<longleftrightarrow> (lcStatus l = ChannelStateClosing \<or> lcScheduled l \<longrightarrow> \<not> lcAccepting l)"

lemma lifecycle_step_ok: "lifecycle_step isOur st l l' \<Longrightarrow> lifecycle_ok l \<Longrightarrow> lifecycle_ok l'"
  by (induction rule: lifecycle_step.induct) (auto simp: lifecycle_ok_def)

lemma lifecycle_run_ok: "lifecycle_run evs l l' \<Longrightarrow> lifecycle_ok l \<Longrightarrow> lifecycle_ok l'"
  by (induction rule: lifecycle_run.induct) (auto dest: lifecycle_step_ok)

text \<open>\<open>keeps f\<close>: the channel \<open>f\<close> returns differs from the given one only in what a side update sets.\<close>

definition same_agreement :: "('m, 'c) Channel \<Rightarrow> ('m, 'c) Channel \<Rightarrow> bool" where
  "same_agreement ch ch' \<longleftrightarrow> SignedState ch' = SignedState ch \<and> WeLeft ch' = WeLeft ch \<and> chID ch' = chID ch \<and>
     sdAddress (Our ch') = sdAddress (Our ch) \<and> OnchainKey (Our ch') = OnchainKey (Our ch) \<and> sdData (Our ch') = sdData (Our ch) \<and>
     sdAddress (Their ch') = sdAddress (Their ch) \<and> OnchainKey (Their ch') = OnchainKey (Their ch) \<and> sdData (Their ch') = sdData (Their ch)"

lemma activity_step:
  assumes "side_activity S isOur upd ch e = (Inr ch', e')"
  shows "same_agreement ch ch'" "lifecycle_of ch' = (let l = lifecycle_of ch; live = (up_status upd \<noteq> ChannelStatusUninitialized);
    l = (if isOur then l\<lparr>lcOur := live\<rparr> else l\<lparr>lcTheir := live\<rparr>) in
    if up_status upd = ChannelStatusOpen then l else l\<lparr>lcAccepting := False,
      lcStatus := (if live \<and> lcStatus l = ChannelStateActive then ChannelStateClosing else lcStatus l)\<rparr>)"
  using assms by (auto simp: side_activity_def Let_def run_inv on_side_def same_agreement_def lifecycle_of_def split: if_splits)

lemma phases_step:
  "phase_finalize S clk q cc ch e = (Inr ch', e') \<Longrightarrow> ch' = ch\<lparr>UncoopCloseStarted := True\<rparr>"
  "phase_execute S clk q cc ch e = (Inr ch', e') \<Longrightarrow> ch' = ch\<lparr>UncoopCloseStarted := True\<rparr>"
  "phase_settle S clk q cc ch e = (Inr ch', e') \<Longrightarrow> ch' = ch\<lparr>UncoopCloseStarted := True\<rparr>"
  "phase_closure S clk q cc ch e = (Inr ch', e') \<Longrightarrow> ch' = ch\<lparr>UncoopCloseStarted := True\<rparr>"
proof -
  show f: "phase_finalize S clk q cc ch e = (Inr ch', e') \<Longrightarrow> ch' = ch\<lparr>UncoopCloseStarted := True\<rparr>" for e
    by (auto simp: phase_finalize_def run_inv split: if_splits)
  show x: "phase_execute S clk q cc ch e = (Inr ch', e') \<Longrightarrow> ch' = ch\<lparr>UncoopCloseStarted := True\<rparr>" for e
    by (auto simp: phase_execute_def run_inv split: if_splits dest: f)
  show s: "phase_settle S clk q cc ch e = (Inr ch', e') \<Longrightarrow> ch' = ch\<lparr>UncoopCloseStarted := True\<rparr>" for e
    by (auto simp: phase_settle_def run_inv split: if_splits dest: x)
  show "phase_closure S clk q cc ch e = (Inr ch', e') \<Longrightarrow> ch' = ch\<lparr>UncoopCloseStarted := True\<rparr>"
    by (auto simp: phase_closure_def run_inv split: if_splits dest: s)
qed

lemma phase_step:
  assumes "our_phase S clk upd ch e = (Inr ch', e')"
  shows "ch' = (case up_status upd of ChannelStatusOpen \<Rightarrow> ch\<lparr>chStatus := ChannelStateActive\<rparr>
    | ChannelStatusUninitialized \<Rightarrow> ch\<lparr>chStatus := ChannelStateInactive\<rparr> | _ \<Rightarrow> ch\<lparr>UncoopCloseStarted := True\<rparr>)"
  using assms by (auto simp: our_phase_def Let_def run_inv split: ContractStatus.splits if_splits option.splits dest: phases_step)

lemma track_step:
  assumes "track_transfers S clk isOur upd ch e = (Inr ch', e')"
  shows "ch' = ch \<or> ch' = ch\<lparr>chPendingCommit := None\<rparr>"
  using assms by (auto simp: track_transfers_def Let_def run_inv split: if_splits)

lemma side_update_steps:
  assumes "processSideUpdate S clk isOur upd ch e = (Inr ch', e')"
  obtains ch1 ch2 e1 e2 where "side_activity S isOur upd ch e = (Inr ch1, e1)"
    "(if isOur then our_phase S clk upd ch1 else dret ch1) e1 = (Inr ch2, e2)"
    "ch' = on_side isOur (record_update upd) ch2 \<or> ch' = on_side isOur (record_update upd) (ch2\<lparr>chPendingCommit := None\<rparr>)"
proof -
  obtain ch1 ch2 ch3 e1 e2 where r: "side_activity S isOur upd ch e = (Inr ch1, e1)"
    "(if isOur then our_phase S clk upd ch1 else dret ch1) e1 = (Inr ch2, e2)"
    "track_transfers S clk isOur upd ch2 e2 = (Inr ch3, e')" "ch' = on_side isOur (record_update upd) ch3"
    using assms by (auto simp: processSideUpdate_def run_inv)
  with that [OF r(1,2)] track_step [OF r(3)] show thesis by auto
qed

lemma record_fields [simp]:
  "ActiveOnchain (record_update upd sd) = ActiveOnchain sd" "sdAddress (record_update upd sd) = sdAddress sd"
  "OnchainKey (record_update upd sd) = OnchainKey sd" "sdData (record_update upd sd) = sdData sd"
  by (simp_all add: record_update_def Let_def)

lemma side_update_agreement:
  assumes "processSideUpdate S clk isOur upd ch e = (Inr ch', e')"
  shows "same_agreement ch ch'"
proof -
  obtain ch1 ch2 e1 e2 where r: "side_activity S isOur upd ch e = (Inr ch1, e1)"
      "(if isOur then our_phase S clk upd ch1 else dret ch1) e1 = (Inr ch2, e2)"
      "ch' = on_side isOur (record_update upd) ch2 \<or> ch' = on_side isOur (record_update upd) (ch2\<lparr>chPendingCommit := None\<rparr>)"
    by (rule side_update_steps [OF assms])
  have "same_agreement ch1 ch2"
    using r(2) by (auto simp: run_inv same_agreement_def dest!: phase_step split: if_splits ContractStatus.splits)
  with activity_step(1) [OF r(1)] r(3) show ?thesis by (cases isOur) (auto simp: same_agreement_def on_side_def)
qed

lemma side_update_lifecycle:
  assumes "processSideUpdate S clk isOur upd ch e = (Inr ch', e')"
  shows "lifecycle_step isOur (up_status upd) (lifecycle_of ch) (lifecycle_of ch')"
proof -
  obtain ch1 ch2 e1 e2 where r: "side_activity S isOur upd ch e = (Inr ch1, e1)"
      "(if isOur then our_phase S clk upd ch1 else dret ch1) e1 = (Inr ch2, e2)"
      "ch' = on_side isOur (record_update upd) ch2 \<or> ch' = on_side isOur (record_update upd) (ch2\<lparr>chPendingCommit := None\<rparr>)"
    by (rule side_update_steps [OF assms])
  have l: "lifecycle_of ch' = lifecycle_of ch2" using r(3) by (cases isOur) (auto simp: lifecycle_of_def on_side_def)
  note a = activity_step(2) [OF r(1)]
  have "lifecycle_of ch2 = (if \<not> isOur then lifecycle_of ch1 else case up_status upd of
      ChannelStatusOpen \<Rightarrow> (lifecycle_of ch1)\<lparr>lcStatus := ChannelStateActive\<rparr>
    | ChannelStatusUninitialized \<Rightarrow> (lifecycle_of ch1)\<lparr>lcStatus := ChannelStateInactive\<rparr>
    | _ \<Rightarrow> (lifecycle_of ch1)\<lparr>lcScheduled := True\<rparr>)"
    using r(2) by (auto simp: run_inv lifecycle_of_def dest!: phase_step split: if_splits ContractStatus.splits)
  with a l show ?thesis
    by (cases "up_status upd"; cases isOur)
      (auto simp: Let_def lifecycle_step.simps closing_status_def)
qed

primrec side_updates ::
  "('b, 's, 'c, 'm, 'd, 't, 'j) svc \<Rightarrow> (nat \<Rightarrow> nat \<Rightarrow> gtime) \<Rightarrow> (bool \<times> 'c ChannelUpdatedEvent) list \<Rightarrow> ('m, 'c) Channel \<Rightarrow>
   ('d, 't, ('m, 'c) Channel) dbm" where
  "side_updates S clk [] ch = dret ch"
| "side_updates S clk (u # us) ch = dbind (processSideUpdate S (clk (length us)) (fst u) (snd u) ch) (\<lambda>ch. side_updates S clk us ch)"

text \<open>C12: The service implements the lifecycle of a channel: every sequence of side updates that it processes
  is, in what it leaves of the channel, a run of the specification over the statuses the contracts had. So a
  channel that is closing or scheduled for closing never takes actions again.\<close>

theorem lifecycle_refined:
  assumes "side_updates S clk us ch e = (Inr ch', e')"
  shows "lifecycle_run (map (\<lambda>(isOur, upd). (isOur, up_status upd)) us) (lifecycle_of ch) (lifecycle_of ch') \<and>
    (lifecycle_ok (lifecycle_of ch) \<longrightarrow> lifecycle_ok (lifecycle_of ch'))"
proof -
  have "lifecycle_run (map (\<lambda>(isOur, upd). (isOur, up_status upd)) us) (lifecycle_of ch) (lifecycle_of ch')"
    using assms
  proof (induction us arbitrary: ch e)
    case Nil
    then show ?case by (simp add: run_inv lifecycle_run.intros)
  next
    case (Cons u us)
    then obtain ch1 e1 where "processSideUpdate S (clk (length us)) (fst u) (snd u) ch e = (Inr ch1, e1)"
      "side_updates S clk us ch1 e1 = (Inr ch', e')" by (auto simp: run_inv)
    with Cons.IH show ?case
      by (cases u) (auto intro!: run_step side_update_lifecycle)
  qed
  then show ?thesis using lifecycle_run_ok by blast
qed

section \<open>Closing phases\<close>

text \<open>No sum of the times of a closure reaches \<open>2 ^ 32\<close>, and every phase outlasts the margins of its tasks.\<close>

definition closure_fits :: "QuarantinedState \<Rightarrow> ClosingConfig \<Rightarrow> bool" where
  "closure_fits q cc \<longleftrightarrow> uint (QuarantineStarts q) + uint (QuarantineDuration cc) + uint (ConditionalCloseDuration cc) +
     uint (ActionsDuration cc) + 5 < 2 ^ 32 \<and> 3 < uint (ConditionalCloseDuration cc) \<and> 3 < uint (ActionsDuration cc)"

lemma uint32_plus: "uint (a :: uint32) + uint b < 2 ^ 32 \<Longrightarrow> uint (a + b) = uint a + uint b"
  by (simp add: uint_plus_if')

lemma phase_seconds:
  assumes "closure_fits q cc"
  shows "settleAt q cc = unix (uint (QuarantineStarts q) + uint (QuarantineDuration cc) + 3)"
    "executeAt q cc = unix (uint (QuarantineStarts q) + uint (QuarantineDuration cc) + uint (ConditionalCloseDuration cc) + 3)"
    "finalizeAt q cc = unix (uint (QuarantineStarts q) + uint (QuarantineDuration cc) + uint (ConditionalCloseDuration cc) + uint (ActionsDuration cc) + 5)"
  using assms by (auto simp: settleAt_def executeAt_def finalizeAt_def closure_fits_def uint32_plus)

text \<open>C15: The tasks of a closure come due in the phase of the contract they are meant for, as long as the 32-bit
  sums do not wrap: settling starts in the settling phase, executing in the execution phase, finalising after both,
  and a settling or executing task is given up only once its phase is over.\<close>

theorem closing_tasks_in_phase:
  assumes "Initialized st" "Quarantine st = Some q" "qsTheirState q \<noteq> None" "closure_fits q (stClosingConfig st)"
  shows "calcState (unix_of (settleAt q (stClosingConfig st))) st = ChannelStatusSettlingConditionals \<and>
    calcState (unix_of (settleTill q (stClosingConfig st))) st \<in> {ChannelStatusExecutingActions, ChannelStatusAwaitingFinalization} \<and>
    calcState (unix_of (executeAt q (stClosingConfig st))) st = ChannelStatusExecutingActions \<and>
    calcState (unix_of (executeTill q (stClosingConfig st))) st = ChannelStatusAwaitingFinalization \<and>
    calcState (unix_of (finalizeAt q (stClosingConfig st))) st = ChannelStatusAwaitingFinalization"
  using assms by (auto simp: calcState_def Let_def settleTill_def executeTill_def phase_seconds closure_fits_def unix_def unix_of_def)

definition ex_closing :: "uint32 \<Rightarrow> QuarantinedState \<times> ClosingConfig" where
  "ex_closing start = (\<lparr>qsSeqno = 4, qsTheirState = Some empty_side, QuarantineStarts = start, CommittedByOwner = False,
      OurSettlementFinalized = False, ActionsToExecuteHash = zeros 32\<rparr>,
     \<lparr>QuarantineDuration = 600, ConditionalCloseDuration = 1200, ActionsDuration = 900, ReplicationMessageAttachAmount = 0\<rparr>)"

definition ex_closing_storage :: "uint32 \<Rightarrow> ChannelStorageData" where
  "ex_closing_storage start = \<lparr>stIsA = True, Initialized = True, CommittedSeqno = 4, WalletSeqno = 0, stKeyA = ''a'', stKeyB = ''b'',
     stChannelID = zeros 16, stClosingConfig = snd (ex_closing start), PartyAddress = None, Quarantine = Some (fst (ex_closing start))\<rparr>"

theorem closing_tasks_in_phase_witness:
  "calcState (unix_of (settleAt (fst (ex_closing 1700000000)) (snd (ex_closing 1700000000)))) (ex_closing_storage 1700000000) =
     ChannelStatusSettlingConditionals \<and> settleAt (fst (ex_closing 1700000000)) (snd (ex_closing 1700000000)) = unix 1700000603"
proof -
  have "closure_fits (fst (ex_closing 1700000000)) (stClosingConfig (ex_closing_storage 1700000000))"
    by (simp add: closure_fits_def ex_closing_def ex_closing_storage_def)
  with closing_tasks_in_phase [of "ex_closing_storage 1700000000" "fst (ex_closing 1700000000)"] show ?thesis
    by (simp add: ex_closing_storage_def settleAt_def) (simp add: ex_closing_def)
qed

section \<open>What an update writes\<close>

text \<open>The address of our contract in the channel an event is about.\<close>

definition event_addr ::
  "('b, 's, 'c, 'm, 'd, 't, 'j) svc \<Rightarrow> ('b, 's, 'c, 'm) op_env \<Rightarrow> 'c ChannelUpdatedEvent \<Rightarrow> address res" where
  "event_addr S P upd = (let och = upLatestChannel upd in
     if snd (snd (verifyChannel (opCfg P) (svPub S) (coStorage och))) then Inr (coAddress och) else GetPartyAddr (opC P) och)"

lemma dret_lift_if: "(if b then dret x else dlift y) = dlift (if b then Inr x else y)"
  by (rule ext) (simp add: dret_def dlift_def)

context node
begin

lemma touches_finalize [touch]: "touches other_key (finalizeInactiveChannelDerivatives S clk ch)"
proof -
  have "touches other_key (finalizeKey S c ch k h)" for c k h
    unfolding finalizeKey_def finalize_order_def by (intro touch)
  then have "touches other_key (finalizeDict S clk ch kvs n h)" for kvs n h
    by (induction kvs arbitrary: n h) (auto intro!: touch)
  then show ?thesis unfolding finalizeInactiveChannelDerivatives_def by (intro touch)
qed

lemma touches_or_missing [touch]: "touches A m \<Longrightarrow> touches A (or_missing a b m)"
  unfolding or_missing_def by (intro touch)

lemma touches_settle [touch]: "touches other_key (settle_items S isOur conds acts clk n kvs upd)"
proof -
  have "touches other_key (settle_item S isOur conds acts c kv u)" for c kv u
    unfolding settle_item_def AddConditionalResolve_def CloseConditional_def meta_of_def resolve_target_def by (intro touch)
  then show ?thesis by (induction kvs arbitrary: n upd) (auto intro!: touch)
qed

lemma touches_scan [touch]: "touches other_key (scan_settlement S P V clk isOur upd ch)"
  unfolding scan_settlement_def scanSettledConditionals_def by (intro touch)

lemma touches_find [touch]: "touches A (find_channel S a)"
  unfolding find_channel_def by (intro touch)

lemma touches_recover [touch]: "touches other_key (recover_state S V upd ch)"
  unfolding recover_state_def recover_pending_def GetChannelPendingState_def by (intro touch)

lemma touches_side_update [touch]: "touches other_key (processSideUpdate S clk isOur upd ch)"
proof -
  have t: "touches other_key (channel_task S n1 n2 w y q c a t)" for n1 n2 w y q c a t
    unfolding channel_task_def by (intro touch)
  have "touches other_key (our_phase S clk upd c)" for c
    unfolding our_phase_def phase_closure_def phase_settle_def phase_execute_def phase_finalize_def closing_event_def
    by (auto simp: Let_def split: ContractStatus.split intro!: touch t)
  then show ?thesis
    unfolding processSideUpdate_def side_activity_def closing_event_def track_transfers_def follow_pending_def refresh_balance_def
    by (intro touch)
qed

lemma set_channel_tx:
  assumes "set_channel S now exists ch (OnTx d s b) = (Inr ch', e')"
  shows "\<exists>data c. ch' = ch\<lparr>DBVersion := now\<rparr> \<and> Marshal J ch' = Inr data \<and>
    e' = OnTx d s (b @ BPut (channel_key (sdAddress (Our ch))) data # c) \<and> (\<forall>w \<in> set c. other_key (op_key w))"
proof (cases "exists")
  case True
  with assms update_channel_tx show ?thesis by (auto simp: set_channel_def run_inv)
next
  case False
  then obtain data where r: "ch' = ch\<lparr>DBVersion := now\<rparr>" "Marshal J ch' = Inr data"
      "run_cb (svOnChannel S) ch' True (OnTx d s (b @ [BPut (channel_key (sdAddress (Our ch))) data])) = (Inr (), e')"
    using assms by (auto simp: set_channel_def CreateChannel_def Let_def run_inv split: if_splits)
  have "touches other_key (run_cb (svOnChannel S) ch' True)"
    by (rule touchesI) (auto simp: run_cb_def channel_cb split: option.splits)
  from touchesD [OF this r(3)] r(1,2) show ?thesis by (cases e') auto
qed

lemma store_update_some:
  assumes "store_update S clk isNew isOur upd ch (OnDB d) = (Inr (Some ch'), e')"
  obtains ch1 e1 e2 d' data where "processSideUpdate S (clk 0) isOur upd ch e1 = (Inr ch1, e2)" "ch' = ch1\<lparr>DBVersion := clk 1 0\<rparr>"
    "Marshal J ch' = Inr data" "e' = OnDB d'"
    "\<And>a. map_of (view d') (channel_key a) = (if a = sdAddress (Our ch) then Some data else map_of (view d) (channel_key a))"
proof -
  define t where "t = dbind (dwrap (if isOur then ''failed to process our side update'' else ''failed to process side update'')
      (processSideUpdate S (clk 0) isOur upd ch)) (\<lambda>ch'. set_channel S (clk 1 0) (\<not> isNew) ch')"
  define fin where "fin = (if chStatus ch \<noteq> ChannelStateInactive \<and> chStatus ch' = ChannelStateInactive
      then finalizeInactiveChannelDerivatives S (\<lambda>i. clk (2 + i)) ch' else dret ())"
  obtain e1 q where r1: "Transaction (svL S) t (OnDB d) = (Inr ch', e1)" "dtry fin e1 = (Inr q, e')"
    using assms unfolding store_update_def t_def [symmetric] fin_def by (auto simp: dbind_Inr dtry_Inr [of "Transaction L t" for L t] dret_Inr)
  have "touches other_key (dtry fin)" unfolding fin_def by (intro touch)
  with r1 have r: "Transaction (svL S) t (OnDB d) = (Inr ch', e1)" "frame other_key e1 e'" by (auto dest: touchesD)
  then obtain e2 where t: "t (OnTx d (snap d) []) = (Inr ch', e2)" by (auto simp: tx_run split: prod.splits sum.splits)
  then obtain ch1 e3 where p: "processSideUpdate S (clk 0) isOur upd ch (OnTx d (snap d) []) = (Inr ch1, e3)"
      "set_channel S (clk 1 0) (\<not> isNew) ch1 e3 = (Inr ch', e2)" by (auto simp: t_def run_inv)
  obtain b1 where b1: "e3 = OnTx d (snap d) b1" "\<forall>w \<in> set b1. other_key (op_key w)"
    using touchesD [OF touches_side_update p(1)] by (cases e3) auto
  obtain data b2 where w: "ch' = ch1\<lparr>DBVersion := clk 1 0\<rparr>" "Marshal J ch' = Inr data"
      "e2 = OnTx d (snap d) (b1 @ BPut (channel_key (sdAddress (Our ch1))) data # b2)" "\<forall>w \<in> set b2. other_key (op_key w)"
    using set_channel_tx [OF p(2) [unfolded b1(1)]] by blast
  have "\<forall>w \<in> set b1 \<union> set b2. other_key (op_key w)" using b1 w by auto
  from commit_channel [OF r(1) t [unfolded w(3)] this] obtain d1 where d1: "e1 = OnDB d1"
      "\<And>a. map_of (view d1) (channel_key a) = (if a = sdAddress (Our ch1) then Some data else map_of (view d) (channel_key a))" by auto
  obtain d' where d': "e' = OnDB d'" "\<And>a. map_of (view d') (channel_key a) = map_of (view d1) (channel_key a)"
    using frame_channels r(2) d1(1) by blast
  have "sdAddress (Our ch1) = sdAddress (Our ch)" using side_update_agreement [OF p(1)] by (simp add: same_agreement_def)
  with that [OF p(1) w(1,2) d'(1)] d'(2) d1(2) show thesis by simp
qed

lemma find_channel_some:
  assumes "find_channel S a (OnDB d) = (Inr r, e')"
  shows "e' = OnDB d" "r = stored_channel J (view d) a"
proof -
  have "snd (GetChannel (svL S) J a (OnDB d)) = OnDB d"
    by (auto simp: GetChannel_def get_json_def dbind_def dcatch_def dlift_def dwrap_def split: sum.splits prod.splits)
  then obtain q where q: "GetChannel (svL S) J a (OnDB d) = (q, OnDB d)" by (metis surjective_pairing)
  then have "stored_channel J (view d) a = (case q of Inl _ \<Rightarrow> None | Inr ch \<Rightarrow> Some ch)"
    using get_channel [of a "OnDB d"] by (cases q; cases "stored_channel J (view d) a") auto
  with assms q show "e' = OnDB d" "r = stored_channel J (view d) a"
    by (auto simp: find_channel_def dbind_def dtry_def dret_def dlift_def split: sum.splits if_splits)
qed

text \<open>\<open>writes_channel\<close>: the database differs in one channel, which a side update of the given one gave.\<close>

definition writes_channel :: "'d \<Rightarrow> ('m, 'c) Channel \<Rightarrow> bool \<Rightarrow> 'c ChannelUpdatedEvent \<Rightarrow> 'd \<Rightarrow> bool" where
  "writes_channel d ch isOur upd d' \<longleftrightarrow> (\<exists>clk e1 e2 ch' now data. processSideUpdate S clk isOur upd ch e1 = (Inr ch', e2) \<and>
     Marshal J (ch'\<lparr>DBVersion := now\<rparr>) = Inr data \<and>
     (\<forall>a. map_of (view d') (channel_key a) = (if a = sdAddress (Our ch) then Some data else map_of (view d) (channel_key a))))"

lemma frame_writes: "frame other_key (OnDB d) (OnDB d1) \<Longrightarrow> writes_channel d1 ch isOur upd d2 \<Longrightarrow> frame other_key (OnDB d2) (OnDB d') \<Longrightarrow>
    writes_channel d ch isOur upd d'"
proof -
  assume f: "frame other_key (OnDB d) (OnDB d1)" "frame other_key (OnDB d2) (OnDB d')" and w: "writes_channel d1 ch isOur upd d2"
  have "map_of (view d1) (channel_key a) = map_of (view d) (channel_key a)" "map_of (view d') (channel_key a) = map_of (view d2) (channel_key a)" for a
    using frame_channels f by fastforce+
  note eq = this
  from w show ?thesis unfolding writes_channel_def eq .
qed

lemma store_update_writes:
  "store_update S clk isNew isOur upd ch (OnDB d) = (Inr (Some ch'), e') \<Longrightarrow> \<exists>d'. e' = OnDB d' \<and> writes_channel d ch isOur upd d'"
  by (erule store_update_some) (unfold writes_channel_def, blast)

lemma their_done:
  assumes "their_update S P V clk upd channel (OnDB d) = (Inr Done, e')"
  obtains ch ch1 e1 d' where "channel = Some ch" "scan_settlement S P V (clk 0) False upd ch (OnDB d) = (Inr ch1, e1)"
    "e' = OnDB d'" "writes_channel d ch1 False upd d'"
proof -
  obtain ch ch1 e1 x where r: "channel = Some ch" "scan_settlement S P V (clk 0) False upd ch (OnDB d) = (Inr ch1, e1)"
      "store_update S (clk 1) False False upd ch1 e1 = (Inr (Some x), e')"
    using assms by (auto simp: their_update_def run_inv split: option.splits if_splits)
  from touchesD [OF touches_scan r(2)] obtain d1 where d1: "e1 = OnDB d1" "frame other_key (OnDB d) (OnDB d1)" by (cases e1) auto
  with r(3) store_update_writes obtain d' where "e' = OnDB d'" "writes_channel d1 ch1 False upd d'" by blast
  with that r(1,2) frame_writes [OF d1(2)] show thesis by auto
qed

lemma our_update_steps:
  assumes "our_update S P V clk weA upd channel e = (Inr r, e')" "r \<noteq> Skipped"
  obtains ch ch1 ch2 e1 e2 e3 x where
    "channel = Some ch \<and> chStatus ch \<noteq> ChannelStateInactive \<or> up_status upd \<noteq> ChannelStatusUninitialized \<and>
       (\<forall>c. channel = Some c \<longrightarrow> chStatus c = ChannelStateInactive) \<and> (\<exists>now party. ch = fresh_channel S P now weA upd party channel)"
    "scan_settlement S P V (clk 1) True upd ch e = (Inr ch1, e1)" "recover_state S V upd ch1 e1 = (Inr ch2, e2)"
    "store_update S (clk 2) (channel = None) True upd ch2 e2 = (Inr x, e3)"
    "case x of None \<Rightarrow> r = Retry \<and> e' = e3 | Some c \<Rightarrow> r = Done \<and> e' = (case evPush V of None \<Rightarrow> e3 | Some push \<Rightarrow> push c e3)"
proof -
  define closed where "closed = (case channel of None \<Rightarrow> True | Some c \<Rightarrow> chStatus c = ChannelStateInactive)"
  define base :: "('d, 't, ('m, 'c) Channel) dbm" where "base = (case channel of
         Some c \<Rightarrow> if \<not> closed then dret c
           else dbind (dlift (GetPartyAddr (opC P) (upLatestChannel upd))) (\<lambda>party. dret (fresh_channel S P (clk 0 0 0) weA upd party channel))
       | None \<Rightarrow> dbind (dlift (GetPartyAddr (opC P) (upLatestChannel upd))) (\<lambda>party. dret (fresh_channel S P (clk 0 0 0) weA upd party channel)))"
  obtain ch e0 where b: "\<not> (closed \<and> up_status upd = ChannelStatusUninitialized)" "base e = (Inr ch, e0)"
    and rest: "(dbind (scan_settlement S P V (clk 1) True upd ch) (\<lambda>ch.
       dbind (recover_state S V upd ch) (\<lambda>ch.
       dbind (store_update S (clk 2) (channel = None) True upd ch) (\<lambda>r. case r of None \<Rightarrow> dret Retry
       | Some ch' \<Rightarrow> (\<lambda>e. (Inr Done, case evPush V of None \<Rightarrow> e | Some push \<Rightarrow> push ch' e)))))) e0 = (Inr r, e')"
    using assms unfolding our_update_def closed_def [symmetric] base_def [symmetric] Let_def
    by (auto simp: dbind_Inr [of base] dret_Inr split: if_splits)
  have e0: "e0 = e" "channel = Some ch \<and> chStatus ch \<noteq> ChannelStateInactive \<or> up_status upd \<noteq> ChannelStatusUninitialized \<and>
       (\<forall>c. channel = Some c \<longrightarrow> chStatus c = ChannelStateInactive) \<and> (\<exists>now party. ch = fresh_channel S P now weA upd party channel)"
    using b by (auto simp: base_def closed_def run_inv split: option.splits if_splits)
  from rest obtain ch1 e1 ch2 e2 x e3 where "scan_settlement S P V (clk 1) True upd ch e0 = (Inr ch1, e1)"
      "recover_state S V upd ch1 e1 = (Inr ch2, e2)" "store_update S (clk 2) (channel = None) True upd ch2 e2 = (Inr x, e3)"
      "(case x of None \<Rightarrow> dret Retry | Some ch' \<Rightarrow> (\<lambda>e. (Inr Done, case evPush V of None \<Rightarrow> e | Some push \<Rightarrow> push ch' e))) e3 = (Inr r, e')"
    by (auto simp: dbind_Inr)
  with that [OF e0(2)] e0(1) show thesis by (cases x) (auto simp: dret_Inr)
qed

lemma our_done:
  assumes "our_update S P V clk weA upd channel (OnDB d) = (Inr Done, e')"
    "\<forall>push e ch. evPush V = Some push \<longrightarrow> frame other_key e (push ch e)"
  obtains ch ch1 ch2 e1 e2 d' where
    "channel = Some ch \<and> chStatus ch \<noteq> ChannelStateInactive \<or> up_status upd \<noteq> ChannelStatusUninitialized \<and>
       (\<forall>c. channel = Some c \<longrightarrow> chStatus c = ChannelStateInactive) \<and> (\<exists>now party. ch = fresh_channel S P now weA upd party channel)"
    "scan_settlement S P V (clk 1) True upd ch (OnDB d) = (Inr ch1, e1)" "recover_state S V upd ch1 e1 = (Inr ch2, e2)"
    "e' = OnDB d'" "writes_channel d ch2 True upd d'"
proof -
  obtain ch ch1 ch2 e1 e2 e3 x where b: "channel = Some ch \<and> chStatus ch \<noteq> ChannelStateInactive \<or> up_status upd \<noteq> ChannelStatusUninitialized \<and>
       (\<forall>c. channel = Some c \<longrightarrow> chStatus c = ChannelStateInactive) \<and> (\<exists>now party. ch = fresh_channel S P now weA upd party channel)"
    and r: "scan_settlement S P V (clk 1) True upd ch (OnDB d) = (Inr ch1, e1)" "recover_state S V upd ch1 e1 = (Inr ch2, e2)"
      "store_update S (clk 2) (channel = None) True upd ch2 e2 = (Inr (Some x), e3)"
      "e' = (case evPush V of None \<Rightarrow> e3 | Some push \<Rightarrow> push x e3)"
    by (rule our_update_steps [OF assms(1)]) (auto split: option.splits)
  from touchesD [OF touches_scan r(1)] obtain d1 where d1: "e1 = OnDB d1" "frame other_key (OnDB d) (OnDB d1)" by (cases e1) auto
  from touchesD [OF touches_recover r(2)] d1 obtain d2 where d2: "e2 = OnDB d2" "frame other_key (OnDB d) (OnDB d2)"
    by (cases e2) (auto intro: frame_trans)
  obtain d3 where d3: "e3 = OnDB d3" "writes_channel d2 ch2 True upd d3" using r(3) d2(1) store_update_writes by blast
  have "frame other_key e3 e'" using r(4) assms(2) by (auto split: option.splits)
  with d3(1) obtain d' where "e' = OnDB d'" "frame other_key (OnDB d3) (OnDB d')" by (cases e') auto
  with that [OF b r(1,2)] frame_writes [OF d2(2) d3(2)] show thesis by blast
qed

lemma store_update_none:
  assumes "store_update S clk isNew isOur upd ch (OnDB d) = (Inr None, e')"
  shows "frame other_key (OnDB d) e'"
proof -
  obtain err where "Transaction (svL S) (dbind (dwrap (if isOur then ''failed to process our side update'' else ''failed to process side update'')
      (processSideUpdate S (clk 0) isOur upd ch)) (\<lambda>ch'. set_channel S (clk 1 0) (\<not> isNew) ch')) (OnDB d) = (Inl err, e')"
    using assms by (auto simp: store_update_def dbind_Inr [of "dtry m" for m] dtry_Inr dbind_Inr dret_Inr split: if_splits)
  then show ?thesis using rolls_transaction by (auto simp: rolls_def)
qed

lemma our_other:
  assumes "our_update S P V clk weA upd channel (OnDB d) = (Inr r, e')" "r \<noteq> Done"
  shows "frame other_key (OnDB d) e'"
proof (cases "r = Skipped")
  case True
  have "gives (\<lambda>x. x \<noteq> Skipped) (dbind (store_update S (clk 2) n True upd ch) (\<lambda>r. case r of None \<Rightarrow> dret Retry
       | Some ch' \<Rightarrow> (\<lambda>e. (Inr Done, case evPush V of None \<Rightarrow> e | Some push \<Rightarrow> push ch' e))))" for n ch
    by (auto simp: gives_def dbind_Inr dret_Inr split: option.splits)
  with assms(1) True show ?thesis
    by (auto simp: our_update_def Let_def dbind_Inr dret_Inr dlift_Inr gives_def split: option.splits if_splits)
next
  case False
  obtain ch ch1 ch2 e1 e2 where t: "scan_settlement S P V (clk 1) True upd ch (OnDB d) = (Inr ch1, e1)" "recover_state S V upd ch1 e1 = (Inr ch2, e2)"
      "store_update S (clk 2) (channel = None) True upd ch2 e2 = (Inr None, e')"
    by (rule our_update_steps [OF assms(1) False]) (use assms(2) in \<open>auto split: option.splits\<close>)
  from frame_trans [OF touchesD [OF touches_scan t(1)] touchesD [OF touches_recover t(2)]] obtain d2 where d2: "e2 = OnDB d2"
    "frame other_key (OnDB d) e2" by (cases e2) auto
  with store_update_none t(3) frame_trans show ?thesis by blast
qed

lemma their_other:
  assumes "their_update S P V clk upd channel (OnDB d) = (Inr r, e')" "r \<noteq> Done"
  shows "frame other_key (OnDB d) e'"
proof (cases "e' = OnDB d")
  case False
  then obtain ch ch1 e1 where t: "scan_settlement S P V (clk 0) False upd ch (OnDB d) = (Inr ch1, e1)"
      "store_update S (clk 1) False False upd ch1 e1 = (Inr None, e')"
    using assms by (auto simp: their_update_def dbind_Inr dret_Inr split: option.splits if_splits)
  from touchesD [OF touches_scan t(1)] obtain d2 where d2: "e1 = OnDB d2" "frame other_key (OnDB d) e1" by (cases e1) auto
  with store_update_none t(2) frame_trans show ?thesis by blast
qed simp

text \<open>The handler of a verified event, from the channel that was found.\<close>

definition route ::
  "('b, 's, 'c, 'm) op_env \<Rightarrow> ('s, 'c, 'm, 'd, 't) event_env \<Rightarrow> (nat \<Rightarrow> nat \<Rightarrow> nat \<Rightarrow> gtime) \<Rightarrow> 'c ChannelUpdatedEvent \<Rightarrow> bool \<Rightarrow> bool \<Rightarrow>
   gerror + ('m, 'c) Channel option \<Rightarrow> ('d, 't, outcome) dbm" where
  "route P V clk upd weA isOur t = (case t of Inl _ \<Rightarrow> dret Retry | Inr channel \<Rightarrow>
     if (case channel of None \<Rightarrow> True | Some c \<Rightarrow> \<not> ActiveOnchain (Our c) \<and> \<not> ActiveOnchain (Their c)) \<and>
       up_status upd = ChannelStatusUninitialized then dret Skipped
     else if isOur then our_update S P V clk weA upd channel else their_update S P V clk upd channel)"

lemma handle_route:
  assumes "verifyChannel (opCfg P) (svPub S) (coStorage (upLatestChannel upd)) = (True, weA, isOur)"
  shows "handle_update S P V clk upd =
    dbind (dlift (event_addr S P upd)) (\<lambda>a. dbind (dtry (find_channel S (opAddr P a))) (route P V clk upd weA isOur))"
  unfolding route_def [abs_def] using assms by (simp add: handle_update_def event_addr_def Let_def dret_lift_if)

lemma handle_other:
  assumes "handle_update S P V clk upd (OnDB d) = (Inr r, e')" "r \<noteq> Done"
  shows "frame other_key (OnDB d) e'"
proof -
  obtain ok weA isOur where v: "verifyChannel (opCfg P) (svPub S) (coStorage (upLatestChannel upd)) = (ok, weA, isOur)" by (metis prod_cases3)
  show ?thesis
  proof (cases ok)
    case True
    with assms(1) handle_route [of P upd] v obtain a t e0 where t: "dtry (find_channel S (opAddr P a)) (OnDB d) = (Inr t, e0)"
        "route P V clk upd weA isOur t e0 = (Inr r, e')" by (auto simp: dbind_Inr dlift_Inr)
    from touchesD [OF touches_try [OF touches_find] t(1), of other_key] obtain d0 where d0: "e0 = OnDB d0" "frame other_key (OnDB d) e0"
      by (cases e0) auto
    have "frame other_key e0 e'"
      using t(2) d0(1) assms(2) by (auto simp: route_def dret_Inr split: sum.splits if_splits dest: our_other their_other)
    with d0(2) show ?thesis by (rule frame_trans)
  qed (use assms v in \<open>auto simp: handle_update_def dret_Inr Let_def\<close>)
qed

lemma handle_done:
  assumes "handle_update S P V clk upd (OnDB d) = (Inr Done, e')"
    "\<forall>push e ch. evPush V = Some push \<longrightarrow> frame other_key e (push ch e)" "event_addr S P upd = Inr a"
  obtains weA isOur ch ch1 ch2 c e1 e2 d' where
    "verifyChannel (opCfg P) (svPub S) (coStorage (upLatestChannel upd)) = (True, weA, isOur)"
    "stored_channel J (view d) (opAddr P a) = Some ch \<and> (isOur \<longrightarrow> chStatus ch \<noteq> ChannelStateInactive) \<or>
       isOur \<and> up_status upd \<noteq> ChannelStatusUninitialized \<and>
       (\<forall>c. stored_channel J (view d) (opAddr P a) = Some c \<longrightarrow> chStatus c = ChannelStateInactive) \<and>
       (\<exists>now party. ch = fresh_channel S P now weA upd party (stored_channel J (view d) (opAddr P a)))"
    "scan_settlement S P V c isOur upd ch (OnDB d) = (Inr ch1, e1)"
    "(if isOur then recover_state S V upd ch1 else dret ch1) e1 = (Inr ch2, e2)"
    "e' = OnDB d'" "writes_channel d ch2 isOur upd d'"
proof -
  obtain weA isOur where v: "verifyChannel (opCfg P) (svPub S) (coStorage (upLatestChannel upd)) = (True, weA, isOur)"
    using assms(1) by (cases "verifyChannel (opCfg P) (svPub S) (coStorage (upLatestChannel upd))")
      (auto simp: handle_update_def dret_Inr Let_def split: if_splits)
  from assms(1,3) handle_route [OF v] obtain t e0 where t: "dtry (find_channel S (opAddr P a)) (OnDB d) = (Inr t, e0)"
      "route P V clk upd weA isOur t e0 = (Inr Done, e')"
    by (auto simp: dbind_Inr dlift_Inr)
  then obtain q where r: "find_channel S (opAddr P a) (OnDB d) = (Inr q, e0)"
      "(if isOur then our_update S P V clk weA upd q else their_update S P V clk upd q) e0 = (Inr Done, e')"
    by (cases t) (auto simp: route_def dtry_Inr dret_Inr split: if_splits)
  note f = find_channel_some [OF r(1)]
  show thesis
  proof (cases isOur)
    case True
    with r(2) f have u: "our_update S P V clk weA upd (stored_channel J (view d) (opAddr P a)) (OnDB d) = (Inr Done, e')" by simp
    show thesis by (rule our_done [OF u assms(2)]) (rule that [OF v], use True in auto)
  next
    case False
    with r(2) f have u: "their_update S P V clk upd (stored_channel J (view d) (opAddr P a)) (OnDB d) = (Inr Done, e')" by simp
    show thesis by (rule their_done [OF u]) (rule that [OF v], use False in \<open>auto simp: dret_Inr\<close>)
  qed
qed

end

text \<open>Neither the scan of a settlement nor the recovery of a state changes who the channel is with.\<close>

definition same_parties :: "('m, 'c) Channel \<Rightarrow> ('m, 'c) Channel \<Rightarrow> bool" where
  "same_parties ch ch' \<longleftrightarrow> WeLeft ch' = WeLeft ch \<and> chStatus ch' = chStatus ch \<and>
     sdAddress (Our ch') = sdAddress (Our ch) \<and> OnchainKey (Our ch') = OnchainKey (Our ch) \<and>
     sdAddress (Their ch') = sdAddress (Their ch) \<and> OnchainKey (Their ch') = OnchainKey (Their ch)"

lemma scan_parties: "scan_settlement S P V clk isOur upd ch e = (Inr ch', e') \<Longrightarrow> same_parties ch ch'"
  by (auto simp: scan_settlement_def scanSettledConditionals_def run_inv Let_def on_side_def set_action_state_def same_parties_def
      split: if_splits sum.splits option.splits)

text \<open>What a recovery takes over: the saved data under the body of a state that both sides signed.\<close>

definition recovered :: "('b, 's, 'c, 'm, 'd, 't, 'j) svc \<Rightarrow> ('d, 't) executor \<Rightarrow> ('m, 'c) Channel \<Rightarrow> ('m, 'c) Channel \<Rightarrow> bool" where
  "recovered S e ch ch' \<longleftrightarrow> (\<exists>st ps c. StateBodySigned_Verify (svE S) st (Some (OnchainKey (SideA ch))) (Some (OnchainKey (SideB ch))) = Inr () \<and>
     fst (GetChannelPendingState (svL S) (svPendingJ S) (svE S) ch (sbBody st) e) = Inr ps \<and> ToCell (cnSigned (svE S)) st = Inr c \<and>
     ch' = ch\<lparr>Our := (Our ch)\<lparr>sdData := psOurData ps\<rparr>, Their := (Their ch)\<lparr>sdData := psTheirData ps\<rparr>, SignedState := Some c\<rparr>)"

lemma try_lift_bind: "dbind (dtry (dlift r)) f e = (case r of Inl err \<Rightarrow> if is_panic err then (Inl err, e) else f (Inl err) e | Inr x \<Rightarrow> f (Inr x) e)"
  by (simp add: dbind_def dtry_def dlift_def split: sum.splits)

lemma recover_pending_cases:
  fixes S :: "('b, 's, 'c, 'm, 'd, 't, 'j) svc"
  assumes "recover_pending S ch ours st e = (Inr ch', e')"
  shows "ch' = ch \<or> recovered S e ch ch'"
proof (rule ccontr)
  assume n: "\<not> (ch' = ch \<or> recovered S e ch ch')"
  define pend where "pend = GetChannelPendingState (svL S) (svPendingJ S) (svE S) ch (sbBody st)"
  define fin :: "gerror + 'm PendingChannelState \<Rightarrow> ('d, 't, ('m, 'c) Channel) dbm" where "fin = (\<lambda>r. case r of Inl _ \<Rightarrow> dret ch | Inr ps \<Rightarrow> (case ToCell (cnSigned (svE S)) st of Inl _ \<Rightarrow> dret ch
      | Inr c \<Rightarrow> dret (ch\<lparr>Our := (Our ch)\<lparr>sdData := psOurData ps\<rparr>, Their := (Their ch)\<lparr>sdData := psTheirData ps\<rparr>, SignedState := Some c\<rparr>)))"
  have v: "StateBodySigned_Verify (svE S) st (Some (OnchainKey (SideA ch))) (Some (OnchainKey (SideB ch))) = Inr ()"
    and "dbind (dtry pend) fin e = (Inr ch', e')"
    using assms n by (auto simp: recover_pending_def try_lift_bind pend_def [symmetric] fin_def [symmetric] dret_Inr dlift_Inr split: sum.splits if_splits)
  then obtain q e1 where q: "dtry pend e = (Inr q, e1)" "fin q e1 = (Inr ch', e')" by (auto simp: dbind_Inr)
  then obtain ps c where "q = Inr ps" "ToCell (cnSigned (svE S)) st = Inr c"
      "ch' = ch\<lparr>Our := (Our ch)\<lparr>sdData := psOurData ps\<rparr>, Their := (Their ch)\<lparr>sdData := psTheirData ps\<rparr>, SignedState := Some c\<rparr>"
    using n by (cases q; cases "ToCell (cnSigned (svE S)) st") (auto simp: fin_def dret_Inr)
  moreover from this q have "fst (pend e) = Inr ps" by (auto simp: dtry_Inr)
  ultimately show False using n v unfolding recovered_def pend_def by blast
qed

lemma recover_cases:
  assumes "recover_state S V upd ch e = (Inr ch', e')"
  shows "ch' = ch \<or> recovered S e ch ch'"
proof (cases "tlb_Parse (svCells S) (evReplicate V) (miBody (txIn (upTransaction upd)))")
  case (Inr msg)
  with assms show ?thesis
    by (cases "urState msg") (auto simp: recover_state_def dbind_Inr dret_Inr dlift_Inr Let_def split: if_splits dest: recover_pending_cases)
qed (use assms in \<open>auto simp: recover_state_def dbind_Inr dret_Inr dlift_Inr Let_def split: if_splits\<close>)

lemma recover_parties: "recover_state S V upd ch e = (Inr ch', e') \<Longrightarrow> same_parties ch ch'"
  by (drule recover_cases) (auto simp: recovered_def same_parties_def)

lemma recorded_lt:
  assumes "processSideUpdate S clk isOur upd ch e = (Inr ch', e')"
  shows "LatestProcessedLT (side_at isOur ch') = txLT (upTransaction upd)"
  using assms by (auto simp: processSideUpdate_def run_inv on_side_def side_at_def record_update_def Let_def)

lemma inactive_after:
  assumes "processSideUpdate S clk isOur upd ch e = (Inr ch', e')" "chStatus ch' = ChannelStateInactive" "chStatus ch \<noteq> ChannelStateInactive"
  shows "isOur \<and> up_status upd = ChannelStatusUninitialized"
proof -
  have "lifecycle_step x st l l' \<Longrightarrow> lcStatus l' = ChannelStateInactive \<Longrightarrow> lcStatus l \<noteq> ChannelStateInactive \<Longrightarrow>
      x \<and> st = ChannelStatusUninitialized" for x st l l'
    by (induction rule: lifecycle_step.induct) (auto split: if_splits)
  from this [OF side_update_lifecycle [OF assms(1)]] assms(2,3) show ?thesis by (simp add: lifecycle_of_def)
qed

lemma open_active:
  assumes "processSideUpdate S clk True upd ch e = (Inr ch', e')" "up_status upd = ChannelStatusOpen"
  shows "chStatus ch' = ChannelStateActive"
  using side_update_lifecycle [OF assms(1)] assms(2) by (auto simp: lifecycle_of_def closing_status_def)

definition addressed :: "('b, 's, 'c, 'm, 'd, 't, 'j) svc \<Rightarrow> (bytes, bytes) omap \<Rightarrow> bool" where
  "addressed S m \<longleftrightarrow> (\<forall>a ch. stored_channel (svChannelJ S) m a = Some ch \<longrightarrow> sdAddress (Our ch) = a)"

context signing_node
begin

lemma second_pass:
  assumes "verifyChannel (opCfg P) (svPub S) (coStorage (upLatestChannel upd)) = (True, weA, isOur)" "event_addr S P upd = Inr a"
    "stored_channel J (view d) (opAddr P a) = Some ch" "txLT (upTransaction upd) \<le> LatestProcessedLT (side_at isOur ch)"
    "isOur \<longrightarrow> chStatus ch \<noteq> ChannelStateInactive \<or> up_status upd = ChannelStatusUninitialized"
  shows "handle_update S P V clk upd (OnDB d) = (Inr Skipped, OnDB d)"
proof -
  have f: "find_channel S (opAddr P a) (OnDB d) = (Inr (Some ch), OnDB d)"
    using assms(3) by (simp add: find_channel_def run_inv) (metis (no_types, lifting) dret_Inr sum.simps(6))
  have "our_update S P V clk weA upd (Some ch) (OnDB d) = (Inr Skipped, OnDB d)" if isOur
    using assms(4,5) that by (auto simp: our_update_def Let_def run_inv side_at_def)
  moreover have "their_update S P V clk upd (Some ch) (OnDB d) = (Inr Skipped, OnDB d)" if "\<not> isOur"
    using assms(4) that by (auto simp: their_update_def run_inv side_at_def)
  ultimately show ?thesis
    using assms(1,2) f by (auto simp: handle_update_def event_addr_def run_inv Let_def)
qed

end


section \<open>Signed states\<close>

lemma synced_agreement: "same_agreement ch ch' \<Longrightarrow> synced S ch \<Longrightarrow> synced S ch'"
  by (cases "SignedState ch") (auto simp: synced_def same_agreement_def LoadSignedState_def SideA_def SideB_def side_hashes_def split: sum.splits)

lemma fresh_synced:
  assumes "DictIsEmpty (svD S) (opEmpty P)" "verifyChannel cfg (svPub S) (coStorage (upLatestChannel upd)) = (True, weA, isOur)"
  shows "synced S (fresh_channel S P now weA upd party prev)" "OnchainKey (Our (fresh_channel S P now weA upd party prev)) = svPub S"
  using assms by (auto simp: synced_def fresh_channel_def new_side_def LoadSignedState_def SideA_def SideB_def side_hashes_def dict_hash_def
      empty_side_def verifyChannel_def Let_def split: if_splits)

text \<open>
  The saved pending states belong to their keys: the data saved under a body hashes to it, which is what
  \<open>proposeAction\<close> saves before it sends a proposal.
\<close>

definition with_pending :: "'m PendingChannelState \<Rightarrow> ('m, 'c) Channel \<Rightarrow> ('m, 'c) Channel" where
  "with_pending ps ch = ch\<lparr>Our := (Our ch)\<lparr>sdData := psOurData ps\<rparr>, Their := (Their ch)\<lparr>sdData := psTheirData ps\<rparr>\<rparr>"

definition pending_ok :: "('b, 's, 'c, 'm, 'd, 't, 'j) svc \<Rightarrow> (bytes, bytes) omap \<Rightarrow> bool" where
  "pending_ok S m \<longleftrightarrow> (\<forall>a ch body k data ps. stored_channel (svChannelJ S) m a = Some ch \<and> getSavedChannelStateKey (svE S) ch body = Inr k \<and>
     map_of m k = Some data \<and> Unmarshal (svPendingJ S) data = Inr ps \<longrightarrow>
     sbA body = side_hashes S (SideA (with_pending ps ch)) \<and> sbB body = side_hashes S (SideB (with_pending ps ch)))"

definition is_settlement :: "('b, 's, 'c, 'm, 'd, 't, 'j) svc \<Rightarrow> ('b, 's, 'c, 'm) op_env \<Rightarrow> 'c ChannelUpdatedEvent \<Rightarrow> bool" where
  "is_settlement S P upd \<longleftrightarrow> txSuccess (upTransaction upd) \<and> miType (txIn (upTransaction upd)) = MsgTypeExternalIn \<and>
     (\<exists>msg. tlb_Parse (svCells S) (mcMsg (ctSettle (opC P))) (miBody (txIn (upTransaction upd))) = Inr msg)"

context signing_node
begin

lemma recovered_synced:
  assumes "pending_ok S (view d)" "stored_channel J (view d) a = Some ch" "recovered S (OnDB d) ch ch'"
  shows "synced S ch'"
proof -
  obtain st ps c where r: "StateBodySigned_Verify (svE S) st (Some (OnchainKey (SideA ch))) (Some (OnchainKey (SideB ch))) = Inr ()"
      "fst (GetChannelPendingState (svL S) (svPendingJ S) (svE S) ch (sbBody st) (OnDB d)) = Inr ps" "ToCell (cnSigned (svE S)) st = Inr c"
      "ch' = (with_pending ps ch)\<lparr>SignedState := Some c\<rparr>"
    using assms(3) by (auto simp: recovered_def with_pending_def)
  obtain k data where k: "getSavedChannelStateKey (svE S) ch (sbBody st) = Inr k" "map_of (view d) k = Some data" "Unmarshal (svPendingJ S) data = Inr ps"
    using r(2) by (auto simp: GetChannelPendingState_def get_json_def dbind_def dcatch_def dlift_def dwrap_def lookup_res_def
        split: sum.splits prod.splits if_splits option.splits)
  with assms(1,2) have h: "sbA (sbBody st) = side_hashes S (SideA (with_pending ps ch))" "sbB (sbBody st) = side_hashes S (SideB (with_pending ps ch))"
    unfolding pending_ok_def by blast+
  have "SideA ch' = SideA (with_pending ps ch)" "SideB ch' = SideB (with_pending ps ch)" "OnchainKey (SideA ch') = OnchainKey (SideA ch)"
      "OnchainKey (SideB ch') = OnchainKey (SideB ch)" "SignedState ch' = Some c"
    using r(4) by (simp_all add: SideA_def SideB_def with_pending_def)
  with synced_written [OF r(3)] h r(1) show ?thesis by simp
qed

lemma update_base_synced:
  assumes "channels_synced S (view d)" "pending_ok S (view d)" "DictIsEmpty (svD S) (opEmpty P)"
    "verifyChannel (opCfg P) (svPub S) (coStorage (upLatestChannel upd)) = (True, weA, isOur)"
    "stored_channel J (view d) a = Some ch \<or> isOur \<and> up_status upd \<noteq> ChannelStatusClosureStarted \<and> (\<exists>now party prev. ch = fresh_channel S P now weA upd party prev)"
    "(if isOur then recover_state S V upd ch else dret ch) (OnDB d) = (Inr ch', e')"
  shows "synced S ch'" "OnchainKey (Our ch') = svPub S"
proof -
  have ch: "synced S ch" "OnchainKey (Our ch) = svPub S"
    using assms(1,5) fresh_synced [OF assms(3,4)] by (auto simp: channels_synced_def)
  have x: "ch' = ch \<or> stored_channel J (view d) a = Some ch \<and> recovered S (OnDB d) ch ch'"
    using assms(5)
  proof
    assume "stored_channel J (view d) a = Some ch"
    with assms(6) show ?thesis by (cases isOur) (auto simp: dret_Inr dest: recover_cases)
  next
    assume "isOur \<and> up_status upd \<noteq> ChannelStatusClosureStarted \<and> (\<exists>now party prev. ch = fresh_channel S P now weA upd party prev)"
    with assms(6) show ?thesis by (simp add: recover_state_def Let_def dret_Inr)
  qed
  then show "synced S ch'" using ch(1) recovered_synced [OF assms(2)] by blast
  from x show "OnchainKey (Our ch') = svPub S" using ch(2) by (auto simp: recovered_def)
qed

lemma update_done_synced:
  assumes "channels_synced S (view d)" "pending_ok S (view d)" "DictIsEmpty (svD S) (opEmpty P)"
    "\<forall>push e ch. evPush V = Some push \<longrightarrow> frame other_key e (push ch e)" "\<not> is_settlement S P upd" "event_addr S P upd = Inr a"
    "closing_status (up_status upd) \<Longrightarrow> \<exists>ch. stored_channel J (view d) (opAddr P a) = Some ch \<and> chStatus ch \<noteq> ChannelStateInactive"
    "handle_update S P V clk upd (OnDB d) = (Inr Done, e')"
  shows "\<exists>d'. e' = OnDB d' \<and> channels_synced S (view d')"
proof -
  let ?st = "stored_channel J (view d) (opAddr P a)"
  obtain weA isOur ch ch1 ch2 c e1 e2 d' where
    v: "verifyChannel (opCfg P) (svPub S) (coStorage (upLatestChannel upd)) = (True, weA, isOur)"
    and b: "?st = Some ch \<and> (isOur \<longrightarrow> chStatus ch \<noteq> ChannelStateInactive) \<or> isOur \<and> up_status upd \<noteq> ChannelStatusUninitialized \<and>
       (\<forall>c. ?st = Some c \<longrightarrow> chStatus c = ChannelStateInactive) \<and> (\<exists>now party. ch = fresh_channel S P now weA upd party ?st)"
    and r: "scan_settlement S P V c isOur upd ch (OnDB d) = (Inr ch1, e1)"
      "(if isOur then recover_state S V upd ch1 else dret ch1) e1 = (Inr ch2, e2)" "e' = OnDB d'" "writes_channel d ch2 isOur upd d'"
    by (rule handle_done [OF assms(8,4,6)])
  have s: "ch1 = ch" "e1 = OnDB d"
    using r(1) assms(5) by (auto simp: scan_settlement_def is_settlement_def Let_def dret_Inr split: if_splits sum.splits)
  have b': "?st = Some ch \<or> isOur \<and> up_status upd \<noteq> ChannelStatusClosureStarted \<and> (\<exists>now party prev. ch = fresh_channel S P now weA upd party prev)"
    using b assms(7) by (auto simp: closing_status_def)
  note k = update_base_synced [OF assms(1-3) v b' r(2) [unfolded s]]
  obtain ck e3 e4 ch3 now data where w: "processSideUpdate S ck isOur upd ch2 e3 = (Inr ch3, e4)" "Marshal J (ch3\<lparr>DBVersion := now\<rparr>) = Inr data"
      "\<forall>a. map_of (view d') (channel_key a) = (if a = sdAddress (Our ch2) then Some data else map_of (view d) (channel_key a))"
    using r(4) unfolding writes_channel_def by (elim exE conjE)
  have g: "same_agreement ch2 (ch3\<lparr>DBVersion := now\<rparr>)" using side_update_agreement [OF w(1)] by (simp add: same_agreement_def)
  have "channels_synced S (view d')"
    by (rule channels_synced_upd [OF assms(1) w(2)]) (use g k synced_agreement [OF g] w(3) in \<open>auto simp: same_agreement_def\<close>)
  with r(3) show ?thesis by blast
qed

end


section \<open>A sample event\<close>

definition ex_event :: "ContractStatus \<Rightarrow> tcell ChannelUpdatedEvent" where
  "ex_event st = \<lparr>upTransaction = \<lparr>txHash = [], txPrevTxHash = [], txLT = 7, txPrevTxLT = 0, txAt = 100, txSuccess = True,
       txIn = \<lparr>miType = MsgTypeExternalIn, miFrom = [], miTo = [], miMsgHash = [], miBody = ex_code 0\<rparr>, txOut = []\<rparr>,
     upLatestChannel = \<lparr>coStatus = st, coStorage = (ex_closing_storage 0)\<lparr>Quarantine := None, stKeyA := ex_pub True, stKeyB := ex_pub False\<rparr>,
       coContractCode = ex_code 0, coAddress = ''a''\<rparr>\<rparr>"

definition ex_op :: "(tdata, tdata, tcell, tdict) op_env" where
  "ex_op = \<lparr>opQ = ex_req_env, opX = \<lparr>xAccount = (\<lambda>_. Inl (Errorf ''offline'')), xJettonBalance = (\<lambda>_ _. Inl (Errorf ''offline'')),
      xIntKey = (\<lambda>_ _. Inl (Errorf ''offline'')), xSend = (\<lambda>_ _. Inl (Errorf ''offline'')), xIsWeb = False, xWallet = []\<rparr>,
     opCfg = \<lparr>ccCodeHashes = [], ccAttach = 0, ccQuarantine = 600, ccConditionalClose = 1200, ccActions = 900\<rparr>,
     opBufferTimeToCommit = 0, opEmpty = [], opAddr = (\<lambda>a. a)\<rparr>"

definition ex_events :: "(tdata, tcell, tdict, mem, msnap) event_env" where
  "ex_events = \<lparr>evSettled = no_codec, evReplicate = no_codec, evAsDict = (\<lambda>_. []), evPush = None\<rparr>"

definition ex_followed :: "(tdict, tcell) Channel" where
  "ex_followed = (ex_node_channel True)\<lparr>Our := record_update (ex_event ChannelStatusOpen) (ex_node_side True), DBVersion := 5\<rparr>"

definition ex_chain_svc :: "(tdata, tdata, tcell, tdict, mem, msnap, unit) svc" where
  "ex_chain_svc = (ex_svc True)\<lparr>svChannelJ := table_json [ex_node_channel True, ex_followed]\<rparr>"

lemma ex_chain_sel [simp]:
  "svL ex_chain_svc = mem_db" "svE ex_chain_svc = ex_node_env" "svOnChannel ex_chain_svc = None" "svPub ex_chain_svc = ex_pub True"
  "svSign ex_chain_svc = (\<lambda>k m. k @ m)" "svKey ex_chain_svc = ex_pub True" "svPayload ex_chain_svc = (\<lambda>_. Inr [])" "svTaskJ ex_chain_svc = any_json"
  "svChannelJ ex_chain_svc = table_json [ex_node_channel True, ex_followed]" "svWebhook ex_chain_svc = None" "svOnHistory ex_chain_svc = None"
  "svPendingJ ex_chain_svc = any_json"
  by (simp_all add: ex_chain_svc_def) (simp_all add: ex_svc_def)

interpretation ex_chain: signing_node ex_chain_svc mem_view msnap_view Snap
proof (intro signing_node.intro node.intro signing_node_axioms.intro node_axioms.intro)
  show "leveldb_laws (svL ex_chain_svc) mem_view msnap_view Snap" using mem.leveldb_laws_axioms by simp
qed (simp_all add: table_json_rt table_codec_rt)

lemma ex_event_sel [simp]: "coStatus (upLatestChannel (ex_event st)) = st" "txLT (upTransaction (ex_event st)) = 7"
  "coAddress (upLatestChannel (ex_event st)) = ''a''" "CommittedSeqno (coStorage (upLatestChannel (ex_event st))) = 4"
  "WalletSeqno (coStorage (upLatestChannel (ex_event st))) = 0"
  by (simp_all add: ex_event_def ex_closing_storage_def)

lemma ex_verified: "verifyChannel (opCfg ex_op) (ex_pub True) (coStorage (upLatestChannel (ex_event st))) = (True, True, True)"
proof -
  have "ex_pub False \<noteq> ex_pub True" by (simp add: ex_pub_def)
  then show ?thesis by (simp add: verifyChannel_def ex_event_def ex_op_def ex_closing_storage_def ex_closing_def)
qed

lemma ex_addr: "event_addr ex_chain_svc ex_op (ex_event st) = Inr ''a''"
  by (simp add: event_addr_def ex_verified)

lemma ex_chain_stored: "stored_channel (table_json [ex_node_channel True, ex_followed]) (mem_view (ex_node_db True)) x =
    (if x = ''a'' then Some (ex_node_channel True) else None)"
  by (simp add: stored_channel_def ex_node_db_def mem_view_def table_json_def)

declare dbm_simps [simp] svm_simps [simp]

lemma ex_refresh: "\<exists>b'. refresh_balance ex_chain_svc n1 n2 True tx (ex_node_channel True) (OnTx d (Snap d) b) = (Inr (), OnTx d (Snap d) b')"
proof -
  have t: "\<exists>b'. createTask mem_db any_json task pool (OnTx d (Snap d) b) = (Inr (), OnTx d (Snap d) b') \<or>
      createTask mem_db any_json task pool (OnTx d (Snap d) b) = (Inl DbErrAlreadyExists, OnTx d (Snap d) b')" for task pool
    by (simp add: createTask_def any_json_def)
  have "\<exists>b'. create_task ex_chain_svc n1 n2 ty q i pl af ti (OnTx d (Snap d) b) = (Inr (), OnTx d (Snap d) b')" for ty q i pl af ti
    using t [of "new_task n1 n2 ty q i [] af ti" "''pn''"] by (auto simp: create_task_def CreateTask_def)
  then show ?thesis unfolding refresh_balance_def Let_def dwrap_Inr .
qed

lemma ex_side_update: "\<exists>b'. processSideUpdate ex_chain_svc clk True (ex_event ChannelStatusOpen) (ex_node_channel True) (OnTx d (Snap d) []) =
    (Inr (ex_followed\<lparr>DBVersion := 1\<rparr>), OnTx d (Snap d) b')"
proof -
  have s: "Our (ex_node_channel True) = ex_node_side True" "chStatus (ex_node_channel True) = ChannelStateActive"
    "LatestCommitedSeqno (ex_node_side True) = 0" "LatestWalletSeqno (ex_node_side True) = 0" "ActiveOnchain (ex_node_side True)"
    "map_of (PendingOnchainTransfers (ex_node_side True)) (pendingIDCommit 4) = None"
    by (simp_all add: ex_node_channel_def ex_channel_def ex_node_side_def ex_side_def pendingIDCommit_def)
  have a: "on_side True (\<lambda>sd. sd\<lparr>ActiveOnchain := True\<rparr>) (ex_node_channel True) = ex_node_channel True"
    using s(1,5) by (simp add: on_side_def)
  have f: "on_side True (record_update (ex_event ChannelStatusOpen)) (ex_node_channel True) = ex_followed\<lparr>DBVersion := 1\<rparr>"
    using s(1) by (simp add: on_side_def ex_followed_def)
  obtain b' where "refresh_balance ex_chain_svc (clk 14) (clk 15) True (upTransaction (ex_event ChannelStatusOpen)) (ex_node_channel True)
      (OnTx d (Snap d) []) = (Inr (), OnTx d (Snap d) b')" using ex_refresh by blast
  then show ?thesis
    using s a f by (simp add: processSideUpdate_def side_activity_def our_phase_def track_transfers_def side_at_def Let_def)
qed

lemma ex_settle_none: "\<not> is_settlement ex_chain_svc ex_op (ex_event st)"
  by (simp add: is_settlement_def ex_op_def ex_req_env_def ex_client_def no_msg_codec_def tlb_Parse_def)

lemma ex_handled: "\<exists>d'. handle_update ex_chain_svc ex_op ex_events (\<lambda>_ _ _. 5) (ex_event ChannelStatusOpen) (OnDB (ex_node_db True)) = (Inr Done, OnDB d')"
proof -
  let ?d = "ex_node_db True" and ?ch = "ex_node_channel True" and ?J = "table_json [ex_node_channel True, ex_followed]"
  define c1 where "c1 = ex_followed\<lparr>DBVersion := 1\<rparr>"
  have i: "DBVersion ?ch = 1" "LatestProcessedLT (Our ?ch) = 0" "chStatus ?ch = ChannelStateActive" "ActiveOnchain (Our ?ch)"
    "chStatus ex_followed = ChannelStateActive"
    by (simp_all add: ex_followed_def ex_node_channel_def ex_channel_def ex_node_side_def ex_side_def)
  have c1: "DBVersion c1 = 1" "sdAddress (Our c1) = ''a''" "c1\<lparr>DBVersion := 5\<rparr> = ex_followed" "DBVersion ex_followed = 5" "chStatus c1 = ChannelStateActive"
    by (simp_all add: c1_def ex_followed_def ex_node_channel_def ex_channel_def ex_node_side_def ex_side_def)
  have n: "?ch \<noteq> ex_followed"
  proof
    assume "?ch = ex_followed"
    then have "DBVersion ?ch = DBVersion ex_followed" by (rule arg_cong)
    with i(1) c1(4) show False by simp
  qed
  obtain b where p: "processSideUpdate ex_chain_svc (\<lambda>_. 5) True (ex_event ChannelStatusOpen) ?ch (OnTx ?d (Snap ?d) []) = (Inr c1, OnTx ?d (Snap ?d) b)"
    using ex_side_update [of "\<lambda>_. 5" ?d] unfolding c1_def by blast
  have u: "UpdateChannel mem_db ?J None 5 c1 (OnTx ?d (Snap ?d) b) = (Inr ex_followed, OnTx ?d (Snap ?d) (b @ [BPut (channel_key ''a'') ''1'']))"
  proof -
    have g: "GetChannel mem_db ?J ''a'' (OnTx ?d (Snap ?d) b) = (Inr ?ch, OnTx ?d (Snap ?d) b)"
      using ex_chain.get_channel [of "''a''" "OnTx ?d (Snap ?d) b" ?ch] ex_chain_stored [of "''a''"] by simp
    have m: "Marshal ?J ex_followed = Inr ''1''" using n by (simp add: table_json_def upt_conv_Cons)
    show ?thesis unfolding UpdateChannel_def Let_def c1(2,3) using g m i(1) c1(1) by (simp add: run_cb_def)
  qed
  have st: "\<exists>d'. store_update ex_chain_svc (\<lambda>_ _. 5) False True (ex_event ChannelStatusOpen) ?ch (OnDB ?d) = (Inr (Some ex_followed), OnDB d')"
    unfolding store_update_def set_channel_def ex_chain_sel using p u i(3,5) by simp
  have f: "find_channel ex_chain_svc ''a'' (OnDB ?d) = (Inr (Some ?ch), OnDB ?d)"
    using ex_chain_stored by (simp add: find_channel_def)
  have q: "scan_settlement ex_chain_svc ex_op ex_events c True (ex_event ChannelStatusOpen) ?ch (OnDB ?d) = (Inr ?ch, OnDB ?d)" for c
    using ex_settle_none [of ChannelStatusOpen] by (auto simp: scan_settlement_def is_settlement_def Let_def split: sum.splits)
  have r: "recover_state ex_chain_svc ex_events (ex_event ChannelStatusOpen) ?ch (OnDB ?d) = (Inr ?ch, OnDB ?d)"
    by (simp add: recover_state_def Let_def)
  from st obtain d' where "store_update ex_chain_svc (\<lambda>_ _. 5) False True (ex_event ChannelStatusOpen) ?ch (OnDB ?d) = (Inr (Some ex_followed), OnDB d')" ..
  then show ?thesis
    using f q r i by (simp add: handle_update_def ex_verified our_update_def Let_def) (simp add: ex_events_def ex_op_def)
qed


lemma ex_synced: "channels_synced ex_chain_svc (mem_view (ex_node_db True))"
proof -
  have "synced ex_chain_svc (ex_node_channel True)"
    by (simp add: synced_def LoadSignedState_def ex_node_channel_def ex_channel_def ex_node_side_def ex_side_def SideA_def SideB_def
        side_hashes_def dict_hash_def ton_dict_def empty_side_def)
  then show ?thesis
    using ex_chain_stored by (auto simp: channels_synced_def ex_node_channel_def ex_node_side_def ex_side_def split: if_splits)
qed


theorem lifecycle_refined_witness:
  "\<exists>ch' e'. side_updates ex_chain_svc (\<lambda>_ _. 5) [(True, ex_event ChannelStatusOpen)] (ex_node_channel True) (OnTx [] (Snap []) []) = (Inr ch', e') \<and>
     lifecycle_run [(True, ChannelStatusOpen)] (lifecycle_of (ex_node_channel True)) (lifecycle_of ch') \<and> lifecycle_ok (lifecycle_of ch')"
proof -
  obtain e' where r: "side_updates ex_chain_svc (\<lambda>_ _. 5) [(True, ex_event ChannelStatusOpen)] (ex_node_channel True) (OnTx [] (Snap []) []) =
      (Inr (ex_followed\<lparr>DBVersion := 1\<rparr>), e')" using ex_side_update [of "\<lambda>_. 5" "[]"] by auto
  have "lifecycle_ok (lifecycle_of (ex_node_channel True))"
    by (simp add: lifecycle_ok_def lifecycle_of_def ex_node_channel_def ex_channel_def)
  with lifecycle_refined [OF r] r show ?thesis by auto
qed

end
