(* ===== verification/Resolvers.thy ===== *)
theory Resolvers
  imports Operations
begin

text \<open>
  The on-chain resolver of a derivative: its storage and messages
  (\<^verbatim>\<open>pkg/payments/conditionals/contracts/derivatves.go\<close>), how the node builds, finds and deploys it, and how it
  commits a price to it (\<^verbatim>\<open>tonpayments/derivatives_resolver_contract.go\<close>, \<^verbatim>\<open>tonpayments/derivatives_resolve.go\<close>).
\<close>

section \<open>Contract data\<close>

record DerivativeConfig =
  dcOracleKey :: bytes
  dcQuarantineDuration :: uint32
  dcAcceptionWindow :: uint32
  dcAddressA :: address
  dcAddressB :: address

record DerivativeStorage =
  dsKey :: bytes
  dsConfig :: DerivativeConfig
  dsAmount :: int
  dsLeverage :: uint16
  dsIsLong :: bool
  dsEntryPrice :: int
  dsEntryAt :: uint32
  dsCreatedAt :: uint32
  dsExitAt :: uint32
  dsExitPrice :: int
  dsIsLiquidated :: bool
  dsQuarantineTill :: uint32

record 'c ProxySettle =
  pyToA :: bool
  pyMsg :: 'c

record 'c Commit =
  cmEntry :: "'c PriceInner"
  cmExit :: "'c PriceInner"

text \<open>A message of the node's own wallet.\<close>

record 'c wallet_out =
  woTo :: "address option"
  woAmount :: int
  woBody :: "'c option"
  woStateInit :: "('c \<times> 'c) option"
  woEC :: "(uint32 \<times> int) list"

text \<open>
  The codecs of the structures, the conversion of a nano amount to coins, the signer of the price provider of an
  asset, when it has one, and the wallet.
\<close>

record ('s, 'c) resolver_env =
  rvStorage :: "('s, 'c, DerivativeStorage) codec"
  rvProxySettle :: "('s, 'c, 'c ProxySettle) codec"
  rvPriceProof :: "('s, 'c, PriceProof) codec"
  rvCommit :: "('s, 'c, 'c Commit) codec"
  rvFromNano :: "int \<Rightarrow> nat \<Rightarrow> int res"
  rvSigner :: "uint32 \<Rightarrow> ('c \<Rightarrow> bytes res) option"
  rvWallet :: "'c wallet_out list \<Rightarrow> bytes res"

definition derivativeResolverQuarantineDuration :: uint32 where
  "derivativeResolverQuarantineDuration = 1"

definition derivativeResolverAcceptionWindow :: uint32 where
  "derivativeResolverAcceptionWindow = 10"

definition derivativeResolverDeployAmount :: int where
  "derivativeResolverDeployAmount = 50000000"

definition derivativeResolverProxyAmount :: int where
  "derivativeResolverProxyAmount = 30000000"

definition LoadDerivativeStorage ::
  "('b, 's, 'c) cell_lib \<Rightarrow> ('s, 'c) resolver_env \<Rightarrow> 'c option \<Rightarrow> DerivativeStorage res" where
  "LoadDerivativeStorage L R data = (case data of None \<Rightarrow> Inl (Errorf ''nil storage data'')
   | Some d \<Rightarrow> rwrap ''failed to parse derivative storage'' (tlb_Parse L (rvStorage R) d))"

definition BuildDerivativeStorage ::
  "('s, 'c) resolver_env \<Rightarrow> bytes \<Rightarrow> DerivativeConfig \<Rightarrow> int \<Rightarrow> uint16 \<Rightarrow> bool \<Rightarrow> int \<Rightarrow> uint32 \<Rightarrow> 'c res" where
  "BuildDerivativeStorage R key cfg amount leverage isLong entryPrice createdAt =
     (if length key \<noteq> 32 then Inl (Errorf ''key must be 32 bytes (256 bits)'')
      else rwrap ''failed to build derivative storage cell'' (ToCell (rvStorage R)
        \<lparr>dsKey = key, dsConfig = cfg, dsAmount = amount, dsLeverage = leverage, dsIsLong = isLong, dsEntryPrice = entryPrice, dsEntryAt = 0,
         dsCreatedAt = createdAt, dsExitAt = 0, dsExitPrice = 0, dsIsLiquidated = False, dsQuarantineTill = 0\<rparr>))"

section \<open>Building the resolver\<close>

definition resolveDerivativeOracleKey :: "('b, 's, 'c) rs_env \<Rightarrow> uint32 \<Rightarrow> bytes res" where
  "resolveDerivativeOracleKey E assetID = (case rePriceResolvers E assetID of
     None \<Rightarrow> Inl (Errorf ''price resolver is not configured for asset'')
   | Some r \<Rightarrow> (case GetProofPublicKey (Some r) of
       Some key \<Rightarrow> if length key = 32 then Inr key else Inl (Errorf ''price resolver proof key is unavailable for asset'')
     | None \<Rightarrow> Inl (Errorf ''price resolver proof key is unavailable for asset'')))"

definition buildDerivativeResolverContract ::
  "('b, 's, 'c, 'm, 'd, 't, 'j) svc \<Rightarrow> ('s, 'c) resolver_env \<Rightarrow> ('m, 'c) Channel \<Rightarrow> bytes \<Rightarrow> int \<Rightarrow> ConditionalResolvableDetails \<Rightarrow>
   (('c \<times> 'c) \<times> address \<times> 'c ResolvableInstructionDetails) res" where
  "buildDerivativeResolverContract S R ch key amount details = (let E = ceRS (svC S) in
     if length key \<noteq> 32 then Inl (Errorf ''invalid derivative key size'')
     else if amount < 0 then Inl (Errorf ''invalid derivative amount'')
     else if rdEntryPrice details \<le> 0 then Inl (Errorf ''invalid derivative entry price'')
     else rbind (rwrap ''failed to resolve derivative oracle key'' (resolveDerivativeOracleKey E (rdAssetID details))) (\<lambda>oracleKey.
     rbind (rwrap ''failed to convert derivative amount'' (rvFromNano R amount 9)) (\<lambda>amt.
     rbind (rwrap ''failed to convert derivative entry price'' (rvFromNano R (rdEntryPrice details) 9)) (\<lambda>entry.
     rbind (MustParseAddr S (sdAddress (SideA ch))) (\<lambda>a.
     rbind (MustParseAddr S (sdAddress (SideB ch))) (\<lambda>b.
     rbind (rwrap ''failed to build derivative resolver storage'' (BuildDerivativeStorage R key
       \<lparr>dcOracleKey = oracleKey, dcQuarantineDuration = derivativeResolverQuarantineDuration,
        dcAcceptionWindow = derivativeResolverAcceptionWindow, dcAddressA = a, dcAddressB = b\<rparr>
       amt (rdLeverage details) (rdIsLong details) entry 0)) (\<lambda>storage.
     rbind (rwrap ''failed to build derivative resolver state init'' (BuildDerivativeStateInit (reDerivativeCode E) (Some storage))) (\<lambda>si.
     rbind (rwrap ''failed to calc derivative resolver address'' (CalcDerivativeAddress (svCells S) (reStateInit E) si)) (\<lambda>addr.
     Inr (si, addr, \<lparr>ResolverContractCodeHash = CellHash (svCells S) (fst si), ResolverContractData = Some (snd si)\<rparr>))))))))))"

text \<open>The state init saved with the metadata of the derivative; its code must be the one that was agreed.\<close>

definition b64_res :: "string \<Rightarrow> string \<Rightarrow> bytes res" where
  "b64_res msg s = (case b64_decode s of (bs, err) \<Rightarrow> if err then Inl (Errorf msg) else Inr bs)"

definition loadDerivativeResolverStateInit ::
  "('b, 's, 'c, 'm, 'd, 't, 'j) svc \<Rightarrow> ('c, 'j) ConditionalMeta \<Rightarrow> ('c \<times> 'c) res" where
  "loadDerivativeResolverStateInit S meta = (case SpecialDetails meta of None \<Rightarrow> Inl ErrDerivativeResolverMetaMissing
   | Some j \<Rightarrow> (case djAny (svDJ S) j of Inl _ \<Rightarrow> Inl ErrDerivativeResolverMetaMissing
     | Inr packed \<Rightarrow> (case dmResolver packed of None \<Rightarrow> Inl ErrDerivativeResolverMetaMissing
       | Some r \<Rightarrow> if drDataBOC r = [] then Inl ErrDerivativeResolverMetaMissing
         else rbind (b64_res ''failed to decode resolver data BOC'' (drDataBOC r)) (\<lambda>boc.
         rbind (rwrap ''failed to parse resolver data BOC'' (FromBOC (tlK (svT S)) boc)) (\<lambda>data.
         rbind (BuildDerivativeStateInit (reDerivativeCode (ceRS (svC S))) (Some data)) (\<lambda>si.
         if drCodeHash r = [] then Inr si
         else rbind (b64_res ''failed to decode resolver code hash'' (drCodeHash r)) (\<lambda>want.
         if CellHash (svCells S) (fst si) \<noteq> want then Inl (Errorf ''resolver code hash mismatch'') else Inr si)))))))"

definition scheduleDerivativeResolverDeployTask ::
  "('b, 's, 'c, 'm, 'd, 't, 'j) svc \<Rightarrow> gtime \<Rightarrow> gtime \<Rightarrow> string \<Rightarrow> gtime option \<Rightarrow> gtime option \<Rightarrow> ('d, 't, unit) dbm" where
  "scheduleDerivativeResolverDeployTask S now1 now2 addr initAt executeAfter =
     dbind (case initAt of Some t \<Rightarrow> dret (unix_of t)
       | None \<Rightarrow> dbind (dtry (GetChannel (svL S) (svChannelJ S) addr)) (\<lambda>r. dret (case r of Inl _ \<Rightarrow> 0 | Inr ch \<Rightarrow> unix_of (InitAt ch)))) (\<lambda>initAt.
     create_task S now1 now2 ''deploy-derivative-resolvers'' (addr @ ''-derivative-resolvers'')
       (''deploy-derivative-resolvers-'' @ addr @ ''-'' @ int_text initAt) (ChannelTask addr) executeAfter None)"

section \<open>Deploying resolvers\<close>

text \<open>
  The resolver of one conditional: from its metadata, or built again; it is taken when its address is the one the
  conditional names and it was not taken before.
\<close>

definition resolver_init ::
  "('b, 's, 'c, 'm, 'd, 't, 'j) svc \<Rightarrow> ('s, 'c) resolver_env \<Rightarrow> ('m, 'c) Channel \<Rightarrow> 'c ConditionalResolvable \<Rightarrow> ('d, 't, ('c \<times> 'c) option) dbm" where
  "resolver_init S R ch cond =
     dbind (dtry (GetVirtualChannelMeta (svL S) (svMetaJ S) (crKey cond))) (\<lambda>m.
     dbind (dlift (case m of
         Inr meta \<Rightarrow> (case loadDerivativeResolverStateInit S meta of Inr si \<Rightarrow> Inr (Some si)
           | Inl err \<Rightarrow> if errors_is err ErrDerivativeResolverMetaMissing then Inr None
               else Inl (wrapf ''failed to load resolver state init from meta'' err))
       | Inl err \<Rightarrow> if errors_is err DbErrNotFound then Inr None else Inl (wrapf ''failed to load derivative meta'' err))) (\<lambda>si.
     case si of Some si \<Rightarrow> dret (Some si)
     | None \<Rightarrow> dbind (dtry (dlift (buildDerivativeResolverContract S R ch (crKey cond) (crAmount cond) (crDetails cond)))) (\<lambda>r.
         dret (case r of Inl _ \<Rightarrow> None | Inr (si, _) \<Rightarrow> Some si))))"

definition collect_resolver ::
  "('b, 's, 'c, 'm, 'd, 't, 'j) svc \<Rightarrow> ('s, 'c) resolver_env \<Rightarrow> ('m, 'c) Channel \<Rightarrow> 's \<Rightarrow> (address \<times> 'c \<times> 'c) list \<Rightarrow>
   ('d, 't, (address \<times> 'c \<times> 'c) list) dbm" where
  "collect_resolver S R ch v acc =
     (if BitsLeft (svCells S) v = 0 \<and> RefsNum (svCells S) v = 0 then dret acc
      else dbind (dtry (code_to_cond S (MustToCell (svCells S) v))) (\<lambda>r. case r of
        Inr (RCond cond) \<Rightarrow> (case crResolverAddr cond of None \<Rightarrow> dret acc
          | Some addr \<Rightarrow> if crAmount cond \<le> 0 \<or> addr \<in> fst ` set acc then dret acc
            else dbind (resolver_init S R ch cond) (\<lambda>si. case si of None \<Rightarrow> dret acc
              | Some si \<Rightarrow> dbind (dlift (rwrap ''failed to calc derivative resolver addr''
                  (CalcDerivativeAddress (svCells S) (reStateInit (ceRS (svC S))) si))) (\<lambda>calculated.
                dret (if calculated \<noteq> addr then acc else acc @ [(addr, si)]))))
      | _ \<Rightarrow> dret acc))"

primrec collect_resolvers ::
  "('b, 's, 'c, 'm, 'd, 't, 'j) svc \<Rightarrow> ('s, 'c) resolver_env \<Rightarrow> ('m, 'c) Channel \<Rightarrow> ('s \<times> 's) list \<Rightarrow> (address \<times> 'c \<times> 'c) list \<Rightarrow>
   ('d, 't, (address \<times> 'c \<times> 'c) list) dbm" where
  "collect_resolvers S R ch [] acc = dret acc"
| "collect_resolvers S R ch (kv # kvs) acc = dbind (collect_resolver S R ch (snd kv) acc) (\<lambda>acc. collect_resolvers S R ch kvs acc)"

definition collectChannelDerivativeResolvers ::
  "('b, 's, 'c, 'm, 'd, 't, 'j) svc \<Rightarrow> ('s, 'c) resolver_env \<Rightarrow> ('m, 'c) Channel \<Rightarrow> ('d, 't, (address \<times> 'c \<times> 'c) list) dbm" where
  "collectChannelDerivativeResolvers S R ch =
     dbind (dlift (rwrap ''failed to load conditionals'' (LoadAll (svD S) (adConditionals (sdData (Our ch)))))) (\<lambda>our.
     dbind (collect_resolvers S R ch our []) (\<lambda>acc.
     dbind (dlift (rwrap ''failed to load conditionals'' (LoadAll (svD S) (adConditionals (sdData (Their ch)))))) (\<lambda>their.
     collect_resolvers S R ch their acc)))"

text \<open>Deploys what is not on-chain yet; the result is what was sent.\<close>

fun deploy_resolvers ::
  "('b, 's, 'c, 'm) op_env \<Rightarrow> ('s, 'c) resolver_env \<Rightarrow> (address \<times> 'c \<times> 'c) list \<Rightarrow> 'c wallet_out list res" where
  "deploy_resolvers P R [] = Inr []"
| "deploy_resolvers P R ((addr, si) # rest) =
     rbind (rwrap ''failed to get resolver account state'' (xAccount (opX P) addr)) (\<lambda>acc.
     if acHasState acc then deploy_resolvers P R rest
     else let msg = \<lparr>woTo = None, woAmount = derivativeResolverDeployAmount, woBody = None, woStateInit = Some si, woEC = []\<rparr> in
       rbind (rwrap ''failed to deploy resolver'' (rvWallet R [msg])) (\<lambda>_.
       rbind (deploy_resolvers P R rest) (\<lambda>sent. Inr (msg # sent))))"

definition deployChannelDerivativeResolvers ::
  "('b, 's, 'c, 'm, 'd, 't, 'j) svc \<Rightarrow> ('b, 's, 'c, 'm) op_env \<Rightarrow> ('s, 'c) resolver_env \<Rightarrow> gtime \<Rightarrow> string \<Rightarrow> ('d, 't, 'c wallet_out list) dbm" where
  "deployChannelDerivativeResolvers S P R now addr = dbind (dtry (GetChannel (svL S) (svChannelJ S) addr)) (\<lambda>r. case r of
     Inl err \<Rightarrow> if errors_is err DbErrNotFound then dret [] else dlift (Inl (wrapf ''failed to get channel'' err))
   | Inr ch \<Rightarrow> if chStatus ch = ChannelStateInactive then dret []
     else dbind (dlift (onchain_channel S P now addr)) (\<lambda>och.
       if coStatus och = ChannelStatusOpen then dlift (Inl ErrStillPending)
       else if coStatus och = ChannelStatusUninitialized then dret []
       else dbind (collectChannelDerivativeResolvers S R ch) (\<lambda>found. dlift (deploy_resolvers P R found))))"

definition prepareDerivativeSettleProxyMessage ::
  "('s, 'c) resolver_env \<Rightarrow> 'c ChannelContract \<Rightarrow> 'c \<Rightarrow> address \<Rightarrow> (address \<times> 'c) res" where
  "prepareDerivativeSettleProxyMessage R och raw resolver =
     rbind (rwrap ''failed to wrap proxy settle'' (ToCell (rvProxySettle R) \<lparr>pyToA = stIsA (coStorage och), pyMsg = raw\<rparr>)) (\<lambda>body. Inr (resolver, body))"

section \<open>Committing a price\<close>

definition SignProofCell :: "('s, 'c) resolver_env \<Rightarrow> uint32 \<Rightarrow> 'c \<Rightarrow> bytes res" where
  "SignProofCell R asset proof = (case rvSigner R asset of None \<Rightarrow> Inl (Errorf ''resolver provider does not support proof signing'')
   | Some sign \<Rightarrow> sign proof)"

definition buildDerivativePriceInner :: "('s, 'c) resolver_env \<Rightarrow> uint32 \<Rightarrow> int \<Rightarrow> int \<Rightarrow> 'c PriceInner res" where
  "buildDerivativePriceInner R asset at' price =
     (if at' \<le> 0 \<or> 2 ^ 32 - 1 < at' then Inl (Errorf ''invalid price timestamp'')
      else if price \<le> 0 then Inl (Errorf ''invalid price'')
      else rbind (rwrap ''failed to convert price'' (rvFromNano R price 9)) (\<lambda>coins.
        rbind (rwrap ''failed to serialize price proof'' (ToCell (rvPriceProof R) \<lparr>ppAt = word_of_int at', ppPrice = coins\<rparr>)) (\<lambda>proof.
        rbind (rwrap ''failed to sign price proof'' (SignProofCell R asset proof)) (\<lambda>sig.
        Inr \<lparr>piSignature = sig, piSignedBody = Some proof\<rparr>))))"

definition buildDerivativeResolverCommitMessage ::
  "('s, 'c) resolver_env \<Rightarrow> uint32 \<Rightarrow> int \<Rightarrow> int \<Rightarrow> int \<Rightarrow> int \<Rightarrow> 'c res" where
  "buildDerivativeResolverCommitMessage R asset entryPrice entryAt exitAt exitPrice =
     rbind (rwrap ''failed to build derivative entry proof'' (buildDerivativePriceInner R asset entryAt entryPrice)) (\<lambda>entry.
     rbind (rwrap ''failed to build derivative exit proof'' (buildDerivativePriceInner R asset exitAt exitPrice)) (\<lambda>exit.
     ToCell (rvCommit R) \<lparr>cmEntry = entry, cmExit = exit\<rparr>))"

text \<open>The time and price of a resolve: those the resolver holds, or the last price, which is then committed to it.\<close>

definition resolve_price ::
  "('s, 'c) resolver_env \<Rightarrow> 'c Resolver \<Rightarrow> 'c ConditionalResolvable \<Rightarrow> gtime \<Rightarrow> DerivativeStorage \<Rightarrow> (int \<times> int) res" where
  "resolve_price R resolver cond createdAt storage =
     (let entryAt = (if dsCreatedAt storage \<noteq> 0 then uint (dsCreatedAt storage) else unix_of createdAt) in
      if dsExitAt storage \<noteq> 0 \<and> 0 < dsExitPrice storage then Inr (uint (dsExitAt storage), dsExitPrice storage)
      else (case GetLastPrice (Some resolver) of Inl err \<Rightarrow> Inl (wrapf ''failed to get current derivative price'' err)
        | Inr (at', price) \<Rightarrow> if price \<le> 0 then Inl (Errorf ''failed to get current derivative price'')
          else let entryAt = (if entryAt \<le> 0 \<or> at' \<le> entryAt then (if at' - 1 \<le> 0 then at' else at' - 1) else entryAt) in
            rbind (rwrap ''failed to build derivative resolver commit''
              (buildDerivativeResolverCommitMessage R (rdAssetID (crDetails cond)) (rdEntryPrice (crDetails cond)) entryAt at' price)) (\<lambda>body.
            rbind (rwrap ''failed to commit derivative resolver price'' (rvWallet R [\<lparr>woTo = crResolverAddr cond,
              woAmount = derivativeResolverProxyAmount, woBody = Some body, woStateInit = None, woEC = []\<rparr>])) (\<lambda>_. Inr (at', price)))))"

definition prepareDerivativeConditionalResolve ::
  "('b, 's, 'c, 'm, 'd, 't, 'j) svc \<Rightarrow> ('b, 's, 'c, 'm) op_env \<Rightarrow> ('s, 'c) resolver_env \<Rightarrow> (nat \<Rightarrow> gtime) \<Rightarrow> ('c, 'j) ConditionalMeta \<Rightarrow>
   'c ConditionalResolvable \<Rightarrow> ('d, 't, 'c) dbm" where
  "prepareDerivativeConditionalResolve S P R clk meta cond = (case crResolverAddr cond of None \<Rightarrow> dlift (Inl (Errorf ''resolver address is nil''))
   | Some addr \<Rightarrow> (case rePriceResolvers (ceRS (svC S)) (rdAssetID (crDetails cond)) of None \<Rightarrow> dlift (Inl (Errorf ''no price resolver for asset''))
     | Some resolver \<Rightarrow>
       dbind (dlift (
         rbind (rwrap ''failed to get derivative resolver state'' (xAccount (opX P) addr)) (\<lambda>acc.
         if \<not> acHasState acc then Inl (Errorf ''resolver is not deployed'')
         else rbind (rwrap ''failed to parse derivative resolver storage'' (LoadDerivativeStorage (svCells S) R (Some (acData acc)))) (\<lambda>storage.
         if rdEntryPrice (crDetails cond) \<le> 0 then Inl (Errorf ''invalid derivative entry price'')
         else rbind (resolve_price R resolver cond (cmCreatedAt meta) storage) (\<lambda>(at', price).
         rwrap ''failed to build derivative resolve'' (buildDerivativeResolveForPrice (ceRS (svC S)) cond at' price)))))) (\<lambda>resolve.
       case LastKnownResolve meta of Some _ \<Rightarrow> dret resolve
       | None \<Rightarrow>
         dbind (dlift (rwrap ''failed to persist derivative resolve'' (AddKnownResolve (svC S) (clk 0) meta (RCond cond) resolve True))) (\<lambda>meta.
         dbind (dwrap ''failed to update derivative meta'' (UpdateVirtualChannelMeta (svL S) (svMetaJ S) (meta\<lparr>cmUpdatedAt := clk 1\<rparr>))) (\<lambda>_.
         dret resolve)))))"

end
