(* ===== verification/Settlement.thy ===== *)
theory Settlement
  imports Resolvers
begin

text \<open>
  Settling an uncooperative closure on-chain: the messages that settle the conditionals of the other side and execute
  its actions, the tasks that send them, and the top-up of a channel. \<^verbatim>\<open>tonpayments/api.go\<close>.
\<close>

section \<open>Proofs\<close>

text \<open>
  A Merkle proof builder over a dictionary records what is read: the entries looked up, and the cells walked by
  \<open>MarkCellUsedRecursive\<close>. \<open>seProof\<close> is the proof of the library for a dictionary and what was used of it.
\<close>

datatype 'c used = UsedKey 'c | UsedCells "'c list"

definition MarkCellUsedRecursive :: "('b, 's, 'c) cell_lib \<Rightarrow> 'c \<Rightarrow> 'c used" where
  "MarkCellUsedRecursive L c = UsedCells (c # reach maxCellDepth L c)"

record ('s, 'c, 'm) settle_env =
  seR :: "('s, 'c) resolver_env"
  seProof :: "'m \<Rightarrow> 'c used list \<Rightarrow> 'c res"
  seAttach :: int

section \<open>Settling conditionals\<close>

definition conditionsPerMessage :: nat where
  "conditionsPerMessage = 30"

text \<open>
  The walk over the conditionals: the message under construction, the dictionaries it proves, the dictionaries after it,
  what its proofs use, and the messages built so far with their expected senders.
\<close>

record ('c, 'm) settling =
  sgToSettle :: 'm
  sgSender :: "address option"
  sgNum :: nat
  sgConds :: 'm
  sgActs :: 'm
  sgUpdConds :: 'm
  sgUpdActs :: 'm
  sgCondUsed :: "'c used list"
  sgActUsed :: "'c used list"
  sgMsgs :: "('c \<times> address option) list"
  sgResolved :: nat
  sgPending :: nat

definition settle_signed :: "bytes \<Rightarrow> ('c, 'm) settling \<Rightarrow> 'c \<Rightarrow> 'c \<Rightarrow> ('m, 'c) SettleSigned" where
  "settle_signed channelID sg condProof actProof = \<lparr>ssChannelID = channelID, ssExpectedSender = sgSender sg, ssWalletSeqno = 0,
     ssToSettle = sgToSettle sg, ssConditionalsProof = condProof, ssActionsInputProof = actProof\<rparr>"

definition sign_settle :: "('b, 's, 'c, 'm, 'd, 't, 'j) svc \<Rightarrow> ('b, 's, 'c, 'm) op_env \<Rightarrow> string \<Rightarrow> string \<Rightarrow> ('m, 'c) SettleSigned \<Rightarrow> 'c res" where
  "sign_settle S P msg1 msg2 sbody =
     rbind (rwrap msg1 (ToCell (mcSigned (ctSettle (opC P))) sbody)) (\<lambda>dataCell.
     rwrap msg2 (ToCell (mcMsg (ctSettle (opC P))) \<lparr>msSignature = svSign S (svKey S) (CellHash (svCells S) dataCell), msSigned = sbody\<rparr>))"

definition add_message ::
  "('b, 's, 'c, 'm, 'd, 't, 'j) svc \<Rightarrow> ('b, 's, 'c, 'm) op_env \<Rightarrow> ('s, 'c, 'm) settle_env \<Rightarrow> bytes \<Rightarrow> ('c, 'm) settling \<Rightarrow> ('c, 'm) settling res" where
  "add_message S P Z channelID sg = (if DictIsEmpty (svD S) (sgToSettle sg) then Inr sg
     else rbind (seProof Z (sgConds sg) (sgCondUsed sg)) (\<lambda>condProof.
       rbind (seProof Z (sgActs sg) (sgActUsed sg)) (\<lambda>actProof.
       rbind (sign_settle S P ''failed to serialize body to cell'' ''failed to serialize message to cell''
         (settle_signed channelID sg condProof actProof)) (\<lambda>msg.
       Inr (sg\<lparr>sgMsgs := sgMsgs sg @ [(msg, sgSender sg)]\<rparr>)))))"

definition flush_message ::
  "('b, 's, 'c, 'm, 'd, 't, 'j) svc \<Rightarrow> ('b, 's, 'c, 'm) op_env \<Rightarrow> ('s, 'c, 'm) settle_env \<Rightarrow> bytes \<Rightarrow> ('c, 'm) settling \<Rightarrow> ('c, 'm) settling res" where
  "flush_message S P Z channelID sg = (if sgNum sg = 0 then Inr sg
     else rbind (add_message S P Z channelID sg) (\<lambda>sg.
       Inr (sg\<lparr>sgNum := 0, sgConds := sgUpdConds sg, sgActs := sgUpdActs sg, sgCondUsed := [], sgActUsed := [], sgSender := None,
         sgToSettle := opEmpty P\<rparr>)))"

text \<open>
  One resolved conditional: executed against the action state of the dictionary that the message proves. A failing
  step leaves what was done before it and goes on with the next conditional.
\<close>

definition settle_resolved ::
  "('b, 's, 'c, 'm, 'd, 't, 'j) svc \<Rightarrow> 'c \<Rightarrow> 'c conditional \<Rightarrow> 'c \<Rightarrow> ('c, 'm) settling \<Rightarrow>
   (bool \<times> ('c, 'm) settling) res" where
  "settle_resolved S key vch resolve sg = (let D = svD S in
     rbind (IDCell S (Cond_GetAction vch)) (\<lambda>aid.
     case LoadValue D (sgActs sg) aid of Inl _ \<Rightarrow> Inr (False, sg\<lparr>sgActUsed := sgActUsed sg @ [UsedKey aid]\<rparr>)
     | Inr act \<Rightarrow>
       let actionState = MustToCell (svCells S) act;
           sg = sg\<lparr>sgActUsed := sgActUsed sg @ [UsedKey aid, MarkCellUsedRecursive (svCells S) actionState]\<rparr> in
       (case Cond_Execute (svC S) vch actionState resolve (Some Map.empty) of
         Inl err \<Rightarrow> if is_panic err then Inl err else Inr (False, sg)
       | Inr (updatedState, _) \<Rightarrow> (case DictSet D (sgToSettle sg) key resolve of Inl _ \<Rightarrow> Inr (False, sg)
         | Inr toSettle \<Rightarrow>
           let sg = sg\<lparr>sgToSettle := toSettle\<rparr> in
           (case LoadValue D (sgConds sg) key of Inl _ \<Rightarrow> Inr (False, sg\<lparr>sgCondUsed := sgCondUsed sg @ [UsedKey key]\<rparr>)
           | Inr cv \<Rightarrow>
             let sg = sg\<lparr>sgCondUsed := sgCondUsed sg @ [UsedKey key, MarkCellUsedRecursive (svCells S) (MustToCell (svCells S) cv)], sgNum := sgNum sg + 1\<rparr> in
             (case DictSet D (sgUpdConds sg) key (EndCell (svCells S) (BeginCell (svCells S))) of Inl _ \<Rightarrow> Inr (False, sg)
             | Inr conds \<Rightarrow>
               let sg = sg\<lparr>sgUpdConds := conds\<rparr> in
               (case DictSet D (sgUpdActs sg) aid updatedState of Inl _ \<Rightarrow> Inr (False, sg)
               | Inr acts \<Rightarrow> Inr (True, sg\<lparr>sgUpdActs := acts\<rparr>))))))))"

text \<open>The resolve of a conditional, and the resolver that must send the message when it is a derivative.\<close>

definition settle_input ::
  "('b, 's, 'c, 'm, 'd, 't, 'j) svc \<Rightarrow> ('b, 's, 'c, 'm) op_env \<Rightarrow> ('s, 'c, 'm) settle_env \<Rightarrow> (nat \<Rightarrow> gtime) \<Rightarrow> 's \<Rightarrow>
   ('d, 't, ('c conditional \<times> 'c option \<times> address option) option) dbm" where
  "settle_input S P Z clk v = dbind (dtry (
     dbind (code_to_cond S (MustToCell (svCells S) v)) (\<lambda>vch.
     dbind (GetVirtualChannelMeta (svL S) (svMetaJ S) (Cond_GetKey vch)) (\<lambda>meta.
     case vch of VCond _ \<Rightarrow> dret (vch, LastKnownResolve meta, None)
     | RCond drv \<Rightarrow> (case crResolverAddr drv of None \<Rightarrow> dret (vch, LastKnownResolve meta, None)
       | Some addr \<Rightarrow> (case LastKnownResolve meta of Some r \<Rightarrow> dret (vch, Some r, Some addr)
         | None \<Rightarrow> dbind (prepareDerivativeConditionalResolve S P (seR Z) clk meta drv) (\<lambda>r. dret (vch, Some r, Some addr)))))))) (\<lambda>r.
     dret (case r of Inl _ \<Rightarrow> None | Inr x \<Rightarrow> Some x))"

definition settle_conditional ::
  "('b, 's, 'c, 'm, 'd, 't, 'j) svc \<Rightarrow> ('b, 's, 'c, 'm) op_env \<Rightarrow> ('s, 'c, 'm) settle_env \<Rightarrow> (nat \<Rightarrow> gtime) \<Rightarrow> bytes \<Rightarrow> 's \<times> 's \<Rightarrow>
   ('c, 'm) settling \<Rightarrow> ('d, 't, ('c, 'm) settling) dbm" where
  "settle_conditional S P Z clk channelID kv sg =
     (if RefsNum (svCells S) (snd kv) = 0 \<and> BitsLeft (svCells S) (snd kv) = 0 then dret sg
      else let sg = sg\<lparr>sgPending := sgPending sg + 1\<rparr> in
      dbind (settle_input S P Z clk (snd kv)) (\<lambda>inp. case inp of
        Some (vch, Some resolve, sender) \<Rightarrow> dlift (
          rbind (if sender \<noteq> None \<and> 0 < sgNum sg then flush_message S P Z channelID sg else Inr sg) (\<lambda>sg.
          let sg = (if sender \<noteq> None then sg\<lparr>sgSender := sender\<rparr> else sg) in
          rbind (settle_resolved S (MustToCell (svCells S) (fst kv)) vch resolve sg) (\<lambda>(ok, sg).
          if \<not> ok then Inr sg
          else rbind (if sender \<noteq> None \<or> sgNum sg = conditionsPerMessage then flush_message S P Z channelID sg else Inr sg) (\<lambda>sg.
            Inr (sg\<lparr>sgResolved := sgResolved sg + 1\<rparr>)))))
      | _ \<Rightarrow> dret sg))"

primrec settle_conditionals ::
  "('b, 's, 'c, 'm, 'd, 't, 'j) svc \<Rightarrow> ('b, 's, 'c, 'm) op_env \<Rightarrow> ('s, 'c, 'm) settle_env \<Rightarrow> (nat \<Rightarrow> nat \<Rightarrow> gtime) \<Rightarrow> bytes \<Rightarrow> ('s \<times> 's) list \<Rightarrow>
   ('c, 'm) settling \<Rightarrow> ('d, 't, ('c, 'm) settling) dbm" where
  "settle_conditionals S P Z clk channelID [] sg = dret sg"
| "settle_conditionals S P Z clk channelID (kv # kvs) sg =
     dbind (settle_conditional S P Z (clk (length kvs)) channelID kv sg) (\<lambda>sg. settle_conditionals S P Z clk channelID kvs sg)"

definition settle_start :: "('b, 's, 'c, 'm) op_env \<Rightarrow> ('m, 'c) Channel \<Rightarrow> ('c, 'm) settling" where
  "settle_start P ch = (let conds = adConditionals (sdData (Their ch)); acts = adActionStates (sdData (Their ch)) in
     \<lparr>sgToSettle = opEmpty P, sgSender = None, sgNum = 0, sgConds = conds, sgActs = acts, sgUpdConds = conds, sgUpdActs = acts,
      sgCondUsed = [], sgActUsed = [], sgMsgs = [], sgResolved = 0, sgPending = 0\<rparr>)"

text \<open>A task per message and one that finalises; a task that cannot be created is only logged.\<close>

fun settle_tasks ::
  "('b, 's, 'c, 'm, 'd, 't, 'j) svc \<Rightarrow> (nat \<Rightarrow> nat \<Rightarrow> gtime) \<Rightarrow> ('m, 'c) Channel \<Rightarrow> nat \<Rightarrow> ('c \<times> address option) list \<Rightarrow> ('d, 't, unit) dbm" where
  "settle_tasks S clk ch i [] = dret ()"
| "settle_tasks S clk ch i ((msg, sender) # rest) = (let our = sdAddress (Our ch);
       after = (if sender \<noteq> None then Some (clk i 0 + unix (uint (derivativeResolverQuarantineDuration + 1))) else None) in
     dbind (dtry (create_task S (clk i 1) (clk i 2) ''settle-step'' (our @ ''-settle'') (''settle-'' @ our @ ''-'' @ nat_text i)
       (SettleConditionalStepTask (int i) our msg (Some (InitAt ch))) after None)) (\<lambda>_. settle_tasks S clk ch (i + 1) rest))"

definition settleChannelConditionals ::
  "('b, 's, 'c, 'm, 'd, 't, 'j) svc \<Rightarrow> ('b, 's, 'c, 'm) op_env \<Rightarrow> ('s, 'c, 'm) settle_env \<Rightarrow> gtime \<Rightarrow> (nat \<Rightarrow> nat \<Rightarrow> nat \<Rightarrow> gtime) \<Rightarrow> string \<Rightarrow>
   ('d, 't, unit) dbm" where
  "settleChannelConditionals S P Z now clk addr = dbind (dwrap ''failed to get channel'' (GetChannel (svL S) (svChannelJ S) addr)) (\<lambda>ch.
     if chStatus ch = ChannelStateInactive \<or> DictIsEmpty (svD S) (adActionStates (sdData (Their ch))) then dret ()
     else dbind (dlift (onchain_channel S P now addr)) (\<lambda>och.
       if coStatus och \<in> {ChannelStatusExecutingActions, ChannelStatusAwaitingFinalization, ChannelStatusUninitialized} then dret ()
       else dbind (dlift (rwrap ''failed to load their conditions dict'' (LoadAll (svD S) (adConditionals (sdData (Their ch)))))) (\<lambda>all.
         dbind (settle_conditionals S P Z (clk 0) (chID ch) all (settle_start P ch)) (\<lambda>sg.
         dbind (dlift (flush_message S P Z (chID ch) sg)) (\<lambda>sg.
         dwrap ''failed to add tasks'' (Transaction (svL S) (
           dbind (settle_tasks S (clk 1) ch 0 (sgMsgs sg)) (\<lambda>_.
           dbind (dtry (create_task S (clk 2 0 0) (clk 2 0 1) ''settle-fin'' (sdAddress (Our ch) @ ''-settle'') (''settle-'' @ sdAddress (Our ch) @ ''-finish'')
             (FinalizeSettleTask (sdAddress (Our ch)) (CellHash (svCells S) (DictAsCell (svD S) (sgUpdActs sg)))) None None)) (\<lambda>_. dret ())))))))))"

section \<open>Executing actions\<close>

record ('c, 'm) executing =
  exActs :: 'm
  exOurProof :: "'c option"
  exMsgs :: "'c list"

definition sign_execute :: "('b, 's, 'c, 'm, 'd, 't, 'j) svc \<Rightarrow> ('b, 's, 'c, 'm) op_env \<Rightarrow> 'c ExecuteSigned \<Rightarrow> 'c res" where
  "sign_execute S P sbody =
     rbind (rwrap ''failed to serialize body to cell'' (ToCell (mcSigned (ctExecute (opC P))) sbody)) (\<lambda>dataCell.
     rwrap ''failed to serialize message to cell'' (ToCell (mcMsg (ctExecute (opC P)))
       \<lparr>msSignature = svSign S (svKey S) (CellHash (svCells S) dataCell), msSigned = sbody\<rparr>))"

text \<open>
  One action of the other side, with the proofs of both sides' states; the proofs are swapped because the message runs on
  the contract of the other side. An action that is skipped leaves the dictionary as it was.
\<close>

definition execute_action ::
  "('b, 's, 'c, 'm, 'd, 't, 'j) svc \<Rightarrow> ('b, 's, 'c, 'm) op_env \<Rightarrow> ('s, 'c, 'm) settle_env \<Rightarrow> ('m, 'c) Channel \<Rightarrow> 's \<times> 's \<Rightarrow>
   ('c, 'm) executing \<Rightarrow> ('d, 't, ('c, 'm) executing) dbm" where
  "execute_action S P Z ch kv ex = (let L = svCells S; D = svD S; key = MustToCell L (fst kv); our = adActionStates (sdData (Our ch)) in
     if RefsNum L (snd kv) = 0 \<and> BitsLeft L (snd kv) = 0 then dret ex
     else dbind (dlift (must_load (LoadSlice L (fst kv) 256))) (\<lambda>(actId, _).
     dbind (dtry (stored_action S actId)) (\<lambda>a. case a of Inl _ \<Rightarrow> dret ex
     | Inr act \<Rightarrow> dlift (case LoadValue D (exActs ex) key of Inl _ \<Rightarrow> Inr ex
       | Inr theirState \<Rightarrow>
         (case (case LoadValue D our key of
             Inl err \<Rightarrow> if errors_is err ErrNoSuchKeyInDict then Some [UsedKey key] else None
           | Inr st \<Rightarrow> Some [UsedKey key, MarkCellUsedRecursive L (MustToCell L st)]) of
           None \<Rightarrow> Inr ex
         | Some ourUsed \<Rightarrow>
           rbind (seProof Z (exActs ex) [UsedKey key, MarkCellUsedRecursive L (MustToCell L theirState)]) (\<lambda>theirProof.
           rbind (if DictIsEmpty D our then Inr (exOurProof ex) else rbind (seProof Z our ourUsed) (\<lambda>p. Inr (Some p))) (\<lambda>ourProof.
           rbind (Action_Serialize (svA S) act) (\<lambda>code.
           let ex = ex\<lparr>exOurProof := ourProof\<rparr> in
           (case DictSet D (exActs ex) key (EndCell (svCells S) (BeginCell (svCells S))) of Inl _ \<Rightarrow> Inr ex
           | Inr acts \<Rightarrow> rbind (sign_execute S P \<lparr>xsChannelID = chID ch, xsAction = code, xsOurActionsInputProof = theirProof,
               xsTheirActionsInputProof = ourProof\<rparr>) (\<lambda>msg. Inr (ex\<lparr>exActs := acts, exMsgs := exMsgs ex @ [msg]\<rparr>)))))))))))"

primrec execute_actions ::
  "('b, 's, 'c, 'm, 'd, 't, 'j) svc \<Rightarrow> ('b, 's, 'c, 'm) op_env \<Rightarrow> ('s, 'c, 'm) settle_env \<Rightarrow> ('m, 'c) Channel \<Rightarrow> ('s \<times> 's) list \<Rightarrow>
   ('c, 'm) executing \<Rightarrow> ('d, 't, ('c, 'm) executing) dbm" where
  "execute_actions S P Z ch [] ex = dret ex"
| "execute_actions S P Z ch (kv # kvs) ex = dbind (execute_action S P Z ch kv ex) (\<lambda>ex. execute_actions S P Z ch kvs ex)"

primrec action_tasks ::
  "('b, 's, 'c, 'm, 'd, 't, 'j) svc \<Rightarrow> (nat \<Rightarrow> nat \<Rightarrow> gtime) \<Rightarrow> ('m, 'c) Channel \<Rightarrow> nat \<Rightarrow> 'c list \<Rightarrow> ('d, 't, unit) dbm" where
  "action_tasks S clk ch i [] = dret ()"
| "action_tasks S clk ch i (msg # rest) = (let our = sdAddress (Our ch) in
     dbind (dtry (create_task S (clk i 0) (clk i 1) ''settle-act-step'' (our @ ''-act-settle'') (''act-settle-'' @ our @ ''-'' @ nat_text i)
       (SettleActionStepTask (int i) our msg (Some (InitAt ch))) None None)) (\<lambda>_. action_tasks S clk ch (i + 1) rest))"

definition settleChannelActions ::
  "('b, 's, 'c, 'm, 'd, 't, 'j) svc \<Rightarrow> ('b, 's, 'c, 'm) op_env \<Rightarrow> ('s, 'c, 'm) settle_env \<Rightarrow> gtime \<Rightarrow> (nat \<Rightarrow> nat \<Rightarrow> gtime) \<Rightarrow> string \<Rightarrow>
   ('d, 't, unit) dbm" where
  "settleChannelActions S P Z now clk addr = dbind (dwrap ''failed to get channel'' (GetChannel (svL S) (svChannelJ S) addr)) (\<lambda>ch.
     if DictIsEmpty (svD S) (adActionStates (sdData (Their ch))) then dret ()
     else dbind (dlift (onchain_channel S P now addr)) (\<lambda>och.
       if coStatus och = ChannelStatusAwaitingFinalization \<or> coStatus och = ChannelStatusUninitialized then dret ()
       else if coStatus och \<noteq> ChannelStatusExecutingActions then dlift (Inl (Errorf ''channel is not in executing actions state yet''))
       else if \<not> IsSettlementFinalized (Our ch) then dlift (Inl (Errorf ''conditionals settle is not yet finalized''))
       else dbind (dlift (rwrap ''failed to load their actions dict'' (LoadAll (svD S) (adActionStates (sdData (Their ch)))))) (\<lambda>all.
         dbind (execute_actions S P Z ch all \<lparr>exActs = adActionStates (sdData (Their ch)), exOurProof = None, exMsgs = []\<rparr>) (\<lambda>ex.
         let pending = length (filter (\<lambda>kv. \<not> (RefsNum (svCells S) (snd kv) = 0 \<and> BitsLeft (svCells S) (snd kv) = 0)) all) in
         if pending = 0 then dret ()
         else if length (exMsgs ex) \<noteq> pending then dlift (Inl (Errorf ''cannot settle actions partially''))
         else action_tasks S clk ch 0 (exMsgs ex)))))"

section \<open>Sending the steps\<close>

text \<open>\<open>proof_hash\<close> is the hash a Merkle proof cell carries: 8 bits of type and 256 of hash.\<close>

definition proof_hash :: "('b, 's, 'c, 'm, 'd, 't, 'j) svc \<Rightarrow> 'c \<Rightarrow> bytes res" where
  "proof_hash S c = rbind (must_load (LoadSlice (svCells S) (BeginParse (svCells S) c) (8 + 256))) (\<lambda>(b, _). Inr (tl b))"

definition executeSettleActionStep ::
  "('b, 's, 'c, 'm, 'd, 't, 'j) svc \<Rightarrow> ('b, 's, 'c, 'm) op_env \<Rightarrow> (nat \<Rightarrow> gtime) \<Rightarrow> string \<Rightarrow> 'c \<Rightarrow> ('d, 't, (address \<times> 'c) option) dbm" where
  "executeSettleActionStep S P clk addr raw =
     dbind (dlift (rwrap ''failed to load execute message'' (tlb_Parse (svCells S) (mcMsg (ctExecute (opC P))) raw))) (\<lambda>mm.
     dbind (dwrap ''failed to get channel'' (GetChannel (svL S) (svChannelJ S) addr)) (\<lambda>ch.
     if chStatus ch = ChannelStateInactive then dret None
     else dlift (
       rbind (MustParseAddr S (sdAddress (Our ch))) (\<lambda>a.
       rbind (rwrap ''failed to check balance'' (CheckAddrBalance S P a [] 0)) (\<lambda>_.
       rbind (onchain_channel S P (clk 0) (sdAddress (Our ch))) (\<lambda>ourC.
       rbind (onchain_channel S P (clk 1) (sdAddress (Their ch))) (\<lambda>theirC.
       case Quarantine (coStorage theirC) of None \<Rightarrow> Inl (Errorf ''their channel is not quarantined'')
       | Some q \<Rightarrow>
         rbind (proof_hash S (xsOurActionsInputProof (msSigned mm))) (\<lambda>h.
         if ActionsToExecuteHash q \<noteq> h then Inl (Errorf ''their proof hash mismatch'')
         else rbind (case xsTheirActionsInputProof (msSigned mm) of None \<Rightarrow> Inr ()
           | Some p \<Rightarrow> rbind (proof_hash S p) (\<lambda>h. case qsTheirState q of None \<Rightarrow> Inl (Panic ''nil pointer dereference'')
             | Some st \<Rightarrow> if ActionStatesHash st \<noteq> h then Inl (Errorf ''our proof hash mismatch'') else Inr ())) (\<lambda>_.
         let sbody = \<lparr>pxChannelID = stChannelID (coStorage ourC), pxWalletSeqno = WalletSeqno (coStorage ourC), pxMsg = mm\<rparr> in
         rbind (rwrap ''failed to serialize to sign body to cell'' (ToCell (mcSigned (ctProxy (opC P))) sbody)) (\<lambda>dataCell.
         rbind (rwrap ''failed to serialize wrap body to cell'' (ToCell (mcMsg (ctProxy (opC P)))
           \<lparr>msSignature = svSign S (svKey S) (CellHash (svCells S) dataCell), msSigned = sbody\<rparr>)) (\<lambda>msg.
         rbind (rwrap ''failed to send external message'' (xSend (opX P) a msg)) (\<lambda>_. Inr (Some (a, msg))))))))))))))"

text \<open>The result is the external message, or the message of the wallet when a resolver must send the step.\<close>

definition executeSettleStep ::
  "('b, 's, 'c, 'm, 'd, 't, 'j) svc \<Rightarrow> ('b, 's, 'c, 'm) op_env \<Rightarrow> ('s, 'c, 'm) settle_env \<Rightarrow> gtime \<Rightarrow> string \<Rightarrow> 'c \<Rightarrow>
   ('d, 't, ((address \<times> 'c) + 'c wallet_out) option) dbm" where
  "executeSettleStep S P Z now addr raw =
     dbind (dlift (rwrap ''failed to load execute message'' (tlb_Parse (svCells S) (mcMsg (ctSettle (opC P))) raw))) (\<lambda>parsed.
     dbind (dwrap ''failed to get channel'' (GetChannel (svL S) (svChannelJ S) addr)) (\<lambda>ch.
     if chStatus ch = ChannelStateInactive then dret None
     else dlift (
       rbind (onchain_channel S P now (sdAddress (Our ch))) (\<lambda>och.
       let sbody = (msSigned parsed)\<lparr>ssWalletSeqno := WalletSeqno (coStorage och)\<rparr> in
       rbind (sign_settle S P ''failed to serialize to sign body to cell'' ''failed to serialize wrap body to cell'' sbody) (\<lambda>msg.
       case ssExpectedSender sbody of
         Some sender \<Rightarrow>
           rbind (rwrap ''failed to get derivative resolver state'' (xAccount (opX P) sender)) (\<lambda>acc.
           if \<not> acHasState acc then Inl ErrStillPending
           else rbind (rwrap ''failed to parse derivative resolver storage'' (LoadDerivativeStorage (svCells S) (seR Z) (Some (acData acc)))) (\<lambda>storage.
           if dsExitAt storage = 0 then Inl ErrStillPending
           else rbind (rwrap ''failed to check wallet balance'' (CheckWalletBalance S P [] derivativeResolverProxyAmount)) (\<lambda>_.
           rbind (rwrap ''failed to build derivative settle proxy message'' (prepareDerivativeSettleProxyMessage (seR Z) och msg sender)) (\<lambda>(target, body).
           let out = \<lparr>woTo = Some target, woAmount = derivativeResolverProxyAmount, woBody = Some body, woStateInit = None, woEC = []\<rparr> in
           rbind (rwrap ''failed to send proxy settle transaction'' (rvWallet (seR Z) [out])) (\<lambda>_. Inr (Some (Inr out)))))))
       | None \<Rightarrow>
           rbind (MustParseAddr S (sdAddress (Our ch))) (\<lambda>a.
           rbind (rwrap ''failed to check balance'' (CheckAddrBalance S P a [] 0)) (\<lambda>_.
           rbind (rwrap ''failed to send external message'' (xSend (opX P) a msg)) (\<lambda>_. Inr (Some (Inl (a, msg)))))))))))"

definition executeSettleFinalize ::
  "('b, 's, 'c, 'm, 'd, 't, 'j) svc \<Rightarrow> ('b, 's, 'c, 'm) op_env \<Rightarrow> gtime \<Rightarrow> string \<Rightarrow> bytes \<Rightarrow> ('d, 't, (address \<times> 'c) option) dbm" where
  "executeSettleFinalize S P now addr actionsHash = dbind (dwrap ''failed to get channel'' (GetChannel (svL S) (svChannelJ S) addr)) (\<lambda>ch.
     if chStatus ch = ChannelStateInactive then dret None
     else dlift (
       rbind (MustParseAddr S (sdAddress (Our ch))) (\<lambda>a.
       rbind (rwrap ''failed to check balance'' (CheckAddrBalance S P a [] 0)) (\<lambda>_.
       rbind (onchain_channel S P now (sdAddress (Our ch))) (\<lambda>och.
       case Quarantine (coStorage och) of None \<Rightarrow> Inl ErrStillPending
       | Some q \<Rightarrow> (case qsTheirState q of None \<Rightarrow> Inl ErrStillPending
         | Some st \<Rightarrow> if OurSettlementFinalized q then Inr None
           else if ActionStatesHash st \<noteq> actionsHash then Inl ErrStillPending
           else rbind (rwrap ''failed to prepare finalize settle message'' (PrepareFinalizeSettleMessage (opC P) och (svKey S) actionsHash)) (\<lambda>msg.
             rbind (rwrap ''failed to send external message'' (xSend (opX P) a msg)) (\<lambda>_. Inr (Some (a, msg))))))))))"

section \<open>Top-up\<close>

text \<open>What the wallet must hold besides the amount: the fees, and what the deployment of the contract takes.\<close>

definition activation_amount :: "int \<Rightarrow> ('m, 'c) Channel \<Rightarrow> int" where
  "activation_amount attach ch = (if ActiveOnchain (Our ch) then 0 else attach * 4 + 50000000)"

definition check_topup ::
  "('b, 's, 'c, 'm, 'd, 't, 'j) svc \<Rightarrow> ('b, 's, 'c, 'm) op_env \<Rightarrow> ('s, 'c) resolver_env \<Rightarrow> int \<Rightarrow> CoinConfig \<Rightarrow> int \<Rightarrow> unit res" where
  "check_topup S P R activation cc amount = (let fee = 90000000 + activation in
     if BalanceID cc = GetTONBalanceID then rbind (rwrap ''failed to convert amount to nano'' (rvFromNano R (amount + fee) 9)) (\<lambda>toCheck.
       rwrap ''failed to check ton balance'' (CheckWalletBalance S P [] toCheck))
     else rbind (rwrap ''failed to check ton balance'' (CheckWalletBalance S P [] fee)) (\<lambda>_.
       rwrap ''failed to check coin balance'' (CheckWalletBalance S P (BalanceID cc) amount)))"

definition topup_messages ::
  "('b, 's, 'c, 'm, 'd, 't, 'j) svc \<Rightarrow> ('b, 's, 'c, 'm) op_env \<Rightarrow> ('s, 'c) resolver_env \<Rightarrow> ('c TransferPayload \<Rightarrow> 'c res) \<Rightarrow> uint64 \<Rightarrow> int \<Rightarrow> ('m, 'c) Channel \<Rightarrow> string \<Rightarrow>
   CoinConfig \<Rightarrow> int \<Rightarrow> 'c wallet_out list res" where
  "topup_messages S P R jettonBody rnd activation ch addr cc amount =
     rbind (if ActiveOnchain (Our ch) then Inr []
       else (case first_some (\<lambda>cd. if CellHash (svCells S) cd = CodeHash ch then Some cd else None) (PaymentChannelCodes (opC P)) of
         None \<Rightarrow> Inl (Errorf ''failed to find channel code'')
       | Some code \<Rightarrow> (case InitialData ch of None \<Rightarrow> Inl (Panic ''nil pointer dereference'')
         | Some data \<Rightarrow> Inr [\<lparr>woTo = None, woAmount = activation, woBody = InitMessageBody ch, woStateInit = Some (code, data), woEC = []\<rparr>]))) (\<lambda>deploy.
     rbind (case CoinJettonClient cc of
       Some jc \<Rightarrow>
         rbind (rwrap ''failed to get jetton wallet'' (GetWalletAddress jc (Some (xWallet (opX P))))) (\<lambda>jw.
         rbind (MustParseAddr S addr) (\<lambda>a.
         rbind (rwrap ''failed to build transfer payload'' (rwrap ''failed to convert TransferPayload to cell'' (jettonBody
           \<lparr>tpQueryID = rnd, tpAmount = amount, tpDestination = Some a, tpResponseDestination = Some (xWallet (opX P)), tpCustomPayload = None,
            tpForwardTONAmount = 1000000, tpForwardPayload = EndCell (svCells S) (BeginCell (svCells S))\<rparr>))) (\<lambda>tp.
         Inr \<lparr>woTo = Some jw, woAmount = 50000000, woBody = Some tp, woStateInit = None, woEC = []\<rparr>)))
     | None \<Rightarrow>
         rbind (MustParseAddr S addr) (\<lambda>a.
         if BalanceID cc \<noteq> GetTONBalanceID then
           rbind (GetECFromBalanceID (BalanceID cc)) (\<lambda>ec.
           Inr \<lparr>woTo = Some a, woAmount = 1000000, woBody = None, woStateInit = None, woEC = [(ec, amount)]\<rparr>)
         else rbind (rwrap ''failed to convert amount to nano'' (rvFromNano R (amount + 1000000) 9)) (\<lambda>toSend.
           Inr \<lparr>woTo = Some a, woAmount = toSend, woBody = None, woStateInit = None, woEC = []\<rparr>))) (\<lambda>msg.
     Inr (deploy @ [msg])))"

definition ExecuteTopup ::
  "('b, 's, 'c, 'm, 'd, 't, 'j) svc \<Rightarrow> ('b, 's, 'c, 'm) op_env \<Rightarrow> ('s, 'c, 'm) settle_env \<Rightarrow> ('c TransferPayload \<Rightarrow> 'c res) \<Rightarrow> uint64 \<Rightarrow>
   (nat \<Rightarrow> gtime) \<Rightarrow> string \<Rightarrow> string \<Rightarrow> int \<Rightarrow> bool \<Rightarrow> ('d, 't, 'c wallet_out list) dbm" where
  "ExecuteTopup S P Z jettonBody rnd clk addr balanceId amount unlock = (if amount \<le> 0 then dret []
     else dbind (dwrap ''failed to get channel'' (GetChannel (svL S) (svChannelJ S) addr)) (\<lambda>ch.
       if chStatus ch \<noteq> ChannelStateActive then dret []
       else let activation = activation_amount (seAttach Z) ch in
       dbind (dlift (rwrap ''failed to resolve coin config'' (ResolveCoinConfig S balanceId))) (\<lambda>cc.
       dbind (dlift (check_topup S P (seR Z) activation cc amount)) (\<lambda>_.
       dbind (dlift (topup_messages S P (seR Z) jettonBody rnd activation ch addr cc amount)) (\<lambda>msgs.
       dbind (dlift (rwrap ''failed to send internal messages to channel'' (rvWallet (seR Z) msgs))) (\<lambda>h.
       dbind (dwhen unlock (dwrap ''failed to create wait task'' (create_task S (clk 1) (clk 2) ''wait-deposit-completion'' (sdAddress (Our ch) @ ''-wait-deposit'')
         (''wait-deposit-'' @ b64_encode h) (WaitDepositCompletionTask (sdAddress (Our ch)) balanceId unlock h (opAddr P (xWallet (opX P))) (clk 0))
         None (Some (clk 0 + 15 * 60 * 1000000000))))) (\<lambda>_. dret msgs)))))))"

end
