(* ===== verification/SettlementLaws.thy ===== *)
theory SettlementLaws
  imports Settlement ChainLaws
begin

text \<open>
  Laws of an uncooperative settlement: what the node computes while it builds the messages is what it finds when it
  sees them on-chain, what a batch makes of two conditionals over one action, and the cover of a top-up.
\<close>

section \<open>One conditional\<close>

lemma settled:
  assumes "settle_resolved S key vch resolve sg = Inr (True, sg')"
  obtains aid act new l where "IDCell S (Cond_GetAction vch) = Inr aid" "LoadValue (svD S) (sgActs sg) aid = Inr act"
    "Cond_Execute (svC S) vch (MustToCell (svCells S) act) resolve (Some Map.empty) = Inr (new, l)"
    "DictSet (svD S) (sgUpdActs sg) aid new = Inr (sgUpdActs sg')" "DictSet (svD S) (sgToSettle sg) key resolve = Inr (sgToSettle sg')"
    "sgActs sg' = sgActs sg" "sgConds sg' = sgConds sg" "sgNum sg' = sgNum sg + 1" "sgSender sg' = sgSender sg" "sgMsgs sg' = sgMsgs sg"
    "sgResolved sg' = sgResolved sg" "set (sgActUsed sg) \<subseteq> set (sgActUsed sg')" "UsedKey aid \<in> set (sgActUsed sg')"
    "set (sgCondUsed sg) \<subseteq> set (sgCondUsed sg')" "UsedKey key \<in> set (sgCondUsed sg')"
proof -
  obtain aid where aid: "IDCell S (Cond_GetAction vch) = Inr aid" using assms by (auto simp: settle_resolved_def Let_def)
  with assms show thesis
    by (auto simp: settle_resolved_def Let_def split: sum.split_asm if_split_asm prod.split_asm intro!: that)
qed

lemma not_settled:
  assumes "settle_resolved S key vch resolve sg = Inr (False, sg')"
  shows "sgUpdActs sg' = sgUpdActs sg" "sgActs sg' = sgActs sg" "sgConds sg' = sgConds sg" "sgSender sg' = sgSender sg"
    "sgMsgs sg' = sgMsgs sg" "sgResolved sg' = sgResolved sg"
proof -
  obtain aid where "IDCell S (Cond_GetAction vch) = Inr aid" using assms by (auto simp: settle_resolved_def Let_def)
  with assms show "sgUpdActs sg' = sgUpdActs sg" "sgActs sg' = sgActs sg" "sgConds sg' = sgConds sg" "sgSender sg' = sgSender sg"
    "sgMsgs sg' = sgMsgs sg" "sgResolved sg' = sgResolved sg"
    by (auto simp: settle_resolved_def Let_def split: sum.split_asm if_split_asm prod.split_asm)
qed


section \<open>A batch\<close>

text \<open>
  A walk over conditionals without a resolver contract that ends before a message is full. \<open>r\<close> is the known resolve
  of each.
\<close>

definition plain_inputs ::
  "('b, 's, 'c, 'm, 'd, 't, 'j) svc \<Rightarrow> ('b, 's, 'c, 'm) op_env \<Rightarrow> ('s, 'c, 'm) settle_env \<Rightarrow> ('d, 't) executor \<Rightarrow>
   ('s \<times> 's \<Rightarrow> 'c conditional) \<Rightarrow> ('s \<times> 's \<Rightarrow> 'c option) \<Rightarrow> ('s \<times> 's) list \<Rightarrow> bool" where
  "plain_inputs S P Z e vch r kvs \<longleftrightarrow> (\<forall>kv \<in> set kvs. \<forall>clk. \<not> (RefsNum (svCells S) (snd kv) = 0 \<and> BitsLeft (svCells S) (snd kv) = 0) \<and>
     settle_input S P Z clk (snd kv) e = (Inr (Some (vch kv, r kv, None)), e))"

lemma plain_step:
  assumes "settle_input S P Z clk (snd kv) e = (Inr (Some (v, r, None)), e)"
    "\<not> (RefsNum (svCells S) (snd kv) = 0 \<and> BitsLeft (svCells S) (snd kv) = 0)"
    "settle_conditional S P Z clk channelID kv sg e = (Inr sg', e')" "sgNum sg + 1 < conditionsPerMessage"
  shows "e' = e" "r = None \<Longrightarrow> sg' = sg\<lparr>sgPending := sgPending sg + 1\<rparr>"
    "r = Some x \<Longrightarrow> \<exists>ok sg1. settle_resolved S (MustToCell (svCells S) (fst kv)) v x (sg\<lparr>sgPending := sgPending sg + 1\<rparr>) = Inr (ok, sg1) \<and>
       sg' = (if ok then sg1\<lparr>sgResolved := sgResolved sg1 + 1\<rparr> else sg1)"
proof -
  have d: "settle_conditional S P Z clk channelID kv sg e = (case r of None \<Rightarrow> (Inr (sg\<lparr>sgPending := sgPending sg + 1\<rparr>), e)
     | Some x \<Rightarrow> dlift (rbind (settle_resolved S (MustToCell (svCells S) (fst kv)) v x (sg\<lparr>sgPending := sgPending sg + 1\<rparr>)) (\<lambda>(ok, sg).
          if \<not> ok then Inr sg
          else rbind (if (None :: address option) \<noteq> None \<or> sgNum sg = conditionsPerMessage then flush_message S P Z channelID sg else Inr sg) (\<lambda>sg.
            Inr (sg\<lparr>sgResolved := sgResolved sg + 1\<rparr>)))) e)"
    using assms(1) unfolding settle_conditional_def if_not_P [OF assms(2)]
    by (cases r) (simp_all add: dbind_def dret_def Let_def)
  show "e' = e" using assms(3) d by (auto simp: dlift_Inr split: option.splits)
  show "r = None \<Longrightarrow> sg' = sg\<lparr>sgPending := sgPending sg + 1\<rparr>" using assms(3) d by simp
  assume "r = Some x"
  with assms(3) d obtain ok sg1 where s: "settle_resolved S (MustToCell (svCells S) (fst kv)) v x (sg\<lparr>sgPending := sgPending sg + 1\<rparr>) = Inr (ok, sg1)"
    "(if \<not> ok then Inr sg1 else rbind (if (None :: address option) \<noteq> None \<or> sgNum sg1 = conditionsPerMessage then flush_message S P Z channelID sg1 else Inr sg1) (\<lambda>sg.
            Inr (sg\<lparr>sgResolved := sgResolved sg + 1\<rparr>))) = Inr sg'" by (auto simp: dlift_Inr)
  then have "ok \<Longrightarrow> sgNum sg1 \<noteq> conditionsPerMessage" using assms(4) by (auto elim: settled)
  with s show "\<exists>ok sg1. settle_resolved S (MustToCell (svCells S) (fst kv)) v x (sg\<lparr>sgPending := sgPending sg + 1\<rparr>) = Inr (ok, sg1) \<and>
       sg' = (if ok then sg1\<lparr>sgResolved := sgResolved sg1 + 1\<rparr> else sg1)" by (auto split: if_splits)
qed


text \<open>
  Seen on-chain, the batch is replayed against the dictionaries that its proofs open: they agree with the proved ones on
  every entry that was used.
\<close>

definition opened :: "('m, 's, 'c) dict_lib \<Rightarrow> 'c used list \<Rightarrow> 'm \<Rightarrow> 'm \<Rightarrow> bool" where
  "opened D used m m' \<longleftrightarrow> (\<forall>k. UsedKey k \<in> set used \<longrightarrow> LoadValue D m' k = LoadValue D m k)"

definition replayed :: "('b, 's, 'c) cell_lib \<Rightarrow> ('s \<times> 's \<Rightarrow> 'c option) \<Rightarrow> ('s \<times> 's) list \<Rightarrow> ('s \<times> 's) list" where
  "replayed L r kvs = map (\<lambda>kv. (fst kv, BeginParse L (the (r kv)))) (filter (\<lambda>kv. r kv \<noteq> None) kvs)"

definition keys_ok :: "('b, 's, 'c, 'm, 'd, 't, 'j) svc \<Rightarrow> 'm \<Rightarrow> ('s \<times> 's) list \<Rightarrow> bool" where
  "keys_ok S conds kvs \<longleftrightarrow> (\<forall>kv \<in> set kvs. (\<exists>k s. LoadSlice (svCells S) (fst kv) 256 = Inr (k, s) \<and>
     id_cell (svCells S) k = Inr (MustToCell (svCells S) (fst kv))) \<and> LoadValue (svD S) conds (MustToCell (svCells S) (fst kv)) = Inr (snd kv))"

lemma kept_Some: "(case r of Inl _ \<Rightarrow> None | Inr x \<Rightarrow> Some x) = Some y \<longleftrightarrow> r = Inr y"
  by (cases r) auto

lemma input_code:
  assumes "settle_input S P Z clk v e = (Inr (Some (vch, r, s)), e')"
  shows "code_to_cond S (MustToCell (svCells S) v) e = (Inr vch, e)"
proof -
  obtain v0 m e1 where c: "code_to_cond S (MustToCell (svCells S) v) e = (Inr v0, e)" and
      k: "(case v0 of VCond _ \<Rightarrow> dret (v0, LastKnownResolve m, None)
     | RCond drv \<Rightarrow> (case crResolverAddr drv of None \<Rightarrow> dret (v0, LastKnownResolve m, None)
       | Some addr \<Rightarrow> (case LastKnownResolve m of Some r \<Rightarrow> dret (v0, Some r, Some addr)
         | None \<Rightarrow> dbind (prepareDerivativeConditionalResolve S P (seR Z) clk m drv) (\<lambda>r. dret (v0, Some r, Some addr))))) e1 =
        (Inr (vch, r, s), e')"
    using assms by (auto simp: settle_input_def dbind_Inr dtry_Inr dret_Inr code_to_cond_def dask_def kept_Some)
  have "v0 = vch" using k by (cases v0) (auto simp: run_inv split: option.split_asm)
  with c show ?thesis by simp
qed

lemma replay_step:
  assumes "settle_resolved S (MustToCell (svCells S) (fst kv)) vch x sg = Inr (True, sg')" "code_to_cond S (MustToCell (svCells S) (snd kv)) e = (Inr vch, e)"
    "keys_ok S (sgConds sg) [kv]" "opened (svD S) (sgCondUsed sg') (sgConds sg) conds" "opened (svD S) (sgActUsed sg') (sgActs sg) acts"
    "MustToCell (svCells S) (BeginParse (svCells S) x) = x"
  shows "settle_item S True conds acts clk (fst kv, BeginParse (svCells S) x) (sgUpdActs sg) e = (Inr (sgUpdActs sg'), e)"
proof -
  obtain aid act new l where s: "IDCell S (Cond_GetAction vch) = Inr aid" "LoadValue (svD S) (sgActs sg) aid = Inr act"
    "Cond_Execute (svC S) vch (MustToCell (svCells S) act) x (Some Map.empty) = Inr (new, l)"
    "DictSet (svD S) (sgUpdActs sg) aid new = Inr (sgUpdActs sg')" "UsedKey aid \<in> set (sgActUsed sg')"
    "UsedKey (MustToCell (svCells S) (fst kv)) \<in> set (sgCondUsed sg')"
    using assms(1) by (rule settled) blast
  obtain k q where k: "LoadSlice (svCells S) (fst kv) 256 = Inr (k, q)" "id_cell (svCells S) k = Inr (MustToCell (svCells S) (fst kv))"
    "LoadValue (svD S) conds (MustToCell (svCells S) (fst kv)) = Inr (snd kv)"
    using assms(3,4) s(6) by (auto simp: keys_ok_def opened_def)
  have "LoadValue (svD S) acts aid = Inr act" using assms(5) s(2,5) by (simp add: opened_def)
  with s k assms(2,6) show ?thesis by (simp add: settle_item_def Let_def dbind_def dlift_def dtry_def dret_def)
qed


lemma settle_grows:
  assumes "settle_resolved S key vch x sg = Inr (ok, sg')"
  shows "set (sgActUsed sg) \<subseteq> set (sgActUsed sg')" "set (sgCondUsed sg) \<subseteq> set (sgCondUsed sg')" "sgNum sg' \<le> sgNum sg + 1"
    "sgResolved sg' = sgResolved sg" "sgConds sg' = sgConds sg" "sgActs sg' = sgActs sg"
proof -
  obtain aid where "IDCell S (Cond_GetAction vch) = Inr aid" using assms by (auto simp: settle_resolved_def Let_def)
  with assms show "set (sgActUsed sg) \<subseteq> set (sgActUsed sg')" "set (sgCondUsed sg) \<subseteq> set (sgCondUsed sg')" "sgNum sg' \<le> sgNum sg + 1"
    "sgResolved sg' = sgResolved sg" "sgConds sg' = sgConds sg" "sgActs sg' = sgActs sg"
    by (auto simp: settle_resolved_def Let_def split: sum.split_asm if_split_asm prod.split_asm)
qed

lemma walk_grows:
  assumes "settle_conditionals S P Z clk channelID kvs sg e = (Inr sg', e')" "plain_inputs S P Z e vch r kvs" "sgNum sg + length kvs < conditionsPerMessage"
  shows "e' = e \<and> set (sgActUsed sg) \<subseteq> set (sgActUsed sg') \<and> set (sgCondUsed sg) \<subseteq> set (sgCondUsed sg') \<and>
    sgResolved sg' \<le> sgResolved sg + length (replayed L r kvs)"
  using assms
proof (induction kvs arbitrary: sg)
  case (Cons kv kvs)
  obtain sg1 e1 where s: "settle_conditional S P Z (clk (length kvs)) channelID kv sg e = (Inr sg1, e1)"
      "settle_conditionals S P Z clk channelID kvs sg1 e1 = (Inr sg', e')" using Cons.prems(1) by (auto simp: dbind_Inr)
  have i: "settle_input S P Z (clk (length kvs)) (snd kv) e = (Inr (Some (vch kv, r kv, None)), e)"
      "\<not> (RefsNum (svCells S) (snd kv) = 0 \<and> BitsLeft (svCells S) (snd kv) = 0)" "sgNum sg + 1 < conditionsPerMessage"
    using Cons.prems(2,3) by (auto simp: plain_inputs_def)
  note st = plain_step [OF i(1,2) s(1) i(3)]
  have g: "set (sgActUsed sg) \<subseteq> set (sgActUsed sg1)" "set (sgCondUsed sg) \<subseteq> set (sgCondUsed sg1)" "sgNum sg1 \<le> sgNum sg + 1"
      "sgResolved sg1 \<le> sgResolved sg + (if r kv = None then 0 else 1)"
    using st(2,3) by (cases "r kv"; force dest: settle_grows)+
  with Cons.IH [of sg1] s(2) st(1) Cons.prems(2,3) show ?case by (auto simp: plain_inputs_def replayed_def)
qed (simp add: dret_def replayed_def)


lemma opened_mono: "opened D u' m m' \<Longrightarrow> set u \<subseteq> set u' \<Longrightarrow> opened D u m m'"
  by (auto simp: opened_def)

lemma replay_walk:
  assumes "settle_conditionals S P Z clk channelID kvs sg e = (Inr sg', e')" "plain_inputs S P Z e vch r kvs" "sgNum sg + length kvs < conditionsPerMessage"
    "sgResolved sg' = sgResolved sg + length (replayed (svCells S) r kvs)" "keys_ok S (sgConds sg) kvs"
    "opened (svD S) (sgCondUsed sg') (sgConds sg) conds" "opened (svD S) (sgActUsed sg') (sgActs sg) acts"
    "\<forall>c. MustToCell (svCells S) (BeginParse (svCells S) c) = c"
  shows "settle_items S True conds acts clk' n (replayed (svCells S) r kvs) (sgUpdActs sg) e = (Inr (sgUpdActs sg'), e)"
  using assms(1-7)
proof (induction kvs arbitrary: sg n)
  case (Cons kv kvs)
  obtain sg1 e1 where s: "settle_conditional S P Z (clk (length kvs)) channelID kv sg e = (Inr sg1, e1)"
      "settle_conditionals S P Z clk channelID kvs sg1 e1 = (Inr sg', e')" using Cons.prems(1) by (auto simp: dbind_Inr)
  have i: "settle_input S P Z (clk (length kvs)) (snd kv) e = (Inr (Some (vch kv, r kv, None)), e)"
      "\<not> (RefsNum (svCells S) (snd kv) = 0 \<and> BitsLeft (svCells S) (snd kv) = 0)" "sgNum sg + 1 < conditionsPerMessage"
    using Cons.prems(2,3) by (auto simp: plain_inputs_def)
  note st = plain_step [OF i(1,2) s(1) i(3)]
  have t: "settle_conditionals S P Z clk channelID kvs sg1 e = (Inr sg', e')" "plain_inputs S P Z e vch r kvs" "keys_ok S (sgConds sg) kvs"
      "keys_ok S (sgConds sg) [kv]"
    using s(2) st(1) Cons.prems(2,5) by (auto simp: plain_inputs_def keys_ok_def)
  show ?case
  proof (cases "r kv")
    case None
    with st(2) have sg1: "sg1 = sg\<lparr>sgPending := sgPending sg + 1\<rparr>" by blast
    have "settle_items S True conds acts clk' n (replayed (svCells S) r kvs) (sgUpdActs sg1) e = (Inr (sgUpdActs sg'), e)"
      by (rule Cons.IH [OF t(1,2)]) (use Cons.prems(3,4,6,7) None t(3) in \<open>simp_all add: sg1 replayed_def\<close>)
    with None show ?thesis by (simp add: sg1 replayed_def)
  next
    case (Some x)
    with st(3) obtain ok sg2 where o: "settle_resolved S (MustToCell (svCells S) (fst kv)) (vch kv) x (sg\<lparr>sgPending := sgPending sg + 1\<rparr>) = Inr (ok, sg2)"
      "sg1 = (if ok then sg2\<lparr>sgResolved := sgResolved sg2 + 1\<rparr> else sg2)" by blast
    note g = settle_grows [OF o(1)]
    have n: "sgNum sg1 + length kvs < conditionsPerMessage" using g(3) o(2) Cons.prems(3) by (auto split: if_splits)
    note w = walk_grows [OF t(1,2) n, of "svCells S"]
    have ok: "ok" "sgResolved sg1 = sgResolved sg + 1" using w o(2) g(4) Cons.prems(4) Some by (auto simp: replayed_def split: if_splits)
    have u: "set (sgActUsed sg2) \<subseteq> set (sgActUsed sg')" "set (sgCondUsed sg2) \<subseteq> set (sgCondUsed sg')" using w o(2) by (auto split: if_splits)
    have "settle_item S True conds acts (clk' n) (fst kv, BeginParse (svCells S) x) (sgUpdActs (sg\<lparr>sgPending := sgPending sg + 1\<rparr>)) e = (Inr (sgUpdActs sg2), e)"
      by (rule replay_step [OF o(1) [unfolded eqTrueI [OF ok(1)]] input_code [OF i(1)]])
        (use t(4) opened_mono [OF Cons.prems(6) u(2)] opened_mono [OF Cons.prems(7) u(1)] assms(8) in simp_all)
    moreover have "settle_items S True conds acts clk' (n + 1) (replayed (svCells S) r kvs) (sgUpdActs sg1) e = (Inr (sgUpdActs sg'), e)"
      by (rule Cons.IH [OF t(1,2) n]) (use Cons.prems(4,6,7) Some t(3) o(2) ok g(5,6) in \<open>simp_all add: replayed_def\<close>)
    ultimately show ?thesis using Some o(2) ok(1) by (simp add: replayed_def dbind_def)
  qed
qed (simp add: dret_def replayed_def)

section \<open>Properties\<close>


text \<open>C37: Two conditionals over the same action that are settled in one message are executed against the same action
  state, the one the message proves, so the result of the second replaces that of the first: of two settled virtual
  channels only what the second one owes is added to the sent amount.\<close>

theorem same_action_settled_alone:
  assumes "codec_ok (svCells S) (aeSend (svA S)) send_ok" "\<forall>m k v m'. DictSet (svD S) m k v = Inr m' \<longrightarrow> LoadValue (svD S) m' k = Inr (BeginParse (svCells S) v)"
    and "settle_resolved S key1 (VCond c1) r1 sg = Inr (True, sg1)" "settle_resolved S key2 (VCond c2) r2 sg1 = Inr (True, sg2)"
    and "vcAction c1 = vcAction c2" "IDCell S (vcAction c2) = Inr aid"
    and "LoadValue (svD S) (sgActs sg) aid = Inr act" "LoadState (svCells S) (aeSend (svA S)) (MustToCell (svCells S) act) = Inr s" "send_ok s"
    and "vc_load (ceVC (svC S)) r2 = Inr st2" "VCState_Verify (ceVC (svC S)) (vcKey c2) st2 = Inr True"
    "sasAmount s + vc_need c2 (vsAmount st2) < 2 ^ 120"
  shows "\<exists>st. LoadValue (svD S) (sgUpdActs sg2) aid = Inr (BeginParse (svCells S) st) \<and>
    LoadState (svCells S) (aeSend (svA S)) st = Inr (s\<lparr>sasAmount := sasAmount s + vc_need c2 (vsAmount st2)\<rparr>)"
proof -
  have a: "sgActs sg1 = sgActs sg" using assms(3) by (rule settled)
  obtain new l where n: "Cond_Execute (svC S) (VCond c2) (MustToCell (svCells S) act) r2 (Some Map.empty) = Inr (new, l)"
    "DictSet (svD S) (sgUpdActs sg1) aid new = Inr (sgUpdActs sg2)"
    using assms(4) by (rule settled) (use assms(6,7) a in auto)
  obtain st where "VC_Execute (ceVC (svC S)) c2 (MustToCell (svCells S) act) r2 (Some Map.empty) =
      Inr (st, mark_used (vc_coin_id c2) (vc_need c2 (vsAmount st2)) (Some Map.empty))"
    "LoadState (svCells S) (aeSend (svA S)) st = Inr (s\<lparr>sasAmount := sasAmount s + vc_need c2 (vsAmount st2)\<rparr>)"
    by (rule VC_Execute_spec [OF _ assms(10,11) _ assms(9,12)]) (use assms(1,8) in auto)
  with n assms(2) show ?thesis by auto
qed

text \<open>
  A derivative that cannot be executed leaves its resolver as the expected sender of the message under construction:
  the next conditionals go out in a message that this resolver must send, and wait for it.
\<close>

lemma failed_derivative_keeps_sender:
  assumes "settle_input S P Z c1 (snd kv1) e = (Inr (Some (v1, Some r1, Some addr)), e1)"
    "\<not> (RefsNum (svCells S) (snd kv1) = 0 \<and> BitsLeft (svCells S) (snd kv1) = 0)" "sgNum sg = 0"
    "settle_resolved S (MustToCell (svCells S) (fst kv1)) v1 r1 (sg\<lparr>sgPending := sgPending sg + 1, sgSender := Some addr\<rparr>) = Inr (False, sg1)"
    "settle_conditional S P Z c2 channelID kv2 sg1 e1 = (Inr sg2, e2)"
    "settle_input S P Z c2 (snd kv2) e1 = (Inr (Some (v2, Some r2, None)), e1)" "sgNum sg1 + 1 < conditionsPerMessage"
    "\<not> (RefsNum (svCells S) (snd kv2) = 0 \<and> BitsLeft (svCells S) (snd kv2) = 0)"
    "flush_message S P Z channelID sg2 = Inr sg3" "0 < sgNum sg2" "\<not> DictIsEmpty (svD S) (sgToSettle sg2)"
  shows "settle_conditional S P Z c1 channelID kv1 sg e = (Inr sg1, e1)"
    "\<exists>msg. sgMsgs sg3 = sgMsgs sg @ [(msg, Some addr)]"
proof -
  show "settle_conditional S P Z c1 channelID kv1 sg e = (Inr sg1, e1)"
    using assms(1,3,4) unfolding settle_conditional_def if_not_P [OF assms(2)] by (simp add: dbind_def dlift_def Let_def)
  note f = not_settled [OF assms(4)]
  obtain ok sg' where o: "settle_resolved S (MustToCell (svCells S) (fst kv2)) v2 r2 (sg1\<lparr>sgPending := sgPending sg1 + 1\<rparr>) = Inr (ok, sg')"
    "sg2 = (if ok then sg'\<lparr>sgResolved := sgResolved sg' + 1\<rparr> else sg')"
    using plain_step(3) [OF assms(6,8,5,7) refl] by blast
  have "sgSender sg' = sgSender sg1" "sgMsgs sg' = sgMsgs sg1"
    using o(1) by (cases ok; force elim: settled dest: not_settled)+
  with o(2) f have "sgSender sg2 = Some addr" "sgMsgs sg2 = sgMsgs sg" by auto
  with assms(9-11) show "\<exists>msg. sgMsgs sg3 = sgMsgs sg @ [(msg, Some addr)]"
    by (auto simp: flush_message_def add_message_def)
qed


section \<open>A sample settlement\<close>

lemma close_open: "close_cell (open_cell c) = c"
  by (cases c) (simp add: close_cell_def)

lemma ex_hash_refs: "CellRefs (ton_cells ex_hash) c \<noteq> [] \<Longrightarrow> ex_hash c = be_put 32 0"
  by (cases c) (simp add: ton_cells_def)

lemma ex_act_refs:
  assumes "Action_Serialize ex_env ex_act = Inr c"
  shows "CellRefs (ton_cells ex_hash) c = [TCell (t_addr_bits (Some (ex_addr 1))) [], TCell (t_addr_bits (Some (ex_addr 2))) [], ex_code 0]"
proof -
  have "addr_ok (Some (ex_addr n))" for n by (simp add: addr_ok_def ex_addr_def)
  with TonInsured_cell [of "\<lparr>tiCoin = ex_coin, tiAddressA = Some (ex_addr 1), tiAddressB = Some (ex_addr 2)\<rparr>" ex_hash hex_encode ex_code]
  show ?thesis using assms by (auto simp: ex_act_def ex_env_def ton_cells_def)
qed

lemma ex_act_registered:
  assumes "Action_Serialize ex_env ex_act = Inr c"
  shows "\<forall>x \<in> set (reach maxCellDepth (aeL ex_env) c). \<forall>k. ActionTypes ex_env (CellHash (aeL ex_env) x) = Some k \<longrightarrow> k = KTonInsured"
proof -
  let ?refs = "[TCell (t_addr_bits (Some (ex_addr 1))) [], TCell (t_addr_bits (Some (ex_addr 2))) [], ex_code 0]"
  have "CellRefs (ton_cells ex_hash) c = ?refs" using assms by (rule ex_act_refs)
  moreover have "CellRefs (ton_cells ex_hash) x = []" if "x \<in> set ?refs" for x
    using that by (auto simp: ton_cells_def ex_code_def)
  ultimately have r: "set (reach maxCellDepth (aeL ex_env) c) = set ?refs"
    using reach_flat [of "ton_cells ex_hash" c maxCellDepth] by (simp add: maxCellDepth_def)
  have z: "length (t_addr_bits (Some (ex_addr n))) \<noteq> 3" for n
    by (simp add: t_addr_bits_def ex_addr_def)
  have h: "ex_hash (ex_code n) = be_put 32 (n + 1)" if "n < 8" for n
    using that by (simp add: ex_code_def bits_nat_nat_bits)
  have ne: "be_put 32 m \<noteq> be_put 32 n" if "m < 256" "n < 256" "m \<noteq> n" for m n
  proof -
    have "m < 256 ^ 32" "n < 256 ^ 32" using that(1,2) by simp_all
    from be_put_inj [OF this] that(3) show ?thesis by blast
  qed
  have "ActionTypes ex_env (CellHash (aeL ex_env) x) = Some k \<Longrightarrow> k = KTonInsured" if "x \<in> set ?refs" for x k
    using that by (auto simp: ActionTypes_def ex_env_def ton_env_def ton_cells_def z h ne split: if_splits)
  with r show ?thesis by auto
qed

lemma ex_act_parsed:
  assumes "Action_Serialize ex_env ex_act = Inr c" "rb GetTONBalanceID = Inr ex_coin"
  shows "CodeToAction ex_env rb c = Inr ex_act"
proof -
  have env: "action_cells ex_env (\<lambda>b. b) (\<lambda>s. s) t_addr_bits"
    unfolding ex_env_def by (rule ton_act.action_cells_axioms)
  have "Action_ok rb ex_act" using assms(2) by (simp add: ex_act_def addr_ok_def ex_addr_def)
  from action_cells.action_roundtrip [OF env this] ex_act_registered [OF assms(1)] assms(1) show ?thesis
    unfolding action_cells.registered_only_def [OF env] by simp
qed

text \<open>The channel of the sample holds one virtual channel of the other side, for which a state over 20 is known.\<close>

definition ex_act_code :: tcell where
  "ex_act_code = (case Action_Serialize ex_env ex_act of Inl _ \<Rightarrow> TCell [] [] | Inr c \<Rightarrow> c)"

definition ex_vc_code :: tcell where
  "ex_vc_code = (case Cond_Serialize (ex_cond_env None) (VCond ex_vc) of Inl _ \<Rightarrow> TCell [] [] | Inr c \<Rightarrow> c)"

definition ex_known :: "(tcell, unit) ConditionalMeta" where
  "ex_known = ex_in\<lparr>cmKey := be_put 32 7, LastKnownResolve := Some (vstate_cell (ex_vstate 20))\<rparr>"

definition ex_settle_svc :: "(tdata, tdata, tcell, tdict, mem, msnap, unit) svc" where
  "ex_settle_svc = (ex_svc True)\<lparr>svCodeJ := table_json [ex_act_code], svMetaJ := \<lparr>mjMeta = table_json [ex_known], mjFields = (\<lambda>_. Inr [])\<rparr>,
     svKnown := [(GetTONBalanceID, ex_coin)]\<rparr>"

definition ex_settle_db :: mem where
  "ex_settle_db = [BPut (action_code_key (ex_hash ex_act_code)) [], BPut (virtualChannelMetaKey (be_put 32 7)) []]"

definition ex_id :: "nat \<Rightarrow> tcell" where
  "ex_id n = TCell (byte_bits (be_put 32 n)) []"

definition ex_settling :: "(tcell, tdict) settling" where
  "ex_settling = \<lparr>sgToSettle = [], sgSender = None, sgNum = 0, sgConds = [(ex_id 1, ex_vc_code)], sgActs = [(ex_id 0, send_cell (ex_send 10))],
     sgUpdConds = [(ex_id 1, ex_vc_code)], sgUpdActs = [(ex_id 0, send_cell (ex_send 10))],
     sgCondUsed = [], sgActUsed = [], sgMsgs = [], sgResolved = 0, sgPending = 0\<rparr>"

lemma ex_settle_sel [simp]:
  "svL ex_settle_svc = mem_db" "svE ex_settle_svc = ex_node_env" "svCodeJ ex_settle_svc = table_json [ex_act_code]"
  "mjMeta (svMetaJ ex_settle_svc) = table_json [ex_known]" "svKnown ex_settle_svc = [(GetTONBalanceID, ex_coin)]"
  by (simp_all add: ex_settle_svc_def)

lemma ex_act_code: "Action_Serialize ex_env ex_act = Inr ex_act_code"
  using ex_act_ser by (auto simp: ex_act_code_def)

lemma ex_settle_get: "map_of (mem_view d) k = Some [] \<Longrightarrow> get_json mem_db (table_json [x]) k (OnDB d) = (Inr x, OnDB d)"
  by (simp add: get_json_def table_json_def lookup_res_def)

lemma ex_settle_db: "map_of (mem_view ex_settle_db) (action_code_key (ex_hash ex_act_code)) = Some []"
  "map_of (mem_view ex_settle_db) (virtualChannelMetaKey (be_put 32 7)) = Some []"
  by (simp_all add: ex_settle_db_def mem_view_def action_code_key_def virtualChannelMetaKey_def)

lemma ex_stored: "stored_action ex_settle_svc (ex_hash ex_act_code) (OnDB ex_settle_db) = (Inr ex_act, OnDB ex_settle_db)"
proof -
  have "CodeToAction ex_env (ResolveBalanceType ex_settle_svc) ex_act_code = Inr ex_act"
    by (rule ex_act_parsed [OF ex_act_code]) (simp add: ResolveBalanceType_def)
  moreover have "CellHash (ton_cells ex_hash) ex_act_code = ex_hash ex_act_code" by (simp add: ton_cells_def)
  ultimately show ?thesis
    by (simp add: stored_action_def GetActionCode_def ex_settle_get [OF ex_settle_db(1)])
qed

lemma ex_vc_stored: "Cond_Serialize (ex_cond_env None) (VCond ex_vc) = Inr ex_vc_code"
  "code_to_cond ex_settle_svc ex_vc_code (OnDB ex_settle_db) = (Inr (VCond ex_vc), OnDB ex_settle_db)"
proof -
  have a: "Action_Serialize (ceA (ex_cond_env None)) (Cond_GetAction (VCond ex_vc :: tcell conditional)) = Inr ex_act_code" using ex_act_code by simp
  have h: "ResolveAction (svcResolver ex_settle_svc (OnDB ex_settle_db)) (CellHash (ceL (ex_cond_env None)) ex_act_code) =
      Inr (Cond_GetAction (VCond ex_vc :: tcell conditional))"
    using ex_stored by (simp add: svcResolver_def ton_cells_def)
  from cond_cells.cond_roundtrip [OF ex_cond_cells ex_vc_cond_ok a, where actions = "ResolveAction (svcResolver ex_settle_svc (OnDB ex_settle_db))", OF h] ex_cond_only obtain cl where
    cl: "Cond_Serialize (ex_cond_env None) (VCond ex_vc) = Inr cl"
      "CodeToConditional (ex_cond_env None) (ResolveAction (svcResolver ex_settle_svc (OnDB ex_settle_db))) cl = Inr (VCond ex_vc)" by fastforce
  then show "Cond_Serialize (ex_cond_env None) (VCond ex_vc) = Inr ex_vc_code"
    "code_to_cond ex_settle_svc ex_vc_code (OnDB ex_settle_db) = (Inr (VCond ex_vc), OnDB ex_settle_db)"
    by (simp_all add: ex_vc_code_def code_to_cond_def)
qed

lemma ex_settle_input: "settle_input ex_settle_svc P Z clk (open_cell ex_vc_code) (OnDB ex_settle_db) =
    (Inr (Some (VCond ex_vc, Some (vstate_cell (ex_vstate 20)), None)), OnDB ex_settle_db)"
proof -
  have "GetVirtualChannelMeta mem_db (svMetaJ ex_settle_svc) (be_put 32 7) (OnDB ex_settle_db) = (Inr ex_known, OnDB ex_settle_db)"
    using ex_settle_get [OF ex_settle_db(2)] by (simp add: GetVirtualChannelMeta_def)
  moreover have "MustToCell (ton_cells ex_hash) (open_cell ex_vc_code) = ex_vc_code"
    by (simp add: ton_cells_def close_open)
  ultimately show ?thesis using ex_vc_stored(2) by (simp add: settle_input_def ex_known_def)
qed

lemma ex_aid: "IDCell ex_settle_svc ex_act = Inr (ex_id 0)"
proof -
  have "ex_hash ex_act_code = be_put 32 0"
    by (rule ex_hash_refs) (simp add: ex_act_refs [OF ex_act_code])
  then show ?thesis
    using ex_act_code by (simp add: IDCell_def Action_IDCell_def id_cell_def ex_id_def ton_cells_def end_cell_def t_append_def cat_def close_cell_def)
qed

lemma ex_executed:
  assumes "coins_ok v" "v \<le> 50" "vcCapacity c = 50" "vcFee c = 3" "vcPrepay c = 0" "vcAction c = ex_act"
  obtains st l where "VC_Execute ex_vc_env c (send_cell (ex_send 10)) (vstate_cell (ex_vstate v)) (Some Map.empty) = Inr (st, l)"
proof -
  have l: "LoadState (ton_cells ex_hash) ton_send (send_cell (ex_send 10)) = Inr (ex_send 10)" by (simp add: ton_send_load)
  have "vc_need c v \<le> 53" using assms by (simp add: vc_need_def Let_def)
  then have n: "sasAmount (ex_send 10) + vc_need c (vsAmount (ex_vstate v)) < 2 ^ 120" by simp
  show thesis
    by (rule VC_Execute_spec [of ex_vc_env "vstate_cell (ex_vstate v)" "ex_vstate v" c "send_cell (ex_send 10)" "ex_send 10" "Some Map.empty"])
      (use l assms(1) n in \<open>simp_all only: ex_vc_env_sel ex_env_sel ex_vstate_load ex_vstate_verify ton_send_ok that, simp_all\<close>)
qed

definition ex_kv :: "tdata \<times> tdata" where
  "ex_kv = (open_cell (ex_id 1), open_cell ex_vc_code)"

definition ex_settle_env :: "(tdata, tcell, tdict) settle_env" where
  "ex_settle_env = \<lparr>seR = \<lparr>rvStorage = no_codec, rvProxySettle = no_codec, rvPriceProof = no_codec, rvCommit = no_codec,
     rvFromNano = (\<lambda>v _. Inr v), rvSigner = (\<lambda>_. None), rvWallet = (\<lambda>_. Inr [])\<rparr>, seProof = (\<lambda>m _. Inr (TCell [] [DictAsCell ton_dict m])), seAttach = 0\<rparr>"

lemma ex_vc_refs: "CellRefs (ton_cells ex_hash) ex_vc_code = [ex_code 6]"
proof -
  have "vc_cells ex_vc_env (\<lambda>b. b) (\<lambda>s. s) t_addr_bits" using ex_cond_cells by (simp add: cond_cells_def)
  from vc_cells.VC_cell_refs [OF this, of ex_vc ex_act_code] ex_vc_cond_ok ex_act_code ex_vc_stored(1) show ?thesis
    by (auto simp: ex_vc_env_def ton_vc_env_def)
qed

lemma ex_walk:
  obtains sg where "settle_conditionals ex_settle_svc ex_op ex_settle_env clk cid [ex_kv] ex_settling (OnDB ex_settle_db) = (Inr sg, OnDB ex_settle_db)"
    "sgResolved sg = 1" "sgUpdActs sg \<noteq> []"
proof -
  obtain st l where x: "VC_Execute ex_vc_env ex_vc (send_cell (ex_send 10)) (vstate_cell (ex_vstate 20)) (Some Map.empty) = Inr (st, l)"
    by (rule ex_executed [of 20 ex_vc]) (auto simp: coins_ok_def)
  define sg0 where "sg0 = ex_settling\<lparr>sgPending := 1\<rparr>"
  have s: "sgToSettle sg0 = []" "sgSender sg0 = None" "sgNum sg0 = 0" "sgConds sg0 = [(ex_id 1, ex_vc_code)]" "sgActs sg0 = [(ex_id 0, send_cell (ex_send 10))]"
    "sgUpdConds sg0 = [(ex_id 1, ex_vc_code)]" "sgUpdActs sg0 = [(ex_id 0, send_cell (ex_send 10))]" "sgResolved sg0 = 0"
    by (simp_all add: sg0_def ex_settling_def)
  have c: "MustToCell (ton_cells ex_hash) (open_cell c) = c" for c by (simp add: ton_cells_def close_open)
  have "\<exists>sg. settle_resolved ex_settle_svc (ex_id 1) (VCond ex_vc) (vstate_cell (ex_vstate 20)) sg0 = Inr (True, sg) \<and> sgUpdActs sg \<noteq> []
      \<and> sgNum sg = 1 \<and> sgResolved sg = 0"
    using x by (simp add: settle_resolved_def ex_aid s ton_dict_def c Let_def)
  then obtain sg where r: "settle_resolved ex_settle_svc (ex_id 1) (VCond ex_vc) (vstate_cell (ex_vstate 20)) sg0 = Inr (True, sg)"
    "sgUpdActs sg \<noteq> []" "sgNum sg = 1" "sgResolved sg = 0" by blast
  have n: "0 < RefsNum (ton_cells ex_hash) (open_cell ex_vc_code)"
    using ex_vc_refs by (simp add: ton_cells_def)
  have p: "ex_settling\<lparr>sgPending := sgPending ex_settling + 1\<rparr> = sg0" by (simp add: sg0_def ex_settling_def)
  have "settle_conditional ex_settle_svc ex_op ex_settle_env (clk 0) cid ex_kv ex_settling (OnDB ex_settle_db) =
      (Inr (sg\<lparr>sgResolved := 1\<rparr>), OnDB ex_settle_db)"
    using n r p c unfolding settle_conditional_def
    by (simp add: ex_kv_def ex_settle_input Let_def conditionsPerMessage_def)
  then show thesis by (intro that [of "sg\<lparr>sgResolved := 1\<rparr>"]) (use r(2) in simp_all)
qed

definition ex_settle_msg :: "(tdict, tcell) SettleSigned" where
  "ex_settle_msg = \<lparr>ssChannelID = [], ssExpectedSender = None, ssWalletSeqno = 0, ssToSettle = [(ex_id 1, vstate_cell (ex_vstate 20))],
     ssConditionalsProof = TCell [] [TCell [True] []], ssActionsInputProof = TCell [] [TCell [False] []]\<rparr>"

definition ex_settle_events :: "(tdata, tcell, tdict, mem, msnap) event_env" where
  "ex_settle_events = \<lparr>evSettled = \<lparr>LoadFromCell = (\<lambda>s. Inr (\<lparr>NewConditionalsHash = [], NewActionsHash = be_put 32 0\<rparr>, s)), ToCell = (\<lambda>_. Inr (TCell [] []))\<rparr>,
     evReplicate = no_codec, evAsDict = (\<lambda>c. if c = TCell [True] [] then sgConds ex_settling else sgActs ex_settling), evPush = None\<rparr>"

definition ex_settle_tx :: "tcell chain_tx" where
  "ex_settle_tx = \<lparr>txHash = [], txPrevTxHash = [], txLT = 7, txPrevTxLT = 0, txAt = 100, txSuccess = True,
     txIn = \<lparr>miType = MsgTypeExternalIn, miFrom = [], miTo = [], miMsgHash = [], miBody = ex_code 0\<rparr>,
     txOut = [\<lparr>miType = MsgTypeExternalOut, miFrom = [], miTo = [], miMsgHash = [], miBody = ex_code 0\<rparr>]\<rparr>"

definition ex_settle_channel :: "(tdict, tcell) Channel" where
  "ex_settle_channel = (ex_node_channel True)\<lparr>Their := set_action_state (sgUpdActs ex_settling) (Their (ex_node_channel True))\<rparr>"

lemma ex_keys_ok: "keys_ok ex_settle_svc (sgConds ex_settling) [ex_kv]"
proof -
  have "LoadSlice (ton_cells ex_hash) (open_cell (ex_id 1)) 256 = Inr (be_put 32 1, ([], []))"
    using bits_bytes_byte_bits [of "be_put 32 1" "[]"] by (simp add: ton_cells_def t_take_def ex_id_def)
  moreover have "id_cell (ton_cells ex_hash) (be_put 32 1) = Inr (ex_id 1)"
    by (simp add: id_cell_def ex_id_def ton_cells_def end_cell_def t_append_def cat_def close_cell_def)
  ultimately show ?thesis by (simp add: keys_ok_def ex_kv_def close_open ex_settling_def ton_dict_def) (simp add: ton_cells_def close_open)
qed


text \<open>Two virtual channels, over 20 and 5, each with a fee of 3: of 41 only 18 is kept.\<close>

definition ex_second :: ConditionalVirtualChannel where
  "ex_second = ex_vc\<lparr>vcKey := be_put 32 8\<rparr>"

definition ex_two :: "(tcell, tdict) settling" where
  "ex_two = ex_settling\<lparr>sgConds := [(ex_id 1, ex_vc_code), (ex_id 2, ex_vc_code)]\<rparr>"

lemma ex_settled:
  assumes "sgActs sg = [(ex_id 0, send_cell (ex_send 10))]" "map_of (sgConds sg) (ex_id n) \<noteq> None" "coins_ok v" "v \<le> 50"
    "vcCapacity c = 50" "vcFee c = 3" "vcPrepay c = 0" "vcAction c = ex_act"
  shows "\<exists>sg'. settle_resolved ex_settle_svc (ex_id n) (VCond c) (vstate_cell (ex_vstate v)) sg = Inr (True, sg') \<and>
    sgActs sg' = sgActs sg \<and> sgConds sg' = sgConds sg"
proof -
  obtain st l where "VC_Execute ex_vc_env c (send_cell (ex_send 10)) (vstate_cell (ex_vstate v)) (Some Map.empty) = Inr (st, l)"
    using ex_executed assms(3-8) by blast
  moreover have "MustToCell (ton_cells ex_hash) (open_cell c) = c" for c by (simp add: ton_cells_def close_open)
  ultimately show ?thesis using assms(1,2,8) by (auto simp: settle_resolved_def ex_aid ton_dict_def Let_def)
qed

theorem same_action_settled_alone_witness:
  "\<exists>sg1 sg2 st. settle_resolved ex_settle_svc (ex_id 1) (VCond ex_vc) (vstate_cell (ex_vstate 20)) ex_two = Inr (True, sg1) \<and>
     settle_resolved ex_settle_svc (ex_id 2) (VCond ex_second) (vstate_cell (ex_vstate 5)) sg1 = Inr (True, sg2) \<and>
     LoadValue ton_dict (sgUpdActs sg2) (ex_id 0) = Inr (open_cell st) \<and> LoadState (ton_cells ex_hash) ton_send st = Inr (ex_send 18)"
proof -
  have t: "sgActs ex_two = [(ex_id 0, send_cell (ex_send 10))]" "map_of (sgConds ex_two) (ex_id 1) \<noteq> None" "map_of (sgConds ex_two) (ex_id 2) \<noteq> None"
    by (simp_all add: ex_two_def ex_settling_def)
  obtain sg1 where s1: "settle_resolved ex_settle_svc (ex_id 1) (VCond ex_vc) (vstate_cell (ex_vstate 20)) ex_two = Inr (True, sg1)"
    "sgActs sg1 = sgActs ex_two" "sgConds sg1 = sgConds ex_two"
    using ex_settled [OF t(1,2), of 20 ex_vc] by (auto simp: coins_ok_def)
  obtain sg2 where s2: "settle_resolved ex_settle_svc (ex_id 2) (VCond ex_second) (vstate_cell (ex_vstate 5)) sg1 = Inr (True, sg2)"
    using ex_settled [of sg1 2 5 ex_second] t(1,3) s1(2,3) by (auto simp: coins_ok_def ex_second_def)
  have u: "(ex_send 10)\<lparr>sasAmount := 18\<rparr> = ex_send 18" by (simp add: ex_send_def)
  have n: "vc_need ex_second 5 = 8" by (simp add: vc_need_def ex_second_def Let_def)
  have c: "MustToCell (ton_cells ex_hash) (open_cell (send_cell (ex_send 10))) = send_cell (ex_send 10)" by (simp add: ton_cells_def close_open)
  have "\<exists>st. LoadValue (svD ex_settle_svc) (sgUpdActs sg2) (ex_id 0) = Inr (BeginParse (svCells ex_settle_svc) st) \<and>
      LoadState (svCells ex_settle_svc) (aeSend (svA ex_settle_svc)) st = Inr ((ex_send 10)\<lparr>sasAmount := sasAmount (ex_send 10) + vc_need ex_second (vsAmount (ex_vstate 5))\<rparr>)"
    by (rule same_action_settled_alone [OF _ _ s1(1) s2, where act = "open_cell (send_cell (ex_send 10))"])
      (use t(1) c n in \<open>simp_all add: ton_send_ok ton_send_load ex_aid coins_ok_def ex_second_def ton_dict_def update_conv, simp add: ton_cells_def\<close>)
  then have "\<exists>st. LoadValue ton_dict (sgUpdActs sg2) (ex_id 0) = Inr (open_cell st) \<and> LoadState (ton_cells ex_hash) ton_send st = Inr (ex_send 18)"
    by (simp add: n u) (simp add: ton_cells_def)
  with s1(1) s2 show ?thesis by blast
qed

definition ex_topup_op :: "(tdata, tdata, tcell, tdict) op_env" where
  "ex_topup_op = ex_op\<lparr>opX := (opX ex_op)\<lparr>xAccount := (\<lambda>_. Inr \<lparr>acBalance = 1000000000, acExtraCurrencies = [], acHasState = True,
     acIsActive = True, acCode = ex_code 0, acData = ex_code 0\<rparr>)\<rparr>\<rparr>"


end
