(* ===== verification/Spec2Isabelle.thy ===== *)
theory Spec2Isabelle
  imports Conditionals TaskProps ChannelLaws ChannelDB MetaLaws TransportLaws AgreementProps
    LockLaws SessionLaws ChainLaws SettlementLaws
begin

text \<open>
  This development models a TON payment network node: the off-chain payment channels of
  \<^verbatim>\<open>src/pkg/payments\<close> and the node around them in \<^verbatim>\<open>src/tonpayments\<close>.

  \<^bold>\<open>The program.\<close> Two peers keep a payment channel. Each side of a channel publishes a signed state
  with a sequence number and two dictionaries: the states of its \<^emph>\<open>actions\<close> (what it owes, to be sent
  on-chain when the channel is settled) and its \<^emph>\<open>conditionals\<close> (virtual channels and derivatives, which
  pay when a resolve is shown). The service proposes and verifies changes of those states, stores them
  with a queue of tasks in LevelDB, and reads prices from oracles to settle derivatives.

  \<^bold>\<open>Theories, by the code they model.\<close>
  \<^item> \<open>Prelude\<close>: Go errors and results, big-endian numbers, Euclidean and truncated division, words, time.
  \<^item> \<open>Balances\<close>: \<^verbatim>\<open>pkg/payments/types.go\<close>, \<^verbatim>\<open>fee.go\<close>: coins, balance identifiers, fees.
  \<^item> \<open>Cells\<close>, \<open>SendState\<close>, \<open>Actions\<close>, \<open>ActionLaws\<close>: \<^verbatim>\<open>pkg/payments/vm/ops.go\<close>, \<^verbatim>\<open>actions.go\<close> and
    \<^verbatim>\<open>actions/\<close>: the TVM push operations, the six send actions and their recognition in a code cell.
  \<^item> \<open>CellInstance\<close>, \<open>Samples\<close>: a concrete cell and dictionary library with the laws the model assumes of
    the TON library, and the sample values of the witnesses.
  \<^item> \<open>ConditionalLock\<close>, \<open>VirtualChannel\<close>, \<open>VCLaws\<close>: \<^verbatim>\<open>conditionals/channel.go\<close>.
  \<^item> \<open>Oracle\<close>: \<^verbatim>\<open>conditionals/oracle/price.go\<close>, the ring buffer of the last 120 seconds.
  \<^item> \<open>Resolvable\<close>, \<open>RSLaws\<close>: \<^verbatim>\<open>conditionals/resolvable.go\<close>, the derivative. \<open>Conditionals\<close>: the
    \<^verbatim>\<open>Conditional\<close> interface over both kinds and \<^verbatim>\<open>tonpayments/conditional_settlement.go\<close>.
  \<^item> \<open>Store\<close>: \<^verbatim>\<open>db/leveldb/db.go\<close>, executors and transactions over LevelDB as a parameter.
  \<^item> \<open>Tasks\<close>, \<open>TaskLaws\<close>, \<open>TaskProps\<close>: \<^verbatim>\<open>db/task.go\<close>, the task queue.
  \<^item> \<open>ChannelTypes\<close>, \<open>ChannelLaws\<close>: \<^verbatim>\<open>db/types.go\<close>, channel data, balances, capacity fees.
    \<open>ChannelDB\<close>: \<^verbatim>\<open>db/channel.go\<close>, \<^verbatim>\<open>db/block.go\<close>. \<open>MetaDB\<close>, \<open>MetaLaws\<close>: \<^verbatim>\<open>db/virtual-channel.go\<close>.
  \<^item> \<open>Transport\<close>, \<open>TransportLaws\<close>: \<^verbatim>\<open>transport/types.go\<close>, onion instructions and tunnels.
  \<^item> \<open>DerivMonitor\<close>: \<^verbatim>\<open>derivatives_worker.go\<close>, \<^verbatim>\<open>derivatives_meta.go\<close>. \<open>Service\<close>: the service record,
    coin and action resolution, linked derivatives.
\<close>

section \<open>Round trips\<close>



text \<open>An integer of at most 256 bits that \<open>PushIntOP\<close> compiles into TVM code is read back by
  \<open>ReadIntOP\<close>, which leaves exactly the rest of the code.\<close>

lemma push_int_roundtrip:
  assumes "cell_library L bview sview addr_bits" "\<bar>v\<bar> < 2 ^ 256"
  shows "\<exists>b. PushIntOP L v = Inr b \<and> (\<forall>s bs rs. sview s = (fst (bview b) @ bs, rs) \<longrightarrow>
    (\<exists>s'. ReadIntOP L s = Inr (v, s') \<and> sview s' = (bs, rs)))"
proof -
  have v: "BitLen v \<le> 256" using assms(2) by (simp add: BitLen_le_iff)
  obtain b where b: "PushIntOP L v = Inr b" "bview b = (push_bits v, [])"
    using cell_library.made_push_int [OF assms(1) v] unfolding cell_library.made_def [OF assms(1)] by blast
  have "\<exists>s'. ReadIntOP L s = Inr (v, s') \<and> sview s' = (bs, rs)" if "sview s = (push_bits v @ bs, rs)" for s bs rs
    using cell_library.rds_push_int [OF assms(1) v] that unfolding cell_library.rds_def [OF assms(1)]
    by (auto simp: cat_def)
  with b show ?thesis by auto
qed

text \<open>Balance identifiers are invertible: the jetton root and the extra currency are recovered from
  the identifier, and anything but 32 hex-encoded bytes panics.\<close>

lemma balance_id_roundtrip:
  "GetECFromBalanceID (GetECBalanceID i) = Inr i \<and>
   (length a = 32 \<longrightarrow> GetJettonFromBalanceID (GetJettonBalanceID (Some a)) = Inr a) \<and>
   (hex_decode s = None \<longrightarrow> GetJettonFromBalanceID s = Inl (Panic (''corrupted balance id: '' @ s)))"
  using GetEC_roundtrip GetJetton_roundtrip by (auto simp: GetJettonFromBalanceID_def)

section \<open>Fees\<close>

text \<open>\<open>CalcPercentFeeCeil\<close> is the exact ceiling of \<open>amount * percent / 100\<close> for a positive amount and
  a positive finite percentage, and zero in every other case (nil or non-positive amount, NaN, infinity).\<close>

lemma percent_fee_exact:
  "CalcPercentFeeCeil amount percent = (case (amount, percent) of
     (Some a, F64 p) \<Rightarrow> if 0 < a \<and> 0 < p then \<lceil>of_int a * p / 100\<rceil> else 0 | _ \<Rightarrow> 0)"
  by (cases amount; cases percent) (simp_all add: CalcPercentFeeCeil_eq, simp_all add: CalcPercentFeeCeil_def)

end
